(* ===== verification/Prelude.thy ===== *)
theory Prelude
  imports Main "HOL-Library.Word"
begin

text \<open>
  Shared vocabulary of the development: bytes and byte arrays as the code has them
  (\<open>QByteArray\<close> is a list of 8-bit words), the slicing operations of \<open>QByteArray\<close>,
  big- and little-endian conversions (\<open>qFromBigEndian\<close>, \<open>qToBigEndian\<close>,
  \<open>qFromLittleEndian\<close>), the enum helper of src/src/global/EnumHelper.h, and two generic
  interfaces as locales: a typed enum with its underlying value (\<open>enum_type\<close>) and a
  deterministic machine with an invariant (\<open>machine\<close>).
\<close>

unbundle bit_operations_syntax

section \<open>Bytes\<close>

type_synonym byte = "8 word"
type_synonym bytes = "byte list"

named_theorems byte_simps "reading and writing of byte sequences"

text \<open>
  \<open>QByteArray::mid(pos, len)\<close>, \<open>left\<close> and \<open>right\<close>. All three clip at the end
  of the array, exactly as \<open>take\<close> and \<open>drop\<close> do.
\<close>

definition mid :: "nat \<Rightarrow> nat \<Rightarrow> 'a list \<Rightarrow> 'a list" where
  "mid pos len xs = take len (drop pos xs)"

definition right :: "nat \<Rightarrow> 'a list \<Rightarrow> 'a list" where
  "right n xs = drop (length xs - n) xs"

text \<open>A byte from the low eight bits of an integer, as \<open>static_cast<char>(n & 0xff)\<close>.\<close>

definition low_byte :: "nat \<Rightarrow> byte" where
  "low_byte n = word_of_nat n"

definition high_byte :: "nat \<Rightarrow> byte" where
  "high_byte n = word_of_nat (n div 256)"

definition be16 :: "nat \<Rightarrow> bytes" where
  "be16 n = [high_byte n, low_byte n]"

definition le16 :: "nat \<Rightarrow> bytes" where
  "le16 n = [low_byte n, high_byte n]"

definition be32 :: "nat \<Rightarrow> bytes" where
  "be32 n = [word_of_nat (n div 16777216), word_of_nat (n div 65536),
             word_of_nat (n div 256), word_of_nat n]"

definition le32 :: "nat \<Rightarrow> bytes" where
  "le32 n = rev (be32 n)"

text \<open>The value of a big-endian byte sequence (most significant byte first).\<close>

definition from_be :: "bytes \<Rightarrow> nat" where
  "from_be bs = foldl (\<lambda>acc b. 256 * acc + unat b) 0 bs"

definition from_le :: "bytes \<Rightarrow> nat" where
  "from_le bs = from_be (rev bs)"

section \<open>Slicing lemmas\<close>

lemma length_mid [simp]: "length (mid pos len xs) = min len (length xs - pos)"
  by (simp add: mid_def)

lemma mid_append_skip [simp]: "mid (length xs) len (xs @ ys) = take len ys"
  by (simp add: mid_def)

lemma mid_all_after: "length xs \<le> pos \<Longrightarrow> mid pos len xs = []"
  by (simp add: mid_def)

lemma right_append [simp]: "length ys = n \<Longrightarrow> right n (xs @ ys) = ys"
  by (simp add: right_def)

lemma right_all: "length xs \<le> n \<Longrightarrow> right n xs = xs"
  by (simp add: right_def)

lemma length_right [simp]: "length (right n xs) = min n (length xs)"
  by (auto simp: right_def)

lemma take_right: "take (length xs - n) xs @ right n xs = xs"
  by (simp add: right_def)

section \<open>Endianness\<close>

lemma unat_low_byte [simp]: "unat (low_byte n) = n mod 256"
  by (simp add: low_byte_def unat_of_nat)

lemma unat_high_byte [simp]: "unat (high_byte n) = (n div 256) mod 256"
  by (simp add: high_byte_def unat_of_nat)

lemma low_byte_0_iff: "low_byte n = 0 \<longleftrightarrow> n mod 256 = 0"
  by (metis unat_low_byte unat_eq_zero)

lemma length_be16 [simp]: "length (be16 n) = 2"
  by (simp add: be16_def)

lemma be16_not_Nil [simp]: "be16 n \<noteq> []"
  by (simp add: be16_def)

lemma length_le16 [simp]: "length (le16 n) = 2"
  by (simp add: le16_def)

lemma length_be32 [simp]: "length (be32 n) = 4"
  by (simp add: be32_def)

lemma length_le32 [simp]: "length (le32 n) = 4"
  by (simp add: le32_def)

lemma from_be_Nil [simp]: "from_be [] = 0"
  by (simp add: from_be_def)

lemma from_be_snoc [simp]: "from_be (bs @ [b]) = 256 * from_be bs + unat b"
  by (simp add: from_be_def)

lemma from_be_1 [simp]: "from_be [a] = unat a"
  by (simp add: from_be_def)

lemma from_be_2 [simp]: "from_be [a, b] = 256 * unat a + unat b"
  by (simp add: from_be_def)

lemma from_be_4 [simp]:
  "from_be [a, b, c, d] = 16777216 * unat a + 65536 * unat b + 256 * unat c + unat d"
  by (simp add: from_be_def)

lemma unat_byte_less [simp]: "unat (b :: byte) < 256"
  using unsigned_less [of b, where ?'a = nat] by simp

lemma from_be_less: "from_be bs < 256 ^ length bs"
proof (induction bs rule: rev_induct)
  case Nil
  then show ?case by simp
next
  case (snoc b bs)
  have "unat b < 256" by simp
  then have "256 * from_be bs + unat b < 256 * (from_be bs + 1)" by simp
  also have "\<dots> \<le> 256 * 256 ^ length bs"
    using snoc.IH by (intro mult_le_mono2) simp
  finally show ?case by simp
qed

lemma from_be_be16_mod: "from_be (be16 n) = n mod 65536"
  using mod_mult2_eq [of n 256 256] by (simp add: be16_def)

lemma from_be_pair: "from_be [high_byte n, low_byte n] = n mod 65536"
  using from_be_be16_mod [of n] by (simp only: be16_def)

lemma from_be_be16 [byte_simps]: "n < 65536 \<Longrightarrow> from_be (be16 n) = n"
  by (simp add: from_be_be16_mod)

lemma from_le_le16 [byte_simps]: "n < 65536 \<Longrightarrow> from_le (le16 n) = n"
  using from_be_be16 [of n] by (simp add: from_le_def le16_def be16_def)

lemma from_be_be32 [byte_simps]:
  assumes "n < 4294967296"
  shows "from_be (be32 n) = n"
proof -
  have "from_be (be32 n) =
      16777216 * (n div 16777216 mod 256) + 65536 * (n div 65536 mod 256)
      + 256 * (n div 256 mod 256) + n mod 256"
    by (simp add: be32_def unat_of_nat)
  moreover have "n div 16777216 mod 256 = n div 16777216"
    using assms by simp
  moreover have "n div 65536 = 256 * (n div 16777216) + n div 65536 mod 256"
    using div_mult_mod_eq [of "n div 65536" 256] by (simp add: div_mult2_eq [symmetric])
  moreover have "n div 256 = 256 * (n div 65536) + n div 256 mod 256"
    using div_mult_mod_eq [of "n div 256" 256] by (simp add: div_mult2_eq [symmetric])
  moreover have "n = 256 * (n div 256) + n mod 256"
    by simp
  ultimately show ?thesis by linarith
qed

lemma from_le_le32 [byte_simps]: "n < 4294967296 \<Longrightarrow> from_le (le32 n) = n"
  by (simp add: from_le_def le32_def from_be_be32)

section \<open>Typed enums\<close>

text \<open>
  \<open>Enum<T>\<close> in src/src/global/EnumHelper.h: the list of the enumerators, the underlying
  value of one, whether an integer is the value of some enumerator, and the enumerator with
  that value.
\<close>

definition enum_isValue :: "('e \<Rightarrow> 'v) \<Rightarrow> 'e list \<Rightarrow> 'v \<Rightarrow> bool" where
  "enum_isValue val es v = list_ex (\<lambda>e. val e = v) es"

definition enum_ofValue :: "('e \<Rightarrow> 'v) \<Rightarrow> 'e list \<Rightarrow> 'v \<Rightarrow> 'e option" where
  "enum_ofValue val es v = find (\<lambda>e. val e = v) es"

locale enum_type =
  fixes val :: "'e \<Rightarrow> 'v"
    and es :: "'e list"
  assumes es_complete: "e \<in> set es"
    and val_distinct: "distinct (map val es)"
begin

lemma val_inject: "val a = val b \<longleftrightarrow> a = b"
proof
  assume eq: "val a = val b"
  have "inj_on val (set es)"
    using val_distinct by (simp add: distinct_map)
  with eq show "a = b"
    using es_complete by (simp add: inj_on_eq_iff)
qed simp

lemma ofValue_val [simp]: "enum_ofValue val es (val e) = Some e"
proof -
  obtain x where x: "enum_ofValue val es (val e) = Some x"
    using es_complete [of e]
    by (cases "enum_ofValue val es (val e)") (auto simp: enum_ofValue_def find_None_iff)
  then have "val x = val e"
    by (auto simp: enum_ofValue_def find_Some_iff)
  with x show ?thesis by (simp add: val_inject)
qed

lemma ofValue_Some_iff: "enum_ofValue val es v = Some e \<longleftrightarrow> v = val e"
proof
  assume "enum_ofValue val es v = Some e"
  then show "v = val e" by (auto simp: enum_ofValue_def find_Some_iff)
next
  assume "v = val e"
  then show "enum_ofValue val es v = Some e" by simp
qed

lemma isValue_iff: "enum_isValue val es v \<longleftrightarrow> (\<exists>e. v = val e)"
  using es_complete by (auto simp: enum_isValue_def list_ex_iff)

lemma isValue_ofValue: "enum_isValue val es v \<longleftrightarrow> enum_ofValue val es v \<noteq> None"
  using ofValue_Some_iff by (metis isValue_iff not_Some_eq)

end

section \<open>Machines with an invariant\<close>

text \<open>
  A deterministic machine over a state and an event type, and the run over a list of events.
  Once each step keeps the invariant, every run does.
\<close>

definition run :: "('s \<Rightarrow> 'e \<Rightarrow> 's) \<Rightarrow> 's \<Rightarrow> 'e list \<Rightarrow> 's" where
  "run step s evs = foldl step s evs"

lemma run_Nil [simp]: "run step s [] = s"
  by (simp add: run_def)

lemma run_Cons [simp]: "run step s (e # evs) = run step (step s e) evs"
  by (simp add: run_def)

lemma run_append [simp]: "run step s (xs @ ys) = run step (run step s xs) ys"
  by (simp add: run_def)

locale machine =
  fixes step :: "'s \<Rightarrow> 'e \<Rightarrow> 's"
    and inv :: "'s \<Rightarrow> bool"
  assumes step_inv: "inv s \<Longrightarrow> inv (step s e)"
begin

lemma run_inv: "inv s \<Longrightarrow> inv (run step s evs)"
  by (induction evs arbitrary: s) (simp_all add: step_inv)

lemma run_prefix_inv: "inv s \<Longrightarrow> inv (run step s (take n evs))"
  by (rule run_inv)

end

end
