(* ===== verification/Apdu.thy ===== *)
theory Apdu
  imports Prelude
begin

text \<open>
  Command and response APDUs: src/src/card/base/Apdu.cpp, CommandApdu.cpp and
  ResponseApdu.cpp. An APDU object holds nothing but its buffer, so it is the byte list.
  \<open>pLe\<close> is the code's signed \<open>int\<close>.
\<close>

section \<open>Command APDUs\<close>

definition isExtendedLengthBuffer :: "bytes \<Rightarrow> bool" where
  "isExtendedLengthBuffer buf \<longleftrightarrow> 5 < length buf \<and> buf ! 4 = 0"

definition isExtendedLength :: "bytes \<Rightarrow> int \<Rightarrow> bool" where
  "isExtendedLength pData pLe \<longleftrightarrow> 255 < length pData \<or> 256 < pLe"

definition isSecureMessaging :: "bytes \<Rightarrow> bool" where
  "isSecureMessaging buf \<longleftrightarrow> buf \<noteq> [] \<and> (buf ! 0) AND 0x0F = 0x0C"

definition CommandApdu :: "byte \<Rightarrow> byte \<Rightarrow> byte \<Rightarrow> byte \<Rightarrow> bytes \<Rightarrow> int \<Rightarrow> bytes" where
  "CommandApdu pCla pIns pP1 pP2 pData pLe =
    (if 0xffff < length pData then []
     else if 0x10000 < pLe then []
     else
       [pCla, pIns, pP1, pP2] @
       (if 0 < length pData then
          (if isExtendedLength pData pLe
           then [0, high_byte (length pData), low_byte (length pData)]
           else [low_byte (length pData)]) @ pData
        else []) @
       (if 0 < pLe then
          (if isExtendedLength pData pLe
           then (if pData = [] then [0] else []) @ [high_byte (nat pLe)]
           else []) @ [low_byte (nat pLe)]
        else []))"

definition getCLA :: "bytes \<Rightarrow> byte" where
  "getCLA buf = (if 0 < length buf then buf ! 0 else 0)"

definition getINS :: "bytes \<Rightarrow> byte" where
  "getINS buf = (if 1 < length buf then buf ! 1 else 0)"

definition getP1 :: "bytes \<Rightarrow> byte" where
  "getP1 buf = (if 2 < length buf then buf ! 2 else 0)"

definition getP2 :: "bytes \<Rightarrow> byte" where
  "getP2 buf = (if 3 < length buf then buf ! 3 else 0)"

text \<open>\<open>readLength\<close>: a big-endian 16-bit value; every caller has checked the bounds.\<close>

definition readLength :: "bytes \<Rightarrow> nat \<Rightarrow> nat" where
  "readLength pByteArray pOffset = from_be (mid pOffset 2 pByteArray)"

definition getLc :: "bytes \<Rightarrow> nat" where
  "getLc buf =
    (if length buf \<le> 5 then 0
     else if \<not> isExtendedLengthBuffer buf then unat (buf ! 4)
     else if length buf \<le> 6 then 0
     else readLength buf 5)"

definition getLe :: "bytes \<Rightarrow> nat" where
  "getLe buf =
    (let lc = getLc buf in
     if isExtendedLengthBuffer buf then
       (let offset = (if lc = 0 then 5 else 7 + lc) in
        if length buf < offset + 2 then 0
        else (let le = readLength buf offset in if le = 0 then 0x10000 else le))
     else
       (let offset = (if lc = 0 then 4 else 5 + lc) in
        if length buf < offset + 1 then 0
        else (let le = unat (buf ! offset) in if le = 0 then 0x100 else le)))"

definition getData :: "bytes \<Rightarrow> bytes" where
  "getData buf =
    (let lc = getLc buf in
     if lc = 0 then []
     else if isExtendedLengthBuffer buf then mid 7 lc buf
     else mid 5 lc buf)"

text \<open>The command of a four-byte header, as the three-argument constructor.\<close>

definition CommandApduOfHeader :: "bytes \<Rightarrow> bytes \<Rightarrow> int \<Rightarrow> bytes" where
  "CommandApduOfHeader pHeader pData pLe =
     CommandApdu (pHeader ! 0) (pHeader ! 1) (pHeader ! 2) (pHeader ! 3) pData pLe"

section \<open>Response APDUs\<close>

text \<open>
  \<open>NOT_YET_INITIALIZED\<close> has the value of \<open>NO_PARENT_FILE\<close> in the code, hence is the
  same enumerator; it has no constructor of its own.
\<close>

datatype StatusCode =
    SC_EMPTY | SC_INVALID | SC_SUCCESS | SC_NO_PKCS15_APP | SC_END_OF_FILE
  | SC_PIN_DEACTIVATED | SC_FCI_NO_ISO7816_4 | SC_VERIFICATION_FAILED | SC_INPUT_TIMEOUT
  | SC_INPUT_CANCELLED | SC_PASSWORDS_DIFFER | SC_PASSWORD_OUTOF_RANGE
  | SC_CARD_EJECTED_AND_REINSERTED | SC_EEPROM_CELL_DEFECT | SC_SECURITY_ENVIRONMENT
  | SC_WRONG_LENGTH | SC_NO_BINARY_FILE | SC_LAST_CHAIN_CMD_EXPECTED | SC_ACCESS_DENIED
  | SC_PASSWORD_COUNTER_EXPIRED | SC_DIRECTORY_OR_PASSWORD_LOCKED_OR_NOT_ALLOWED
  | SC_NO_PARENT_FILE | SC_NO_CURRENT_DIRECTORY_SELECTED | SC_DATAFIELD_EXPECTED
  | SC_INVALID_SM_OBJECTS | SC_COMMAND_NOT_ALLOWED | SC_INVALID_DATAFIELD | SC_ALGORITHM_ID
  | SC_FILE_NOT_FOUND | SC_RECORD_NOT_FOUND | SC_INVALID_PARAMETER | SC_LC_INCONSISTANT
  | SC_PASSWORD_NOT_FOUND | SC_ILLEGAL_OFFSET | SC_UNSUPPORTED_CLA | SC_CANT_DISPLAY
  | SC_INVALID_P1P2 | SC_UNSUPPORTED_INS | SC_PIN_BLOCKED | SC_PIN_SUSPENDED
  | SC_PIN_RETRY_COUNT_2

fun statusValue :: "StatusCode \<Rightarrow> nat" where
  "statusValue SC_EMPTY = 0x0000"
| "statusValue SC_INVALID = 0x0001"
| "statusValue SC_SUCCESS = 0x9000"
| "statusValue SC_NO_PKCS15_APP = 0x6200"
| "statusValue SC_END_OF_FILE = 0x6282"
| "statusValue SC_PIN_DEACTIVATED = 0x6283"
| "statusValue SC_FCI_NO_ISO7816_4 = 0x6284"
| "statusValue SC_VERIFICATION_FAILED = 0x6300"
| "statusValue SC_INPUT_TIMEOUT = 0x6400"
| "statusValue SC_INPUT_CANCELLED = 0x6401"
| "statusValue SC_PASSWORDS_DIFFER = 0x6402"
| "statusValue SC_PASSWORD_OUTOF_RANGE = 0x6403"
| "statusValue SC_CARD_EJECTED_AND_REINSERTED = 0x64a2"
| "statusValue SC_EEPROM_CELL_DEFECT = 0x6581"
| "statusValue SC_SECURITY_ENVIRONMENT = 0x6600"
| "statusValue SC_WRONG_LENGTH = 0x6700"
| "statusValue SC_NO_BINARY_FILE = 0x6981"
| "statusValue SC_LAST_CHAIN_CMD_EXPECTED = 0x6883"
| "statusValue SC_ACCESS_DENIED = 0x6982"
| "statusValue SC_PASSWORD_COUNTER_EXPIRED = 0x6983"
| "statusValue SC_DIRECTORY_OR_PASSWORD_LOCKED_OR_NOT_ALLOWED = 0x6984"
| "statusValue SC_NO_PARENT_FILE = 0x6985"
| "statusValue SC_NO_CURRENT_DIRECTORY_SELECTED = 0x6986"
| "statusValue SC_DATAFIELD_EXPECTED = 0x6987"
| "statusValue SC_INVALID_SM_OBJECTS = 0x6988"
| "statusValue SC_COMMAND_NOT_ALLOWED = 0x69f0"
| "statusValue SC_INVALID_DATAFIELD = 0x6a80"
| "statusValue SC_ALGORITHM_ID = 0x6a81"
| "statusValue SC_FILE_NOT_FOUND = 0x6a82"
| "statusValue SC_RECORD_NOT_FOUND = 0x6a83"
| "statusValue SC_INVALID_PARAMETER = 0x6a86"
| "statusValue SC_LC_INCONSISTANT = 0x6a87"
| "statusValue SC_PASSWORD_NOT_FOUND = 0x6a88"
| "statusValue SC_ILLEGAL_OFFSET = 0x6b00"
| "statusValue SC_UNSUPPORTED_CLA = 0x6e00"
| "statusValue SC_CANT_DISPLAY = 0x6410"
| "statusValue SC_INVALID_P1P2 = 0x6a00"
| "statusValue SC_UNSUPPORTED_INS = 0x6d00"
| "statusValue SC_PIN_BLOCKED = 0x63c0"
| "statusValue SC_PIN_SUSPENDED = 0x63c1"
| "statusValue SC_PIN_RETRY_COUNT_2 = 0x63c2"

definition StatusCode_list :: "StatusCode list" where
  "StatusCode_list =
    [SC_EMPTY, SC_INVALID, SC_SUCCESS, SC_NO_PKCS15_APP, SC_END_OF_FILE,
     SC_PIN_DEACTIVATED, SC_FCI_NO_ISO7816_4, SC_VERIFICATION_FAILED, SC_INPUT_TIMEOUT,
     SC_INPUT_CANCELLED, SC_PASSWORDS_DIFFER, SC_PASSWORD_OUTOF_RANGE,
     SC_CARD_EJECTED_AND_REINSERTED, SC_EEPROM_CELL_DEFECT, SC_SECURITY_ENVIRONMENT,
     SC_WRONG_LENGTH, SC_NO_BINARY_FILE, SC_LAST_CHAIN_CMD_EXPECTED, SC_ACCESS_DENIED,
     SC_PASSWORD_COUNTER_EXPIRED, SC_DIRECTORY_OR_PASSWORD_LOCKED_OR_NOT_ALLOWED,
     SC_NO_PARENT_FILE, SC_NO_CURRENT_DIRECTORY_SELECTED, SC_DATAFIELD_EXPECTED,
     SC_INVALID_SM_OBJECTS, SC_COMMAND_NOT_ALLOWED, SC_INVALID_DATAFIELD, SC_ALGORITHM_ID,
     SC_FILE_NOT_FOUND, SC_RECORD_NOT_FOUND, SC_INVALID_PARAMETER, SC_LC_INCONSISTANT,
     SC_PASSWORD_NOT_FOUND, SC_ILLEGAL_OFFSET, SC_UNSUPPORTED_CLA, SC_CANT_DISPLAY,
     SC_INVALID_P1P2, SC_UNSUPPORTED_INS, SC_PIN_BLOCKED, SC_PIN_SUSPENDED,
     SC_PIN_RETRY_COUNT_2]"

interpretation status: enum_type statusValue StatusCode_list
proof
  fix e :: StatusCode
  show "e \<in> set StatusCode_list"
    by (cases e) (simp_all add: StatusCode_list_def)
  show "distinct (map statusValue StatusCode_list)"
    by (simp add: StatusCode_list_def)
qed

definition statusOf :: "nat \<Rightarrow> StatusCode" where
  "statusOf v = (case enum_ofValue statusValue StatusCode_list v of
                   Some s \<Rightarrow> s | None \<Rightarrow> SC_INVALID)"

datatype SW1 =
    SW1_INVALID | SW1_MORE_DATA_AVAILABLE | SW1_NONVOLATILE_MEMORY_UNCHANGED_1
  | SW1_NONVOLATILE_MEMORY_CHANGED_1 | SW1_NONVOLATILE_MEMORY_UNCHANGED_2
  | SW1_NONVOLATILE_MEMORY_CHANGED_2 | SW1_SECURITY_ISSUE | SW1_WRONG_LENGTH
  | SW1_FUNCTIONS_IN_CLASS_NOT_SUPPORTED | SW1_ERROR_COMMAND_NOT_ALLOWED
  | SW1_WRONG_PARAMETERS_P1_P2 | SW1_WRONG_PARAMETERS_P1_P2_NO_INFO | SW1_WRONG_LE_FIELD
  | SW1_INSTRUCTION_CODE_INVALID | SW1_CLASS_NOT_SUPPORTED | SW1_NO_PRECISE_DIAGNOSIS
  | SW1_SUCCESS

fun sw1Value :: "SW1 \<Rightarrow> byte" where
  "sw1Value SW1_INVALID = 0x00"
| "sw1Value SW1_MORE_DATA_AVAILABLE = 0x61"
| "sw1Value SW1_NONVOLATILE_MEMORY_UNCHANGED_1 = 0x62"
| "sw1Value SW1_NONVOLATILE_MEMORY_CHANGED_1 = 0x63"
| "sw1Value SW1_NONVOLATILE_MEMORY_UNCHANGED_2 = 0x64"
| "sw1Value SW1_NONVOLATILE_MEMORY_CHANGED_2 = 0x65"
| "sw1Value SW1_SECURITY_ISSUE = 0x66"
| "sw1Value SW1_WRONG_LENGTH = 0x67"
| "sw1Value SW1_FUNCTIONS_IN_CLASS_NOT_SUPPORTED = 0x68"
| "sw1Value SW1_ERROR_COMMAND_NOT_ALLOWED = 0x69"
| "sw1Value SW1_WRONG_PARAMETERS_P1_P2 = 0x6a"
| "sw1Value SW1_WRONG_PARAMETERS_P1_P2_NO_INFO = 0x6b"
| "sw1Value SW1_WRONG_LE_FIELD = 0x6c"
| "sw1Value SW1_INSTRUCTION_CODE_INVALID = 0x6d"
| "sw1Value SW1_CLASS_NOT_SUPPORTED = 0x6e"
| "sw1Value SW1_NO_PRECISE_DIAGNOSIS = 0x6f"
| "sw1Value SW1_SUCCESS = 0x90"

definition SW1_list :: "SW1 list" where
  "SW1_list =
    [SW1_INVALID, SW1_MORE_DATA_AVAILABLE, SW1_NONVOLATILE_MEMORY_UNCHANGED_1,
     SW1_NONVOLATILE_MEMORY_CHANGED_1, SW1_NONVOLATILE_MEMORY_UNCHANGED_2,
     SW1_NONVOLATILE_MEMORY_CHANGED_2, SW1_SECURITY_ISSUE, SW1_WRONG_LENGTH,
     SW1_FUNCTIONS_IN_CLASS_NOT_SUPPORTED, SW1_ERROR_COMMAND_NOT_ALLOWED,
     SW1_WRONG_PARAMETERS_P1_P2, SW1_WRONG_PARAMETERS_P1_P2_NO_INFO, SW1_WRONG_LE_FIELD,
     SW1_INSTRUCTION_CODE_INVALID, SW1_CLASS_NOT_SUPPORTED, SW1_NO_PRECISE_DIAGNOSIS,
     SW1_SUCCESS]"

interpretation sw1: enum_type sw1Value SW1_list
proof
  fix e :: SW1
  show "e \<in> set SW1_list"
    by (cases e) (simp_all add: SW1_list_def)
  show "distinct (map sw1Value SW1_list)"
    by (simp add: SW1_list_def)
qed

text \<open>The response with nothing but a status word.\<close>

definition ResponseApduOfStatus :: "StatusCode \<Rightarrow> bytes" where
  "ResponseApduOfStatus s = be16 (statusValue s)"

definition getDataLength :: "bytes \<Rightarrow> int" where
  "getDataLength buf = int (length buf) - 2"

definition responseData :: "bytes \<Rightarrow> bytes" where
  "responseData buf = (if length buf < 2 then [] else take (nat (getDataLength buf)) buf)"

text \<open>
  The hexadecimal text of the last two bytes is read back as a number, i.e. its big-endian
  value. A one-byte buffer gives the value of that byte.
\<close>

definition getReturnCode :: "bytes \<Rightarrow> StatusCode" where
  "getReturnCode buf =
    (if buf = [] then SC_EMPTY else statusOf (from_be (right 2 buf)))"

definition responseRetryCounter :: "bytes \<Rightarrow> int" where
  "responseRetryCounter buf =
    (let statusCode = getReturnCode buf in
     if statusCode = SC_SUCCESS then 3
     else if statusCode = SC_PIN_RETRY_COUNT_2 then 2
     else if statusCode = SC_PIN_SUSPENDED then 1
     else if statusCode = SC_PIN_BLOCKED \<or> statusCode = SC_PIN_DEACTIVATED then 0
     else -1)"

definition getSW1 :: "bytes \<Rightarrow> SW1" where
  "getSW1 buf =
    (if length buf < 2 then SW1_INVALID
     else (case enum_ofValue sw1Value SW1_list (buf ! (length buf - 2)) of
             None \<Rightarrow> SW1_INVALID | Some s \<Rightarrow> s))"

definition getSW2 :: "bytes \<Rightarrow> byte" where
  "getSW2 buf = (if length buf < 1 then 0 else buf ! (length buf - 1))"

section \<open>Properties of command APDUs\<close>

lemmas command_defs =
  CommandApdu_def isExtendedLength_def isExtendedLengthBuffer_def getLc_def getLe_def
  getData_def readLength_def

lemma getCLA_CommandApdu [simp]:
  "length d \<le> 0xffff \<Longrightarrow> le \<le> 0x10000 \<Longrightarrow> getCLA (CommandApdu c i p1 p2 d le) = c"
  by (simp add: CommandApdu_def getCLA_def)

lemma getINS_CommandApdu [simp]:
  "length d \<le> 0xffff \<Longrightarrow> le \<le> 0x10000 \<Longrightarrow> getINS (CommandApdu c i p1 p2 d le) = i"
  by (simp add: CommandApdu_def getINS_def)

lemma getP1_CommandApdu [simp]:
  "length d \<le> 0xffff \<Longrightarrow> le \<le> 0x10000 \<Longrightarrow> getP1 (CommandApdu c i p1 p2 d le) = p1"
  by (simp add: CommandApdu_def getP1_def)

lemma getP2_CommandApdu [simp]:
  "length d \<le> 0xffff \<Longrightarrow> le \<le> 0x10000 \<Longrightarrow> getP2 (CommandApdu c i p1 p2 d le) = p2"
  by (simp add: CommandApdu_def getP2_def)

lemma CommandApdu_header_only:
  "le \<le> 0 \<Longrightarrow> CommandApdu c i p1 p2 [] le = [c, i, p1, p2]"
  by (simp add: CommandApdu_def)

lemma CommandApdu_short_le:
  "0 < le \<Longrightarrow> le \<le> 256 \<Longrightarrow>
   CommandApdu c i p1 p2 [] le = [c, i, p1, p2, low_byte (nat le)]"
  by (simp add: CommandApdu_def isExtendedLength_def)

lemma CommandApdu_extended_le:
  "256 < le \<Longrightarrow> le \<le> 0x10000 \<Longrightarrow>
   CommandApdu c i p1 p2 [] le = [c, i, p1, p2, 0, high_byte (nat le), low_byte (nat le)]"
  by (simp add: CommandApdu_def isExtendedLength_def)

lemma CommandApdu_short_data:
  "d \<noteq> [] \<Longrightarrow> length d \<le> 255 \<Longrightarrow> le \<le> 256 \<Longrightarrow>
   CommandApdu c i p1 p2 d le =
     [c, i, p1, p2, low_byte (length d)] @ d @ (if 0 < le then [low_byte (nat le)] else [])"
  by (simp add: CommandApdu_def isExtendedLength_def)

lemma CommandApdu_extended_data:
  "d \<noteq> [] \<Longrightarrow> length d \<le> 0xffff \<Longrightarrow> le \<le> 0x10000 \<Longrightarrow> isExtendedLength d le \<Longrightarrow>
   CommandApdu c i p1 p2 d le =
     [c, i, p1, p2, 0, high_byte (length d), low_byte (length d)] @ d @
     (if 0 < le then [high_byte (nat le), low_byte (nat le)] else [])"
  by (simp add: CommandApdu_def)

lemma getLc_short_data:
  assumes "d \<noteq> []" "length d \<le> 255" "le \<le> 256"
  shows "getLc (CommandApdu c i p1 p2 d le) = length d"
proof -
  have "length d mod 256 \<noteq> 0" using assms by simp
  then show ?thesis
    using assms
    by (auto simp: CommandApdu_short_data getLc_def isExtendedLengthBuffer_def low_byte_0_iff)
qed

lemma getLc_extended_data:
  assumes "d \<noteq> []" "length d \<le> 0xffff" "le \<le> 0x10000" "isExtendedLength d le"
  shows "getLc (CommandApdu c i p1 p2 d le) = length d"
  using assms
  by (auto simp: CommandApdu_extended_data getLc_def isExtendedLengthBuffer_def readLength_def
      mid_def from_be_pair simp del: from_be_2)
 
lemma getLe_short_data:
  assumes "d \<noteq> []" "length d \<le> 255" "0 \<le> le" "le \<le> 256"
  shows "int (getLe (CommandApdu c i p1 p2 d le)) = le"
proof -
  let ?b = "CommandApdu c i p1 p2 d le"
  have short: "\<not> isExtendedLengthBuffer ?b"
    using assms by (auto simp: CommandApdu_short_data isExtendedLengthBuffer_def low_byte_0_iff)
  have lc: "getLc ?b = length d"
    using assms by (simp add: getLc_short_data)
  have "(nat le mod 256 = 0) \<longleftrightarrow> le = 0 \<or> le = 256"
    using assms by presburger
  then show ?thesis
    using assms short lc
    by (auto simp: getLe_def Let_def CommandApdu_short_data nth_append)
qed

lemma getLe_extended_data:
  assumes "d \<noteq> []" "length d \<le> 0xffff" "0 \<le> le" "le \<le> 0x10000" "isExtendedLength d le"
  shows "int (getLe (CommandApdu c i p1 p2 d le)) = le"
proof -
  let ?b = "CommandApdu c i p1 p2 d le"
  have ext: "isExtendedLengthBuffer ?b"
    using assms by (simp add: CommandApdu_extended_data isExtendedLengthBuffer_def)
  have lc: "getLc ?b = length d"
    using assms by (simp add: getLc_extended_data)
  have dr: "drop (7 + length d) (c # i # p1 # p2 # 0 # x # y # d @ t) = t" for x y t
    by (simp add: numeral_eq_Suc)
  have "nat le mod 65536 = (if le = 65536 then 0 else nat le)"
    using assms by simp
  then show ?thesis
    using assms ext lc dr
    by (auto simp: getLe_def Let_def CommandApdu_extended_data readLength_def mid_def
        from_be_pair simp del: from_be_2)
qed

lemma getData_short:
  assumes "d \<noteq> []" "length d \<le> 255" "le \<le> 256"
  shows "getData (CommandApdu c i p1 p2 d le) = d"
proof -
  have short: "\<not> isExtendedLengthBuffer (CommandApdu c i p1 p2 d le)"
  proof -
    have "length d mod 256 \<noteq> 0" using assms by simp
    then show ?thesis
      using assms by (auto simp: CommandApdu_short_data isExtendedLengthBuffer_def low_byte_0_iff)
  qed
  have "drop 5 (c # i # p1 # p2 # x # d @ t) = d @ t" for x t
    by (simp add: numeral_eq_Suc)
  with assms short show ?thesis
    unfolding getData_def getLc_short_data [OF assms]
    by (simp add: mid_def CommandApdu_short_data)
qed

lemma getData_extended:
  assumes "d \<noteq> []" "length d \<le> 0xffff" "le \<le> 0x10000" "isExtendedLength d le"
  shows "getData (CommandApdu c i p1 p2 d le) = d"
proof -
  have ext: "isExtendedLengthBuffer (CommandApdu c i p1 p2 d le)"
    using assms by (simp add: CommandApdu_extended_data isExtendedLengthBuffer_def)
  have "drop 7 (c # i # p1 # p2 # 0 # x # y # d @ t) = d @ t" for x y t
    by (simp add: numeral_eq_Suc)
  with assms ext show ?thesis
    unfolding getData_def getLc_extended_data [OF assms]
    by (simp add: mid_def CommandApdu_extended_data)
qed

lemma getters_no_data:
  assumes "0 \<le> le" "le \<le> 256"
  shows "getLc (CommandApdu c i p1 p2 [] le) = 0"
    and "getData (CommandApdu c i p1 p2 [] le) = []"
    and "int (getLe (CommandApdu c i p1 p2 [] le)) = le"
proof -
  let ?b = "CommandApdu c i p1 p2 [] le"
  have len: "length ?b \<le> 5"
    using assms by (simp add: CommandApdu_def isExtendedLength_def)
  then show lc: "getLc ?b = 0"
    by (simp add: getLc_def)
  then show "getData ?b = []"
    by (simp add: getData_def)
  have short: "\<not> isExtendedLengthBuffer ?b"
    using len by (simp add: isExtendedLengthBuffer_def)
  show "int (getLe ?b) = le"
  proof (cases "le = 0")
    case True
    then show ?thesis using lc short by (simp add: getLe_def CommandApdu_header_only)
  next
    case False
    with assms have "?b = [c, i, p1, p2, low_byte (nat le)]"
      by (simp add: CommandApdu_short_le)
    moreover have "nat le mod 256 = (if le = 256 then 0 else nat le)"
      using assms by simp
    ultimately show ?thesis
      using lc short assms False by (simp add: getLe_def Let_def)
  qed
qed

lemma getters_max_le_no_data:
  "getLc (CommandApdu c i p1 p2 [] 0x10000) = 0"
  "getData (CommandApdu c i p1 p2 [] 0x10000) = []"
  "getLe (CommandApdu c i p1 p2 [] 0x10000) = 0x10000"
  by (simp_all add: CommandApdu_extended_le getLc_def getLe_def getData_def readLength_def
      isExtendedLengthBuffer_def Let_def mid_def high_byte_def low_byte_def)

lemma command_apdu_fields:
  assumes "length d \<le> 0xffff" and "0 \<le> le" and "le \<le> 0x10000"
    and "d \<noteq> [] \<or> le \<le> 256 \<or> le = 0x10000"
  shows "getCLA (CommandApdu c i p1 p2 d le) = c \<and> getINS (CommandApdu c i p1 p2 d le) = i \<and>
         getP1 (CommandApdu c i p1 p2 d le) = p1 \<and> getP2 (CommandApdu c i p1 p2 d le) = p2 \<and>
         getLc (CommandApdu c i p1 p2 d le) = length d \<and>
         getData (CommandApdu c i p1 p2 d le) = d \<and>
         int (getLe (CommandApdu c i p1 p2 d le)) = le"
proof (cases "d = []")
  case True
  with assms show ?thesis
    using getters_no_data [of le c i p1 p2] getters_max_le_no_data [of c i p1 p2] by auto
next
  case False
  show ?thesis
  proof (cases "isExtendedLength d le")
    case True
    with False assms show ?thesis
      by (simp add: getLc_extended_data getData_extended getLe_extended_data)
  next
    case short: False
    then have "length d \<le> 255" "le \<le> 256" by (simp_all add: isExtendedLength_def)
    with False assms show ?thesis
      by (simp add: getLc_short_data getData_short getLe_short_data)
  qed
qed

text \<open>
  A command APDU that the constructor builds from a header, data of at most 0xFFFF bytes
  and an expected length of at most 0x10000 is read back unchanged by the getters: header
  bytes, data, \<open>Lc\<close> and \<open>Le\<close>, in the short and in the extended encoding. The one
  encoding left out is an extended \<open>Le\<close> without data (next property).
\<close>

theorem command_apdu_roundtrip:
  assumes "length d \<le> 0xffff" and "0 \<le> le" and "le \<le> 0x10000"
    and "d \<noteq> [] \<or> le \<le> 256 \<or> le = 0x10000"
  shows "getCLA (CommandApdu c i p1 p2 d le) = c \<and> getINS (CommandApdu c i p1 p2 d le) = i \<and>
         getP1 (CommandApdu c i p1 p2 d le) = p1 \<and> getP2 (CommandApdu c i p1 p2 d le) = p2 \<and>
         getLc (CommandApdu c i p1 p2 d le) = length d \<and>
         getData (CommandApdu c i p1 p2 d le) = d \<and>
         int (getLe (CommandApdu c i p1 p2 d le)) = le"
  using assms by (rule command_apdu_fields)

theorem command_apdu_roundtrip_witness:
  "getData (CommandApdu 0 0xA4 2 0x0C [0x01, 0x1C] 256) = [0x01, 0x1C] \<and>
   int (getLe (CommandApdu 0 0xA4 2 0x0C [0x01, 0x1C] 256)) = 256"
  using command_apdu_roundtrip [of "[0x01, 0x1C]" 256 0 "0xA4" 2 "0x0C"] by simp

text \<open>
  An expected length between 257 and 65535 without command data is lost: the getters take
  the two \<open>Le\<close> bytes of the extended encoding for \<open>Lc\<close>, and then find no \<open>Le\<close>.
\<close>

theorem extended_le_without_data_is_lost:
  assumes "256 < le" and "le < 0x10000"
  shows "getLc (CommandApdu c i p1 p2 [] le) = nat le \<and>
         getLe (CommandApdu c i p1 p2 [] le) = 0 \<and>
         getData (CommandApdu c i p1 p2 [] le) = []"
proof -
  have shape: "CommandApdu c i p1 p2 [] le =
      [c, i, p1, p2, 0, high_byte (nat le), low_byte (nat le)]"
    using assms by (simp add: CommandApdu_extended_le)
  have "nat le mod 65536 = nat le" using assms by simp
  then have lc: "getLc (CommandApdu c i p1 p2 [] le) = nat le"
    by (simp add: shape getLc_def isExtendedLengthBuffer_def readLength_def mid_def
        from_be_pair del: from_be_2)
  have "nat le \<noteq> 0" using assms by simp
  with lc show ?thesis
    by (simp add: getLe_def getData_def Let_def shape isExtendedLengthBuffer_def mid_def)
qed

theorem extended_le_without_data_is_lost_witness:
  "getLe (CommandApdu 0 0xB0 0 0 [] 1024) = 0"
  using extended_le_without_data_is_lost [of 1024 0 "0xB0" 0 0] by simp

text \<open>
  Every command the constructor builds is either refused (the empty buffer, exactly when
  the data or the expected length is too long) or at least a four-byte header.
\<close>

theorem command_apdu_refused_iff:
  "CommandApdu c i p1 p2 d le = [] \<longleftrightarrow> 0xffff < length d \<or> 0x10000 < le"
  by (auto simp: CommandApdu_def)

section \<open>Properties of response APDUs\<close>

lemma statusValue_less: "statusValue s < 65536"
  by (cases s) simp_all

lemma statusOf_statusValue [simp]: "statusOf (statusValue s) = s"
  by (simp add: statusOf_def)

lemma getReturnCode_append: "getReturnCode (d @ be16 (statusValue s)) = s"
proof -
  have "d @ be16 (statusValue s) \<noteq> []" by (simp add: be16_def)
  then show ?thesis
    by (simp add: getReturnCode_def from_be_be16 statusValue_less)
qed

lemma getReturnCode_Nil [simp]: "getReturnCode [] = SC_EMPTY"
  by (simp add: getReturnCode_def)

text \<open>
  A response made of data and the two bytes of a status is split back into that data and
  that status, whatever the data are.
\<close>

theorem response_apdu_roundtrip:
  "getReturnCode (d @ ResponseApduOfStatus s) = s \<and>
   responseData (d @ ResponseApduOfStatus s) = d \<and>
   getDataLength (d @ ResponseApduOfStatus s) = int (length d)"
  by (simp add: ResponseApduOfStatus_def getReturnCode_append responseData_def getDataLength_def)

text \<open>
  The retry counter that a response reports is one of -1 (no PIN status), 0, 1, 2, 3, and
  it is 0 exactly when the card says that the PIN is blocked or deactivated.
\<close>

theorem retry_counter_range:
  "responseRetryCounter buf \<in> {-1, 0, 1, 2, 3} \<and>
   (responseRetryCounter buf = 0 \<longleftrightarrow>
      getReturnCode buf = SC_PIN_BLOCKED \<or> getReturnCode buf = SC_PIN_DEACTIVATED)"
  by (auto simp: responseRetryCounter_def Let_def)

end
