(* ===== verification/CardCodes.thy ===== *)
theory CardCodes
  imports Apdu
begin

text \<open>
  The codes that card operations and workflows report: \<open>CardReturnCode\<close> with its
  translation to a global status (src/src/global/CardReturnCode.cpp), the codes of
  \<open>GlobalStatus\<close> (src/src/global/GlobalStatus.h), the PACE password identifiers
  (src/src/card/base/SmartCardDefinitions.h), and the return code of a response APDU.
\<close>

section \<open>The codes\<close>

datatype CardReturnCode =
    CR_UNDEFINED | CR_OK | CR_OK_PUK | CR_RETRY_ALLOWED | CR_CARD_NOT_FOUND | CR_UNKNOWN
    | CR_INPUT_TIME_OUT | CR_INVALID_CAN | CR_INVALID_PIN | CR_INVALID_PIN_2 | CR_INVALID_PIN_3
    | CR_INVALID_PUK | CR_COMMAND_FAILED | CR_CANCELLATION_BY_USER | CR_NEW_PIN_MISMATCH
    | CR_NEW_PIN_INVALID_LENGTH | CR_PIN_BLOCKED | CR_PIN_NOT_BLOCKED | CR_PUK_INOPERATIVE
    | CR_PROTOCOL_ERROR | CR_UNEXPECTED_TRANSMIT_STATUS

datatype (plugins only: size) GlobalStatusCode =
    GS_Unknown_Error | GS_No_Error | GS_Network_ServiceUnavailable
    | GS_Network_Ssl_Establishment_Error | GS_Network_TimeOut | GS_Network_Proxy_Error
    | GS_Network_Other_Error | GS_Downloader_File_Not_Found | GS_Downloader_Cannot_Save_File
    | GS_Downloader_Data_Corrupted | GS_Workflow_AlreadyInProgress_Error
    | GS_Workflow_Communication_Missing_Redirect_Url | GS_Workflow_Cancellation_By_User
    | GS_Workflow_Card_Removed | GS_Workflow_Cannot_Confirm_IdCard_Authenticity
    | GS_Workflow_Unknown_Paos_Form_EidServer | GS_Workflow_Unexpected_Message_From_EidServer
    | GS_Workflow_Pin_Blocked_And_Puk_Objectionable
    | GS_Workflow_Preverification_Developermode_Error | GS_Workflow_Preverification_Error
    | GS_Workflow_No_Unique_AtCvc | GS_Workflow_No_Unique_DvCvc
    | GS_Workflow_No_Permission_Error | GS_Workflow_Certificate_No_Description
    | GS_Workflow_Certificate_No_Url_In_Description | GS_Workflow_Certificate_Hash_Error
    | GS_Workflow_Certificate_Sop_Error | GS_Workflow_Error_Page_Transmission_Error
    | GS_Workflow_Redirect_Transmission_Error | GS_Workflow_Processing_Error
    | GS_Workflow_TrustedChannel_Establishment_Error
    | GS_Workflow_TrustedChannel_Error_From_Server
    | GS_Workflow_TrustedChannel_Hash_Not_In_Description
    | GS_Workflow_TrustedChannel_No_Data_Received
    | GS_Workflow_TrustedChannel_Ssl_Certificate_Unsupported_Algorithm_Or_Length
    | GS_Workflow_TrustedChannel_ServiceUnavailable | GS_Workflow_TrustedChannel_TimeOut
    | GS_Workflow_TrustedChannel_Proxy_Error
    | GS_Workflow_TrustedChannel_Ssl_Establishment_Error
    | GS_Workflow_TrustedChannel_Server_Format_Error
    | GS_Workflow_TrustedChannel_Other_Network_Error | GS_Workflow_Reader_Became_Inaccessible
    | GS_Workflow_Reader_Communication_Error
    | GS_Workflow_Server_Incomplete_Information_Provided
    | GS_Workflow_Network_Ssl_Connection_Unsupported_Algorithm_Or_Length
    | GS_Workflow_Network_Ssl_Certificate_Unsupported_Algorithm_Or_Length
    | GS_Workflow_Nerwork_Ssl_Hash_Not_In_Certificate_Description
    | GS_Workflow_Network_Empty_Redirect_Url | GS_Workflow_Network_Expected_Redirect
    | GS_Workflow_Network_Invalid_Scheme | GS_Workflow_Network_Malformed_Redirect_Url
    | GS_Workflow_Wrong_Parameter_Invocation | GS_Paos_Unexpected_Warning
    | GS_Paos_Generic_Server_Error | GS_Paos_Error_AL_Unknown_Error
    | GS_Paos_Error_AL_Internal_Error | GS_Paos_Error_AL_Communication_Error
    | GS_Paos_Error_DP_Trusted_Channel_Establishment_Failed
    | GS_Paos_Error_SAL_Cancellation_by_User | GS_Paos_Error_SAL_Invalid_Key
    | GS_Workflow_Reader_Device_Connection_Error | GS_Workflow_Reader_Device_Scan_Error
    | GS_Card_Not_Found | GS_Card_Communication_Error | GS_Card_Protocol_Error
    | GS_Card_Unexpected_Transmit_Status | GS_Card_Cancellation_By_User | GS_Card_Input_TimeOut
    | GS_Card_Invalid_Pin | GS_Card_Invalid_Can | GS_Card_Invalid_Puk | GS_Card_Pin_Blocked
    | GS_Card_Pin_Not_Blocked | GS_Card_Puk_Blocked | GS_Card_NewPin_Mismatch
    | GS_Card_NewPin_Invalid_Length | GS_RemoteReader_CloseCode_NormalClose
    | GS_RemoteReader_CloseCode_AbnormalClose | GS_RemoteReader_CloseCode_Undefined
    | GS_RemoteConnector_InvalidRequest | GS_RemoteConnector_EmptyPassword
    | GS_RemoteConnector_NoSupportedApiLevel | GS_RemoteConnector_ConnectionTimeout
    | GS_RemoteConnector_ConnectionError | GS_RemoteConnector_RemoteHostRefusedConnection

datatype PacePasswordId = PW_UNKNOWN | PACE_MRZ | PACE_CAN | PACE_PIN | PACE_PUK

fun passwordIdValue :: "PacePasswordId \<Rightarrow> byte" where
  "passwordIdValue PW_UNKNOWN = 0"
| "passwordIdValue PACE_MRZ = 1"
| "passwordIdValue PACE_CAN = 2"
| "passwordIdValue PACE_PIN = 3"
| "passwordIdValue PACE_PUK = 4"

definition PacePasswordId_list :: "PacePasswordId list" where
  "PacePasswordId_list = [PW_UNKNOWN, PACE_MRZ, PACE_CAN, PACE_PIN, PACE_PUK]"

interpretation pwid: enum_type passwordIdValue PacePasswordId_list
proof
  fix e :: PacePasswordId
  show "e \<in> set PacePasswordId_list"
    by (cases e) (simp_all add: PacePasswordId_list_def)
  show "distinct (map passwordIdValue PacePasswordId_list)"
    by (simp add: PacePasswordId_list_def)
qed

section \<open>Operations\<close>

fun toGlobalStatus :: "CardReturnCode \<Rightarrow> GlobalStatusCode" where
  "toGlobalStatus CR_OK = GS_No_Error"
| "toGlobalStatus CR_OK_PUK = GS_No_Error"
| "toGlobalStatus CR_UNDEFINED = GS_Unknown_Error"
| "toGlobalStatus CR_UNKNOWN = GS_Unknown_Error"
| "toGlobalStatus CR_CARD_NOT_FOUND = GS_Card_Not_Found"
| "toGlobalStatus CR_RETRY_ALLOWED = GS_Card_Not_Found"
| "toGlobalStatus CR_COMMAND_FAILED = GS_Card_Communication_Error"
| "toGlobalStatus CR_PROTOCOL_ERROR = GS_Card_Protocol_Error"
| "toGlobalStatus CR_UNEXPECTED_TRANSMIT_STATUS = GS_Card_Unexpected_Transmit_Status"
| "toGlobalStatus CR_CANCELLATION_BY_USER = GS_Card_Cancellation_By_User"
| "toGlobalStatus CR_INPUT_TIME_OUT = GS_Card_Input_TimeOut"
| "toGlobalStatus CR_INVALID_PIN = GS_Card_Invalid_Pin"
| "toGlobalStatus CR_INVALID_PIN_2 = GS_Card_Invalid_Pin"
| "toGlobalStatus CR_INVALID_PIN_3 = GS_Card_Invalid_Pin"
| "toGlobalStatus CR_INVALID_CAN = GS_Card_Invalid_Can"
| "toGlobalStatus CR_INVALID_PUK = GS_Card_Invalid_Puk"
| "toGlobalStatus CR_NEW_PIN_MISMATCH = GS_Card_NewPin_Mismatch"
| "toGlobalStatus CR_NEW_PIN_INVALID_LENGTH = GS_Card_NewPin_Invalid_Length"
| "toGlobalStatus CR_PIN_BLOCKED = GS_Card_Pin_Blocked"
| "toGlobalStatus CR_PIN_NOT_BLOCKED = GS_Card_Pin_Not_Blocked"
| "toGlobalStatus CR_PUK_INOPERATIVE = GS_Card_Puk_Blocked"

definition equalsWrongPacePassword :: "CardReturnCode \<Rightarrow> bool" where
  "equalsWrongPacePassword pCode =
    (case pCode of
        CR_INVALID_CAN \<Rightarrow> True
      | CR_INVALID_PIN \<Rightarrow> True
      | CR_INVALID_PIN_2 \<Rightarrow> True
      | CR_INVALID_PIN_3 \<Rightarrow> True
      | CR_INVALID_PUK \<Rightarrow> True
      | CR_NEW_PIN_MISMATCH \<Rightarrow> True
      | CR_NEW_PIN_INVALID_LENGTH \<Rightarrow> True
      | CR_PIN_NOT_BLOCKED \<Rightarrow> True
      | CR_PIN_BLOCKED \<Rightarrow> True
      | _ \<Rightarrow> False)"

definition getCardReturnCode :: "bytes \<Rightarrow> CardReturnCode" where
  "getCardReturnCode buf =
    (case getReturnCode buf of
        SC_SUCCESS \<Rightarrow> CR_OK
      | SC_INPUT_TIMEOUT \<Rightarrow> CR_INPUT_TIME_OUT
      | SC_INPUT_CANCELLED \<Rightarrow> CR_CANCELLATION_BY_USER
      | SC_PASSWORDS_DIFFER \<Rightarrow> CR_NEW_PIN_MISMATCH
      | SC_PASSWORD_OUTOF_RANGE \<Rightarrow> CR_NEW_PIN_INVALID_LENGTH
      | SC_PIN_BLOCKED \<Rightarrow> CR_PIN_BLOCKED
      | _ \<Rightarrow> CR_PROTOCOL_ERROR)"

section \<open>Properties\<close>

lemma toGlobalStatus_No_Error_iff: "toGlobalStatus c = GS_No_Error \<longleftrightarrow> c = CR_OK \<or> c = CR_OK_PUK"
  by (cases c) simp_all

text \<open>
  A card return code turns into the status "no error" exactly for the two success codes,
  and no code that counts as a wrong PACE password is a success.
\<close>

theorem success_codes_are_the_only_no_error:
  "(toGlobalStatus c = GS_No_Error \<longleftrightarrow> c = CR_OK \<or> c = CR_OK_PUK) \<and>
   \<not> (equalsWrongPacePassword c \<and> toGlobalStatus c = GS_No_Error)"
  by (cases c) (simp_all add: equalsWrongPacePassword_def)

end
