(* ===== verification/Asn1.thy ===== *)
theory Asn1
  imports Apdu
begin

text \<open>
  The DER encoding of octet strings as the card code uses it. The encoder and the decoder are
  OpenSSL's (\<open>i2d_*\<close> and \<open>d2i_*\<close> of the types that the sources declare with the
  \<open>ASN1_ITEM_TEMPLATE\<close> macros), hence a parameter of the model: a record of two functions
  over the implicit tag byte. What the code relies on is stated as \<open>der_laws\<close>, and
  \<open>der_lib\<close> is a concrete instance (ITU-T X.690, definite lengths up to two bytes).
  src/src/card/base/asn1/ASN1Util.cpp and ASN1TemplateUtil.h are modelled on top of it.
\<close>

section \<open>The library parameter\<close>

record asn1_lib =
  i2d_octet :: "byte \<Rightarrow> bytes \<Rightarrow> bytes"
  d2i_octet :: "byte \<Rightarrow> bytes \<Rightarrow> bytes option"

text \<open>
  An encoding is the tag byte, one to three length bytes that depend on the length only, and the value; decoding
  reads the first object of its input back, whatever follows it; an object with another tag is
  refused.
\<close>

definition der_laws :: "asn1_lib \<Rightarrow> bool" where
  "der_laws L \<longleftrightarrow>
    (\<forall>v :: bytes. length v < 65536 \<longrightarrow> (\<exists>l. l \<noteq> [] \<and> length l \<le> 3 \<and>
       (\<forall>t' w. length w = length v \<longrightarrow> i2d_octet L t' w = t' # l @ w))) \<and>
    (\<forall>t v rest. length v < 65536 \<longrightarrow> d2i_octet L t (i2d_octet L t v @ rest) = Some v) \<and>
    (\<forall>t t' rest. t \<noteq> t' \<longrightarrow> d2i_octet L t (t' # rest) = None) \<and>
    (\<forall>t. d2i_octet L t [] = None)"

section \<open>The template helpers\<close>

text \<open>
  \<open>Asn1Util::encode\<close>: encode under the tag of \<open>SM_CHECKSUM\<close> (0x8E), then replace
  the first byte.
\<close>

definition asn1Encode :: "asn1_lib \<Rightarrow> byte \<Rightarrow> bytes \<Rightarrow> bytes" where
  "asn1Encode L pTagByte pData = pTagByte # drop 1 (i2d_octet L 0x8E pData)"

text \<open>
  \<open>decodeObject\<close> gives a null pointer when OpenSSL refuses the input, and
  \<open>Asn1OctetStringUtil::getValue\<close> gives the empty array for a null pointer.
\<close>

definition decodeObject :: "asn1_lib \<Rightarrow> byte \<Rightarrow> bytes \<Rightarrow> bytes option" where
  "decodeObject L t pData = d2i_octet L t pData"

definition getOctetValue :: "bytes option \<Rightarrow> bytes" where
  "getOctetValue p = (case p of None \<Rightarrow> [] | Some v \<Rightarrow> v)"

section \<open>A concrete instance\<close>

definition der_len :: "nat \<Rightarrow> bytes" where
  "der_len n =
    (if n < 128 then [low_byte n]
     else if n < 256 then [0x81, low_byte n]
     else [0x82, high_byte n, low_byte n])"

fun der_decode :: "byte \<Rightarrow> bytes \<Rightarrow> bytes option" where
  "der_decode t (t' # b # rest) =
    (if t \<noteq> t' then None
     else if unat b < 128 then
       (if length rest < unat b then None else Some (take (unat b) rest))
     else if b = 0x81 then
       (case rest of
          [] \<Rightarrow> None
        | l # r \<Rightarrow> if length r < unat l then None else Some (take (unat l) r))
     else if b = 0x82 then
       (case rest of
          h # l # r \<Rightarrow>
            (let n = 256 * unat h + unat l in
             if length r < n then None else Some (take n r))
        | _ \<Rightarrow> None)
     else None)"
| "der_decode t _ = None"

definition der_lib :: asn1_lib where
  "der_lib = \<lparr>i2d_octet = (\<lambda>t v. t # der_len (length v) @ v), d2i_octet = der_decode\<rparr>"

section \<open>Lemmas\<close>

lemma der_decode_encode:
  assumes "length v < 65536"
  shows "der_decode t (t # der_len (length v) @ v @ rest) = Some v"
proof (cases "length v < 256")
  case True
  then show ?thesis by (auto simp: der_len_def)
next
  case False
  have "from_be [high_byte (length v), low_byte (length v)] = length v"
    using assms by (simp add: from_be_pair del: from_be_2)
  then have "256 * unat (high_byte (length v)) + unat (low_byte (length v)) = length v"
    by (simp only: from_be_2)
  with False show ?thesis by (simp add: der_len_def Let_def del: unat_low_byte unat_high_byte)
qed

lemma der_lib_laws: "der_laws der_lib"
proof -
  have "\<exists>l. l \<noteq> [] \<and> length l \<le> 3 \<and> (\<forall>t' w. length w = length v \<longrightarrow> i2d_octet der_lib t' w = t' # l @ w)" for v :: bytes
    by (rule exI [of _ "der_len (length v)"]) (simp add: der_lib_def der_len_def)
  moreover have "d2i_octet der_lib t (i2d_octet der_lib t v @ rest) = Some v"
    if "length v < 65536" for t v rest
    using der_decode_encode [OF that] by (simp add: der_lib_def)
  moreover have "d2i_octet der_lib t (t' # rest) = None" if "t \<noteq> t'" for t t' rest
    using that by (cases rest) (simp_all add: der_lib_def)
  ultimately show ?thesis by (simp add: der_laws_def der_lib_def)
qed

lemma der_encode_nonempty:
  assumes "der_laws L" "length v < 65536"
  obtains l where "l \<noteq> []" "length l \<le> 3" "\<And>t. i2d_octet L t v = t # l @ v"
proof -
  have "\<exists>l. l \<noteq> [] \<and> length l \<le> 3 \<and> (\<forall>t' w. length w = length v \<longrightarrow> i2d_octet L t' w = t' # l @ w)"
    using assms by (simp add: der_laws_def)
  then obtain l where "l \<noteq> []" "length l \<le> 3" "\<And>t. i2d_octet L t v = t # l @ v" by blast
  then show thesis by (rule that)
qed

lemma length_der_encode:
  "der_laws L \<Longrightarrow> length v < 65536 \<Longrightarrow> length (i2d_octet L t v) \<le> length v + 4"
  by (rule der_encode_nonempty [of L v]) simp_all

lemma der_decode_law:
  "der_laws L \<Longrightarrow> length v < 65536 \<Longrightarrow> d2i_octet L t (i2d_octet L t v @ rest) = Some v"
  by (simp add: der_laws_def)

lemma der_decode_law_Nil:
  "der_laws L \<Longrightarrow> length v < 65536 \<Longrightarrow> d2i_octet L t (i2d_octet L t v) = Some v"
  using der_decode_law [of L v t "[]"] by simp

lemma der_decode_other_tag:
  assumes "der_laws L" "length v < 65536" "t \<noteq> t'"
  shows "d2i_octet L t (i2d_octet L t' v @ rest) = None"
proof -
  obtain l where "i2d_octet L t' v = t' # l @ v"
    using der_encode_nonempty [OF assms(1,2)] by metis
  with assms show ?thesis by (simp add: der_laws_def)
qed

text \<open>Replacing the tag byte of an encoding gives the encoding under the new tag.\<close>

lemma asn1Encode_eq:
  assumes "der_laws L" "length v < 65536"
  shows "asn1Encode L t v = i2d_octet L t v"
proof -
  obtain l where "\<And>t. i2d_octet L t v = t # l @ v"
    using der_encode_nonempty [OF assms] by metis
  then show ?thesis by (simp add: asn1Encode_def)
qed

lemma asn1Encode_not_Nil [simp]: "asn1Encode L t v \<noteq> []"
  by (simp add: asn1Encode_def)

text \<open>
  What \<open>Asn1Util::encode\<close> makes is decoded back to the value under its tag and is
  refused under any other, whatever bytes follow.
\<close>

theorem asn1_encode_roundtrip:
  assumes "der_laws L" and "length v < 65536"
  shows "decodeObject L t (asn1Encode L t v @ rest) = Some v \<and>
         (\<forall>t'. t' \<noteq> t \<longrightarrow> decodeObject L t' (asn1Encode L t v @ rest) = None)"
  using assms by (simp add: decodeObject_def asn1Encode_eq der_decode_law der_decode_other_tag)

theorem asn1_encode_roundtrip_witness:
  "decodeObject der_lib 0x80 (asn1Encode der_lib 0x80 [1, 2, 3] @ [9]) = Some [1, 2, 3]"
  using asn1_encode_roundtrip [OF der_lib_laws, of "[1, 2, 3]" "0x80" "[9]"] by simp

end
