(* ===== verification/Commands.thy ===== *)
theory Commands
  imports Asn1 CardCodes
begin

text \<open>
  The builders of command APDUs (src/src/card/base/Commands.cpp) and the file references they
  select (src/src/card/base/FileRef.cpp). A builder is a record of the members of its class;
  a setter is an update of the record. A \<open>QByteArray\<close> member whose \<open>isNull\<close> the code
  asks for is an option.
\<close>

section \<open>File references\<close>

datatype select_P1 =
  SELECT_MF | CHILD_DF | CHILD_EF | PARENT_DF | APPLICATION_ID | ABS_PATH | REL_PATH

fun selectP1Value :: "select_P1 \<Rightarrow> byte" where
  "selectP1Value SELECT_MF = 0x00"
| "selectP1Value CHILD_DF = 0x01"
| "selectP1Value CHILD_EF = 0x02"
| "selectP1Value PARENT_DF = 0x03"
| "selectP1Value APPLICATION_ID = 0x04"
| "selectP1Value ABS_PATH = 0x08"
| "selectP1Value REL_PATH = 0x09"

record file_ref =
  ref_type :: byte
  ref_path :: bytes

definition efDir :: file_ref where
  "efDir = \<lparr>ref_type = selectP1Value CHILD_EF, ref_path = [0x2f, 0x00]\<rparr>"

definition masterFile :: file_ref where
  "masterFile = \<lparr>ref_type = selectP1Value SELECT_MF, ref_path = [0x3f, 0x00]\<rparr>"

definition efCardAccess :: file_ref where
  "efCardAccess = \<lparr>ref_type = selectP1Value CHILD_EF, ref_path = [0x01, 0x1c]\<rparr>"

definition efCardSecurity :: file_ref where
  "efCardSecurity = \<lparr>ref_type = selectP1Value CHILD_EF, ref_path = [0x01, 0x1d]\<rparr>"

definition appESign :: file_ref where
  "appESign = \<lparr>ref_type = selectP1Value APPLICATION_ID,
     ref_path = [0xa0, 0x00, 0x00, 0x01, 0x67, 0x45, 0x53, 0x49, 0x47, 0x4e]\<rparr>"

section \<open>Builders without secure messaging objects\<close>

definition buildSelect :: "file_ref \<Rightarrow> bytes" where
  "buildSelect r = CommandApdu 0x00 0xA4 (ref_type r) 0x0c (ref_path r) 0"

definition buildGetChallenge :: bytes where
  "buildGetChallenge = CommandApdu 0x00 0x84 0 0 [] 0x08"

text \<open>The challenge is taken over even when its size is wrong; the code only logs.\<close>

definition getChallenge :: "bytes \<Rightarrow> bytes" where
  "getChallenge response = responseData response"

definition buildReadBinary :: "nat \<Rightarrow> int \<Rightarrow> bytes" where
  "buildReadBinary pOffset pLe = CommandApdu 0x00 0xB0 (high_byte pOffset) (low_byte pOffset) [] pLe"

text \<open>A null PIN unblocks (P1 = 3), any other PIN is set (P1 = 2).\<close>

definition buildResetRetryCounter :: "bytes option \<Rightarrow> bytes" where
  "buildResetRetryCounter pPin =
     CommandApdu 0x00 0x2c (if pPin = None then 3 else 2) 3 (getOctetValue pPin) 0"

section \<open>Manage security environment\<close>

datatype mse_P1 =
  COMPUTE_DIGITAL_SIGNATURE | PUT_HASH | PERFORM_SECURITY_OPERATION | SET_DST | ERASE

fun mseP1Value :: "mse_P1 \<Rightarrow> byte" where
  "mseP1Value COMPUTE_DIGITAL_SIGNATURE = 0x41"
| "mseP1Value PUT_HASH = 0xa0"
| "mseP1Value PERFORM_SECURITY_OPERATION = 0xc1"
| "mseP1Value SET_DST = 0x81"
| "mseP1Value ERASE = 0xF4"

datatype mse_P2 =
  SET_AT | HASH_ALGORITHM | P2_COMPUTE_DIGITAL_SIGNATURE | ENCRYPTION_OPERATION | DEFAULT_CHANNEL

fun mseP2Value :: "mse_P2 \<Rightarrow> byte" where
  "mseP2Value SET_AT = 0xa4"
| "mseP2Value HASH_ALGORITHM = 0xaa"
| "mseP2Value P2_COMPUTE_DIGITAL_SIGNATURE = 0xb6"
| "mseP2Value ENCRYPTION_OPERATION = 0xb8"
| "mseP2Value DEFAULT_CHANNEL = 0x01"

record mse_builder =
  mse_p1 :: mse_P1
  mse_p2 :: mse_P2
  mse_auxiliaryData :: bytes
  mse_oid :: bytes
  mse_publicKey :: bytes
  mse_privateKey :: bytes
  mse_ephemeralPublicKey :: bytes
  mse_chat :: bytes

definition MSEBuilder :: "mse_P1 \<Rightarrow> mse_P2 \<Rightarrow> mse_builder" where
  "MSEBuilder p1 p2 = \<lparr>mse_p1 = p1, mse_p2 = p2, mse_auxiliaryData = [], mse_oid = [],
     mse_publicKey = [], mse_privateKey = [], mse_ephemeralPublicKey = [], mse_chat = []\<rparr>"

definition mse_setAuxiliaryData :: "bytes \<Rightarrow> mse_builder \<Rightarrow> mse_builder" where
  "mse_setAuxiliaryData pData b = b\<lparr>mse_auxiliaryData := pData\<rparr>"

definition mse_setOid :: "asn1_lib \<Rightarrow> bytes \<Rightarrow> mse_builder \<Rightarrow> mse_builder" where
  "mse_setOid L pData b = b\<lparr>mse_oid := asn1Encode L 0x80 pData\<rparr>"

definition mse_setPublicKey :: "asn1_lib \<Rightarrow> bytes \<Rightarrow> mse_builder \<Rightarrow> mse_builder" where
  "mse_setPublicKey L pData b = b\<lparr>mse_publicKey := asn1Encode L 0x83 pData\<rparr>"

definition mse_setPasswordId :: "asn1_lib \<Rightarrow> PacePasswordId \<Rightarrow> mse_builder \<Rightarrow> mse_builder" where
  "mse_setPasswordId L pPasswordId b =
     b\<lparr>mse_publicKey := asn1Encode L 0x83 [passwordIdValue pPasswordId]\<rparr>"

definition mse_setPrivateKey :: "asn1_lib \<Rightarrow> bytes \<Rightarrow> mse_builder \<Rightarrow> mse_builder" where
  "mse_setPrivateKey L pData b = b\<lparr>mse_privateKey := asn1Encode L 0x84 pData\<rparr>"

definition mse_setEphemeralPublicKey :: "asn1_lib \<Rightarrow> bytes \<Rightarrow> mse_builder \<Rightarrow> mse_builder" where
  "mse_setEphemeralPublicKey L pData b = b\<lparr>mse_ephemeralPublicKey := asn1Encode L 0x91 pData\<rparr>"

definition mse_setChat :: "bytes \<Rightarrow> mse_builder \<Rightarrow> mse_builder" where
  "mse_setChat pData b = b\<lparr>mse_chat := pData\<rparr>"

definition mse_data :: "mse_builder \<Rightarrow> bytes" where
  "mse_data b = mse_oid b @ mse_publicKey b @ mse_privateKey b @ mse_auxiliaryData b
     @ mse_ephemeralPublicKey b @ mse_chat b"

definition buildMSE :: "mse_builder \<Rightarrow> bytes" where
  "buildMSE b = CommandApdu 0x00 0x22 (mseP1Value (mse_p1 b)) (mseP2Value (mse_p2 b)) (mse_data b) 0"

section \<open>Perform security operation, external authenticate, general authenticate\<close>

datatype pso_P1 = DECRYPT | ENCRYPT | SIGN_HASH | VERIFY

fun psoP1Value :: "pso_P1 \<Rightarrow> byte" where
  "psoP1Value DECRYPT = 0x80"
| "psoP1Value ENCRYPT = 0x86"
| "psoP1Value SIGN_HASH = 0x9e"
| "psoP1Value VERIFY = 0x00"

datatype pso_P2 = UNCRYPTED_DATA | ENCRYPTED_DATA | HASH_VALUE | CERTIFICATE

fun psoP2Value :: "pso_P2 \<Rightarrow> byte" where
  "psoP2Value UNCRYPTED_DATA = 0x80"
| "psoP2Value ENCRYPTED_DATA = 0x86"
| "psoP2Value HASH_VALUE = 0x9a"
| "psoP2Value CERTIFICATE = 0xbe"

record pso_builder =
  pso_p1 :: pso_P1
  pso_p2 :: pso_P2
  pso_certificateBody :: bytes
  pso_signature :: bytes

definition buildPSO :: "pso_builder \<Rightarrow> bytes" where
  "buildPSO b = CommandApdu 0x00 0x2a (psoP1Value (pso_p1 b)) (psoP2Value (pso_p2 b))
     (pso_certificateBody b @ pso_signature b) 0"

definition buildEA :: "bytes \<Rightarrow> bytes" where
  "buildEA mSignature = CommandApdu 0x00 0x82 0 0 mSignature 0"

record ga_builder =
  ga_classByte :: byte
  ga_caEphemeralPublicKey :: "bytes option"
  ga_paceMappingData :: "bytes option"
  ga_paceEphemeralPublicKey :: "bytes option"
  ga_paceAuthenticationToken :: "bytes option"

definition GABuilder :: "byte \<Rightarrow> ga_builder" where
  "GABuilder pClassByte = \<lparr>ga_classByte = pClassByte, ga_caEphemeralPublicKey = None,
     ga_paceMappingData = None, ga_paceEphemeralPublicKey = None,
     ga_paceAuthenticationToken = None\<rparr>"

definition ga_setCaEphemeralPublicKey :: "asn1_lib \<Rightarrow> bytes \<Rightarrow> ga_builder \<Rightarrow> ga_builder" where
  "ga_setCaEphemeralPublicKey L pData b = b\<lparr>ga_caEphemeralPublicKey := Some (asn1Encode L 0x80 pData)\<rparr>"

definition ga_setPaceMappingData :: "asn1_lib \<Rightarrow> bytes \<Rightarrow> ga_builder \<Rightarrow> ga_builder" where
  "ga_setPaceMappingData L pData b = b\<lparr>ga_paceMappingData := Some (asn1Encode L 0x81 pData)\<rparr>"

definition ga_setPaceEphemeralPublicKey :: "asn1_lib \<Rightarrow> bytes \<Rightarrow> ga_builder \<Rightarrow> ga_builder" where
  "ga_setPaceEphemeralPublicKey L pData b = b\<lparr>ga_paceEphemeralPublicKey := Some (asn1Encode L 0x83 pData)\<rparr>"

definition ga_setPaceAuthenticationToken :: "asn1_lib \<Rightarrow> bytes \<Rightarrow> ga_builder \<Rightarrow> ga_builder" where
  "ga_setPaceAuthenticationToken L pData b = b\<lparr>ga_paceAuthenticationToken := Some (asn1Encode L 0x85 pData)\<rparr>"

definition ga_data :: "ga_builder \<Rightarrow> bytes" where
  "ga_data b =
    (case ga_caEphemeralPublicKey b of
       Some d \<Rightarrow> d
     | None \<Rightarrow>
      (case ga_paceMappingData b of
         Some d \<Rightarrow> d
       | None \<Rightarrow>
        (case ga_paceEphemeralPublicKey b of
           Some d \<Rightarrow> d
         | None \<Rightarrow>
          (case ga_paceAuthenticationToken b of
             Some d \<Rightarrow> d
           | None \<Rightarrow> []))))"

definition buildGA :: "asn1_lib \<Rightarrow> ga_builder \<Rightarrow> bytes" where
  "buildGA L b = CommandApdu (ga_classByte b) 0x86 0 0 (asn1Encode L 0x7C (ga_data b)) 256"

section \<open>Properties\<close>

lemma selectP1Value_inject: "selectP1Value a = selectP1Value b \<longleftrightarrow> a = b"
  by (cases a; cases b) simp_all

text \<open>
  Selecting a file sends a SELECT without response data (P2 = 0x0C, no Le) that carries the
  type and the path of the file reference unchanged, for every path up to 65535 bytes.
\<close>

theorem select_carries_file_ref:
  assumes "length (ref_path r) \<le> 0xffff"
  shows "getINS (buildSelect r) = 0xA4 \<and> getP1 (buildSelect r) = ref_type r \<and>
         getP2 (buildSelect r) = 0x0C \<and> getData (buildSelect r) = ref_path r \<and>
         getLe (buildSelect r) = 0"
  using assms command_apdu_fields [of "ref_path r" 0 0 "0xA4" "ref_type r" "0x0C"]
  by (simp add: buildSelect_def)

theorem select_carries_file_ref_witness:
  "getData (buildSelect efCardAccess) = [0x01, 0x1c]"
  using select_carries_file_ref [of efCardAccess] by (simp add: efCardAccess_def)

lemma readBinary_offset:
  "256 * unat (getP1 (buildReadBinary off le)) + unat (getP2 (buildReadBinary off le)) = off mod 65536"
  if "le \<le> 0x10000"
proof -
  have "256 * unat (high_byte off) + unat (low_byte off) = off mod 65536"
    using from_be_pair [of off] by (simp only: from_be_2)
  with that show ?thesis by (simp add: buildReadBinary_def)
qed

text \<open>
  READ BINARY addresses the byte at the offset it is built for, modulo 2^16: P1 and P2 hold
  the offset in big-endian order and no bit of P1 is used for anything else. For a short
  expected length that length is what the card is asked for.
\<close>

theorem read_binary_offset_and_le:
  assumes "0 \<le> le" and "le \<le> 256"
  shows "256 * unat (getP1 (buildReadBinary off le)) + unat (getP2 (buildReadBinary off le))
           = off mod 65536 \<and>
         int (getLe (buildReadBinary off le)) = le \<and> getData (buildReadBinary off le) = []"
  using assms readBinary_offset [of le off]
    command_apdu_fields [of "[]" le 0 "0xB0" "high_byte off" "low_byte off"]
  by (simp add: buildReadBinary_def)

theorem read_binary_offset_and_le_witness:
  "256 * unat (getP1 (buildReadBinary 0x1234 0xff)) + unat (getP2 (buildReadBinary 0x1234 0xff))
     = 0x1234"
  using read_binary_offset_and_le [of "0xff" "0x1234"] by simp

end
