(* ===== verification/PinPad.thy ===== *)
theory PinPad
  imports Commands
begin

text \<open>
  Messages to and from readers with a PIN pad: the PIN modification structure
  (src/src/card/base/PinModify.cpp, PinModifyOutput.cpp) and the establishment of a PACE
  channel by the reader (EstablishPaceChannel.cpp, EstablishPaceChannelOutput.cpp,
  EstablishPaceChannelParser.cpp, pace/EstablishPaceChannelCode.h, DestroyPaceChannel.cpp).
  Reading outside a \<open>QByteArray\<close> is undefined behaviour and is the value \<open>None\<close>; the
  terminating zero byte that a \<open>QByteArray\<close> keeps after its last byte may be read.
\<close>

section \<open>PIN modification\<close>

datatype ProtocolType = PT_PCSC | PT_BLUETOOTH

text \<open>The constructor from the data of a remote reader: an empty input gives timeout 0.\<close>

definition pinModifyOfRemote :: "bytes \<Rightarrow> byte" where
  "pinModifyOfRemote pRemoteInputData = (if pRemoteInputData = [] then 0 else pRemoteInputData ! 0)"

definition createPinModificationDataStructure :: "byte \<Rightarrow> ProtocolType \<Rightarrow> bytes" where
  "createPinModificationDataStructure mTimeoutSeconds pType =
    (let abData = [0x00, 0x2C, 0x02, 0x03] in
     [mTimeoutSeconds] @
     (if pType = PT_PCSC then [mTimeoutSeconds] else []) @
     [0x82, 0, 0, 0, 0, 0x06, 0x06, 0x01, 0x02, 0x02, 0x07, 0x04, 0x00, 0x01, 0x02, 0, 0, 0] @
     (if pType = PT_PCSC then le32 (length abData) else []) @
     abData)"

definition createCcidForPcsc :: "byte \<Rightarrow> bytes" where
  "createCcidForPcsc t = createPinModificationDataStructure t PT_PCSC"

definition createCcidForRemote :: "byte \<Rightarrow> bytes" where
  "createCcidForRemote t = createCcidForPcsc t"

definition createCcidForBluetooth :: "byte \<Rightarrow> bytes" where
  "createCcidForBluetooth t =
     CommandApdu 0xFF 0x9A 0x04 0x10 ([0x01] @ createPinModificationDataStructure t PT_BLUETOOTH) 0"

definition pinModifyStatusToCardReturnCode :: "bytes \<Rightarrow> CardReturnCode" where
  "pinModifyStatusToCardReturnCode pData =
    (if length pData \<noteq> 2 then CR_UNKNOWN
     else (case statusOf (from_be pData) of
         SC_INPUT_TIMEOUT \<Rightarrow> CR_INPUT_TIME_OUT
       | SC_INPUT_CANCELLED \<Rightarrow> CR_CANCELLATION_BY_USER
       | SC_PASSWORDS_DIFFER \<Rightarrow> CR_NEW_PIN_MISMATCH
       | SC_PASSWORD_OUTOF_RANGE \<Rightarrow> CR_NEW_PIN_INVALID_LENGTH
       | SC_INVALID_DATAFIELD \<Rightarrow> CR_COMMAND_FAILED
       | SC_ACCESS_DENIED \<Rightarrow> CR_UNKNOWN
       | SC_SUCCESS \<Rightarrow> CR_OK
       | _ \<Rightarrow> CR_UNKNOWN))"

section \<open>Establishing a PACE channel: command data\<close>

record pace_input =
  pi_passwordId :: PacePasswordId
  pi_chat :: "bytes option"
  pi_certificateDescription :: bytes

definition chatBytes :: "pace_input \<Rightarrow> bytes" where
  "chatBytes i = getOctetValue (pi_chat i)"

text \<open>PC/SC part 10 layout; a CHAT or a description that does not fit gives the empty array.\<close>

definition paceInputData :: "pace_input \<Rightarrow> bytes" where
  "paceInputData i =
     [passwordIdValue (pi_passwordId i)] @
     [low_byte (length (chatBytes i))] @ chatBytes i @
     [0] @
     le16 (length (pi_certificateDescription i)) @ pi_certificateDescription i"

definition createPaceCommandData :: "pace_input \<Rightarrow> bytes" where
  "createPaceCommandData i =
    (if 0xFF < length (chatBytes i) then []
     else if 0xFFFF < length (pi_certificateDescription i) then []
     else if 0xFFFF < length (paceInputData i) then []
     else [0x02] @ le16 (length (paceInputData i)) @ paceInputData i)"

section \<open>Error codes of the reader\<close>

datatype EstablishPaceChannelErrorCode =
    EC_NoError | EC_InconsistentLengthsInInput | EC_UnexpectedDataInInput
  | EC_UnexpectedCombinationOfDataInInput | EC_SyntaxErrorInTLVResponse
  | EC_UnexpectedOrMissingObjectInTLVResponse | EC_UnknownPasswordID
  | EC_WrongAuthenticationToken | EC_CertificateChainForTerminalAuthenticationCannotBeBuilt
  | EC_UnexpectedDataStructureInResponseToChipAuthentication | EC_PassiveAuthenticationFailed
  | EC_IncorrectTokenForChipAuthentication | EC_GeneralAuthenticateStep1_4_Warning
  | EC_CommunicationAbort | EC_NoCard | EC_Abort | EC_Timeout

fun paceErrorValue :: "EstablishPaceChannelErrorCode \<Rightarrow> nat" where
  "paceErrorValue EC_NoError = 0x00000000"
| "paceErrorValue EC_InconsistentLengthsInInput = 0xD0000001"
| "paceErrorValue EC_UnexpectedDataInInput = 0xD0000002"
| "paceErrorValue EC_UnexpectedCombinationOfDataInInput = 0xD0000003"
| "paceErrorValue EC_SyntaxErrorInTLVResponse = 0xE0000001"
| "paceErrorValue EC_UnexpectedOrMissingObjectInTLVResponse = 0xE0000002"
| "paceErrorValue EC_UnknownPasswordID = 0xE0000003"
| "paceErrorValue EC_WrongAuthenticationToken = 0xE0000006"
| "paceErrorValue EC_CertificateChainForTerminalAuthenticationCannotBeBuilt = 0xE0000007"
| "paceErrorValue EC_UnexpectedDataStructureInResponseToChipAuthentication = 0xE0000008"
| "paceErrorValue EC_PassiveAuthenticationFailed = 0xE0000009"
| "paceErrorValue EC_IncorrectTokenForChipAuthentication = 0xE000000A"
| "paceErrorValue EC_GeneralAuthenticateStep1_4_Warning = 0xf0066300"
| "paceErrorValue EC_CommunicationAbort = 0xF0100001"
| "paceErrorValue EC_NoCard = 0xF0100002"
| "paceErrorValue EC_Abort = 0xF0200001"
| "paceErrorValue EC_Timeout = 0xF0200002"

definition paceErrorCode_list :: "EstablishPaceChannelErrorCode list" where
  "paceErrorCode_list =
    [EC_NoError, EC_InconsistentLengthsInInput, EC_UnexpectedDataInInput,
     EC_UnexpectedCombinationOfDataInInput, EC_SyntaxErrorInTLVResponse,
     EC_UnexpectedOrMissingObjectInTLVResponse, EC_UnknownPasswordID,
     EC_WrongAuthenticationToken, EC_CertificateChainForTerminalAuthenticationCannotBeBuilt,
     EC_UnexpectedDataStructureInResponseToChipAuthentication, EC_PassiveAuthenticationFailed,
     EC_IncorrectTokenForChipAuthentication, EC_GeneralAuthenticateStep1_4_Warning,
     EC_CommunicationAbort, EC_NoCard, EC_Abort, EC_Timeout]"

interpretation pace_error: enum_type paceErrorValue paceErrorCode_list
proof
  fix e :: EstablishPaceChannelErrorCode
  show "e \<in> set paceErrorCode_list"
    by (cases e) (simp_all add: paceErrorCode_list_def)
  show "distinct (map paceErrorValue paceErrorCode_list)"
    by (simp add: paceErrorCode_list_def)
qed

text \<open>
  The first switch compares the raw value with the enumerators, the second looks at the upper
  and the third byte. \<open>c & 0xffff0000\<close> is compared through the quotient by 65536, and
  \<open>(c & 0xff00) == 0x6300\<close> through the second lowest byte.
\<close>

definition wrongPasswordCode :: "PacePasswordId \<Rightarrow> CardReturnCode" where
  "wrongPasswordCode pPasswordId =
    (case pPasswordId of
        PACE_MRZ \<Rightarrow> CR_INVALID_CAN
      | PACE_CAN \<Rightarrow> CR_INVALID_CAN
      | PACE_PIN \<Rightarrow> CR_INVALID_PIN
      | PACE_PUK \<Rightarrow> CR_INVALID_PUK
      | PW_UNKNOWN \<Rightarrow> CR_UNKNOWN)"

definition parseWrappedCode :: "nat \<Rightarrow> PacePasswordId \<Rightarrow> CardReturnCode" where
  "parseWrappedCode pPaceReturnCode pPasswordId =
    (if pPaceReturnCode div 65536 \<in> {0xf003, 0xf004, 0xf005, 0xf006} \<and>
        pPaceReturnCode div 256 mod 256 = 0x63
     then wrongPasswordCode pPasswordId else CR_UNKNOWN)"

definition parseReturnCode :: "nat \<Rightarrow> PacePasswordId \<Rightarrow> CardReturnCode" where
  "parseReturnCode pPaceReturnCode pPasswordId =
    (case enum_ofValue paceErrorValue paceErrorCode_list pPaceReturnCode of
        Some EC_NoError \<Rightarrow> CR_OK
      | Some EC_InconsistentLengthsInInput \<Rightarrow> CR_COMMAND_FAILED
      | Some EC_UnexpectedDataInInput \<Rightarrow> CR_COMMAND_FAILED
      | Some EC_UnexpectedCombinationOfDataInInput \<Rightarrow> CR_COMMAND_FAILED
      | Some EC_SyntaxErrorInTLVResponse \<Rightarrow> CR_COMMAND_FAILED
      | Some EC_UnexpectedOrMissingObjectInTLVResponse \<Rightarrow> CR_COMMAND_FAILED
      | Some EC_UnknownPasswordID \<Rightarrow> CR_COMMAND_FAILED
      | Some EC_WrongAuthenticationToken \<Rightarrow> CR_COMMAND_FAILED
      | Some EC_CommunicationAbort \<Rightarrow> CR_COMMAND_FAILED
      | Some EC_NoCard \<Rightarrow> CR_CARD_NOT_FOUND
      | Some EC_Abort \<Rightarrow> CR_CANCELLATION_BY_USER
      | Some EC_Timeout \<Rightarrow> CR_INPUT_TIME_OUT
      | _ \<Rightarrow> parseWrappedCode pPaceReturnCode pPasswordId)"

definition generateReturnCode :: "CardReturnCode \<Rightarrow> EstablishPaceChannelErrorCode" where
  "generateReturnCode pReturnCode =
    (case pReturnCode of
        CR_INVALID_CAN \<Rightarrow> EC_GeneralAuthenticateStep1_4_Warning
      | CR_INVALID_PIN \<Rightarrow> EC_GeneralAuthenticateStep1_4_Warning
      | CR_INVALID_PIN_2 \<Rightarrow> EC_GeneralAuthenticateStep1_4_Warning
      | CR_INVALID_PIN_3 \<Rightarrow> EC_GeneralAuthenticateStep1_4_Warning
      | CR_INVALID_PUK \<Rightarrow> EC_GeneralAuthenticateStep1_4_Warning
      | CR_OK \<Rightarrow> EC_NoError
      | CR_OK_PUK \<Rightarrow> EC_NoError
      | CR_CARD_NOT_FOUND \<Rightarrow> EC_NoCard
      | CR_RETRY_ALLOWED \<Rightarrow> EC_NoCard
      | CR_INPUT_TIME_OUT \<Rightarrow> EC_Timeout
      | CR_COMMAND_FAILED \<Rightarrow> EC_CommunicationAbort
      | CR_CANCELLATION_BY_USER \<Rightarrow> EC_Abort
      | _ \<Rightarrow> EC_UnexpectedDataInInput)"

section \<open>Parsing the output of a PC/SC reader\<close>

record pace_output =
  po_returnCode :: CardReturnCode
  po_efCardAccess :: bytes
  po_carCurr :: bytes
  po_carPrev :: bytes
  po_idIcc :: bytes
  po_statusMseSetAt :: bytes

definition emptyPaceOutput :: pace_output where
  "emptyPaceOutput = \<lparr>po_returnCode = CR_UNKNOWN, po_efCardAccess = [], po_carCurr = [],
     po_carPrev = [], po_idIcc = [], po_statusMseSetAt = []\<rparr>"

definition rdByte :: "bytes \<Rightarrow> nat \<Rightarrow> nat option" where
  "rdByte b i = (if i < length b then Some (unat (b ! i)) else if i = length b then Some 0 else None)"

definition rdLE16 :: "bytes \<Rightarrow> nat \<Rightarrow> nat option" where
  "rdLE16 b i = (case (rdByte b i, rdByte b (i + 1)) of
                   (Some lo, Some hi) \<Rightarrow> Some (lo + 256 * hi)
                 | _ \<Rightarrow> None)"

text \<open>\<open>readByteArray<quint8>\<close> and \<open>readByteArray<quint16>\<close>: the array and the new offset.\<close>

definition readByteArray8 :: "bytes \<Rightarrow> nat \<Rightarrow> (bytes \<times> nat) option" where
  "readByteArray8 pInput pOffset =
    (case rdByte pInput pOffset of
       None \<Rightarrow> None
     | Some len \<Rightarrow> Some (mid (pOffset + 1) len pInput, pOffset + 1 + len))"

definition readByteArray16 :: "bytes \<Rightarrow> nat \<Rightarrow> (bytes \<times> nat) option" where
  "readByteArray16 pInput pOffset =
    (case rdLE16 pInput pOffset of
       None \<Rightarrow> None
     | Some len \<Rightarrow> Some (mid (pOffset + 2) len pInput, pOffset + 2 + len))"

text \<open>The optional tail: both CARs and the compressed card key.\<close>

definition parsePcscTail :: "bytes \<Rightarrow> nat \<Rightarrow> pace_output \<Rightarrow> pace_output option" where
  "parsePcscTail out it po =
    (if length out \<le> it then Some po
     else
      (case readByteArray8 out it of
         None \<Rightarrow> None
       | Some (carC, it1) \<Rightarrow>
        (case readByteArray8 out it1 of
           None \<Rightarrow> None
         | Some (carP, it2) \<Rightarrow>
          (case readByteArray16 out it2 of
             None \<Rightarrow> None
           | Some (icc, it3) \<Rightarrow>
             Some (po\<lparr>po_carCurr := carC, po_carPrev := carP, po_idIcc := icc\<rparr>)))))"

definition parsePcscOutput :: "bytes \<Rightarrow> PacePasswordId \<Rightarrow> pace_output \<Rightarrow> pace_output option" where
  "parsePcscOutput pControlOutput pPasswordId po =
    (if length pControlOutput < 6 then Some po
     else
      (let po1 = po\<lparr>po_returnCode := parseReturnCode (from_le (take 4 pControlOutput)) pPasswordId\<rparr>;
           dataLength = from_le (mid 4 2 pControlOutput)
       in
       if length pControlOutput < 6 + dataLength then Some po1
       else if dataLength = 0 then Some po1
       else
        (case (rdByte pControlOutput 6, rdByte pControlOutput 7) of
           (Some _, Some _) \<Rightarrow>
            (case readByteArray16 pControlOutput 8 of
               None \<Rightarrow> None
             | Some (ef, it) \<Rightarrow> parsePcscTail pControlOutput it (po1\<lparr>po_efCardAccess := ef\<rparr>))
         | _ \<Rightarrow> None)))"

section \<open>The CCID form (TR-03119), as remote readers use it\<close>

text \<open>
  The SEQUENCE \<open>ESTABLISHPACECHANNELOUTPUT\<close> with its optional fields. Encoding and decoding
  of the sequence are OpenSSL's, a parameter: encoding fails when the mandatory
  \<open>SecurityInfos\<close> are missing, \<open>norm_secinfos\<close> decodes \<open>SecurityInfos\<close> and
  encodes them again.
\<close>

record pace_output_seq =
  os_errorCode :: bytes
  os_statusMSESetAt :: "bytes option"
  os_efCardAccess :: "bytes option"
  os_idPICC :: "bytes option"
  os_curCAR :: "bytes option"
  os_prevCAR :: "bytes option"

record pace_asn1 =
  i2d_out :: "pace_output_seq \<Rightarrow> bytes option"
  d2i_out :: "bytes \<Rightarrow> pace_output_seq option"
  norm_secinfos :: "bytes \<Rightarrow> bytes option"

text \<open>
  A sequence whose mandatory \<open>SecurityInfos\<close> are present is encoded, and decoded back to
  itself.
\<close>

definition output_seq_law :: "pace_asn1 \<Rightarrow> pace_output_seq \<Rightarrow> bool" where
  "output_seq_law P s \<longleftrightarrow>
     (os_efCardAccess s \<noteq> None \<longrightarrow> (\<exists>b. i2d_out P s = Some b \<and> d2i_out P b = Some s))"

definition toCcidSeq :: "pace_asn1 \<Rightarrow> pace_output \<Rightarrow> pace_output_seq" where
  "toCcidSeq P po =
    \<lparr>os_errorCode = be32 (paceErrorValue (generateReturnCode (po_returnCode po))),
     os_statusMSESetAt = Some (if po_statusMseSetAt po = [] then [0, 0] else po_statusMseSetAt po),
     os_efCardAccess = norm_secinfos P (po_efCardAccess po),
     os_idPICC = Some (po_idIcc po), os_curCAR = Some (po_carCurr po),
     os_prevCAR = Some (po_carPrev po)\<rparr>"

definition toCcid :: "pace_asn1 \<Rightarrow> pace_output \<Rightarrow> bytes" where
  "toCcid P po = getOctetValue (i2d_out P (toCcidSeq P po)) @ be16 (statusValue SC_SUCCESS)"

text \<open>
  The fallback on a regular expression over the hexadecimal text:
  \<open>(.*)a1060404(?<a1>([[:xdigit:]]){8})a2040402\<close>. The leading \<open>.*\<close> is greedy, so the
  last place of the text where the rest matches is taken; every character of the text is a
  hexadecimal digit. The text is a list of nibbles.
\<close>

definition nibbles :: "bytes \<Rightarrow> nat list" where
  "nibbles bs = concat (map (\<lambda>b. [unat b div 16, unat b mod 16]) bs)"

fun unnibbles :: "nat list \<Rightarrow> bytes" where
  "unnibbles (h # l # r) = word_of_nat (16 * h + l) # unnibbles r"
| "unnibbles _ = []"

definition errorCodeMatchAt :: "nat list \<Rightarrow> bool" where
  "errorCodeMatchAt t \<longleftrightarrow>
     24 \<le> length t \<and> take 8 t = [0xa, 1, 0, 6, 0, 4, 0, 4] \<and>
     take 8 (drop 16 t) = [0xa, 2, 0, 4, 0, 4, 0, 2]"

fun lastErrorCodeMatch :: "nat list \<Rightarrow> nat list option" where
  "lastErrorCodeMatch [] = None"
| "lastErrorCodeMatch (n # t) =
    (case lastErrorCodeMatch t of
       Some m \<Rightarrow> Some m
     | None \<Rightarrow> if errorCodeMatchAt (n # t) then Some (take 8 (drop 8 (n # t))) else None)"

text \<open>
  \<open>QDataStream >> quint32\<close>: big-endian, and 0 when fewer than four bytes are left.
\<close>

definition streamU32 :: "bytes \<Rightarrow> nat" where
  "streamU32 b = (if length b < 4 then 0 else from_be (take 4 b))"

definition parseFromCcid :: "pace_asn1 \<Rightarrow> bytes \<Rightarrow> PacePasswordId \<Rightarrow> pace_output" where
  "parseFromCcid P pOutput pPasswordId =
    (if length pOutput < 2 then emptyPaceOutput
     else
      (let outputData = take (length pOutput - 2) pOutput in
       case d2i_out P outputData of
         None \<Rightarrow>
          (case lastErrorCodeMatch (nibbles outputData) of
             None \<Rightarrow> emptyPaceOutput
           | Some a1 \<Rightarrow> emptyPaceOutput\<lparr>po_returnCode :=
                          parseReturnCode (streamU32 (unnibbles a1)) pPasswordId\<rparr>)
       | Some s \<Rightarrow>
          \<lparr>po_returnCode = parseReturnCode (streamU32 (os_errorCode s)) pPasswordId,
           po_efCardAccess = getOctetValue (os_efCardAccess s),
           po_carCurr = getOctetValue (os_curCAR s),
           po_carPrev = getOctetValue (os_prevCAR s),
           po_idIcc = getOctetValue (os_idPICC s),
           po_statusMseSetAt = getOctetValue (os_statusMSESetAt s)\<rparr>))"

section \<open>The CCID form of the command\<close>

text \<open>
  The SEQUENCE \<open>ESTABLISHPACECHANNELINPUT\<close>; a field is absent when the code leaves its
  pointer null. \<open>norm_certdesc\<close> decodes a certificate description and encodes it again.
\<close>

record pace_input_seq =
  is_passwordID :: "int option"
  is_chat :: "bytes option"
  is_certificateDescription :: "bytes option"

record pace_input_asn1 =
  i2d_in :: "pace_input_seq \<Rightarrow> bytes option"
  d2i_in :: "bytes \<Rightarrow> pace_input_seq option"
  norm_certdesc :: "bytes \<Rightarrow> bytes option"

definition toCcidInputSeq :: "pace_input_asn1 \<Rightarrow> pace_input \<Rightarrow> pace_input_seq" where
  "toCcidInputSeq P i =
    \<lparr>is_passwordID = Some (uint (passwordIdValue (pi_passwordId i))),
     is_chat = pi_chat i,
     is_certificateDescription =
       (if pi_certificateDescription i = [] then None
        else norm_certdesc P (pi_certificateDescription i))\<rparr>"

definition createCommandDataCcid :: "pace_input_asn1 \<Rightarrow> pace_input \<Rightarrow> bytes" where
  "createCommandDataCcid P i =
     CommandApdu 0xFF 0x9A 0x04 0x02 (getOctetValue (i2d_in P (toCcidInputSeq P i))) 256"

record pace_parser =
  pp_passwordId :: PacePasswordId
  pp_chat :: bytes
  pp_certificateDescription :: bytes
  pp_commandData :: bytes

definition defaultPaceParser :: pace_parser where
  "defaultPaceParser = \<lparr>pp_passwordId = PACE_PIN, pp_chat = [], pp_certificateDescription = [],
     pp_commandData = []\<rparr>"

text \<open>A missing or unknown password identifier is taken for the PIN (and logged).\<close>

definition ccidPasswordId :: "int option \<Rightarrow> PacePasswordId" where
  "ccidPasswordId p =
    (case p of
       None \<Rightarrow> PACE_PIN
     | Some v \<Rightarrow> (case enum_ofValue passwordIdValue PacePasswordId_list (word_of_int v) of
                    None \<Rightarrow> PACE_PIN | Some w \<Rightarrow> w))"

definition fromCcid :: "pace_input_asn1 \<Rightarrow> bytes \<Rightarrow> pace_parser" where
  "fromCcid P pInput =
    (if getCLA pInput \<noteq> 0xFF \<or> getINS pInput \<noteq> 0x9A \<or> getP1 pInput \<noteq> 0x04 \<or> getP2 pInput \<noteq> 0x02
     then defaultPaceParser
     else
      (let commandData = getData pInput in
       case d2i_in P commandData of
         None \<Rightarrow> defaultPaceParser
       | Some s \<Rightarrow>
          (let passwordId = ccidPasswordId (is_passwordID s);
               both = (passwordId = PACE_PIN \<or> passwordId = PACE_CAN)
           in \<lparr>pp_passwordId = passwordId,
               pp_chat = (if both then getOctetValue (is_chat s) else []),
               pp_certificateDescription =
                 (if both then getOctetValue (is_certificateDescription s) else []),
               pp_commandData = commandData\<rparr>)))"

definition input_seq_law :: "pace_input_asn1 \<Rightarrow> pace_input_seq \<Rightarrow> bool" where
  "input_seq_law P s \<longleftrightarrow> (\<exists>b. i2d_in P s = Some b \<and> d2i_in P b = Some s \<and> length b \<le> 0xffff)"

section \<open>Properties of the return codes\<close>

lemma parse_generate:
  "parseReturnCode (paceErrorValue (generateReturnCode c)) pw =
    (case c of
        CR_OK \<Rightarrow> CR_OK | CR_OK_PUK \<Rightarrow> CR_OK
      | CR_CARD_NOT_FOUND \<Rightarrow> CR_CARD_NOT_FOUND | CR_RETRY_ALLOWED \<Rightarrow> CR_CARD_NOT_FOUND
      | CR_INPUT_TIME_OUT \<Rightarrow> CR_INPUT_TIME_OUT
      | CR_CANCELLATION_BY_USER \<Rightarrow> CR_CANCELLATION_BY_USER
      | CR_INVALID_CAN \<Rightarrow> wrongPasswordCode pw | CR_INVALID_PIN \<Rightarrow> wrongPasswordCode pw
      | CR_INVALID_PIN_2 \<Rightarrow> wrongPasswordCode pw | CR_INVALID_PIN_3 \<Rightarrow> wrongPasswordCode pw
      | CR_INVALID_PUK \<Rightarrow> wrongPasswordCode pw
      | _ \<Rightarrow> CR_COMMAND_FAILED)"
  unfolding parseReturnCode_def pace_error.ofValue_val
  by (cases c) (simp_all add: generateReturnCode_def parseWrappedCode_def)

text \<open>
  A PACE return code that a reader turns into the error code of TR-03119 and the client
  turns back is a success exactly when it was one, and a wrong password when it was one: the
  result then names the password that was asked for. No other code becomes a success.
\<close>

theorem pace_code_survives_remote_reader:
  "(parseReturnCode (paceErrorValue (generateReturnCode c)) pw = CR_OK
      \<longleftrightarrow> c = CR_OK \<or> c = CR_OK_PUK) \<and>
   (c \<in> {CR_INVALID_CAN, CR_INVALID_PIN, CR_INVALID_PIN_2, CR_INVALID_PIN_3, CR_INVALID_PUK}
      \<longrightarrow> parseReturnCode (paceErrorValue (generateReturnCode c)) pw = wrongPasswordCode pw)"
  unfolding parse_generate
  by (cases c) (auto simp: wrongPasswordCode_def split: PacePasswordId.splits)

theorem pace_code_survives_remote_reader_witness:
  "parseReturnCode (paceErrorValue (generateReturnCode CR_INVALID_PIN_3)) PACE_PIN = CR_INVALID_PIN"
  using pace_code_survives_remote_reader [of CR_INVALID_PIN_3 PACE_PIN]
  by (simp add: wrongPasswordCode_def)

lemma parseReturnCode_OK_iff: "parseReturnCode n pw = CR_OK \<longleftrightarrow> n = 0"
proof -
  have "enum_ofValue paceErrorValue paceErrorCode_list n = Some EC_NoError \<longleftrightarrow> n = 0"
    by (simp add: pace_error.ofValue_Some_iff)
  moreover have "parseWrappedCode n pw \<noteq> CR_OK"
    by (auto simp: parseWrappedCode_def wrongPasswordCode_def split: PacePasswordId.splits)
  ultimately show ?thesis
    by (auto simp: parseReturnCode_def split: option.splits EstablishPaceChannelErrorCode.splits)
qed

lemma wrapped_not_enumerator:
  assumes "step \<in> {3, 4, 5, 6}" "sw2 < 256" "step \<noteq> 6 \<or> sw2 \<noteq> 0"
  shows "enum_ofValue paceErrorValue paceErrorCode_list (0xf0006300 + 65536 * step + sw2) = None"
proof (cases "enum_ofValue paceErrorValue paceErrorCode_list (0xf0006300 + 65536 * step + sw2)")
  case (Some e)
  then have eq: "0xf0006300 + 65536 * step + sw2 = paceErrorValue e"
    by (simp add: pace_error.ofValue_Some_iff)
  have bounds: "3 \<le> step" "step \<le> 6" using assms(1) by auto
  have "0xf0006300 + 65536 * step + sw2 \<noteq> 0xf0066300"
  proof (cases "step = 6")
    case False
    with bounds have "step \<le> 5" by simp
    with assms(2) show ?thesis by linarith
  qed (use assms(3) in simp)
  moreover note bounds
  then have "0xf0030000 \<le> paceErrorValue e" "paceErrorValue e < 0xf0070000"
    using assms(2) eq by linarith+
  then have "e = EC_GeneralAuthenticateStep1_4_Warning" by (cases e) simp_all
  ultimately show ?thesis using eq by simp
qed simp

text \<open>
  A status word 0x63XX of the card in one of the four GENERAL AUTHENTICATE steps, as the
  reader wraps it into 0xF003..0xF006, means a wrong password for the password in use, for
  every XX (for a PIN, XX holds the remaining retries).
\<close>

theorem general_authenticate_warning_is_wrong_password:
  assumes "step \<in> {3, 4, 5, 6}" and "sw2 < 256"
  shows "parseReturnCode (0xf0006300 + 65536 * step + sw2) pw = wrongPasswordCode pw"
proof (cases "step = 6 \<and> sw2 = 0")
  case True
  then show ?thesis
    using parse_generate [of CR_INVALID_PIN pw] by (simp add: generateReturnCode_def)
next
  case False
  have "(0xf0006300 + 65536 * step + sw2) div 65536 = 0xf000 + step"
    using assms by auto
  moreover have "(0xf0006300 + 65536 * step + sw2) div 256 mod 256 = 0x63"
  proof -
    have "0xf0006300 + 65536 * step + sw2 = sw2 + 256 * (0xf00063 + 256 * step)"
      by simp
    also have "\<dots> div 256 = 0xf00063 + 256 * step"
      using assms(2) by (subst div_mult_self2) simp_all
    finally show ?thesis
      by (simp add: mod_add_left_eq [of "0xf00063" 256, symmetric] del: mod_add_left_eq)
  qed
  ultimately show ?thesis
    using False assms wrapped_not_enumerator [of step sw2]
    by (auto simp: parseReturnCode_def parseWrappedCode_def)
qed

theorem general_authenticate_warning_is_wrong_password_witness:
  "parseReturnCode 0xf00663c2 PACE_PIN = CR_INVALID_PIN"
  using general_authenticate_warning_is_wrong_password [of 6 "0xc2" PACE_PIN]
  by (simp add: wrongPasswordCode_def)

section \<open>Properties of the parsers\<close>

text \<open>An instance of the sequence codec for witnesses: it remembers one sequence.\<close>

definition one_seq_asn1 :: "pace_output_seq \<Rightarrow> pace_asn1" where
  "one_seq_asn1 s0 =
    \<lparr>i2d_out = (\<lambda>s. if s = s0 then Some [0x30] else None),
     d2i_out = (\<lambda>b. if b = [0x30] then Some s0 else None),
     norm_secinfos = (\<lambda>b. Some b)\<rparr>"

text \<open>
  The answer of a remote reader survives its CCID form: what the client parses out of
  \<open>toCcid\<close> has the same CARs, card key and EF.CardAccess, the status of MSE:Set AT (0000
  when the reader had none), and the return code of the reader up to the classes that TR-03119
  can express. The decoding of the SEQUENCE is assumed to invert its encoding, and EF.CardAccess
  to be \<open>SecurityInfos\<close> in the encoding OpenSSL gives back.
\<close>

theorem ccid_output_roundtrip:
  assumes "output_seq_law P (toCcidSeq P po)"
    and "norm_secinfos P (po_efCardAccess po) = Some (po_efCardAccess po)"
  shows "parseFromCcid P (toCcid P po) pw =
    po\<lparr>po_returnCode := parseReturnCode (paceErrorValue (generateReturnCode (po_returnCode po))) pw,
       po_statusMseSetAt := (if po_statusMseSetAt po = [] then [0, 0] else po_statusMseSetAt po)\<rparr>"
proof -
  obtain b where b: "i2d_out P (toCcidSeq P po) = Some b" "d2i_out P b = Some (toCcidSeq P po)"
    using assms by (auto simp: output_seq_law_def toCcidSeq_def)
  have less: "paceErrorValue e < 4294967296" for e
    by (cases e) simp_all
  have "streamU32 (be32 (paceErrorValue e)) = paceErrorValue e" for e
    using less [of e] by (simp add: streamU32_def from_be_be32)
  then show ?thesis
    using assms(2) b
    by (simp add: parseFromCcid_def toCcid_def getOctetValue_def Let_def) (simp add: toCcidSeq_def)
qed

theorem ccid_output_roundtrip_witness:
  "po_carCurr (parseFromCcid (one_seq_asn1 (toCcidSeq (one_seq_asn1 undefined)
      (emptyPaceOutput\<lparr>po_carCurr := [7]\<rparr>)))
     (toCcid (one_seq_asn1 (toCcidSeq (one_seq_asn1 undefined) (emptyPaceOutput\<lparr>po_carCurr := [7]\<rparr>)))
       (emptyPaceOutput\<lparr>po_carCurr := [7]\<rparr>)) PACE_PIN) = [7]"
proof -
  let ?po = "emptyPaceOutput\<lparr>po_carCurr := [7]\<rparr>"
  let ?s = "toCcidSeq (one_seq_asn1 undefined) ?po"
  have s: "toCcidSeq (one_seq_asn1 ?s) ?po = ?s"
    by (simp add: toCcidSeq_def one_seq_asn1_def)
  have "output_seq_law (one_seq_asn1 ?s) (toCcidSeq (one_seq_asn1 ?s) ?po)"
    unfolding s by (simp add: output_seq_law_def one_seq_asn1_def)
  moreover have "norm_secinfos (one_seq_asn1 ?s) (po_efCardAccess ?po) = Some (po_efCardAccess ?po)"
    by (simp add: one_seq_asn1_def)
  ultimately show ?thesis
    by (subst ccid_output_roundtrip) simp_all
qed

lemma rdByte_less: "i < length b \<Longrightarrow> rdByte b i = Some (unat (b ! i))"
  by (simp add: rdByte_def)

lemma le16_value: "n < 65536 \<Longrightarrow> unat (low_byte n) + 256 * unat (high_byte n) = n"
  using from_be_pair [of n] by simp

lemma rdLE16_append:
  assumes "n < 65536" "length pre = i"
  shows "rdLE16 (pre @ le16 n @ rest) i = Some n"
  using assms le16_value [of n]
  by (simp add: rdLE16_def rdByte_def nth_append le16_def del: unat_low_byte unat_high_byte)

lemma readByteArray16_append:
  assumes "length v < 65536" "length pre = i"
  shows "readByteArray16 (pre @ le16 (length v) @ v @ rest) i = Some (v, i + 2 + length v)"
proof -
  have "mid (i + 2) (length v) (pre @ le16 (length v) @ v @ rest) = v"
    using assms by (simp add: mid_def)
  then show ?thesis
    using assms rdLE16_append [OF assms, of "v @ rest"] by (simp add: readByteArray16_def)
qed

lemma readByteArray8_append:
  assumes "length v < 256" "length pre = i"
  shows "readByteArray8 (pre @ [low_byte (length v)] @ v @ rest) i = Some (v, i + 1 + length v)"
proof -
  have "mid (i + 1) (length v) (pre @ [low_byte (length v)] @ v @ rest) = v"
    using assms by (simp add: mid_def)
  then show ?thesis
    using assms by (simp add: readByteArray8_def rdByte_def nth_append)
qed

text \<open>
  The layout of PC/SC part 10, amendment 1.1: the return code, the length of the response data
  and the data (status of MSE:Set AT, EF.CardAccess, both CARs, compressed card key).
\<close>

definition pcscResponseData :: "bytes \<Rightarrow> bytes \<Rightarrow> bytes \<Rightarrow> bytes \<Rightarrow> bytes \<Rightarrow> bytes" where
  "pcscResponseData st ef carC carP icc =
     st @ le16 (length ef) @ ef @ [low_byte (length carC)] @ carC @
     [low_byte (length carP)] @ carP @ le16 (length icc) @ icc"

definition pcscOutput :: "nat \<Rightarrow> bytes \<Rightarrow> bytes" where
  "pcscOutput rc d = le32 rc @ le16 (length d) @ d"

lemma parsePcscTail_layout:
  assumes "length pre = it" "length carC < 256" "length carP < 256" "length icc < 65536"
  shows "parsePcscTail (pre @ [low_byte (length carC)] @ carC @ [low_byte (length carP)] @ carP
           @ le16 (length icc) @ icc) it po =
         Some (po\<lparr>po_carCurr := carC, po_carPrev := carP, po_idIcc := icc\<rparr>)"
proof -
  let ?out = "pre @ [low_byte (length carC)] @ carC @ [low_byte (length carP)] @ carP
     @ le16 (length icc) @ icc"
  have 1: "readByteArray8 ?out it = Some (carC, it + 1 + length carC)"
    using readByteArray8_append [OF assms(2,1)] by simp
  have 2: "readByteArray8 ?out (it + 1 + length carC)
      = Some (carP, it + 1 + length carC + 1 + length carP)"
    using readByteArray8_append [OF assms(3), of "pre @ [low_byte (length carC)] @ carC"]
      assms(1) by simp
  have 3: "readByteArray16 ?out (it + 1 + length carC + 1 + length carP)
      = Some (icc, it + 1 + length carC + 1 + length carP + 2 + length icc)"
    using readByteArray16_append [OF assms(4),
        of "pre @ [low_byte (length carC)] @ carC @ [low_byte (length carP)] @ carP" _ "[]"]
      assms(1) by (simp add: add.assoc)
  have "\<not> length ?out \<le> it" using assms(1) by simp
  then show ?thesis
    unfolding parsePcscTail_def by (simp only: 1 2 3 if_False option.case prod.case)
qed

text \<open>
  An answer of a PC/SC reader in the layout of PC/SC part 10 is read without touching a byte
  outside of it, and every field is found: EF.CardAccess, the current and the previous CAR and
  the compressed key of the card, with the translated return code.
\<close>

theorem pcsc_output_parsed:
  assumes "length st = 2" and "length ef < 65536" and "length carC < 256" and "length carP < 256"
    and "length icc < 65536" and "rc < 4294967296"
    and "length (pcscResponseData st ef carC carP icc) < 65536"
  shows "parsePcscOutput (pcscOutput rc (pcscResponseData st ef carC carP icc)) pw po =
    Some (po\<lparr>po_returnCode := parseReturnCode rc pw, po_efCardAccess := ef,
             po_carCurr := carC, po_carPrev := carP, po_idIcc := icc\<rparr>)"
proof -
  let ?d = "pcscResponseData st ef carC carP icc"
  let ?out = "pcscOutput rc ?d"
  let ?pre = "le32 rc @ le16 (length ?d) @ st"
  have out: "?out = ?pre @ le16 (length ef) @ ef @ [low_byte (length carC)] @ carC @
      [low_byte (length carP)] @ carP @ le16 (length icc) @ icc"
    by (simp add: pcscOutput_def pcscResponseData_def)
  have len: "length ?out = 6 + length ?d" "2 \<le> length ?d"
    using assms(1) by (simp_all add: pcscOutput_def pcscResponseData_def)
  have "take 4 ?out = le32 rc" by (simp add: pcscOutput_def)
  then have rc: "from_le (take 4 ?out) = rc"
    using assms(6) by (simp add: from_le_le32)
  have "mid 4 2 ?out = le16 (length ?d)" by (simp add: pcscOutput_def mid_def)
  then have dl: "from_le (mid 4 2 ?out) = length ?d"
    using assms(7) by (simp add: from_le_le16)
  have ef: "readByteArray16 ?out 8 = Some (ef, 10 + length ef)"
    using readByteArray16_append [OF assms(2), of ?pre 8] assms(1) by (simp add: out)
  have tail: "parsePcscTail ?out (10 + length ef) q =
      Some (q\<lparr>po_carCurr := carC, po_carPrev := carP, po_idIcc := icc\<rparr>)" for q
    using parsePcscTail_layout [of "?pre @ le16 (length ef) @ ef" "10 + length ef" carC carP icc q]
      assms by (simp add: out)
  have rd: "rdByte ?out 6 \<noteq> None" "rdByte ?out 7 \<noteq> None"
  proof -
    have "7 < length ?out" "6 < length ?out" using len by linarith+
    then show "rdByte ?out 6 \<noteq> None" "rdByte ?out 7 \<noteq> None" by (simp_all add: rdByte_less)
  qed
  then obtain x y where xy: "rdByte ?out 6 = Some x" "rdByte ?out 7 = Some y" by blast
  have "\<not> length ?out < 6" "\<not> length ?out < 6 + length ?d" "length ?d \<noteq> 0"
    using len by linarith+
  then have conds: "(length ?out < 6) = False" "(length ?out < 6 + length ?d) = False"
    "(length ?d = 0) = False" by simp_all
  show ?thesis
    unfolding parsePcscOutput_def rc dl Let_def conds if_False xy option.case prod.case ef tail
    by simp
qed

theorem pcsc_output_parsed_witness:
  "parsePcscOutput (pcscOutput 0 (pcscResponseData [0x90, 0] [0x31, 0] [0x44] [] [7])) PACE_PIN
     emptyPaceOutput =
   Some (emptyPaceOutput\<lparr>po_returnCode := CR_OK, po_efCardAccess := [0x31, 0],
           po_carCurr := [0x44], po_carPrev := [], po_idIcc := [7]\<rparr>)"
proof -
  have "parseReturnCode 0 PACE_PIN = CR_OK" by (simp add: parseReturnCode_OK_iff)
  then show ?thesis
    using pcsc_output_parsed [of "[0x90, 0]" "[0x31, 0]" "[0x44]" "[]" "[7]" 0 PACE_PIN
        emptyPaceOutput]
    by (simp add: pcscResponseData_def)
qed

text \<open>
  The bounds check of the parser covers the declared length of the response data only, not
  the fields in them: a reader that declares one byte of data makes the parser read behind the
  end of the array.
\<close>

theorem pcsc_output_out_of_bounds:
  "parsePcscOutput (pcscOutput rc [b]) pw po = None"
proof -
  have "mid 4 2 (pcscOutput rc [b]) = le16 1"
    by (simp add: pcscOutput_def mid_def)
  then have "from_le (mid 4 2 (pcscOutput rc [b])) = 1"
    by (simp add: from_le_le16)
  moreover have "length (pcscOutput rc [b]) = 7"
    by (simp add: pcscOutput_def)
  ultimately show ?thesis
    by (simp add: parsePcscOutput_def Let_def readByteArray16_def rdLE16_def rdByte_def)
qed

text \<open>
  An error code of fewer than four bytes in the CCID answer of a remote reader is taken for
  the code 0, that is, for a PACE channel that was established.
\<close>

theorem short_error_code_is_success:
  assumes "d2i_out P d = Some s" and "length (os_errorCode s) < 4" and "length sw = 2"
  shows "po_returnCode (parseFromCcid P (d @ sw) pw) = CR_OK"
  using assms by (simp add: parseFromCcid_def Let_def streamU32_def parseReturnCode_OK_iff)

theorem short_error_code_is_success_witness:
  "po_returnCode (parseFromCcid (one_seq_asn1 \<lparr>os_errorCode = [0xf0], os_statusMSESetAt = None,
      os_efCardAccess = Some [], os_idPICC = None, os_curCAR = None, os_prevCAR = None\<rparr>)
      ([0x30] @ [0x90, 0x00]) PACE_PIN) = CR_OK"
  using short_error_code_is_success [of _ "[0x30]"
      "\<lparr>os_errorCode = [0xf0], os_statusMSESetAt = None, os_efCardAccess = Some [],
        os_idPICC = None, os_curCAR = None, os_prevCAR = None\<rparr>" "[0x90, 0x00]" PACE_PIN]
  by (simp add: one_seq_asn1_def)

text \<open>
  The command data for a PC/SC reader announce exactly the number of bytes that follow, and
  the announced lengths of the CHAT and of the certificate description lead to these fields.
\<close>

theorem pace_command_data_layout:
  assumes "length (chatBytes i) \<le> 0xFF" and "length (paceInputData i) \<le> 0xFFFF"
  shows "createPaceCommandData i = [0x02] @ le16 (length (paceInputData i)) @ paceInputData i \<and>
    readByteArray8 (paceInputData i) 1 = Some (chatBytes i, 2 + length (chatBytes i)) \<and>
    readByteArray16 (paceInputData i) (3 + length (chatBytes i))
      = Some (pi_certificateDescription i, length (paceInputData i))"
proof -
  let ?pw = "[passwordIdValue (pi_passwordId i)]"
  have desc: "length (pi_certificateDescription i) < 65536"
    using assms(2) by (simp add: paceInputData_def)
  then have "createPaceCommandData i = [0x02] @ le16 (length (paceInputData i)) @ paceInputData i"
    using assms by (simp add: createPaceCommandData_def)
  moreover have "readByteArray8 (paceInputData i) 1 = Some (chatBytes i, 2 + length (chatBytes i))"
    using readByteArray8_append [of "chatBytes i" ?pw 1] assms(1) by (simp add: paceInputData_def)
  moreover have "readByteArray16 (paceInputData i) (3 + length (chatBytes i))
      = Some (pi_certificateDescription i, length (paceInputData i))"
    using readByteArray16_append [OF desc,
        of "?pw @ [low_byte (length (chatBytes i))] @ chatBytes i @ [0]" "3 + length (chatBytes i)" "[]"]
    by (simp add: paceInputData_def)
  ultimately show ?thesis by blast
qed

theorem pace_command_data_layout_witness:
  "readByteArray8 (paceInputData \<lparr>pi_passwordId = PACE_PIN, pi_chat = Some [0x7f, 0x4c],
     pi_certificateDescription = [0x30]\<rparr>) 1 = Some ([0x7f, 0x4c], 4)"
  using pace_command_data_layout [of "\<lparr>pi_passwordId = PACE_PIN, pi_chat = Some [0x7f, 0x4c],
     pi_certificateDescription = [0x30]\<rparr>"] by (simp add: paceInputData_def chatBytes_def getOctetValue_def)

text \<open>
  The PIN modification structure has a fixed size per reader type (28 bytes for PC/SC, 23
  for Bluetooth), starts with the timeout and ends with the RESET RETRY COUNTER header; a
  remote reader reads the timeout back out of the PC/SC form.
\<close>

theorem pin_modification_structure:
  "length (createCcidForRemote t) = 28 \<and> pinModifyOfRemote (createCcidForRemote t) = t \<and>
   right 4 (createCcidForRemote t) = [0x00, 0x2C, 0x02, 0x03] \<and>
   getData (createCcidForBluetooth t)
     = 0x01 # t # [0x82, 0, 0, 0, 0, 6, 6, 1, 2, 2, 7, 4, 0, 1, 2, 0, 0, 0, 0, 0x2C, 2, 3] \<and>
   getINS (createCcidForBluetooth t) = 0x9A"
proof -
  have d: "createPinModificationDataStructure t PT_BLUETOOTH =
     t # [0x82, 0, 0, 0, 0, 6, 6, 1, 2, 2, 7, 4, 0, 1, 2, 0, 0, 0, 0, 0x2C, 2, 3]"
    by (simp add: createPinModificationDataStructure_def)
  have "getData (createCcidForBluetooth t) = [0x01] @ createPinModificationDataStructure t PT_BLUETOOTH
      \<and> getINS (createCcidForBluetooth t) = 0x9A"
    unfolding createCcidForBluetooth_def d
    using command_apdu_fields [of _ 0 "0xFF" "0x9A" "0x04" "0x10"] by simp
  then show ?thesis
    unfolding d
    by (simp add: createCcidForRemote_def createCcidForPcsc_def pinModifyOfRemote_def
        createPinModificationDataStructure_def right_def le32_def be32_def)
qed

lemma ccidPasswordId_value [simp]: "ccidPasswordId (Some (uint (passwordIdValue p))) = p"
  by (simp add: ccidPasswordId_def)

lemmas ccidPasswordId_values [simp] =
  ccidPasswordId_value [of PW_UNKNOWN, simplified] ccidPasswordId_value [of PACE_MRZ, simplified]
  ccidPasswordId_value [of PACE_CAN, simplified] ccidPasswordId_value [of PACE_PIN, simplified]
  ccidPasswordId_value [of PACE_PUK, simplified]

text \<open>
  The command that a client sends to a remote reader is understood by the reader's side: the
  password identifier comes through, and so do the CHAT and the certificate description for the
  PIN and the CAN; for the other passwords the reader drops both.
\<close>

theorem ccid_input_roundtrip:
  assumes "input_seq_law P (toCcidInputSeq P i)"
    and "norm_certdesc P (pi_certificateDescription i) = Some (pi_certificateDescription i)"
  shows "pp_passwordId (fromCcid P (createCommandDataCcid P i)) = pi_passwordId i \<and>
    (pi_passwordId i \<in> {PACE_PIN, PACE_CAN} \<longrightarrow>
       pp_chat (fromCcid P (createCommandDataCcid P i)) = chatBytes i \<and>
       pp_certificateDescription (fromCcid P (createCommandDataCcid P i))
         = pi_certificateDescription i) \<and>
    (pi_passwordId i \<notin> {PACE_PIN, PACE_CAN} \<longrightarrow>
       pp_chat (fromCcid P (createCommandDataCcid P i)) = [] \<and>
       pp_certificateDescription (fromCcid P (createCommandDataCcid P i)) = [])"
proof -
  obtain b where b: "i2d_in P (toCcidInputSeq P i) = Some b" "d2i_in P b = Some (toCcidInputSeq P i)"
    "length b \<le> 0xffff"
    using assms(1) by (auto simp: input_seq_law_def)
  let ?c = "createCommandDataCcid P i"
  have c: "?c = CommandApdu 0xFF 0x9A 0x04 0x02 b 256"
    by (simp add: createCommandDataCcid_def b(1) getOctetValue_def)
  have d: "getCLA ?c = 0xFF" "getINS ?c = 0x9A" "getP1 ?c = 0x04" "getP2 ?c = 0x02" "getData ?c = b"
    using command_apdu_fields [of b 256 "0xFF" "0x9A" "0x04" "0x02"] b(3) by (simp_all add: c)
  show ?thesis
    using assms(2)
    by (auto simp: fromCcid_def d b(2) Let_def toCcidInputSeq_def chatBytes_def getOctetValue_def)
qed

theorem ccid_input_roundtrip_witness:
  "pp_chat (fromCcid
      \<lparr>i2d_in = (\<lambda>s. Some [1]),
       d2i_in = (\<lambda>b. Some \<lparr>is_passwordID = Some 3, is_chat = Some [0x4c],
                              is_certificateDescription = None\<rparr>),
       norm_certdesc = (\<lambda>b. Some b)\<rparr>
      (createCommandDataCcid
        \<lparr>i2d_in = (\<lambda>s. Some [1]),
         d2i_in = (\<lambda>b. Some \<lparr>is_passwordID = Some 3, is_chat = Some [0x4c],
                                is_certificateDescription = None\<rparr>),
         norm_certdesc = (\<lambda>b. Some b)\<rparr>
        \<lparr>pi_passwordId = PACE_PIN, pi_chat = Some [0x4c], pi_certificateDescription = []\<rparr>)) = [0x4c]"
  using ccid_input_roundtrip [of
      "\<lparr>i2d_in = (\<lambda>s. Some [1]),
        d2i_in = (\<lambda>b. Some \<lparr>is_passwordID = Some 3, is_chat = Some [0x4c],
                               is_certificateDescription = None\<rparr>),
        norm_certdesc = (\<lambda>b. Some b)\<rparr>"
      "\<lparr>pi_passwordId = PACE_PIN, pi_chat = Some [0x4c], pi_certificateDescription = []\<rparr>"]
  by (simp add: input_seq_law_def toCcidInputSeq_def chatBytes_def getOctetValue_def)

end
