(* ===== verification/Protocols.thy ===== *)
theory Protocols
  imports Asn1 CardCodes
begin

text \<open>
  The protocols a card offers and the algorithms they stand for: object identifiers
  (src/src/card/base/asn1/KnownOIDs.cpp), \<open>PaceInfo\<close> and the acceptance of security infos
  (asn1/PaceInfo.cpp, asn1/ChipAuthenticationInfo.cpp, asn1/SecurityInfos.cpp), standardised
  curves (pace/ec/EllipticCurveFactory.cpp), key derivation (pace/KeyDerivationFunction.cpp) and
  the choice of cipher and MAC (pace/SymmetricCipher.cpp, pace/CipherMac.cpp). Object
  identifiers are texts, as in the code. The hash functions, the ciphers and the MAC are
  libraries, hence the record \<open>crypto_lib\<close>.
\<close>

section \<open>Object identifiers\<close>

datatype SecurityProtocol = ID_PK | ID_TA | ID_CA | ID_PACE

definition oid_BSI_DE :: string where
  "oid_BSI_DE = ''0.4.0.127.0.7''"

fun oid_SecurityProtocol :: "SecurityProtocol \<Rightarrow> string" where
  "oid_SecurityProtocol ID_PK = oid_BSI_DE @ ''.2.2.1''"
| "oid_SecurityProtocol ID_TA = oid_BSI_DE @ ''.2.2.2''"
| "oid_SecurityProtocol ID_CA = oid_BSI_DE @ ''.2.2.3''"
| "oid_SecurityProtocol ID_PACE = oid_BSI_DE @ ''.2.2.4''"

datatype id_ca =
    CA_DH | CA_DH_3DES_CBC_CBC | CA_DH_AES_CBC_CMAC_128 | CA_DH_AES_CBC_CMAC_192
  | CA_DH_AES_CBC_CMAC_256 | CA_ECDH | CA_ECDH_3DES_CBC_CBC | CA_ECDH_AES_CBC_CMAC_128
  | CA_ECDH_AES_CBC_CMAC_192 | CA_ECDH_AES_CBC_CMAC_256

fun oid_ca :: "id_ca \<Rightarrow> string" where
  "oid_ca CA_DH = oid_SecurityProtocol ID_CA @ ''.1''"
| "oid_ca CA_DH_3DES_CBC_CBC = oid_SecurityProtocol ID_CA @ ''.1'' @ ''.1''"
| "oid_ca CA_DH_AES_CBC_CMAC_128 = oid_SecurityProtocol ID_CA @ ''.1'' @ ''.2''"
| "oid_ca CA_DH_AES_CBC_CMAC_192 = oid_SecurityProtocol ID_CA @ ''.1'' @ ''.3''"
| "oid_ca CA_DH_AES_CBC_CMAC_256 = oid_SecurityProtocol ID_CA @ ''.1'' @ ''.4''"
| "oid_ca CA_ECDH = oid_SecurityProtocol ID_CA @ ''.2''"
| "oid_ca CA_ECDH_3DES_CBC_CBC = oid_SecurityProtocol ID_CA @ ''.2'' @ ''.1''"
| "oid_ca CA_ECDH_AES_CBC_CMAC_128 = oid_SecurityProtocol ID_CA @ ''.2'' @ ''.2''"
| "oid_ca CA_ECDH_AES_CBC_CMAC_192 = oid_SecurityProtocol ID_CA @ ''.2'' @ ''.3''"
| "oid_ca CA_ECDH_AES_CBC_CMAC_256 = oid_SecurityProtocol ID_CA @ ''.2'' @ ''.4''"

datatype id_PACE_DH =
    DH_GM | DH_GM_3DES_CBC_CBC | DH_GM_AES_CBC_CMAC_128 | DH_GM_AES_CBC_CMAC_192
  | DH_GM_AES_CBC_CMAC_256 | DH_IM | DH_IM_3DES_CBC_CBC | DH_IM_AES_CBC_CMAC_128
  | DH_IM_AES_CBC_CMAC_192 | DH_IM_AES_CBC_CMAC_256

fun oid_PACE_DH :: "id_PACE_DH \<Rightarrow> string" where
  "oid_PACE_DH DH_GM = oid_SecurityProtocol ID_PACE @ ''.1''"
| "oid_PACE_DH DH_GM_3DES_CBC_CBC = oid_SecurityProtocol ID_PACE @ ''.1'' @ ''.1''"
| "oid_PACE_DH DH_GM_AES_CBC_CMAC_128 = oid_SecurityProtocol ID_PACE @ ''.1'' @ ''.2''"
| "oid_PACE_DH DH_GM_AES_CBC_CMAC_192 = oid_SecurityProtocol ID_PACE @ ''.1'' @ ''.3''"
| "oid_PACE_DH DH_GM_AES_CBC_CMAC_256 = oid_SecurityProtocol ID_PACE @ ''.1'' @ ''.4''"
| "oid_PACE_DH DH_IM = oid_SecurityProtocol ID_PACE @ ''.3''"
| "oid_PACE_DH DH_IM_3DES_CBC_CBC = oid_SecurityProtocol ID_PACE @ ''.3'' @ ''.1''"
| "oid_PACE_DH DH_IM_AES_CBC_CMAC_128 = oid_SecurityProtocol ID_PACE @ ''.3'' @ ''.2''"
| "oid_PACE_DH DH_IM_AES_CBC_CMAC_192 = oid_SecurityProtocol ID_PACE @ ''.3'' @ ''.3''"
| "oid_PACE_DH DH_IM_AES_CBC_CMAC_256 = oid_SecurityProtocol ID_PACE @ ''.3'' @ ''.4''"

datatype id_PACE_ECDH =
    ECDH_GM | ECDH_GM_3DES_CBC_CBC | ECDH_GM_AES_CBC_CMAC_128 | ECDH_GM_AES_CBC_CMAC_192
  | ECDH_GM_AES_CBC_CMAC_256 | ECDH_IM | ECDH_IM_3DES_CBC_CBC | ECDH_IM_AES_CBC_CMAC_128
  | ECDH_IM_AES_CBC_CMAC_192 | ECDH_IM_AES_CBC_CMAC_256

fun oid_PACE_ECDH :: "id_PACE_ECDH \<Rightarrow> string" where
  "oid_PACE_ECDH ECDH_GM = oid_SecurityProtocol ID_PACE @ ''.2''"
| "oid_PACE_ECDH ECDH_GM_3DES_CBC_CBC = oid_SecurityProtocol ID_PACE @ ''.2'' @ ''.1''"
| "oid_PACE_ECDH ECDH_GM_AES_CBC_CMAC_128 = oid_SecurityProtocol ID_PACE @ ''.2'' @ ''.2''"
| "oid_PACE_ECDH ECDH_GM_AES_CBC_CMAC_192 = oid_SecurityProtocol ID_PACE @ ''.2'' @ ''.3''"
| "oid_PACE_ECDH ECDH_GM_AES_CBC_CMAC_256 = oid_SecurityProtocol ID_PACE @ ''.2'' @ ''.4''"
| "oid_PACE_ECDH ECDH_IM = oid_SecurityProtocol ID_PACE @ ''.4''"
| "oid_PACE_ECDH ECDH_IM_3DES_CBC_CBC = oid_SecurityProtocol ID_PACE @ ''.4'' @ ''.1''"
| "oid_PACE_ECDH ECDH_IM_AES_CBC_CMAC_128 = oid_SecurityProtocol ID_PACE @ ''.4'' @ ''.2''"
| "oid_PACE_ECDH ECDH_IM_AES_CBC_CMAC_192 = oid_SecurityProtocol ID_PACE @ ''.4'' @ ''.3''"
| "oid_PACE_ECDH ECDH_IM_AES_CBC_CMAC_256 = oid_SecurityProtocol ID_PACE @ ''.4'' @ ''.4''"

text \<open>The comparisons with the four protocols of each cipher, as the constructors group them.\<close>

definition isAlg_3DES :: "string \<Rightarrow> bool" where
  "isAlg_3DES alg \<longleftrightarrow>
     alg = oid_PACE_DH DH_GM_3DES_CBC_CBC \<or> alg = oid_PACE_DH DH_IM_3DES_CBC_CBC \<or>
     alg = oid_PACE_ECDH ECDH_GM_3DES_CBC_CBC \<or> alg = oid_PACE_ECDH ECDH_IM_3DES_CBC_CBC"

definition isAlg_AES128 :: "string \<Rightarrow> bool" where
  "isAlg_AES128 alg \<longleftrightarrow>
     alg = oid_PACE_DH DH_GM_AES_CBC_CMAC_128 \<or> alg = oid_PACE_DH DH_IM_AES_CBC_CMAC_128 \<or>
     alg = oid_PACE_ECDH ECDH_GM_AES_CBC_CMAC_128 \<or> alg = oid_PACE_ECDH ECDH_IM_AES_CBC_CMAC_128"

definition isAlg_AES192 :: "string \<Rightarrow> bool" where
  "isAlg_AES192 alg \<longleftrightarrow>
     alg = oid_PACE_DH DH_GM_AES_CBC_CMAC_192 \<or> alg = oid_PACE_DH DH_IM_AES_CBC_CMAC_192 \<or>
     alg = oid_PACE_ECDH ECDH_GM_AES_CBC_CMAC_192 \<or> alg = oid_PACE_ECDH ECDH_IM_AES_CBC_CMAC_192"

definition isAlg_AES256 :: "string \<Rightarrow> bool" where
  "isAlg_AES256 alg \<longleftrightarrow>
     alg = oid_PACE_DH DH_GM_AES_CBC_CMAC_256 \<or> alg = oid_PACE_DH DH_IM_AES_CBC_CMAC_256 \<or>
     alg = oid_PACE_ECDH ECDH_GM_AES_CBC_CMAC_256 \<or> alg = oid_PACE_ECDH ECDH_IM_AES_CBC_CMAC_256"

section \<open>PACE infos\<close>

record pace_info =
  pinf_protocol :: string
  pinf_protocolValueBytes :: bytes
  pinf_version :: bytes
  pinf_parameterId :: "bytes option"

datatype KeyAgreementType = KA_DH | KA_ECDH
datatype MappingType = MT_GM | MT_IM

definition PaceInfo_acceptsProtocol :: "string \<Rightarrow> bool" where
  "PaceInfo_acceptsProtocol protocol \<longleftrightarrow>
     isAlg_3DES protocol \<or> isAlg_AES128 protocol \<or> isAlg_AES192 protocol \<or> isAlg_AES256 protocol"

definition ChipAuthenticationInfo_acceptsProtocol :: "string \<Rightarrow> bool" where
  "ChipAuthenticationInfo_acceptsProtocol protocol \<longleftrightarrow>
     protocol = oid_ca CA_DH_3DES_CBC_CBC \<or> protocol = oid_ca CA_DH_AES_CBC_CMAC_128 \<or>
     protocol = oid_ca CA_DH_AES_CBC_CMAC_192 \<or> protocol = oid_ca CA_DH_AES_CBC_CMAC_256 \<or>
     protocol = oid_ca CA_ECDH_3DES_CBC_CBC \<or> protocol = oid_ca CA_ECDH_AES_CBC_CMAC_128 \<or>
     protocol = oid_ca CA_ECDH_AES_CBC_CMAC_192 \<or> protocol = oid_ca CA_ECDH_AES_CBC_CMAC_256"

definition getParameterId :: "pace_info \<Rightarrow> bytes" where
  "getParameterId i = getOctetValue (pinf_parameterId i)"

text \<open>The single version byte is a signed \<open>char\<close> that is widened to \<open>int\<close>.\<close>

definition getVersion :: "pace_info \<Rightarrow> int" where
  "getVersion i = (if length (pinf_version i) \<noteq> 1 then -1 else sint (pinf_version i ! 0))"

definition startsWith :: "string \<Rightarrow> string \<Rightarrow> bool" where
  "startsWith s p \<longleftrightarrow> take (length p) s = p"

definition getKeyAgreementType :: "pace_info \<Rightarrow> KeyAgreementType" where
  "getKeyAgreementType i =
    (if startsWith (pinf_protocol i) (oid_PACE_DH DH_GM) \<or>
        startsWith (pinf_protocol i) (oid_PACE_DH DH_IM)
     then KA_DH else KA_ECDH)"

definition getMappingType :: "pace_info \<Rightarrow> MappingType" where
  "getMappingType i =
    (if startsWith (pinf_protocol i) (oid_PACE_DH DH_GM) \<or>
        startsWith (pinf_protocol i) (oid_PACE_ECDH ECDH_GM)
     then MT_GM else MT_IM)"

text \<open>
  The hexadecimal text of the parameter identifier read as an \<open>int\<close> of base 16: the empty
  text and a value above the largest \<open>int\<close> are conversion errors.
\<close>

definition getParameterIdAsInt :: "pace_info \<Rightarrow> int" where
  "getParameterIdAsInt i =
    (let b = getParameterId i in
     if b = [] \<or> 2147483647 < from_be b then -1 else int (from_be b))"

definition isStandardizedDomainParameters :: "pace_info \<Rightarrow> bool" where
  "isStandardizedDomainParameters i =
    (let paramId = getParameterIdAsInt i in
     if getKeyAgreementType i = KA_DH then 0 \<le> paramId \<and> paramId \<le> 3
     else if getKeyAgreementType i = KA_ECDH \<and> getMappingType i = MT_GM
       then 8 \<le> paramId \<and> paramId \<le> 18
     else if getKeyAgreementType i = KA_ECDH \<and> getMappingType i = MT_IM
       then 8 \<le> paramId \<and> paramId \<le> 18 \<and> paramId \<noteq> 10
     else False)"

section \<open>Security infos\<close>

text \<open>
  One element of the set, as far as its interpretation needs: the decoders of the three classes
  (OpenSSL's, guarded by \<open>acceptsProtocol\<close>) are tried in order, and an element that none of
  them takes makes the whole object invalid.
\<close>

datatype 'c security_info = SI_Pace pace_info | SI_ChipAuth 'c | SI_Other bytes

definition decodeSecurityInfo ::
  "(bytes \<Rightarrow> pace_info option) \<Rightarrow> (bytes \<Rightarrow> 'c option) \<Rightarrow> (bytes \<Rightarrow> bool) \<Rightarrow> bytes
     \<Rightarrow> 'c security_info option" where
  "decodeSecurityInfo dpace dca dsec b =
    (case dpace b of
       Some p \<Rightarrow> Some (SI_Pace p)
     | None \<Rightarrow>
       (case dca b of
          Some c \<Rightarrow> Some (SI_ChipAuth c)
        | None \<Rightarrow> if dsec b then Some (SI_Other b) else None))"

record 'c security_infos =
  sis_contentBytes :: bytes
  sis_securityInfos :: "'c security_info list"
  sis_paceInfos :: "pace_info list"
  sis_chipAuthenticationInfos :: "'c list"

fun collectInfos ::
  "(bytes \<Rightarrow> 'c security_info option) \<Rightarrow> bytes list \<Rightarrow> 'c security_infos \<Rightarrow> 'c security_infos option"
where
  "collectInfos dec [] acc = Some acc"
| "collectInfos dec (b # bs) acc =
    (case dec b of
       None \<Rightarrow> None
     | Some i \<Rightarrow>
        collectInfos dec bs
          (case i of
             SI_Pace p \<Rightarrow> acc\<lparr>sis_securityInfos := sis_securityInfos acc @ [i],
                              sis_paceInfos := sis_paceInfos acc @ [p]\<rparr>
           | SI_ChipAuth c \<Rightarrow> acc\<lparr>sis_securityInfos := sis_securityInfos acc @ [i],
                 sis_chipAuthenticationInfos := sis_chipAuthenticationInfos acc @ [c]\<rparr>
           | SI_Other _ \<Rightarrow> acc\<lparr>sis_securityInfos := sis_securityInfos acc @ [i]\<rparr>))"

definition SecurityInfos_decode ::
  "(bytes \<Rightarrow> bytes list option) \<Rightarrow> (bytes \<Rightarrow> 'c security_info option) \<Rightarrow> bytes
     \<Rightarrow> 'c security_infos option" where
  "SecurityInfos_decode split dec pBytes =
    (case split pBytes of
       None \<Rightarrow> None
     | Some bs \<Rightarrow> collectInfos dec bs
         \<lparr>sis_contentBytes = pBytes, sis_securityInfos = [], sis_paceInfos = [],
          sis_chipAuthenticationInfos = []\<rparr>)"

section \<open>Standardised curves\<close>

datatype curve =
    NID_X9_62_prime192v1 | NID_brainpoolP192r1 | NID_secp224r1 | NID_brainpoolP224r1
  | NID_X9_62_prime256v1 | NID_brainpoolP256r1 | NID_brainpoolP320r1 | NID_secp384r1
  | NID_brainpoolP384r1 | NID_brainpoolP512r1 | NID_secp521r1

definition createCurveOfIndex :: "int \<Rightarrow> curve option" where
  "createCurveOfIndex pCurveIndex =
    (if pCurveIndex = 8 then Some NID_X9_62_prime192v1
     else if pCurveIndex = 9 then Some NID_brainpoolP192r1
     else if pCurveIndex = 10 then Some NID_secp224r1
     else if pCurveIndex = 11 then Some NID_brainpoolP224r1
     else if pCurveIndex = 12 then Some NID_X9_62_prime256v1
     else if pCurveIndex = 13 then Some NID_brainpoolP256r1
     else if pCurveIndex = 14 then Some NID_brainpoolP320r1
     else if pCurveIndex = 15 then Some NID_secp384r1
     else if pCurveIndex = 16 then Some NID_brainpoolP384r1
     else if pCurveIndex = 17 then Some NID_brainpoolP512r1
     else if pCurveIndex = 18 then Some NID_secp521r1
     else None)"

definition EllipticCurveFactory_create :: "pace_info \<Rightarrow> curve option" where
  "EllipticCurveFactory_create i =
    (if isStandardizedDomainParameters i then createCurveOfIndex (getParameterIdAsInt i) else None)"

section \<open>Cryptographic algorithms\<close>

datatype hash_alg = Sha1 | Sha256

record crypto_lib =
  lib_hash :: "hash_alg \<Rightarrow> bytes \<Rightarrow> bytes"
  lib_cbcEncrypt :: "bytes \<Rightarrow> bytes \<Rightarrow> bytes \<Rightarrow> bytes"
  lib_cbcDecrypt :: "bytes \<Rightarrow> bytes \<Rightarrow> bytes \<Rightarrow> bytes"
  lib_cmac :: "bytes \<Rightarrow> bytes \<Rightarrow> bytes"

text \<open>
  Key derivation: hash algorithm and key size per protocol; size 0 is "not initialised". The
  default hash algorithm of the member initialiser is the first one of Qt's enumeration and is
  never used while the size is 0.
\<close>

definition kdfParameters :: "string \<Rightarrow> (hash_alg \<times> nat) option" where
  "kdfParameters pPaceAlgorithm =
    (if isAlg_3DES pPaceAlgorithm then None
     else if isAlg_AES128 pPaceAlgorithm then Some (Sha1, 16)
     else if isAlg_AES192 pPaceAlgorithm then Some (Sha256, 24)
     else if isAlg_AES256 pPaceAlgorithm then Some (Sha256, 32)
     else None)"

definition deriveKey :: "crypto_lib \<Rightarrow> string \<Rightarrow> bytes \<Rightarrow> bytes \<Rightarrow> nat \<Rightarrow> bytes" where
  "deriveKey L alg pK pNonce pC =
    (case kdfParameters alg of
       None \<Rightarrow> []
     | Some (h, keySize) \<Rightarrow> take keySize (lib_hash L h (pK @ pNonce @ be32 pC)))"

definition kdf_enc :: "crypto_lib \<Rightarrow> string \<Rightarrow> bytes \<Rightarrow> bytes" where
  "kdf_enc L alg pSecret = deriveKey L alg pSecret [] 1"

definition kdf_mac :: "crypto_lib \<Rightarrow> string \<Rightarrow> bytes \<Rightarrow> bytes" where
  "kdf_mac L alg pSecret = deriveKey L alg pSecret [] 2"

definition kdf_pi :: "crypto_lib \<Rightarrow> string \<Rightarrow> bytes \<Rightarrow> bytes" where
  "kdf_pi L alg pSecret = deriveKey L alg pSecret [] 3"

text \<open>
  The key length of the AES variant that \<open>SymmetricCipher\<close> and \<open>CipherMac\<close> choose, and
  whether construction succeeds, i.e. the object is initialised. The block size and the length of the initialisation vector of AES are 16.
\<close>

definition cipherKeyLength :: "string \<Rightarrow> nat option" where
  "cipherKeyLength pPaceAlgorithm =
    (if isAlg_3DES pPaceAlgorithm then None
     else if isAlg_AES128 pPaceAlgorithm then Some 16
     else if isAlg_AES192 pPaceAlgorithm then Some 24
     else if isAlg_AES256 pPaceAlgorithm then Some 32
     else None)"

definition cipherInitialized :: "string \<Rightarrow> bytes \<Rightarrow> bool" where
  "cipherInitialized alg key \<longleftrightarrow> cipherKeyLength alg = Some (length key)"

definition cipher_encrypt :: "crypto_lib \<Rightarrow> string \<Rightarrow> bytes \<Rightarrow> bytes \<Rightarrow> bytes \<Rightarrow> bytes" where
  "cipher_encrypt L alg key iv pPlainData =
    (if \<not> cipherInitialized alg key then []
     else if length pPlainData mod 16 \<noteq> 0 then []
     else lib_cbcEncrypt L key iv pPlainData)"

definition cipher_decrypt :: "crypto_lib \<Rightarrow> string \<Rightarrow> bytes \<Rightarrow> bytes \<Rightarrow> bytes \<Rightarrow> bytes" where
  "cipher_decrypt L alg key iv pEncryptedData =
    (if \<not> cipherInitialized alg key then []
     else if length pEncryptedData mod 16 \<noteq> 0 then []
     else lib_cbcDecrypt L key iv pEncryptedData)"

definition mac_generate :: "crypto_lib \<Rightarrow> string \<Rightarrow> bytes \<Rightarrow> bytes \<Rightarrow> bytes" where
  "mac_generate L alg key pMessage =
    (if \<not> cipherInitialized alg key then [] else take 8 (lib_cmac L key pMessage))"

section \<open>Properties\<close>

lemmas oid_simps =
  oid_BSI_DE_def oid_SecurityProtocol.simps oid_PACE_DH.simps oid_PACE_ECDH.simps oid_ca.simps

lemmas alg_defs = isAlg_3DES_def isAlg_AES128_def isAlg_AES192_def isAlg_AES256_def

text \<open>The text of an OID ends in one digit per cipher: the four groups exclude each other.\<close>

lemma last_alg:
  "isAlg_3DES a \<Longrightarrow> last a = CHR ''1''" "isAlg_AES128 a \<Longrightarrow> last a = CHR ''2''"
  "isAlg_AES192 a \<Longrightarrow> last a = CHR ''3''" "isAlg_AES256 a \<Longrightarrow> last a = CHR ''4''"
  by (auto simp: alg_defs)

lemma alg_exclusive:
  "isAlg_AES128 a \<Longrightarrow> \<not> isAlg_3DES a"
  "isAlg_AES192 a \<Longrightarrow> \<not> isAlg_3DES a \<and> \<not> isAlg_AES128 a"
  "isAlg_AES256 a \<Longrightarrow> \<not> isAlg_3DES a \<and> \<not> isAlg_AES128 a \<and> \<not> isAlg_AES192 a"
  by (auto dest!: last_alg)

lemma cipherKeyLength_kdf: "cipherKeyLength alg = map_option snd (kdfParameters alg)"
  by (simp add: cipherKeyLength_def kdfParameters_def)

lemma accepted_has_key_length:
  "PaceInfo_acceptsProtocol alg \<Longrightarrow> isAlg_3DES alg \<or> cipherKeyLength alg \<noteq> None"
  by (auto simp: PaceInfo_acceptsProtocol_def cipherKeyLength_def)

text \<open>SHA-1 gives 20 bytes and SHA-256 gives 32.\<close>

definition hash_laws :: "crypto_lib \<Rightarrow> bool" where
  "hash_laws L \<longleftrightarrow> (\<forall>m. length (lib_hash L Sha1 m) = 20 \<and> length (lib_hash L Sha256 m) = 32)"

lemma length_deriveKey:
  assumes "hash_laws L" "kdfParameters alg = Some (h, n)"
  shows "length (deriveKey L alg k nonce c) = n"
proof -
  have "n \<le> length (lib_hash L h m)" for m
    using assms by (auto simp: hash_laws_def kdfParameters_def split: if_splits)
  then show ?thesis by (simp add: deriveKey_def assms(2))
qed

lemma derived_keys_ok:
  assumes "hash_laws L" and "PaceInfo_acceptsProtocol alg" and "\<not> isAlg_3DES alg"
  shows "cipherInitialized alg (kdf_enc L alg secret) \<and>
         cipherInitialized alg (kdf_mac L alg secret) \<and>
         cipherInitialized alg (kdf_pi L alg secret)"
proof -
  obtain h n where p: "kdfParameters alg = Some (h, n)"
    using accepted_has_key_length [OF assms(2)] assms(3) by (auto simp: cipherKeyLength_kdf)
  then show ?thesis
    using length_deriveKey [OF assms(1) p]
    by (simp add: cipherInitialized_def cipherKeyLength_kdf kdf_enc_def kdf_mac_def kdf_pi_def)
qed

text \<open>
  Every PACE protocol that the client accepts and that is not a 3DES one has keys that fit:
  the key derivation gives, for the encryption key, the MAC key and the key of the nonce,
  exactly the key length that the cipher of this protocol checks for, so cipher and MAC are
  initialised.
\<close>

theorem derived_keys_initialize_ciphers:
  assumes "hash_laws L" and "PaceInfo_acceptsProtocol alg" and "\<not> isAlg_3DES alg"
  shows "cipherInitialized alg (kdf_enc L alg secret) \<and>
         cipherInitialized alg (kdf_mac L alg secret) \<and>
         cipherInitialized alg (kdf_pi L alg secret)"
  using assms by (rule derived_keys_ok)

definition sample_crypto :: crypto_lib where
  "sample_crypto =
    \<lparr>lib_hash = (\<lambda>h m. replicate (case h of Sha1 \<Rightarrow> 20 | Sha256 \<Rightarrow> 32) (word_of_nat (length m))),
     lib_cbcEncrypt = (\<lambda>k iv d. map (\<lambda>b. b XOR 0x5a) d),
     lib_cbcDecrypt = (\<lambda>k iv d. map (\<lambda>b. b XOR 0x5a) d),
     lib_cmac = (\<lambda>k m. replicate 16 (word_of_nat (length m)))\<rparr>"

lemma sample_hash_laws: "hash_laws sample_crypto"
  by (simp add: hash_laws_def sample_crypto_def)

theorem derived_keys_initialize_ciphers_witness:
  "cipherInitialized (oid_PACE_ECDH ECDH_GM_AES_CBC_CMAC_128)
     (kdf_enc sample_crypto (oid_PACE_ECDH ECDH_GM_AES_CBC_CMAC_128) [1, 2])"
proof -
  have a: "isAlg_AES128 (oid_PACE_ECDH ECDH_GM_AES_CBC_CMAC_128)"
    by (simp add: isAlg_AES128_def)
  then have "PaceInfo_acceptsProtocol (oid_PACE_ECDH ECDH_GM_AES_CBC_CMAC_128)"
    by (simp add: PaceInfo_acceptsProtocol_def)
  with derived_keys_initialize_ciphers [OF sample_hash_laws this] alg_exclusive(1) [OF a]
  show ?thesis by blast
qed

lemma curve_of_index_iff: "createCurveOfIndex n \<noteq> None \<longleftrightarrow> 8 \<le> n \<and> n \<le> 18"
proof -
  have "8 \<le> n \<and> n \<le> 18 \<longleftrightarrow> n \<in> {18, 17, 16, 15, 14, 13, 12, 11, 10, 9, 8}"
    by (simp, arith)
  then show ?thesis by (auto simp: createCurveOfIndex_def)
qed

lemma standardized_curve:
  assumes "getKeyAgreementType i = KA_ECDH"
  shows "(EllipticCurveFactory_create i \<noteq> None \<longleftrightarrow> isStandardizedDomainParameters i) \<and>
         (createCurveOfIndex m = createCurveOfIndex n \<and> createCurveOfIndex m \<noteq> None \<longrightarrow> m = n)"
proof
  have "isStandardizedDomainParameters i \<Longrightarrow> 8 \<le> getParameterIdAsInt i \<and> getParameterIdAsInt i \<le> 18"
    using assms by (auto simp: isStandardizedDomainParameters_def Let_def split: if_splits)
  then show "EllipticCurveFactory_create i \<noteq> None \<longleftrightarrow> isStandardizedDomainParameters i"
    using curve_of_index_iff by (auto simp: EllipticCurveFactory_create_def)
  show "createCurveOfIndex m = createCurveOfIndex n \<and> createCurveOfIndex m \<noteq> None \<longrightarrow> m = n"
    by (simp add: createCurveOfIndex_def)
qed

text \<open>
  For an ECDH protocol the factory finds a curve exactly when the domain parameters are
  standardised; no standardised identifier falls through to the default of its switch. Two
  identifiers never give the same curve.
\<close>

theorem standardized_ecdh_has_curve:
  assumes "getKeyAgreementType i = KA_ECDH"
  shows "(EllipticCurveFactory_create i \<noteq> None \<longleftrightarrow> isStandardizedDomainParameters i) \<and>
         (createCurveOfIndex m = createCurveOfIndex n \<and> createCurveOfIndex m \<noteq> None \<longrightarrow> m = n)"
  using assms by (rule standardized_curve)

definition sample_pace_info :: pace_info where
  "sample_pace_info =
    \<lparr>pinf_protocol = oid_PACE_ECDH ECDH_GM_AES_CBC_CMAC_128,
     pinf_protocolValueBytes = [4, 0, 0x7f, 0, 7, 2, 2, 4, 2, 2],
     pinf_version = [2], pinf_parameterId = Some [13]\<rparr>"

lemma sample_pace_info_type: "getKeyAgreementType sample_pace_info = KA_ECDH"
  by (simp add: getKeyAgreementType_def startsWith_def sample_pace_info_def oid_simps)

theorem standardized_ecdh_has_curve_witness:
  "isStandardizedDomainParameters sample_pace_info"
proof -
  have "EllipticCurveFactory_create sample_pace_info \<noteq> None
      \<or> \<not> isStandardizedDomainParameters sample_pace_info"
    using standardized_ecdh_has_curve [OF sample_pace_info_type, of 8 8] by blast
  moreover have "8 \<le> getParameterIdAsInt sample_pace_info \<and> getParameterIdAsInt sample_pace_info \<le> 18
      \<and> getParameterIdAsInt sample_pace_info \<noteq> 10"
    by (simp add: getParameterIdAsInt_def getParameterId_def getOctetValue_def sample_pace_info_def)
  then have "isStandardizedDomainParameters sample_pace_info"
    using sample_pace_info_type
    by (cases "getMappingType sample_pace_info") (simp_all add: isStandardizedDomainParameters_def Let_def)
  ultimately show ?thesis by blast
qed

text \<open>
  For a DH protocol the identifier 3 counts as standardised, although the list of
  TR-03110-3 next to the check reserves 3 to 7 for future use.
\<close>

theorem dh_parameter_3_is_standardized:
  assumes "getKeyAgreementType i = KA_DH" and "getParameterIdAsInt i = 3"
  shows "isStandardizedDomainParameters i"
  using assms by (simp add: isStandardizedDomainParameters_def)

theorem dh_parameter_3_is_standardized_witness:
  "isStandardizedDomainParameters
     (sample_pace_info\<lparr>pinf_protocol := oid_PACE_DH DH_GM_AES_CBC_CMAC_128, pinf_parameterId := Some [3]\<rparr>)"
  by (rule dh_parameter_3_is_standardized)
    (simp_all add: getKeyAgreementType_def startsWith_def getParameterIdAsInt_def getParameterId_def
      getOctetValue_def)

lemma collectInfos_lists:
  "collectInfos dec bs acc = Some r \<Longrightarrow>
     \<exists>ris. map dec bs = map Some ris \<and>
       sis_securityInfos r = sis_securityInfos acc @ ris \<and>
       sis_paceInfos r = sis_paceInfos acc @ concat (map (\<lambda>i. case i of SI_Pace p \<Rightarrow> [p] | _ \<Rightarrow> []) ris) \<and>
       sis_chipAuthenticationInfos r = sis_chipAuthenticationInfos acc
         @ concat (map (\<lambda>i. case i of SI_ChipAuth c \<Rightarrow> [c] | _ \<Rightarrow> []) ris) \<and>
       sis_contentBytes r = sis_contentBytes acc"
proof (induction bs arbitrary: acc)
  case Nil
  then show ?case by simp
next
  case (Cons b bs)
  then obtain i where i: "dec b = Some i" by (auto split: option.splits)
  let ?a = "case i of
        SI_Pace p \<Rightarrow> acc\<lparr>sis_securityInfos := sis_securityInfos acc @ [i],
                         sis_paceInfos := sis_paceInfos acc @ [p]\<rparr>
      | SI_ChipAuth c \<Rightarrow> acc\<lparr>sis_securityInfos := sis_securityInfos acc @ [i],
            sis_chipAuthenticationInfos := sis_chipAuthenticationInfos acc @ [c]\<rparr>
      | SI_Other _ \<Rightarrow> acc\<lparr>sis_securityInfos := sis_securityInfos acc @ [i]\<rparr>"
  have "collectInfos dec bs ?a = Some r" using Cons.prems i by simp
  from Cons.IH [OF this] obtain ris where ris: "map dec bs = map Some ris"
    "sis_securityInfos r = sis_securityInfos ?a @ ris"
    "sis_paceInfos r = sis_paceInfos ?a @ concat (map (\<lambda>i. case i of SI_Pace p \<Rightarrow> [p] | _ \<Rightarrow> []) ris)"
    "sis_chipAuthenticationInfos r = sis_chipAuthenticationInfos ?a
       @ concat (map (\<lambda>i. case i of SI_ChipAuth c \<Rightarrow> [c] | _ \<Rightarrow> []) ris)"
    "sis_contentBytes r = sis_contentBytes ?a"
    by blast
  show ?case
    by (rule exI [of _ "i # ris"]) (use i ris in \<open>cases i; simp\<close>)
qed

end
