(* ===== verification/SecureMessaging.thy ===== *)
theory SecureMessaging
  imports Protocols
begin

text \<open>
  Secure messaging after PACE: src/src/card/base/pace/SecureMessaging.cpp and
  src/src/card/base/SecureMessagingResponse.cpp. The state of the object is the record
  \<open>sm\<close>: algorithm, two keys, the initialisation vector that the cipher object keeps, and
  the 32-bit send sequence counter. The cipher and the MAC are those of \<open>Protocols\<close> over
  the crypto library parameter, the ASN.1 objects those of \<open>Asn1\<close>. The last section
  states what a card does with the same keys and shows that both directions agree.
\<close>

section \<open>State\<close>

record sm =
  sm_alg :: string
  sm_encKey :: bytes
  sm_macKey :: bytes
  sm_iv :: bytes
  sm_ssc :: "32 word"

abbreviation blockSize :: nat where
  "blockSize \<equiv> 16"

definition newSecureMessaging :: "string \<Rightarrow> bytes \<Rightarrow> bytes \<Rightarrow> sm" where
  "newSecureMessaging pPaceAlgorithm pEncKey pMacKey =
     \<lparr>sm_alg = pPaceAlgorithm, sm_encKey = pEncKey, sm_macKey = pMacKey,
      sm_iv = replicate blockSize 0, sm_ssc = 0\<rparr>"

definition sm_isInitialized :: "sm \<Rightarrow> bool" where
  "sm_isInitialized s \<longleftrightarrow>
     cipherInitialized (sm_alg s) (sm_encKey s) \<and> cipherInitialized (sm_alg s) (sm_macKey s)"

section \<open>Padding\<close>

definition padToCipherBlockSize :: "bytes \<Rightarrow> bytes" where
  "padToCipherBlockSize pData =
    (let remainder = length pData mod blockSize;
         paddingSize = (if remainder = 0 then blockSize else blockSize - remainder)
     in pData @ [0x80] @ replicate (paddingSize - 1) 0)"

fun lastIndexOf :: "'a list \<Rightarrow> 'a \<Rightarrow> nat option" where
  "lastIndexOf [] b = None"
| "lastIndexOf (x # xs) b =
    (case lastIndexOf xs b of
       Some n \<Rightarrow> Some (Suc n)
     | None \<Rightarrow> if x = b then Some 0 else None)"

definition unpadFromCipherBlockSize :: "bytes \<Rightarrow> bytes" where
  "unpadFromCipherBlockSize pData =
    (if length pData mod blockSize \<noteq> 0 then []
     else case lastIndexOf pData 0x80 of
            None \<Rightarrow> []
          | Some position \<Rightarrow> mid 0 position pData)"

section \<open>Building the command\<close>

definition createSecuredHeader :: "bytes \<Rightarrow> bytes" where
  "createSecuredHeader c = [(getCLA c AND 0xF0) OR 0x0C, getINS c, getP1 c, getP2 c]"

definition createSecuredLe :: "nat \<Rightarrow> bytes" where
  "createSecuredLe pLe =
    (if 0 < pLe then (if 0x100 < pLe then [high_byte pLe] else []) @ [low_byte pLe] else [])"

definition sequenceCounter :: "sm \<Rightarrow> bytes" where
  "sequenceCounter s = replicate (blockSize - 4) 0 @ be32 (unat (sm_ssc s))"

definition setIv :: "bytes \<Rightarrow> sm \<Rightarrow> sm" where
  "setIv pIv s = (if length pIv \<noteq> blockSize then s else s\<lparr>sm_iv := pIv\<rparr>)"

definition getEncryptedIv :: "crypto_lib \<Rightarrow> sm \<Rightarrow> bytes \<times> sm" where
  "getEncryptedIv L s =
    (let s' = setIv (replicate blockSize 0) s
     in (cipher_encrypt L (sm_alg s') (sm_encKey s') (sm_iv s') (sequenceCounter s'), s'))"

definition createMac :: "crypto_lib \<Rightarrow> asn1_lib \<Rightarrow> sm \<Rightarrow> bytes \<Rightarrow> bytes \<Rightarrow> bytes \<Rightarrow> bytes" where
  "createMac L A s pSecuredHeader pFormattedEncryptedData pSecuredLe =
    (let dataToMac = padToCipherBlockSize pSecuredHeader @ pFormattedEncryptedData @ pSecuredLe;
         dataToMac = (if pFormattedEncryptedData \<noteq> [] \<or> pSecuredLe \<noteq> []
                      then padToCipherBlockSize dataToMac else dataToMac);
         mac = mac_generate L (sm_alg s) (sm_macKey s) (sequenceCounter s @ dataToMac)
     in i2d_octet A 0x8E mac)"

definition createNewLe :: "bytes \<Rightarrow> nat \<Rightarrow> int" where
  "createNewLe pSecuredData pOldLe =
    (if isExtendedLength pSecuredData (int pOldLe) then 0x10000 else 0x100)"

text \<open>The data object of the command data: the padded data encrypted, behind the byte 0x01.\<close>

definition encryptedDataObject :: "crypto_lib \<Rightarrow> asn1_lib \<Rightarrow> bytes \<Rightarrow> sm \<Rightarrow> bytes \<times> sm" where
  "encryptedDataObject L A pData s =
    (if pData = [] then ([], s)
     else
       let paddedCommandData = padToCipherBlockSize pData;
           (iv, s) = getEncryptedIv L s;
           s = setIv iv s;
           encryptedData = 0x01 # cipher_encrypt L (sm_alg s) (sm_encKey s) (sm_iv s) paddedCommandData
       in (i2d_octet A 0x87 encryptedData, s))"

definition sm_encrypt :: "crypto_lib \<Rightarrow> asn1_lib \<Rightarrow> bytes \<Rightarrow> sm \<Rightarrow> bytes \<times> sm" where
  "sm_encrypt L A pCommandApdu s =
    (if \<not> sm_isInitialized s then ([], s)
     else
       let s = s\<lparr>sm_ssc := sm_ssc s + 1\<rparr>;
           (formattedEncryptedData, s) = encryptedDataObject L A (getData pCommandApdu) s;
           securedHeader = createSecuredHeader pCommandApdu;
           securedLe = (if 0 < getLe pCommandApdu
                        then i2d_octet A 0x97 (createSecuredLe (getLe pCommandApdu)) else []);
           mac = createMac L A s securedHeader formattedEncryptedData securedLe;
           securedData = formattedEncryptedData @ securedLe @ mac;
           newLe = createNewLe securedData (getLe pCommandApdu)
       in (CommandApduOfHeader securedHeader securedData newLe, s))"

section \<open>Reading the response\<close>

text \<open>
  The parsed response; \<open>None\<close> is a null pointer. \<open>smr_invalid\<close> is set unless all
  objects were read.
\<close>

record sm_response =
  smr_buffer :: bytes
  smr_invalid :: bool
  smr_encryptedData :: "bytes option"
  smr_processingStatus :: "bytes option"
  smr_checksum :: "bytes option"

definition encodedObject :: "asn1_lib \<Rightarrow> byte \<Rightarrow> bytes option \<Rightarrow> bytes" where
  "encodedObject A t v = (case v of None \<Rightarrow> [] | Some v \<Rightarrow> i2d_octet A t v)"

definition SecureMessagingResponse :: "asn1_lib \<Rightarrow> bytes \<Rightarrow> sm_response" where
  "SecureMessagingResponse A pBuffer =
    (let r = \<lparr>smr_buffer = pBuffer, smr_invalid = True, smr_encryptedData = None,
              smr_processingStatus = None, smr_checksum = None\<rparr>;
         dat = responseData pBuffer;
         tmp = decodeObject A 0x87 dat;
         r = r\<lparr>smr_encryptedData := tmp\<rparr>
     in if tmp \<noteq> None \<and> (getOctetValue tmp = [] \<or> hd (getOctetValue tmp) \<noteq> 0x01) then r
     else
       let dat = drop (length (encodedObject A 0x87 tmp)) dat;
           status = decodeObject A 0x99 dat;
           r = r\<lparr>smr_processingStatus := status\<rparr>
       in if status = None \<or> length (getOctetValue status) \<noteq> 2 then r
       else
         let dat = drop (length (encodedObject A 0x99 status)) dat;
             checksum = decodeObject A 0x8E dat;
             r = r\<lparr>smr_checksum := checksum\<rparr>
         in if checksum = None \<or> length (getOctetValue checksum) \<noteq> 8 then r
         else r\<lparr>smr_invalid := False\<rparr>)"

definition getEncryptedData :: "sm_response \<Rightarrow> bytes" where
  "getEncryptedData r = drop 1 (getOctetValue (smr_encryptedData r))"

definition getMac :: "sm_response \<Rightarrow> bytes" where
  "getMac r = getOctetValue (smr_checksum r)"

definition getSecuredStatusCodeBytes :: "sm_response \<Rightarrow> bytes" where
  "getSecuredStatusCodeBytes r = getOctetValue (smr_processingStatus r)"

text \<open>
  The secured status word is cast to the enum without the test that
  \<open>ResponseApdu::getReturnCode\<close> makes, so it may be no enumerator; it is modelled by its
  underlying number.
\<close>

definition getSecuredStatusCode :: "sm_response \<Rightarrow> nat" where
  "getSecuredStatusCode r =
    (if smr_invalid r \<or> getSecuredStatusCodeBytes r = [] then statusValue SC_INVALID_SM_OBJECTS
     else from_be (getSecuredStatusCodeBytes r))"

definition dataToMac :: "asn1_lib \<Rightarrow> sm \<Rightarrow> sm_response \<Rightarrow> bytes" where
  "dataToMac A s r =
     sequenceCounter s @ padToCipherBlockSize
       ((if getEncryptedData r \<noteq> [] then encodedObject A 0x87 (smr_encryptedData r) else []) @
        encodedObject A 0x99 (smr_processingStatus r))"

definition sm_decrypt :: "crypto_lib \<Rightarrow> asn1_lib \<Rightarrow> bytes \<Rightarrow> sm \<Rightarrow> bytes option \<times> sm" where
  "sm_decrypt L A pEncryptedResponseApdu s =
    (if \<not> sm_isInitialized s then (None, s)
     else
       let s = s\<lparr>sm_ssc := sm_ssc s + 1\<rparr>;
           r = SecureMessagingResponse A pEncryptedResponseApdu
       in if smr_invalid r then (None, s)
       else if getSecuredStatusCode r \<noteq> statusValue (getReturnCode (smr_buffer r)) then (None, s)
       else if mac_generate L (sm_alg s) (sm_macKey s) (dataToMac A s r) \<noteq> getMac r then (None, s)
       else if getEncryptedData r \<noteq> [] then
         let (iv, s) = getEncryptedIv L s;
             s = setIv iv s;
             paddedDecryptedData =
               cipher_decrypt L (sm_alg s) (sm_encKey s) (sm_iv s) (getEncryptedData r)
         in (Some (unpadFromCipherBlockSize paddedDecryptedData @ getSecuredStatusCodeBytes r), s)
       else (Some (getSecuredStatusCodeBytes r), s))"

section \<open>Padding: properties\<close>

lemma lastIndexOf_append:
  "lastIndexOf (xs @ ys) b =
    (case lastIndexOf ys b of
       Some n \<Rightarrow> Some (length xs + n)
     | None \<Rightarrow> lastIndexOf xs b)"
  by (induction xs) (simp_all split: option.splits)

lemma lastIndexOf_None_iff [simp]: "lastIndexOf xs b = None \<longleftrightarrow> b \<notin> set xs"
  by (induction xs) (auto split: option.splits)

lemma lastIndexOf_last: "b \<notin> set ys \<Longrightarrow> lastIndexOf (xs @ b # ys) b = Some (length xs)"
  by (simp add: lastIndexOf_append split: option.splits)

lemma pad_blocks: "length (padToCipherBlockSize d) mod blockSize = 0"
proof (cases "length d mod 16 = 0")
  case True
  then show ?thesis by (simp add: padToCipherBlockSize_def Let_def mod_add_left_eq [symmetric])
next
  case False
  have "length d + (16 - length d mod 16) = 16 * (length d div 16 + 1)"
    by presburger
  moreover have "length (padToCipherBlockSize d) = length d + (16 - length d mod 16)"
    using False by (simp add: padToCipherBlockSize_def Let_def)
  ultimately show ?thesis by simp
qed

lemma length_padded: "length (padToCipherBlockSize d) \<le> length d + 16"
  by (simp add: padToCipherBlockSize_def Let_def)

lemma unpad_pad: "unpadFromCipherBlockSize (padToCipherBlockSize d) = d"
proof -
  have "lastIndexOf (padToCipherBlockSize d) 0x80 = Some (length d)"
    by (simp add: padToCipherBlockSize_def Let_def lastIndexOf_last)
  then show ?thesis
    using pad_blocks [of d]
    by (simp add: unpadFromCipherBlockSize_def mid_def) (simp add: padToCipherBlockSize_def Let_def)
qed

text \<open>
  Padding always adds between one and sixteen bytes, makes a whole number of cipher blocks,
  and is taken away again by unpadding, whatever bytes (also 0x80 and 0x00) the data ends in.
\<close>

theorem padding_roundtrip:
  "length (padToCipherBlockSize d) mod blockSize = 0 \<and>
   length d < length (padToCipherBlockSize d) \<and>
   length (padToCipherBlockSize d) \<le> length d + blockSize \<and>
   unpadFromCipherBlockSize (padToCipherBlockSize d) = d"
proof (intro conjI)
  show "length (padToCipherBlockSize d) mod blockSize = 0" by (rule pad_blocks)
  show "length d < length (padToCipherBlockSize d)" by (simp add: padToCipherBlockSize_def Let_def)
  show "length (padToCipherBlockSize d) \<le> length d + blockSize" by (rule length_padded)
  show "unpadFromCipherBlockSize (padToCipherBlockSize d) = d" by (rule unpad_pad)
qed

section \<open>The card's side\<close>

text \<open>
  What a card does with the same keys and the counter \<open>sm_ssc s\<close> (TR-03110-3, F): it
  checks the checksum of a command and takes it apart, and protects its response. These are
  specifications, not code of the client.
\<close>

definition card_iv :: "crypto_lib \<Rightarrow> sm \<Rightarrow> bytes" where
  "card_iv L s = lib_cbcEncrypt L (sm_encKey s) (replicate 16 0) (sequenceCounter s)"

definition card_mac :: "crypto_lib \<Rightarrow> sm \<Rightarrow> bytes \<Rightarrow> bytes" where
  "card_mac L s m = take 8 (lib_cmac L (sm_macKey s) (sequenceCounter s @ m))"

definition card_respond :: "crypto_lib \<Rightarrow> asn1_lib \<Rightarrow> sm \<Rightarrow> bytes \<Rightarrow> StatusCode \<Rightarrow> bytes" where
  "card_respond L A s d sw =
    (let e = (if d = [] then []
              else i2d_octet A 0x87 (1 # lib_cbcEncrypt L (sm_encKey s) (card_iv L s) (padToCipherBlockSize d)));
         t = i2d_octet A 0x99 (be16 (statusValue sw));
         m = i2d_octet A 0x8E (card_mac L s (padToCipherBlockSize (e @ t)))
     in e @ t @ m @ be16 (statusValue sw))"

definition card_unwrap ::
  "crypto_lib \<Rightarrow> asn1_lib \<Rightarrow> sm \<Rightarrow> bytes \<Rightarrow> (byte \<times> byte \<times> byte \<times> bytes \<times> nat) option" where
  "card_unwrap L A s c =
    (let d = getData c;
         e = decodeObject A 0x87 d;
         d1 = drop (length (encodedObject A 0x87 e)) d;
         l = decodeObject A 0x97 d1;
         d2 = drop (length (encodedObject A 0x97 l)) d1;
         objs = encodedObject A 0x87 e @ encodedObject A 0x97 l;
         covered = padToCipherBlockSize (take 4 c) @ objs;
         m = card_mac L s (if objs = [] then covered else padToCipherBlockSize covered);
         plain = (case e of None \<Rightarrow> []
                  | Some v \<Rightarrow> unpadFromCipherBlockSize (lib_cbcDecrypt L (sm_encKey s) (card_iv L s) (drop 1 v)));
         le = (case l of None \<Rightarrow> 0
               | Some v \<Rightarrow> (if from_be v = 0 then 256 ^ length v else from_be v))
     in if decodeObject A 0x8E d2 = Some m \<and> getCLA c AND 0x0F = 0x0C
        then Some (getINS c, getP1 c, getP2 c, plain, le) else None)"

text \<open>
  What is relied on of the crypto library: CBC without padding keeps the length and decrypts
  what it encrypted, and a CMAC has the block size.
\<close>

definition cipher_laws :: "crypto_lib \<Rightarrow> bool" where
  "cipher_laws L \<longleftrightarrow>
    (\<forall>k iv d. length d mod 16 = 0 \<longrightarrow>
       length (lib_cbcEncrypt L k iv d) = length d \<and>
       lib_cbcDecrypt L k iv (lib_cbcEncrypt L k iv d) = d) \<and>
    (\<forall>k m. length (lib_cmac L k m) = 16)"

lemma sample_cipher_laws: "cipher_laws sample_crypto"
  by (simp add: cipher_laws_def sample_crypto_def comp_def map_idI xor.assoc)

section \<open>Steps of the client's object\<close>

lemma length_sequenceCounter [simp]: "length (sequenceCounter s) = 16"
  by (simp add: sequenceCounter_def)

lemma sequenceCounter_inject: "sequenceCounter s = sequenceCounter s' \<longleftrightarrow> sm_ssc s = sm_ssc s'"
proof
  assume "sequenceCounter s = sequenceCounter s'"
  then have "from_be (be32 (unat (sm_ssc s))) = from_be (be32 (unat (sm_ssc s')))"
    by (simp add: sequenceCounter_def)
  moreover have "unat (w :: 32 word) < 4294967296" for w
    using unsigned_less [of w, where ?'a = nat] by simp
  ultimately show "sm_ssc s = sm_ssc s'" by (simp add: from_be_be32 word_unat_eq_iff)
qed (simp add: sequenceCounter_def)

lemma setIv_fields [simp]:
  "sm_alg (setIv iv s) = sm_alg s" "sm_encKey (setIv iv s) = sm_encKey s"
  "sm_macKey (setIv iv s) = sm_macKey s" "sm_ssc (setIv iv s) = sm_ssc s"
  "sequenceCounter (setIv iv s) = sequenceCounter s"
  "sm_isInitialized (setIv iv s) = sm_isInitialized s"
  "length iv = 16 \<Longrightarrow> sm_iv (setIv iv s) = iv"
  by (simp_all add: setIv_def sequenceCounter_def sm_isInitialized_def)

lemma card_iv_setIv [simp]: "card_iv L (setIv iv s) = card_iv L s"
  by (simp add: card_iv_def)

lemma length_card_iv: "cipher_laws L \<Longrightarrow> length (card_iv L s) = 16"
  by (simp add: card_iv_def cipher_laws_def)

text \<open>On an initialised object the vector is the encrypted counter, as on the card.\<close>

lemma getEncryptedIv_card:
  "sm_isInitialized s \<Longrightarrow> getEncryptedIv L s = (card_iv L s, setIv (replicate 16 0) s)"
  by (simp add: getEncryptedIv_def Let_def cipher_encrypt_def card_iv_def sm_isInitialized_def)

lemma mac_generate_card:
  "sm_isInitialized s \<Longrightarrow> mac_generate L (sm_alg s) (sm_macKey s) (sequenceCounter s @ m) = card_mac L s m"
  by (simp add: mac_generate_def card_mac_def sm_isInitialized_def)

lemma length_card_mac: "cipher_laws L \<Longrightarrow> length (card_mac L s m) = 8"
  by (simp add: card_mac_def cipher_laws_def)

lemma getEncryptedIv_fields:
  assumes "getEncryptedIv L s = (iv, s')"
  shows "sm_alg s' = sm_alg s \<and> sm_encKey s' = sm_encKey s \<and> sm_macKey s' = sm_macKey s \<and> sm_ssc s' = sm_ssc s"
  using assms by (auto simp: getEncryptedIv_def Let_def)


definition card_object :: "crypto_lib \<Rightarrow> asn1_lib \<Rightarrow> sm \<Rightarrow> bytes \<Rightarrow> bytes" where
  "card_object L A s d =
    (if d = [] then []
     else i2d_octet A 0x87 (1 # lib_cbcEncrypt L (sm_encKey s) (card_iv L s) (padToCipherBlockSize d)))"

lemma encryptedDataObject_card:
  assumes "sm_isInitialized s" "cipher_laws L"
  shows "encryptedDataObject L A d s =
    (card_object L A s d, if d = [] then s else setIv (card_iv L s) (setIv (replicate 16 0) s))"
  using assms length_card_iv [OF assms(2), of s] pad_blocks [of d]
  by (simp add: encryptedDataObject_def card_object_def getEncryptedIv_card Let_def cipher_encrypt_def
      sm_isInitialized_def)

lemma decodeObject_Nil [simp]: "der_laws A \<Longrightarrow> decodeObject A t [] = None"
  by (simp add: decodeObject_def der_laws_def)

lemma decode_same:
  "der_laws A \<Longrightarrow> length v < 65536 \<Longrightarrow> decodeObject A t (i2d_octet A t v @ rest) = Some v"
  by (simp add: decodeObject_def der_decode_law)

lemma decode_same_Nil:
  "der_laws A \<Longrightarrow> length v < 65536 \<Longrightarrow> decodeObject A t (i2d_octet A t v) = Some v"
  using decode_same [of A v t "[]"] by simp

lemma decode_other:
  "der_laws A \<Longrightarrow> length v < 65536 \<Longrightarrow> t \<noteq> t' \<Longrightarrow> decodeObject A t (i2d_octet A t' v @ rest) = None"
  by (simp add: decodeObject_def der_decode_other_tag)

lemma decode_other_Nil:
  "der_laws A \<Longrightarrow> length v < 65536 \<Longrightarrow> t \<noteq> t' \<Longrightarrow> decodeObject A t (i2d_octet A t' v) = None"
  using decode_other [of A v t t' "[]"] by simp

lemmas decode_objects = decode_same decode_same_Nil decode_other decode_other_Nil

lemma encrypted_length:
  "cipher_laws L \<Longrightarrow> length (lib_cbcEncrypt L k iv (padToCipherBlockSize d)) = length (padToCipherBlockSize d)"
  using pad_blocks [of d] by (simp add: cipher_laws_def)

lemma decrypt_encrypt:
  "cipher_laws L \<Longrightarrow>
     lib_cbcDecrypt L k iv (lib_cbcEncrypt L k iv (padToCipherBlockSize d)) = padToCipherBlockSize d"
  using pad_blocks [of d] by (simp add: cipher_laws_def)

lemma pad_not_Nil [simp]: "padToCipherBlockSize d \<noteq> []"
  by (simp add: padToCipherBlockSize_def Let_def)

lemma encrypted_not_Nil: "cipher_laws L \<Longrightarrow> lib_cbcEncrypt L k iv (padToCipherBlockSize d) \<noteq> []"
  using encrypted_length [of L k iv d] by (metis length_0_conv pad_not_Nil)

text \<open>Parsing three objects in a row, and the parsed form of a response that a card has protected.\<close>

lemma parse_objects:
  assumes "der_laws A" "length t = 2" "length m = 8" "\<And>v. e = Some v \<Longrightarrow> length v < 65536 \<and> v \<noteq> [] \<and> hd v = 1"
    and "responseData buf = encodedObject A 0x87 e @ i2d_octet A 0x99 t @ i2d_octet A 0x8E m"
  shows "SecureMessagingResponse A buf =
    \<lparr>smr_buffer = buf, smr_invalid = False, smr_encryptedData = e,
     smr_processingStatus = Some t, smr_checksum = Some m\<rparr>"
proof (cases e)
  case None
  with assms have d: "responseData buf = i2d_octet A 0x99 t @ i2d_octet A 0x8E m"
    by (simp add: encodedObject_def)
  from assms(1-3) None show ?thesis
    by (simp add: SecureMessagingResponse_def d decode_objects getOctetValue_def encodedObject_def Let_def)
next
  case (Some v)
  with assms(5) have d: "responseData buf = i2d_octet A 0x87 v @ i2d_octet A 0x99 t @ i2d_octet A 0x8E m"
    by (simp add: encodedObject_def)
  from assms(1-3) assms(4) [OF Some] Some show ?thesis
    by (simp add: SecureMessagingResponse_def d decode_objects getOctetValue_def encodedObject_def Let_def)
qed

lemma parse_card_respond:
  assumes "der_laws A" "cipher_laws L" "length d \<le> 65000"
  shows "SecureMessagingResponse A (card_respond L A s d sw) =
    \<lparr>smr_buffer = card_respond L A s d sw, smr_invalid = False,
     smr_encryptedData = (if d = [] then None
       else Some (1 # lib_cbcEncrypt L (sm_encKey s) (card_iv L s) (padToCipherBlockSize d))),
     smr_processingStatus = Some (be16 (statusValue sw)),
     smr_checksum = Some (card_mac L s (padToCipherBlockSize
        (card_object L A s d @ i2d_octet A 0x99 (be16 (statusValue sw)))))\<rparr>"
proof -
  let ?v = "1 # lib_cbcEncrypt L (sm_encKey s) (card_iv L s) (padToCipherBlockSize d)"
  let ?t = "i2d_octet A 0x99 (be16 (statusValue sw))"
  let ?m = "card_mac L s (padToCipherBlockSize (card_object L A s d @ ?t))"
  have buf: "card_respond L A s d sw = card_object L A s d @ ?t @ i2d_octet A 0x8E ?m @ be16 (statusValue sw)"
    by (simp add: card_respond_def card_object_def Let_def)
  have dat: "responseData (card_respond L A s d sw) = card_object L A s d @ ?t @ i2d_octet A 0x8E ?m"
    by (simp add: buf responseData_def getDataLength_def nat_diff_distrib)
  have v: "length ?v < 65536" using encrypted_length [OF assms(2)] length_padded [of d] assms(3) by simp
  have m: "length ?m = 8" by (rule length_card_mac [OF assms(2)])
  show ?thesis
    by (rule parse_objects [OF assms(1) _ m])
      (use v dat in \<open>auto simp: card_object_def encodedObject_def split: if_splits\<close>)
qed


text \<open>What decryption does on a response whose three objects parse.\<close>

lemma mac_generate_covered:
  "sm_isInitialized s \<Longrightarrow>
     mac_generate L (sm_alg s) (sm_macKey s) (dataToMac A s r) =
     card_mac L s (padToCipherBlockSize
       ((if getEncryptedData r \<noteq> [] then encodedObject A 0x87 (smr_encryptedData r) else []) @
        encodedObject A 0x99 (smr_processingStatus r)))"
  by (simp only: dataToMac_def mac_generate_card)

lemma isInitialized_ssc [simp]: "sm_isInitialized (s\<lparr>sm_ssc := c\<rparr>) = sm_isInitialized s"
  by (simp add: sm_isInitialized_def)

lemma getReturnCode_append_status:
  "getReturnCode (xs @ be16 (statusValue sw)) = sw"
proof -
  have v: "statusValue sw < 65536" by (cases sw) simp_all
  have "xs @ be16 (statusValue sw) \<noteq> []" by simp
  then show ?thesis
    using from_be_be16 [OF v] by (simp add: getReturnCode_def statusOf_def)
qed

lemma decrypt_card_respond:
  assumes "der_laws A" and "cipher_laws L" and "sm_isInitialized s" and "length d \<le> 65000"
  shows "\<exists>s'. sm_decrypt L A (card_respond L A (s\<lparr>sm_ssc := sm_ssc s + 1\<rparr>) d sw) s
              = (Some (d @ be16 (statusValue sw)), s') \<and> sm_ssc s' = sm_ssc s + 1"
proof -
  let ?c = "s\<lparr>sm_ssc := sm_ssc s + 1\<rparr>"
  let ?buf = "card_respond L A ?c d sw"
  note p = parse_card_respond [OF assms(1,2,4), of ?c sw]
  have v: "statusValue sw < 65536" by (cases sw) simp_all
  have init: "sm_isInitialized ?c" using assms(3) by simp
  have rc: "getReturnCode ?buf = sw"
    using getReturnCode_append_status by (simp add: card_respond_def Let_def append_assoc [symmetric] del: append_assoc)
  have enc: "getEncryptedData (SecureMessagingResponse A ?buf) =
      (if d = [] then [] else lib_cbcEncrypt L (sm_encKey s) (card_iv L ?c) (padToCipherBlockSize d))"
    by (simp add: p getEncryptedData_def getOctetValue_def)
  have st: "getSecuredStatusCodeBytes (SecureMessagingResponse A ?buf) = be16 (statusValue sw)"
    by (simp add: p getSecuredStatusCodeBytes_def getOctetValue_def)
  have sc: "getSecuredStatusCode (SecureMessagingResponse A ?buf) = statusValue sw"
    by (simp add: getSecuredStatusCode_def st from_be_be16 [OF v]) (simp add: p)
  have mac: "mac_generate L (sm_alg ?c) (sm_macKey ?c) (dataToMac A ?c (SecureMessagingResponse A ?buf))
      = getMac (SecureMessagingResponse A ?buf)"
    unfolding mac_generate_covered [OF init] enc
    using encrypted_not_Nil [OF assms(2), of "sm_encKey s" "card_iv L ?c" d]
    by (simp add: p getMac_def getOctetValue_def encodedObject_def card_object_def)
  have fields: "smr_invalid (SecureMessagingResponse A ?buf) = False"
    "smr_buffer (SecureMessagingResponse A ?buf) = ?buf"
    by (simp_all add: p)
  have dec: "cipher_decrypt L (sm_alg ?c) (sm_encKey ?c) (card_iv L ?c)
      (lib_cbcEncrypt L (sm_encKey s) (card_iv L ?c) (padToCipherBlockSize d)) = padToCipherBlockSize d"
    using init encrypted_length [OF assms(2)] decrypt_encrypt [OF assms(2)] pad_blocks [of d]
    by (simp add: cipher_decrypt_def sm_isInitialized_def)
  show ?thesis
    using encrypted_not_Nil [OF assms(2), of "sm_encKey s" "card_iv L ?c" d] dec init assms(3)
      length_card_iv [OF assms(2), of ?c] mac
    by (simp add: sm_decrypt_def Let_def fields sc rc enc st unpad_pad getEncryptedIv_card)
qed

text \<open>
  C2. Whatever a card that holds the same keys and is one step ahead in its counter protects,
  the client reads back: it accepts the response, gives the plain data followed by the status
  word, and its counter is then the card's.
\<close>

theorem protected_response_is_read_back:
  assumes "der_laws A" and "cipher_laws L" and "sm_isInitialized s" and "length d \<le> 65000"
  shows "\<exists>s'. sm_decrypt L A (card_respond L A (s\<lparr>sm_ssc := sm_ssc s + 1\<rparr>) d sw) s
              = (Some (d @ be16 (statusValue sw)), s') \<and> sm_ssc s' = sm_ssc s + 1"
  using assms by (rule decrypt_card_respond)

definition sample_sm :: sm where
  "sample_sm = newSecureMessaging (oid_PACE_ECDH ECDH_GM_AES_CBC_CMAC_128) (replicate 16 1) (replicate 16 2)"

lemma sample_sm_initialized: "sm_isInitialized sample_sm"
proof -
  have a: "isAlg_AES128 (oid_PACE_ECDH ECDH_GM_AES_CBC_CMAC_128)"
    by (simp add: isAlg_AES128_def)
  with alg_exclusive(1) [OF a] show ?thesis
    by (simp add: sm_isInitialized_def sample_sm_def newSecureMessaging_def cipherInitialized_def
        cipherKeyLength_def del: oid_PACE_ECDH.simps)
qed

theorem protected_response_is_read_back_witness:
  "\<exists>s'. sm_decrypt sample_crypto der_lib (card_respond sample_crypto der_lib (sample_sm\<lparr>sm_ssc := 1\<rparr>) [7, 8] SC_SUCCESS) sample_sm
     = (Some ([7, 8] @ be16 0x9000), s') \<and> sm_ssc s' = 1"
proof -
  have "sm_ssc sample_sm = 0" by (simp add: sample_sm_def newSecureMessaging_def)
  then show ?thesis
    using protected_response_is_read_back [OF der_lib_laws sample_cipher_laws sample_sm_initialized, of "[7, 8]" SC_SUCCESS]
    by simp
qed

text \<open>The covered bytes of a command, as \<open>createMac\<close> collects them.\<close>

lemma createMac_card:
  "sm_isInitialized s \<Longrightarrow> createMac L A s h e l =
     i2d_octet A 0x8E (card_mac L s
       (if e @ l = [] then padToCipherBlockSize h @ e @ l
        else padToCipherBlockSize (padToCipherBlockSize h @ e @ l)))"
  by (simp add: createMac_def Let_def mac_generate_card)

lemma createSecuredLe_value:
  assumes "0 < n" "n \<le> 65536"
  shows "(let v = createSecuredLe n in if from_be v = 0 then 256 ^ length v else from_be v) = n"
proof (cases "n \<le> 256")
  case True
  with assms have "n mod 256 = (if n = 256 then 0 else n)" by simp
  with True assms show ?thesis by (auto simp: createSecuredLe_def)
next
  case False
  with assms have "n mod 65536 = (if n = 65536 then 0 else n)" by simp
  with False assms show ?thesis by (simp add: createSecuredLe_def from_be_pair del: from_be_2)
qed

lemma length_createSecuredLe: "length (createSecuredLe n) \<le> 2"
  by (simp add: createSecuredLe_def)

lemma secured_cla: "((c :: byte) AND 0xF0 OR 0x0C) AND 0x0F = 0x0C"
  by (simp add: word_ao_dist and.assoc)

text \<open>The card takes the three objects of a command apart.\<close>

lemma take_unwrap:
  assumes "der_laws A" "length m = 8" "\<And>v. e = Some v \<Longrightarrow> length v < 65536" "\<And>v. l = Some v \<Longrightarrow> length v < 65536"
    and "getData c = encodedObject A 0x87 e @ encodedObject A 0x97 l @ i2d_octet A 0x8E m"
    and "getCLA c AND 0x0F = 0x0C"
    and "m = card_mac L s (if encodedObject A 0x87 e @ encodedObject A 0x97 l = []
           then padToCipherBlockSize (take 4 c) @ encodedObject A 0x87 e @ encodedObject A 0x97 l
           else padToCipherBlockSize (padToCipherBlockSize (take 4 c) @ encodedObject A 0x87 e @ encodedObject A 0x97 l))"
  shows "card_unwrap L A s c = Some (getINS c, getP1 c, getP2 c,
      case e of None \<Rightarrow> [] | Some v \<Rightarrow> unpadFromCipherBlockSize (lib_cbcDecrypt L (sm_encKey s) (card_iv L s) (drop 1 v)),
      case l of None \<Rightarrow> 0 | Some v \<Rightarrow> (if from_be v = 0 then 256 ^ length v else from_be v))"
proof -
  have m: "length m < 65536" using assms(2) by simp
  have e: "decodeObject A 0x87 (getData c) = e"
    using assms(1,3,4) m unfolding assms(5)
    by (cases e; cases l) (simp_all add: encodedObject_def decode_objects)
  have l: "decodeObject A 0x97 (encodedObject A 0x97 l @ i2d_octet A 0x8E m) = l"
    using assms(1,4) m by (cases l) (simp_all add: encodedObject_def decode_objects)
  have d1: "drop (length (encodedObject A 0x87 e)) (getData c) = encodedObject A 0x97 l @ i2d_octet A 0x8E m"
    by (simp add: assms(5))
  have mac: "decodeObject A 0x8E (i2d_octet A 0x8E m) = Some m"
    using assms(1) m by (simp add: decode_objects)
  show ?thesis
    unfolding card_unwrap_def Let_def e d1 l append_eq_conv_conj [THEN iffD1, OF refl, THEN conjunct2]
    unfolding append_assoc assms(7) [symmetric]
    by (simp add: mac assms(6))
qed


text \<open>The secured command of the client, written with the card's operations.\<close>

lemma sm_encrypt_objects:
  assumes "cipher_laws L" "sm_isInitialized s" and "t = s\<lparr>sm_ssc := sm_ssc s + 1\<rparr>"
    and "e = (if getData p = [] then None
              else Some (1 # lib_cbcEncrypt L (sm_encKey t) (card_iv L t) (padToCipherBlockSize (getData p))))"
    and "l = (if getLe p = 0 then None else Some (createSecuredLe (getLe p)))"
    and "objs = encodedObject A 0x87 e @ encodedObject A 0x97 l"
    and "m = card_mac L t (if objs = [] then padToCipherBlockSize (createSecuredHeader p) @ objs
           else padToCipherBlockSize (padToCipherBlockSize (createSecuredHeader p) @ objs))"
  shows "\<exists>s'. sm_encrypt L A p s =
      (CommandApduOfHeader (createSecuredHeader p) (objs @ i2d_octet A 0x8E m)
         (createNewLe (objs @ i2d_octet A 0x8E m) (getLe p)), s') \<and> sm_ssc s' = sm_ssc s + 1"
proof -
  have init: "sm_isInitialized t" using assms(2,3) by simp
  have e: "encodedObject A 0x87 e = card_object L A t (getData p)"
    by (simp add: assms(4) encodedObject_def card_object_def)
  have l: "encodedObject A 0x97 l = (if 0 < getLe p then i2d_octet A 0x97 (createSecuredLe (getLe p)) else [])"
    by (simp add: assms(5) encodedObject_def)
  obtain t' where t': "encryptedDataObject L A (getData p) t = (encodedObject A 0x87 e, t')"
      "sm_isInitialized t'" "sequenceCounter t' = sequenceCounter t" "sm_macKey t' = sm_macKey t" "sm_ssc t' = sm_ssc t"
    using encryptedDataObject_card [OF init assms(1), of A "getData p"] init
    by (cases "getData p = []") (auto simp: e)
  have mac: "createMac L A t' (createSecuredHeader p) (encodedObject A 0x87 e) (encodedObject A 0x97 l) = i2d_octet A 0x8E m"
    using t'(3,4) by (simp add: createMac_card [OF t'(2)] assms(6,7) card_mac_def)
  have "sm_ssc t = sm_ssc s + 1" by (simp add: assms(3))
  with assms(2) show ?thesis
    using t'(1,5) mac
    by (simp add: sm_encrypt_def Let_def assms(3) [symmetric] assms(6) flip: l)
qed

lemma der_encode_not_Nil: "der_laws A \<Longrightarrow> length v < 65536 \<Longrightarrow> i2d_octet A t v \<noteq> []"
  by (rule der_encode_nonempty [of A v]) simp_all

lemma length_encodedObject:
  "der_laws A \<Longrightarrow> (\<And>v. x = Some v \<Longrightarrow> length v \<le> n) \<Longrightarrow> n < 65536 \<Longrightarrow> length (encodedObject A t x) \<le> n + 4"
proof (cases x)
  case (Some v)
  moreover assume "der_laws A" "\<And>v. x = Some v \<Longrightarrow> length v \<le> n" "n < 65536"
  ultimately show ?thesis
    using length_der_encode [of A v t] by (fastforce simp: encodedObject_def)
qed (simp add: encodedObject_def)

lemma take4_CommandApdu:
  "length d \<le> 0xffff \<Longrightarrow> le \<le> 0x10000 \<Longrightarrow> take 4 (CommandApdu c i p1 p2 d le) = [c, i, p1, p2]"
  by (simp add: CommandApdu_def)

lemma encrypt_reaches_card:
  assumes "der_laws A" and "cipher_laws L" and "sm_isInitialized s"
    and "length d \<le> 65000" and "0 \<le> le" and "le \<le> 0x10000" and "d \<noteq> [] \<or> le \<le> 256 \<or> le = 0x10000"
  shows "\<exists>c s'. sm_encrypt L A (CommandApdu cla ins p1 p2 d le) s = (c, s') \<and>
           sm_ssc s' = sm_ssc s + 1 \<and>
           card_unwrap L A (s\<lparr>sm_ssc := sm_ssc s + 1\<rparr>) c = Some (ins, p1, p2, d, nat le)"
proof -
  let ?p = "CommandApdu cla ins p1 p2 d le" and ?t = "s\<lparr>sm_ssc := sm_ssc s + 1\<rparr>"
  have f: "getCLA ?p = cla" "getINS ?p = ins" "getP1 ?p = p1" "getP2 ?p = p2" "getData ?p = d" "int (getLe ?p) = le"
    using command_apdu_fields [of d le cla ins p1 p2] assms(4-7) by simp_all
  define e where "e = (if getData ?p = [] then None
      else Some (1 # lib_cbcEncrypt L (sm_encKey ?t) (card_iv L ?t) (padToCipherBlockSize (getData ?p))))"
  define l where "l = (if getLe ?p = 0 then None else Some (createSecuredLe (getLe ?p)))"
  define objs where "objs = encodedObject A 0x87 e @ encodedObject A 0x97 l"
  define h where "h = createSecuredHeader ?p"
  define m where "m = card_mac L ?t (if objs = [] then padToCipherBlockSize h @ objs
      else padToCipherBlockSize (padToCipherBlockSize h @ objs))"
  define sec where "sec = objs @ i2d_octet A 0x8E m"
  obtain s' where s': "sm_encrypt L A ?p s = (CommandApduOfHeader h sec (createNewLe sec (getLe ?p)), s')"
      "sm_ssc s' = sm_ssc s + 1"
    using sm_encrypt_objects [OF assms(2,3) refl e_def l_def objs_def m_def [unfolded h_def]]
    by (auto simp: h_def sec_def)
  let ?c = "CommandApduOfHeader h sec (createNewLe sec (getLe ?p))"
  have m8: "length m = 8" by (simp add: m_def length_card_mac [OF assms(2)])
  have e_len: "length v \<le> 65017" if "e = Some v" for v
    using that encrypted_length [OF assms(2)] length_padded [of d] assms(4)
    by (auto simp: e_def f split: if_splits)
  have l_len: "length v \<le> 2" if "l = Some v" for v
    using that length_createSecuredLe by (auto simp: l_def split: if_splits)
  have sec_len: "length sec \<le> 0xffff"
    using length_encodedObject [OF assms(1), of e 65017 "0x87"] e_len
      length_encodedObject [OF assms(1), of l 2 "0x97"] l_len
      length_der_encode [OF assms(1), of m "0x8E"] m8
    by (simp add: sec_def objs_def)
  have sec_ne: "sec \<noteq> []"
    using der_encode_not_Nil [OF assms(1), of m] m8 by (simp add: sec_def)
  have nle: "0 \<le> createNewLe sec n \<and> createNewLe sec n \<le> 0x10000" for n
    by (simp add: createNewLe_def)
  have hd: "h = [(cla AND 0xF0) OR 0x0C, ins, p1, p2]"
    by (simp add: h_def createSecuredHeader_def f)
  have F: "getCLA ?c = (cla AND 0xF0) OR 0x0C \<and> getINS ?c = ins \<and> getP1 ?c = p1 \<and> getP2 ?c = p2 \<and> getData ?c = sec"
    using command_apdu_fields [OF sec_len conjunct1 [OF nle] conjunct2 [OF nle], of "getLe ?p" "h ! 0" "h ! 1" "h ! 2" "h ! 3"] sec_ne
    unfolding CommandApduOfHeader_def hd by simp
  have cf: "getCLA ?c AND 0x0F = 0x0C" "getINS ?c = ins" "getP1 ?c = p1" "getP2 ?c = p2" "getData ?c = sec" "take 4 ?c = h"
    using F nle sec_len by (simp_all add: secured_cla CommandApduOfHeader_def take4_CommandApdu hd)
  have "card_unwrap L A ?t ?c = Some (getINS ?c, getP1 ?c, getP2 ?c,
      case e of None \<Rightarrow> [] | Some v \<Rightarrow> unpadFromCipherBlockSize (lib_cbcDecrypt L (sm_encKey ?t) (card_iv L ?t) (drop 1 v)),
      case l of None \<Rightarrow> 0 | Some v \<Rightarrow> (if from_be v = 0 then 256 ^ length v else from_be v))"
  proof (rule take_unwrap [OF assms(1) m8 _ _ _ cf(1)])
    show "length v < 65536" if "e = Some v" for v using e_len [OF that] by simp
    show "length v < 65536" if "l = Some v" for v using l_len [OF that] by simp
    show "getData ?c = encodedObject A 0x87 e @ encodedObject A 0x97 l @ i2d_octet A 0x8E m"
      using cf(5) by (simp only: sec_def objs_def append_assoc)
    show "m = card_mac L ?t (if encodedObject A 0x87 e @ encodedObject A 0x97 l = []
        then padToCipherBlockSize (take 4 ?c) @ encodedObject A 0x87 e @ encodedObject A 0x97 l
        else padToCipherBlockSize (padToCipherBlockSize (take 4 ?c) @ encodedObject A 0x87 e @ encodedObject A 0x97 l))"
      unfolding m_def cf(6) objs_def ..
  qed
  moreover have "(case e of None \<Rightarrow> [] | Some v \<Rightarrow> unpadFromCipherBlockSize (lib_cbcDecrypt L (sm_encKey ?t) (card_iv L ?t) (drop 1 v))) = d"
    by (simp add: e_def f decrypt_encrypt [OF assms(2)] unpad_pad)
  moreover have "(case l of None \<Rightarrow> 0 | Some v \<Rightarrow> (if from_be v = 0 then 256 ^ length v else from_be v)) = nat le"
    using createSecuredLe_value [of "getLe ?p"] f(6) assms(6) by (auto simp: l_def Let_def)
  ultimately show ?thesis using s' cf(2-4) by auto
qed


text \<open>
  C1. A command that the client secures reaches the card unchanged: a card that holds the same
  keys and whose counter is the client's new one finds its checksum correct, the class byte
  marked as secured, and instruction, parameters, data and expected length those of the plain
  command. This needs the plain command to keep its own fields, which an extended expected
  length without data does not.
\<close>

theorem secured_command_reaches_card:
  assumes "der_laws A" and "cipher_laws L" and "sm_isInitialized s"
    and "length d \<le> 65000" and "0 \<le> le" and "le \<le> 0x10000" and "d \<noteq> [] \<or> le \<le> 256 \<or> le = 0x10000"
  shows "\<exists>c s'. sm_encrypt L A (CommandApdu cla ins p1 p2 d le) s = (c, s') \<and>
           sm_ssc s' = sm_ssc s + 1 \<and>
           card_unwrap L A (s\<lparr>sm_ssc := sm_ssc s + 1\<rparr>) c = Some (ins, p1, p2, d, nat le)"
  using assms by (rule encrypt_reaches_card)

theorem secured_command_reaches_card_witness:
  "\<exists>c s'. sm_encrypt sample_crypto der_lib (CommandApdu 0 0xB0 0 1 [] 256) sample_sm = (c, s') \<and>
     card_unwrap sample_crypto der_lib (sample_sm\<lparr>sm_ssc := sm_ssc sample_sm + 1\<rparr>) c = Some (0xB0, 0, 1, [], 256)"
  using secured_command_reaches_card [OF der_lib_laws sample_cipher_laws sample_sm_initialized, of "[]" 256 0 "0xB0" 0 1]
  by auto

lemma if_chain_last:
  assumes "\<not> P (if a then x else if b then y else if c then z else w)" "P x" "P y" "P z"
  shows "(if a then x else if b then y else if c then z else w) = w \<and> \<not> a \<and> \<not> b \<and> \<not> c"
  using assms by (cases a; cases b; cases c) simp_all

lemma valid_response:
  assumes "\<not> smr_invalid (SecureMessagingResponse A buf)"
  shows "\<exists>status mac. smr_processingStatus (SecureMessagingResponse A buf) = Some status \<and>
     smr_checksum (SecureMessagingResponse A buf) = Some mac \<and> length status = 2"
proof -
  note * = if_chain_last [where P = smr_invalid, OF assms [unfolded SecureMessagingResponse_def Let_def]]
  from * show ?thesis
    unfolding SecureMessagingResponse_def Let_def
    by (auto simp: getOctetValue_def split del: if_split split: option.splits)
qed

text \<open>
  The objects of a response that a checksum has to cover, with the cryptogram whenever there is
  one, and the plain response that they stand for. These are specifications as well.
\<close>

definition protected_objects :: "asn1_lib \<Rightarrow> bytes option \<Rightarrow> bytes \<Rightarrow> bytes" where
  "protected_objects A e t =
    (case e of None \<Rightarrow> [] | Some v \<Rightarrow> if tl v = [] then [] else i2d_octet A 0x87 v) @ i2d_octet A 0x99 t"

definition plain_response :: "crypto_lib \<Rightarrow> sm \<Rightarrow> bytes option \<Rightarrow> bytes \<Rightarrow> bytes" where
  "plain_response L s e t =
    (case e of
       None \<Rightarrow> []
     | Some v \<Rightarrow> if tl v = [] \<or> length (tl v) mod 16 \<noteq> 0 then []
         else unpadFromCipherBlockSize (lib_cbcDecrypt L (sm_encKey s) (card_iv L s) (tl v))) @ t"

lemma parsed_shape:
  assumes "\<not> smr_invalid (SecureMessagingResponse A buf)"
  obtains e t m where "SecureMessagingResponse A buf = \<lparr>smr_buffer = buf, smr_invalid = False, smr_encryptedData = e,
      smr_processingStatus = Some t, smr_checksum = Some m\<rparr>" "length t = 2"
proof -
  let ?r = "SecureMessagingResponse A buf"
  obtain t m where "smr_processingStatus ?r = Some t" "smr_checksum ?r = Some m" "length t = 2"
    using valid_response [OF assms] by blast
  moreover have "smr_buffer ?r = buf" by (simp add: SecureMessagingResponse_def Let_def)
  ultimately have "?r = \<lparr>smr_buffer = buf, smr_invalid = False, smr_encryptedData = smr_encryptedData ?r,
      smr_processingStatus = Some t, smr_checksum = Some m\<rparr>"
    using assms by (cases ?r) simp
  then show thesis using that \<open>length t = 2\<close> by blast
qed

text \<open>What decryption does with a response whose objects are \<open>e\<close>, \<open>t\<close> and \<open>m\<close>.\<close>

lemma decrypt_parsed:
  assumes "cipher_laws L" "sm_isInitialized s" "length t = 2"
    and r: "SecureMessagingResponse A buf = \<lparr>smr_buffer = buf, smr_invalid = False, smr_encryptedData = e,
      smr_processingStatus = Some t, smr_checksum = Some m\<rparr>"
  shows "fst (sm_decrypt L A buf s) =
    (if from_be t = statusValue (getReturnCode buf) \<and>
        m = card_mac L (s\<lparr>sm_ssc := sm_ssc s + 1\<rparr>) (padToCipherBlockSize (protected_objects A e t))
     then Some (plain_response L (s\<lparr>sm_ssc := sm_ssc s + 1\<rparr>) e t) else None)"
proof -
  let ?c = "s\<lparr>sm_ssc := sm_ssc s + 1\<rparr>"
  have i: "sm_isInitialized ?c" using assms(2) by simp
  have t: "t \<noteq> []" using assms(3) by auto
  have enc: "getEncryptedData (SecureMessagingResponse A buf) = (case e of None \<Rightarrow> [] | Some v \<Rightarrow> tl v)"
    by (simp add: r getEncryptedData_def getOctetValue_def drop_Suc split: option.split)
  have mac: "mac_generate L (sm_alg s) (sm_macKey s) (dataToMac A ?c (SecureMessagingResponse A buf)) =
      card_mac L ?c (padToCipherBlockSize (protected_objects A e t))"
    using mac_generate_covered [OF i, of L A "SecureMessagingResponse A buf"] unfolding enc
    by (simp add: r protected_objects_def encodedObject_def split: option.split)
  have dec: "cipher_decrypt L (sm_alg s) (sm_encKey s) (card_iv L ?c) x =
      (if length x mod 16 \<noteq> 0 then [] else lib_cbcDecrypt L (sm_encKey s) (card_iv L ?c) x)" for x
    using i by (simp add: cipher_decrypt_def sm_isInitialized_def)
  have unpad: "unpadFromCipherBlockSize [] = []" by (simp add: unpadFromCipherBlockSize_def)
  have g: "getSecuredStatusCode (SecureMessagingResponse A buf) = from_be t"
      "getSecuredStatusCodeBytes (SecureMessagingResponse A buf) = t" "getMac (SecureMessagingResponse A buf) = m"
    using t by (simp_all add: r getSecuredStatusCode_def getSecuredStatusCodeBytes_def getMac_def getOctetValue_def)
  have f: "smr_invalid (SecureMessagingResponse A buf) = False" "smr_buffer (SecureMessagingResponse A buf) = buf"
    by (simp_all add: r)
  show ?thesis
    using assms(2) length_card_iv [OF assms(1), of ?c]
    by (cases e) (auto simp: sm_decrypt_def Let_def f g enc mac getEncryptedIv_card [OF i] dec unpad plain_response_def)
qed

lemma i2d_octet_inject:
  assumes "der_laws A" "length v < 65536" "length v' < 65536" and eq: "i2d_octet A x v = i2d_octet A x v'"
  shows "v = v'"
proof -
  have "Some v = Some v'"
    using decode_same_Nil [OF assms(1,2), of x] decode_same_Nil [OF assms(1,3), of x] unfolding eq by (rule trans [OF sym])
  then show ?thesis by simp
qed

lemma pad_inject: "padToCipherBlockSize x = padToCipherBlockSize y \<longleftrightarrow> x = y"
  by (metis unpad_pad)

text \<open>Covered objects that are equal stand for the same plain response.\<close>

lemma protected_objects_inject:
  assumes "der_laws A" "cipher_laws L" "length d \<le> 65000" "length t = 2" "length t' = 2" "length (getOctetValue e) < 65536"
    and "protected_objects A e t = card_object L A s d @ i2d_octet A 0x99 t'"
  shows "plain_response L s e t = d @ t'"
proof -
  let ?v = "1 # lib_cbcEncrypt L (sm_encKey s) (card_iv L s) (padToCipherBlockSize d)"
  have v: "length ?v < 65536" using encrypted_length [OF assms(2)] length_padded [of d] assms(3) by simp
  have left: "decodeObject A 0x87 (protected_objects A e t) = (case e of None \<Rightarrow> None | Some v \<Rightarrow> if tl v = [] then None else Some v)"
    using assms(1,4,6) by (cases e) (simp_all add: protected_objects_def decode_objects getOctetValue_def)
  have right: "decodeObject A 0x87 (card_object L A s d @ i2d_octet A 0x99 t') = (if d = [] then None else Some ?v)"
    using assms(1,5) v by (simp add: card_object_def decode_objects)
  show ?thesis
  proof (cases "d = []")
    case True
    then have "(case e of None \<Rightarrow> None | Some v \<Rightarrow> if tl v = [] then None else Some v) = None"
      using left right assms(7) by simp
    then have e: "e = None \<or> (\<exists>v. e = Some v \<and> tl v = [])" by (auto split: option.splits if_splits)
    then have "i2d_octet A 0x99 t = i2d_octet A 0x99 t'"
      using assms(7) True by (auto simp: protected_objects_def card_object_def)
    then have "t = t'" using i2d_octet_inject [OF assms(1)] assms(4,5) by simp
    then show ?thesis using e True by (auto simp: plain_response_def)
  next
    case False
    then have e: "e = Some ?v"
      using left right assms(7) by (auto split: option.splits if_splits)
    have "i2d_octet A 0x99 t = i2d_octet A 0x99 t'"
      using assms(7) False encrypted_not_Nil [OF assms(2)] by (simp add: e protected_objects_def card_object_def)
    then have "t = t'" using i2d_octet_inject [OF assms(1)] assms(4,5) by simp
    then show ?thesis
      using encrypted_not_Nil [OF assms(2)] encrypted_length [OF assms(2)] pad_blocks [of d]
      by (simp add: e plain_response_def decrypt_encrypt [OF assms(2)] unpad_pad)
  qed
qed

text \<open>
  C3. Nothing is accepted without a valid checksum. A response is decrypted to \<open>p\<close> exactly when it
  consists of three readable objects, the protected status word is the one outside, the checksum is
  the MAC of the new counter and of both other objects, the cryptogram among them whenever there is
  one, and \<open>p\<close> is the decrypted cryptogram with this status. So if it carries the checksum that the card
  made for data \<open>d\<close> and status \<open>sw\<close> at this counter, then \<open>p\<close> is \<open>d\<close> with \<open>sw\<close>, or the objects that came and those that the
  card sent are two different messages with the same MAC.
\<close>

theorem accepted_response_is_authentic:
  assumes "der_laws A" "cipher_laws L" "sm_isInitialized s" "length d \<le> 65000"
    and "length (getOctetValue (smr_encryptedData (SecureMessagingResponse A buf))) < 65536"
  defines "c \<equiv> s\<lparr>sm_ssc := sm_ssc s + 1\<rparr>"
  shows "((\<exists>s'. sm_decrypt L A buf s = (Some p, s')) \<longleftrightarrow>
      (\<exists>e t. SecureMessagingResponse A buf = \<lparr>smr_buffer = buf, smr_invalid = False, smr_encryptedData = e,
           smr_processingStatus = Some t,
           smr_checksum = Some (card_mac L c (padToCipherBlockSize (protected_objects A e t)))\<rparr> \<and>
         length t = 2 \<and> from_be t = statusValue (getReturnCode buf) \<and> p = plain_response L c e t)) \<and>
    ((\<exists>s'. sm_decrypt L A buf s = (Some p, s')) \<and>
       smr_checksum (SecureMessagingResponse A buf) = smr_checksum (SecureMessagingResponse A (card_respond L A c d sw)) \<longrightarrow>
     p = d @ be16 (statusValue sw) \<or>
     (let x = protected_objects A (smr_encryptedData (SecureMessagingResponse A buf)) (getOctetValue (smr_processingStatus (SecureMessagingResponse A buf)));
          y = card_object L A c d @ i2d_octet A 0x99 (be16 (statusValue sw))
      in x \<noteq> y \<and> card_mac L c (padToCipherBlockSize x) = card_mac L c (padToCipherBlockSize y)))"
proof -
  let ?r = "SecureMessagingResponse A buf"
  have iff: "(\<exists>s'. sm_decrypt L A buf s = (Some p, s')) \<longleftrightarrow> fst (sm_decrypt L A buf s) = Some p"
    by (metis fst_conv prod.collapse)
  have refused: "fst (sm_decrypt L A buf s) = None" if "smr_invalid ?r"
    using that by (simp add: sm_decrypt_def Let_def)
  have first: "fst (sm_decrypt L A buf s) = Some p \<longleftrightarrow>
      (\<exists>e t. ?r = \<lparr>smr_buffer = buf, smr_invalid = False, smr_encryptedData = e, smr_processingStatus = Some t,
           smr_checksum = Some (card_mac L c (padToCipherBlockSize (protected_objects A e t)))\<rparr> \<and>
         length t = 2 \<and> from_be t = statusValue (getReturnCode buf) \<and> p = plain_response L c e t)"
  proof (cases "smr_invalid ?r")
    case True
    then show ?thesis using refused by auto
  next
    case False
    then obtain e t m where r: "?r = \<lparr>smr_buffer = buf, smr_invalid = False, smr_encryptedData = e,
        smr_processingStatus = Some t, smr_checksum = Some m\<rparr>" "length t = 2"
      using parsed_shape by blast
    then show ?thesis
      unfolding decrypt_parsed [OF assms(2,3) r(2,1)] c_def r(1) by auto
  qed
  moreover have "p = d @ be16 (statusValue sw) \<or>
     (let x = protected_objects A (smr_encryptedData ?r) (getOctetValue (smr_processingStatus ?r));
          y = card_object L A c d @ i2d_octet A 0x99 (be16 (statusValue sw))
      in x \<noteq> y \<and> card_mac L c (padToCipherBlockSize x) = card_mac L c (padToCipherBlockSize y))"
    if acc: "fst (sm_decrypt L A buf s) = Some p" and sum: "smr_checksum ?r = smr_checksum (SecureMessagingResponse A (card_respond L A c d sw))"
  proof -
    obtain e t where r: "?r = \<lparr>smr_buffer = buf, smr_invalid = False, smr_encryptedData = e, smr_processingStatus = Some t,
           smr_checksum = Some (card_mac L c (padToCipherBlockSize (protected_objects A e t)))\<rparr>"
        "length t = 2" "p = plain_response L c e t"
      using first acc by blast
    have "card_mac L c (padToCipherBlockSize (protected_objects A e t)) =
        card_mac L c (padToCipherBlockSize (card_object L A c d @ i2d_octet A 0x99 (be16 (statusValue sw))))"
      using sum by (simp add: r(1) parse_card_respond [OF assms(1,2,4)])
    moreover have "length (getOctetValue e) < 65536" using assms(5) by (simp add: r(1))
    ultimately show ?thesis
      using protected_objects_inject [OF assms(1,2,4) r(2), of "be16 (statusValue sw)" e c]
      by (auto simp: r(1,3) getOctetValue_def Let_def)
  qed
  ultimately show ?thesis unfolding iff by blast
qed

theorem accepted_response_is_authentic_witness:
  "\<exists>e t. smr_checksum (SecureMessagingResponse der_lib
       (card_respond sample_crypto der_lib (sample_sm\<lparr>sm_ssc := sm_ssc sample_sm + 1\<rparr>) [7, 8] SC_SUCCESS)) =
     Some (card_mac sample_crypto (sample_sm\<lparr>sm_ssc := sm_ssc sample_sm + 1\<rparr>) (padToCipherBlockSize (protected_objects der_lib e t))) \<and>
   [7, 8] @ be16 (statusValue SC_SUCCESS) = plain_response sample_crypto (sample_sm\<lparr>sm_ssc := sm_ssc sample_sm + 1\<rparr>) e t"
proof -
  let ?c = "sample_sm\<lparr>sm_ssc := sm_ssc sample_sm + 1\<rparr>"
  let ?buf = "card_respond sample_crypto der_lib ?c [7, 8] SC_SUCCESS"
  have d: "length ([7, 8] :: bytes) \<le> 65000" by simp
  have "\<exists>s'. sm_decrypt sample_crypto der_lib ?buf sample_sm = (Some ([7, 8] @ be16 (statusValue SC_SUCCESS)), s')"
    using decrypt_card_respond [OF der_lib_laws sample_cipher_laws sample_sm_initialized d, of SC_SUCCESS] by blast
  moreover have "length (getOctetValue (smr_encryptedData (SecureMessagingResponse der_lib ?buf))) < 65536"
    using encrypted_length [OF sample_cipher_laws] length_padded [of "[7, 8]"]
    by (simp add: parse_card_respond [OF der_lib_laws sample_cipher_laws d] getOctetValue_def)
  ultimately show ?thesis
    using accepted_response_is_authentic [OF der_lib_laws sample_cipher_laws sample_sm_initialized d,
        of ?buf "[7, 8] @ be16 (statusValue SC_SUCCESS)" SC_SUCCESS] by force
qed

section \<open>The object as a machine\<close>

text \<open>A session is a sequence of operations on the one object, in the order of the calls.\<close>

datatype sm_event = SmEncrypt bytes | SmDecrypt bytes

definition sm_step :: "crypto_lib \<Rightarrow> asn1_lib \<Rightarrow> sm \<Rightarrow> sm_event \<Rightarrow> sm" where
  "sm_step L A s ev =
    (case ev of
       SmEncrypt c \<Rightarrow> snd (sm_encrypt L A c s)
     | SmDecrypt r \<Rightarrow> snd (sm_decrypt L A r s))"

lemma encryptedDataObject_fields:
  "encryptedDataObject L A d s = (e, s') \<Longrightarrow>
     sm_alg s' = sm_alg s \<and> sm_encKey s' = sm_encKey s \<and> sm_macKey s' = sm_macKey s \<and> sm_ssc s' = sm_ssc s"
  by (auto simp: encryptedDataObject_def Let_def dest!: getEncryptedIv_fields split: if_splits prod.splits)

lemma sm_step_fields:
  "sm_isInitialized s \<Longrightarrow>
     sm_alg (sm_step L A s ev) = sm_alg s \<and> sm_encKey (sm_step L A s ev) = sm_encKey s \<and>
     sm_macKey (sm_step L A s ev) = sm_macKey s \<and> sm_ssc (sm_step L A s ev) = sm_ssc s + 1"
  by (cases ev)
    (auto simp: sm_step_def sm_encrypt_def sm_decrypt_def Let_def
       dest!: getEncryptedIv_fields encryptedDataObject_fields split: prod.splits)

lemma sm_step_keeps_keys:
  "sm_isInitialized s \<and> sm_alg s = a \<and> sm_encKey s = e \<and> sm_macKey s = m \<Longrightarrow>
   sm_isInitialized (sm_step L A s ev) \<and> sm_alg (sm_step L A s ev) = a \<and>
   sm_encKey (sm_step L A s ev) = e \<and> sm_macKey (sm_step L A s ev) = m"
  using sm_step_fields [of s L A ev] by (auto simp: sm_isInitialized_def)

interpretation sm_machine: machine "sm_step L A"
  "\<lambda>s. sm_isInitialized s \<and> sm_alg s = a \<and> sm_encKey s = e \<and> sm_macKey s = m" for L A a e m
  by unfold_locales (rule sm_step_keeps_keys)

lemma sm_run_counter:
  "sm_isInitialized s \<Longrightarrow> sm_ssc (run (sm_step L A) s evs) = sm_ssc s + of_nat (length evs)"
proof (induction evs arbitrary: s)
  case Nil
  then show ?case by simp
next
  case (Cons ev evs)
  then have "sm_isInitialized (sm_step L A s ev)"
    using sm_step_keeps_keys [of s "sm_alg s" "sm_encKey s" "sm_macKey s" L A ev] by simp
  with Cons.IH [OF this] sm_step_fields [OF Cons.prems, of L A ev] show ?case
    by (simp add: add.assoc)
qed

text \<open>
  C29. Over a whole session, whatever commands and responses (also forged ones) pass through the
  object: its keys stay, it stays initialised, and the counter counts every operation, also the
  refused ones. So within 2^32 operations no two of them use the same counter value, hence
  never the same initialisation vector input or MAC prefix.
\<close>

theorem session_counter_never_repeats:
  assumes "sm_isInitialized s" and "length xs < length ys" and "length ys < 2 ^ 32"
  shows "sm_isInitialized (run (sm_step L A) s ys) \<and>
         sm_encKey (run (sm_step L A) s ys) = sm_encKey s \<and>
         sm_macKey (run (sm_step L A) s ys) = sm_macKey s \<and>
         sm_ssc (run (sm_step L A) s ys) = sm_ssc s + of_nat (length ys) \<and>
         sequenceCounter (run (sm_step L A) s xs) \<noteq> sequenceCounter (run (sm_step L A) s ys)"
proof -
  have "(of_nat (length xs) :: 32 word) \<noteq> of_nat (length ys)"
  proof
    assume "(of_nat (length xs) :: 32 word) = of_nat (length ys)"
    then have "unat (of_nat (length xs) :: 32 word) = unat (of_nat (length ys) :: 32 word)" by simp
    with assms(2,3) show False by (simp add: unat_of_nat)
  qed
  then have "sm_ssc (run (sm_step L A) s xs) \<noteq> sm_ssc (run (sm_step L A) s ys)"
    by (simp add: sm_run_counter [OF assms(1)])
  then show ?thesis
    using sm_machine.run_inv [of s "sm_alg s" "sm_encKey s" "sm_macKey s" L A ys] assms(1)
    by (simp add: sequenceCounter_inject sm_run_counter)
qed

theorem session_counter_never_repeats_witness:
  "sequenceCounter (run (sm_step sample_crypto der_lib) sample_sm [])
   \<noteq> sequenceCounter (run (sm_step sample_crypto der_lib) sample_sm [SmDecrypt [0x90, 0]])"
  using session_counter_never_repeats [OF sample_sm_initialized, of "[]" "[SmDecrypt [0x90, 0]]"
      sample_crypto der_lib]
  by simp

end
