(* ===== verification/Chat.thy ===== *)
theory Chat
  imports Protocols
begin

text \<open>
  Certificate holder authorization templates: src/src/card/base/asn1/Chat.cpp with the access
  rights and roles of AccessRoleAndRight.h and AccessRoleAndRight.cpp. A template is an octet
  string; decoding refuses every length but five (\<open>CHAT_decodeCallback\<close>), an unset template
  is empty. The rights are the low 38 bits of its big-endian value, the role the two high bits
  of its first byte.
\<close>

section \<open>Rights and roles\<close>

datatype (plugins only: size) AccessRight =
    WRITE_DG17 | WRITE_DG18 | WRITE_DG19 | WRITE_DG20 | WRITE_DG21 | RFU_32 | RFU_31 |
    RFU_30 | RFU_29 | READ_DG21 | READ_DG20 | READ_DG19 | READ_DG18 | READ_DG17 | READ_DG16
    | READ_DG15 | READ_DG14 | READ_DG13 | READ_DG12 | READ_DG11 | READ_DG10 | READ_DG09 |
    READ_DG08 | READ_DG07 | READ_DG06 | READ_DG05 | READ_DG04 | READ_DG03 | READ_DG02 |
    READ_DG01 | INSTALL_QUAL_CERT | INSTALL_CERT | PIN_MANAGEMENT | CAN_ALLOWED |
    PRIVILEGED_TERMINAL | RESTRICTED_IDENTIFICATION | COMMUNITY_ID_VERIFICATION |
    AGE_VERIFICATION

fun rightValue :: "AccessRight \<Rightarrow> nat" where
  "rightValue WRITE_DG17 = 37"
| "rightValue WRITE_DG18 = 36"
| "rightValue WRITE_DG19 = 35"
| "rightValue WRITE_DG20 = 34"
| "rightValue WRITE_DG21 = 33"
| "rightValue RFU_32 = 32"
| "rightValue RFU_31 = 31"
| "rightValue RFU_30 = 30"
| "rightValue RFU_29 = 29"
| "rightValue READ_DG21 = 28"
| "rightValue READ_DG20 = 27"
| "rightValue READ_DG19 = 26"
| "rightValue READ_DG18 = 25"
| "rightValue READ_DG17 = 24"
| "rightValue READ_DG16 = 23"
| "rightValue READ_DG15 = 22"
| "rightValue READ_DG14 = 21"
| "rightValue READ_DG13 = 20"
| "rightValue READ_DG12 = 19"
| "rightValue READ_DG11 = 18"
| "rightValue READ_DG10 = 17"
| "rightValue READ_DG09 = 16"
| "rightValue READ_DG08 = 15"
| "rightValue READ_DG07 = 14"
| "rightValue READ_DG06 = 13"
| "rightValue READ_DG05 = 12"
| "rightValue READ_DG04 = 11"
| "rightValue READ_DG03 = 10"
| "rightValue READ_DG02 = 9"
| "rightValue READ_DG01 = 8"
| "rightValue INSTALL_QUAL_CERT = 7"
| "rightValue INSTALL_CERT = 6"
| "rightValue PIN_MANAGEMENT = 5"
| "rightValue CAN_ALLOWED = 4"
| "rightValue PRIVILEGED_TERMINAL = 3"
| "rightValue RESTRICTED_IDENTIFICATION = 2"
| "rightValue COMMUNITY_ID_VERIFICATION = 1"
| "rightValue AGE_VERIFICATION = 0"

definition allRights :: "AccessRight list" where
  "allRights =
    [WRITE_DG17, WRITE_DG18, WRITE_DG19, WRITE_DG20, WRITE_DG21, RFU_32, RFU_31, RFU_30,
    RFU_29, READ_DG21, READ_DG20, READ_DG19, READ_DG18, READ_DG17, READ_DG16, READ_DG15,
    READ_DG14, READ_DG13, READ_DG12, READ_DG11, READ_DG10, READ_DG09, READ_DG08, READ_DG07,
    READ_DG06, READ_DG05, READ_DG04, READ_DG03, READ_DG02, READ_DG01, INSTALL_QUAL_CERT,
    INSTALL_CERT, PIN_MANAGEMENT, CAN_ALLOWED, PRIVILEGED_TERMINAL,
    RESTRICTED_IDENTIFICATION, COMMUNITY_ID_VERIFICATION, AGE_VERIFICATION]"

definition allDisplayedOrderedRights :: "AccessRight list" where
  "allDisplayedOrderedRights =
    [READ_DG05, READ_DG13, READ_DG04, READ_DG07, READ_DG08, READ_DG09, READ_DG17, READ_DG01,
    READ_DG03, RESTRICTED_IDENTIFICATION, READ_DG10, READ_DG06, AGE_VERIFICATION,
    COMMUNITY_ID_VERIFICATION, READ_DG02, READ_DG19, INSTALL_QUAL_CERT, INSTALL_CERT]"

datatype AccessRole = CVCA | DV_od | DV_no_f | AT | AR_UNKNOWN

fun roleValue :: "AccessRole \<Rightarrow> int" where
  "roleValue CVCA = 3"
| "roleValue DV_od = 2"
| "roleValue DV_no_f = 1"
| "roleValue AT = 0"
| "roleValue AR_UNKNOWN = -1"

definition AccessRole_list :: "AccessRole list" where
  "AccessRole_list = [CVCA, DV_od, DV_no_f, AT, AR_UNKNOWN]"

interpretation access_role: enum_type roleValue AccessRole_list
proof
  fix e :: AccessRole
  show "e \<in> set AccessRole_list" by (cases e) (simp_all add: AccessRole_list_def)
  show "distinct (map roleValue AccessRole_list)" by (simp add: AccessRole_list_def)
qed

interpretation access_right: enum_type rightValue allRights
proof
  fix e :: AccessRight
  show "e \<in> set allRights" by (cases e) (simp_all add: allRights_def)
  show "distinct (map rightValue allRights)" by (simp add: allRights_def)
qed

section \<open>The template\<close>

record chat =
  chat_type :: string
  chat_template :: bytes

definition oid_ID_AT :: string where
  "oid_ID_AT = oid_BSI_DE @ ''.3.1.2.2''"

text \<open>What the decoder accepts once OpenSSL has read type and template.\<close>

definition CHAT_decodeCallback :: "chat \<Rightarrow> chat option" where
  "CHAT_decodeCallback c =
    (if length (chat_template c) \<noteq> 5 then None
     else if chat_type c \<noteq> oid_ID_AT then None
     else Some c)"

definition setTemplateBit :: "nat \<Rightarrow> bool \<Rightarrow> chat \<Rightarrow> chat" where
  "setTemplateBit pBitIndex pOn c =
    (if 39 < pBitIndex then c
     else
       let t = (if chat_template c = [] then replicate 5 0 else chat_template c);
           byteNumber = 4 - pBitIndex div 8;
           bitNumberInByte = pBitIndex mod 8;
           b = t ! byteNumber;
           b' = (if pOn then b OR push_bit bitNumberInByte 1
                 else b AND NOT (push_bit bitNumberInByte 1))
       in c\<lparr>chat_template := t[byteNumber := b']\<rparr>)"

definition setAccessRole :: "AccessRole \<Rightarrow> chat \<Rightarrow> chat" where
  "setAccessRole pRole c =
    (if pRole = AR_UNKNOWN then c
     else
       let lowerRoleBit = (roleValue pRole mod 2 \<noteq> 0);
           higherRoleBit = (2 \<le> roleValue pRole)
       in setTemplateBit 39 higherRoleBit (setTemplateBit 38 lowerRoleBit c))"

definition getAccessRole :: "chat \<Rightarrow> AccessRole" where
  "getAccessRole c =
    (if chat_template c = [] then AR_UNKNOWN
     else (case enum_ofValue roleValue AccessRole_list (uint (drop_bit 6 (chat_template c ! 0))) of
             Some r \<Rightarrow> r | None \<Rightarrow> AR_UNKNOWN))"

text \<open>The 64-bit accumulator of \<open>getAccessRights\<close>.\<close>

definition accessRoleAndRights :: "bytes \<Rightarrow> 64 word" where
  "accessRoleAndRights t = foldl (\<lambda>acc b. push_bit 8 acc + ucast b) 0 t"

definition getAccessRights :: "chat \<Rightarrow> AccessRight list" where
  "getAccessRights c =
    filter (\<lambda>accessRight.
        let mask = push_bit (rightValue accessRight) 1
        in accessRoleAndRights (chat_template c) AND mask = mask) allRights"

definition hasAccessRight :: "AccessRight \<Rightarrow> chat \<Rightarrow> bool" where
  "hasAccessRight r c \<longleftrightarrow> r \<in> set (getAccessRights c)"

definition setAccessRight :: "AccessRight \<Rightarrow> chat \<Rightarrow> chat" where
  "setAccessRight r c = setTemplateBit (rightValue r) True c"

definition setAccessRights :: "AccessRight list \<Rightarrow> chat \<Rightarrow> chat" where
  "setAccessRights rs c = foldl (\<lambda>c r. setAccessRight r c) c rs"

definition removeAccessRight :: "AccessRight \<Rightarrow> chat \<Rightarrow> chat" where
  "removeAccessRight r c = setTemplateBit (rightValue r) False c"

definition removeAllAccessRights :: "chat \<Rightarrow> chat" where
  "removeAllAccessRights c = foldl (\<lambda>c r. removeAccessRight r c) c (getAccessRights c)"

section \<open>The template as a set of bits\<close>

text \<open>Bit \<open>n\<close> of a five-byte template, counted from the end as the code does.\<close>

definition templateBit :: "bytes \<Rightarrow> nat \<Rightarrow> bool" where
  "templateBit t n = bit (t ! (4 - n div 8)) (n mod 8)"

lemma rightValue_less: "rightValue r < 38"
  by (cases r) simp_all


lemma push_bit_byte: "bit (push_bit 8 (x :: 64 word) + ucast (b :: byte)) n \<longleftrightarrow>
    (if n < 8 then bit b n else n < 64 \<and> bit x (n - 8))"
proof -
  have "push_bit 8 x AND ucast b = (0 :: 64 word)"
    by (rule bit_word_eqI) (auto simp: bit_simps dest: bit_imp_le_length)
  then have "push_bit 8 x + ucast b = push_bit 8 x OR (ucast b :: 64 word)"
    by (rule disjunctive_add_eq_or)
  then show ?thesis
    by (auto simp: bit_simps dest: bit_imp_le_length)
qed

lemma accessRoleAndRights_snoc:
  "accessRoleAndRights (t @ [b]) = push_bit 8 (accessRoleAndRights t) + ucast b"
  by (simp add: accessRoleAndRights_def)

lemma bit_accessRoleAndRights:
  "n < 64 \<Longrightarrow> bit (accessRoleAndRights t) n \<longleftrightarrow>
     n < 8 * length t \<and> bit (t ! (length t - 1 - n div 8)) (n mod 8)"
proof (induction t arbitrary: n rule: rev_induct)
  case Nil
  then show ?case by (simp add: accessRoleAndRights_def)
next
  case (snoc b t)
  show ?case
  proof (cases "n < 8")
    case True
    then show ?thesis by (simp add: accessRoleAndRights_snoc push_bit_byte nth_append)
  next
    case False
    then have "n div 8 = Suc ((n - 8) div 8)" "(n - 8) mod 8 = n mod 8"
      by (simp_all add: div_if mod_if)
    moreover have "n - 8 < 8 * length t \<Longrightarrow> length t - Suc ((n - 8) div 8) < length t"
      using False by (cases t) simp_all
    moreover have "n - 8 < 8 * length t \<longleftrightarrow> n < 8 + 8 * length t"
      using False by linarith
    ultimately show ?thesis
      using False snoc by (auto simp: accessRoleAndRights_snoc push_bit_byte nth_append)
  qed
qed

lemma getAccessRights_bits:
  assumes "length (chat_template c) = 5"
  shows "set (getAccessRights c) = {r. templateBit (chat_template c) (rightValue r)}"
proof -
  have "(accessRoleAndRights (chat_template c) AND push_bit n 1 = push_bit n 1)
      = templateBit (chat_template c) n" if "n < 38" for n
  proof -
    have "(accessRoleAndRights (chat_template c) AND push_bit n 1 = push_bit n 1)
        = bit (accessRoleAndRights (chat_template c)) n"
    proof
      assume "accessRoleAndRights (chat_template c) AND push_bit n 1 = push_bit n 1"
      then have "bit (accessRoleAndRights (chat_template c) AND push_bit n 1) n = bit (push_bit n 1 :: 64 word) n"
        by simp
      then show "bit (accessRoleAndRights (chat_template c)) n"
        using that by (simp add: bit_and_iff bit_exp_iff)
    next
      assume "bit (accessRoleAndRights (chat_template c)) n"
      then show "accessRoleAndRights (chat_template c) AND push_bit n 1 = push_bit n 1"
        by (intro bit_word_eqI) (auto simp: bit_and_iff bit_exp_iff)
    qed
    then show ?thesis
      using that assms by (simp add: bit_accessRoleAndRights templateBit_def)
  qed
  then show ?thesis
    using rightValue_less access_right.es_complete by (auto simp: getAccessRights_def Let_def)
qed

lemma length_setTemplateBit:
  "length (chat_template c) = 5 \<Longrightarrow> length (chat_template (setTemplateBit n v c)) = 5"
  by (simp add: setTemplateBit_def Let_def)

lemma templateBit_setTemplateBit:
  assumes "length (chat_template c) = 5" "m < 40" "n < 40"
  shows "templateBit (chat_template (setTemplateBit m v c)) n =
    (if n = m then v else templateBit (chat_template c) n)"
proof -
  have "m div 8 < 5" "n div 8 < 5" using assms by simp_all
  moreover have "n = m" if "n div 8 = m div 8" "n mod 8 = m mod 8"
    using that by (metis div_mult_mod_eq)
  moreover have "4 - n div 8 = 4 - m div 8 \<longleftrightarrow> n div 8 = m div 8"
    using calculation by auto
  ultimately show ?thesis
    using assms
    by (cases "n div 8 = m div 8")
      (auto simp: setTemplateBit_def templateBit_def Let_def nth_list_update bit_simps)
qed

lemma chat_type_setTemplateBit [simp]: "chat_type (setTemplateBit m v c) = chat_type c"
  by (simp add: setTemplateBit_def Let_def)


text \<open>The role is the pair of bits 38 and 39.\<close>

lemma getAccessRole_bits:
  assumes "length (chat_template c) = 5"
  shows "getAccessRole c =
    (if templateBit (chat_template c) 39 then (if templateBit (chat_template c) 38 then CVCA else DV_od)
     else (if templateBit (chat_template c) 38 then DV_no_f else AT))"
proof -
  let ?b = "chat_template c ! 0"
  have "unat ?b < 256" by simp
  moreover have "unat (drop_bit 6 ?b) = unat ?b div 64"
    by (simp only: unat_drop_bit_eq) (simp add: drop_bit_eq_div)
  ultimately have "unat (drop_bit 6 ?b) < 4" by linarith
  then have v: "unat (drop_bit 6 ?b) \<in> {0, 1, 2, 3}" by auto
  have u: "uint (drop_bit 6 ?b) = int (unat (drop_bit 6 ?b))" by simp
  have bits: "bit ?b (6 + k) \<longleftrightarrow> bit (unat (drop_bit 6 ?b)) k" if "k < 2" for k
  proof -
    have "bit ?b (6 + k) \<longleftrightarrow> bit (drop_bit 6 ?b) k" by (simp only: bit_drop_bit_eq comp_def)
    also have "\<dots> \<longleftrightarrow> bit (unat (drop_bit 6 ?b)) k"
      using that by (simp only: bit_unsigned_iff) simp
    finally show ?thesis .
  qed
  have b6: "bit ?b 6 \<longleftrightarrow> odd (unat (drop_bit 6 ?b))"
    using bits [of 0] by (simp only: bit_0) simp
  have b7: "bit ?b 7 \<longleftrightarrow> odd (unat (drop_bit 6 ?b) div 2)"
    using bits [of 1] by (simp only: bit_iff_odd) simp
  obtain k where k: "unat (drop_bit 6 ?b) = k" "uint (drop_bit 6 ?b) = int k" using u by blast
  have "chat_template c \<noteq> []" using assms by auto
  moreover have "k = 0 \<or> k = 1 \<or> k = 2 \<or> k = 3" using v k(1) by auto
  ultimately show ?thesis
    unfolding getAccessRole_def k(2)
    by (auto simp: templateBit_def b6 [unfolded k(1)] b7 [unfolded k(1)] enum_ofValue_def AccessRole_list_def)
qed

lemma length_setAccessRole:
  "length (chat_template c) = 5 \<Longrightarrow> length (chat_template (setAccessRole r c)) = 5"
  by (simp add: setAccessRole_def Let_def length_setTemplateBit)

lemma rights_setTemplateBit:
  assumes "length (chat_template d) = 5"
  shows "set (getAccessRights (setTemplateBit (rightValue r) v d)) =
    (if v then insert r (set (getAccessRights d)) else set (getAccessRights d) - {r})"
  using assms rightValue_less [THEN less_trans, of 40]
  by (auto simp: getAccessRights_bits length_setTemplateBit templateBit_setTemplateBit access_right.val_inject)

lemma role_setTemplateBit:
  assumes "length (chat_template d) = 5"
  shows "getAccessRole (setTemplateBit (rightValue r) v d) = getAccessRole d"
  using assms rightValue_less [of r]
  by (auto simp: getAccessRole_bits length_setTemplateBit templateBit_setTemplateBit)

lemma foldl_removeAccessRight:
  assumes "length (chat_template d) = 5"
  shows "length (chat_template (foldl (\<lambda>c r. removeAccessRight r c) d rs)) = 5 \<and>
      chat_type (foldl (\<lambda>c r. removeAccessRight r c) d rs) = chat_type d \<and>
      set (getAccessRights (foldl (\<lambda>c r. removeAccessRight r c) d rs)) = set (getAccessRights d) - set rs \<and>
      getAccessRole (foldl (\<lambda>c r. removeAccessRight r c) d rs) = getAccessRole d"
  using assms
  by (induction rs arbitrary: d)
    (auto simp: removeAccessRight_def length_setTemplateBit rights_setTemplateBit role_setTemplateBit)

lemma foldl_setAccessRight:
  assumes "length (chat_template d) = 5"
  shows "length (chat_template (setAccessRights rs d)) = 5 \<and> chat_type (setAccessRights rs d) = chat_type d \<and>
      set (getAccessRights (setAccessRights rs d)) = set (getAccessRights d) \<union> set rs \<and>
      getAccessRole (setAccessRights rs d) = getAccessRole d"
  using assms
  by (induction rs arbitrary: d)
    (auto simp: setAccessRights_def setAccessRight_def length_setTemplateBit rights_setTemplateBit role_setTemplateBit)

text \<open>
  On a decoded template the operations act on rights and role as on a set and a separate
  value: setting a right inserts it and removing one deletes it, without touching another right
  or the role; setting a role gives this role and keeps the rights; removing all rights leaves
  none and keeps the role. The template keeps its five bytes.
\<close>

theorem chat_operations_on_rights_and_role:
  assumes "CHAT_decodeCallback c = Some c" and "role \<noteq> AR_UNKNOWN"
  shows "set (getAccessRights (setAccessRight r c)) = insert r (set (getAccessRights c)) \<and>
         set (getAccessRights (removeAccessRight r c)) = set (getAccessRights c) - {r} \<and>
         getAccessRole (setAccessRight r c) = getAccessRole c \<and>
         getAccessRole (removeAccessRight r c) = getAccessRole c \<and>
         getAccessRole (setAccessRole role c) = role \<and>
         set (getAccessRights (setAccessRole role c)) = set (getAccessRights c) \<and>
         getAccessRights (removeAllAccessRights c) = [] \<and>
         getAccessRole (removeAllAccessRights c) = getAccessRole c \<and>
         CHAT_decodeCallback (removeAllAccessRights c) = Some (removeAllAccessRights c)"
proof -
  have len: "length (chat_template c) = 5" and ty: "chat_type c = oid_ID_AT"
    using assms(1) by (auto simp: CHAT_decodeCallback_def split: if_splits)
  have lt: "rightValue x < 40" for x using rightValue_less [of x] by simp
  have ne: "rightValue x \<noteq> 38 \<and> rightValue x \<noteq> 39" for x using rightValue_less [of x] by simp
  note tb = templateBit_setTemplateBit
  have roles: "getAccessRole (setAccessRole role c) = role \<and>
      set (getAccessRights (setAccessRole role c)) = set (getAccessRights c)"
    using len assms(2) ne
    by (cases role)
      (auto simp: setAccessRole_def Let_def getAccessRole_bits getAccessRights_bits length_setTemplateBit tb lt)
  show ?thesis
    using roles foldl_removeAccessRight [OF len, of "getAccessRights c"] ty
    by (simp add: rights_setTemplateBit [OF len] role_setTemplateBit [OF len] setAccessRight_def removeAccessRight_def removeAllAccessRights_def CHAT_decodeCallback_def)
qed

definition sample_chat :: chat where
  "sample_chat = \<lparr>chat_type = oid_ID_AT, chat_template = [0, 0, 0, 1, 0x10]\<rparr>"

theorem chat_operations_on_rights_and_role_witness:
  "set (getAccessRights (setAccessRight READ_DG05 sample_chat)) = insert READ_DG05 (set (getAccessRights sample_chat)) \<and>
   getAccessRole (setAccessRole DV_od sample_chat) = DV_od"
  using chat_operations_on_rights_and_role [of sample_chat DV_od READ_DG05]
  by (simp add: sample_chat_def CHAT_decodeCallback_def)

end
