(* ===== verification/CvcChains.thy ===== *)
theory CvcChains
  imports Chat "HOL-Library.Sublist"
begin

text \<open>
  Chains of card verifiable certificates: the generic src/src/card/base/asn1/ChainBuilder.h,
  CVCertificateChainBuilder.cpp, CVCertificateChain.cpp, the relations of CVCertificate.cpp
  and src/src/card/base/asn1/SignatureChecker.cpp. A chain runs from the root to the terminal
  certificate. The chains that the builder has found are its state, threaded through the
  recursion. The elements of the generic builder are compared by identity, since the code
  instantiates it with shared pointers.
\<close>

section \<open>The generic builder\<close>

fun isInfix :: "'a list \<Rightarrow> 'a list \<Rightarrow> bool" where
  "isInfix xs [] = (xs = [])"
| "isInfix xs (y # ys) = (take (length xs) (y # ys) = xs \<or> isInfix xs ys)"

text \<open>\<open>isSubChain\<close> is \<open>std::search\<close> in every chain found so far.\<close>

definition isSubChain :: "'a list list \<Rightarrow> 'a list \<Rightarrow> bool" where
  "isSubChain found pSubChain = list_ex (\<lambda>chain. isInfix pSubChain chain) found"

function (sequential)
  buildChain :: "('a \<Rightarrow> 'a \<Rightarrow> bool) \<Rightarrow> 'a list \<Rightarrow> 'a list \<Rightarrow> 'a list list \<Rightarrow> 'a list list" and
  buildLoop :: "('a \<Rightarrow> 'a \<Rightarrow> bool) \<Rightarrow> 'a list \<Rightarrow> 'a list \<Rightarrow> 'a list \<Rightarrow> 'a list list \<Rightarrow> bool \<Rightarrow> 'a list list \<times> bool"
where
  "buildChain isChild pAllElements pChain found =
    (let (found', chainComplete) = buildLoop isChild pAllElements pAllElements pChain found True
     in if chainComplete \<and> \<not> isSubChain found' pChain then found' @ [pChain] else found')"
| "buildLoop isChild pAllElements [] pChain found chainComplete = (found, chainComplete)"
| "buildLoop isChild pAllElements (elem # rest) pChain found chainComplete =
    (if elem \<in> set pChain then buildLoop isChild pAllElements rest pChain found chainComplete
     else if isChild elem (last pChain) then
       buildLoop isChild pAllElements rest pChain
         (buildChain isChild pAllElements (pChain @ [elem]) found) False
     else if isChild (hd pChain) elem then
       buildLoop isChild pAllElements rest pChain
         (buildChain isChild pAllElements (elem # pChain) found) False
     else buildLoop isChild pAllElements rest pChain found chainComplete)"
  by pat_completeness auto

text \<open>Each nested call has one element of the pool less to add; each turn of the loop one less to look at.\<close>

termination
  by (relation "measures
      [\<lambda>a. case a of Inl (c, al, ch, _) \<Rightarrow> card (set al - set ch)
                  | Inr (c, al, rest, ch, _, _) \<Rightarrow> card ((set al \<union> set rest) - set ch),
       \<lambda>a. case a of Inl (c, al, ch, _) \<Rightarrow> Suc (length al)
                  | Inr (c, al, rest, ch, _, _) \<Rightarrow> length rest]")
    (auto intro!: psubset_card_mono card_mono simp: le_less [symmetric] intro: card_mono)


definition getChains :: "('a \<Rightarrow> 'a \<Rightarrow> bool) \<Rightarrow> 'a list \<Rightarrow> 'a list list" where
  "getChains isChild pAllElements =
    foldl (\<lambda>found elem.
        if \<not> isSubChain found [elem] then buildChain isChild pAllElements [elem] found else found)
      [] pAllElements"

section \<open>Certificates\<close>

text \<open>
  The fields of a certificate that the relations read. \<open>cvc_object\<close> is the identity of the
  shared pointer: two certificates with the same one are the same object. Dates are Julian day
  numbers.
\<close>

record cvc =
  cvc_object :: nat
  cvc_car :: bytes
  cvc_chr :: bytes
  cvc_chat :: chat
  cvc_effectiveDate :: int
  cvc_expirationDate :: int
  cvc_rawBody :: bytes
  cvc_rawSignature :: bytes
  cvc_hashOid :: string
  cvc_ecKey :: "bytes option"
  cvc_publicPoint :: bytes

definition isIssuedBy :: "cvc \<Rightarrow> cvc \<Rightarrow> bool" where
  "isIssuedBy c pIssuer \<longleftrightarrow> cvc_car c = cvc_chr pIssuer"

definition isValidOn :: "int \<Rightarrow> cvc \<Rightarrow> bool" where
  "isValidOn validationDateGMT c \<longleftrightarrow>
     validationDateGMT \<le> cvc_expirationDate c \<and> validationDateGMT \<ge> cvc_effectiveDate c"

definition cvc_equal :: "cvc \<Rightarrow> cvc \<Rightarrow> bool" where
  "cvc_equal a b \<longleftrightarrow> cvc_rawBody a = cvc_rawBody b \<and> cvc_rawSignature a = cvc_rawSignature b"

definition isChildCvc :: "cvc \<Rightarrow> cvc \<Rightarrow> bool" where
  "isChildCvc pChild pParent \<longleftrightarrow> \<not> isIssuedBy pChild pChild \<and> isIssuedBy pChild pParent"

definition isValidChain :: "cvc list \<Rightarrow> bool" where
  "isValidChain c =
    (if length c < 2 then False
     else
       let terminalCvcRole = getAccessRole (cvc_chat (c ! (length c - 1)));
           dvCvcRole = getAccessRole (cvc_chat (c ! (length c - 2)))
       in terminalCvcRole = AT \<and> (dvCvcRole = DV_od \<or> dvCvcRole = DV_no_f))"

text \<open>The constructor drops an invalid chain.\<close>

definition CVCertificateChain :: "cvc list \<Rightarrow> cvc list" where
  "CVCertificateChain pCvcs = (if isValidChain pCvcs then pCvcs else [])"

definition CVCertificateChainBuilder :: "cvc list \<Rightarrow> cvc list list" where
  "CVCertificateChainBuilder pCvcPool =
     filter (\<lambda>chain. isValidChain (CVCertificateChain chain)) (getChains isChildCvc pCvcPool)"

text \<open>The first valid end piece of a chain that starts at a certificate with the property asked for.\<close>

fun findSubChain :: "(cvc \<Rightarrow> bool) \<Rightarrow> cvc list \<Rightarrow> cvc list option" where
  "findSubChain wanted [] = None"
| "findSubChain wanted (cert # rest) =
    (if wanted cert \<and> isValidChain (CVCertificateChain (cert # rest))
     then Some (CVCertificateChain (cert # rest))
     else findSubChain wanted rest)"

fun findInChains :: "(cvc \<Rightarrow> bool) \<Rightarrow> cvc list list \<Rightarrow> cvc list" where
  "findInChains wanted [] = CVCertificateChain []"
| "findInChains wanted (chain # cs) =
    (case findSubChain wanted chain of Some c \<Rightarrow> c | None \<Rightarrow> findInChains wanted cs)"

definition getChainForCar :: "cvc list list \<Rightarrow> bytes \<Rightarrow> cvc list" where
  "getChainForCar cs pCar = findInChains (\<lambda>cert. cvc_car cert = pCar \<and> \<not> isIssuedBy cert cert) cs"

definition getChainForCertificationAuthority :: "cvc list list \<Rightarrow> bytes \<Rightarrow> bytes \<Rightarrow> cvc list" where
  "getChainForCertificationAuthority cs carCurr carPrev =
    (let chain = getChainForCar cs carCurr
     in if \<not> isValidChain chain then getChainForCar cs carPrev else chain)"

definition getChainStartingWith :: "cvc list list \<Rightarrow> cvc \<Rightarrow> cvc list" where
  "getChainStartingWith cs pChainRoot = findInChains (\<lambda>cert. cvc_equal cert pChainRoot) cs"

section \<open>Signatures of a chain\<close>

text \<open>
  The verification of one signature is OpenSSL's and a parameter:
  \<open>verify key point hashOid body signature\<close>. The public point is set into a copy of the key that
  carries the domain parameters.
\<close>

fun checkSignatures ::
  "(bytes \<Rightarrow> bytes \<Rightarrow> string \<Rightarrow> bytes \<Rightarrow> bytes \<Rightarrow> bool) \<Rightarrow> cvc list \<Rightarrow> cvc \<Rightarrow> bytes \<Rightarrow> bool" where
  "checkSignatures verify [] signingCert key = True"
| "checkSignatures verify (cert # rest) signingCert key =
    (if \<not> verify key (cvc_publicPoint signingCert) (cvc_hashOid signingCert) (cvc_rawBody cert) (cvc_rawSignature cert)
     then False
     else checkSignatures verify rest cert (case cvc_ecKey cert of Some k \<Rightarrow> k | None \<Rightarrow> key))"

definition SignatureChecker_check ::
  "(bytes \<Rightarrow> bytes \<Rightarrow> string \<Rightarrow> bytes \<Rightarrow> bytes \<Rightarrow> bool) \<Rightarrow> cvc list \<Rightarrow> bool" where
  "SignatureChecker_check verify mCertificateChain =
    (case mCertificateChain of
       [] \<Rightarrow> False
     | signingCert # _ \<Rightarrow>
         (case cvc_ecKey signingCert of
            None \<Rightarrow> False
          | Some key \<Rightarrow> checkSignatures verify mCertificateChain signingCert key))"

section \<open>Correctness of the builder\<close>

lemma isInfix_iff: "isInfix xs ys \<longleftrightarrow> sublist xs ys"
proof (induction ys)
  case Nil
  then show ?case by simp
next
  case (Cons y ys)
  have "take (length xs) (y # ys) = xs \<longleftrightarrow> prefix xs (y # ys)"
    by (metis append_eq_conv_conj prefix_def append_take_drop_id)
  then show ?case using Cons by (simp add: sublist_Cons_right)
qed

lemma isSubChain_iff: "isSubChain found c \<longleftrightarrow> (\<exists>d\<in>set found. sublist c d)"
  by (simp add: isSubChain_def isInfix_iff list_ex_iff)

definition linked :: "('a \<Rightarrow> 'a \<Rightarrow> bool) \<Rightarrow> 'a list \<Rightarrow> bool" where
  "linked isChild c \<longleftrightarrow> successively (\<lambda>p ch. isChild ch p) c"

definition simple_chain :: "('a \<Rightarrow> 'a \<Rightarrow> bool) \<Rightarrow> 'a list \<Rightarrow> 'a list \<Rightarrow> bool" where
  "simple_chain isChild al c \<longleftrightarrow> c \<noteq> [] \<and> distinct c \<and> set c \<subseteq> set al \<and> linked isChild c"

definition maximal_chain :: "('a \<Rightarrow> 'a \<Rightarrow> bool) \<Rightarrow> 'a list \<Rightarrow> 'a list \<Rightarrow> bool" where
  "maximal_chain isChild al c \<longleftrightarrow> simple_chain isChild al c \<and>
     (\<forall>e\<in>set al. e \<notin> set c \<longrightarrow> \<not> isChild e (last c) \<and> \<not> isChild (hd c) e)"

lemma simple_chain_snoc:
  "simple_chain isChild al c \<Longrightarrow> e \<in> set al \<Longrightarrow> e \<notin> set c \<Longrightarrow> isChild e (last c) \<Longrightarrow>
   simple_chain isChild al (c @ [e])"
  by (auto simp: simple_chain_def linked_def successively_append_iff)

lemma simple_chain_cons:
  "simple_chain isChild al c \<Longrightarrow> e \<in> set al \<Longrightarrow> e \<notin> set c \<Longrightarrow> isChild (hd c) e \<Longrightarrow>
   simple_chain isChild al (e # c)"
  by (cases c) (auto simp: simple_chain_def linked_def)

text \<open>A maximal chain is not a proper part of any simple one.\<close>

lemma maximal_not_proper_part:
  assumes "maximal_chain isChild al a" "simple_chain isChild al c" "sublist a c"
  shows "c = a"
proof -
  obtain x y where c: "c = x @ a @ y" using assms(3) by (auto simp: sublist_def)
  have a: "a \<noteq> []" using assms(1) by (simp add: maximal_chain_def simple_chain_def)
  have "x = []"
  proof (rule ccontr)
    assume "x \<noteq> []"
    then have "isChild (hd a) (last x) \<and> last x \<in> set x"
      using assms(2) a by (simp add: c simple_chain_def linked_def successively_append_iff)
    moreover have "last x \<notin> set a" "last x \<in> set al"
      using assms(2) calculation by (auto simp: c simple_chain_def)
    ultimately show False using assms(1) by (auto simp: maximal_chain_def)
  qed
  moreover have "y = []"
  proof (rule ccontr)
    assume "y \<noteq> []"
    then have "isChild (hd y) (last a) \<and> hd y \<in> set y"
      using assms(2) a by (simp add: c simple_chain_def linked_def successively_append_iff)
    moreover have "hd y \<notin> set a" "hd y \<in> set al"
      using assms(2) calculation by (auto simp: c simple_chain_def)
    ultimately show False using assms(1) by (auto simp: maximal_chain_def)
  qed
  ultimately show ?thesis by (simp add: c)
qed

text \<open>What holds of the chains found at every moment: all maximal, none part of another.\<close>

definition chains_ok :: "('a \<Rightarrow> 'a \<Rightarrow> bool) \<Rightarrow> 'a list \<Rightarrow> 'a list list \<Rightarrow> bool" where
  "chains_ok isChild al found \<longleftrightarrow> (\<forall>c\<in>set found. maximal_chain isChild al c) \<and>
     sorted_wrt (\<lambda>a b. \<not> sublist a b \<and> \<not> sublist b a) found"

lemma chains_ok_snoc:
  assumes "chains_ok isChild al found" "maximal_chain isChild al c" "\<not> isSubChain found c"
  shows "chains_ok isChild al (found @ [c])"
proof -
  have "\<not> sublist d c" if "d \<in> set found" for d
    using that assms maximal_not_proper_part [of isChild al d c]
    by (auto simp: chains_ok_def isSubChain_iff maximal_chain_def)
  then show ?thesis
    using assms by (auto simp: chains_ok_def sorted_wrt_append isSubChain_iff)
qed


declare buildChain.simps [simp del]

lemma sublist_snoc_part: "sublist (c @ [e]) d \<Longrightarrow> sublist c d"
  by (metis append.assoc sublist_def)

lemma sublist_cons_part: "sublist (e # c) d \<Longrightarrow> sublist c d"
  by (metis append.assoc append_Cons append_Nil sublist_def)

lemma isSubChain_mono: "isSubChain found c \<Longrightarrow> set found \<subseteq> set found' \<Longrightarrow> isSubChain found' c"
  by (auto simp: isSubChain_iff)

lemma build_correct:
  "chains_ok isChild al found \<Longrightarrow> simple_chain isChild al c \<Longrightarrow>
     chains_ok isChild al (buildChain isChild al c found) \<and>
     set found \<subseteq> set (buildChain isChild al c found) \<and>
     isSubChain (buildChain isChild al c found) c"
  "chains_ok isChild al found \<Longrightarrow> simple_chain isChild al c \<Longrightarrow> set rest \<subseteq> set al \<Longrightarrow>
     buildLoop isChild al rest c found flag = (found', flag') \<Longrightarrow>
     chains_ok isChild al found' \<and> set found \<subseteq> set found' \<and>
     (flag' \<longrightarrow> flag \<and> (\<forall>e\<in>set rest. e \<notin> set c \<longrightarrow> \<not> isChild e (last c) \<and> \<not> isChild (hd c) e)) \<and>
     (flag \<and> \<not> flag' \<longrightarrow> isSubChain found' c)"
proof (induction isChild al c found and isChild al rest c found flag arbitrary: and found' flag'
    rule: buildChain_buildLoop.induct)
  case (1 isChild al c found)
  obtain found' flag' where l: "buildLoop isChild al al c found True = (found', flag')"
    by (cases "buildLoop isChild al al c found True")
  note ih = "1.IH" [OF "1.prems" subset_refl l]
  show ?case
  proof (cases "flag' \<and> \<not> isSubChain found' c")
    case True
    then have "maximal_chain isChild al c"
      using ih "1.prems"(2) by (auto simp: maximal_chain_def)
    then show ?thesis
      using True ih chains_ok_snoc [of isChild al found' c]
      by (auto simp: buildChain.simps [of isChild al c found] l isSubChain_iff)
  next
    case False
    then show ?thesis using ih by (auto simp: buildChain.simps [of isChild al c found] l)
  qed
next
  case (2 isChild al c found flag)
  then show ?case by auto
next
  case (3 isChild al e rest c found flag)
  have sub: "e \<in> set al" "set rest \<subseteq> set al" using "3.prems"(3) by auto
  consider (used) "e \<in> set c" | (child) "e \<notin> set c" "isChild e (last c)"
    | (parent) "e \<notin> set c" "\<not> isChild e (last c)" "isChild (hd c) e"
    | (other) "e \<notin> set c" "\<not> isChild e (last c)" "\<not> isChild (hd c) e"
    by blast
  then show ?case
  proof cases
    case used
    then show ?thesis using "3.IH"(1) [OF used "3.prems"(1,2) sub(2)] "3.prems"(4) by auto
  next
    case child
    let ?f = "buildChain isChild al (c @ [e]) found"
    have b: "chains_ok isChild al ?f \<and> set found \<subseteq> set ?f \<and> isSubChain ?f (c @ [e])"
      using "3.IH"(2) [OF child "3.prems"(1)] simple_chain_snoc [OF "3.prems"(2) sub(1) child] by blast
    then have "isSubChain ?f c" by (auto simp: isSubChain_iff dest: sublist_snoc_part)
    then show ?thesis
      using "3.IH"(3) [OF child _ "3.prems"(2) sub(2), of found' flag'] b "3.prems"(4) child
      by (auto dest: isSubChain_mono)
  next
    case parent
    let ?f = "buildChain isChild al (e # c) found"
    have b: "chains_ok isChild al ?f \<and> set found \<subseteq> set ?f \<and> isSubChain ?f (e # c)"
      using "3.IH"(4) [OF parent "3.prems"(1)] simple_chain_cons [OF "3.prems"(2) sub(1) parent(1,3)] by blast
    then have "isSubChain ?f c" by (auto simp: isSubChain_iff dest: sublist_cons_part)
    then show ?thesis
      using "3.IH"(5) [OF parent _ "3.prems"(2) sub(2), of found' flag'] b "3.prems"(4) parent
      by (auto dest: isSubChain_mono)
  next
    case other
    then show ?thesis
      using "3.IH"(6) [OF other "3.prems"(1,2) sub(2), of found' flag'] "3.prems"(4) by auto
  qed
qed

lemma getChains_correct:
  "set es \<subseteq> set al \<Longrightarrow> chains_ok isChild al found \<Longrightarrow>
    (let r = foldl (\<lambda>found elem. if \<not> isSubChain found [elem] then buildChain isChild al [elem] found else found) found es
     in chains_ok isChild al r \<and> set found \<subseteq> set r \<and> (\<forall>e\<in>set es. isSubChain r [e]))"
proof (induction es arbitrary: found)
  case Nil
  then show ?case by simp
next
  case (Cons e es)
  let ?f = "if \<not> isSubChain found [e] then buildChain isChild al [e] found else found"
  have "simple_chain isChild al [e]" using Cons.prems by (simp add: simple_chain_def linked_def)
  from build_correct(1) [OF Cons.prems(2) this]
  have f: "chains_ok isChild al ?f" "set found \<subseteq> set ?f" "isSubChain ?f [e]"
    using Cons.prems by auto
  then show ?case
    using Cons.IH [of ?f] Cons.prems by (auto simp: Let_def intro: isSubChain_mono)
qed

lemma getChains_ok: "chains_ok isChild al (getChains isChild al)"
  and getChains_cover: "e \<in> set al \<Longrightarrow> isSubChain (getChains isChild al) [e]"
  using getChains_correct [of al al isChild "[]"]
  by (simp_all add: getChains_def Let_def chains_ok_def)


lemma linked_nth: "linked isChild c \<longleftrightarrow> (\<forall>i. Suc i < length c \<longrightarrow> isChild (c ! Suc i) (c ! i))"
  by (simp add: linked_def successively_conv_nth)

text \<open>
  The chain builder, for any parent relation and any pool: every chain it gives is a
  non-empty sequence of pool elements without repetition, each the child of its predecessor, that
  no remaining element continues at either end; every pool element is in some chain; and no
  chain is part of another one.
\<close>

theorem chain_builder_sound:
  "(\<forall>c\<in>set (getChains isChild pool).
      c \<noteq> [] \<and> distinct c \<and> set c \<subseteq> set pool \<and>
      (\<forall>i. Suc i < length c \<longrightarrow> isChild (c ! Suc i) (c ! i)) \<and>
      (\<forall>e\<in>set pool. e \<notin> set c \<longrightarrow> \<not> isChild e (last c) \<and> \<not> isChild (hd c) e)) \<and>
   (\<forall>e\<in>set pool. \<exists>c\<in>set (getChains isChild pool). e \<in> set c) \<and>
   sorted_wrt (\<lambda>a b. \<not> sublist a b \<and> \<not> sublist b a) (getChains isChild pool)"
proof (intro conjI)
  show "\<forall>c\<in>set (getChains isChild pool).
      c \<noteq> [] \<and> distinct c \<and> set c \<subseteq> set pool \<and>
      (\<forall>i. Suc i < length c \<longrightarrow> isChild (c ! Suc i) (c ! i)) \<and>
      (\<forall>e\<in>set pool. e \<notin> set c \<longrightarrow> \<not> isChild e (last c) \<and> \<not> isChild (hd c) e)"
    using getChains_ok [of isChild pool]
    by (simp add: chains_ok_def maximal_chain_def simple_chain_def linked_nth)
  show "\<forall>e\<in>set pool. \<exists>c\<in>set (getChains isChild pool). e \<in> set c"
    using getChains_cover [of _ pool isChild] by (fastforce simp: isSubChain_iff dest: set_mono_sublist)
  show "sorted_wrt (\<lambda>a b. \<not> sublist a b \<and> \<not> sublist b a) (getChains isChild pool)"
    using getChains_ok [of isChild pool] by (simp add: chains_ok_def)
qed

text \<open>A small pool for the witnesses: 1 is the parent of 2 and 3.\<close>

definition sample_child :: "nat \<Rightarrow> nat \<Rightarrow> bool" where
  "sample_child ch p \<longleftrightarrow> p = 1 \<and> (ch = 2 \<or> ch = 3)"

lemmas getChains_eval = getChains_def buildChain.simps isSubChain_def Let_def

lemma sample_chains: "getChains sample_child [2, 1, 3] = [[1, 2], [1, 3]]"
  by (simp add: getChains_eval sample_child_def)

theorem chain_builder_sound_witness:
  "distinct [1, 2 :: nat] \<and> set [1, 2] \<subseteq> set [2, 1, 3 :: nat] \<and> sample_child ([1, 2] ! Suc 0) ([1, 2] ! 0)"
proof -
  have "[1, 2] \<in> set [[1, 2], [1, 3 :: nat]]" and "Suc 0 < length [1, 2 :: nat]" by simp_all
  with chain_builder_sound [of sample_child "[2, 1, 3]", unfolded sample_chains] show ?thesis by blast
qed

text \<open>With one parent at most, two linked sequences with the same end are ends of each other.\<close>

lemma linked_same_end:
  assumes "\<And>e p q. e \<in> E \<Longrightarrow> p \<in> E \<Longrightarrow> q \<in> E \<Longrightarrow> isChild e p \<Longrightarrow> isChild e q \<Longrightarrow> p = q"
  shows "linked isChild (a @ [e]) \<Longrightarrow> linked isChild (b @ [e]) \<Longrightarrow> set (a @ [e]) \<subseteq> E \<Longrightarrow> set (b @ [e]) \<subseteq> E \<Longrightarrow>
    length a \<le> length b \<Longrightarrow> \<exists>x. b = x @ a"
proof (induction a arbitrary: b e rule: rev_induct)
  case Nil
  then show ?case by simp
next
  case (snoc p a)
  then obtain b' q where b: "b = b' @ [q]" by (cases b rule: rev_cases) auto
  have l: "linked isChild (a @ [p])" "isChild e p" "linked isChild (b' @ [q])" "isChild e q"
    using snoc.prems(1,2) by (auto simp: b linked_def successively_append_iff)
  have "p = q" using assms [of e p q] l(2,4) snoc.prems(3,4) by (simp add: b)
  then show ?case using snoc.IH [of p b'] l(1,3) snoc.prems(3-5) b by auto
qed

text \<open>
  When no pool element has two parents in the pool, the builder is also complete: every
  chain from an element without parent down to an element without child is among those it
  gives.
\<close>

theorem chain_builder_complete:
  assumes "\<forall>e\<in>set pool. \<forall>p\<in>set pool. \<forall>q\<in>set pool. isChild e p \<and> isChild e q \<longrightarrow> p = q"
    and "c \<noteq> []" and "distinct c" and "set c \<subseteq> set pool" and "\<forall>i. Suc i < length c \<longrightarrow> isChild (c ! Suc i) (c ! i)"
    and "\<forall>e\<in>set pool. \<not> isChild (hd c) e \<and> \<not> isChild e (last c)"
  shows "c \<in> set (getChains isChild pool)"
proof -
  obtain a e where c: "c = a @ [e]" using assms(2) by (cases c rule: rev_cases) auto
  have e: "e \<in> set pool" using assms(4) by (simp add: c)
  obtain d where d: "d \<in> set (getChains isChild pool)" "e \<in> set d"
    using getChains_cover [OF e, of isChild] by (fastforce simp: isSubChain_iff dest: set_mono_sublist)
  then have m: "maximal_chain isChild pool d" using getChains_ok [of isChild pool] by (auto simp: chains_ok_def)
  obtain x y where xy: "d = x @ e # y" using d(2) by (meson split_list)
  have lc: "linked isChild c" using assms(5) by (simp add: linked_nth)
  have ld: "linked isChild d" "set d \<subseteq> set pool" using m by (auto simp: maximal_chain_def simple_chain_def)
  have "y = []"
  proof (cases y)
    case (Cons h t)
    then have "isChild h e" "h \<in> set pool" using ld by (auto simp: xy linked_def successively_append_iff)
    then show ?thesis using assms(6) by (auto simp: c)
  qed simp
  then have dx: "d = x @ [e]" by (simp add: xy)
  have ends: "\<exists>u. q = u @ p"
    if "linked isChild (p @ [e])" "linked isChild (q @ [e])" "set (p @ [e]) \<subseteq> set pool"
      "set (q @ [e]) \<subseteq> set pool" "length p \<le> length q" for p q
    by (rule linked_same_end [where E = "set pool", OF _ that]) (use assms(1) in blast)
  have above: "u = []" if "c = u @ d" for u
  proof (rule ccontr)
    assume u: "u \<noteq> []"
    have "d \<noteq> []" using m by (auto simp: maximal_chain_def simple_chain_def)
    then have "isChild (hd d) (last u)"
      using that u lc by (auto simp: linked_def successively_append_iff)
    moreover have "last u \<in> set pool \<and> last u \<notin> set d"
      using that last_in_set [OF u] assms(3,4) by (metis IntI Un_iff distinct_append empty_iff set_append subset_iff)
    ultimately show False using m by (auto simp: maximal_chain_def)
  qed
  have below: "u = []" if "d = u @ c" for u
  proof (rule ccontr)
    assume u: "u \<noteq> []"
    then have "isChild (hd c) (last u)" "last u \<in> set pool"
      using that ld assms(2) by (auto simp: linked_def successively_append_iff)
    then show False using assms(6) by blast
  qed
  have "c = d"
  proof (cases "length a \<le> length x")
    case True
    then obtain u where "x = u @ a"
      using ends [of a x] lc ld assms(4) c dx by auto
    then show ?thesis using below [of u] c dx by simp
  next
    case False
    then obtain u where "a = u @ x"
      using ends [of x a] lc ld assms(4) c dx by auto
    then show ?thesis using above [of u] c dx by simp
  qed
  then show ?thesis using d(1) by simp
qed

theorem chain_builder_complete_witness: "[1, 3] \<in> set (getChains sample_child [2, 1, 3])"
  by (rule chain_builder_complete) (auto simp: sample_child_def nth_Cons split: nat.splits)

definition two_parents :: "nat \<Rightarrow> nat \<Rightarrow> bool" where
  "two_parents ch p \<longleftrightarrow> (p, ch) \<in> set [(3, 1), (2, 4), (3, 4), (4, 5)]"

text \<open>
  With two parents the builder can miss a chain. Here 4 has the parents 2 and 3, and 1 is
  another child of 3: the chain 3, 4, 5 links a root with a leaf, but all of its elements are in
  chains found earlier, so no search starts in it and it is not given.
\<close>

theorem chain_builder_misses_chain:
  "getChains two_parents [1, 2, 3, 4, 5] = [[3, 1], [2, 4, 5]] \<and>
   two_parents 4 3 \<and> two_parents 5 4 \<and> [3, 4, 5] \<notin> set (getChains two_parents [1, 2, 3, 4, 5])"
  by (simp add: getChains_eval two_parents_def)


section \<open>Correctness for certificates\<close>

lemma CVCertificateChain_valid: "CVCertificateChain c = [] \<or> isValidChain (CVCertificateChain c)"
  by (simp add: CVCertificateChain_def)

lemma CVCertificateChain_id: "isValidChain (CVCertificateChain c) \<Longrightarrow> CVCertificateChain c = c"
  by (auto simp: CVCertificateChain_def isValidChain_def split: if_splits)

lemma findSubChain_Some:
  "findSubChain wanted c = Some r \<Longrightarrow> \<exists>x. c = x @ r \<and> r \<noteq> [] \<and> wanted (hd r) \<and> isValidChain r"
proof (induction c)
  case (Cons cert rest)
  show ?case
  proof (cases "wanted cert \<and> isValidChain (CVCertificateChain (cert # rest))")
    case True
    then have "r = cert # rest"
      using Cons.prems CVCertificateChain_id [of "cert # rest"] by simp
    then show ?thesis using True CVCertificateChain_id [of "cert # rest"] by auto
  next
    case False
    then obtain x where "rest = x @ r" "r \<noteq> [] \<and> wanted (hd r) \<and> isValidChain r"
      using Cons by auto
    then show ?thesis by (intro exI [of _ "cert # x"]) simp
  qed
qed simp

lemma findInChains_cases:
  "findInChains wanted cs = [] \<or>
   (\<exists>c\<in>set cs. \<exists>x. c = x @ findInChains wanted cs \<and> wanted (hd (findInChains wanted cs)) \<and>
      isValidChain (findInChains wanted cs))"
proof (induction cs)
  case Nil
  then show ?case by (simp add: CVCertificateChain_def isValidChain_def)
next
  case (Cons c cs)
  then show ?case by (auto split: option.splits dest!: findSubChain_Some)
qed

lemma not_valid_Nil: "\<not> isValidChain []"
  by (simp add: isValidChain_def)

lemma findInChains_sound:
  assumes "c = findInChains wanted (CVCertificateChainBuilder pool)" and "c \<noteq> []"
  shows "wanted (hd c) \<and> set c \<subseteq> set pool \<and> 2 \<le> length c \<and>
         (\<forall>i. Suc i < length c \<longrightarrow> isIssuedBy (c ! Suc i) (c ! i) \<and> \<not> isIssuedBy (c ! Suc i) (c ! Suc i)) \<and>
         getAccessRole (cvc_chat (last c)) = AT \<and>
         getAccessRole (cvc_chat (c ! (length c - 2))) \<in> {DV_od, DV_no_f}"
proof -
  obtain d x where d: "d \<in> set (getChains isChildCvc pool)" "d = x @ c" "wanted (hd c)" "isValidChain c"
    using findInChains_cases [of wanted "CVCertificateChainBuilder pool"] assms
    by (auto simp: CVCertificateChainBuilder_def)
  have m: "maximal_chain isChildCvc pool d" using d(1) getChains_ok [of isChildCvc pool] by (auto simp: chains_ok_def)
  then have "linked isChildCvc c" "set c \<subseteq> set pool"
    by (auto simp: maximal_chain_def simple_chain_def d(2) linked_def successively_append_iff)
  moreover from this have "\<forall>i. Suc i < length c \<longrightarrow> isIssuedBy (c ! Suc i) (c ! i) \<and> \<not> isIssuedBy (c ! Suc i) (c ! Suc i)"
    by (auto simp: linked_nth isChildCvc_def)
  moreover have "c ! (length c - 1) = last c" using assms(2) by (simp add: last_conv_nth)
  ultimately show ?thesis
    using d(3,4) by (auto simp: isValidChain_def Let_def split: if_splits)
qed

text \<open>
  The chain that terminal authentication sends to the card, chosen for the authorities that
  the card named (the current one first, then the previous one): it is empty or it starts with
  a certificate that one of these authorities issued and that is not self-signed, every further
  certificate is issued by the one before it and is not self-signed, all come from the pool,
  and it ends in a document verifier followed by an authentication terminal.
\<close>

theorem chain_for_authority_is_sound:
  assumes "c = getChainForCertificationAuthority (CVCertificateChainBuilder pool) carCurr carPrev" and "c \<noteq> []"
  shows "set c \<subseteq> set pool \<and> 2 \<le> length c \<and>
         (cvc_car (hd c) = carCurr \<or> cvc_car (hd c) = carPrev) \<and> \<not> isIssuedBy (hd c) (hd c) \<and>
         (\<forall>i. Suc i < length c \<longrightarrow> isIssuedBy (c ! Suc i) (c ! i) \<and> \<not> isIssuedBy (c ! Suc i) (c ! Suc i)) \<and>
         getAccessRole (cvc_chat (last c)) = AT \<and>
         getAccessRole (cvc_chat (c ! (length c - 2))) \<in> {DV_od, DV_no_f}"
proof -
  obtain car where car: "c = getChainForCar (CVCertificateChainBuilder pool) car" "car = carCurr \<or> car = carPrev"
    using assms(1) by (auto simp: getChainForCertificationAuthority_def Let_def split: if_splits)
  with findInChains_sound [OF car(1) [unfolded getChainForCar_def] assms(2)] show ?thesis by auto
qed

definition sample_cvc :: "nat \<Rightarrow> byte \<Rightarrow> byte \<Rightarrow> byte \<Rightarrow> cvc" where
  "sample_cvc n car chr role =
    \<lparr>cvc_object = n, cvc_car = [car], cvc_chr = [chr],
     cvc_chat = \<lparr>chat_type = oid_ID_AT, chat_template = [role, 0, 0, 0, 0]\<rparr>,
     cvc_effectiveDate = 0, cvc_expirationDate = 9, cvc_rawBody = [chr], cvc_rawSignature = [car],
     cvc_hashOid = [], cvc_ecKey = Some [1], cvc_publicPoint = [chr]\<rparr>"

definition sample_pool :: "cvc list" where
  "sample_pool = [sample_cvc 1 2 3 0, sample_cvc 2 1 1 0xC0, sample_cvc 3 1 2 0x80]"

lemma sample_pool_chain:
  "getChainForCertificationAuthority (CVCertificateChainBuilder sample_pool) [1] [9]
   = [sample_cvc 3 1 2 0x80, sample_cvc 1 2 3 0]"
proof -
  have "getChains isChildCvc sample_pool = [[sample_cvc 2 1 1 0xC0, sample_cvc 3 1 2 0x80, sample_cvc 1 2 3 0]]"
    by (simp add: getChains_eval isChildCvc_def isIssuedBy_def sample_pool_def sample_cvc_def)
  then show ?thesis
    by (simp add: CVCertificateChainBuilder_def getChainForCertificationAuthority_def getChainForCar_def
        CVCertificateChain_def isValidChain_def Let_def isIssuedBy_def sample_cvc_def getAccessRole_def
        enum_ofValue_def AccessRole_list_def drop_bit_eq_div)
qed

theorem chain_for_authority_is_sound_witness:
  "isIssuedBy ([sample_cvc 3 1 2 0x80, sample_cvc 1 2 3 0] ! Suc 0) ([sample_cvc 3 1 2 0x80, sample_cvc 1 2 3 0] ! 0)"
  using chain_for_authority_is_sound [OF sample_pool_chain [symmetric]] by auto

section \<open>A chain for the authority is found\<close>

text \<open>
  The end piece \<open>s\<close> of the pool's chain \<open>u @ s\<close> is one that the card can check: its first certificate was issued by \<open>car\<close>
  and is no root, and it ends in a document verifier and an authentication terminal. The chain leads
  from a certificate whose issuer is not in the pool to one that issued none in it.
\<close>

definition offersChain :: "cvc list \<Rightarrow> bytes \<Rightarrow> bool" where
  "offersChain pool car \<longleftrightarrow>
    (\<exists>u s. distinct (u @ s) \<and> set (u @ s) \<subseteq> set pool \<and>
       (\<forall>i. Suc i < length (u @ s) \<longrightarrow> isChildCvc ((u @ s) ! Suc i) ((u @ s) ! i)) \<and>
       (\<forall>e \<in> set pool. \<not> isChildCvc (hd (u @ s)) e \<and> \<not> isChildCvc e (last (u @ s))) \<and>
       2 \<le> length s \<and> cvc_car (hd s) = car \<and> cvc_chr (hd s) \<noteq> car \<and>
       getAccessRole (cvc_chat (last s)) = AT \<and> getAccessRole (cvc_chat (s ! (length s - 2))) \<in> {DV_od, DV_no_f})"

lemma findSubChain_finds:
  "s \<noteq> [] \<Longrightarrow> wanted (hd s) \<Longrightarrow> isValidChain s \<Longrightarrow> findSubChain wanted (u @ s) \<noteq> None"
proof (induction u)
  case Nil
  then show ?case by (cases s) (simp_all add: CVCertificateChain_def)
qed simp

lemma findInChains_finds:
  "d \<in> set cs \<Longrightarrow> findSubChain wanted d \<noteq> None \<Longrightarrow>
     findInChains wanted cs \<noteq> [] \<and> wanted (hd (findInChains wanted cs)) \<and> isValidChain (findInChains wanted cs)"
  by (induction cs) (auto dest: findSubChain_Some split: option.split)

lemma offered_is_found:
  assumes one: "\<forall>e\<in>set pool. \<forall>p\<in>set pool. \<forall>q\<in>set pool. isChildCvc e p \<and> isChildCvc e q \<longrightarrow> p = q"
    and "offersChain pool car"
  shows "getChainForCar (CVCertificateChainBuilder pool) car \<noteq> [] \<and>
    cvc_car (hd (getChainForCar (CVCertificateChainBuilder pool) car)) = car \<and>
    isValidChain (getChainForCar (CVCertificateChainBuilder pool) car)"
proof -
  obtain u s where h: "distinct (u @ s)" "set (u @ s) \<subseteq> set pool"
      "\<forall>i. Suc i < length (u @ s) \<longrightarrow> isChildCvc ((u @ s) ! Suc i) ((u @ s) ! i)"
      "\<forall>e \<in> set pool. \<not> isChildCvc (hd (u @ s)) e \<and> \<not> isChildCvc e (last (u @ s))"
      "2 \<le> length s" "cvc_car (hd s) = car" "cvc_chr (hd s) \<noteq> car"
      "getAccessRole (cvc_chat (last s)) = AT" "getAccessRole (cvc_chat (s ! (length s - 2))) \<in> {DV_od, DV_no_f}"
    using assms(2) unfolding offersChain_def by (elim exE conjE)
  have s: "s \<noteq> []" using h(5) by auto
  then have "s ! (length s - 1) = last s" by (simp add: last_conv_nth)
  then have v: "isValidChain s" using h(5,8,9) by (auto simp: isValidChain_def Let_def)
  have l: "length (u @ s) - 2 = length u + (length s - 2)" "length (u @ s) - 1 = length u + (length s - 1)"
    using h(5) by simp_all
  have "isValidChain (u @ s)"
    using v h(5) unfolding isValidChain_def Let_def l nth_append_length_plus by (simp split: if_splits)
  moreover have "u @ s \<in> set (getChains isChildCvc pool)"
    using s by (intro chain_builder_complete [OF one _ h(1-4)]) simp
  ultimately have "u @ s \<in> set (CVCertificateChainBuilder pool)"
    by (simp add: CVCertificateChainBuilder_def CVCertificateChain_def del: append_assoc)
  moreover have "findSubChain (\<lambda>cert. cvc_car cert = car \<and> \<not> isIssuedBy cert cert) (u @ s) \<noteq> None"
    using s v h(6,7) by (intro findSubChain_finds) (simp_all add: isIssuedBy_def)
  ultimately show ?thesis
    unfolding getChainForCar_def using findInChains_finds by fast
qed

text \<open>
  C35. The chain that terminal authentication sends to the card, chosen for the authorities that the
  card named, the current one first, then the previous one. A chain that is given comes from the pool and starts
  with a certificate that one of these authorities issued and that is no root, every further certificate is
  issued by the one before it and is no root, and it ends in a document verifier followed by an
  authentication terminal. When no certificate has two issuers in the pool, a chain is given whenever
  the pool offers one for one of the two authorities, and one for the current authority whenever it
  offers one for that.
\<close>

theorem chain_for_authority_is_found:
  fixes pool carCurr carPrev
  defines "c \<equiv> getChainForCertificationAuthority (CVCertificateChainBuilder pool) carCurr carPrev"
  shows "(c \<noteq> [] \<longrightarrow> set c \<subseteq> set pool \<and> 2 \<le> length c \<and>
       (cvc_car (hd c) = carCurr \<or> cvc_car (hd c) = carPrev) \<and> cvc_car (hd c) \<noteq> cvc_chr (hd c) \<and>
       (\<forall>i. Suc i < length c \<longrightarrow> cvc_car (c ! Suc i) = cvc_chr (c ! i) \<and> cvc_car (c ! Suc i) \<noteq> cvc_chr (c ! Suc i)) \<and>
       getAccessRole (cvc_chat (last c)) = AT \<and>
       getAccessRole (cvc_chat (c ! (length c - 2))) \<in> {DV_od, DV_no_f}) \<and>
    ((\<forall>e\<in>set pool. \<forall>p\<in>set pool. \<forall>q\<in>set pool. isChildCvc e p \<and> isChildCvc e q \<longrightarrow> p = q) \<longrightarrow>
       (offersChain pool carCurr \<or> offersChain pool carPrev \<longrightarrow> c \<noteq> []) \<and>
       (offersChain pool carCurr \<longrightarrow> cvc_car (hd c) = carCurr))"
proof -
  let ?one = "\<forall>e\<in>set pool. \<forall>p\<in>set pool. \<forall>q\<in>set pool. isChildCvc e p \<and> isChildCvc e q \<longrightarrow> p = q"
  have "c \<noteq> [] \<and> (offersChain pool carCurr \<longrightarrow> cvc_car (hd c) = carCurr)"
    if "?one" "offersChain pool carCurr \<or> offersChain pool carPrev"
    using offered_is_found [OF that(1)] that(2)
    by (auto simp: c_def getChainForCertificationAuthority_def Let_def not_valid_Nil)
  moreover note sound = chain_for_authority_is_sound [OF c_def [THEN meta_eq_to_obj_eq], unfolded isIssuedBy_def]
  ultimately show ?thesis by (intro conjI impI) (simp_all only: sound simp_thms, blast+)
qed

theorem chain_for_authority_is_found_witness:
  "getChainForCertificationAuthority (CVCertificateChainBuilder sample_pool) [1] [9] \<noteq> [] \<and>
   cvc_car (hd (getChainForCertificationAuthority (CVCertificateChainBuilder sample_pool) [1] [9])) = [1]"
proof -
  have one: "\<forall>e\<in>set sample_pool. \<forall>p\<in>set sample_pool. \<forall>q\<in>set sample_pool. isChildCvc e p \<and> isChildCvc e q \<longrightarrow> p = q"
    by (simp add: sample_pool_def isChildCvc_def isIssuedBy_def sample_cvc_def)
  have "offersChain sample_pool [1]"
    unfolding offersChain_def
    by (rule exI [of _ "[sample_cvc 2 1 1 0xC0]"], rule exI [of _ "[sample_cvc 3 1 2 0x80, sample_cvc 1 2 3 0]"])
      (simp add: sample_pool_def isChildCvc_def isIssuedBy_def sample_cvc_def getAccessRole_def enum_ofValue_def
        AccessRole_list_def drop_bit_eq_div nth_Cons split: nat.split)
  then show ?thesis using chain_for_authority_is_found [of sample_pool "[1]" "[9]"] one by blast
qed

lemma checkSignatures_links:
  "checkSignatures verify cs signer key \<Longrightarrow> key \<in> K \<Longrightarrow> \<forall>c\<in>set cs. \<forall>k. cvc_ecKey c = Some k \<longrightarrow> k \<in> K \<Longrightarrow>
     \<forall>i<length cs. \<exists>k\<in>K. verify k (cvc_publicPoint ((signer # cs) ! i)) (cvc_hashOid ((signer # cs) ! i))
        (cvc_rawBody (cs ! i)) (cvc_rawSignature (cs ! i))"
proof (induction cs arbitrary: signer key)
  case (Cons c cs)
  then have v: "verify key (cvc_publicPoint signer) (cvc_hashOid signer) (cvc_rawBody c) (cvc_rawSignature c)"
    and rest: "checkSignatures verify cs c (case cvc_ecKey c of Some k \<Rightarrow> k | None \<Rightarrow> key)"
    by (auto split: if_splits)
  have "(case cvc_ecKey c of Some k \<Rightarrow> k | None \<Rightarrow> key) \<in> K"
    using Cons.prems(2,3) by (simp split: option.splits)
  from Cons.IH [OF rest this] Cons.prems(3) have ih: "\<forall>i<length cs. \<exists>k\<in>K.
      verify k (cvc_publicPoint ((c # cs) ! i)) (cvc_hashOid ((c # cs) ! i)) (cvc_rawBody (cs ! i)) (cvc_rawSignature (cs ! i))"
    by simp
  show ?case
  proof (intro allI impI)
    fix i assume "i < length (c # cs)"
    then show "\<exists>k\<in>K. verify k (cvc_publicPoint ((signer # c # cs) ! i)) (cvc_hashOid ((signer # c # cs) ! i))
        (cvc_rawBody ((c # cs) ! i)) (cvc_rawSignature ((c # cs) ! i))"
      using v ih Cons.prems(2) by (cases i) auto
  qed
qed simp

text \<open>
  A chain passes the signature check only if it is not empty, its first certificate brings
  domain parameters and verifies under its own key, and every further certificate verifies
  under the public point and the hash of its predecessor, with domain parameters that some
  certificate of the chain brought.
\<close>

theorem signature_check_links_the_chain:
  assumes "SignatureChecker_check verify c"
  shows "c \<noteq> [] \<and>
         (\<exists>k. cvc_ecKey (hd c) = Some k \<and>
            verify k (cvc_publicPoint (hd c)) (cvc_hashOid (hd c)) (cvc_rawBody (hd c)) (cvc_rawSignature (hd c))) \<and>
         (\<forall>i. Suc i < length c \<longrightarrow>
            (\<exists>k. Some k \<in> cvc_ecKey ` set c \<and>
               verify k (cvc_publicPoint (c ! i)) (cvc_hashOid (c ! i)) (cvc_rawBody (c ! Suc i)) (cvc_rawSignature (c ! Suc i))))"
proof -
  obtain s rest k where c: "c = s # rest" "cvc_ecKey s = Some k" "checkSignatures verify c s k"
    using assms by (auto simp: SignatureChecker_check_def split: list.splits option.splits)
  have all: "\<forall>i<length c. \<exists>k'\<in>{k. Some k \<in> cvc_ecKey ` set c}.
      verify k' (cvc_publicPoint ((s # c) ! i)) (cvc_hashOid ((s # c) ! i)) (cvc_rawBody (c ! i)) (cvc_rawSignature (c ! i))"
  proof (rule checkSignatures_links [OF c(3)])
    show "k \<in> {k. Some k \<in> cvc_ecKey ` set c}" using c(1,2) by (simp add: c(2) [symmetric])
    show "\<forall>d\<in>set c. \<forall>k. cvc_ecKey d = Some k \<longrightarrow> k \<in> {k. Some k \<in> cvc_ecKey ` set c}"
      by (metis image_eqI mem_Collect_eq)
  qed
  have "verify k (cvc_publicPoint s) (cvc_hashOid s) (cvc_rawBody s) (cvc_rawSignature s)"
    using c(1,3) by (auto split: if_splits)
  moreover have "\<exists>k'. Some k' \<in> cvc_ecKey ` set c \<and>
      verify k' (cvc_publicPoint (c ! i)) (cvc_hashOid (c ! i)) (cvc_rawBody (c ! Suc i)) (cvc_rawSignature (c ! Suc i))"
    if "Suc i < length c" for i
    using all [rule_format, OF that] by auto
  ultimately show ?thesis using c(1,2) by simp
qed

theorem signature_check_links_the_chain_witness:
  "\<exists>k. Some k \<in> cvc_ecKey ` set [sample_cvc 2 1 1 0xC0, sample_cvc 3 1 2 0x80]"
proof -
  have "SignatureChecker_check (\<lambda>k p h b s. p = s) [sample_cvc 2 1 1 0xC0, sample_cvc 3 1 2 0x80]"
    by (simp add: SignatureChecker_check_def sample_cvc_def)
  from signature_check_links_the_chain [OF this] show ?thesis by fastforce
qed

end
