(* ===== verification/CardConnection.thy ===== *)
theory CardConnection
  imports SecureMessaging Commands
begin

text \<open>
  The connection to one card: src/src/card/base/CardConnectionWorker.cpp (transmit, readFile,
  stopSecureMessaging, destroyPaceChannel, setEidPin, updateRetryCounter), the parts of
  Reader.cpp, Card.cpp and CardInfo.cpp that work on it, PersoSimWorkaround.h, and the card
  commands TransmitCommand.cpp and DidAuthenticateEAC1Command.cpp. The card itself and its
  driver are a parameter: a record \<open>card_env\<close> of functions over a state \<open>'c\<close>. A
  driver's \<open>transmit\<close> gives its return code and the response buffer if it set one. The
  worker is the record \<open>worker\<close>; \<open>wk_card\<close> is \<open>None\<close> when there is no reader
  or no card, \<open>wk_sm\<close> is the secure messaging of an established PACE channel.
\<close>

section \<open>State\<close>

datatype CardType = CT_NONE | CT_UNKNOWN | CT_EID_CARD

record 'x card_info =
  ci_cardType :: CardType
  ci_efCardAccess :: "'x security_infos option"
  ci_retryCounter :: int
  ci_pinDeactivated :: bool
  ci_pukInoperative :: bool

definition CardInfo :: "CardType \<Rightarrow> 'x security_infos option \<Rightarrow> 'x card_info" where
  "CardInfo t ef = \<lparr>ci_cardType = t, ci_efCardAccess = ef, ci_retryCounter = -1,
     ci_pinDeactivated = False, ci_pukInoperative = False\<rparr>"

definition isRetryCounterDetermined :: "'x card_info \<Rightarrow> bool" where
  "isRetryCounterDetermined i \<longleftrightarrow> ci_retryCounter i \<noteq> -1"

definition isAvailable :: "'x card_info \<Rightarrow> bool" where
  "isAvailable i \<longleftrightarrow> ci_cardType i \<noteq> CT_NONE"

definition isEid :: "'x card_info \<Rightarrow> bool" where
  "isEid i \<longleftrightarrow> ci_cardType i = CT_EID_CARD"

record 'c card_env =
  ce_crypto :: crypto_lib
  ce_asn1 :: asn1_lib
  ce_transmit :: "bytes \<Rightarrow> 'c \<Rightarrow> CardReturnCode \<times> bytes option \<times> 'c"
  ce_destroyPaceChannel :: "'c \<Rightarrow> CardReturnCode \<times> 'c"
  ce_setEidPin :: "nat \<Rightarrow> 'c \<Rightarrow> CardReturnCode \<times> bytes option \<times> 'c"

record ('c, 'x) worker =
  wk_card :: "'c option"
  wk_connected :: bool
  wk_sm :: "sm option"
  wk_basicReader :: bool
  wk_cardInfo :: "'x card_info"
  wk_signals :: nat

definition bufferOf :: "bytes option \<Rightarrow> bytes" where
  "bufferOf r = (case r of None \<Rightarrow> [] | Some b \<Rightarrow> b)"

text \<open>The operations of the class \<open>Card\<close> that a driver need not override.\<close>

definition Card_destroyPaceChannel :: "'c \<Rightarrow> CardReturnCode \<times> 'c" where
  "Card_destroyPaceChannel c = (CR_COMMAND_FAILED, c)"

definition Card_setEidPin :: "nat \<Rightarrow> 'c \<Rightarrow> CardReturnCode \<times> bytes option \<times> 'c" where
  "Card_setEidPin pTimeoutSeconds c = (CR_COMMAND_FAILED, None, c)"

section \<open>Operations of the worker\<close>

definition hasCard :: "('c, 'x) worker \<Rightarrow> bool" where
  "hasCard w \<longleftrightarrow> wk_card w \<noteq> None"

definition transmit ::
  "'c card_env \<Rightarrow> bytes \<Rightarrow> ('c, 'x) worker \<Rightarrow> CardReturnCode \<times> bytes option \<times> ('c, 'x) worker" where
  "transmit E pCommandApdu w =
    (case wk_card w of
       None \<Rightarrow> (CR_CARD_NOT_FOUND, None, w)
     | Some c \<Rightarrow>
       (case wk_sm w of
          None \<Rightarrow>
            (let (returnCode, resp, c') = ce_transmit E pCommandApdu c
             in (returnCode, resp, w\<lparr>wk_card := Some c'\<rparr>))
        | Some s \<Rightarrow>
            (let (securedCommandApdu, s') = sm_encrypt (ce_crypto E) (ce_asn1 E) pCommandApdu s
             in if securedCommandApdu = [] then (CR_COMMAND_FAILED, None, w\<lparr>wk_sm := Some s'\<rparr>)
             else
               let (returnCode, resp, c') = ce_transmit E securedCommandApdu c;
                   (plain, s'') = sm_decrypt (ce_crypto E) (ce_asn1 E) (bufferOf resp) s';
                   w' = w\<lparr>wk_card := Some c', wk_sm := Some s''\<rparr>
               in if plain = None then (CR_COMMAND_FAILED, None, w')
                  else (returnCode, plain, w'))))"

text \<open>
  The loop of \<open>readFile\<close> may not end, since only the card decides when it does;
  \<open>None\<close> is not returning.
\<close>

partial_function (option) readFileLoop ::
  "'c card_env \<Rightarrow> bytes \<Rightarrow> ('c, 'x) worker \<Rightarrow> (CardReturnCode \<times> bytes \<times> ('c, 'x) worker) option" where
  "readFileLoop E pFileContent w =
    (let (returnCode, res, w') = transmit E (buildReadBinary (length pFileContent) 0xff) w
     in if returnCode \<noteq> CR_OK then Some (CR_COMMAND_FAILED, pFileContent, w')
     else
       let content = pFileContent @ responseData (bufferOf res);
           statusCode = getReturnCode (bufferOf res)
       in if statusCode = SC_END_OF_FILE then Some (CR_OK, content, w')
          else if statusCode \<noteq> SC_SUCCESS then Some (CR_COMMAND_FAILED, content, w')
          else readFileLoop E content w')"

definition readFile ::
  "'c card_env \<Rightarrow> file_ref \<Rightarrow> bytes \<Rightarrow> ('c, 'x) worker \<Rightarrow> (CardReturnCode \<times> bytes \<times> ('c, 'x) worker) option" where
  "readFile E pFileRef pFileContent w =
    (if \<not> hasCard w then Some (CR_CARD_NOT_FOUND, pFileContent, w)
     else
       let (returnCode, selectRes, w') = transmit E (buildSelect pFileRef) w
       in if returnCode \<noteq> CR_OK \<or> getReturnCode (bufferOf selectRes) \<noteq> SC_SUCCESS
          then Some (CR_COMMAND_FAILED, pFileContent, w')
          else readFileLoop E pFileContent w')"

definition stopSecureMessaging :: "('c, 'x) worker \<Rightarrow> bool \<times> ('c, 'x) worker" where
  "stopSecureMessaging w = (if wk_sm w = None then (False, w) else (True, w\<lparr>wk_sm := None\<rparr>))"

definition destroyPaceChannel ::
  "'c card_env \<Rightarrow> ('c, 'x) worker \<Rightarrow> CardReturnCode \<times> ('c, 'x) worker" where
  "destroyPaceChannel E w =
    (case wk_card w of
       None \<Rightarrow> (CR_CARD_NOT_FOUND, w)
     | Some c \<Rightarrow>
        if wk_basicReader w then
          let w1 = snd (stopSecureMessaging w);
              (cardReturnCode, _, c') = ce_transmit E (buildMSE (MSEBuilder ERASE DEFAULT_CHANNEL)) c
          in (cardReturnCode, w1\<lparr>wk_card := Some c'\<rparr>)
        else
          let (cardReturnCode, c') = ce_destroyPaceChannel E c
          in (cardReturnCode, w\<lparr>wk_card := Some c'\<rparr>))"

definition setEidPin ::
  "'c card_env \<Rightarrow> bytes \<Rightarrow> nat \<Rightarrow> ('c, 'x) worker \<Rightarrow> CardReturnCode \<times> bytes option \<times> ('c, 'x) worker" where
  "setEidPin E pNewPin pTimeoutSeconds w =
    (case wk_card w of
       None \<Rightarrow> (CR_CARD_NOT_FOUND, None, w)
     | Some c \<Rightarrow>
        if wk_basicReader w then
          let (returnCode, resp, w') = transmit E (buildResetRetryCounter (Some pNewPin)) w
          in if returnCode \<noteq> CR_OK \<or> getReturnCode (bufferOf resp) \<noteq> SC_SUCCESS
             then (CR_COMMAND_FAILED, resp, w') else (CR_OK, resp, w')
        else
          let (returnCode, resp, c') = ce_setEidPin E pTimeoutSeconds c
          in (returnCode, resp, w\<lparr>wk_card := Some c'\<rparr>))"

section \<open>The reader's part\<close>

text \<open>\<open>paceInfos.at(0)\<close>: an EF.CardAccess with no PACE info never becomes that of a card.\<close>

definition getRetryCounter ::
  "'c card_env \<Rightarrow> ('c, 'x) worker \<Rightarrow> CardReturnCode \<times> (int \<times> bool) \<times> ('c, 'x) worker" where
  "getRetryCounter E w =
    (case ci_efCardAccess (wk_cardInfo w) of
       None \<Rightarrow> (CR_COMMAND_FAILED, (-1, False), w)
     | Some ef \<Rightarrow>
        let paceInfo = sis_paceInfos ef ! 0;
            A = ce_asn1 E;
            mseBuilder = mse_setPrivateKey A (getParameterId paceInfo)
              (mse_setPasswordId A PACE_PIN
                (mse_setOid A (pinf_protocolValueBytes paceInfo) (MSEBuilder PERFORM_SECURITY_OPERATION SET_AT)));
            (returnCode, resp, w') = transmit E (buildMSE mseBuilder) w
        in if returnCode \<noteq> CR_OK then (returnCode, (-1, False), w')
        else
          let statusCode = getReturnCode (bufferOf resp)
          in if statusCode = SC_INVALID then (CR_COMMAND_FAILED, (-1, False), w')
             else (CR_OK, (responseRetryCounter (bufferOf resp), statusCode = SC_PIN_DEACTIVATED), w'))"

text \<open>\<open>wk_signals\<close> counts the emissions of \<open>fireCardRetryCounterChanged\<close>.\<close>

definition Reader_updateRetryCounter ::
  "'c card_env \<Rightarrow> ('c, 'x) worker \<Rightarrow> CardReturnCode \<times> ('c, 'x) worker" where
  "Reader_updateRetryCounter E w =
    (let (returnCode, (newRetryCounter, newPinDeactivated), w') = getRetryCounter E w
     in if returnCode = CR_OK then
          let i = wk_cardInfo w';
              emitSignal = (isRetryCounterDetermined i \<and>
                (newRetryCounter \<noteq> ci_retryCounter i \<or> newPinDeactivated \<noteq> ci_pinDeactivated i));
              i' = i\<lparr>ci_retryCounter := newRetryCounter, ci_pinDeactivated := newPinDeactivated\<rparr>
          in (returnCode, w'\<lparr>wk_cardInfo := i', wk_signals := (if emitSignal then Suc (wk_signals w') else wk_signals w')\<rparr>)
        else (returnCode, w'))"

definition updateRetryCounter ::
  "'c card_env \<Rightarrow> ('c, 'x) worker \<Rightarrow> CardReturnCode \<times> ('c, 'x) worker" where
  "updateRetryCounter E w =
    (if \<not> hasCard w then (CR_CARD_NOT_FOUND, w) else Reader_updateRetryCounter E w)"

definition setPukInoperative :: "('c, 'x) worker \<Rightarrow> ('c, 'x) worker" where
  "setPukInoperative w = w\<lparr>wk_cardInfo := (wk_cardInfo w)\<lparr>ci_pukInoperative := True\<rparr>\<rparr>"

text \<open>
  A worker is created only for a present card that is not connected and lets itself be
  connected; \<open>None\<close> is the null pointer. \<open>connect\<close> is the driver's.
\<close>

definition createCardConnectionWorker ::
  "('c \<Rightarrow> CardReturnCode \<times> 'c) \<Rightarrow> bool \<Rightarrow> 'x card_info \<Rightarrow> bool \<Rightarrow> 'c option \<Rightarrow> ('c, 'x) worker option" where
  "createCardConnectionWorker connect isConnected info basic currentCard =
    (case currentCard of
       None \<Rightarrow> None
     | Some c \<Rightarrow>
        if isConnected then None
        else
          let (returnCode, c') = connect c
          in if returnCode \<noteq> CR_OK then None
             else Some \<lparr>wk_card = Some c', wk_connected = True, wk_sm = None, wk_basicReader = basic,
                        wk_cardInfo = info, wk_signals = 0\<rparr>)"


section \<open>Recognising a card\<close>

text \<open>The content of EF.DIR that the card information file asks for.\<close>

definition matchingValue :: bytes where
  "matchingValue =
    [0x61, 0x32, 0x4F, 0x0F, 0xE8, 0x28, 0xBD, 0x08, 0x0F, 0xA0, 0x00, 0x00, 0x01, 0x67,
     0x45, 0x53, 0x49, 0x47, 0x4E, 0x50, 0x0F, 0x43, 0x49, 0x41, 0x20, 0x7A, 0x75, 0x20,
     0x44, 0x46, 0x2E, 0x65, 0x53, 0x69, 0x67, 0x6E, 0x51, 0x00, 0x73, 0x0C, 0x4F, 0x0A,
     0xA0, 0x00, 0x00, 0x01, 0x67, 0x45, 0x53, 0x49, 0x47, 0x4E, 0x61, 0x09, 0x4F, 0x07,
     0xA0, 0x00, 0x00, 0x02, 0x47, 0x10, 0x01, 0x61, 0x0B, 0x4F, 0x09, 0xE8, 0x07, 0x04,
     0x00, 0x7F, 0x00, 0x07, 0x03, 0x02, 0x61, 0x0C, 0x4F, 0x0A, 0xA0, 0x00, 0x00, 0x01,
     0x67, 0x45, 0x53, 0x49, 0x47, 0x4E]"

text \<open>
  The three steps share one response object: when a driver does not set it, it keeps the
  buffer of the step before.
\<close>

definition transmitInto ::
  "'c card_env \<Rightarrow> bytes \<Rightarrow> bytes \<Rightarrow> ('c, 'x) worker \<Rightarrow> CardReturnCode \<times> bytes \<times> ('c, 'x) worker" where
  "transmitInto E cmd response w =
    (let (returnCode, resp, w') = transmit E cmd w
     in (returnCode, case resp of None \<Rightarrow> response | Some b \<Rightarrow> b, w'))"

definition isGermanEidCard :: "'c card_env \<Rightarrow> ('c, 'x) worker \<Rightarrow> bool \<times> ('c, 'x) worker" where
  "isGermanEidCard E w =
    (let (returnCode, response, w) = transmitInto E (buildSelect masterFile) [] w
     in if returnCode \<noteq> CR_OK \<or> getReturnCode response \<noteq> SC_SUCCESS then (False, w)
     else
       let (returnCode, response, w) = transmitInto E (buildSelect efDir) response w
       in if returnCode \<noteq> CR_OK \<or> getReturnCode response \<noteq> SC_SUCCESS then (False, w)
       else
         let (returnCode, response, w) = transmitInto E [0x00, 0xB0, 0x00, 0x00, 0x5A] response w
         in if returnCode \<noteq> CR_OK \<or> getReturnCode response \<noteq> SC_SUCCESS then (False, w)
            else (take (length matchingValue) (responseData response) = matchingValue, w))"

definition checkEfCardAccess :: "'x security_infos \<Rightarrow> bool" where
  "checkEfCardAccess ef = list_ex isStandardizedDomainParameters (sis_paceInfos ef)"

definition readEfCardAccess ::
  "'c card_env \<Rightarrow> (bytes \<Rightarrow> 'x security_infos option) \<Rightarrow> ('c, 'x) worker
     \<Rightarrow> ('x security_infos option \<times> ('c, 'x) worker) option" where
  "readEfCardAccess E decode w =
    (case readFile E efCardAccess [] w of
       None \<Rightarrow> None
     | Some (returnCode, efCardAccessBytes, w') \<Rightarrow>
         if returnCode \<noteq> CR_OK then Some (None, w')
         else Some (decode efCardAccessBytes, w'))"

text \<open>\<open>CardInfoFactory::create\<close>; the worker is the connection of the reader that is asked for.\<close>

definition CardInfoFactory_create ::
  "'c card_env \<Rightarrow> (bytes \<Rightarrow> 'x security_infos option) \<Rightarrow> ('c, 'x) worker
     \<Rightarrow> (bool \<times> ('c, 'x) worker) option" where
  "CardInfoFactory_create E decode w =
    (let (german, w) = isGermanEidCard E w
     in if \<not> german then Some (False, w\<lparr>wk_cardInfo := CardInfo CT_UNKNOWN None\<rparr>)
     else
       (case readEfCardAccess E decode w of
          None \<Rightarrow> None
        | Some (None, w) \<Rightarrow> Some (False, w\<lparr>wk_cardInfo := CardInfo CT_UNKNOWN None\<rparr>)
        | Some (Some ef, w) \<Rightarrow>
            if \<not> checkEfCardAccess ef then Some (False, w\<lparr>wk_cardInfo := CardInfo CT_UNKNOWN None\<rparr>)
            else
              let w = w\<lparr>wk_cardInfo := CardInfo CT_EID_CARD (Some ef)\<rparr>;
                  (_, w) = updateRetryCounter E w
              in Some (True, w)))"

section \<open>Commands\<close>

definition sendingMseSetAt :: "'c card_env \<Rightarrow> ('c, 'x) worker \<Rightarrow> CardReturnCode \<times> ('c, 'x) worker" where
  "sendingMseSetAt E w =
    (let (returnCode, resp, w') = transmit E (buildSelect efCardAccess) w
     in if getReturnCode (bufferOf resp) = SC_EMPTY then (CR_RETRY_ALLOWED, w')
        else if returnCode = CR_COMMAND_FAILED then (CR_OK, w')
        else (returnCode, w'))"

text \<open>The challenge stays empty unless the card answered with success.\<close>

definition DidAuthenticateEAC1 ::
  "'c card_env \<Rightarrow> ('c, 'x) worker \<Rightarrow> CardReturnCode \<times> bytes \<times> ('c, 'x) worker" where
  "DidAuthenticateEAC1 E w =
    (let (mReturnCode, resp, w') = transmit E buildGetChallenge w
     in if mReturnCode \<noteq> CR_OK \<or> getReturnCode (bufferOf resp) \<noteq> SC_SUCCESS then (mReturnCode, [], w')
        else (mReturnCode, getChallenge (bufferOf resp), w'))"

record input_apdu =
  ia_inputApdu :: bytes
  ia_acceptableStatusCodes :: "string list"

text \<open>\<open>QByteArray::toHex\<close>: two lower-case digits per byte.\<close>

definition hexDigit :: "nat \<Rightarrow> char" where
  "hexDigit n = (if n < 10 then char_of (48 + n) else char_of (87 + n))"

definition toHex :: "bytes \<Rightarrow> string" where
  "toHex bs = concat (map (\<lambda>b. [hexDigit (unat b div 16), hexDigit (unat b mod 16)]) bs)"

definition isAcceptable :: "input_apdu \<Rightarrow> bytes \<Rightarrow> bool" where
  "isAcceptable i response =
    (if ia_acceptableStatusCodes i = [] then True
     else list_ex (\<lambda>code. startsWith (toHex (right 2 response)) code) (ia_acceptableStatusCodes i))"

fun TransmitCommand_execute ::
  "'c card_env \<Rightarrow> input_apdu list \<Rightarrow> string list \<Rightarrow> ('c, 'x) worker
     \<Rightarrow> CardReturnCode \<times> string list \<times> ('c, 'x) worker" where
  "TransmitCommand_execute E [] out w = (CR_OK, out, w)"
| "TransmitCommand_execute E (i # rest) out w =
    (let (mReturnCode, resp, w') = transmit E (ia_inputApdu i) w
     in if mReturnCode \<noteq> CR_OK then (mReturnCode, out, w')
     else
       let out = out @ [toHex (bufferOf resp)]
       in if isAcceptable i (bufferOf resp) then TransmitCommand_execute E rest out w'
          else (CR_UNEXPECTED_TRANSMIT_STATUS, out, w'))"


section \<open>Transmission through secure messaging\<close>

text \<open>
  A card that holds the session: it takes secured commands apart, lets its application
  \<open>h\<close> answer the plain command, and protects the answer. A command that it cannot
  authenticate is answered with a plain error status.
\<close>

definition secured_card ::
  "crypto_lib \<Rightarrow> asn1_lib \<Rightarrow> (byte \<times> byte \<times> byte \<times> bytes \<times> nat \<Rightarrow> 'a \<Rightarrow> bytes \<times> StatusCode \<times> 'a)
     \<Rightarrow> bytes \<Rightarrow> sm \<times> 'a \<Rightarrow> CardReturnCode \<times> bytes option \<times> (sm \<times> 'a)" where
  "secured_card L A h cmd st =
    (let (t, x) = st;
         t1 = t\<lparr>sm_ssc := sm_ssc t + 1\<rparr>
     in case card_unwrap L A t1 cmd of
          None \<Rightarrow> (CR_OK, Some (be16 (statusValue SC_INVALID_SM_OBJECTS)), (t1, x))
        | Some p \<Rightarrow>
            let (d, sw, x') = h p x;
                t2 = t1\<lparr>sm_ssc := sm_ssc t1 + 1\<rparr>
            in (CR_OK, Some (card_respond L A t2 d sw), (t2, x')))"

definition in_sync :: "sm \<Rightarrow> sm \<Rightarrow> bool" where
  "in_sync s t \<longleftrightarrow> sm_isInitialized s \<and> sm_encKey s = sm_encKey t \<and> sm_macKey s = sm_macKey t \<and> sm_ssc s = sm_ssc t"

lemma sequenceCounter_cong: "sm_ssc s = sm_ssc t \<Longrightarrow> sequenceCounter s = sequenceCounter t"
  by (simp add: sequenceCounter_def)

lemma card_iv_cong: "sm_encKey s = sm_encKey t \<Longrightarrow> sm_ssc s = sm_ssc t \<Longrightarrow> card_iv L s = card_iv L t"
  using sequenceCounter_cong [of s t] by (simp add: card_iv_def)

lemma card_mac_cong: "sm_macKey s = sm_macKey t \<Longrightarrow> sm_ssc s = sm_ssc t \<Longrightarrow> card_mac L s m = card_mac L t m"
  using sequenceCounter_cong [of s t] by (simp add: card_mac_def)

lemma card_unwrap_cong:
  assumes "sm_encKey s = sm_encKey t" "sm_macKey s = sm_macKey t" "sm_ssc s = sm_ssc t"
  shows "card_unwrap L A s c = card_unwrap L A t c"
  using card_iv_cong [OF assms(1,3), of L] card_mac_cong [OF assms(2,3), of L] assms
  by (simp add: card_unwrap_def cong: option.case_cong)

lemma card_respond_cong:
  assumes "sm_encKey s = sm_encKey t" "sm_macKey s = sm_macKey t" "sm_ssc s = sm_ssc t"
  shows "card_respond L A s d sw = card_respond L A t d sw"
  using card_iv_cong [OF assms(1,3), of L] card_mac_cong [OF assms(2,3), of L] assms
  by (simp add: card_respond_def)

text \<open>
  C20. Secure messaging is transparent: as long as client and card share keys and counter, a
  command sent through the secured channel has the effect of the plain command. The card's
  application sees instruction, parameters, data and expected length of the plain command once,
  the caller gets its data and status word, and both ends share the counter again, so the next
  command works the same way.
\<close>

theorem secured_transmit_is_transparent:
  assumes "der_laws (ce_asn1 E)" and "cipher_laws (ce_crypto E)"
    and "ce_transmit E = secured_card (ce_crypto E) (ce_asn1 E) h"
    and "wk_card w = Some (t, x)" and "wk_sm w = Some s" and "in_sync s t"
    and "length d \<le> 65000" and "0 \<le> le" and "le \<le> 0x10000" and "d \<noteq> [] \<or> le \<le> 256 \<or> le = 0x10000"
    and "h (ins, p1, p2, d, nat le) x = (ans, sw, x')" and "length ans \<le> 65000"
  shows "\<exists>s' t'. transmit E (CommandApdu cla ins p1 p2 d le) w =
           (CR_OK, Some (ans @ be16 (statusValue sw)), w\<lparr>wk_card := Some (t', x'), wk_sm := Some s'\<rparr>) \<and>
           in_sync s' t'"
proof -
  let ?L = "ce_crypto E" and ?A = "ce_asn1 E" and ?p = "CommandApdu cla ins p1 p2 d le"
  have s: "sm_isInitialized s" "sm_encKey s = sm_encKey t" "sm_macKey s = sm_macKey t" "sm_ssc s = sm_ssc t"
    using assms(6) by (simp_all add: in_sync_def)
  obtain c s1 where c: "sm_encrypt ?L ?A ?p s = (c, s1)" "sm_ssc s1 = sm_ssc s + 1"
      "card_unwrap ?L ?A (s\<lparr>sm_ssc := sm_ssc s + 1\<rparr>) c = Some (ins, p1, p2, d, nat le)"
    using encrypt_reaches_card [OF assms(1,2) s(1) assms(7-10)] by blast
  have keys1: "sm_isInitialized s1 \<and> sm_encKey s1 = sm_encKey s \<and> sm_macKey s1 = sm_macKey s"
    using sm_step_keeps_keys [of s "sm_alg s" "sm_encKey s" "sm_macKey s" ?L ?A "SmEncrypt ?p"] s(1) c(1)
    by (simp add: sm_step_def)
  have "c \<noteq> []"
  proof
    assume "c = []"
    with c(3) have "decodeObject ?A 0x8E [] \<noteq> None"
      by (auto simp: card_unwrap_def Let_def getData_def getLc_def decodeObject_Nil [OF assms(1)] encodedObject_def split: if_splits)
    then show False by (simp add: decodeObject_Nil [OF assms(1)])
  qed
  let ?t1 = "t\<lparr>sm_ssc := sm_ssc t + 1\<rparr>"
  let ?t2 = "?t1\<lparr>sm_ssc := sm_ssc ?t1 + 1\<rparr>"
  have "card_unwrap ?L ?A ?t1 c = Some (ins, p1, p2, d, nat le)"
    using c(3) s card_unwrap_cong [of "s\<lparr>sm_ssc := sm_ssc s + 1\<rparr>" ?t1 ?L ?A c] by simp
  then have io: "ce_transmit E c (t, x) = (CR_OK, Some (card_respond ?L ?A ?t2 ans sw), (?t2, x'))"
    using assms(11) by (simp add: assms(3) secured_card_def Let_def)
  have "card_respond ?L ?A ?t2 ans sw = card_respond ?L ?A (s1\<lparr>sm_ssc := sm_ssc s1 + 1\<rparr>) ans sw"
    using keys1 s c(2) by (intro card_respond_cong) simp_all
  then obtain s2 where s2: "sm_decrypt ?L ?A (card_respond ?L ?A ?t2 ans sw) s1 = (Some (ans @ be16 (statusValue sw)), s2)"
      "sm_ssc s2 = sm_ssc s1 + 1"
    using decrypt_card_respond [OF assms(1,2) _ assms(12), of s1 sw] keys1 by auto
  have "sm_isInitialized s2 \<and> sm_encKey s2 = sm_encKey s1 \<and> sm_macKey s2 = sm_macKey s1"
    using sm_step_keeps_keys [of s1 "sm_alg s1" "sm_encKey s1" "sm_macKey s1" ?L ?A "SmDecrypt (card_respond ?L ?A ?t2 ans sw)"]
      keys1 s2(1) by (simp add: sm_step_def)
  then have "in_sync s2 ?t2"
    using keys1 s c(2) s2(2) by (simp add: in_sync_def)
  moreover have "transmit E ?p w = (CR_OK, Some (ans @ be16 (statusValue sw)), w\<lparr>wk_card := Some (?t2, x'), wk_sm := Some s2\<rparr>)"
    using \<open>c \<noteq> []\<close> s2(1) [simplified] by (simp add: transmit_def assms(4,5) c(1) io bufferOf_def)
  ultimately show ?thesis by blast
qed


definition echo_application :: "byte \<times> byte \<times> byte \<times> bytes \<times> nat \<Rightarrow> nat \<Rightarrow> bytes \<times> StatusCode \<times> nat" where
  "echo_application p n = (case p of (ins, p1, p2, d, le) \<Rightarrow> (d, SC_SUCCESS, Suc n))"

definition sample_env :: "(sm \<times> nat) card_env" where
  "sample_env = \<lparr>ce_crypto = sample_crypto, ce_asn1 = der_lib,
     ce_transmit = secured_card sample_crypto der_lib echo_application,
     ce_destroyPaceChannel = Card_destroyPaceChannel, ce_setEidPin = Card_setEidPin\<rparr>"

definition sample_worker :: "(sm \<times> nat, unit) worker" where
  "sample_worker = \<lparr>wk_card = Some (sample_sm, 0), wk_connected = True, wk_sm = Some sample_sm,
     wk_basicReader = True, wk_cardInfo = CardInfo CT_UNKNOWN None, wk_signals = 0\<rparr>"

theorem secured_transmit_is_transparent_witness:
  "\<exists>s' t'. transmit sample_env (CommandApdu 0 0x88 0 0 [1, 2, 3] 0) sample_worker =
     (CR_OK, Some ([1, 2, 3] @ be16 (statusValue SC_SUCCESS)),
      sample_worker\<lparr>wk_card := Some (t', 1), wk_sm := Some s'\<rparr>) \<and> in_sync s' t'"
proof -
  have "in_sync sample_sm sample_sm" by (simp add: in_sync_def sample_sm_initialized)
  then show ?thesis
    using secured_transmit_is_transparent [of sample_env echo_application sample_worker sample_sm 0 sample_sm
        "[1, 2, 3]" 0 "0x88" 0 0 "[1, 2, 3]" SC_SUCCESS 1 0]
    by (simp add: sample_env_def sample_worker_def der_lib_laws sample_cipher_laws echo_application_def
        del: statusValue.simps)
qed

section \<open>Reading files\<close>

lemma buildReadBinary_bytes: "buildReadBinary n 0xff = [0x00, 0xB0, high_byte n, low_byte n, 0xff]"
  by (simp add: buildReadBinary_def CommandApdu_short_le low_byte_def)

text \<open>
  A card serves a file when, in every state of some kind, it answers READ BINARY with at most
  255 bytes from the offset on, and with the status "end of file" exactly when it reached the
  end.
\<close>

definition serves_file :: "(bytes \<Rightarrow> 'c \<Rightarrow> CardReturnCode \<times> bytes option \<times> 'c) \<Rightarrow> ('c \<Rightarrow> bool) \<Rightarrow> bytes \<Rightarrow> bool" where
  "serves_file io good f \<longleftrightarrow>
    (\<forall>c off. good c \<and> off \<le> length f \<longrightarrow>
      (\<exists>c' sw. io (buildReadBinary off 0xff) c = (CR_OK, Some (mid off 255 f @ be16 (statusValue sw)), c') \<and> good c' \<and>
         sw = (if off + 255 < length f then SC_SUCCESS else SC_END_OF_FILE)))"

lemma readFileLoop_honest:
  assumes "serves_file (ce_transmit E) good f" "wk_sm w = None" "wk_card w = Some c" "good c" "off \<le> length f"
  shows "\<exists>w'. readFileLoop E (take off f) w = Some (CR_OK, f, w')"
  using assms(2-5)
proof (induction "length f - off" arbitrary: off w c rule: less_induct)
  case less
  obtain c' sw where io: "ce_transmit E (buildReadBinary off 0xff) c = (CR_OK, Some (mid off 255 f @ be16 (statusValue sw)), c')"
      "good c'" "sw = (if off + 255 < length f then SC_SUCCESS else SC_END_OF_FILE)"
    using assms(1) less.prems(3,4) unfolding serves_file_def by blast
  have len: "length (take off f) = off" "min (length f) off = off" using less.prems(4) by simp_all
  have tr: "transmit E (buildReadBinary (length (take off f)) 0xff) w
      = (CR_OK, Some (mid off 255 f @ be16 (statusValue sw)), w\<lparr>wk_card := Some c'\<rparr>)"
    using less.prems(1,2) io(1) by (simp add: transmit_def len)
  have data: "responseData (mid off 255 f @ be16 (statusValue c)) = mid off 255 f" for c
    by (simp add: responseData_def getDataLength_def)
  note rc = getReturnCode_append_status
  have app: "take off f @ mid off 255 f = take (off + 255) f"
    by (simp add: mid_def take_add)
  show ?case
  proof (cases "off + 255 < length f")
    case True
    have "readFileLoop E (take off f) w = readFileLoop E (take (off + 255) f) (w\<lparr>wk_card := Some c'\<rparr>)"
      using True io(3) by (subst readFileLoop.simps) (simp add: len tr [unfolded len] bufferOf_def data rc app Let_def del: statusValue.simps)
    then show ?thesis
      using less.hyps [of "off + 255" "w\<lparr>wk_card := Some c'\<rparr>" c'] less.prems(1) io(2) True by simp
  next
    case False
    then show ?thesis
      using io(3) by (subst readFileLoop.simps) (simp add: len tr [unfolded len] bufferOf_def data rc app Let_def del: statusValue.simps)
  qed
qed

text \<open>
  Reading a file from a card that serves it returns, with success, exactly the bytes of the
  file, over any number of READ BINARY commands.
\<close>

theorem readFile_returns_the_file:
  assumes "serves_file (ce_transmit E) good f" and "wk_card w = Some c" and "wk_sm w = None"
    and "ce_transmit E (buildSelect r) c = (CR_OK, Some (be16 (statusValue SC_SUCCESS)), c')" and "good c'"
  shows "\<exists>w'. readFile E r [] w = Some (CR_OK, f, w')"
proof -
  have "transmit E (buildSelect r) w = (CR_OK, Some (be16 (statusValue SC_SUCCESS)), w\<lparr>wk_card := Some c'\<rparr>)"
    using assms(2-4) by (simp add: transmit_def)
  moreover have "getReturnCode (be16 (statusValue SC_SUCCESS)) = SC_SUCCESS"
    using getReturnCode_append_status [of "[]" SC_SUCCESS] by simp
  ultimately show ?thesis
    using readFileLoop_honest [OF assms(1), of "w\<lparr>wk_card := Some c'\<rparr>" c' 0] assms(2,3,5)
    by (simp add: readFile_def hasCard_def bufferOf_def del: statusValue.simps)
qed

text \<open>A card for the witnesses: it serves a file of 300 bytes, and its state counts the commands.\<close>

definition file_card :: "bytes \<Rightarrow> bytes \<Rightarrow> nat \<Rightarrow> CardReturnCode \<times> bytes option \<times> nat" where
  "file_card f cmd n =
    (if getINS cmd = 0xA4 then (CR_OK, Some (be16 0x9000), Suc n)
     else
       let off = 256 * unat (getP1 cmd) + unat (getP2 cmd)
       in (CR_OK, Some (mid off 255 f @ be16 (if off + 255 < length f then 0x9000 else 0x6282)), Suc n))"

definition file_env :: "bytes \<Rightarrow> nat card_env" where
  "file_env f = \<lparr>ce_crypto = sample_crypto, ce_asn1 = der_lib, ce_transmit = file_card f,
     ce_destroyPaceChannel = Card_destroyPaceChannel, ce_setEidPin = Card_setEidPin\<rparr>"

definition plain_worker :: "(nat, unit) worker" where
  "plain_worker = \<lparr>wk_card = Some 0, wk_connected = True, wk_sm = None, wk_basicReader = True,
     wk_cardInfo = CardInfo CT_UNKNOWN None, wk_signals = 0\<rparr>"

lemma file_card_serves: "length f < 65536 \<Longrightarrow> serves_file (file_card f) (\<lambda>_. True) f"
  using readBinary_offset [of "0xff"]
  by (simp add: serves_file_def file_card_def Let_def buildReadBinary_def)

theorem readFile_returns_the_file_witness:
  "\<exists>w'. readFile (file_env (replicate 300 7)) efCardAccess [] plain_worker = Some (CR_OK, replicate 300 7, w')"
proof (rule readFile_returns_the_file)
  show "serves_file (ce_transmit (file_env (replicate 300 7))) (\<lambda>_. True) (replicate 300 7)"
    using file_card_serves [of "replicate 300 7"] by (simp add: file_env_def)
  show "ce_transmit (file_env (replicate 300 7)) (buildSelect efCardAccess) 0
      = (CR_OK, Some (be16 (statusValue SC_SUCCESS)), 1)"
    by (simp add: file_env_def file_card_def buildSelect_def efCardAccess_def)
qed (simp_all add: plain_worker_def)

text \<open>
  Only the card ends the reading: against a card that answers every READ BINARY with
  success and without data, reading never returns, whatever was selected and read before.
\<close>

theorem readFile_may_never_return:
  assumes "\<forall>c off. \<exists>c'. ce_transmit E (buildReadBinary off 0xff) c = (CR_OK, Some (be16 (statusValue SC_SUCCESS)), c')"
    and "wk_sm w = None" and "wk_card w \<noteq> None"
  shows "readFileLoop E content (w :: ('c, 'x) worker) = None"
proof (rule ccontr)
  assume "readFileLoop E content w \<noteq> None"
  then obtain y where "readFileLoop E content w = Some y" by blast
  then have "E = E \<longrightarrow> wk_sm w = None \<and> wk_card w \<noteq> None \<longrightarrow> False"
  proof (rule readFileLoop.raw_induct [where P =
        "\<lambda>E' c w y. E' = E \<longrightarrow> wk_sm w = None \<and> wk_card w \<noteq> None \<longrightarrow> False", rotated], intro impI)
    fix loop :: "'c card_env \<Rightarrow> bytes \<Rightarrow> ('c, 'x) worker \<Rightarrow> (CardReturnCode \<times> bytes \<times> ('c, 'x) worker) option"
    fix E' :: "'c card_env" and content and w :: "('c, 'x) worker" and y
    assume ih: "\<And>E' c w y. loop E' c w = Some y \<Longrightarrow> E' = E \<longrightarrow> wk_sm w = None \<and> wk_card w \<noteq> None \<longrightarrow> False"
      and step: "(let (returnCode, res, w') = transmit E' (buildReadBinary (length content) 0xff) w
        in if returnCode \<noteq> CR_OK then Some (CR_COMMAND_FAILED, content, w')
        else let content = content @ responseData (bufferOf res); statusCode = getReturnCode (bufferOf res)
          in if statusCode = SC_END_OF_FILE then Some (CR_OK, content, w')
             else if statusCode \<noteq> SC_SUCCESS then Some (CR_COMMAND_FAILED, content, w')
             else loop E' content w') = Some y"
      and E: "E' = E" and w: "wk_sm w = None \<and> wk_card w \<noteq> None"
    obtain c c' where c: "wk_card w = Some c"
      "ce_transmit E (buildReadBinary (length content) 0xff) c = (CR_OK, Some (be16 (statusValue SC_SUCCESS)), c')"
      using assms(1) w by blast
    have rc: "getReturnCode (be16 (statusValue SC_SUCCESS)) = SC_SUCCESS"
      using getReturnCode_append_status [of "[]" SC_SUCCESS] by simp
    have "transmit E (buildReadBinary (length content) 0xff) w
        = (CR_OK, Some (be16 (statusValue SC_SUCCESS)), w\<lparr>wk_card := Some c'\<rparr>)"
      using w c by (simp add: transmit_def)
    with step E have "loop E content (w\<lparr>wk_card := Some c'\<rparr>) = Some y"
      by (simp add: bufferOf_def rc responseData_def getDataLength_def Let_def del: statusValue.simps)
    from ih [OF this] w show False by simp
  qed
  then show False using assms(2,3) by blast
qed


definition mute_env :: "nat card_env" where
  "mute_env = \<lparr>ce_crypto = sample_crypto, ce_asn1 = der_lib,
     ce_transmit = (\<lambda>cmd n. (CR_OK, Some (be16 (statusValue SC_SUCCESS)), Suc n)),
     ce_destroyPaceChannel = Card_destroyPaceChannel, ce_setEidPin = Card_setEidPin\<rparr>"

theorem readFile_may_never_return_witness: "readFileLoop mute_env [] plain_worker = None"
  by (rule readFile_may_never_return) (simp_all add: mute_env_def plain_worker_def)

section \<open>Card recognition\<close>

lemma transmit_keeps_info:
  "transmit E cmd w = (rc, r, w') \<Longrightarrow> wk_cardInfo w' = wk_cardInfo w \<and> wk_signals w' = wk_signals w"
  by (auto simp: transmit_def Let_def split: option.splits prod.splits if_splits)

lemma getRetryCounter_keeps_info:
  "getRetryCounter E w = (rc, r, w') \<Longrightarrow> wk_cardInfo w' = wk_cardInfo w \<and> wk_signals w' = wk_signals w"
  by (auto simp: getRetryCounter_def Let_def dest!: transmit_keeps_info split: option.splits prod.splits if_splits)

lemma updateRetryCounter_info:
  assumes "updateRetryCounter E w = (rc, w')"
  shows "ci_cardType (wk_cardInfo w') = ci_cardType (wk_cardInfo w) \<and>
    ci_efCardAccess (wk_cardInfo w') = ci_efCardAccess (wk_cardInfo w)"
  using assms
  by (auto simp: updateRetryCounter_def Reader_updateRetryCounter_def Let_def dest!: getRetryCounter_keeps_info
      split: prod.splits if_splits)

text \<open>What the rest of the program relies on for a card it shows as an identity card.\<close>

definition card_info_ok :: "'x card_info \<Rightarrow> bool" where
  "card_info_ok i \<longleftrightarrow> (isEid i \<longrightarrow>
     (\<exists>ef. ci_efCardAccess i = Some ef \<and> sis_paceInfos ef \<noteq> [] \<and> checkEfCardAccess ef))"

lemma transmitInto_keeps_info:
  "transmitInto E cmd r w = (rc, r', w') \<Longrightarrow> wk_cardInfo w' = wk_cardInfo w"
  by (auto simp: transmitInto_def dest!: transmit_keeps_info split: prod.splits)

lemma isGermanEidCard_keeps_info:
  "isGermanEidCard E w = (b, w') \<Longrightarrow> wk_cardInfo w' = wk_cardInfo w"
  by (auto simp: isGermanEidCard_def Let_def dest!: transmitInto_keeps_info split: prod.splits if_splits)

text \<open>
  Recognising a card always leaves a card information that is safe to use: the card counts
  as an identity card exactly when recognition succeeded, and then it has an EF.CardAccess with
  at least one PACE info, one of them with standardised domain parameters; so asking for the
  retry counter, which takes the first PACE info, never reads past the end.
\<close>

theorem recognised_card_is_usable:
  assumes "CardInfoFactory_create E decode w = Some (ok, w')"
  shows "card_info_ok (wk_cardInfo w') \<and> (isEid (wk_cardInfo w') \<longleftrightarrow> ok) \<and> isAvailable (wk_cardInfo w')"
proof -
  have eid: "card_info_ok i \<and> isEid i \<and> isAvailable i"
    if "ci_cardType i = CT_EID_CARD" "ci_efCardAccess i = Some ef" "checkEfCardAccess ef" for i :: "'b card_info" and ef
    using that by (auto simp: card_info_ok_def isEid_def isAvailable_def checkEfCardAccess_def list_ex_iff)
  have unk: "card_info_ok (CardInfo CT_UNKNOWN None) \<and> \<not> isEid (CardInfo CT_UNKNOWN None) \<and>
      isAvailable (CardInfo CT_UNKNOWN None)"
    by (simp add: card_info_ok_def isEid_def isAvailable_def CardInfo_def)
  obtain g w1 where g: "isGermanEidCard E w = (g, w1)" by (cases "isGermanEidCard E w")
  show ?thesis
  proof (cases g)
    case False
    then show ?thesis using assms unk by (auto simp: CardInfoFactory_create_def g)
  next
    case True
    then obtain e w2 where e: "readEfCardAccess E decode w1 = Some (e, w2)"
      using assms by (cases "readEfCardAccess E decode w1") (auto simp: CardInfoFactory_create_def g)
    show ?thesis
    proof (cases "e = None \<or> \<not> checkEfCardAccess (the e)")
      case True
      then show ?thesis using assms unk \<open>g\<close>
        by (auto simp: CardInfoFactory_create_def g e split: option.splits if_splits)
    next
      case False
      then obtain ef where ef: "e = Some ef" "checkEfCardAccess ef" by auto
      obtain rc w3 where u: "updateRetryCounter E (w2\<lparr>wk_cardInfo := CardInfo CT_EID_CARD (Some ef)\<rparr>) = (rc, w3)"
        by (cases "updateRetryCounter E (w2\<lparr>wk_cardInfo := CardInfo CT_EID_CARD (Some ef)\<rparr>)")
      have "ok \<and> w' = w3" using assms \<open>g\<close> ef by (simp add: CardInfoFactory_create_def g e u)
      moreover have "ci_cardType (wk_cardInfo w3) = CT_EID_CARD \<and> ci_efCardAccess (wk_cardInfo w3) = Some ef"
        using updateRetryCounter_info [OF u] by (simp add: CardInfo_def)
      ultimately show ?thesis using eid [of "wk_cardInfo w3" ef] ef by simp
    qed
  qed
qed

text \<open>A recognisable card: EF.DIR as expected, and an EF.CardAccess that decodes to one PACE info.\<close>

definition eid_env :: "nat card_env" where
  "eid_env = \<lparr>ce_crypto = sample_crypto, ce_asn1 = der_lib,
     ce_transmit = (\<lambda>cmd n.
       if getINS cmd = 0xA4 then (CR_OK, Some (be16 0x9000), n)
       else if getINS cmd = 0x22 then (CR_OK, Some (be16 0x63c2), n)
       else if cmd = [0x00, 0xB0, 0x00, 0x00, 0x5A] then (CR_OK, Some (matchingValue @ be16 0x9000), n)
       else (CR_OK, Some (be16 0x6282), n)),
     ce_destroyPaceChannel = Card_destroyPaceChannel, ce_setEidPin = Card_setEidPin\<rparr>"

definition eid_decode :: "bytes \<Rightarrow> unit security_infos option" where
  "eid_decode b = Some \<lparr>sis_contentBytes = b, sis_securityInfos = [SI_Pace sample_pace_info],
     sis_paceInfos = [sample_pace_info], sis_chipAuthenticationInfos = []\<rparr>"


lemma select_ins: "length (ref_path r) \<le> 0xffff \<Longrightarrow> getINS (buildSelect r) = 0xA4"
  by (simp add: buildSelect_def)

lemma eid_env_german: "isGermanEidCard eid_env plain_worker = (True, plain_worker)"
proof -
  have s: "getReturnCode (be16 0x9000) = SC_SUCCESS" "getReturnCode (matchingValue @ be16 0x9000) = SC_SUCCESS"
    using getReturnCode_append_status [of "[]" SC_SUCCESS] getReturnCode_append_status [of matchingValue SC_SUCCESS]
    by simp_all
  have d: "responseData (matchingValue @ be16 0x9000) = matchingValue"
    by (simp add: responseData_def getDataLength_def)
  have i: "getINS (buildSelect masterFile) = 0xA4" "getINS (buildSelect efDir) = 0xA4"
    "getINS [0x00, 0xB0, 0x00, 0x00, 0x5A] = 0xB0"
    by (simp_all add: select_ins masterFile_def efDir_def) (simp add: getINS_def)
  show ?thesis
    by (simp add: isGermanEidCard_def transmitInto_def transmit_def plain_worker_def eid_env_def i s d)
qed

lemma eid_env_access:
  "readEfCardAccess eid_env eid_decode plain_worker = Some (eid_decode [], plain_worker)"
proof -
  have s: "getReturnCode (be16 0x9000) = SC_SUCCESS" "getReturnCode (be16 0x6282) = SC_END_OF_FILE"
    "responseData (be16 0x6282) = []"
    using getReturnCode_append_status [of "[]" SC_SUCCESS] getReturnCode_append_status [of "[]" SC_END_OF_FILE]
    by (simp_all add: responseData_def getDataLength_def)
  have "readFileLoop eid_env [] plain_worker = Some (CR_OK, [], plain_worker)"
    by (subst readFileLoop.simps)
      (simp add: transmit_def plain_worker_def eid_env_def buildReadBinary_bytes getINS_def s bufferOf_def low_byte_def)
  moreover have "transmit eid_env (buildSelect efCardAccess) plain_worker = (CR_OK, Some (be16 0x9000), plain_worker)"
    by (simp add: transmit_def plain_worker_def eid_env_def select_ins efCardAccess_def)
  ultimately show ?thesis
    by (simp add: readEfCardAccess_def readFile_def bufferOf_def s hasCard_def eid_decode_def) (simp add: plain_worker_def)
qed

theorem recognised_card_is_usable_witness:
  "\<exists>w'. CardInfoFactory_create eid_env eid_decode plain_worker = Some (True, w') \<and> isEid (wk_cardInfo w')"
proof -
  have "checkEfCardAccess (the (eid_decode []))"
  proof -
    have "getParameterIdAsInt sample_pace_info = 13"
      by (simp add: getParameterIdAsInt_def getParameterId_def getOctetValue_def sample_pace_info_def)
    then have "isStandardizedDomainParameters sample_pace_info"
      using sample_pace_info_type
      by (cases "getMappingType sample_pace_info") (simp_all add: isStandardizedDomainParameters_def Let_def)
    then show ?thesis by (simp add: checkEfCardAccess_def eid_decode_def)
  qed
  then obtain w' where "CardInfoFactory_create eid_env eid_decode plain_worker = Some (True, w')"
    by (cases "updateRetryCounter eid_env (plain_worker\<lparr>wk_cardInfo := CardInfo CT_EID_CARD (eid_decode [])\<rparr>)")
      (auto simp: CardInfoFactory_create_def eid_env_german eid_env_access eid_decode_def)
  with recognised_card_is_usable [OF this] show ?thesis by blast
qed

section \<open>Sequences of APDUs\<close>

text \<open>The card receives a sequence of commands, each transmitted with success, and answers with \<open>rs\<close>.\<close>

fun sends :: "'c card_env \<Rightarrow> bytes list \<Rightarrow> ('c, 'x) worker \<Rightarrow> bytes option list \<Rightarrow> ('c, 'x) worker \<Rightarrow> bool" where
  "sends E [] w rs w' \<longleftrightarrow> rs = [] \<and> w' = w"
| "sends E (c # cs) w rs w' \<longleftrightarrow>
     (case transmit E c w of (rc, r, w1) \<Rightarrow> rc = CR_OK \<and> rs \<noteq> [] \<and> hd rs = r \<and> sends E cs w1 (tl rs) w')"

text \<open>
  A sequence of commands for the card is carried out in order up to the first failure. The
  commands before it were transmitted, one output is given for each of their responses, after
  the earlier outputs. Success means that all were transmitted and all responses acceptable. An
  unexpected status means that exactly the last response received was not acceptable; any other
  code, or a transmission that gives this code, is the code of the first transmission that failed.
\<close>

theorem transmit_sequence_outcome:
  assumes "TransmitCommand_execute E is out w = (rc, out', w')"
  shows "\<exists>n rs w1. n \<le> length is \<and> sends E (map ia_inputApdu (take n is)) w rs w1 \<and>
           out' = out @ map (\<lambda>r. toHex (bufferOf r)) rs \<and>
           (let ok = map2 (\<lambda>i r. isAcceptable i (bufferOf r)) (take n is) rs
            in if rc = CR_OK then n = length is \<and> w' = w1 \<and> list_all id ok
               else rc = CR_UNEXPECTED_TRANSMIT_STATUS \<and> w' = w1 \<and> ok \<noteq> [] \<and> list_all id (butlast ok) \<and> \<not> last ok \<or>
                    n < length is \<and> list_all id ok \<and> (\<exists>r. transmit E (ia_inputApdu (is ! n)) w1 = (rc, r, w')))"
  using assms
proof (induction E "is" out w rule: TransmitCommand_execute.induct)
  case (1 E out w)
  then show ?case by (intro exI [of _ 0] exI [of _ "[]"] exI [of _ w]) simp
next
  case (2 E i rest out w)
  obtain c r w1 where t: "transmit E (ia_inputApdu i) w = (c, r, w1)" by (cases "transmit E (ia_inputApdu i) w")
  consider (failed) "c \<noteq> CR_OK" | (refused) "c = CR_OK" "\<not> isAcceptable i (bufferOf r)"
    | (next_one) "c = CR_OK" "isAcceptable i (bufferOf r)" by blast
  then show ?case
  proof cases
    case failed
    with 2(2) t show ?thesis by (intro exI [of _ 0] exI [of _ "[]"] exI [of _ w]) auto
  next
    case refused
    with 2(2) t show ?thesis
      by (intro exI [of _ 1] exI [of _ "[r]"] exI [of _ w1]) (auto simp: Let_def)
  next
    case next_one
    with 2(2) t have "TransmitCommand_execute E rest (out @ [toHex (bufferOf r)]) w1 = (rc, out', w')"
      by (simp add: Let_def)
    from 2(1) [OF t [symmetric] refl] next_one this obtain n rs w2 where
      "n \<le> length rest" "sends E (map ia_inputApdu (take n rest)) w1 rs w2"
      "out' = (out @ [toHex (bufferOf r)]) @ map (\<lambda>r. toHex (bufferOf r)) rs"
      "let ok = map2 (\<lambda>i r. isAcceptable i (bufferOf r)) (take n rest) rs
       in if rc = CR_OK then n = length rest \<and> w' = w2 \<and> list_all id ok
          else rc = CR_UNEXPECTED_TRANSMIT_STATUS \<and> w' = w2 \<and> ok \<noteq> [] \<and> list_all id (butlast ok) \<and> \<not> last ok \<or>
               n < length rest \<and> list_all id ok \<and> (\<exists>r. transmit E (ia_inputApdu (rest ! n)) w2 = (rc, r, w'))"
      by blast
    with next_one t show ?thesis
      by (intro exI [of _ "Suc n"] exI [of _ "r # rs"] exI [of _ w2])
        (auto simp: Let_def split: if_splits)
  qed
qed

definition sample_input :: input_apdu where
  "sample_input = \<lparr>ia_inputApdu = [0], ia_acceptableStatusCodes = [''6a82'']\<rparr>"

theorem transmit_sequence_outcome_witness:
  "\<exists>n rs w1. n \<le> length [sample_input] \<and> sends mute_env (map ia_inputApdu (take n [sample_input])) plain_worker rs w1 \<and>
     [toHex (be16 0x9000)] = map (\<lambda>r. toHex (bufferOf r)) rs"
proof -
  have "hexDigit 9 = CHR ''9''" "hexDigit 0 = CHR ''0''" by code_simp+
  then have "toHex (be16 0x9000) = ''9000''" "toHex (right 2 (be16 0x9000)) = ''9000''"
    by (simp_all add: be16_def high_byte_def low_byte_def toHex_def right_def)
  then have "TransmitCommand_execute mute_env [sample_input] [] plain_worker
      = (CR_UNEXPECTED_TRANSMIT_STATUS, [toHex (be16 0x9000)], plain_worker\<lparr>wk_card := Some 1\<rparr>)"
    by (simp add: transmit_def mute_env_def plain_worker_def bufferOf_def isAcceptable_def sample_input_def startsWith_def)
  from transmit_sequence_outcome [OF this] obtain n rs w1 where
    "n \<le> length [sample_input]" "sends mute_env (map ia_inputApdu (take n [sample_input])) plain_worker rs w1"
    "[toHex (be16 0x9000)] = [] @ map (\<lambda>r. toHex (bufferOf r)) rs"
    by (elim exE conjE)
  then show ?thesis by (metis append_Nil)
qed

lemma hexDigit_lower_case: "\<forall>n\<in>set [0..<16]. hexDigit n \<notin> set ''ABCDEF''"
  by code_simp

text \<open>
  The acceptable status codes of a command are compared with the lower-case digits of the
  response: a code in upper-case hexadecimal letters, which is the canonical form of
  \<open>xs:hexBinary\<close>, is never matched, whatever the card answers.
\<close>

theorem upper_case_status_never_acceptable:
  assumes "\<forall>code\<in>set (ia_acceptableStatusCodes i). \<exists>c\<in>set code. c \<in> set ''ABCDEF''"
    and "ia_acceptableStatusCodes i \<noteq> []"
  shows "\<not> isAcceptable i response"
proof
  assume "isAcceptable i response"
  then obtain code where code: "code \<in> set (ia_acceptableStatusCodes i)"
      "take (length code) (toHex (right 2 response)) = code"
    using assms(2) by (auto simp: isAcceptable_def list_ex_iff startsWith_def)
  have "c \<in> hexDigit ` {..<16}" if "c \<in> set (toHex bs)" for c bs
  proof -
    obtain b :: byte where "c = hexDigit (unat b div 16) \<or> c = hexDigit (unat b mod 16)"
      using \<open>c \<in> set (toHex bs)\<close> by (auto simp: toHex_def)
    moreover have "unat b div 16 < 16" using unat_byte_less [of b] by linarith
    moreover have "unat b mod 16 < 16" by simp
    ultimately show ?thesis by blast
  qed
  then have "set code \<subseteq> hexDigit ` {..<16}"
    using code(2) set_take_subset [of "length code" "toHex (right 2 response)"] by auto
  moreover have "hexDigit n \<notin> set ''ABCDEF''" if "n < 16" for n
    using hexDigit_lower_case that by auto
  ultimately show False using assms(1) code(1) by fastforce
qed


theorem upper_case_status_never_acceptable_witness:
  "\<not> isAcceptable \<lparr>ia_inputApdu = [0], ia_acceptableStatusCodes = [''6A82'']\<rparr> [0x6a, 0x82]"
  by (rule upper_case_status_never_acceptable) simp_all

end
