(* ===== verification/Pace.thy ===== *)
theory Pace
  imports CardConnection PinPad
begin

text \<open>
  Establishing a PACE channel through a basic reader: src/src/card/base/pace/PaceHandler.cpp,
  KeyAgreement.cpp, ec/EcdhKeyAgreement.cpp and ec/EcdhGenericMapping.cpp, the responses of
  GeneralAuthenticateResponse.cpp, and \<open>CardConnectionWorker::establishPaceChannel\<close> with the
  command UnblockPinCommand.cpp on top. OpenSSL's elliptic curves are a parameter: a record
  \<open>ec_lib\<close> of functions over groups, points and private keys; a private key is drawn with
  a seed. Key generation in the mapping step is taken to succeed.
\<close>

section \<open>Parameters\<close>

record ('g, 'p, 'k) ec_lib =
  ec_curve :: "curve \<Rightarrow> 'g"
  ec_generateKey :: "'g \<Rightarrow> nat \<Rightarrow> 'k \<times> 'p"
  ec_point2oct :: "'g \<Rightarrow> 'p \<Rightarrow> bytes"
  ec_oct2point :: "'g \<Rightarrow> bytes \<Rightarrow> 'p option"
  ec_equal :: "'g \<Rightarrow> 'p \<Rightarrow> 'p \<Rightarrow> bool"
  ec_mul :: "'g \<Rightarrow> 'k \<Rightarrow> 'p \<Rightarrow> 'p option"
  ec_addGenerator :: "'g \<Rightarrow> bytes \<Rightarrow> 'p \<Rightarrow> 'p option"
  ec_setGenerator :: "'g \<Rightarrow> 'p \<Rightarrow> 'g option"

text \<open>The decoders of the four structures in the general authenticate responses.\<close>

record ga_asn1 =
  d2i_nonce :: "bytes \<Rightarrow> bytes option"
  d2i_mapping :: "bytes \<Rightarrow> bytes option"
  d2i_ephemeral :: "bytes \<Rightarrow> bytes option"
  d2i_mutual :: "bytes \<Rightarrow> (bytes \<times> bytes option \<times> bytes option) option"
  d2i_chip :: "bytes \<Rightarrow> (bytes \<times> bytes) option"

section \<open>General authenticate responses\<close>

text \<open>A field is parsed only from a response with the status success.\<close>

definition parseGA :: "(bytes \<Rightarrow> 'a option) \<Rightarrow> 'a \<Rightarrow> bytes \<Rightarrow> 'a" where
  "parseGA d2i dflt pBuffer =
    (if getReturnCode pBuffer \<noteq> SC_SUCCESS then dflt
     else (case d2i (responseData pBuffer) of None \<Rightarrow> dflt | Some v \<Rightarrow> v))"

definition mutualAuthenticationData :: "ga_asn1 \<Rightarrow> bytes \<Rightarrow> bytes \<times> bytes \<times> bytes" where
  "mutualAuthenticationData G pBuffer =
    (case parseGA (d2i_mutual G) ([], None, None) pBuffer of
       (token, curr', prev) \<Rightarrow> (token, getOctetValue curr', getOctetValue prev))"

section \<open>Key agreement\<close>

datatype KeyAgreementStatus =
  KAS_SUCCESS | KAS_RETRY_ALLOWED | KAS_COMMUNICATION_ERROR | KAS_FAILED | KAS_PROTOCOL_ERROR

text \<open>A \<open>CardOperationResult\<close> is a return code with a payload.\<close>

definition makeTransmitResult :: "CardReturnCode \<Rightarrow> StatusCode \<Rightarrow> bytes \<Rightarrow> CardReturnCode \<times> bytes" where
  "makeTransmitResult pReturnCode pResponseReturnCode pResultData =
    (if pReturnCode = CR_OK \<and> pResponseReturnCode = SC_SUCCESS then (pReturnCode, pResultData)
     else if pResponseReturnCode = SC_EMPTY then (CR_RETRY_ALLOWED, [])
     else if pReturnCode = CR_OK then (CR_PROTOCOL_ERROR, [])
     else (CR_COMMAND_FAILED, []))"

definition transmitGA ::
  "'c card_env \<Rightarrow> (bytes \<Rightarrow> bytes option) \<Rightarrow> bytes \<Rightarrow> ('c, 'x) worker
     \<Rightarrow> (CardReturnCode \<times> bytes) \<times> ('c, 'x) worker" where
  "transmitGA E d2i cmd w =
    (let (returnCode, resp, w') = transmit E cmd w
     in (makeTransmitResult returnCode (getReturnCode (bufferOf resp)) (parseGA d2i [] (bufferOf resp)), w'))"

definition transmitGAEncryptedNonce ::
  "'c card_env \<Rightarrow> ga_asn1 \<Rightarrow> ('c, 'x) worker \<Rightarrow> (CardReturnCode \<times> bytes) \<times> ('c, 'x) worker" where
  "transmitGAEncryptedNonce E G w = transmitGA E (d2i_nonce G) (buildGA (ce_asn1 E) (GABuilder 0x10)) w"

definition transmitGAMappingData ::
  "'c card_env \<Rightarrow> ga_asn1 \<Rightarrow> bytes \<Rightarrow> ('c, 'x) worker \<Rightarrow> (CardReturnCode \<times> bytes) \<times> ('c, 'x) worker" where
  "transmitGAMappingData E G pMappingData w =
     transmitGA E (d2i_mapping G) (buildGA (ce_asn1 E) (ga_setPaceMappingData (ce_asn1 E) pMappingData (GABuilder 0x10))) w"

definition transmitGAEphemeralPublicKey ::
  "'c card_env \<Rightarrow> ga_asn1 \<Rightarrow> bytes \<Rightarrow> ('c, 'x) worker \<Rightarrow> (CardReturnCode \<times> bytes) \<times> ('c, 'x) worker" where
  "transmitGAEphemeralPublicKey E G pEphemeralPublicKey w =
     transmitGA E (d2i_ephemeral G)
       (buildGA (ce_asn1 E) (ga_setPaceEphemeralPublicKey (ce_asn1 E) pEphemeralPublicKey (GABuilder 0x10))) w"

definition transmitGAMutualAuthentication ::
  "'c card_env \<Rightarrow> bytes \<Rightarrow> ('c, 'x) worker \<Rightarrow> bytes \<times> ('c, 'x) worker" where
  "transmitGAMutualAuthentication E pMutualAuthenticationData w =
    (let (returnCode, resp, w') =
       transmit E (buildGA (ce_asn1 E) (ga_setPaceAuthenticationToken (ce_asn1 E) pMutualAuthenticationData (GABuilder 0x00))) w
     in (bufferOf resp, w'))"

definition determineNonce ::
  "'c card_env \<Rightarrow> ga_asn1 \<Rightarrow> string \<Rightarrow> bytes \<Rightarrow> ('c, 'x) worker \<Rightarrow> (CardReturnCode \<times> bytes) \<times> ('c, 'x) worker" where
  "determineNonce E G protocol pPin w =
    (let ((rc, encryptedNonce), w') = transmitGAEncryptedNonce E G w
     in if rc \<noteq> CR_OK then ((rc, encryptedNonce), w')
     else
       let symmetricKey = kdf_pi (ce_crypto E) protocol pPin
       in ((CR_OK, cipher_decrypt (ce_crypto E) protocol symmetricKey (replicate 16 0) encryptedNonce), w'))"

subsection \<open>Generic mapping\<close>

text \<open>
  \<open>EcdhGenericMapping\<close>: the new generator is the sum of the nonce times the old one and the
  common point. When it cannot be computed or set, the curve keeps its generator.
\<close>

definition createNewGenerator :: "('g, 'p, 'k) ec_lib \<Rightarrow> 'g \<Rightarrow> 'k \<Rightarrow> 'p \<Rightarrow> bytes \<Rightarrow> 'p option" where
  "createNewGenerator V curve0 terminalKey pCardPubKey pS =
    (case ec_mul V curve0 terminalKey pCardPubKey of
       None \<Rightarrow> None
     | Some h \<Rightarrow> ec_addGenerator V curve0 pS h)"

definition setGenerator :: "('g, 'p, 'k) ec_lib \<Rightarrow> 'p option \<Rightarrow> 'g \<Rightarrow> 'g" where
  "setGenerator V pNewGenerator curve0 =
    (case pNewGenerator of
       None \<Rightarrow> curve0
     | Some p \<Rightarrow> (case ec_setGenerator V curve0 p of None \<Rightarrow> curve0 | Some g \<Rightarrow> g))"

definition generateEphemeralDomainParameters ::
  "('g, 'p, 'k) ec_lib \<Rightarrow> 'g \<Rightarrow> 'k \<times> 'p \<Rightarrow> bytes \<Rightarrow> bytes \<Rightarrow> 'g option" where
  "generateEphemeralDomainParameters V curve0 terminalKey pCardMappingData pNonce =
    (case ec_oct2point V curve0 pCardMappingData of
       None \<Rightarrow> None
     | Some cardPubKey \<Rightarrow>
         if ec_equal V curve0 (snd terminalKey) cardPubKey then None
         else Some (setGenerator V (createNewGenerator V curve0 (fst terminalKey) cardPubKey pNonce) curve0))"

subsection \<open>ECDH\<close>

definition determineEphemeralDomainParameters ::
  "'c card_env \<Rightarrow> ga_asn1 \<Rightarrow> ('g, 'p, 'k) ec_lib \<Rightarrow> 'g \<Rightarrow> nat \<Rightarrow> bytes \<Rightarrow> ('c, 'x) worker
     \<Rightarrow> (CardReturnCode \<times> 'g option) \<times> ('c, 'x) worker" where
  "determineEphemeralDomainParameters E G V curve0 seed pNonce w =
    (let terminalKey = ec_generateKey V curve0 seed;
         terminalMappingData = ec_point2oct V curve0 (snd terminalKey);
         ((resultCode, cardMappingData), w') = transmitGAMappingData E G terminalMappingData w
     in if resultCode \<noteq> CR_OK then ((resultCode, None), w')
        else ((CR_OK, generateEphemeralDomainParameters V curve0 terminalKey cardMappingData pNonce), w'))"

text \<open>The result holds terminal key, card key and common point; a null curve cannot be set.\<close>

definition performKeyExchange ::
  "'c card_env \<Rightarrow> ga_asn1 \<Rightarrow> ('g, 'p, 'k) ec_lib \<Rightarrow> 'g option \<Rightarrow> nat \<Rightarrow> ('c, 'x) worker
     \<Rightarrow> (CardReturnCode \<times> ('p \<times> 'p \<times> 'p) option) \<times> ('c, 'x) worker" where
  "performKeyExchange E G V pCurve seed w =
    (case pCurve of
       None \<Rightarrow> ((CR_PROTOCOL_ERROR, None), w)
     | Some g \<Rightarrow>
        let (terminalPrivateKey, terminalPublicKey) = ec_generateKey V g seed;
            ((resultCode, cardBytes), w') = transmitGAEphemeralPublicKey E G (ec_point2oct V g terminalPublicKey) w
        in if resultCode \<noteq> CR_OK then ((resultCode, None), w')
        else
          (case ec_oct2point V g cardBytes of
             None \<Rightarrow> ((CR_PROTOCOL_ERROR, None), w')
           | Some cardPublicKey \<Rightarrow>
              if ec_equal V g terminalPublicKey cardPublicKey then ((CR_PROTOCOL_ERROR, None), w')
              else
                (case ec_mul V g terminalPrivateKey cardPublicKey of
                   None \<Rightarrow> ((CR_PROTOCOL_ERROR, None), w')
                 | Some mutualPoint \<Rightarrow>
                     ((CR_OK, Some (terminalPublicKey, cardPublicKey, mutualPoint)), w'))))"

text \<open>The x coordinate of an uncompressed point.\<close>

definition xCoordinate :: "bytes \<Rightarrow> bytes" where
  "xCoordinate b = mid 1 ((length b - 1) div 2) b"

definition encodeUncompressedPublicKey :: "asn1_lib \<Rightarrow> ('g, 'p, 'k) ec_lib \<Rightarrow> pace_info \<Rightarrow> 'g \<Rightarrow> 'p \<Rightarrow> bytes" where
  "encodeUncompressedPublicKey A V i g p =
    (let publicKeyData = asn1Encode A 0x06 (pinf_protocolValueBytes i) @ asn1Encode A 0x86 (ec_point2oct V g p)
     in [0x7f] @ asn1Encode A 0x49 publicKeyData)"

definition encodeCompressedPublicKey :: "('g, 'p, 'k) ec_lib \<Rightarrow> 'g \<Rightarrow> 'p \<Rightarrow> bytes" where
  "encodeCompressedPublicKey V g p = xCoordinate (ec_point2oct V g p)"

text \<open>What a successful agreement leaves in the object.\<close>

record ('g, 'p) agreement =
  ag_curve :: 'g
  ag_terminalPublicKey :: 'p
  ag_cardPublicKey :: 'p
  ag_sharedSecret :: bytes

definition determineSharedSecret ::
  "'c card_env \<Rightarrow> ga_asn1 \<Rightarrow> ('g, 'p, 'k) ec_lib \<Rightarrow> 'g \<Rightarrow> nat \<times> nat \<Rightarrow> bytes \<Rightarrow> ('c, 'x) worker
     \<Rightarrow> (CardReturnCode \<times> ('g, 'p) agreement option) \<times> ('c, 'x) worker" where
  "determineSharedSecret E G V curve0 seeds pNonce w =
    (let ((ephemeralCurveResultCode, ephemeralCurve), w) =
       determineEphemeralDomainParameters E G V curve0 (fst seeds) pNonce w
     in if ephemeralCurveResultCode \<noteq> CR_OK then ((ephemeralCurveResultCode, None), w)
     else
       let ((mutualPointResultCode, r), w) = performKeyExchange E G V ephemeralCurve (snd seeds) w
       in if mutualPointResultCode \<noteq> CR_OK then ((mutualPointResultCode, None), w)
       else
         (case (ephemeralCurve, r) of
            (Some g, Some (t, c, m)) \<Rightarrow>
              ((CR_OK, Some \<lparr>ag_curve = g, ag_terminalPublicKey = t, ag_cardPublicKey = c,
                            ag_sharedSecret = xCoordinate (ec_point2oct V g m)\<rparr>), w)
          | _ \<Rightarrow> ((CR_PROTOCOL_ERROR, None), w)))"

record pace_keys =
  pk_encryptionKey :: bytes
  pk_macKey :: bytes
  pk_carCurr :: bytes
  pk_carPrev :: bytes
  pk_idIcc :: bytes

definition performMutualAuthenticate ::
  "'c card_env \<Rightarrow> ga_asn1 \<Rightarrow> ('g, 'p, 'k) ec_lib \<Rightarrow> pace_info \<Rightarrow> ('g, 'p) agreement \<Rightarrow> bytes \<Rightarrow> ('c, 'x) worker
     \<Rightarrow> (KeyAgreementStatus \<times> bytes \<times> bytes) \<times> ('c, 'x) worker" where
  "performMutualAuthenticate E G V i a mMacKey w =
    (let cmac = mac_generate (ce_crypto E) (pinf_protocol i) mMacKey;
         uncompressedCardPublicKey = encodeUncompressedPublicKey (ce_asn1 E) V i (ag_curve a) (ag_cardPublicKey a);
         (response, w) = transmitGAMutualAuthentication E (cmac uncompressedCardPublicKey) w;
         rc = getReturnCode response
     in if rc = SC_EMPTY then ((KAS_RETRY_ALLOWED, [], []), w)
     else if rc = SC_VERIFICATION_FAILED \<or> rc = SC_PIN_BLOCKED \<or> rc = SC_PIN_SUSPENDED \<or> rc = SC_PIN_RETRY_COUNT_2
       then ((KAS_FAILED, [], []), w)
     else if rc \<noteq> SC_SUCCESS then ((KAS_PROTOCOL_ERROR, [], []), w)
     else
       let uncompressedTerminalPublicKey =
             encodeUncompressedPublicKey (ce_asn1 E) V i (ag_curve a) (ag_terminalPublicKey a);
           (authenticationToken, carCurr, carPrev) = mutualAuthenticationData G response
       in if cmac uncompressedTerminalPublicKey \<noteq> authenticationToken then ((KAS_PROTOCOL_ERROR, [], []), w)
          else ((KAS_SUCCESS, carCurr, carPrev), w))"

text \<open>
  \<open>KeyAgreement::perform\<close>. Return codes that its two switches do not name go on, as in the
  code; the payload is then the empty one, for which there is no agreement.
\<close>

fun statusOfResult :: "CardReturnCode \<Rightarrow> KeyAgreementStatus option" where
  "statusOfResult CR_PROTOCOL_ERROR = Some KAS_PROTOCOL_ERROR"
| "statusOfResult CR_COMMAND_FAILED = Some KAS_COMMUNICATION_ERROR"
| "statusOfResult CR_RETRY_ALLOWED = Some KAS_RETRY_ALLOWED"
| "statusOfResult _ = None"

definition KeyAgreement_perform ::
  "'c card_env \<Rightarrow> ga_asn1 \<Rightarrow> ('g, 'p, 'k) ec_lib \<Rightarrow> pace_info \<Rightarrow> 'g \<Rightarrow> nat \<times> nat \<Rightarrow> bytes \<Rightarrow> ('c, 'x) worker
     \<Rightarrow> (KeyAgreementStatus \<times> pace_keys option) \<times> ('c, 'x) worker" where
  "KeyAgreement_perform E G V i curve0 seeds pPin w =
    (let ((nonceResult, nonce), w) = determineNonce E G (pinf_protocol i) pPin w
     in case statusOfResult nonceResult of
       Some s \<Rightarrow> ((s, None), w)
     | None \<Rightarrow>
      (let ((sharedSecretResult, agreed), w) = determineSharedSecret E G V curve0 seeds nonce w
       in case statusOfResult sharedSecretResult of
         Some s \<Rightarrow> ((s, None), w)
       | None \<Rightarrow>
          (case agreed of
             None \<Rightarrow> ((KAS_PROTOCOL_ERROR, None), w)
           | Some a \<Rightarrow>
              let encKey = kdf_enc (ce_crypto E) (pinf_protocol i) (ag_sharedSecret a);
                  macKey = kdf_mac (ce_crypto E) (pinf_protocol i) (ag_sharedSecret a);
                  ((s, carCurr, carPrev), w) = performMutualAuthenticate E G V i a macKey w
              in if s = KAS_SUCCESS
                 then ((s, Some \<lparr>pk_encryptionKey = encKey, pk_macKey = macKey, pk_carCurr = carCurr,
                       pk_carPrev = carPrev,
                       pk_idIcc = encodeCompressedPublicKey V (ag_curve a) (ag_cardPublicKey a)\<rparr>), w)
                 else ((s, None), w))))"

text \<open>\<open>KeyAgreement::create\<close> and \<open>EcdhKeyAgreement::create\<close>: the curve to start with.\<close>

definition KeyAgreement_create :: "('g, 'p, 'k) ec_lib \<Rightarrow> pace_info \<Rightarrow> 'g option" where
  "KeyAgreement_create V i =
    (if getKeyAgreementType i = KA_ECDH then
       (case EllipticCurveFactory_create i of
          None \<Rightarrow> None
        | Some c \<Rightarrow> if getMappingType i \<noteq> MT_GM then None else Some (ec_curve V c))
     else None)"

section \<open>The PACE handler\<close>

definition isSupportedProtocol :: "pace_info \<Rightarrow> bool" where
  "isSupportedProtocol i \<longleftrightarrow>
     getVersion i = 2 \<and>
     (pinf_protocol i = oid_PACE_ECDH ECDH_GM_AES_CBC_CMAC_128 \<or>
      pinf_protocol i = oid_PACE_ECDH ECDH_GM_AES_CBC_CMAC_192 \<or>
      pinf_protocol i = oid_PACE_ECDH ECDH_GM_AES_CBC_CMAC_256) \<and>
     isStandardizedDomainParameters i"

definition PaceHandler_initialize ::
  "('g, 'p, 'k) ec_lib \<Rightarrow> 'x security_infos option \<Rightarrow> (pace_info \<times> 'g) option" where
  "PaceHandler_initialize V pEfCardAccess =
    (case pEfCardAccess of
       None \<Rightarrow> None
     | Some ef \<Rightarrow>
        (case find isSupportedProtocol (sis_paceInfos ef) of
           None \<Rightarrow> None
         | Some paceInfo \<Rightarrow> map_option (Pair paceInfo) (KeyAgreement_create V paceInfo)))"

text \<open>A null CHAT is \<open>None\<close>. The second result is the status to remember.\<close>

definition transmitMSESetAT ::
  "'c card_env \<Rightarrow> pace_info \<Rightarrow> PacePasswordId \<Rightarrow> bytes option \<Rightarrow> ('c, 'x) worker
     \<Rightarrow> (CardReturnCode \<times> bytes) \<times> ('c, 'x) worker" where
  "transmitMSESetAT E i pPasswordId mChat w =
    (let (cardReturnCode, w) = sendingMseSetAt E w
     in if cardReturnCode \<noteq> CR_OK then ((cardReturnCode, []), w)
     else
       let A = ce_asn1 E;
           b = mse_setPrivateKey A (getParameterId i)
                 (mse_setPasswordId A pPasswordId
                   (mse_setOid A (pinf_protocolValueBytes i) (MSEBuilder PERFORM_SECURITY_OPERATION SET_AT)));
           b = (case mChat of None \<Rightarrow> b | Some c \<Rightarrow> mse_setChat c b);
           (cardReturnCode, resp, w) = transmit E (buildMSE b) w;
           mStatusMseSetAt = take 2 (bufferOf resp);
           rc = getReturnCode (bufferOf resp)
       in if cardReturnCode \<noteq> CR_OK
          then ((if rc = SC_EMPTY then CR_RETRY_ALLOWED else CR_PROTOCOL_ERROR, mStatusMseSetAt), w)
          else if rc \<noteq> SC_SUCCESS \<and> rc \<noteq> SC_PIN_RETRY_COUNT_2 \<and> rc \<noteq> SC_PIN_SUSPENDED
          then ((CR_PROTOCOL_ERROR, mStatusMseSetAt), w)
          else ((CR_OK, mStatusMseSetAt), w))"

fun wrongPasswordOf :: "PacePasswordId \<Rightarrow> CardReturnCode" where
  "wrongPasswordOf PACE_MRZ = CR_INVALID_CAN"
| "wrongPasswordOf PACE_CAN = CR_INVALID_CAN"
| "wrongPasswordOf PACE_PIN = CR_INVALID_PIN"
| "wrongPasswordOf PACE_PUK = CR_INVALID_PUK"
| "wrongPasswordOf PW_UNKNOWN = CR_UNKNOWN"

fun codeOfStatus :: "PacePasswordId \<Rightarrow> KeyAgreementStatus \<Rightarrow> CardReturnCode" where
  "codeOfStatus p KAS_RETRY_ALLOWED = CR_RETRY_ALLOWED"
| "codeOfStatus p KAS_PROTOCOL_ERROR = CR_PROTOCOL_ERROR"
| "codeOfStatus p KAS_COMMUNICATION_ERROR = CR_COMMAND_FAILED"
| "codeOfStatus p KAS_FAILED = wrongPasswordOf p"
| "codeOfStatus p KAS_SUCCESS = CR_OK"

record pace_result =
  pr_code :: CardReturnCode
  pr_protocol :: string
  pr_statusMseSetAt :: bytes
  pr_keys :: "pace_keys option"

text \<open>
  The switch over the result of MSE:Set AT names three codes; any other one goes on to the key
  agreement, as in the code.
\<close>

definition PaceHandler_establishPaceChannel ::
  "'c card_env \<Rightarrow> ga_asn1 \<Rightarrow> ('g, 'p, 'k) ec_lib \<Rightarrow> nat \<times> nat \<Rightarrow> bytes option \<Rightarrow> PacePasswordId \<Rightarrow> bytes
     \<Rightarrow> ('c, 'x) worker \<Rightarrow> pace_result \<times> ('c, 'x) worker" where
  "PaceHandler_establishPaceChannel E G V seeds mChat pPasswordId pPassword w =
    (case PaceHandler_initialize V (ci_efCardAccess (wk_cardInfo w)) of
       None \<Rightarrow> (\<lparr>pr_code = CR_PROTOCOL_ERROR, pr_protocol = [], pr_statusMseSetAt = [], pr_keys = None\<rparr>, w)
     | Some (i, curve0) \<Rightarrow>
        let ((rc, st), w) = transmitMSESetAT E i pPasswordId mChat w;
            r = \<lparr>pr_code = rc, pr_protocol = pinf_protocol i, pr_statusMseSetAt = st, pr_keys = None\<rparr>
        in if rc = CR_PROTOCOL_ERROR \<or> rc = CR_COMMAND_FAILED \<or> rc = CR_RETRY_ALLOWED then (r, w)
        else
          let ((keyAgreementStatus, keys), w) = KeyAgreement_perform E G V i curve0 seeds pPassword w
          in (r\<lparr>pr_code := codeOfStatus pPasswordId keyAgreementStatus, pr_keys := keys\<rparr>, w))"

section \<open>The worker and the commands\<close>

text \<open>A PIN pad reader does the protocol itself: its operation is a parameter.\<close>

definition establishPaceChannel ::
  "'c card_env \<Rightarrow> ga_asn1 \<Rightarrow> ('g, 'p, 'k) ec_lib
     \<Rightarrow> (PacePasswordId \<Rightarrow> bytes option \<Rightarrow> bytes option \<Rightarrow> pace_output \<Rightarrow> 'c \<Rightarrow> CardReturnCode \<times> pace_output \<times> 'c)
     \<Rightarrow> nat \<times> nat \<Rightarrow> PacePasswordId \<Rightarrow> bytes \<Rightarrow> bytes option \<Rightarrow> bytes option \<Rightarrow> pace_output
     \<Rightarrow> ('c, 'x) worker \<Rightarrow> CardReturnCode \<times> pace_output \<times> ('c, 'x) worker" where
  "establishPaceChannel E G V pinPad seeds pPasswordId pPasswordValue pChat pCertificateDescription out w =
    (case wk_card w of
       None \<Rightarrow> (CR_CARD_NOT_FOUND, out\<lparr>po_returnCode := CR_CARD_NOT_FOUND\<rparr>, w)
     | Some c \<Rightarrow>
        if wk_basicReader w then
          let (r, w) = PaceHandler_establishPaceChannel E G V seeds pChat pPasswordId pPasswordValue w;
              out = out\<lparr>po_returnCode := pr_code r, po_statusMseSetAt := pr_statusMseSetAt r\<rparr>
          in if pr_code r \<noteq> CR_OK then (pr_code r, out, w)
             else (case pr_keys r of
                None \<Rightarrow> (pr_code r, out, w)
              | Some k \<Rightarrow>
                  (pr_code r,
                   out\<lparr>po_carCurr := pk_carCurr k, po_carPrev := pk_carPrev k, po_idIcc := pk_idIcc k,
                       po_efCardAccess := (case ci_efCardAccess (wk_cardInfo w) of None \<Rightarrow> []
                                           | Some ef \<Rightarrow> sis_contentBytes ef),
                       po_returnCode := CR_OK\<rparr>,
                   w\<lparr>wk_sm := Some (newSecureMessaging (pr_protocol r) (pk_encryptionKey k) (pk_macKey k))\<rparr>))
        else
          let (returnCode, out, c') = pinPad pPasswordId pChat pCertificateDescription out c
          in (returnCode, out\<lparr>po_returnCode := returnCode\<rparr>, w\<lparr>wk_card := Some c'\<rparr>))"

definition UnblockPinCommand_execute ::
  "'c card_env \<Rightarrow> ga_asn1 \<Rightarrow> ('g, 'p, 'k) ec_lib
     \<Rightarrow> (PacePasswordId \<Rightarrow> bytes option \<Rightarrow> bytes option \<Rightarrow> pace_output \<Rightarrow> 'c \<Rightarrow> CardReturnCode \<times> pace_output \<times> 'c)
     \<Rightarrow> nat \<times> nat \<Rightarrow> bytes \<Rightarrow> ('c, 'x) worker \<Rightarrow> CardReturnCode \<times> ('c, 'x) worker" where
  "UnblockPinCommand_execute E G V pinPad seeds mPuk w =
    (if \<not> isEid (wk_cardInfo w) then (CR_CARD_NOT_FOUND, w)
     else if 0 < ci_retryCounter (wk_cardInfo w) \<or> ci_pinDeactivated (wk_cardInfo w) then (CR_PIN_NOT_BLOCKED, w)
     else
       let (mReturnCode, _, w) = establishPaceChannel E G V pinPad seeds PACE_PUK mPuk None None emptyPaceOutput w
       in if mReturnCode \<noteq> CR_OK then (mReturnCode, w)
       else
         let (mReturnCode, resp, w) = transmit E (buildResetRetryCounter None) w
         in if mReturnCode = CR_OK \<and> getSW1 (bufferOf resp) = SW1_ERROR_COMMAND_NOT_ALLOWED
            then (CR_PUK_INOPERATIVE, setPukInoperative w)
            else (mReturnCode, w))"


section \<open>Properties\<close>

lemma supported_ecdh_gm:
  assumes "isSupportedProtocol i"
  shows "getKeyAgreementType i = KA_ECDH" "getMappingType i = MT_GM"
    "PaceInfo_acceptsProtocol (pinf_protocol i)" "\<not> isAlg_3DES (pinf_protocol i)"
proof -
  have p: "pinf_protocol i = oid_PACE_ECDH ECDH_GM_AES_CBC_CMAC_128 \<or>
      pinf_protocol i = oid_PACE_ECDH ECDH_GM_AES_CBC_CMAC_192 \<or>
      pinf_protocol i = oid_PACE_ECDH ECDH_GM_AES_CBC_CMAC_256"
    using assms by (simp add: isSupportedProtocol_def)
  then show "getKeyAgreementType i = KA_ECDH" "getMappingType i = MT_GM"
    by (auto simp: getKeyAgreementType_def getMappingType_def startsWith_def oid_simps)
  have a: "isAlg_AES128 (pinf_protocol i) \<or> isAlg_AES192 (pinf_protocol i) \<or> isAlg_AES256 (pinf_protocol i)"
    using p by (auto simp: isAlg_AES128_def isAlg_AES192_def isAlg_AES256_def simp del: oid_PACE_ECDH.simps oid_PACE_DH.simps)
  then show "PaceInfo_acceptsProtocol (pinf_protocol i)" "\<not> isAlg_3DES (pinf_protocol i)"
    using alg_exclusive [of "pinf_protocol i"] by (auto simp: PaceInfo_acceptsProtocol_def)
qed

text \<open>
  The handler starts the key agreement exactly when EF.CardAccess lists a supported
  protocol, and then with the first of them: whatever passes the check of version, protocol and
  domain parameters has a curve and the generic mapping, so no supported entry fails later and
  hides a following one.
\<close>

theorem supported_protocol_starts_agreement:
  "(PaceHandler_initialize V (Some ef) = None \<longleftrightarrow> \<not> list_ex isSupportedProtocol (sis_paceInfos ef)) \<and>
   (PaceHandler_initialize V (Some ef) = Some (i, g) \<longrightarrow>
      find isSupportedProtocol (sis_paceInfos ef) = Some i \<and>
      (\<exists>c. createCurveOfIndex (getParameterIdAsInt i) = Some c \<and> g = ec_curve V c))"
proof (cases "find isSupportedProtocol (sis_paceInfos ef)")
  case None
  then have "\<not> list_ex isSupportedProtocol (sis_paceInfos ef)"
    by (auto simp: find_None_iff list_ex_iff)
  then show ?thesis using None by (simp add: PaceHandler_initialize_def)
next
  case (Some j)
  then have j: "isSupportedProtocol j" "j \<in> set (sis_paceInfos ef)"
    by (auto simp: find_Some_iff)
  then have ex: "list_ex isSupportedProtocol (sis_paceInfos ef)" by (auto simp: list_ex_iff)
  have "isStandardizedDomainParameters j" using j(1) by (simp add: isSupportedProtocol_def)
  then obtain c where "EllipticCurveFactory_create j = Some c"
    using standardized_curve [OF supported_ecdh_gm(1) [OF j(1)], of 8 8] by auto
  moreover from this have "createCurveOfIndex (getParameterIdAsInt j) = Some c"
    by (simp add: EllipticCurveFactory_create_def split: if_splits)
  ultimately show ?thesis
    using Some ex supported_ecdh_gm(1,2) [OF j(1)]
    by (auto simp: PaceHandler_initialize_def KeyAgreement_create_def)
qed

definition sample_ec :: "(curve, nat, nat) ec_lib" where
  "sample_ec = \<lparr>ec_curve = (\<lambda>c. c), ec_generateKey = (\<lambda>g s. (s, s)),
     ec_point2oct = (\<lambda>g p. [4, word_of_nat p, 0]),
     ec_oct2point = (\<lambda>g b. if length b = 3 then Some (unat (b ! 1)) else None),
     ec_equal = (\<lambda>g p q. p = q), ec_mul = (\<lambda>g k p. Some (k * p)),
     ec_addGenerator = (\<lambda>g s p. Some (p + 1)), ec_setGenerator = (\<lambda>g p. Some g)\<rparr>"

theorem supported_protocol_starts_agreement_witness:
  "PaceHandler_initialize sample_ec (Some \<lparr>sis_contentBytes = [], sis_securityInfos = [],
     sis_paceInfos = [sample_pace_info], sis_chipAuthenticationInfos = [] :: unit list\<rparr>) \<noteq> None"
proof -
  let ?ef = "\<lparr>sis_contentBytes = [], sis_securityInfos = [], sis_paceInfos = [sample_pace_info],
     sis_chipAuthenticationInfos = [] :: unit list\<rparr>"
  have "getParameterIdAsInt sample_pace_info = 13"
    by (simp add: getParameterIdAsInt_def getParameterId_def getOctetValue_def sample_pace_info_def)
  then have "isStandardizedDomainParameters sample_pace_info"
    using sample_pace_info_type
    by (cases "getMappingType sample_pace_info") (simp_all add: isStandardizedDomainParameters_def Let_def)
  then have "isSupportedProtocol sample_pace_info"
    by (simp add: isSupportedProtocol_def) (simp add: getVersion_def sample_pace_info_def)
  then show ?thesis
    using supported_protocol_starts_agreement [of sample_ec ?ef sample_pace_info] by simp
qed

text \<open>
  The specification of a PACE run with generic mapping over elliptic curves, written as the
  protocol is described: the nonce \<open>s\<close> is the answer to the first command, decrypted with the key of
  the password; the mapping keys agree on a point \<open>H\<close>, and the new generator is \<open>s\<close> times
  the old one and \<open>H\<close>; the ephemeral keys on the new generator agree on \<open>K\<close>, whose x coordinate is the shared
  secret; and the tokens are truncated MACs over the key of the other side.
  \<open>w\<close> is the worker before the first command and \<open>w'\<close> the one after the third.
\<close>

definition pace_mapped :: "('g, 'p, 'k) ec_lib \<Rightarrow> 'g \<Rightarrow> 'k \<Rightarrow> 'p \<Rightarrow> bytes \<Rightarrow> 'g" where
  "pace_mapped V g0 k Y s =
    (case ec_mul V g0 k Y of
       None \<Rightarrow> g0
     | Some H \<Rightarrow>
        (case ec_addGenerator V g0 s H of
           None \<Rightarrow> g0
         | Some p \<Rightarrow> (case ec_setGenerator V g0 p of None \<Rightarrow> g0 | Some g \<Rightarrow> g)))"

definition pace_agreed ::
  "'c card_env \<Rightarrow> ga_asn1 \<Rightarrow> ('g, 'p, 'k) ec_lib \<Rightarrow> pace_info \<Rightarrow> 'g \<Rightarrow> nat \<times> nat \<Rightarrow> bytes \<Rightarrow> ('c, 'x) worker
     \<Rightarrow> 'g \<Rightarrow> 'p \<Rightarrow> 'p \<Rightarrow> bytes \<Rightarrow> ('c, 'x) worker \<Rightarrow> bool" where
  "pace_agreed E G V i g0 seeds pw w g T C secret w' \<longleftrightarrow>
    (\<exists>z y q w1 w2 s Y K.
       transmitGAEncryptedNonce E G w = ((CR_OK, z), w1) \<and>
       s = (if length z mod 16 = 0
            then lib_cbcDecrypt (ce_crypto E) (kdf_pi (ce_crypto E) (pinf_protocol i) pw) (replicate 16 0) z else []) \<and>
       transmitGAMappingData E G (ec_point2oct V g0 (snd (ec_generateKey V g0 (fst seeds)))) w1 = ((CR_OK, y), w2) \<and>
       ec_oct2point V g0 y = Some Y \<and> \<not> ec_equal V g0 (snd (ec_generateKey V g0 (fst seeds))) Y \<and>
       g = pace_mapped V g0 (fst (ec_generateKey V g0 (fst seeds))) Y s \<and>
       T = snd (ec_generateKey V g (snd seeds)) \<and>
       transmitGAEphemeralPublicKey E G (ec_point2oct V g T) w2 = ((CR_OK, q), w') \<and>
       ec_oct2point V g q = Some C \<and> \<not> ec_equal V g T C \<and>
       ec_mul V g (fst (ec_generateKey V g (snd seeds))) C = Some K \<and>
       secret = take ((length (ec_point2oct V g K) - 1) div 2) (drop 1 (ec_point2oct V g K)))"

definition pace_token :: "'c card_env \<Rightarrow> ('g, 'p, 'k) ec_lib \<Rightarrow> pace_info \<Rightarrow> 'g \<Rightarrow> bytes \<Rightarrow> 'p \<Rightarrow> bytes" where
  "pace_token E V i g secret p =
    take 8 (lib_cmac (ce_crypto E) (kdf_mac (ce_crypto E) (pinf_protocol i) secret)
      ([0x7f] @ asn1Encode (ce_asn1 E) 0x49
         (asn1Encode (ce_asn1 E) 0x06 (pinf_protocolValueBytes i) @ asn1Encode (ce_asn1 E) 0x86 (ec_point2oct V g p))))"

text \<open>What a successful run of each step has done and checked.\<close>

lemma makeTransmitResult_codes:
  "makeTransmitResult rc sc d = (r, x) \<Longrightarrow> statusOfResult r = None \<Longrightarrow> r = CR_OK"
  by (auto simp: makeTransmitResult_def split: if_splits)

lemma determineNonce_success:
  assumes "determineNonce E G p pin w = ((r, n), w')" "statusOfResult r = None"
  shows "\<exists>z. transmitGAEncryptedNonce E G w = ((CR_OK, z), w') \<and>
    n = cipher_decrypt (ce_crypto E) p (kdf_pi (ce_crypto E) p pin) (replicate 16 0) z"
  using assms
  by (auto simp: determineNonce_def transmitGAEncryptedNonce_def transmitGA_def Let_def
      dest: makeTransmitResult_codes split: prod.splits if_splits)

lemma generator_mapped: "setGenerator V (createNewGenerator V g0 k Y s) g0 = pace_mapped V g0 k Y s"
  by (simp add: setGenerator_def createNewGenerator_def pace_mapped_def split: option.split)

lemma mapping_success:
  assumes "determineEphemeralDomainParameters E G V g0 seed s w = ((CR_OK, Some g), w')"
  shows "\<exists>y Y. transmitGAMappingData E G (ec_point2oct V g0 (snd (ec_generateKey V g0 seed))) w = ((CR_OK, y), w') \<and>
    ec_oct2point V g0 y = Some Y \<and> \<not> ec_equal V g0 (snd (ec_generateKey V g0 seed)) Y \<and>
    g = pace_mapped V g0 (fst (ec_generateKey V g0 seed)) Y s"
  using assms
  by (auto simp: determineEphemeralDomainParameters_def generateEphemeralDomainParameters_def Let_def generator_mapped
      split: prod.splits if_splits option.splits)

lemma exchange_success:
  assumes "performKeyExchange E G V (Some g) seed w = ((CR_OK, Some (T, C, K)), w')"
  shows "T = snd (ec_generateKey V g seed) \<and> ec_mul V g (fst (ec_generateKey V g seed)) C = Some K \<and>
    \<not> ec_equal V g T C \<and>
    (\<exists>q. transmitGAEphemeralPublicKey E G (ec_point2oct V g T) w = ((CR_OK, q), w') \<and> ec_oct2point V g q = Some C)"
  using assms
  by (auto simp: performKeyExchange_def Let_def split: prod.splits if_splits option.splits)

lemma secret_success:
  assumes "determineSharedSecret E G V g0 seeds n w = ((r, Some a), w')"
  shows "\<exists>w1 K. determineEphemeralDomainParameters E G V g0 (fst seeds) n w = ((CR_OK, Some (ag_curve a)), w1) \<and>
    performKeyExchange E G V (Some (ag_curve a)) (snd seeds) w1
      = ((CR_OK, Some (ag_terminalPublicKey a, ag_cardPublicKey a, K)), w') \<and>
    ag_sharedSecret a = xCoordinate (ec_point2oct V (ag_curve a) K)"
  using assms by (auto simp: determineSharedSecret_def Let_def split: prod.splits if_splits option.splits)

lemma agreement_success:
  assumes n: "determineNonce E G (pinf_protocol i) pin w = ((nr, n), w1)" "statusOfResult nr = None"
    and sd: "determineSharedSecret E G V g0 seeds n w1 = ((sr, Some a), w')"
    and key: "cipherInitialized (pinf_protocol i) (kdf_pi (ce_crypto E) (pinf_protocol i) pin)"
  shows "pace_agreed E G V i g0 seeds pin w (ag_curve a) (ag_terminalPublicKey a) (ag_cardPublicKey a) (ag_sharedSecret a) w'"
proof -
  obtain z where z: "transmitGAEncryptedNonce E G w = ((CR_OK, z), w1)"
      "n = cipher_decrypt (ce_crypto E) (pinf_protocol i) (kdf_pi (ce_crypto E) (pinf_protocol i) pin) (replicate 16 0) z"
    using determineNonce_success [OF n] by blast
  have nonce: "n = (if length z mod 16 = 0
      then lib_cbcDecrypt (ce_crypto E) (kdf_pi (ce_crypto E) (pinf_protocol i) pin) (replicate 16 0) z else [])"
    using key by (simp add: z(2) cipher_decrypt_def)
  obtain w2 K where e: "determineEphemeralDomainParameters E G V g0 (fst seeds) n w1 = ((CR_OK, Some (ag_curve a)), w2)"
      "performKeyExchange E G V (Some (ag_curve a)) (snd seeds) w2
        = ((CR_OK, Some (ag_terminalPublicKey a, ag_cardPublicKey a, K)), w')"
      "ag_sharedSecret a = xCoordinate (ec_point2oct V (ag_curve a) K)"
    using secret_success [OF sd] by blast
  show ?thesis
    using z(1) nonce mapping_success [OF e(1)] exchange_success [OF e(2)] e(3)
    unfolding pace_agreed_def xCoordinate_def mid_def by blast
qed

lemma mutual_success:
  assumes "performMutualAuthenticate E G V i a mk w = ((KAS_SUCCESS, cc, cp), w')"
    and "cipherInitialized (pinf_protocol i) mk"
    and "mk = kdf_mac (ce_crypto E) (pinf_protocol i) (ag_sharedSecret a)"
  shows "\<exists>resp. transmitGAMutualAuthentication E (pace_token E V i (ag_curve a) (ag_sharedSecret a) (ag_cardPublicKey a)) w = (resp, w') \<and>
    getReturnCode resp = SC_SUCCESS \<and>
    mutualAuthenticationData G resp = (pace_token E V i (ag_curve a) (ag_sharedSecret a) (ag_terminalPublicKey a), cc, cp)"
proof -
  have tok: "mac_generate (ce_crypto E) (pinf_protocol i) mk (encodeUncompressedPublicKey (ce_asn1 E) V i (ag_curve a) p)
      = pace_token E V i (ag_curve a) (ag_sharedSecret a) p" for p
    using assms(2) by (simp add: mac_generate_def pace_token_def encodeUncompressedPublicKey_def Let_def assms(3))
  show ?thesis
    using assms(1) by (auto simp: performMutualAuthenticate_def Let_def tok split: prod.splits if_splits)
qed

lemma perform_success:
  fixes V :: "('g, 'p, 'k) ec_lib"
  assumes "hash_laws (ce_crypto E)" "isSupportedProtocol i"
    and "KeyAgreement_perform E G V i g0 seeds pin w = ((s, Some k), w')"
  shows "s = KAS_SUCCESS \<and> (\<exists>g T C secret w1 resp.
    pace_agreed E G V i g0 seeds pin w g T C secret w1 \<and>
    transmitGAMutualAuthentication E (pace_token E V i g secret C) w1 = (resp, w') \<and>
    getReturnCode resp = SC_SUCCESS \<and>
    mutualAuthenticationData G resp = (pace_token E V i g secret T, pk_carCurr k, pk_carPrev k) \<and>
    pk_encryptionKey k = kdf_enc (ce_crypto E) (pinf_protocol i) secret \<and>
    pk_macKey k = kdf_mac (ce_crypto E) (pinf_protocol i) secret)"
proof -
  note keys = derived_keys_ok [OF assms(1) supported_ecdh_gm(3,4) [OF assms(2)]]
  obtain nr n w1 where n: "determineNonce E G (pinf_protocol i) pin w = ((nr, n), w1)" by (metis surj_pair)
  obtain sr ag w2 where sd: "determineSharedSecret E G V g0 seeds n w1 = ((sr, ag), w2)" by (metis surj_pair)
  have nr: "statusOfResult nr = None" using assms(3)
    by (cases "statusOfResult nr") (simp_all add: KeyAgreement_perform_def n)
  have sr: "statusOfResult sr = None" using assms(3) nr
    by (cases "statusOfResult sr") (simp_all add: KeyAgreement_perform_def n sd)
  obtain a where a: "ag = Some a" using assms(3) nr sr
    by (cases ag) (simp_all add: KeyAgreement_perform_def n sd)
  let ?mk = "kdf_mac (ce_crypto E) (pinf_protocol i) (ag_sharedSecret a)"
  obtain st cc cp w3 where m: "performMutualAuthenticate E G V i a ?mk w2 = ((st, cc, cp), w3)" by (metis surj_pair)
  have st: "st = KAS_SUCCESS" "s = KAS_SUCCESS" "pk_carCurr k = cc" "pk_carPrev k = cp" "pk_macKey k = ?mk" "w3 = w'"
      "pk_encryptionKey k = kdf_enc (ce_crypto E) (pinf_protocol i) (ag_sharedSecret a)"
    using assms(3) nr sr by (auto simp: KeyAgreement_perform_def n sd a m Let_def split: if_splits)
  have "pace_agreed E G V i g0 seeds pin w (ag_curve a) (ag_terminalPublicKey a) (ag_cardPublicKey a) (ag_sharedSecret a) w2"
    using keys by (intro agreement_success [OF n nr sd [unfolded a]]) blast
  moreover obtain resp where "transmitGAMutualAuthentication E (pace_token E V i (ag_curve a) (ag_sharedSecret a) (ag_cardPublicKey a)) w2 = (resp, w')"
      "getReturnCode resp = SC_SUCCESS"
      "mutualAuthenticationData G resp = (pace_token E V i (ag_curve a) (ag_sharedSecret a) (ag_terminalPublicKey a), cc, cp)"
    using mutual_success [OF m [unfolded st(1,6)] _ refl] keys by blast
  ultimately show ?thesis using st by blast
qed


text \<open>No step of the protocol starts secure messaging by itself.\<close>

named_theorems sm_none "steps that leave a worker without secure messaging as it is"

lemma transmit_none [sm_none]: "transmit E cmd w = (rc, r, w') \<Longrightarrow> wk_sm w = None \<Longrightarrow> wk_sm w' = None"
  by (auto simp: transmit_def split: option.splits prod.splits)

lemma transmitGA_none [sm_none]: "transmitGA E d cmd w = (r, w') \<Longrightarrow> wk_sm w = None \<Longrightarrow> wk_sm w' = None"
  by (auto simp: transmitGA_def dest: sm_none split: prod.splits)

lemma determineNonce_none [sm_none]: "determineNonce E G p pin w = (r, w') \<Longrightarrow> wk_sm w = None \<Longrightarrow> wk_sm w' = None"
  by (auto simp: determineNonce_def transmitGAEncryptedNonce_def Let_def dest: sm_none split: prod.splits if_splits)

lemma performKeyExchange_none [sm_none]:
  "performKeyExchange E G V g seed w = (r, w') \<Longrightarrow> wk_sm w = None \<Longrightarrow> wk_sm w' = None"
  by (auto simp: performKeyExchange_def transmitGAEphemeralPublicKey_def Let_def dest: sm_none
      split: prod.splits if_splits option.splits)

lemma determineEphemeral_none [sm_none]:
  "determineEphemeralDomainParameters E G V g seed n w = (r, w') \<Longrightarrow> wk_sm w = None \<Longrightarrow> wk_sm w' = None"
  by (auto simp: determineEphemeralDomainParameters_def transmitGAMappingData_def Let_def dest: sm_none
      split: prod.splits if_splits)

lemma determineSharedSecret_none [sm_none]:
  "determineSharedSecret E G V g seeds n w = (r, w') \<Longrightarrow> wk_sm w = None \<Longrightarrow> wk_sm w' = None"
  by (auto simp: determineSharedSecret_def Let_def dest: determineEphemeral_none performKeyExchange_none
      split: prod.splits if_splits option.splits)

lemma performMutual_none [sm_none]:
  "performMutualAuthenticate E G V i a mk w = (r, w') \<Longrightarrow> wk_sm w = None \<Longrightarrow> wk_sm w' = None"
  by (auto simp: performMutualAuthenticate_def transmitGAMutualAuthentication_def Let_def dest: transmit_none
      split: prod.splits if_splits)

lemma perform_none [sm_none]:
  "KeyAgreement_perform E G V i g seeds pin w = (r, w') \<Longrightarrow> wk_sm w = None \<Longrightarrow> wk_sm w' = None"
  by (auto simp: KeyAgreement_perform_def Let_def
      dest: determineNonce_none determineSharedSecret_none performMutual_none
      split: prod.splits if_splits option.splits)

lemma transmitMSESetAT_none [sm_none]:
  "transmitMSESetAT E i p c w = (r, w') \<Longrightarrow> wk_sm w = None \<Longrightarrow> wk_sm w' = None"
  by (auto simp: transmitMSESetAT_def sendingMseSetAt_def Let_def dest: transmit_none
      split: prod.splits if_splits option.splits)

lemma PaceHandler_none [sm_none]:
  "PaceHandler_establishPaceChannel E G V seeds c p pw w = (r, w') \<Longrightarrow> wk_sm w = None \<Longrightarrow> wk_sm w' = None"
  by (auto simp: PaceHandler_establishPaceChannel_def Let_def dest: transmitMSESetAT_none perform_none
      split: prod.splits if_splits option.splits)

lemma codeOfStatus_OK: "codeOfStatus p s = CR_OK \<longleftrightarrow> s = KAS_SUCCESS"
  by (cases s; cases p) simp_all

lemma initialize_supported:
  "PaceHandler_initialize V ef = Some (i, g) \<Longrightarrow> isSupportedProtocol i"
  by (auto simp: PaceHandler_initialize_def find_Some_iff split: option.splits)

lemma perform_keys_iff:
  "KeyAgreement_perform E G V i g0 seeds pin w = ((s, k), w') \<Longrightarrow> s = KAS_SUCCESS \<Longrightarrow> k \<noteq> None"
  by (auto simp: KeyAgreement_perform_def Let_def split: option.splits prod.splits if_splits
      elim: statusOfResult.elims)

lemma handler_success:
  assumes "PaceHandler_establishPaceChannel E G V seeds c p pw w = (r, w')" "pr_code r = CR_OK"
  shows "\<exists>i g k m w1. PaceHandler_initialize V (ci_efCardAccess (wk_cardInfo w)) = Some (i, g) \<and>
     transmitMSESetAT E i p c w = (m, w1) \<and> fst m \<notin> {CR_PROTOCOL_ERROR, CR_COMMAND_FAILED, CR_RETRY_ALLOWED} \<and>
     pr_protocol r = pinf_protocol i \<and> pr_keys r = Some k \<and>
     KeyAgreement_perform E G V i g seeds pw w1 = ((KAS_SUCCESS, Some k), w')"
proof (cases "PaceHandler_initialize V (ci_efCardAccess (wk_cardInfo w))")
  case None
  then show ?thesis using assms by (auto simp: PaceHandler_establishPaceChannel_def)
next
  case (Some a)
  obtain i g where a: "a = (i, g)" by (cases a)
  obtain rc st w1 where m: "transmitMSESetAT E i p c w = ((rc, st), w1)" by (metis surj_pair)
  obtain s k w2 where k: "KeyAgreement_perform E G V i g seeds pw w1 = ((s, k), w2)" by (metis surj_pair)
  have r: "pr_protocol r = pinf_protocol i" "pr_keys r = k" "w' = w2" "codeOfStatus p s = CR_OK"
      "rc \<notin> {CR_PROTOCOL_ERROR, CR_COMMAND_FAILED, CR_RETRY_ALLOWED}"
    using assms by (auto simp: PaceHandler_establishPaceChannel_def Some a m k Let_def split: if_splits)
  then have s: "s = KAS_SUCCESS" by (simp add: codeOfStatus_OK)
  moreover obtain k' where "k = Some k'" using perform_keys_iff [OF k] s by auto
  ultimately show ?thesis using Some a m r k by auto
qed

text \<open>
  C4. PACE through a basic reader. When it reports success, the worker has gone through one run of the
  protocol with the card: the first supported protocol of EF.CardAccess, MSE:Set AT, then the key agreement that
  the specification \<open>pace_agreed\<close> describes, with the card's answers as they came from these very commands; the
  response to the terminal's token has the status 9000, and the token in it is the MAC over the
  terminal's ephemeral key under the key derived from the shared secret, which a card can only give
  that shares it. The worker then has fresh, usable secure messaging with the keys of this secret,
  counter and initialisation vector 0. When it fails, a worker without secure messaging stays without. The output carries the
  code that is returned.
\<close>

theorem pace_success_authenticates_card:
  fixes V :: "('g, 'p, 'k) ec_lib"
  assumes "hash_laws (ce_crypto E)" and "wk_basicReader w"
    and "establishPaceChannel E G V pinPad seeds pid pw chat cd out w = (rc, out', w')"
  shows "po_returnCode out' = rc \<and>
    (rc \<noteq> CR_OK \<and> wk_sm w = None \<longrightarrow> wk_sm w' = None) \<and>
    (rc = CR_OK \<longrightarrow> (\<exists>i g0 mse w1 g T C secret w2 resp w3 s.
       PaceHandler_initialize V (ci_efCardAccess (wk_cardInfo w)) = Some (i, g0) \<and> isSupportedProtocol i \<and>
       transmitMSESetAT E i pid chat w = (mse, w1) \<and>
       fst mse \<notin> {CR_PROTOCOL_ERROR, CR_COMMAND_FAILED, CR_RETRY_ALLOWED} \<and>
       pace_agreed E G V i g0 seeds pw w1 g T C secret w2 \<and>
       transmitGAMutualAuthentication E (pace_token E V i g secret C) w2 = (resp, w3) \<and>
       getReturnCode resp = SC_SUCCESS \<and>
       fst (mutualAuthenticationData G resp) = pace_token E V i g secret T \<and>
       w' = w3\<lparr>wk_sm := Some s\<rparr> \<and> sm_isInitialized s \<and>
       s = \<lparr>sm_alg = pinf_protocol i, sm_encKey = kdf_enc (ce_crypto E) (pinf_protocol i) secret,
            sm_macKey = kdf_mac (ce_crypto E) (pinf_protocol i) secret, sm_iv = replicate 16 0, sm_ssc = 0\<rparr>))"
proof (cases "wk_card w")
  case None
  then show ?thesis using assms(3) by (auto simp: establishPaceChannel_def)
next
  case (Some c)
  obtain r w3 where r: "PaceHandler_establishPaceChannel E G V seeds chat pid pw w = (r, w3)" by (metis surj_pair)
  show ?thesis
  proof (cases "pr_code r = CR_OK")
    case False
    then show ?thesis
      using assms(2,3) PaceHandler_none [OF r] by (auto simp: establishPaceChannel_def Some r Let_def)
  next
    case True
    then obtain i g0 k m w1 where h: "PaceHandler_initialize V (ci_efCardAccess (wk_cardInfo w)) = Some (i, g0)"
        "transmitMSESetAT E i pid chat w = (m, w1)" "fst m \<notin> {CR_PROTOCOL_ERROR, CR_COMMAND_FAILED, CR_RETRY_ALLOWED}"
        "pr_protocol r = pinf_protocol i" "pr_keys r = Some k"
        "KeyAgreement_perform E G V i g0 seeds pw w1 = ((KAS_SUCCESS, Some k), w3)"
      using handler_success [OF r] by blast
    note i = initialize_supported [OF h(1)]
    let ?s = "newSecureMessaging (pinf_protocol i) (pk_encryptionKey k) (pk_macKey k)"
    have res: "rc = CR_OK" "po_returnCode out' = CR_OK" "w' = w3\<lparr>wk_sm := Some ?s\<rparr>"
      using assms(2,3) True h(4,5) by (auto simp: establishPaceChannel_def Some r Let_def)
    obtain g T C secret w2 resp where a: "pace_agreed E G V i g0 seeds pw w1 g T C secret w2"
        "transmitGAMutualAuthentication E (pace_token E V i g secret C) w2 = (resp, w3)" "getReturnCode resp = SC_SUCCESS"
        "mutualAuthenticationData G resp = (pace_token E V i g secret T, pk_carCurr k, pk_carPrev k)"
        "pk_encryptionKey k = kdf_enc (ce_crypto E) (pinf_protocol i) secret"
        "pk_macKey k = kdf_mac (ce_crypto E) (pinf_protocol i) secret"
      using perform_success [OF assms(1) i h(6)] by blast
    have "fst (mutualAuthenticationData G resp) = pace_token E V i g secret T" by (simp add: a(4))
    moreover have "sm_isInitialized ?s"
      using derived_keys_ok [OF assms(1) supported_ecdh_gm(3,4) [OF i], of secret]
      by (simp add: a(5,6) sm_isInitialized_def newSecureMessaging_def)
    moreover have "?s = \<lparr>sm_alg = pinf_protocol i, sm_encKey = kdf_enc (ce_crypto E) (pinf_protocol i) secret,
        sm_macKey = kdf_mac (ce_crypto E) (pinf_protocol i) secret, sm_iv = replicate 16 0, sm_ssc = 0\<rparr>"
      by (simp add: newSecureMessaging_def a(5,6))
    ultimately show ?thesis using res h(1-3) i a(1-3) by blast
  qed
qed


text \<open>
  A card for the witness. It counts the general authenticate commands (INS 0x86) and answers
  them with a nonce, its mapping key, its ephemeral key and its token.
\<close>

definition pace_card :: "bytes \<Rightarrow> nat \<Rightarrow> CardReturnCode \<times> bytes option \<times> nat" where
  "pace_card cmd n =
    (if getINS cmd \<noteq> 0x86 then (CR_OK, Some (be16 (statusValue SC_SUCCESS)), n)
     else (CR_OK, Some ((if n = 0 then replicate 16 0 else if n = 1 then [4, 9, 0]
             else if n = 2 then [4, 11, 0] else replicate 8 20) @ be16 (statusValue SC_SUCCESS)), Suc n))"

definition pace_env :: "nat card_env" where
  "pace_env = \<lparr>ce_crypto = sample_crypto, ce_asn1 = der_lib, ce_transmit = pace_card,
     ce_destroyPaceChannel = Card_destroyPaceChannel, ce_setEidPin = Card_setEidPin\<rparr>"

definition pace_ga :: ga_asn1 where
  "pace_ga = \<lparr>d2i_nonce = Some, d2i_mapping = Some, d2i_ephemeral = Some,
     d2i_mutual = (\<lambda>b. Some (b, Some [1], Some [2])), d2i_chip = (\<lambda>b. None)\<rparr>"

definition pace_worker :: "nat \<Rightarrow> (nat, unit) worker" where
  "pace_worker n = \<lparr>wk_card = Some n, wk_connected = True, wk_sm = None, wk_basicReader = True,
     wk_cardInfo = CardInfo CT_EID_CARD (Some \<lparr>sis_contentBytes = [5], sis_securityInfos = [],
       sis_paceInfos = [sample_pace_info], sis_chipAuthenticationInfos = []\<rparr>), wk_signals = 0\<rparr>"

lemma pace_card_plain: "getINS cmd \<noteq> 0x86 \<Longrightarrow>
  transmit pace_env cmd (pace_worker n) = (CR_OK, Some (be16 (statusValue SC_SUCCESS)), pace_worker n)"
  by (simp add: transmit_def pace_worker_def pace_env_def pace_card_def)

lemma pace_card_ga: "getINS cmd = 0x86 \<Longrightarrow>
  transmit pace_env cmd (pace_worker n) = (CR_OK, Some ((if n = 0 then replicate 16 0 else if n = 1 then [4, 9, 0]
     else if n = 2 then [4, 11, 0] else replicate 8 20) @ be16 (statusValue SC_SUCCESS)), pace_worker (Suc n))"
  by (simp add: transmit_def pace_worker_def pace_env_def pace_card_def)

lemma responseData_append: "responseData (d @ be16 n) = d"
  by (simp add: responseData_def getDataLength_def)

lemma ga_ins: "length (ga_data b) \<le> 60000 \<Longrightarrow> der_laws A \<Longrightarrow> getINS (buildGA A b) = 0x86"
  using length_der_encode [of A "ga_data b" "0x7C"] by (simp add: buildGA_def asn1Encode_eq)


lemma ga_builders_ins:
  assumes "length d \<le> 50000"
  shows "getINS (buildGA der_lib (GABuilder c)) = 0x86"
    "getINS (buildGA der_lib (ga_setPaceMappingData der_lib d (GABuilder c))) = 0x86"
    "getINS (buildGA der_lib (ga_setPaceEphemeralPublicKey der_lib d (GABuilder c))) = 0x86"
    "getINS (buildGA der_lib (ga_setPaceAuthenticationToken der_lib d (GABuilder c))) = 0x86"
proof -
  have le: "length (asn1Encode der_lib t d) \<le> 60000" for t
    using assms length_der_encode [OF der_lib_laws, of d t] by (simp add: asn1Encode_eq [OF der_lib_laws])
  show "getINS (buildGA der_lib (GABuilder c)) = 0x86"
    "getINS (buildGA der_lib (ga_setPaceMappingData der_lib d (GABuilder c))) = 0x86"
    "getINS (buildGA der_lib (ga_setPaceEphemeralPublicKey der_lib d (GABuilder c))) = 0x86"
    "getINS (buildGA der_lib (ga_setPaceAuthenticationToken der_lib d (GABuilder c))) = 0x86"
    by (auto intro!: ga_ins simp: le der_lib_laws ga_data_def GABuilder_def ga_setPaceMappingData_def
        ga_setPaceEphemeralPublicKey_def ga_setPaceAuthenticationToken_def)
qed

lemma SUCCESS_appended [simp]: "getReturnCode (d @ be16 0x9000) = SC_SUCCESS" "getReturnCode (be16 0x9000) = SC_SUCCESS"
  using getReturnCode_append_status [of d SC_SUCCESS] getReturnCode_append_status [of "[]" SC_SUCCESS] by simp_all

lemma three_byte_answer [simp]: "responseData (a # b # c # be16 n) = [a, b, c]"
    "getReturnCode (a # b # c # be16 0x9000) = SC_SUCCESS"
  using responseData_append [of "[a, b, c]" n] SUCCESS_appended(1) [of "[a, b, c]"] by simp_all

lemma sample_pace_info_supported: "isSupportedProtocol sample_pace_info"
proof -
  have "getParameterIdAsInt sample_pace_info = 13"
    by (simp add: getParameterIdAsInt_def getParameterId_def getOctetValue_def sample_pace_info_def)
  then have "isStandardizedDomainParameters sample_pace_info"
    using sample_pace_info_type
    by (cases "getMappingType sample_pace_info") (simp_all add: isStandardizedDomainParameters_def Let_def)
  then show ?thesis
    by (simp add: isSupportedProtocol_def) (simp add: getVersion_def sample_pace_info_def)
qed

lemma pace_env_simps [simp]: "ce_asn1 pace_env = der_lib" "ce_crypto pace_env = sample_crypto"
  by (simp_all add: pace_env_def)

lemma pace_card_nonce:
  "determineNonce pace_env pace_ga p pin (pace_worker 0) =
     ((CR_OK, cipher_decrypt sample_crypto p (kdf_pi sample_crypto p pin) (replicate 16 0) (replicate 16 0)), pace_worker (Suc 0))"
  using ga_builders_ins(1) [of "[]" "0x10"]
  by (simp add: determineNonce_def transmitGAEncryptedNonce_def transmitGA_def pace_card_ga bufferOf_def
      makeTransmitResult_def parseGA_def responseData_append pace_ga_def)

definition pace_agreement :: "(curve, nat) agreement" where
  "pace_agreement = \<lparr>ag_curve = NID_brainpoolP256r1, ag_terminalPublicKey = 3, ag_cardPublicKey = 11,
     ag_sharedSecret = [33]\<rparr>"

lemma pace_card_secret:
  "determineSharedSecret pace_env pace_ga sample_ec NID_brainpoolP256r1 (2, 3) nonce (pace_worker (Suc 0)) =
     ((CR_OK, Some pace_agreement), pace_worker 3)"
proof -
  note ins = ga_builders_ins(2) [of "[4, 2, 0]" "0x10"] ga_builders_ins(3) [of "[4, 3, 0]" "0x10"]
  have m: "determineEphemeralDomainParameters pace_env pace_ga sample_ec NID_brainpoolP256r1 2 nonce (pace_worker (Suc 0))
      = ((CR_OK, Some NID_brainpoolP256r1), pace_worker 2)"
    using ins(1)
    by (simp add: determineEphemeralDomainParameters_def transmitGAMappingData_def transmitGA_def pace_card_ga bufferOf_def
        makeTransmitResult_def parseGA_def responseData_append pace_ga_def sample_ec_def
        generateEphemeralDomainParameters_def createNewGenerator_def setGenerator_def numeral_2_eq_2 [symmetric])
  have "performKeyExchange pace_env pace_ga sample_ec (Some NID_brainpoolP256r1) 3 (pace_worker 2)
      = ((CR_OK, Some (3, 11, 33)), pace_worker 3)"
    using ins(2)
    by (simp add: performKeyExchange_def transmitGAEphemeralPublicKey_def transmitGA_def pace_card_ga bufferOf_def
        makeTransmitResult_def parseGA_def responseData_append pace_ga_def sample_ec_def numeral_3_eq_3 [symmetric])
  with m show ?thesis
    by (simp add: determineSharedSecret_def pace_agreement_def xCoordinate_def mid_def sample_ec_def)
qed

lemma pace_card_mutual:
  assumes "cipherInitialized (pinf_protocol sample_pace_info) mk"
  shows "performMutualAuthenticate pace_env pace_ga sample_ec sample_pace_info pace_agreement mk (pace_worker 3)
     = ((KAS_SUCCESS, [1], [2]), pace_worker 4)"
proof -
  have mac: "mac_generate sample_crypto (pinf_protocol sample_pace_info) mk m = replicate 8 (word_of_nat (length m))" for m
    using assms by (simp add: mac_generate_def sample_crypto_def)
  have len: "length (encodeUncompressedPublicKey der_lib sample_ec sample_pace_info (ag_curve pace_agreement) p) = 20" for p
    by (simp add: encodeUncompressedPublicKey_def Let_def asn1Encode_def der_lib_def der_len_def sample_pace_info_def sample_ec_def)
  show ?thesis
    using ga_builders_ins(4) [of "replicate 8 20" 0]
    by (simp add: performMutualAuthenticate_def transmitGAMutualAuthentication_def Let_def mac len pace_card_ga
        bufferOf_def mutualAuthenticationData_def parseGA_def responseData_append pace_ga_def getOctetValue_def)
qed

lemma pace_card_channel:
  "\<exists>out. establishPaceChannel pace_env pace_ga sample_ec pp (2, 3) PACE_PIN pin None None emptyPaceOutput (pace_worker 0)
     = (CR_OK, out, (pace_worker 4)\<lparr>wk_sm := Some (newSecureMessaging (pinf_protocol sample_pace_info)
         (kdf_enc sample_crypto (pinf_protocol sample_pace_info) [33])
         (kdf_mac sample_crypto (pinf_protocol sample_pace_info) [33]))\<rparr>)"
proof -
  let ?p = "pinf_protocol sample_pace_info"
  have "getParameterIdAsInt sample_pace_info = 13"
    by (simp add: getParameterIdAsInt_def getParameterId_def getOctetValue_def sample_pace_info_def)
  moreover have "isStandardizedDomainParameters sample_pace_info"
    using sample_pace_info_supported by (simp add: isSupportedProtocol_def)
  ultimately have ini: "PaceHandler_initialize sample_ec (ci_efCardAccess (wk_cardInfo (pace_worker 0))) = Some (sample_pace_info, NID_brainpoolP256r1)"
    using sample_pace_info_supported supported_ecdh_gm(1,2) [OF sample_pace_info_supported]
    by (simp add: PaceHandler_initialize_def pace_worker_def CardInfo_def KeyAgreement_create_def
        EllipticCurveFactory_create_def createCurveOfIndex_def) (simp add: sample_ec_def)
  have mse: "transmitMSESetAT pace_env sample_pace_info PACE_PIN None (pace_worker 0) = ((CR_OK, take 2 (be16 0x9000)), pace_worker 0)"
  proof -
    have "getINS (buildSelect efCardAccess) \<noteq> 0x86" by (simp add: select_ins efCardAccess_def)
    moreover have "getINS (buildMSE (mse_setPrivateKey der_lib (getParameterId sample_pace_info)
        (mse_setPasswordId der_lib PACE_PIN (mse_setOid der_lib (pinf_protocolValueBytes sample_pace_info)
          (MSEBuilder PERFORM_SECURITY_OPERATION SET_AT))))) \<noteq> 0x86"
      by (simp add: buildMSE_def mse_data_def mse_setPrivateKey_def mse_setPasswordId_def mse_setOid_def MSEBuilder_def
          asn1Encode_def der_lib_def der_len_def sample_pace_info_def getParameterId_def getOctetValue_def)
    ultimately show ?thesis
      by (simp add: transmitMSESetAT_def sendingMseSetAt_def Let_def pace_card_plain bufferOf_def)
  qed
  have keys: "cipherInitialized ?p (kdf_mac sample_crypto ?p s)" for s
    using derived_keys_ok [OF sample_hash_laws supported_ecdh_gm(3,4) [OF sample_pace_info_supported]] by blast
  have perf: "KeyAgreement_perform pace_env pace_ga sample_ec sample_pace_info NID_brainpoolP256r1 (2, 3) pin (pace_worker 0)
      = ((KAS_SUCCESS, Some \<lparr>pk_encryptionKey = kdf_enc sample_crypto ?p [33], pk_macKey = kdf_mac sample_crypto ?p [33],
           pk_carCurr = [1], pk_carPrev = [2],
           pk_idIcc = encodeCompressedPublicKey sample_ec NID_brainpoolP256r1 11\<rparr>), pace_worker 4)"
    using pace_card_mutual [OF keys, of "[33]"]
    by (simp add: KeyAgreement_perform_def pace_card_nonce pace_card_secret Let_def) (simp add: pace_agreement_def)
  have c: "wk_card (pace_worker 0) = Some 0" "wk_basicReader (pace_worker 0)"
    by (simp_all add: pace_worker_def)
  have "PaceHandler_establishPaceChannel pace_env pace_ga sample_ec (2, 3) None PACE_PIN pin (pace_worker 0) =
      (\<lparr>pr_code = CR_OK, pr_protocol = ?p, pr_statusMseSetAt = take 2 (be16 0x9000), pr_keys = Some
         \<lparr>pk_encryptionKey = kdf_enc sample_crypto ?p [33], pk_macKey = kdf_mac sample_crypto ?p [33],
           pk_carCurr = [1], pk_carPrev = [2],
           pk_idIcc = encodeCompressedPublicKey sample_ec NID_brainpoolP256r1 11\<rparr>\<rparr>, pace_worker 4)"
    by (simp add: PaceHandler_establishPaceChannel_def ini mse perf Let_def)
  then show ?thesis
    by (simp add: establishPaceChannel_def c Let_def)
qed

theorem pace_success_authenticates_card_witness:
  "\<exists>out w'. establishPaceChannel pace_env pace_ga sample_ec (\<lambda>_ _ _ out c. (CR_COMMAND_FAILED, out, c)) (2, 3) PACE_PIN [49] None None
      emptyPaceOutput (pace_worker 0) = (CR_OK, out, w') \<and> po_returnCode out = CR_OK \<and> wk_sm w' \<noteq> None \<and>
     (\<exists>i g0 w1 g T C secret (w2 :: (nat, unit) worker). pace_agreed pace_env pace_ga sample_ec i g0 (2, 3) [49] w1 g T C secret w2)"
proof -
  obtain out w' where p: "establishPaceChannel pace_env pace_ga sample_ec (\<lambda>_ _ _ out c. (CR_COMMAND_FAILED, out, c)) (2, 3) PACE_PIN [49] None None
      emptyPaceOutput (pace_worker 0) = (CR_OK, out, w')"
    using pace_card_channel by blast
  have h: "hash_laws (ce_crypto pace_env)" "wk_basicReader (pace_worker 0)"
    by (simp_all add: sample_hash_laws pace_worker_def)
  note c = pace_success_authenticates_card [OF h p]
  have "po_returnCode out = CR_OK" using c by (rule conjunct1)
  moreover have r: "\<exists>i g0 w1 g T C secret (w2 :: (nat, unit) worker) w3 s. w' = w3\<lparr>wk_sm := Some s\<rparr> \<and>
      pace_agreed pace_env pace_ga sample_ec i g0 (2, 3) [49] w1 g T C secret w2"
    using c [THEN conjunct2, THEN conjunct2, THEN mp, OF refl]
    by (elim exE conjE) (intro exI conjI, assumption+)
  moreover from r have "wk_sm w' \<noteq> None" by auto
  ultimately show ?thesis using p by blast
qed

text \<open>
  A failed reset of the retry counter is reported as a success: once the PUK channel is
  open, whatever status word other than 69xx the card answers the reset with, the unblock command
  returns OK, although the counter may not have been reset.
\<close>

theorem unblock_reports_ok_for_refused_reset:
  assumes "isEid (wk_cardInfo w)" and "ci_retryCounter (wk_cardInfo w) \<le> 0" and "\<not> ci_pinDeactivated (wk_cardInfo w)"
    and "establishPaceChannel E G V pinPad seeds PACE_PUK puk None None emptyPaceOutput w = (CR_OK, out, w1)"
    and "transmit E (buildResetRetryCounter None) w1 = (CR_OK, Some status, w2)"
    and "getSW1 status \<noteq> SW1_ERROR_COMMAND_NOT_ALLOWED"
  shows "UnblockPinCommand_execute E G V pinPad seeds puk w = (CR_OK, w2)"
  using assms by (simp add: UnblockPinCommand_execute_def bufferOf_def)

text \<open>A comfort reader whose PACE succeeds, and a card that refuses the reset with 6A80.\<close>

definition refusing_env :: "nat card_env" where
  "refusing_env = \<lparr>ce_crypto = sample_crypto, ce_asn1 = der_lib, ce_transmit = (\<lambda>cmd n. (CR_OK, Some [0x6A, 0x80], n)),
     ce_destroyPaceChannel = Card_destroyPaceChannel, ce_setEidPin = Card_setEidPin\<rparr>"

definition comfort_worker :: "(nat, unit) worker" where
  "comfort_worker = \<lparr>wk_card = Some 0, wk_connected = True, wk_sm = None, wk_basicReader = False,
     wk_cardInfo = (CardInfo CT_EID_CARD None)\<lparr>ci_retryCounter := 0\<rparr>, wk_signals = 0\<rparr>"

theorem unblock_reports_ok_for_refused_reset_witness:
  "UnblockPinCommand_execute refusing_env pace_ga sample_ec (\<lambda>_ _ _ out c. (CR_OK, out, c)) (2, 3) [49] comfort_worker
     = (CR_OK, comfort_worker) \<and> getReturnCode [0x6A, 0x80] \<noteq> SC_SUCCESS"
proof
  have s: "getSW1 [0x6A, 0x80] \<noteq> SW1_ERROR_COMMAND_NOT_ALLOWED" by code_simp
  have p: "establishPaceChannel refusing_env pace_ga sample_ec (\<lambda>_ _ _ out c. (CR_OK, out, c)) (2, 3) PACE_PUK [49] None None
      emptyPaceOutput comfort_worker = (CR_OK, emptyPaceOutput\<lparr>po_returnCode := CR_OK\<rparr>, comfort_worker)"
    by (simp add: establishPaceChannel_def comfort_worker_def)
  have t: "transmit refusing_env (buildResetRetryCounter None) comfort_worker = (CR_OK, Some [0x6A, 0x80], comfort_worker)"
    by (simp add: transmit_def comfort_worker_def refusing_env_def)
  have "isEid (wk_cardInfo comfort_worker)" "ci_retryCounter (wk_cardInfo comfort_worker) \<le> 0"
    "\<not> ci_pinDeactivated (wk_cardInfo comfort_worker)"
    by (simp_all add: comfort_worker_def isEid_def CardInfo_def)
  from unblock_reports_ok_for_refused_reset [OF this p t s]
  show "UnblockPinCommand_execute refusing_env pace_ga sample_ec (\<lambda>_ _ _ out c. (CR_OK, out, c)) (2, 3) [49] comfort_worker
     = (CR_OK, comfort_worker)" .
  have "be16 0x6a80 = [0x6A, 0x80]" by (simp add: be16_def high_byte_def low_byte_def)
  then show "getReturnCode [0x6A, 0x80] \<noteq> SC_SUCCESS"
    using getReturnCode_append_status [of "[]" SC_INVALID_DATAFIELD] by simp
qed

end
