(* ===== verification/Eac2.thy ===== *)
theory Eac2
  imports Pace CvcChains
begin

text \<open>
  The second half of the extended access control on the card,
  src/src/card/base/command/DidAuthenticateEAC2Command.cpp: the certificate chain is put on the
  card (putCertificateChain), the terminal is authenticated (performTerminalAuthentication),
  EF.CardSecurity is read and decoded (asn1/EFCardSecurity.cpp) and the chip is authenticated
  (performChipAuthentication). Parameters are the decoders of OpenSSL: the content of a CMS
  container, the security infos and the value bytes of an object identifier. \<open>None\<close> is an
  execution that does not return (see \<open>readFile\<close>) or reads outside an empty chain.
\<close>

section \<open>Hexadecimal input\<close>

text \<open>\<open>QByteArray::fromHex\<close>: characters that are no digits are skipped, digits are paired from the end.\<close>

definition hexValue :: "char \<Rightarrow> nat option" where
  "hexValue c =
    (let n = (of_char c :: nat)
     in if 48 \<le> n \<and> n \<le> 57 then Some (n - 48)
        else if 97 \<le> n \<and> n \<le> 102 then Some (n - 87)
        else if 65 \<le> n \<and> n \<le> 70 then Some (n - 55)
        else None)"

fun pairDigits :: "nat list \<Rightarrow> bytes" where
  "pairDigits [] = []"
| "pairDigits [d] = [word_of_nat d]"
| "pairDigits (lo # hi # ds) = pairDigits ds @ [word_of_nat (16 * hi + lo)]"

definition fromHex :: "string \<Rightarrow> bytes" where
  "fromHex s = pairDigits (List.map_filter hexValue (rev s))"

section \<open>EF.CardSecurity\<close>

definition oid_SIGNED_DATA :: string where
  "oid_SIGNED_DATA = ''1.2.840.113549.1.7.2''"

definition oid_ID_SECURITY_OBJECT :: string where
  "oid_ID_SECURITY_OBJECT = ''0.4.0.127.0.7.3.2.1''"

record chip_auth_info =
  cai_protocolValueBytes :: bytes
  cai_keyId :: "bytes option"

definition EFCardSecurity_decode ::
  "(bytes \<Rightarrow> (string \<times> string \<times> bytes option) option) \<Rightarrow> (bytes \<Rightarrow> 'x security_infos option)
     \<Rightarrow> bytes \<Rightarrow> 'x security_infos option" where
  "EFCardSecurity_decode cms securityInfos pBytes =
    (case cms pBytes of
       None \<Rightarrow> None
     | Some (type, eContentType, content) \<Rightarrow>
         if type \<noteq> oid_SIGNED_DATA then None
         else if eContentType \<noteq> oid_ID_SECURITY_OBJECT then None
         else (case content of None \<Rightarrow> None | Some b \<Rightarrow> securityInfos b))"

section \<open>The command\<close>

text \<open>A step that needs the card to answer with the status success.\<close>

definition transmitChecked ::
  "'c card_env \<Rightarrow> bytes \<Rightarrow> ('c, 'x) worker \<Rightarrow> CardReturnCode \<times> bytes \<times> ('c, 'x) worker" where
  "transmitChecked E cmd w =
    (let (returnCode, resp, w) = transmit E cmd w
     in if returnCode \<noteq> CR_OK then (returnCode, bufferOf resp, w)
        else if getReturnCode (bufferOf resp) \<noteq> SC_SUCCESS then (CR_PROTOCOL_ERROR, bufferOf resp, w)
        else (CR_OK, bufferOf resp, w))"

definition setDstCommand :: "asn1_lib \<Rightarrow> cvc \<Rightarrow> bytes" where
  "setDstCommand A c = buildMSE (mse_setPublicKey A (cvc_car c) (MSEBuilder SET_DST P2_COMPUTE_DIGITAL_SIGNATURE))"

definition verifyCommand :: "cvc \<Rightarrow> bytes" where
  "verifyCommand c = buildPSO \<lparr>pso_p1 = VERIFY, pso_p2 = CERTIFICATE,
     pso_certificateBody = cvc_rawBody c, pso_signature = cvc_rawSignature c\<rparr>"

fun putCertificateChain ::
  "'c card_env \<Rightarrow> cvc list \<Rightarrow> ('c, 'x) worker \<Rightarrow> CardReturnCode \<times> ('c, 'x) worker" where
  "putCertificateChain E [] w = (CR_OK, w)"
| "putCertificateChain E (cvCertificate # rest) w =
    (let (returnCode, _, w) = transmitChecked E (setDstCommand (ce_asn1 E) cvCertificate) w
     in if returnCode \<noteq> CR_OK then (returnCode, w)
     else
       let (returnCode, _, w) = transmitChecked E (verifyCommand cvCertificate) w
       in if returnCode \<noteq> CR_OK then (returnCode, w)
          else putCertificateChain E rest w)"

definition taSetAtCommand :: "asn1_lib \<Rightarrow> bytes \<Rightarrow> bytes \<Rightarrow> bytes \<Rightarrow> bytes \<Rightarrow> bytes" where
  "taSetAtCommand A taProtocol chr auxiliaryData compressedEphemeralPublicKey =
     buildMSE (mse_setEphemeralPublicKey A compressedEphemeralPublicKey
       (mse_setAuxiliaryData auxiliaryData (mse_setPublicKey A chr (mse_setOid A taProtocol
         (MSEBuilder SET_DST SET_AT)))))"

definition performTerminalAuthentication ::
  "'c card_env \<Rightarrow> bytes \<Rightarrow> bytes \<Rightarrow> bytes \<Rightarrow> bytes \<Rightarrow> bytes \<Rightarrow> ('c, 'x) worker
     \<Rightarrow> CardReturnCode \<times> ('c, 'x) worker" where
  "performTerminalAuthentication E taProtocol chr auxiliaryData compressedEphemeralPublicKey signature w =
    (let (returnCode, _, w) = transmitChecked E
           (taSetAtCommand (ce_asn1 E) taProtocol chr auxiliaryData compressedEphemeralPublicKey) w
     in if returnCode \<noteq> CR_OK then (returnCode, w)
     else
       let (returnCode, _, w) = transmitChecked E (buildEA signature) w
       in (returnCode, w))"

definition caSetAtCommand :: "asn1_lib \<Rightarrow> chip_auth_info \<Rightarrow> bytes" where
  "caSetAtCommand A i = buildMSE (mse_setPrivateKey A (getOctetValue (cai_keyId i))
     (mse_setOid A (cai_protocolValueBytes i) (MSEBuilder COMPUTE_DIGITAL_SIGNATURE SET_AT)))"

definition caAuthenticateCommand :: "asn1_lib \<Rightarrow> bytes \<Rightarrow> bytes" where
  "caAuthenticateCommand A ephemeralPublicKey =
     buildGA A (ga_setCaEphemeralPublicKey A ephemeralPublicKey (GABuilder 0))"

definition performChipAuthentication ::
  "'c card_env \<Rightarrow> ga_asn1 \<Rightarrow> chip_auth_info \<Rightarrow> bytes \<Rightarrow> string \<Rightarrow> string \<Rightarrow> ('c, 'x) worker
     \<Rightarrow> CardReturnCode \<times> string \<times> string \<times> ('c, 'x) worker" where
  "performChipAuthentication E G pChipAuthInfo ephemeralPublicKey pNonceAsHex pAuthTokenAsHex w =
    (let (returnCode, _, w) = transmitChecked E (caSetAtCommand (ce_asn1 E) pChipAuthInfo) w
     in if returnCode \<noteq> CR_OK then (returnCode, pNonceAsHex, pAuthTokenAsHex, w)
     else
       let (returnCode, resp, w) = transmitChecked E (caAuthenticateCommand (ce_asn1 E) ephemeralPublicKey) w
       in if returnCode \<noteq> CR_OK then (returnCode, pNonceAsHex, pAuthTokenAsHex, w)
       else
         let (nonce, authToken) = parseGA (d2i_chip G) ([], []) resp
         in (CR_OK, pNonceAsHex @ toHex nonce, pAuthTokenAsHex @ toHex authToken, w))"

definition completeEphemeralKey :: "bytes \<Rightarrow> bytes" where
  "completeEphemeralKey k = (if length k mod 2 = 0 then 0x04 # k else k)"

definition compressEphemeralKey :: "bytes \<Rightarrow> bytes" where
  "compressEphemeralKey k = mid 1 ((length k - 1) div 2) k"

record eac2_result =
  e2_code :: CardReturnCode
  e2_efCardSecurityAsHex :: string
  e2_nonceAsHex :: string
  e2_authTokenAsHex :: string

definition eac2Failed :: "CardReturnCode \<Rightarrow> eac2_result" where
  "eac2Failed c = \<lparr>e2_code = c, e2_efCardSecurityAsHex = [], e2_nonceAsHex = [], e2_authTokenAsHex = []\<rparr>"

definition DidAuthenticateEAC2_execute ::
  "'c card_env \<Rightarrow> ga_asn1 \<Rightarrow> (string \<Rightarrow> bytes) \<Rightarrow> (bytes \<Rightarrow> chip_auth_info security_infos option)
     \<Rightarrow> cvc list \<Rightarrow> string \<Rightarrow> string \<Rightarrow> bytes \<Rightarrow> ('c, 'x) worker
     \<Rightarrow> (eac2_result \<times> ('c, 'x) worker) option" where
  "DidAuthenticateEAC2_execute E G oidBytes decodeEf mCvcChain mEphemeralPublicKeyAsHex mSignatureAsHex
      mAuthenticatedAuxiliaryData w =
    (let (mReturnCode, w) = putCertificateChain E mCvcChain w
     in if mReturnCode \<noteq> CR_OK then Some (eac2Failed mReturnCode, w)
     else if mCvcChain = [] then None
     else
       let terminalCvc = last mCvcChain;
           ephemeralPublicKey = completeEphemeralKey (fromHex mEphemeralPublicKeyAsHex);
           (mReturnCode, w) = performTerminalAuthentication E (oidBytes (cvc_hashOid terminalCvc))
             (cvc_chr terminalCvc) mAuthenticatedAuxiliaryData (compressEphemeralKey ephemeralPublicKey)
             (fromHex mSignatureAsHex) w
       in if mReturnCode \<noteq> CR_OK then Some (eac2Failed mReturnCode, w)
       else
         (case readFile E efCardSecurity [] w of
            None \<Rightarrow> None
          | Some (mReturnCode, efCardSecurityBytes, w) \<Rightarrow>
              if mReturnCode \<noteq> CR_OK then Some (eac2Failed mReturnCode, w)
              else
                let efHex = toHex efCardSecurityBytes
                in (case decodeEf efCardSecurityBytes of
                      None \<Rightarrow> Some ((eac2Failed CR_PROTOCOL_ERROR)\<lparr>e2_efCardSecurityAsHex := efHex\<rparr>, w)
                    | Some ef \<Rightarrow>
                        (case sis_chipAuthenticationInfos ef of
                           [] \<Rightarrow> Some ((eac2Failed CR_PROTOCOL_ERROR)\<lparr>e2_efCardSecurityAsHex := efHex\<rparr>, w)
                         | chipAuthenticationInfo # _ \<Rightarrow>
                             let (mReturnCode, nonce, authToken, w) =
                                   performChipAuthentication E G chipAuthenticationInfo ephemeralPublicKey [] [] w;
                                 w = (if mReturnCode = CR_OK then snd (stopSecureMessaging w) else w)
                             in Some (\<lparr>e2_code = mReturnCode, e2_efCardSecurityAsHex = efHex,
                                       e2_nonceAsHex = nonce, e2_authTokenAsHex = authToken\<rparr>, w)))))"

section \<open>Properties\<close>

text \<open>The card accepts a sequence of commands, each with the status success.\<close>

fun accepts :: "'c card_env \<Rightarrow> bytes list \<Rightarrow> ('c, 'x) worker \<Rightarrow> ('c, 'x) worker \<Rightarrow> bool" where
  "accepts E [] w w' \<longleftrightarrow> w = w'"
| "accepts E (c # cs) w w' \<longleftrightarrow>
     (case transmit E c w of (rc, resp, w1) \<Rightarrow>
        rc = CR_OK \<and> getReturnCode (bufferOf resp) = SC_SUCCESS \<and> accepts E cs w1 w')"

lemma accepts_append: "accepts E (as @ bs) w w' \<longleftrightarrow> (\<exists>w1. accepts E as w w1 \<and> accepts E bs w1 w')"
  by (induction as arbitrary: w) (auto split: prod.splits)

lemma transmitChecked_accepts:
  "transmitChecked E c w = (CR_OK, resp, w') \<longleftrightarrow> accepts E [c] w w' \<and> resp = bufferOf (fst (snd (transmit E c w)))"
  by (auto simp: transmitChecked_def Let_def split: prod.splits if_splits)

lemma transmitChecked_sm:
  "transmitChecked E c w = (rc, resp, w') \<Longrightarrow> wk_sm w' = None \<longleftrightarrow> wk_sm w = None"
  by (auto simp: transmitChecked_def transmit_def Let_def split: prod.splits if_splits option.splits)

definition chainCommands :: "asn1_lib \<Rightarrow> cvc list \<Rightarrow> bytes list" where
  "chainCommands A cs = concat (map (\<lambda>c. [setDstCommand A c, verifyCommand c]) cs)"

lemma putCertificateChain_accepts:
  "putCertificateChain E cs w = (CR_OK, w') \<Longrightarrow> accepts E (chainCommands (ce_asn1 E) cs) w w'"
proof (induction E cs w rule: putCertificateChain.induct)
  case (2 E c rest w)
  from 2(2) obtain r1 w1 r2 w2 where
    1: "transmitChecked E (setDstCommand (ce_asn1 E) c) w = (CR_OK, r1, w1)" and
    s2: "transmitChecked E (verifyCommand c) w1 = (CR_OK, r2, w2)" and
    3: "putCertificateChain E rest w2 = (CR_OK, w')"
    by (auto simp: Let_def split: prod.splits if_splits)
  have "accepts E (chainCommands (ce_asn1 E) rest) w2 w'"
    using 2(1) 1 s2 3 by (simp add: Let_def)
  with 1 s2 show ?case
    unfolding transmitChecked_accepts chainCommands_def by (auto split: prod.splits)
qed (simp add: chainCommands_def)

lemma putCertificateChain_sm:
  "putCertificateChain E cs w = (rc, w') \<Longrightarrow> wk_sm w' = None \<longleftrightarrow> wk_sm w = None"
  by (induction E cs w rule: putCertificateChain.induct)
    (auto simp: Let_def dest: transmitChecked_sm split: prod.splits if_splits)

lemma performTerminalAuthentication_accepts:
  "performTerminalAuthentication E p chr aux k sig w = (CR_OK, w') \<Longrightarrow>
   accepts E [taSetAtCommand (ce_asn1 E) p chr aux k, buildEA sig] w w'"
  unfolding performTerminalAuthentication_def Let_def
  by (auto simp: transmitChecked_accepts split: prod.splits if_splits)

lemma performTerminalAuthentication_sm:
  "performTerminalAuthentication E p chr aux k sig w = (rc, w') \<Longrightarrow> wk_sm w' = None \<longleftrightarrow> wk_sm w = None"
  by (auto simp: performTerminalAuthentication_def Let_def dest: transmitChecked_sm split: prod.splits if_splits)

lemma performChipAuthentication_accepts:
  "performChipAuthentication E G i k n t w = (CR_OK, n', t', w') \<Longrightarrow>
   accepts E [caSetAtCommand (ce_asn1 E) i, caAuthenticateCommand (ce_asn1 E) k] w w'"
  unfolding performChipAuthentication_def Let_def
  by (auto simp: transmitChecked_accepts split: prod.splits if_splits)

lemma performChipAuthentication_sm:
  "performChipAuthentication E G i k n t w = (rc, n', t', w') \<Longrightarrow> wk_sm w' = None \<longleftrightarrow> wk_sm w = None"
  by (auto simp: performChipAuthentication_def Let_def dest: transmitChecked_sm split: prod.splits if_splits)

lemma transmit_sm: "transmit E c w = (rc, resp, w') \<Longrightarrow> wk_sm w' = None \<longleftrightarrow> wk_sm w = None"
  by (auto simp: transmit_def Let_def split: prod.splits if_splits option.splits)

lemma readFileLoop_sm:
  fixes w w' :: "('c, 'x) worker"
  assumes "readFileLoop E b w = Some (rc, c, w')"
  shows "wk_sm w' = None \<longleftrightarrow> wk_sm w = None"
proof -
  have "wk_sm (snd (snd (rc, c, w'))) = None \<longleftrightarrow> wk_sm w = None"
    using assms
  proof (rule readFileLoop.raw_induct [where P = "\<lambda>E b w r. wk_sm (snd (snd r)) = None \<longleftrightarrow> wk_sm w = None", rotated])
    fix loop :: "'c card_env \<Rightarrow> bytes \<Rightarrow> ('c, 'x) worker \<Rightarrow> (CardReturnCode \<times> bytes \<times> ('c, 'x) worker) option"
    fix E :: "'c card_env" and b and w :: "('c, 'x) worker" and r
    assume ih: "\<And>E b w r. loop E b w = Some r \<Longrightarrow> wk_sm (snd (snd r)) = None \<longleftrightarrow> wk_sm w = None"
      and step: "(let (returnCode, res, w') = transmit E (buildReadBinary (length b) 0xff) w
        in if returnCode \<noteq> CR_OK then Some (CR_COMMAND_FAILED, b, w')
        else let content = b @ responseData (bufferOf res); statusCode = getReturnCode (bufferOf res)
          in if statusCode = SC_END_OF_FILE then Some (CR_OK, content, w')
             else if statusCode \<noteq> SC_SUCCESS then Some (CR_COMMAND_FAILED, content, w')
             else loop E content w') = Some r"
    show "wk_sm (snd (snd r)) = None \<longleftrightarrow> wk_sm w = None"
    proof (cases "transmit E (buildReadBinary (length b) 0xff) w")
      case (fields rc res w1)
      with step transmit_sm [OF fields] show ?thesis
        by (auto simp: Let_def dest: ih split: if_splits)
    qed
  qed
  then show ?thesis by simp
qed

lemma readFile_sm:
  "readFile E f b w = Some (rc, c, w') \<Longrightarrow> wk_sm w' = None \<longleftrightarrow> wk_sm w = None"
  by (auto simp: readFile_def Let_def dest: transmit_sm readFileLoop_sm split: prod.splits if_splits)

lemma stopSecureMessaging_state: "snd (stopSecureMessaging w) = w\<lparr>wk_sm := None\<rparr>"
  by (cases w) (simp add: stopSecureMessaging_def)

text \<open>The four stages of an execution that goes through.\<close>

lemma eac2_stages:
  assumes "DidAuthenticateEAC2_execute E G oidBytes decodeEf chain keyHex sigHex aux w = Some (r, w')"
    and "e2_code r = CR_OK"
  obtains w1 w2 w3 w4 efBytes ef info rest where
    "putCertificateChain E chain w = (CR_OK, w1)" "chain \<noteq> []"
    "performTerminalAuthentication E (oidBytes (cvc_hashOid (last chain))) (cvc_chr (last chain)) aux
       (compressEphemeralKey (completeEphemeralKey (fromHex keyHex))) (fromHex sigHex) w1 = (CR_OK, w2)"
    "readFile E efCardSecurity [] w2 = Some (CR_OK, efBytes, w3)"
    "decodeEf efBytes = Some ef" "sis_chipAuthenticationInfos ef = info # rest"
    "performChipAuthentication E G info (completeEphemeralKey (fromHex keyHex)) [] [] w3
       = (CR_OK, e2_nonceAsHex r, e2_authTokenAsHex r, w4)"
    "w' = w4\<lparr>wk_sm := None\<rparr>" "e2_efCardSecurityAsHex r = toHex efBytes"
proof -
  obtain c1 w1 where p: "putCertificateChain E chain w = (c1, w1)" by fastforce
  obtain c2 w2 where t: "performTerminalAuthentication E (oidBytes (cvc_hashOid (last chain))) (cvc_chr (last chain)) aux
       (compressEphemeralKey (completeEphemeralKey (fromHex keyHex))) (fromHex sigHex) w1 = (c2, w2)" by fastforce
  from assms p t have c: "c1 = CR_OK" "c2 = CR_OK" "chain \<noteq> []"
    by (auto simp: DidAuthenticateEAC2_execute_def eac2Failed_def Let_def split: if_splits)
  with assms p t obtain c3 efBytes w3 where f: "readFile E efCardSecurity [] w2 = Some (c3, efBytes, w3)"
    by (auto simp: DidAuthenticateEAC2_execute_def Let_def split: option.splits)
  with assms p t c have c3: "c3 = CR_OK"
    by (auto simp: DidAuthenticateEAC2_execute_def eac2Failed_def Let_def split: if_splits)
  with assms p t c f obtain ef info rest where e: "decodeEf efBytes = Some ef" "sis_chipAuthenticationInfos ef = info # rest"
    by (auto simp: DidAuthenticateEAC2_execute_def eac2Failed_def Let_def split: option.splits list.splits)
  obtain c4 n a w4 where ca: "performChipAuthentication E G info (completeEphemeralKey (fromHex keyHex)) [] [] w3
       = (c4, n, a, w4)" by (metis prod_cases4)
  have "r = \<lparr>e2_code = c4, e2_efCardSecurityAsHex = toHex efBytes, e2_nonceAsHex = n, e2_authTokenAsHex = a\<rparr>"
    "w' = (if c4 = CR_OK then snd (stopSecureMessaging w4) else w4)"
    using assms(1) p t c f c3 e ca by (simp_all add: DidAuthenticateEAC2_execute_def Let_def)
  with assms(2) p t c f c3 e ca show ?thesis
    by (intro that) (auto simp: stopSecureMessaging_state)
qed

text \<open>
  C5. The terminal is authenticated to the card before anything is read with its rights: when
  the command reports success, the card has accepted, in this order and each with the status
  9000, the reference and the signed body of every certificate of the chain, the terminal
  authentication for the last certificate with the compressed ephemeral key, and the signature;
  then EF.CardSecurity was read completely and decoded, and the card accepted chip
  authentication with the first chip authentication info and the same ephemeral key. Nothing is
  sent between these steps except the reading of the file.
\<close>

theorem eac2_success_means_accepted:
  assumes "DidAuthenticateEAC2_execute E G oidBytes decodeEf chain keyHex sigHex aux w = Some (r, w')"
    and "e2_code r = CR_OK"
  shows "\<exists>w1 w2 w3 efBytes ef info rest.
    chain \<noteq> [] \<and>
    accepts E (chainCommands (ce_asn1 E) chain @
      [taSetAtCommand (ce_asn1 E) (oidBytes (cvc_hashOid (last chain))) (cvc_chr (last chain)) aux
         (compressEphemeralKey (completeEphemeralKey (fromHex keyHex))),
       buildEA (fromHex sigHex)]) w w1 \<and>
    readFile E efCardSecurity [] w1 = Some (CR_OK, efBytes, w2) \<and>
    decodeEf efBytes = Some ef \<and> sis_chipAuthenticationInfos ef = info # rest \<and>
    accepts E [caSetAtCommand (ce_asn1 E) info,
       caAuthenticateCommand (ce_asn1 E) (completeEphemeralKey (fromHex keyHex))] w2 w3 \<and>
    w' = w3\<lparr>wk_sm := None\<rparr> \<and> e2_efCardSecurityAsHex r = toHex efBytes"
  using assms
  by (rule eac2_stages)
    (unfold accepts_append, blast dest: putCertificateChain_accepts performTerminalAuthentication_accepts
        performChipAuthentication_accepts)

lemma eac2_failure_sm:
  assumes "DidAuthenticateEAC2_execute E G oidBytes decodeEf chain keyHex sigHex aux w = Some (r, w')"
    and "e2_code r \<noteq> CR_OK"
  shows "wk_sm w' = None \<longleftrightarrow> wk_sm w = None"
  using assms
  by (auto simp: DidAuthenticateEAC2_execute_def eac2Failed_def Let_def
      dest!: putCertificateChain_sm performTerminalAuthentication_sm performChipAuthentication_sm readFile_sm
      split: prod.splits if_splits option.splits list.splits)

text \<open>
  The secure channel of PACE ends with extended access control and not before: if there is
  secure messaging, it is gone after the command exactly when the command succeeded.
\<close>

theorem eac2_ends_secure_messaging:
  assumes "DidAuthenticateEAC2_execute E G oidBytes decodeEf chain keyHex sigHex aux w = Some (r, w')"
    and "wk_sm w \<noteq> None"
  shows "wk_sm w' = None \<longleftrightarrow> e2_code r = CR_OK"
  using eac2_failure_sm [OF assms(1)] eac2_stages [OF assms(1)] assms(2) by fastforce

text \<open>
  Both encodings of the ephemeral key that servers send give the same key: with or without
  the leading 04 the uncompressed point \<open>04 x y\<close> is used for chip authentication and its
  \<open>x\<close> coordinate is the compressed key of terminal authentication.
\<close>

theorem ephemeral_key_is_normalised:
  assumes "length x = length y"
  shows "completeEphemeralKey (x @ y) = 0x04 # x @ y \<and> completeEphemeralKey (0x04 # x @ y) = 0x04 # x @ y \<and>
    compressEphemeralKey (0x04 # x @ y) = x"
  using assms by (simp add: completeEphemeralKey_def compressEphemeralKey_def mid_def) presburger

theorem ephemeral_key_is_normalised_witness:
  "compressEphemeralKey (0x04 # [1, 2] @ [3, 4]) = [1, 2]"
  using ephemeral_key_is_normalised [of "[1, 2]" "[3, 4]"] by simp

lemma hexValue_hexDigit: "n < 16 \<Longrightarrow> hexValue (hexDigit n) = Some n"
  by (auto simp: hexValue_def hexDigit_def Let_def)

lemma toHex_append [simp]: "toHex (a @ b) = toHex a @ toHex b"
  by (simp add: toHex_def)

text \<open>A byte array that is written in hexadecimal is read back from it unchanged.\<close>

theorem hex_roundtrip: "fromHex (toHex bs) = bs"
proof (induction bs rule: rev_induct)
  case (snoc b bs)
  have "unat b div 16 < 16" "unat b mod 16 < 16"
    using unat_byte_less [of b] by (linarith, simp)
  then have h: "hexValue (hexDigit (unat b div 16)) = Some (unat b div 16)"
    "hexValue (hexDigit (unat b mod 16)) = Some (unat b mod 16)"
    by (simp_all only: hexValue_hexDigit)
  have "(word_of_nat (16 * (unat b div 16) + unat b mod 16) :: byte) = b"
    by (simp only: mult_div_mod_eq) simp
  then have "16 * word_of_nat (unat b div 16) + word_of_nat (unat b mod 16) = b"
    by (simp only: of_nat_add of_nat_mult of_nat_numeral)
  then have "fromHex (toHex (bs @ [b])) = fromHex (toHex bs) @ [b]"
    by (simp add: fromHex_def toHex_def List.map_filter_def h)
  then show ?case by (simp add: snoc)
qed (simp add: fromHex_def toHex_def List.map_filter_def)

text \<open>A card that accepts everything and holds an EF.CardSecurity of one byte.\<close>

definition eac2_card :: "bytes \<Rightarrow> nat \<Rightarrow> CardReturnCode \<times> bytes option \<times> nat" where
  "eac2_card cmd n =
    (CR_OK, Some (if getINS cmd = 0xB0 then 7 # be16 (statusValue SC_END_OF_FILE)
                  else be16 (statusValue SC_SUCCESS)), Suc n)"

definition eac2_env :: "nat card_env" where
  "eac2_env = \<lparr>ce_crypto = sample_crypto, ce_asn1 = der_lib, ce_transmit = eac2_card,
     ce_destroyPaceChannel = Card_destroyPaceChannel, ce_setEidPin = Card_setEidPin\<rparr>"

definition eac2_worker :: "nat \<Rightarrow> (nat, unit) worker" where
  "eac2_worker n = \<lparr>wk_card = Some n, wk_connected = True, wk_sm = None, wk_basicReader = True,
     wk_cardInfo = CardInfo CT_EID_CARD None, wk_signals = 0\<rparr>"

definition eac2_decode :: "bytes \<Rightarrow> chip_auth_info security_infos option" where
  "eac2_decode b = Some \<lparr>sis_contentBytes = b, sis_securityInfos = [], sis_paceInfos = [],
     sis_chipAuthenticationInfos = [\<lparr>cai_protocolValueBytes = [1], cai_keyId = None\<rparr>]\<rparr>"

definition eac2_result_ok :: eac2_result where
  "eac2_result_ok = \<lparr>e2_code = CR_OK, e2_efCardSecurityAsHex = ''07'', e2_nonceAsHex = [], e2_authTokenAsHex = []\<rparr>"

lemma eac2_transmit:
  "getINS cmd \<noteq> 0xB0 \<Longrightarrow>
   transmit eac2_env cmd (eac2_worker n) = (CR_OK, Some (be16 (statusValue SC_SUCCESS)), eac2_worker (Suc n))"
  by (simp add: transmit_def eac2_worker_def eac2_env_def eac2_card_def)

lemma eac2_checked:
  "getINS cmd \<noteq> 0xB0 \<Longrightarrow>
   transmitChecked eac2_env cmd (eac2_worker n) = (CR_OK, be16 0x9000, eac2_worker (Suc n))"
  by (simp add: transmitChecked_def eac2_transmit bufferOf_def)

definition eac2_chain :: "cvc list" where
  "eac2_chain = [sample_cvc 3 1 2 0x80, sample_cvc 1 2 3 0]"

lemma eac2_sample:
  "\<exists>w'. DidAuthenticateEAC2_execute eac2_env pace_ga (\<lambda>_. [2]) eac2_decode eac2_chain ''0102'' ''03'' [] (eac2_worker 0)
    = Some (eac2_result_ok, w')"
proof -
  have e: "ce_asn1 eac2_env = der_lib" by (simp add: eac2_env_def)
  have dst: "getINS (setDstCommand der_lib c) \<noteq> 0xB0" "getINS (verifyCommand c) \<noteq> 0xB0" if "c \<in> set eac2_chain" for c
    using that by (auto simp: eac2_chain_def sample_cvc_def setDstCommand_def verifyCommand_def buildMSE_def mse_data_def
        mse_setPublicKey_def MSEBuilder_def asn1Encode_def der_lib_def der_len_def buildPSO_def)
  have chain: "putCertificateChain eac2_env eac2_chain (eac2_worker 0) = (CR_OK, eac2_worker 4)"
    using dst by (simp add: eac2_chain_def e eac2_checked numeral_2_eq_2 [symmetric])
  have ta: "performTerminalAuthentication eac2_env [2] [3] [] [1] [3] (eac2_worker 4) = (CR_OK, eac2_worker 6)"
    by (simp add: performTerminalAuthentication_def e eac2_checked taSetAtCommand_def buildEA_def buildMSE_def mse_data_def
        mse_setPublicKey_def mse_setOid_def mse_setAuxiliaryData_def mse_setEphemeralPublicKey_def MSEBuilder_def
        asn1Encode_def der_lib_def der_len_def)
  have rd: "readFile eac2_env efCardSecurity [] (eac2_worker 6) = Some (CR_OK, [7], eac2_worker 8)"
  proof -
    have sel: "transmit eac2_env (buildSelect efCardSecurity) (eac2_worker 6)
        = (CR_OK, Some (be16 (statusValue SC_SUCCESS)), eac2_worker 7)"
      by (simp add: eac2_transmit select_ins efCardSecurity_def)
    have rb: "transmit eac2_env (buildReadBinary 0 0xff) (eac2_worker 7)
        = (CR_OK, Some ([7] @ be16 (statusValue SC_END_OF_FILE)), eac2_worker 8)"
      by (simp add: transmit_def eac2_worker_def eac2_env_def eac2_card_def buildReadBinary_def)
    have "responseData ([7] @ be16 (statusValue SC_END_OF_FILE)) = [7]"
      by (rule responseData_append)
    moreover have "getReturnCode ([7] @ be16 (statusValue SC_END_OF_FILE)) = SC_END_OF_FILE"
      by (rule getReturnCode_append_status)
    ultimately have "readFileLoop eac2_env [] (eac2_worker 7) = Some (CR_OK, [7], eac2_worker 8)"
      using rb by (simp add: readFileLoop.simps [of eac2_env "[]"] bufferOf_def Let_def del: statusValue.simps append_Cons)
    from this show ?thesis
      using sel by (simp add: readFile_def hasCard_def bufferOf_def eac2_worker_def)
  qed
  have ca: "performChipAuthentication eac2_env pace_ga \<lparr>cai_protocolValueBytes = [1], cai_keyId = None\<rparr> [4, 1, 2] [] [] (eac2_worker 8)
      = (CR_OK, [], [], eac2_worker 10)"
    by (simp add: performChipAuthentication_def e eac2_checked caSetAtCommand_def caAuthenticateCommand_def buildMSE_def mse_data_def
        mse_setPrivateKey_def mse_setOid_def MSEBuilder_def buildGA_def ga_data_def GABuilder_def ga_setCaEphemeralPublicKey_def
        asn1Encode_def der_lib_def der_len_def getOctetValue_def parseGA_def pace_ga_def toHex_def)
  have "fromHex ''0102'' = [1, 2]" "fromHex ''03'' = [3]" "toHex [7] = ''07''"
    by code_simp+
  moreover have "cvc_chr (last eac2_chain) = [3]" "eac2_chain \<noteq> []"
    by (simp_all add: eac2_chain_def sample_cvc_def)
  ultimately show ?thesis
    using chain ta rd ca by (simp add: DidAuthenticateEAC2_execute_def completeEphemeralKey_def compressEphemeralKey_def
        mid_def eac2_decode_def eac2_result_ok_def stopSecureMessaging_state Let_def)
qed

theorem eac2_success_means_accepted_witness:
  "\<exists>w1. accepts eac2_env (chainCommands der_lib eac2_chain @
      [taSetAtCommand der_lib [2] [3] [] [1], buildEA [3]]) (eac2_worker 0) w1"
proof -
  obtain w' where "DidAuthenticateEAC2_execute eac2_env pace_ga (\<lambda>_. [2]) eac2_decode eac2_chain ''0102'' ''03'' [] (eac2_worker 0)
    = Some (eac2_result_ok, w')"
    using eac2_sample by blast
  from eac2_success_means_accepted [OF this] have "\<exists>w1. accepts eac2_env (chainCommands (ce_asn1 eac2_env) eac2_chain @
      [taSetAtCommand (ce_asn1 eac2_env) [2] (cvc_chr (last eac2_chain)) []
         (compressEphemeralKey (completeEphemeralKey (fromHex ''0102''))), buildEA (fromHex ''03'')]) (eac2_worker 0) w1"
    by (auto simp: eac2_result_ok_def)
  moreover have "fromHex ''0102'' = [1, 2]" "fromHex ''03'' = [3]"
    by code_simp+
  ultimately show ?thesis
    by (simp add: eac2_env_def completeEphemeralKey_def compressEphemeralKey_def mid_def)
      (simp add: eac2_chain_def sample_cvc_def)
qed

text \<open>A worker with secure messaging whose card does not answer: the command fails.\<close>

definition secured_worker :: "(nat, unit) worker" where
  "secured_worker = (eac2_worker 0)\<lparr>wk_sm := Some (newSecureMessaging [] [] [])\<rparr>"

lemma eac2_fails_on_dead_channel:
  "\<exists>w'. DidAuthenticateEAC2_execute eac2_env pace_ga (\<lambda>_. [2]) eac2_decode eac2_chain [] [] [] secured_worker
    = Some (eac2Failed CR_COMMAND_FAILED, w')"
proof -
  have "\<not> cipherInitialized [] []" by code_simp
  then have "\<exists>w'. transmit eac2_env c secured_worker = (CR_COMMAND_FAILED, None, w')" for c
    by (simp add: transmit_def secured_worker_def eac2_worker_def newSecureMessaging_def sm_encrypt_def sm_isInitialized_def)
  then obtain w1 where "transmit eac2_env (setDstCommand (ce_asn1 eac2_env) (hd eac2_chain)) secured_worker
      = (CR_COMMAND_FAILED, None, w1)"
    by blast
  then show ?thesis
    by (simp add: DidAuthenticateEAC2_execute_def eac2_chain_def transmitChecked_def)
qed

theorem eac2_ends_secure_messaging_witness:
  "\<exists>w'. DidAuthenticateEAC2_execute eac2_env pace_ga (\<lambda>_. [2]) eac2_decode eac2_chain [] [] [] secured_worker
    = Some (eac2Failed CR_COMMAND_FAILED, w') \<and> wk_sm w' \<noteq> None"
proof -
  obtain w' where w: "DidAuthenticateEAC2_execute eac2_env pace_ga (\<lambda>_. [2]) eac2_decode eac2_chain [] [] [] secured_worker
    = Some (eac2Failed CR_COMMAND_FAILED, w')"
    using eac2_fails_on_dead_channel by blast
  have "wk_sm secured_worker \<noteq> None" by (simp add: secured_worker_def)
  from eac2_ends_secure_messaging [OF w this] w show ?thesis by (auto simp: eac2Failed_def)
qed

end
