(* ===== verification/PaceWorkflow.thy ===== *)
theory PaceWorkflow
  imports CardCodes
begin

text \<open>
  The part of the workflow that asks for passwords and sends them to the card:
  src/src/core/states/CompositeStatePace.cpp with its states, CompositeStateSelectCard.cpp, the
  controller of the PIN change (src/src/core/controller/ChangePinController.cpp) and the members
  of WorkflowContext.cpp and ChangePinContext.cpp that they use, and the flags of
  CardConnection.h. A state's \<open>run\<close> is a function on the context that emits a signal, calls a
  card command and waits, waits for the user or the readers, or reaches a place that the code
  marks as unreachable. The controllers are tables from a state and a signal to the next state.
  Card commands are answered by events; what the user types are events as well. A password is a
  string, empty when it is not set. The data that PACE sends only for an authentication (CHAT and
  certificate description) is left out.
\<close>

section \<open>Context\<close>

record connection =
  cn_retryCounter :: int
  cn_isBasicReader :: bool
  cn_paceCanSuccessful :: bool
  cn_pacePinSuccessful :: bool

record workflow_context =
  wc_readerName :: string
  wc_cardConnection :: "connection option"
  wc_vanishedCount :: nat
  wc_vanishedTimer :: "int option"
  wc_can :: string
  wc_pin :: string
  wc_puk :: string
  wc_newPin :: string
  wc_establishPaceChannelType :: PacePasswordId
  wc_expectedReaderName :: string
  wc_expectedRetryCounter :: int
  wc_lastPaceResult :: CardReturnCode
  wc_status :: GlobalStatusCode
  wc_canAllowedMode :: bool

definition WorkflowContext :: "bool \<Rightarrow> workflow_context" where
  "WorkflowContext canAllowed = \<lparr>wc_readerName = [], wc_cardConnection = None, wc_vanishedCount = 0,
     wc_vanishedTimer = None, wc_can = [], wc_pin = [], wc_puk = [], wc_newPin = [],
     wc_establishPaceChannelType = PW_UNKNOWN, wc_expectedReaderName = [], wc_expectedRetryCounter = -1,
     wc_lastPaceResult = CR_OK, wc_status = GS_No_Error, wc_canAllowedMode = canAllowed\<rparr>"

definition resetPacePasswords :: "workflow_context \<Rightarrow> workflow_context" where
  "resetPacePasswords c = c\<lparr>wc_newPin := [], wc_can := [], wc_pin := [], wc_puk := []\<rparr>"

definition resetLastPaceResult :: "workflow_context \<Rightarrow> workflow_context" where
  "resetLastPaceResult c = c\<lparr>wc_lastPaceResult := CR_OK\<rparr>"

definition resetCardConnection :: "workflow_context \<Rightarrow> workflow_context" where
  "resetCardConnection c = c\<lparr>wc_cardConnection := None\<rparr>"

definition updateStatus :: "GlobalStatusCode \<Rightarrow> workflow_context \<Rightarrow> workflow_context" where
  "updateStatus pStatus c =
    (if pStatus \<noteq> GS_No_Error \<and> wc_status c = GS_No_Error then c\<lparr>wc_status := pStatus\<rparr> else c)"

definition isExpectedReader :: "workflow_context \<Rightarrow> bool" where
  "isExpectedReader c \<longleftrightarrow> wc_expectedReaderName c = wc_readerName c"

definition rememberReader :: "workflow_context \<Rightarrow> workflow_context" where
  "rememberReader c = c\<lparr>wc_expectedReaderName := wc_readerName c\<rparr>"

text \<open>The timer is its start in milliseconds; \<open>now\<close> is the current time.\<close>

definition isNpaRepositioningRequired :: "int \<Rightarrow> workflow_context \<Rightarrow> bool" where
  "isNpaRepositioningRequired now c \<longleftrightarrow>
     10 \<le> wc_vanishedCount c \<or> (case wc_vanishedTimer c of None \<Rightarrow> False | Some t \<Rightarrow> 4000 < now - t)"

definition setNpaPositionVerified :: "workflow_context \<Rightarrow> workflow_context" where
  "setNpaPositionVerified c = c\<lparr>wc_vanishedCount := 0, wc_vanishedTimer := None\<rparr>"

definition handleWrongNpaPosition :: "int \<Rightarrow> workflow_context \<Rightarrow> workflow_context" where
  "handleWrongNpaPosition now c =
    (let c = (if 0 < wc_vanishedCount c \<and> wc_vanishedTimer c = None then c\<lparr>wc_vanishedTimer := Some now\<rparr> else c)
     in resetCardConnection (c\<lparr>wc_vanishedCount := wc_vanishedCount c + 1\<rparr>))"

section \<open>States\<close>

datatype signal =
    fireContinue | fireAbort | fireRetry | fireReaderRemoved | fireNoCardConnection
  | fireForceUpdateRetryCounter | fireEnterPacePassword | fireEstablishPaceChannel
  | firePaceChannelEstablished | firePacePukEstablished | fireAbortAndUnfortunateCardPosition
  | fireEnterNewPacePin | fireInvalidPin

datatype card_command =
    UpdateRetryCounter | CreateCardConnection string | UnblockPin string
  | EstablishPaceChannel PacePasswordId string | SetEidPin string | DestroyPaceChannel

datatype outcome = Emit signal | Call card_command | WaitForReader | Unreachable

definition runMaintainCardConnection :: "workflow_context \<Rightarrow> signal \<times> workflow_context" where
  "runMaintainCardConnection c =
    (if wc_status c \<noteq> GS_No_Error then (fireAbort, c)
     else
       let last = wc_lastPaceResult c;
           connected = (\<lambda>c. (if wc_cardConnection c = None then fireNoCardConnection else fireContinue, c))
       in if last \<in> {CR_CANCELLATION_BY_USER, CR_PUK_INOPERATIVE, CR_INPUT_TIME_OUT, CR_UNKNOWN, CR_UNDEFINED,
              CR_COMMAND_FAILED, CR_PROTOCOL_ERROR, CR_UNEXPECTED_TRANSMIT_STATUS}
          then (fireAbort, updateStatus (toGlobalStatus last) c)
       else if last \<in> {CR_INVALID_CAN, CR_INVALID_PIN, CR_INVALID_PIN_2, CR_INVALID_PIN_3, CR_INVALID_PUK,
              CR_NEW_PIN_MISMATCH, CR_NEW_PIN_INVALID_LENGTH, CR_PIN_NOT_BLOCKED, CR_PIN_BLOCKED}
          then (if wc_cardConnection c = None then fireNoCardConnection else fireForceUpdateRetryCounter,
                resetPacePasswords c)
       else if last \<in> {CR_RETRY_ALLOWED, CR_CARD_NOT_FOUND}
          then connected (resetLastPaceResult (resetCardConnection c))
       else if last = CR_OK_PUK then (fireForceUpdateRetryCounter, resetLastPaceResult c)
       else connected c)"

definition runVerifyRetryCounter :: "workflow_context \<Rightarrow> signal \<times> workflow_context" where
  "runVerifyRetryCounter c =
    (case wc_cardConnection c of
       None \<Rightarrow> (fireAbort, c)
     | Some cn \<Rightarrow>
        let current = cn_retryCounter cn;
            c = (if \<not> isExpectedReader c \<or> wc_expectedRetryCounter c \<noteq> current
                 then (rememberReader (resetPacePasswords c))\<lparr>wc_expectedRetryCounter := current\<rparr> else c);
            c = (if wc_expectedRetryCounter c = -1
                 then (rememberReader c)\<lparr>wc_expectedRetryCounter := current\<rparr> else c)
        in (fireContinue, c))"

text \<open>\<open>None\<close> when the CAN was already successful on this connection.\<close>

definition requestPaceCanIfStillRequired :: "connection \<Rightarrow> workflow_context \<Rightarrow> signal option \<times> workflow_context" where
  "requestPaceCanIfStillRequired cn c =
    (let c = c\<lparr>wc_establishPaceChannelType := PACE_CAN\<rparr>
     in if \<not> cn_paceCanSuccessful cn
        then (if wc_can c = [] then (Some fireEnterPacePassword, c) else (Some fireEstablishPaceChannel, c))
        else (None, c))"

definition pinAllowed :: "connection \<Rightarrow> workflow_context \<Rightarrow> outcome \<times> workflow_context" where
  "pinAllowed cn c =
    (let c = c\<lparr>wc_establishPaceChannelType := PACE_PIN\<rparr>
     in if \<not> cn_pacePinSuccessful cn
        then (if wc_pin c = [] then (Emit fireEnterPacePassword, c) else (Emit fireEstablishPaceChannel, c))
        else (Unreachable, c))"

definition runPreparePace :: "workflow_context \<Rightarrow> outcome \<times> workflow_context" where
  "runPreparePace c =
    (case wc_cardConnection c of
       None \<Rightarrow> (Emit fireAbort, c)
     | Some cn \<Rightarrow>
        if wc_canAllowedMode c then
          (case requestPaceCanIfStillRequired cn c of
             (None, c) \<Rightarrow> (Emit fireContinue, c)
           | (Some s, c) \<Rightarrow> (Emit s, c))
        else if cn_retryCounter cn = 0 then
          let c = c\<lparr>wc_establishPaceChannelType := PACE_PUK\<rparr>
          in if wc_puk c = [] then (Emit fireEnterPacePassword, c) else (Emit fireEstablishPaceChannel, c)
        else if cn_retryCounter cn = 1 then
          (case requestPaceCanIfStillRequired cn c of
             (None, c) \<Rightarrow> pinAllowed cn c
           | (Some s, c) \<Rightarrow> (Emit s, c))
        else pinAllowed cn c)"

definition passwordFor :: "PacePasswordId \<Rightarrow> workflow_context \<Rightarrow> string" where
  "passwordFor pPasswordId c =
    (case pPasswordId of PACE_CAN \<Rightarrow> wc_can c | PACE_PIN \<Rightarrow> wc_pin c | PACE_PUK \<Rightarrow> wc_puk c | _ \<Rightarrow> [])"

text \<open>The last component is the member \<open>mPasswordId\<close> of the state.\<close>

definition runEstablishPaceChannel ::
  "workflow_context \<Rightarrow> PacePasswordId \<Rightarrow> outcome \<times> workflow_context \<times> PacePasswordId" where
  "runEstablishPaceChannel c mPasswordId =
    (case wc_cardConnection c of
       None \<Rightarrow> (Emit fireAbort, resetLastPaceResult c, mPasswordId)
     | Some cn \<Rightarrow>
        let mPasswordId = wc_establishPaceChannelType c;
            c = c\<lparr>wc_establishPaceChannelType := PW_UNKNOWN\<rparr>;
            password = passwordFor mPasswordId c
        in if password = [] \<and> cn_isBasicReader cn
           then (Emit fireAbort, resetLastPaceResult (resetPacePasswords c), mPasswordId)
           else if mPasswordId = PACE_PUK then (Call (UnblockPin password), c, mPasswordId)
           else (Call (EstablishPaceChannel mPasswordId password), c, mPasswordId))"

definition handleNpaPosition :: "int \<Rightarrow> CardReturnCode \<Rightarrow> workflow_context \<Rightarrow> workflow_context" where
  "handleNpaPosition now pReturnCode c =
    (if pReturnCode = CR_CARD_NOT_FOUND \<or> pReturnCode = CR_RETRY_ALLOWED then handleWrongNpaPosition now c
     else setNpaPositionVerified c)"

definition onEstablishConnectionDone ::
  "int \<Rightarrow> PacePasswordId \<Rightarrow> CardReturnCode \<Rightarrow> workflow_context \<Rightarrow> signal \<times> workflow_context" where
  "onEstablishConnectionDone now mPasswordId returnCode c =
    (let c = handleNpaPosition now returnCode (c\<lparr>wc_lastPaceResult := returnCode\<rparr>);
         c = (if mPasswordId = PACE_PIN \<and> returnCode = CR_OK then c\<lparr>wc_expectedRetryCounter := 3\<rparr>
              else if mPasswordId = PACE_PUK \<and> returnCode = CR_OK
              then (resetPacePasswords c)\<lparr>wc_expectedRetryCounter := -1\<rparr> else c)
     in if returnCode = CR_OK then
          if mPasswordId = PACE_PIN \<or> mPasswordId = PACE_CAN \<and> wc_canAllowedMode c
          then (firePaceChannelEstablished, c)
          else if mPasswordId = PACE_PUK then (firePacePukEstablished, c\<lparr>wc_lastPaceResult := CR_OK_PUK\<rparr>)
          else (fireContinue, c)
        else if returnCode = CR_PUK_INOPERATIVE \<or> returnCode = CR_CANCELLATION_BY_USER
        then (fireAbort, updateStatus (toGlobalStatus returnCode) c)
        else if returnCode = CR_INVALID_PIN then
          (fireAbort, c\<lparr>wc_lastPaceResult :=
             (case wc_cardConnection c of None \<Rightarrow> CR_INVALID_PIN
              | Some cn \<Rightarrow> if cn_retryCounter cn = 2 then CR_INVALID_PIN_2
                         else if cn_retryCounter cn = 1 then CR_INVALID_PIN_3 else CR_INVALID_PIN)\<rparr>)
        else if isNpaRepositioningRequired now c then (fireAbortAndUnfortunateCardPosition, c)
        else (fireAbort, c))"

section \<open>Selection of reader and card\<close>

datatype plug_in_type = PT_UNKNOWN | PCSC_READER | BLUETOOTH_READER | NFC | REMOTE | OMAPI

record reader_info =
  ri_name :: string
  ri_plugInType :: plug_in_type
  ri_connected :: bool
  ri_hasEidCard :: bool
  ri_basicReader :: bool
  ri_retryCounter :: int
  ri_pinDeactivated :: bool
  ri_sufficientApduLength :: bool

definition requiresCard :: "plug_in_type \<Rightarrow> bool" where
  "requiresCard t \<longleftrightarrow> t = PCSC_READER \<or> t = REMOTE \<or> t = OMAPI"

definition isSelectable :: "reader_info \<Rightarrow> bool" where
  "isSelectable i \<longleftrightarrow> ri_connected i \<and> (\<not> requiresCard (ri_plugInType i) \<or> ri_hasEidCard i)"

definition selectReader :: "reader_info list \<Rightarrow> workflow_context \<Rightarrow> outcome \<times> workflow_context" where
  "selectReader readers c =
    (case filter isSelectable readers of
       [] \<Rightarrow> (WaitForReader, c)
     | i # _ \<Rightarrow> (Emit fireContinue, c\<lparr>wc_readerName := ri_name i\<rparr>))"

text \<open>A reader that is not in the list has no card.\<close>

definition connectCard :: "reader_info list \<Rightarrow> workflow_context \<Rightarrow> outcome" where
  "connectCard readers c =
    (case find (\<lambda>i. ri_name i = wc_readerName c) readers of
       None \<Rightarrow> WaitForReader
     | Some i \<Rightarrow>
         if ri_hasEidCard i \<and> ri_sufficientApduLength i \<and> (\<not> ri_pinDeactivated i \<or> wc_canAllowedMode c)
         then Call (CreateCardConnection (ri_name i)) else WaitForReader)"

section \<open>The composite state PACE\<close>

datatype pace_state =
    MaintainCardConnection | ClearPacePasswordsOnError | SelectReader | ConnectCard | UpdateRetryCounterState
  | VerifyRetryCounter | PreparePace | UnfortunateCardPosition | EnterPacePassword | EstablishPaceChannelState
  | ClearPacePasswordsBeforeDestroy | DestroyPace

datatype pace_next = Go pace_state | Leave signal

text \<open>
  The transitions of CompositeStatePace and of CompositeStateSelectCard, whose initial state is
  the selection of the reader; \<open>Leave\<close> is a signal of the composite state itself.
\<close>

definition paceTable :: "((pace_state \<times> signal) \<times> pace_next) list" where
  "paceTable =
    [((MaintainCardConnection, fireContinue), Go VerifyRetryCounter),
     ((MaintainCardConnection, fireNoCardConnection), Go SelectReader),
     ((MaintainCardConnection, fireForceUpdateRetryCounter), Go UpdateRetryCounterState),
     ((MaintainCardConnection, fireAbort), Go ClearPacePasswordsOnError),
     ((ClearPacePasswordsOnError, fireContinue), Leave fireAbort),
     ((ClearPacePasswordsOnError, fireAbort), Leave fireAbort),
     ((SelectReader, fireRetry), Go SelectReader),
     ((SelectReader, fireContinue), Go ConnectCard),
     ((SelectReader, fireAbort), Go MaintainCardConnection),
     ((ConnectCard, fireRetry), Go SelectReader),
     ((ConnectCard, fireReaderRemoved), Go SelectReader),
     ((ConnectCard, fireContinue), Go UpdateRetryCounterState),
     ((ConnectCard, fireAbort), Go MaintainCardConnection),
     ((UpdateRetryCounterState, fireContinue), Go VerifyRetryCounter),
     ((UpdateRetryCounterState, fireAbort), Go MaintainCardConnection),
     ((VerifyRetryCounter, fireContinue), Go PreparePace),
     ((VerifyRetryCounter, fireAbort), Go MaintainCardConnection),
     ((PreparePace, fireEnterPacePassword), Go EnterPacePassword),
     ((PreparePace, fireEstablishPaceChannel), Go EstablishPaceChannelState),
     ((PreparePace, fireContinue), Go MaintainCardConnection),
     ((PreparePace, fireAbort), Go MaintainCardConnection),
     ((EnterPacePassword, fireContinue), Go EstablishPaceChannelState),
     ((EnterPacePassword, fireAbort), Go MaintainCardConnection),
     ((EstablishPaceChannelState, fireContinue), Go MaintainCardConnection),
     ((EstablishPaceChannelState, firePaceChannelEstablished), Leave firePaceChannelEstablished),
     ((EstablishPaceChannelState, firePacePukEstablished), Go ClearPacePasswordsBeforeDestroy),
     ((EstablishPaceChannelState, fireAbortAndUnfortunateCardPosition), Go UnfortunateCardPosition),
     ((EstablishPaceChannelState, fireAbort), Go MaintainCardConnection),
     ((UnfortunateCardPosition, fireContinue), Go MaintainCardConnection),
     ((UnfortunateCardPosition, fireAbort), Go MaintainCardConnection),
     ((ClearPacePasswordsBeforeDestroy, fireContinue), Go DestroyPace),
     ((ClearPacePasswordsBeforeDestroy, fireAbort), Go DestroyPace),
     ((DestroyPace, fireContinue), Leave firePacePukEstablished),
     ((DestroyPace, fireAbort), Leave fireAbort)]"

definition paceTransition :: "pace_state \<Rightarrow> signal \<Rightarrow> pace_next option" where
  "paceTransition p s = map_of paceTable (p, s)"

section \<open>The controller of the PIN change\<close>

datatype change_pin_state =
    StatePace pace_state | PrepareChangePin | EnterNewPacePin | ChangePin | ClearPacePasswords
  | DestroyPaceFinal | UpdateRetryCounterFinal | CleanUpReaderManager | Final | Finished

definition changePinTable :: "((change_pin_state \<times> signal) \<times> change_pin_state) list" where
  "changePinTable =
    [((PrepareChangePin, fireContinue), ChangePin),
     ((PrepareChangePin, fireEnterNewPacePin), EnterNewPacePin),
     ((PrepareChangePin, fireAbort), StatePace MaintainCardConnection),
     ((EnterNewPacePin, fireContinue), ChangePin),
     ((EnterNewPacePin, fireAbort), StatePace MaintainCardConnection),
     ((ChangePin, fireContinue), DestroyPaceFinal),
     ((ChangePin, fireInvalidPin), ClearPacePasswords),
     ((ChangePin, fireAbort), StatePace MaintainCardConnection),
     ((DestroyPaceFinal, fireContinue), ClearPacePasswords),
     ((DestroyPaceFinal, fireAbort), ClearPacePasswords),
     ((ClearPacePasswords, fireContinue), UpdateRetryCounterFinal),
     ((ClearPacePasswords, fireAbort), UpdateRetryCounterFinal),
     ((UpdateRetryCounterFinal, fireContinue), CleanUpReaderManager),
     ((UpdateRetryCounterFinal, fireAbort), CleanUpReaderManager),
     ((CleanUpReaderManager, fireContinue), Final),
     ((CleanUpReaderManager, fireAbort), Final),
     ((Final, fireContinue), Finished)]"

definition changePinTransition :: "change_pin_state \<Rightarrow> signal \<Rightarrow> change_pin_state option" where
  "changePinTransition st s =
    (case st of
       StatePace p \<Rightarrow>
        (case paceTransition p s of
           None \<Rightarrow> None
         | Some (Go p') \<Rightarrow> Some (StatePace p')
         | Some (Leave out) \<Rightarrow>
             if out = firePaceChannelEstablished then Some PrepareChangePin
             else if out = firePacePukEstablished \<or> out = fireAbort then Some ClearPacePasswords
             else None)
     | _ \<Rightarrow> map_of changePinTable (st, s))"

definition runUpdateRetryCounter :: "workflow_context \<Rightarrow> outcome" where
  "runUpdateRetryCounter c = (if wc_cardConnection c = None then Emit fireAbort else Call UpdateRetryCounter)"

definition onUpdateRetryCounterDone :: "CardReturnCode \<Rightarrow> workflow_context \<Rightarrow> signal \<times> workflow_context" where
  "onUpdateRetryCounterDone rc c = (if rc \<noteq> CR_OK then (fireAbort, resetCardConnection c) else (fireContinue, c))"

definition runPrepareChangePin :: "workflow_context \<Rightarrow> signal" where
  "runPrepareChangePin c = (if wc_newPin c = [] then fireEnterNewPacePin else fireContinue)"

text \<open>The connection is used without a check.\<close>

definition runChangePin :: "workflow_context \<Rightarrow> outcome" where
  "runChangePin c = (if wc_cardConnection c = None then Unreachable else Call (SetEidPin (wc_newPin c)))"

definition onSetEidPinDone :: "CardReturnCode \<Rightarrow> workflow_context \<Rightarrow> signal \<times> workflow_context" where
  "onSetEidPinDone returnCode c =
    (let c = c\<lparr>wc_lastPaceResult := returnCode\<rparr>
     in if returnCode = CR_OK then (fireContinue, c)
        else if returnCode = CR_CANCELLATION_BY_USER then (fireAbort, updateStatus (toGlobalStatus returnCode) c)
        else if returnCode = CR_NEW_PIN_MISMATCH then (fireInvalidPin, updateStatus (toGlobalStatus returnCode) c)
        else (fireAbort, c))"

definition runDestroyPace :: "workflow_context \<Rightarrow> outcome" where
  "runDestroyPace c = (if wc_cardConnection c = None then Unreachable else Call DestroyPaceChannel)"

definition runCleanUpReaderManager :: "workflow_context \<Rightarrow> workflow_context" where
  "runCleanUpReaderManager c = resetCardConnection c"

fun runPaceState ::
  "pace_state \<Rightarrow> reader_info list \<Rightarrow> workflow_context \<Rightarrow> PacePasswordId \<Rightarrow> outcome \<times> workflow_context \<times> PacePasswordId"
where
  "runPaceState MaintainCardConnection rs c p = (case runMaintainCardConnection c of (s, c) \<Rightarrow> (Emit s, c, p))"
| "runPaceState ClearPacePasswordsOnError rs c p = (Emit fireContinue, resetPacePasswords c, p)"
| "runPaceState SelectReader rs c p = (case selectReader rs c of (out, c) \<Rightarrow> (out, c, p))"
| "runPaceState ConnectCard rs c p = (connectCard rs c, c, p)"
| "runPaceState UpdateRetryCounterState rs c p = (runUpdateRetryCounter c, c, p)"
| "runPaceState VerifyRetryCounter rs c p = (case runVerifyRetryCounter c of (s, c) \<Rightarrow> (Emit s, c, p))"
| "runPaceState PreparePace rs c p = (case runPreparePace c of (out, c) \<Rightarrow> (out, c, p))"
| "runPaceState UnfortunateCardPosition rs c p = (Emit fireContinue, setNpaPositionVerified c, p)"
| "runPaceState EnterPacePassword rs c p = (Emit fireContinue, c, p)"
| "runPaceState EstablishPaceChannelState rs c p = runEstablishPaceChannel c p"
| "runPaceState ClearPacePasswordsBeforeDestroy rs c p = (Emit fireContinue, resetPacePasswords c, p)"
| "runPaceState DestroyPace rs c p = (runDestroyPace c, c, p)"

fun runState ::
  "change_pin_state \<Rightarrow> reader_info list \<Rightarrow> workflow_context \<Rightarrow> PacePasswordId \<Rightarrow> outcome \<times> workflow_context \<times> PacePasswordId"
where
  "runState (StatePace s) rs c p = runPaceState s rs c p"
| "runState PrepareChangePin rs c p = (Emit (runPrepareChangePin c), c, p)"
| "runState EnterNewPacePin rs c p = (Emit fireContinue, c, p)"
| "runState ChangePin rs c p = (runChangePin c, c, p)"
| "runState ClearPacePasswords rs c p = (Emit fireContinue, resetPacePasswords c, p)"
| "runState DestroyPaceFinal rs c p = (runDestroyPace c, c, p)"
| "runState UpdateRetryCounterFinal rs c p = (runUpdateRetryCounter c, c, p)"
| "runState CleanUpReaderManager rs c p = (Emit fireContinue, runCleanUpReaderManager c, p)"
| "runState Final rs c p = (Emit fireContinue, c, p)"
| "runState Finished rs c p = (WaitForReader, c, p)"

section \<open>The running workflow\<close>

text \<open>
  A state is entered, runs when it is approved, and may then wait for an answer. \<open>Undefined\<close>
  is behaviour that the language does not define: the marked places and a null pointer. The final
  state adds its transitions when it runs.
\<close>

datatype phase = Entered | Running | Undefined

record workflow =
  wf_state :: change_pin_state
  wf_phase :: phase
  wf_context :: workflow_context
  wf_passwordId :: PacePasswordId
  wf_readers :: "reader_info list"

definition initialWorkflow :: "bool \<Rightarrow> workflow" where
  "initialWorkflow canAllowed = \<lparr>wf_state = StatePace MaintainCardConnection, wf_phase = Entered,
     wf_context = WorkflowContext canAllowed, wf_passwordId = PW_UNKNOWN, wf_readers = []\<rparr>"

datatype event =
    Approve | Cancel | AbortCardSelection | PlugInTypesChanged
  | ReadersChanged "reader_info list" | CardInserted "reader_info list" | ReaderRemoved string "reader_info list"
  | ReaderDeviceError GlobalStatusCode | CardConnectionCreated "connection option" | RetryCounterChanged int
  | UpdateRetryCounterDone CardReturnCode | EstablishConnectionDone int CardReturnCode
  | SetEidPinDone CardReturnCode | DestroyPaceDone
  | SetCan string | SetPin string | SetPuk string | SetNewPin string

definition emit :: "signal \<Rightarrow> workflow \<Rightarrow> workflow" where
  "emit s m = (case changePinTransition (wf_state m) s of
       None \<Rightarrow> m
     | Some st \<Rightarrow> m\<lparr>wf_state := st, wf_phase := Entered\<rparr>)"

definition proceed :: "outcome \<times> workflow_context \<times> PacePasswordId \<Rightarrow> workflow \<Rightarrow> workflow" where
  "proceed r m = (case r of (out, c, p) \<Rightarrow>
     let m = m\<lparr>wf_context := c, wf_passwordId := p, wf_phase := Running\<rparr>
     in (case out of
           Emit s \<Rightarrow> emit s m
         | Unreachable \<Rightarrow> m\<lparr>wf_phase := Undefined\<rparr>
         | _ \<Rightarrow> m))"

definition answer :: "signal \<times> workflow_context \<Rightarrow> workflow \<Rightarrow> workflow" where
  "answer r m = emit (fst r) (m\<lparr>wf_context := snd r\<rparr>)"

text \<open>What the connection remembers of a finished PACE command.\<close>

definition paceCommandDone :: "PacePasswordId \<Rightarrow> CardReturnCode \<Rightarrow> connection \<Rightarrow> connection" where
  "paceCommandDone pid rc cn =
    (if pid = PACE_CAN then cn\<lparr>cn_paceCanSuccessful := (rc = CR_OK)\<rparr>
     else if pid = PACE_PIN then
       (let cn = cn\<lparr>cn_pacePinSuccessful := (rc = CR_OK)\<rparr>
        in if rc \<noteq> CR_OK then cn\<lparr>cn_paceCanSuccessful := False\<rparr> else cn)
     else cn)"

definition onUserCancelled :: "workflow \<Rightarrow> workflow" where
  "onUserCancelled m =
    (let c = wf_context m;
         c = (if wf_state m = StatePace EstablishPaceChannelState
              then c\<lparr>wc_lastPaceResult := CR_CANCELLATION_BY_USER\<rparr> else c)
     in emit fireAbort (m\<lparr>wf_context := updateStatus GS_Workflow_Cancellation_By_User c\<rparr>))"

definition approve :: "workflow \<Rightarrow> workflow" where
  "approve m = (if wf_phase m = Entered
     then proceed (runState (wf_state m) (wf_readers m) (wf_context m) (wf_passwordId m)) m else m)"

text \<open>The events of the readers and of the card selection.\<close>

definition readerEvent :: "event \<Rightarrow> workflow \<Rightarrow> workflow" where
  "readerEvent e m =
    (let st = wf_state m; running = (wf_phase m = Running);
         changed = (\<lambda>rs. m\<lparr>wf_readers := rs\<rparr>);
         again = (\<lambda>m. if running \<and> (st = StatePace SelectReader)
                      then proceed (runState st (wf_readers m) (wf_context m) (wf_passwordId m)) m else m)
     in (case e of
           ReadersChanged rs \<Rightarrow> again (changed rs)
         | CardInserted rs \<Rightarrow>
             if running \<and> st = StatePace ConnectCard
             then proceed (runState st rs (wf_context m) (wf_passwordId m)) (changed rs) else again (changed rs)
         | ReaderRemoved n rs \<Rightarrow>
             if running \<and> st = StatePace ConnectCard
             then (if n = wc_readerName (wf_context m) then emit fireReaderRemoved (changed rs) else changed rs)
             else again (changed rs)
         | AbortCardSelection \<Rightarrow>
             if st = StatePace SelectReader \<or> st = StatePace ConnectCard then emit fireRetry m else m
         | PlugInTypesChanged \<Rightarrow>
             if st = StatePace SelectReader \<or> st = StatePace ConnectCard then emit fireRetry m else m
         | ReaderDeviceError g \<Rightarrow>
             if running \<and> st = StatePace SelectReader \<and> g \<noteq> GS_No_Error
                \<and> g \<noteq> GS_Workflow_Reader_Device_Scan_Error
             then emit fireAbort (m\<lparr>wf_context := updateStatus g (wf_context m)\<rparr>) else m
         | CardConnectionCreated cn \<Rightarrow>
             if running \<and> st = StatePace ConnectCard
             then (case cn of None \<Rightarrow> emit fireAbort m
                   | Some _ \<Rightarrow> emit fireContinue (m\<lparr>wf_context := (wf_context m)\<lparr>wc_cardConnection := cn\<rparr>\<rparr>))
             else m
         | _ \<Rightarrow> m))"

text \<open>The answers of the card commands.\<close>

definition commandEvent :: "event \<Rightarrow> workflow \<Rightarrow> workflow" where
  "commandEvent e m =
    (let st = wf_state m; c = wf_context m; running = (wf_phase m = Running)
     in (case e of
           UpdateRetryCounterDone rc \<Rightarrow>
             if running \<and> (st = StatePace UpdateRetryCounterState \<or> st = UpdateRetryCounterFinal)
             then answer (onUpdateRetryCounterDone rc c) m else m
         | EstablishConnectionDone now rc \<Rightarrow>
             if running \<and> st = StatePace EstablishPaceChannelState
             then answer (onEstablishConnectionDone now (wf_passwordId m) rc
                    (c\<lparr>wc_cardConnection := map_option (paceCommandDone (wf_passwordId m) rc) (wc_cardConnection c)\<rparr>)) m
             else m
         | SetEidPinDone rc \<Rightarrow> if running \<and> st = ChangePin then answer (onSetEidPinDone rc c) m else m
         | DestroyPaceDone \<Rightarrow>
             if running \<and> (st = StatePace DestroyPace \<or> st = DestroyPaceFinal) then emit fireContinue m else m
         | _ \<Rightarrow> m))"

fun contextEvent :: "event \<Rightarrow> workflow_context \<Rightarrow> workflow_context" where
  "contextEvent (SetCan s) c = c\<lparr>wc_can := s\<rparr>"
| "contextEvent (SetPin s) c = c\<lparr>wc_pin := s\<rparr>"
| "contextEvent (SetPuk s) c = c\<lparr>wc_puk := s\<rparr>"
| "contextEvent (SetNewPin s) c = c\<lparr>wc_newPin := s\<rparr>"
| "contextEvent (RetryCounterChanged n) c =
     c\<lparr>wc_cardConnection := map_option (\<lambda>cn. cn\<lparr>cn_retryCounter := n\<rparr>) (wc_cardConnection c)\<rparr>"
| "contextEvent _ c = c"

definition workflow_step :: "workflow \<Rightarrow> event \<Rightarrow> workflow" where
  "workflow_step m e =
    (if wf_phase m = Undefined \<or> wf_state m = Finished then m
     else if e = Approve then approve m
     else if e = Cancel then onUserCancelled m
     else commandEvent e (readerEvent e (m\<lparr>wf_context := contextEvent e (wf_context m)\<rparr>)))"

text \<open>The card command that a step calls.\<close>

definition calledCommand :: "workflow \<Rightarrow> event \<Rightarrow> card_command option" where
  "calledCommand m e =
    (if wf_phase m = Undefined \<or> wf_state m = Finished then None
     else
       let called = (\<lambda>rs. case fst (runState (wf_state m) rs (wf_context m) (wf_passwordId m)) of
                            Call cmd \<Rightarrow> Some cmd | _ \<Rightarrow> None)
       in (case e of
             Approve \<Rightarrow> if wf_phase m = Entered then called (wf_readers m) else None
           | CardInserted rs \<Rightarrow>
               if wf_phase m = Running \<and> wf_state m = StatePace ConnectCard then called rs else None
           | _ \<Rightarrow> None))"

end
