(* ===== verification/WorkflowSafety.thy ===== *)
theory WorkflowSafety
  imports PaceWorkflow
begin

text \<open>
  Properties of the PIN change workflow of the theory PaceWorkflow: what happens to passwords
  after a refusal and after a cancellation, which password the card is asked for, and that a
  cancelled workflow comes to its end.
\<close>

section \<open>Vocabulary\<close>

definition noPasswords :: "workflow_context \<Rightarrow> bool" where
  "noPasswords c \<longleftrightarrow> wc_can c = [] \<and> wc_pin c = [] \<and> wc_puk c = [] \<and> wc_newPin c = []"

fun entersPassword :: "event \<Rightarrow> bool" where
  "entersPassword (SetCan _) = True"
| "entersPassword (SetPin _) = True"
| "entersPassword (SetPuk _) = True"
| "entersPassword (SetNewPin _) = True"
| "entersPassword _ = False"

text \<open>The password a card command carries.\<close>

fun passwordOf :: "card_command \<Rightarrow> string option" where
  "passwordOf (UnblockPin s) = Some s"
| "passwordOf (EstablishPaceChannel _ s) = Some s"
| "passwordOf (SetEidPin s) = Some s"
| "passwordOf _ = None"

text \<open>The workflows that events can reach when each event is admitted in its state.\<close>

inductive reachable :: "(workflow \<Rightarrow> event \<Rightarrow> bool) \<Rightarrow> bool \<Rightarrow> workflow \<Rightarrow> bool" for admits canAllowed where
  initial: "reachable admits canAllowed (initialWorkflow canAllowed)"
| step: "reachable admits canAllowed m \<Longrightarrow> admits m e \<Longrightarrow> reachable admits canAllowed (workflow_step m e)"

named_theorems wf_defs "the definitions of the states' code"

lemmas [wf_defs] = runMaintainCardConnection_def runVerifyRetryCounter_def requestPaceCanIfStillRequired_def
  pinAllowed_def runPreparePace_def runEstablishPaceChannel_def selectReader_def connectCard_def
  runUpdateRetryCounter_def runPrepareChangePin_def runChangePin_def runDestroyPace_def
  runCleanUpReaderManager_def resetPacePasswords_def resetLastPaceResult_def resetCardConnection_def
  updateStatus_def rememberReader_def setNpaPositionVerified_def handleWrongNpaPosition_def
  handleNpaPosition_def Let_def

text \<open>The states after a state's signal.\<close>

lemma emit_None [simp]: "changePinTransition (wf_state m) s = None \<Longrightarrow> emit s m = m"
  by (simp add: emit_def)

lemma emit_Some: "changePinTransition (wf_state m) s = Some st \<Longrightarrow> emit s m = m\<lparr>wf_state := st, wf_phase := Entered\<rparr>"
  by (simp add: emit_def)

lemma emit_context [simp]: "wf_context (emit s m) = wf_context m"
  by (simp add: emit_def split: option.split)

lemma emit_undefined [simp]: "wf_phase m \<noteq> Undefined \<Longrightarrow> wf_phase (emit s m) \<noteq> Undefined"
  by (simp add: emit_def split: option.split)

lemmas transition_simps = changePinTransition_def paceTransition_def paceTable_def changePinTable_def

section \<open>Refused passwords\<close>

lemma noPasswords_run: "noPasswords c \<Longrightarrow> noPasswords (fst (snd (runState st rs c p)))"
proof (cases st)
  case (StatePace q)
  assume "noPasswords c"
  with StatePace show ?thesis
    by (cases q) (auto simp: noPasswords_def wf_defs split: option.split list.split)
qed (simp_all add: noPasswords_def wf_defs)

lemma noPasswords_done:
  "noPasswords c \<Longrightarrow> noPasswords (snd (onEstablishConnectionDone now p rc c))"
  by (auto simp: noPasswords_def wf_defs onEstablishConnectionDone_def split: option.split)

definition clearing :: "workflow \<Rightarrow> bool" where
  "clearing m \<longleftrightarrow>
     (wf_phase m = Entered \<and>
      (wf_state m = StatePace MaintainCardConnection \<and>
         (wc_status (wf_context m) \<noteq> GS_No_Error \<or> equalsWrongPacePassword (wc_lastPaceResult (wf_context m)))
       \<or> wf_state m = StatePace ClearPacePasswordsOnError \<or> wf_state m = ClearPacePasswords))
     \<or> wf_state m \<in> {UpdateRetryCounterFinal, CleanUpReaderManager, Final, Finished}"

definition refused :: "workflow \<Rightarrow> bool" where
  "refused m \<longleftrightarrow> wf_phase m = Undefined \<or> noPasswords (wf_context m) \<or> clearing m"

lemma proceed_context: "wf_context (proceed r m) = fst (snd r)"
  by (auto simp: proceed_def Let_def split: prod.split outcome.split)

lemma refusal_maintained:
  assumes "wc_status c \<noteq> GS_No_Error \<or> equalsWrongPacePassword (wc_lastPaceResult c)"
  shows "fst (runMaintainCardConnection c) = fireAbort \<or> noPasswords (snd (runMaintainCardConnection c))"
  using assms
  by (cases "wc_lastPaceResult c") (simp_all add: wf_defs noPasswords_def equalsWrongPacePassword_def)

lemma refused_approve:
  assumes "refused m"
  shows "refused (approve m)"
proof (cases "noPasswords (wf_context m)")
  case True
  then show ?thesis by (simp add: refused_def approve_def proceed_context noPasswords_run)
next
  case False
  with assms have *: "wf_phase m = Undefined \<or> clearing m"
    by (simp add: refused_def)
  show ?thesis
  proof (cases "wf_state m")
    case (StatePace q)
    with * refusal_maintained [of "wf_context m"] show ?thesis
      by (cases q; cases "runMaintainCardConnection (wf_context m)")
        (auto simp: refused_def approve_def clearing_def proceed_def emit_def transition_simps
          noPasswords_def resetPacePasswords_def)
  qed (use * in \<open>auto simp: refused_def approve_def clearing_def proceed_def emit_def transition_simps
          noPasswords_def resetPacePasswords_def runUpdateRetryCounter_def\<close>)
qed

lemma refused_cancelled:
  assumes "refused m" and defined: "wf_phase m \<noteq> Undefined"
  shows "refused (onUserCancelled m)"
proof (cases "noPasswords (wf_context m)")
  case True
  then show ?thesis by (auto simp: refused_def onUserCancelled_def noPasswords_def updateStatus_def Let_def)
next
  case False
  with assms have "clearing m"
    by (simp add: refused_def)
  with defined show ?thesis
    by (auto simp: refused_def onUserCancelled_def clearing_def emit_def transition_simps Let_def)
qed

text \<open>The readers and the card selection only act in the two states of the selection.\<close>

lemma reader_event_kept:
  "wf_state m \<noteq> StatePace SelectReader \<Longrightarrow> wf_state m \<noteq> StatePace ConnectCard \<Longrightarrow>
   \<exists>rs. readerEvent e m = m\<lparr>wf_readers := rs\<rparr>"
  by (cases e) (auto simp: readerEvent_def Let_def intro: exI [of _ "wf_readers m"])

lemma reader_event_context [simp]:
  "noPasswords (wf_context (readerEvent e m)) = noPasswords (wf_context m)"
  "wc_lastPaceResult (wf_context (readerEvent e m)) = wc_lastPaceResult (wf_context m)"
  "wc_canAllowedMode (wf_context (readerEvent e m)) = wc_canAllowedMode (wf_context m)"
  by (cases e; auto simp: readerEvent_def Let_def proceed_context updateStatus_def selectReader_def
      noPasswords_def split: list.split option.split)+

lemma refused_readerEvent:
  assumes "refused m" and defined: "wf_phase m \<noteq> Undefined"
  shows "refused (readerEvent e m)"
proof (cases "noPasswords (wf_context m)")
  case True
  then show ?thesis by (simp add: refused_def)
next
  case False
  with assms have *: "clearing m" by (simp add: refused_def)
  then have "wf_state m \<noteq> StatePace SelectReader" "wf_state m \<noteq> StatePace ConnectCard"
    by (auto simp: clearing_def)
  then obtain rs where "readerEvent e m = m\<lparr>wf_readers := rs\<rparr>"
    using reader_event_kept by blast
  with * show ?thesis by (simp add: refused_def clearing_def)
qed

lemma noPasswords_commandEvent:
  "noPasswords (wf_context m) \<Longrightarrow> noPasswords (wf_context (commandEvent e m))"
proof (cases e)
  case (EstablishConnectionDone now rc)
  assume "noPasswords (wf_context m)"
  then show ?thesis
    using EstablishConnectionDone noPasswords_done [of "(wf_context m)\<lparr>wc_cardConnection := cn\<rparr>" for cn]
    by (simp add: commandEvent_def Let_def answer_def noPasswords_def)
qed (auto simp: commandEvent_def Let_def answer_def onUpdateRetryCounterDone_def onSetEidPinDone_def
    noPasswords_def updateStatus_def resetCardConnection_def)

lemma command_event_waits: "wf_phase m \<noteq> Running \<Longrightarrow> commandEvent e m = m"
  by (cases e) (simp_all add: commandEvent_def Let_def)

lemma command_event_final:
  assumes "wf_state m \<in> {UpdateRetryCounterFinal, CleanUpReaderManager, Final, Finished}"
  shows "wf_state (commandEvent e m) \<in> {UpdateRetryCounterFinal, CleanUpReaderManager, Final, Finished}"
proof (cases e)
  case (UpdateRetryCounterDone rc)
  then show ?thesis
    using assms by (cases "wf_state m = UpdateRetryCounterFinal")
      (auto simp: commandEvent_def Let_def answer_def onUpdateRetryCounterDone_def emit_def
        changePinTransition_def changePinTable_def)
qed (use assms in \<open>auto simp: commandEvent_def Let_def\<close>)

lemma refused_commandEvent:
  assumes "refused m"
  shows "refused (commandEvent e m)"
proof (cases "noPasswords (wf_context m)")
  case True
  then show ?thesis by (simp add: refused_def noPasswords_commandEvent)
next
  case False
  show ?thesis
  proof (cases "wf_phase m = Running")
    case True
    with False assms have "wf_state m \<in> {UpdateRetryCounterFinal, CleanUpReaderManager, Final, Finished}"
      by (auto simp: refused_def clearing_def)
    from command_event_final [OF this, of e] show ?thesis by (simp add: refused_def clearing_def)
  qed (simp add: command_event_waits assms)
qed

lemma refused_contextEvent:
  "refused m \<Longrightarrow> \<not> entersPassword e \<Longrightarrow> refused (m\<lparr>wf_context := contextEvent e (wf_context m)\<rparr>)"
  by (cases e) (auto simp: refused_def clearing_def noPasswords_def)

lemma refused_step:
  assumes "refused m" "\<not> entersPassword e"
  shows "refused (workflow_step m e)"
  using assms refused_contextEvent [OF assms]
  by (simp add: workflow_step_def refused_approve refused_cancelled refused_readerEvent refused_commandEvent)

interpretation refused: machine "\<lambda>m e. if entersPassword e then m else workflow_step m e" refused
  by unfold_locales (simp add: refused_step)

lemma run_without_entries:
  "\<forall>e\<in>set evs. \<not> entersPassword e \<Longrightarrow>
   run (\<lambda>m e. if entersPassword e then m else workflow_step m e) m evs = run workflow_step m evs"
  by (induction evs arbitrary: m) simp_all

text \<open>Which state calls which command.\<close>

lemma passwordFor_type [simp]: "passwordFor t (c\<lparr>wc_establishPaceChannelType := x\<rparr>) = passwordFor t c"
  by (cases t) (simp_all add: passwordFor_def)

lemma run_calls:
  assumes "fst (runState st rs c p) = Call cmd"
  shows "(st = StatePace EstablishPaceChannelState \<and> wc_cardConnection c \<noteq> None \<and>
            cmd = (let t = wc_establishPaceChannelType c
                   in if t = PACE_PUK then UnblockPin (passwordFor t c) else EstablishPaceChannel t (passwordFor t c)))
       \<or> (st = ChangePin \<and> cmd = SetEidPin (wc_newPin c)) \<or> passwordOf cmd = None"
proof (cases st)
  case (StatePace q)
  with assms show ?thesis
    by (cases q) (auto simp: wf_defs split: if_splits option.splits list.splits)
qed (use assms in \<open>auto simp: wf_defs split: if_splits\<close>)

lemma called_command:
  assumes "calledCommand m e = Some cmd"
  obtains rs where "fst (runState (wf_state m) rs (wf_context m) (wf_passwordId m)) = Call cmd"
    and "wf_phase m = Entered \<or> wf_state m = StatePace ConnectCard"
    and "wf_phase m \<noteq> Undefined"
  using assms by (cases e) (auto simp: calledCommand_def Let_def split: if_splits outcome.splits)

lemma password_command:
  assumes "calledCommand m e = Some cmd" "passwordOf cmd = Some s"
  shows "wf_phase m = Entered \<and>
    (wf_state m = StatePace EstablishPaceChannelState \<and> wc_cardConnection (wf_context m) \<noteq> None \<and>
       cmd = (let t = wc_establishPaceChannelType (wf_context m)
              in if t = PACE_PUK then UnblockPin (passwordFor t (wf_context m))
                 else EstablishPaceChannel t (passwordFor t (wf_context m)))
     \<or> wf_state m = ChangePin \<and> cmd = SetEidPin (wc_newPin (wf_context m)))"
proof -
  obtain rs where rs: "fst (runState (wf_state m) rs (wf_context m) (wf_passwordId m)) = Call cmd"
    "wf_phase m = Entered \<or> wf_state m = StatePace ConnectCard"
    using called_command [OF assms(1)] by metis
  then show ?thesis using run_calls [OF rs(1)] assms(2) by auto
qed

lemma refused_command:
  assumes "refused m" "calledCommand m e = Some cmd" "passwordOf cmd = Some s"
  shows "s = []"
proof -
  have *: "noPasswords (wf_context m)"
    using assms(1) password_command [OF assms(2,3)] by (auto simp: refused_def clearing_def)
  with password_command [OF assms(2,3)] assms(3) show ?thesis
    by (auto simp: noPasswords_def passwordFor_def Let_def split: if_splits PacePasswordId.splits)
qed

lemma refused_after_wrong_password:
  assumes "wf_state m = StatePace EstablishPaceChannelState" "wf_phase m = Running"
    and "equalsWrongPacePassword rc"
  shows "refused (workflow_step m (EstablishConnectionDone now rc))"
  using assms
  by (cases rc)
    (auto simp: workflow_step_def commandEvent_def readerEvent_def Let_def answer_def refused_def clearing_def
      onEstablishConnectionDone_def isNpaRepositioningRequired_def emit_def transition_simps wf_defs
      equalsWrongPacePassword_def split: option.splits)

text \<open>
  C7. After the card has refused a password (or PACE was refused since the PIN is blocked), no
  password that was entered before reaches the card again: whatever happens next, until the user
  enters a password, every command that takes one carries the empty one, as for a reader with its
  own PIN pad.
\<close>

theorem refused_password_not_sent_again:
  assumes "wf_state m = StatePace EstablishPaceChannelState" "wf_phase m = Running"
    and "equalsWrongPacePassword rc"
    and "\<forall>e\<in>set evs. \<not> entersPassword e"
    and "calledCommand (run workflow_step (workflow_step m (EstablishConnectionDone now rc)) evs) e = Some cmd"
    and "passwordOf cmd = Some s"
  shows "s = []"
  using refused.run_inv [OF refused_after_wrong_password [OF assms(1-3)], of now evs] assms(4-6)
  by (simp add: run_without_entries refused_command)

text \<open>A reader with a PIN pad, whose password is never typed in the application.\<close>

definition padConnection :: connection where
  "padConnection = \<lparr>cn_retryCounter = 3, cn_isBasicReader = False, cn_paceCanSuccessful = False,
     cn_pacePinSuccessful = False\<rparr>"

definition padEstablishing :: workflow where
  "padEstablishing = (initialWorkflow False)
     \<lparr>wf_state := StatePace EstablishPaceChannelState, wf_phase := Running, wf_passwordId := PACE_PIN,
      wf_context := (WorkflowContext False)\<lparr>wc_cardConnection := Some padConnection, wc_expectedRetryCounter := 3\<rparr>\<rparr>"

lemmas workflow_eval = workflow_step_def approve_def onUserCancelled_def proceed_def emit_def answer_def
  readerEvent_def commandEvent_def transition_simps wf_defs onEstablishConnectionDone_def
  onUpdateRetryCounterDone_def onSetEidPinDone_def isNpaRepositioningRequired_def isExpectedReader_def
  paceCommandDone_def initialWorkflow_def WorkflowContext_def isSelectable_def requiresCard_def

lemma refused_pad_run:
  "run workflow_step (workflow_step padEstablishing (EstablishConnectionDone 0 CR_INVALID_PIN))
     [Approve, Approve, UpdateRetryCounterDone CR_OK, Approve, Approve, Approve] =
   (initialWorkflow False)
     \<lparr>wf_state := StatePace EstablishPaceChannelState, wf_passwordId := PACE_PIN,
      wf_context := (WorkflowContext False)\<lparr>wc_cardConnection := Some padConnection, wc_expectedRetryCounter := 3,
        wc_lastPaceResult := CR_INVALID_PIN, wc_establishPaceChannelType := PACE_PIN\<rparr>\<rparr>"
  by (simp add: workflow_eval padEstablishing_def padConnection_def)

lemma refused_pad_call:
  "calledCommand (run workflow_step (workflow_step padEstablishing (EstablishConnectionDone 0 CR_INVALID_PIN))
     [Approve, Approve, UpdateRetryCounterDone CR_OK, Approve, Approve, Approve]) Approve =
   Some (EstablishPaceChannel PACE_PIN [])"
  unfolding refused_pad_run
  by (simp add: calledCommand_def workflow_eval padConnection_def passwordFor_def)

theorem refused_password_not_sent_again_witness:
  "\<exists>s. passwordOf (EstablishPaceChannel PACE_PIN []) = Some s \<and> s = []"
  using refused_password_not_sent_again [OF _ _ _ _ refused_pad_call, of "[]"]
  by (simp add: padEstablishing_def equalsWrongPacePassword_def)

section \<open>Cancellation\<close>

fun sendsPassword :: "card_command \<Rightarrow> bool" where
  "sendsPassword (UnblockPin _) = True"
| "sendsPassword (EstablishPaceChannel _ _) = True"
| "sendsPassword (SetEidPin _) = True"
| "sendsPassword _ = False"

lemma sendsPassword_iff: "sendsPassword cmd \<longleftrightarrow> (\<exists>s. passwordOf cmd = Some s)"
  by (cases cmd) simp_all

lemma password_command_state:
  "calledCommand m e = Some cmd \<Longrightarrow> sendsPassword cmd \<Longrightarrow>
   wf_state m = StatePace EstablishPaceChannelState \<or> wf_state m = ChangePin"
  using password_command by (fastforce simp: sendsPassword_iff)

text \<open>The states on the way out of a workflow that has an error status.\<close>

definition leavingStates :: "change_pin_state set" where
  "leavingStates = {StatePace MaintainCardConnection, StatePace ClearPacePasswordsOnError,
     StatePace ClearPacePasswordsBeforeDestroy, StatePace DestroyPace, ClearPacePasswords,
     UpdateRetryCounterFinal, CleanUpReaderManager, Final, Finished, DestroyPaceFinal}"

definition leaving :: "workflow \<Rightarrow> bool" where
  "leaving m \<longleftrightarrow> wc_status (wf_context m) \<noteq> GS_No_Error \<and> wf_state m \<in> leavingStates"

lemma status_kept: "wc_status c \<noteq> GS_No_Error \<Longrightarrow> wc_status (fst (snd (runState st rs c p))) \<noteq> GS_No_Error"
proof (cases st)
  case (StatePace q)
  assume "wc_status c \<noteq> GS_No_Error"
  with StatePace show ?thesis
    by (cases q) (auto simp: wf_defs split: option.split list.split)
qed (simp_all add: wf_defs)

lemma leaving_approve:
  assumes "leaving m"
  shows "leaving (approve m)"
proof -
  have "wc_status (wf_context (approve m)) \<noteq> GS_No_Error"
    using assms by (auto simp: leaving_def approve_def proceed_context status_kept)
  moreover have "wf_state (approve m) \<in> leavingStates"
    using assms
    by (cases "wc_cardConnection (wf_context m)")
      (auto simp: leaving_def leavingStates_def approve_def proceed_def emit_def transition_simps
        runMaintainCardConnection_def runDestroyPace_def runUpdateRetryCounter_def Let_def)
  ultimately show ?thesis by (simp add: leaving_def)
qed

lemma cancel_leaves:
  "wf_state (onUserCancelled m) \<in> leavingStates"
proof (cases "wf_state m")
  case (StatePace q)
  then show ?thesis
    by (cases q) (simp_all add: onUserCancelled_def emit_def transition_simps leavingStates_def Let_def)
qed (simp_all add: onUserCancelled_def emit_def transition_simps leavingStates_def Let_def)

lemma leaving_cancelled: "leaving (onUserCancelled m)"
  using cancel_leaves [of m] by (auto simp: leaving_def onUserCancelled_def updateStatus_def Let_def)

lemma leaving_readerEvent: "leaving m \<Longrightarrow> leaving (readerEvent e m)"
  using reader_event_kept [of m e] by (fastforce simp: leaving_def leavingStates_def)

lemma leaving_commandEvent: "leaving m \<Longrightarrow> leaving (commandEvent e m)"
  by (cases e; auto simp: leaving_def leavingStates_def commandEvent_def Let_def answer_def
      onUpdateRetryCounterDone_def resetCardConnection_def; simp add: emit_def transition_simps)

lemma leaving_contextEvent: "leaving m \<Longrightarrow> leaving (m\<lparr>wf_context := contextEvent e (wf_context m)\<rparr>)"
  by (cases e) (auto simp: leaving_def)

interpretation leaving: machine workflow_step leaving
  by unfold_locales
    (simp add: workflow_step_def leaving_approve leaving_cancelled leaving_readerEvent leaving_commandEvent
      leaving_contextEvent)

text \<open>
  C10. Once the user has cancelled, the workflow sends no password any more: none of the commands that
  establish PACE, unblock the PIN or set a new PIN is called, whatever events follow.
\<close>

theorem cancelled_workflow_sends_no_password:
  assumes "calledCommand (run workflow_step (workflow_step m Cancel) evs) e = Some cmd"
  shows "\<not> sendsPassword cmd"
proof (cases "wf_phase m = Undefined \<or> wf_state m = Finished")
  case True
  then have "run workflow_step (workflow_step m Cancel) evs = m"
    by (induction evs) (auto simp: workflow_step_def)
  with True assms show ?thesis by (auto simp: calledCommand_def)
next
  case False
  then have "leaving (workflow_step m Cancel)" by (simp add: workflow_step_def leaving_cancelled)
  then have "leaving (run workflow_step (workflow_step m Cancel) evs)" by (rule leaving.run_inv)
  with password_command_state [OF assms] show ?thesis
    by (auto simp: leaving_def leavingStates_def)
qed

theorem cancelled_workflow_sends_no_password_witness:
  "\<not> sendsPassword UpdateRetryCounter"
  by (rule cancelled_workflow_sends_no_password [of padEstablishing "[Approve, Approve, Approve]" Approve])
    (simp add: workflow_eval padEstablishing_def padConnection_def calledCommand_def)

section \<open>The connection is there when it is used\<close>

definition usesConnection :: "workflow \<Rightarrow> bool" where
  "usesConnection m \<longleftrightarrow>
     wf_state m \<in> {StatePace ClearPacePasswordsBeforeDestroy, StatePace DestroyPace, PrepareChangePin,
       EnterNewPacePin, ChangePin, DestroyPaceFinal}
     \<or> wf_state m = StatePace EstablishPaceChannelState \<and> wf_phase m = Running"

definition connected :: "workflow \<Rightarrow> bool" where
  "connected m \<longleftrightarrow>
     (wf_phase m = Undefined \<longrightarrow> wf_state m = StatePace PreparePace) \<and>
     (usesConnection m \<longrightarrow> wc_cardConnection (wf_context m) \<noteq> None) \<and>
     (wf_state m = Final \<longrightarrow> wf_phase m = Entered)"

text \<open>What the states with several outcomes can do.\<close>

lemma selectReader_cases:
  "selectReader rs c = (WaitForReader, c) \<or> (\<exists>n. selectReader rs c = (Emit fireContinue, c\<lparr>wc_readerName := n\<rparr>))"
  by (auto simp: selectReader_def split: list.split)

lemma connectCard_cases:
  "connectCard rs c = WaitForReader \<or> (\<exists>n. connectCard rs c = Call (CreateCardConnection n))"
  by (auto simp: connectCard_def split: option.split)

lemma maintain_cases:
  "fst (runMaintainCardConnection c) \<in> {fireAbort, fireNoCardConnection, fireForceUpdateRetryCounter, fireContinue}"
  by (auto simp: runMaintainCardConnection_def Let_def)

lemma prepare_cases:
  "fst (runPreparePace c) \<in> {Unreachable, Emit fireAbort, Emit fireContinue, Emit fireEnterPacePassword,
     Emit fireEstablishPaceChannel}"
  by (auto simp: runPreparePace_def requestPaceCanIfStillRequired_def pinAllowed_def Let_def split: option.split)

lemma verify_cases: "fst (runVerifyRetryCounter c) \<in> {fireAbort, fireContinue}"
  by (auto simp: runVerifyRetryCounter_def Let_def split: option.split)

lemma establish_cases:
  "fst (runEstablishPaceChannel c p) = Emit fireAbort \<or>
   (\<exists>cmd. fst (runEstablishPaceChannel c p) = Call cmd) \<and>
   wc_cardConnection (fst (snd (runEstablishPaceChannel c p))) = wc_cardConnection c \<and> wc_cardConnection c \<noteq> None"
  by (auto simp: runEstablishPaceChannel_def Let_def split: option.split)

lemma proceed_simps:
  "proceed (Emit s, c, p) m = emit s (m\<lparr>wf_context := c, wf_passwordId := p, wf_phase := Running\<rparr>)"
  "proceed (Call cmd, c, p) m = m\<lparr>wf_context := c, wf_passwordId := p, wf_phase := Running\<rparr>"
  "proceed (WaitForReader, c, p) m = m\<lparr>wf_context := c, wf_passwordId := p, wf_phase := Running\<rparr>"
  "proceed (Unreachable, c, p) m = m\<lparr>wf_context := c, wf_passwordId := p, wf_phase := Undefined\<rparr>"
  by (simp_all add: proceed_def Let_def)

lemma connected_approve_pace:
  assumes "connected m" "wf_state m = StatePace q"
  shows "connected (proceed (runPaceState q (wf_readers m) (wf_context m) (wf_passwordId m)) m)"
proof -
  note simps = connected_def usesConnection_def proceed_simps emit_def transition_simps
  let ?c = "wf_context m"
  show ?thesis
  proof (cases q)
    case MaintainCardConnection
    with assms maintain_cases [of ?c] show ?thesis
      by (cases "runMaintainCardConnection ?c") (auto simp: simps)
  next
    case SelectReader
    with assms selectReader_cases [of "wf_readers m" ?c] show ?thesis by (auto simp: simps)
  next
    case ConnectCard
    with assms connectCard_cases [of "wf_readers m" ?c] show ?thesis by (auto simp: simps)
  next
    case VerifyRetryCounter
    with assms verify_cases [of ?c] show ?thesis by (cases "runVerifyRetryCounter ?c") (auto simp: simps)
  next
    case PreparePace
    with assms prepare_cases [of ?c] show ?thesis by (cases "runPreparePace ?c") (auto simp: simps)
  next
    case EstablishPaceChannelState
    with assms establish_cases [of ?c "wf_passwordId m"] show ?thesis
      by (cases "runEstablishPaceChannel ?c (wf_passwordId m)") (auto simp: simps)
  qed (use assms in \<open>auto simp: simps runUpdateRetryCounter_def runDestroyPace_def resetPacePasswords_def\<close>)
qed

lemma connected_approve:
  assumes "connected m"
  shows "connected (approve m)"
proof (cases "wf_phase m = Entered")
  case True
  show ?thesis
  proof (cases "wf_state m")
    case (StatePace q)
    with assms True connected_approve_pace [of m q] show ?thesis by (simp add: approve_def)
  qed (use assms True in \<open>auto simp: connected_def usesConnection_def approve_def proceed_def emit_def
         transition_simps runPrepareChangePin_def runChangePin_def runDestroyPace_def runUpdateRetryCounter_def
         runCleanUpReaderManager_def resetPacePasswords_def Let_def\<close>)
qed (use assms in \<open>simp add: approve_def\<close>)

lemma connected_cancelled:
  assumes "connected m" "wf_phase m \<noteq> Undefined"
  shows "connected (onUserCancelled m)"
proof (cases "wf_state m")
  case (StatePace q)
  with assms show ?thesis
    by (cases q) (auto simp: connected_def usesConnection_def onUserCancelled_def emit_def transition_simps
        updateStatus_def Let_def)
qed (use assms in \<open>auto simp: connected_def usesConnection_def onUserCancelled_def emit_def transition_simps
        updateStatus_def Let_def\<close>)

definition selecting :: "workflow \<Rightarrow> bool" where
  "selecting m \<longleftrightarrow> wf_phase m \<noteq> Undefined \<and> wf_state m \<in> {StatePace SelectReader, StatePace ConnectCard,
     StatePace MaintainCardConnection, StatePace UpdateRetryCounterState}"

lemma selecting_run:
  "wf_state m = StatePace SelectReader \<Longrightarrow>
   selecting (proceed (case selectReader rs c of (out, c) \<Rightarrow> (out, c, p)) m)"
  "wf_state m = StatePace ConnectCard \<Longrightarrow> selecting (proceed (connectCard rs c, c, p) m)"
  using selectReader_cases [of rs c] connectCard_cases [of rs c]
  by (auto simp: proceed_def emit_def transition_simps selecting_def)

lemma selecting_emit:
  assumes "wf_state m = StatePace SelectReader \<or> wf_state m = StatePace ConnectCard" "wf_phase m \<noteq> Undefined"
    and "s \<in> {fireRetry, fireAbort, fireReaderRemoved}"
  shows "selecting (emit s m)"
  using assms by (auto simp: emit_def transition_simps selecting_def)

lemma selecting_base:
  "wf_state m = StatePace SelectReader \<or> wf_state m = StatePace ConnectCard \<Longrightarrow> wf_phase m \<noteq> Undefined \<Longrightarrow>
   selecting m"
  by (auto simp: selecting_def)

lemma selecting_readerEvent:
  assumes "wf_state m = StatePace SelectReader \<or> wf_state m = StatePace ConnectCard" "wf_phase m \<noteq> Undefined"
  shows "selecting (readerEvent e m)"
proof (cases e)
  case (CardConnectionCreated cn)
  have "selecting (emit fireContinue (m\<lparr>wf_context := c\<rparr>))" if "wf_state m = StatePace ConnectCard" for c
    using that by (simp add: selecting_def emit_def transition_simps)
  with assms CardConnectionCreated show ?thesis
    by (cases cn) (simp_all add: readerEvent_def Let_def selecting_base selecting_emit)
next
  case (CardInserted rs)
  with assms show ?thesis
    by (auto simp: readerEvent_def Let_def selecting_base intro!: selecting_run)
qed (use assms in \<open>auto simp: readerEvent_def Let_def intro!: selecting_emit selecting_run intro: selecting_base\<close>)

lemma selecting_connected: "selecting m \<Longrightarrow> connected m"
  by (auto simp: selecting_def connected_def usesConnection_def)

lemma connected_readerEvent:
  assumes "connected m" "wf_phase m \<noteq> Undefined"
  shows "connected (readerEvent e m)"
proof (cases "wf_state m = StatePace SelectReader \<or> wf_state m = StatePace ConnectCard")
  case True
  then show ?thesis using assms(2) by (intro selecting_connected selecting_readerEvent)
next
  case False
  then obtain rs where "readerEvent e m = m\<lparr>wf_readers := rs\<rparr>"
    using reader_event_kept by blast
  with assms show ?thesis by (simp add: connected_def usesConnection_def)
qed

text \<open>PACE is established only with a connection that stays.\<close>

lemma establish_done:
  "fst (onEstablishConnectionDone now p rc c) \<in> {fireContinue, fireAbort, fireAbortAndUnfortunateCardPosition} \<or>
   fst (onEstablishConnectionDone now p rc c) \<in> {firePaceChannelEstablished, firePacePukEstablished} \<and>
   wc_cardConnection (snd (onEstablishConnectionDone now p rc c)) = wc_cardConnection c"
  by (cases "rc = CR_OK")
    (simp_all add: onEstablishConnectionDone_def wf_defs)

lemma connected_establish_done:
  assumes "wf_state m = StatePace EstablishPaceChannelState" "wf_phase m = Running" "connected m"
  shows "connected (commandEvent (EstablishConnectionDone now rc) m)"
proof -
  define c where "c = (wf_context m)\<lparr>wc_cardConnection :=
    map_option (paceCommandDone (wf_passwordId m) rc) (wc_cardConnection (wf_context m))\<rparr>"
  obtain s c' where r: "onEstablishConnectionDone now (wf_passwordId m) rc c = (s, c')" by force
  have "wc_cardConnection c \<noteq> None"
    using assms by (auto simp: connected_def usesConnection_def c_def)
  moreover have "commandEvent (EstablishConnectionDone now rc) m = emit s (m\<lparr>wf_context := c'\<rparr>)"
    using assms r by (simp add: commandEvent_def answer_def Let_def flip: c_def)
  ultimately show ?thesis
    using establish_done [of now "wf_passwordId m" rc c] r assms
    by (auto simp: connected_def usesConnection_def emit_def transition_simps)
qed

lemma connected_commandEvent:
  assumes "connected m"
  shows "connected (commandEvent e m)"
proof (cases "wf_phase m = Running")
  case True
  show ?thesis
  proof (cases e)
    case (EstablishConnectionDone now rc)
    with True assms connected_establish_done [of m now rc] show ?thesis
      by (cases "wf_state m = StatePace EstablishPaceChannelState") (simp_all add: commandEvent_def Let_def)
  next
    case (SetEidPinDone rc)
    with True assms show ?thesis
      by (auto simp: connected_def usesConnection_def commandEvent_def emit_def answer_def transition_simps
          onSetEidPinDone_def updateStatus_def Let_def)
  qed (use True assms in \<open>auto simp: connected_def usesConnection_def commandEvent_def emit_def answer_def
         transition_simps onUpdateRetryCounterDone_def resetCardConnection_def Let_def\<close>)
qed (simp add: command_event_waits assms)

lemma connected_contextEvent: "connected m \<Longrightarrow> connected (m\<lparr>wf_context := contextEvent e (wf_context m)\<rparr>)"
  by (cases e) (auto simp: connected_def usesConnection_def)

interpretation connected: machine workflow_step connected
  by unfold_locales
    (simp add: workflow_step_def connected_approve connected_cancelled connected_readerEvent
      connected_commandEvent connected_contextEvent)

lemma connected_initial: "connected (initialWorkflow b)"
  by (simp add: connected_def usesConnection_def initialWorkflow_def)

text \<open>
  In every run of the workflow the card connection exists whenever a state uses it without a
  check: setting the new PIN, destroying the channel, and taking the result of PACE. The only
  state whose code reaches a place marked as unreachable is the preparation of PACE.
\<close>

theorem connection_is_there_when_used:
  "connected (run workflow_step (initialWorkflow canAllowed) evs)"
  by (rule connected.run_inv [OF connected_initial])

text \<open>A reader with a PIN pad that reports a card, and the connection made with it.\<close>

definition padReader :: reader_info where
  "padReader = \<lparr>ri_name = ''pad'', ri_plugInType = PCSC_READER, ri_connected = True, ri_hasEidCard = True,
     ri_basicReader = False, ri_retryCounter = 3, ri_pinDeactivated = False, ri_sufficientApduLength = True\<rparr>"

definition pinChangeWithPad :: "event list" where
  "pinChangeWithPad =
    [ReadersChanged [padReader], Approve, Approve, Approve, CardConnectionCreated (Some padConnection),
     Approve, UpdateRetryCounterDone CR_OK, Approve, Approve, Approve, Approve, EstablishConnectionDone 0 CR_OK,
     Approve, Approve, Approve]"

text \<open>
  A PIN change at a reader with its own PIN pad that ends with the answer that the new PIN has a
  wrong length does not come to an end: the workflow goes back to the preparation of PACE, whose
  code is marked as unreachable when PACE with the PIN was successful on the connection.
\<close>

theorem wrong_length_of_new_pin_is_undefined:
  "(let m = run workflow_step (initialWorkflow False) pinChangeWithPad
    in wf_state m = ChangePin \<and> wf_phase m = Running \<and>
       wf_phase (run workflow_step m
         [SetEidPinDone CR_NEW_PIN_INVALID_LENGTH, Approve, Approve, UpdateRetryCounterDone CR_OK, Approve,
          Approve]) = Undefined)"
  by (simp add: pinChangeWithPad_def padReader_def padConnection_def workflow_eval)

section \<open>The end of a cancelled workflow\<close>

text \<open>The next event when the states are approved and the card answers with \<open>rc\<close>.\<close>

definition nextEvent :: "CardReturnCode \<Rightarrow> workflow \<Rightarrow> event" where
  "nextEvent rc m =
    (if wf_phase m = Entered then Approve
     else if wf_state m = StatePace DestroyPace \<or> wf_state m = DestroyPaceFinal then DestroyPaceDone
     else UpdateRetryCounterDone rc)"

fun drive :: "CardReturnCode \<Rightarrow> nat \<Rightarrow> workflow \<Rightarrow> workflow" where
  "drive rc 0 m = m"
| "drive rc (Suc n) m = drive rc n (workflow_step m (nextEvent rc m))"

definition at :: "change_pin_state \<Rightarrow> workflow \<Rightarrow> bool" where
  "at st m \<longleftrightarrow> wf_state m = st \<and> wf_phase m = Entered"

definition ends :: "CardReturnCode \<Rightarrow> nat \<Rightarrow> workflow \<Rightarrow> bool" where
  "ends rc n m \<longleftrightarrow> wf_state (drive rc n m) = Finished"

lemma ends_Finished: "wf_state m = Finished \<Longrightarrow> ends rc n m"
  by (induction n arbitrary: m) (simp_all add: ends_def workflow_step_def)

lemma ends_step: "ends rc n (workflow_step m (nextEvent rc m)) \<Longrightarrow> ends rc (Suc n) m"
  by (simp add: ends_def)

lemma ends_more: "ends rc n m \<Longrightarrow> n \<le> k \<Longrightarrow> ends rc k m"
proof (induction n arbitrary: m k)
  case 0
  then show ?case using ends_Finished by (simp add: ends_def)
next
  case (Suc n)
  then obtain k' where "k = Suc k'" "n \<le> k'" by (cases k) auto
  with Suc show ?case by (simp add: ends_def)
qed

lemmas drive_simps = at_def nextEvent_def workflow_step_def approve_def proceed_simps emit_def transition_simps

lemma ends_final: "at Final m \<Longrightarrow> ends rc 1 m"
  by (subst One_nat_def, rule ends_step, rule ends_Finished) (simp add: drive_simps)

lemma ends_clean_up: "at CleanUpReaderManager m \<Longrightarrow> ends rc 2 m"
  by (subst numeral_2_eq_2, rule ends_step, rule ends_final [simplified]) (simp add: drive_simps)

lemma ends_update:
  assumes "at UpdateRetryCounterFinal m"
  shows "ends rc 4 m"
proof (cases "wc_cardConnection (wf_context m)")
  case None
  with assms have "at CleanUpReaderManager (workflow_step m (nextEvent rc m))"
    by (simp add: drive_simps runUpdateRetryCounter_def)
  from ends_step [OF ends_clean_up [OF this]] show ?thesis by (rule ends_more) simp
next
  case (Some cn)
  with assms have "wf_state (workflow_step m (nextEvent rc m)) = UpdateRetryCounterFinal"
    "wf_phase (workflow_step m (nextEvent rc m)) = Running"
    by (simp_all add: drive_simps runUpdateRetryCounter_def)
  then have "at CleanUpReaderManager (workflow_step (workflow_step m (nextEvent rc m)) (UpdateRetryCounterDone rc))"
    "nextEvent rc (workflow_step m (nextEvent rc m)) = UpdateRetryCounterDone rc"
    by (cases "rc = CR_OK";
        simp add: at_def nextEvent_def workflow_step_def readerEvent_def commandEvent_def answer_def
          onUpdateRetryCounterDone_def emit_def transition_simps)+
  then show ?thesis
    using ends_step [OF ends_step] ends_clean_up by (metis Suc_numeral add_2_eq_Suc' numeral_Bit0 numeral_2_eq_2)
qed

lemma ends_clear: "at ClearPacePasswords m \<Longrightarrow> ends rc 5 m"
  using ends_step [OF ends_update, of m rc] by (simp add: drive_simps)

lemma ends_clear_on_error: "at (StatePace ClearPacePasswordsOnError) m \<Longrightarrow> ends rc 6 m"
  using ends_step [OF ends_clear, of m rc] by (simp add: drive_simps)

lemma ends_maintain:
  "at (StatePace MaintainCardConnection) m \<Longrightarrow> wc_status (wf_context m) \<noteq> GS_No_Error \<Longrightarrow> ends rc 7 m"
  using ends_step [OF ends_clear_on_error, of m rc] by (simp add: drive_simps runMaintainCardConnection_def)

lemma ends_destroy:
  assumes "at (StatePace DestroyPace) m" "wc_cardConnection (wf_context m) \<noteq> None"
  shows "ends rc 7 m"
proof -
  have m: "wf_state (workflow_step m (nextEvent rc m)) = StatePace DestroyPace"
    "wf_phase (workflow_step m (nextEvent rc m)) = Running"
    using assms by (auto simp: drive_simps runDestroyPace_def)
  then have "at ClearPacePasswords (workflow_step (workflow_step m (nextEvent rc m)) DestroyPaceDone)"
    "nextEvent rc (workflow_step m (nextEvent rc m)) = DestroyPaceDone"
    by (simp_all add: at_def nextEvent_def workflow_step_def readerEvent_def commandEvent_def
        emit_def transition_simps Let_def)
  with ends_step [OF ends_step [of rc 5 "workflow_step m (nextEvent rc m)"]] ends_clear
  show ?thesis by simp
qed

lemma cancel_targets:
  assumes "connected m" "wf_phase m \<noteq> Undefined" "wf_state m \<noteq> Finished"
  shows "\<exists>st. at st (onUserCancelled m) \<and>
    (st \<in> {StatePace MaintainCardConnection, StatePace ClearPacePasswordsOnError, ClearPacePasswords, UpdateRetryCounterFinal,
         CleanUpReaderManager, Final}
     \<or> st = StatePace DestroyPace \<and> wc_cardConnection (wf_context m) \<noteq> None)"
proof (cases "wf_state m")
  case (StatePace q)
  with assms show ?thesis
    by (cases q) (auto simp: at_def onUserCancelled_def emit_def transition_simps Let_def connected_def usesConnection_def)
qed (use assms in \<open>auto simp: at_def onUserCancelled_def emit_def transition_simps Let_def connected_def\<close>)

text \<open>
  The place that the code marks as unreachable is reached in one way only: PACE with the PIN has been successful, and the
  workflow prepares PACE again.
\<close>

definition pinChannelOpen :: "workflow \<Rightarrow> bool" where
  "pinChannelOpen m \<longleftrightarrow> wf_state m = StatePace PreparePace \<and> \<not> wc_canAllowedMode (wf_context m) \<and>
     (\<exists>cn. wc_cardConnection (wf_context m) = Some cn \<and> cn_retryCounter cn \<noteq> 0 \<and> cn_pacePinSuccessful cn)"

lemma prepare_unreachable:
  assumes "runPreparePace c = (Unreachable, c')"
  shows "\<not> wc_canAllowedMode c' \<and>
    (\<exists>cn. wc_cardConnection c' = Some cn \<and> cn_retryCounter cn \<noteq> 0 \<and> cn_pacePinSuccessful cn)"
  using assms
  by (auto simp: runPreparePace_def requestPaceCanIfStillRequired_def pinAllowed_def Let_def
      split: option.splits if_splits)

lemma answered_defined:
  assumes "wf_phase m \<noteq> Undefined"
  shows "wf_phase (answer r m) \<noteq> Undefined" "wf_phase (commandEvent e m) \<noteq> Undefined"
    "wf_phase (onUserCancelled m) \<noteq> Undefined"
  using assms by (auto simp: answer_def commandEvent_def onUserCancelled_def Let_def split: event.split)

lemma selecting_defined:
  assumes "wf_state m = StatePace SelectReader \<or> wf_state m = StatePace ConnectCard" "wf_phase m \<noteq> Undefined"
  shows "wf_phase (proceed (runState (wf_state m) rs c q) m') \<noteq> Undefined"
  using assms selectReader_cases [of rs c] connectCard_cases [of rs c]
  by (auto simp: proceed_simps)

lemma reader_defined:
  assumes "wf_phase m \<noteq> Undefined"
  shows "wf_phase (readerEvent e m) \<noteq> Undefined"
  using assms selecting_defined [OF _ assms]
  by (cases e) (auto simp: readerEvent_def Let_def answer_def split: option.split)

lemma undefined_by_approval:
  assumes "wf_phase m \<noteq> Undefined" "wf_phase (workflow_step m e) = Undefined"
  shows "e = Approve \<and> workflow_step m e = proceed (runState (wf_state m) (wf_readers m) (wf_context m) (wf_passwordId m)) m"
  using assms answered_defined reader_defined
  by (auto simp: workflow_step_def approve_def split: if_splits)

lemma undefined_channel:
  assumes "connected m" "wf_phase m = Undefined \<longrightarrow> pinChannelOpen m"
  shows "wf_phase (workflow_step m e) = Undefined \<longrightarrow> pinChannelOpen (workflow_step m e)"
proof (cases "wf_phase m = Undefined")
  case True
  then show ?thesis using assms(2) by (simp add: workflow_step_def)
next
  case False
  show ?thesis
  proof
    let ?r = "runState (wf_state m) (wf_readers m) (wf_context m) (wf_passwordId m)"
    assume u: "wf_phase (workflow_step m e) = Undefined"
    note step = undefined_by_approval [OF False u]
    obtain c q where r: "?r = (Unreachable, c, q)"
      using u step by (cases ?r rule: prod_cases3) (auto simp: proceed_def Let_def split: outcome.splits)
    then have w: "workflow_step m e = m\<lparr>wf_context := c, wf_passwordId := q, wf_phase := Undefined\<rparr>"
      using conjunct2 [OF step] by (simp only: proceed_simps)
    have "connected (workflow_step m e)" by (rule connected.step_inv [OF assms(1)])
    then have st: "wf_state m = StatePace PreparePace" using u w by (simp add: connected_def)
    then have "runPreparePace (wf_context m) = (Unreachable, c)"
      using r by (simp split: prod.splits)
    from prepare_unreachable [OF this] st show "pinChannelOpen (workflow_step m e)"
      by (simp add: w pinChannelOpen_def)
  qed
qed

text \<open>
  C9. A cancelled workflow comes to its end. From every state that a run of the workflow reaches,
  a cancellation and at most seven further steps (approving the states, and the answers of the card to the commands that
  are still called, whatever they are) lead to the final state, with one exception that is named: a workflow that has run
  into the place that its code marks as unreachable, the preparation of PACE with a channel that is open
  with the PIN already (\<open>wrong_length_of_new_pin_is_undefined\<close> is such a run). The
  behaviour of the program is undefined there.
\<close>

theorem cancelled_workflow_ends:
  "let m = run workflow_step (initialWorkflow canAllowed) evs
   in wf_state (drive rc 7 (workflow_step m Cancel)) = Finished \<or> wf_phase m = Undefined \<and> pinChannelOpen m"
proof -
  define m where "m = run workflow_step (initialWorkflow canAllowed) evs"
  have conn: "connected m" unfolding m_def by (rule connected.run_inv [OF connected_initial])
  have start: "wf_phase (initialWorkflow canAllowed) \<noteq> Undefined" by (simp add: initialWorkflow_def)
  have "connected m \<and> (wf_phase m = Undefined \<longrightarrow> pinChannelOpen m)" unfolding m_def
    by (induction evs rule: rev_induct) (simp_all add: connected_initial start connected.step_inv undefined_channel)
  then have undefined: "pinChannelOpen m" if "wf_phase m = Undefined" using that by simp
  have "ends rc 7 (workflow_step m Cancel)" if defined: "wf_phase m \<noteq> Undefined"
  proof (cases "wf_state m = Finished")
    case True
    then show ?thesis by (simp add: workflow_step_def ends_Finished)
  next
    case False
    let ?m = "onUserCancelled m"
    have "wc_status (wf_context ?m) \<noteq> GS_No_Error" using leaving_cancelled by (simp add: leaving_def)
    moreover have "wc_cardConnection (wf_context ?m) = wc_cardConnection (wf_context m)"
      by (simp add: onUserCancelled_def updateStatus_def Let_def)
    ultimately have "ends rc 7 ?m"
      using cancel_targets [OF conn defined False]
      by (auto intro: ends_maintain ends_destroy ends_more [OF ends_clear] ends_more [OF ends_clear_on_error]
          ends_more [OF ends_update]
          ends_more [OF ends_clean_up] ends_more [OF ends_final])
    then show ?thesis using False defined by (simp add: workflow_step_def)
  qed
  then show ?thesis using undefined unfolding Let_def ends_def m_def [symmetric] by blast
qed

theorem cancelled_workflow_ends_witness:
  "wf_state (drive CR_UNKNOWN 7 (workflow_step (run workflow_step (initialWorkflow False) pinChangeWithPad) Cancel))
     = Finished"
  using cancelled_workflow_ends [of False pinChangeWithPad CR_UNKNOWN]
  by (simp add: pinChangeWithPad_def padReader_def padConnection_def workflow_eval pinChannelOpen_def)

section \<open>Which password the card is asked for\<close>

text \<open>
  The rule for the PIN: with no try left only the PUK, with one try left first the CAN, else the
  PIN. A workflow that may use the CAN alone uses the CAN.
\<close>

definition allowedPassword :: "bool \<Rightarrow> connection \<Rightarrow> PacePasswordId \<Rightarrow> bool" where
  "allowedPassword canAllowed cn pid \<longleftrightarrow>
    (if canAllowed then pid = PACE_CAN \<and> \<not> cn_paceCanSuccessful cn
     else if cn_retryCounter cn = 0 then pid = PACE_PUK
     else if cn_retryCounter cn = 1 \<and> \<not> cn_paceCanSuccessful cn then pid = PACE_CAN
     else pid = PACE_PIN \<and> \<not> cn_pacePinSuccessful cn)"

text \<open>The card information does not change between the decision and the call of PACE.\<close>

fun counterStable :: "workflow \<Rightarrow> event \<Rightarrow> bool" where
  "counterStable m (RetryCounterChanged _) \<longleftrightarrow>
     \<not> (wf_state m = StatePace EnterPacePassword \<or>
        wf_state m = StatePace EstablishPaceChannelState \<and> wf_phase m = Entered)"
| "counterStable m _ \<longleftrightarrow> True"

definition decided :: "workflow \<Rightarrow> bool" where
  "decided m \<longleftrightarrow>
     (wf_state m = StatePace EnterPacePassword \<or> wf_state m = StatePace EstablishPaceChannelState \<and> wf_phase m = Entered
      \<longrightarrow> (\<exists>cn. wc_cardConnection (wf_context m) = Some cn \<and>
            allowedPassword (wc_canAllowedMode (wf_context m)) cn (wc_establishPaceChannelType (wf_context m))))"

lemma prepare_decides:
  "fst (runPreparePace c) = Emit fireEnterPacePassword \<or> fst (runPreparePace c) = Emit fireEstablishPaceChannel \<Longrightarrow>
   \<exists>cn. wc_cardConnection (snd (runPreparePace c)) = Some cn \<and>
     allowedPassword (wc_canAllowedMode (snd (runPreparePace c))) cn
       (wc_establishPaceChannelType (snd (runPreparePace c)))"
  by (auto simp: runPreparePace_def requestPaceCanIfStillRequired_def pinAllowed_def allowedPassword_def Let_def
      split: option.splits if_splits)

text \<open>The two states are entered from the preparation only.\<close>

lemma transition_decided:
  assumes "changePinTransition st s = Some st'"
    and "st' = StatePace EnterPacePassword \<or> st' = StatePace EstablishPaceChannelState"
  shows "st = StatePace PreparePace \<and> (s = fireEnterPacePassword \<or> s = fireEstablishPaceChannel)
    \<or> st = StatePace EnterPacePassword \<and> s = fireContinue"
proof (cases st)
  case (StatePace q)
  with assms show ?thesis
    by (cases q) (auto simp: transition_simps split: if_splits)
qed (use assms in \<open>auto simp: transition_simps split: if_splits\<close>)

lemma decided_elsewhere:
  "wf_state m \<noteq> StatePace EnterPacePassword \<Longrightarrow>
   wf_state m \<noteq> StatePace EstablishPaceChannelState \<or> wf_phase m \<noteq> Entered \<Longrightarrow> decided m"
  by (auto simp: decided_def)

lemma decided_emit:
  assumes "\<not> (wf_state m = StatePace PreparePace \<and> (s = fireEnterPacePassword \<or> s = fireEstablishPaceChannel)
    \<or> wf_state m = StatePace EnterPacePassword \<and> s = fireContinue)" "decided m"
  shows "decided (emit s m)"
  using assms transition_decided [of "wf_state m" s]
  by (auto simp: decided_def emit_def split: option.split)

lemma decided_approve:
  assumes "decided m"
  shows "decided (approve m)"
proof (cases "wf_phase m = Entered")
  case True
  obtain out c p where r: "runState (wf_state m) (wf_readers m) (wf_context m) (wf_passwordId m) = (out, c, p)"
    by (metis prod_cases3)
  show ?thesis
  proof (cases "wf_state m = StatePace PreparePace \<or> wf_state m = StatePace EnterPacePassword")
    case True
    then show ?thesis
      using assms \<open>wf_phase m = Entered\<close> prepare_cases [of "wf_context m"] prepare_decides [of "wf_context m"]
      by (cases "runPreparePace (wf_context m)")
        (auto simp: decided_def approve_def proceed_simps emit_def transition_simps)
  next
    case False
    with r True show ?thesis
      by (cases out) (simp_all add: approve_def proceed_simps decided_emit decided_elsewhere)
  qed
qed (use assms in \<open>simp add: approve_def\<close>)

lemma decided_cancelled:
  assumes "decided m"
  shows "decided (onUserCancelled m)"
proof (cases "changePinTransition (wf_state m) fireAbort")
  case None
  then show ?thesis
    using assms by (auto simp: onUserCancelled_def decided_def updateStatus_def emit_def Let_def)
next
  case (Some st)
  then show ?thesis
    using transition_decided [OF Some] by (auto simp: onUserCancelled_def decided_def emit_def Let_def)
qed

lemma decided_readerEvent:
  assumes "decided m" "wf_phase m \<noteq> Undefined"
  shows "decided (readerEvent e m)"
proof (cases "wf_state m = StatePace SelectReader \<or> wf_state m = StatePace ConnectCard")
  case True
  from selecting_readerEvent [OF True assms(2), of e] show ?thesis
    by (auto simp: selecting_def intro!: decided_elsewhere)
next
  case False
  then obtain rs where "readerEvent e m = m\<lparr>wf_readers := rs\<rparr>"
    using reader_event_kept by blast
  with assms show ?thesis by (simp add: decided_def)
qed

lemma decided_commandEvent:
  assumes "decided m"
  shows "decided (commandEvent e m)"
proof (cases "wf_phase m = Running")
  case True
  then show ?thesis
    using assms by (cases e)
      (simp_all add: commandEvent_def Let_def answer_def decided_emit decided_elsewhere)
qed (simp add: command_event_waits assms)

lemma decided_contextEvent:
  "decided m \<Longrightarrow> counterStable m e \<Longrightarrow> decided (m\<lparr>wf_context := contextEvent e (wf_context m)\<rparr>)"
  by (cases e) (auto simp: decided_def)

lemma decided_reachable: "reachable counterStable canAllowed m \<Longrightarrow> decided m"
proof (induction rule: reachable.induct)
  case initial
  show ?case by (simp add: decided_def initialWorkflow_def)
next
  case (step m e)
  then show ?case
    by (simp add: workflow_step_def decided_approve decided_cancelled decided_readerEvent decided_commandEvent
        decided_contextEvent)
qed

lemma mode_run [simp]: "wc_canAllowedMode (fst (snd (runState st rs c p))) = wc_canAllowedMode c"
proof (cases st)
  case (StatePace q)
  then show ?thesis by (cases q) (auto simp: wf_defs split: option.split list.split)
qed (simp_all add: wf_defs)

lemma mode_establish [simp]:
  "wc_canAllowedMode (fst (snd (runEstablishPaceChannel c p))) = wc_canAllowedMode c"
  using mode_run [of "StatePace EstablishPaceChannelState"] by simp

lemma mode_done [simp]:
  "wc_canAllowedMode (snd (onEstablishConnectionDone now p rc c)) = wc_canAllowedMode c"
  by (auto simp: wf_defs onEstablishConnectionDone_def split: option.split)

lemma mode_step: "wc_canAllowedMode (wf_context (workflow_step m e)) = wc_canAllowedMode (wf_context m)"
proof -
  have "wc_canAllowedMode (wf_context (commandEvent e m)) = wc_canAllowedMode (wf_context m)" for m
    by (cases e) (simp_all add: commandEvent_def answer_def onUpdateRetryCounterDone_def onSetEidPinDone_def
        resetCardConnection_def updateStatus_def Let_def)
  moreover have "wc_canAllowedMode (contextEvent e c) = wc_canAllowedMode c" for c
    by (cases e) simp_all
  ultimately show ?thesis
    by (simp add: workflow_step_def approve_def proceed_context onUserCancelled_def updateStatus_def Let_def)
qed

lemma mode_reachable: "reachable admits canAllowed m \<Longrightarrow> wc_canAllowedMode (wf_context m) = canAllowed"
  by (induction rule: reachable.induct) (simp_all add: mode_step initialWorkflow_def WorkflowContext_def)

fun commandAllowed :: "connection \<Rightarrow> card_command \<Rightarrow> bool" where
  "commandAllowed cn (UnblockPin _) \<longleftrightarrow> cn_retryCounter cn = 0"
| "commandAllowed cn (EstablishPaceChannel pid _) \<longleftrightarrow>
     pid = PACE_PIN \<and> cn_retryCounter cn \<noteq> 0 \<and> (cn_retryCounter cn \<noteq> 1 \<or> cn_paceCanSuccessful cn)
     \<or> pid = PACE_CAN \<and> cn_retryCounter cn = 1"
| "commandAllowed cn _ \<longleftrightarrow> True"

text \<open>
  C8. The retry counter decides which password the card is asked for: the PUK only when no try is
  left, the PIN never then, and with one try left only after the CAN was successful on the
  connection. This holds for every command of every run in which the card information does not
  change between the decision and the call.
\<close>

theorem password_follows_retry_counter:
  assumes "reachable counterStable False m"
    and "calledCommand m e = Some cmd"
    and "wc_cardConnection (wf_context m) = Some cn"
  shows "commandAllowed cn cmd"
proof (cases "passwordOf cmd")
  case None
  then show ?thesis by (cases cmd) simp_all
next
  case (Some s)
  from decided_reachable [OF assms(1)] mode_reachable [OF assms(1)] password_command [OF assms(2) Some] assms(3)
  show ?thesis by (auto simp: decided_def allowedPassword_def Let_def split: if_splits)
qed

fun admitted :: "(workflow \<Rightarrow> event \<Rightarrow> bool) \<Rightarrow> workflow \<Rightarrow> event list \<Rightarrow> bool" where
  "admitted admits m [] \<longleftrightarrow> True"
| "admitted admits m (e # evs) \<longleftrightarrow> admits m e \<and> admitted admits (workflow_step m e) evs"

lemma reachable_run:
  "reachable admits b m \<Longrightarrow> admitted admits m evs \<Longrightarrow> reachable admits b (run workflow_step m evs)"
  by (induction evs arbitrary: m) (simp_all add: reachable.step)

definition pinAtPad :: "event list" where
  "pinAtPad = take 10 pinChangeWithPad"

theorem password_follows_retry_counter_witness:
  "commandAllowed padConnection (EstablishPaceChannel PACE_PIN [])"
proof (rule password_follows_retry_counter)
  show "reachable counterStable False (run workflow_step (initialWorkflow False) pinAtPad)"
    by (rule reachable_run [OF reachable.initial])
      (simp add: pinAtPad_def pinChangeWithPad_def padReader_def padConnection_def workflow_eval)
  show "calledCommand (run workflow_step (initialWorkflow False) pinAtPad) Approve =
      Some (EstablishPaceChannel PACE_PIN [])"
    by (simp add: pinAtPad_def pinChangeWithPad_def padReader_def padConnection_def workflow_eval calledCommand_def
        passwordFor_def)
  show "wc_cardConnection (wf_context (run workflow_step (initialWorkflow False) pinAtPad)) = Some padConnection"
    by (simp add: pinAtPad_def pinChangeWithPad_def padReader_def padConnection_def workflow_eval)
qed

section \<open>No password outlives the workflow\<close>

text \<open>
  Passwords are entered in the states that ask for them, and the clearing of the passwords is
  approved before a cancellation is noticed.
\<close>

fun orderly :: "workflow \<Rightarrow> event \<Rightarrow> bool" where
  "orderly m Cancel \<longleftrightarrow> wf_state m \<noteq> ClearPacePasswords"
| "orderly m e \<longleftrightarrow>
     (entersPassword e \<longrightarrow> wf_state m = StatePace EnterPacePassword \<or> wf_state m = EnterNewPacePin)"

definition closingStates :: "change_pin_state set" where
  "closingStates = {UpdateRetryCounterFinal, CleanUpReaderManager, Final, Finished}"

definition cleared :: "workflow \<Rightarrow> bool" where
  "cleared m \<longleftrightarrow> (wf_state m \<in> closingStates \<longrightarrow> noPasswords (wf_context m))"

lemma transition_closing:
  assumes "changePinTransition st s = Some st'" "st' \<in> closingStates"
  shows "st \<in> closingStates \<or> st = ClearPacePasswords"
proof (cases st)
  case (StatePace q)
  with assms show ?thesis
    by (auto simp: changePinTransition_def closingStates_def split: option.splits pace_next.splits if_splits)
qed (use assms in \<open>auto simp: transition_simps closingStates_def split: if_splits\<close>)

lemma cleared_emit:
  "cleared m \<Longrightarrow> wf_state m \<noteq> ClearPacePasswords \<or> noPasswords (wf_context m) \<Longrightarrow> cleared (emit s m)"
  using transition_closing [of "wf_state m" s]
  by (auto simp: cleared_def emit_def split: option.split)

lemma cleared_approve:
  assumes "cleared m"
  shows "cleared (approve m)"
proof (cases "noPasswords (wf_context m)")
  case True
  then show ?thesis by (simp add: cleared_def approve_def proceed_context noPasswords_run)
next
  case False
  obtain out c p where r: "runState (wf_state m) (wf_readers m) (wf_context m) (wf_passwordId m) = (out, c, p)"
    by (metis prod_cases3)
  have open_state: "wf_state m \<notin> closingStates" using False assms by (auto simp: cleared_def)
  then have "cleared (m\<lparr>wf_context := c, wf_passwordId := p, wf_phase := ph\<rparr>)" for ph
    by (simp add: cleared_def)
  moreover have "wf_state m = ClearPacePasswords \<Longrightarrow> noPasswords c"
    using r by (auto simp: noPasswords_def resetPacePasswords_def)
  ultimately show ?thesis
    using r assms by (cases out) (auto simp: approve_def proceed_simps cleared_emit)
qed

lemma cleared_cancelled:
  assumes "cleared m" "wf_state m \<noteq> ClearPacePasswords"
  shows "cleared (onUserCancelled m)"
proof -
  have "cleared (m\<lparr>wf_context := updateStatus g (wf_context m)\<rparr>)"
    "cleared (m\<lparr>wf_context := updateStatus g ((wf_context m)\<lparr>wc_lastPaceResult := r\<rparr>)\<rparr>)" for g r
    using assms by (simp_all add: cleared_def noPasswords_def updateStatus_def)
  with assms show ?thesis by (auto simp: onUserCancelled_def Let_def intro!: cleared_emit)
qed

lemma cleared_readerEvent:
  assumes "cleared m" "wf_phase m \<noteq> Undefined"
  shows "cleared (readerEvent e m)"
proof (cases "wf_state m = StatePace SelectReader \<or> wf_state m = StatePace ConnectCard")
  case True
  from selecting_readerEvent [OF True assms(2), of e] show ?thesis
    by (auto simp: selecting_def cleared_def closingStates_def)
next
  case False
  then obtain rs where "readerEvent e m = m\<lparr>wf_readers := rs\<rparr>"
    using reader_event_kept by blast
  with assms show ?thesis by (simp add: cleared_def)
qed

lemma command_event_state:
  "wf_state m \<in> closingStates \<or> wf_state m = ClearPacePasswords \<or> wf_state (commandEvent e m) \<notin> closingStates"
proof -
  have "wf_state (emit s m') \<notin> closingStates"
    if "wf_state m' \<notin> closingStates" "wf_state m' \<noteq> ClearPacePasswords" for s m'
    using that transition_closing [of "wf_state m'" s] by (auto simp: emit_def split: option.split)
  then show ?thesis
    by (cases e) (auto simp: commandEvent_def answer_def Let_def)
qed

lemma cleared_commandEvent:
  assumes "cleared m"
  shows "cleared (commandEvent e m)"
proof (cases "wf_state m = ClearPacePasswords")
  case True
  then have "commandEvent e m = m" by (cases e) (simp_all add: commandEvent_def Let_def)
  with assms show ?thesis by simp
next
  case False
  with assms noPasswords_commandEvent [of m e] command_event_state [of m e] show ?thesis
    by (auto simp: cleared_def)
qed

lemma cleared_contextEvent:
  assumes "cleared m" "entersPassword e \<longrightarrow> wf_state m = StatePace EnterPacePassword \<or> wf_state m = EnterNewPacePin"
  shows "cleared (m\<lparr>wf_context := contextEvent e (wf_context m)\<rparr>)"
  using assms by (cases e) (auto simp: cleared_def noPasswords_def closingStates_def)

lemma cleared_reachable: "reachable orderly canAllowed m \<Longrightarrow> cleared m"
proof (induction rule: reachable.induct)
  case initial
  show ?case by (simp add: cleared_def initialWorkflow_def closingStates_def)
next
  case (step m e)
  have "entersPassword e \<longrightarrow> wf_state m = StatePace EnterPacePassword \<or> wf_state m = EnterNewPacePin"
    "e = Cancel \<longrightarrow> wf_state m \<noteq> ClearPacePasswords"
    using step.hyps(2) by (cases e; simp)+
  with step.IH show ?case
    by (simp add: workflow_step_def cleared_approve cleared_cancelled cleared_readerEvent
        cleared_commandEvent cleared_contextEvent)
qed

text \<open>
  C11. When the PIN change is over, and already from its last update of the retry counter on, the
  context holds no CAN, PIN, PUK or new PIN. Passwords are taken to be entered in the two states
  that ask for them, and a cancellation not to come while the state that clears them waits for its
  approval (its transition for an abort leaves out the clearing).
\<close>

theorem finished_workflow_holds_no_password:
  assumes "reachable orderly canAllowed m"
    and "wf_state m \<in> {UpdateRetryCounterFinal, CleanUpReaderManager, Final, Finished}"
  shows "wc_can (wf_context m) = [] \<and> wc_pin (wf_context m) = [] \<and> wc_puk (wf_context m) = [] \<and>
    wc_newPin (wf_context m) = []"
  using cleared_reachable [OF assms(1)] assms(2) unfolding cleared_def closingStates_def noPasswords_def by blast

definition basicReader :: reader_info where
  "basicReader = padReader\<lparr>ri_basicReader := True\<rparr>"

definition wholePinChange :: "event list" where
  "wholePinChange =
    [ReadersChanged [basicReader], Approve, Approve, Approve,
     CardConnectionCreated (Some (padConnection\<lparr>cn_isBasicReader := True\<rparr>)),
     Approve, UpdateRetryCounterDone CR_OK, Approve, Approve, SetPin ''1234'', Approve, Approve,
     EstablishConnectionDone 0 CR_OK, Approve, SetNewPin ''5678'', Approve, Approve, SetEidPinDone CR_OK, Approve,
     DestroyPaceDone, Approve, Approve, UpdateRetryCounterDone CR_OK, Approve, Approve]"

lemmas pin_change_eval = wholePinChange_def pinChangeWithPad_def basicReader_def padReader_def padConnection_def
  workflow_eval

lemma whole_pin_change:
  "reachable orderly False (run workflow_step (initialWorkflow False) wholePinChange)"
  "wf_state (run workflow_step (initialWorkflow False) wholePinChange) = Finished"
  by (rule reachable_run [OF reachable.initial], simp add: pin_change_eval passwordFor_def,
      simp add: pin_change_eval passwordFor_def)

theorem finished_workflow_holds_no_password_witness:
  "wc_pin (wf_context (run workflow_step (initialWorkflow False) wholePinChange)) = []"
  using finished_workflow_holds_no_password [OF whole_pin_change(1)] whole_pin_change(2) by simp

end
