(* ===== verification/Bluetooth.thy ===== *)
theory Bluetooth
  imports PinPad
begin

text \<open>
  Readers that are connected by Bluetooth: the messages of the SIM access profile
  (src/src/card/bluetooth/messages), their parser, the transport in blocks
  (CyberJackWaveDevice.cpp, SynchronousBtCall.cpp), and the card and the reader on top of it
  (BluetoothCard.cpp, BluetoothReader.cpp). A \<open>char\<close> is signed. An enumerator that is cast from a
  byte may be any byte, so identifiers are bytes. The device is a function from the blocks that
  are written to the notifications that arrive before the timeout. Using a null pointer is \<open>None\<close>.
  The reader is a machine over its events; those that the event loops of \<open>SynchronousBtCall\<close> handle
  while a new card is read are nested in the event that announces the card.
\<close>

section \<open>Identifiers\<close>

datatype BluetoothMsgId =
    ConnectRequest | ConnectResponse | DisconnectRequest | DisconnectResponse | DisconnectInd
  | TransferApduRequest | TransferApduResponse | TransferAtrRequest | TransferAtrResponse
  | PowerSimOffRequest | PowerSimOffResponse | PowerSimOnRequest | PowerSimOnResponse
  | ResetSimRequest | ResetSimResponse | TransferCardReaderStatusRequest
  | TransferCardReaderStatusResponse | StatusInd | ErrorResponse | SetTransportProtocolRequest
  | SetTransportProtocolResponse

fun msgIdValue :: "BluetoothMsgId \<Rightarrow> byte" where
  "msgIdValue ConnectRequest = 0x00"
| "msgIdValue ConnectResponse = 0x01"
| "msgIdValue DisconnectRequest = 0x02"
| "msgIdValue DisconnectResponse = 0x03"
| "msgIdValue DisconnectInd = 0x04"
| "msgIdValue TransferApduRequest = 0x05"
| "msgIdValue TransferApduResponse = 0x06"
| "msgIdValue TransferAtrRequest = 0x07"
| "msgIdValue TransferAtrResponse = 0x08"
| "msgIdValue PowerSimOffRequest = 0x0A"
| "msgIdValue PowerSimOffResponse = 0x0A"
| "msgIdValue PowerSimOnRequest = 0x0B"
| "msgIdValue PowerSimOnResponse = 0x0C"
| "msgIdValue ResetSimRequest = 0x0D"
| "msgIdValue ResetSimResponse = 0x0E"
| "msgIdValue TransferCardReaderStatusRequest = 0x0F"
| "msgIdValue TransferCardReaderStatusResponse = 0x10"
| "msgIdValue StatusInd = 0x11"
| "msgIdValue ErrorResponse = 0x12"
| "msgIdValue SetTransportProtocolRequest = 0x13"
| "msgIdValue SetTransportProtocolResponse = 0x14"

datatype BluetoothParamId =
    MaxMsgSize | ConnectionStatus | ResultCode | DisconnectionType | CommandAPDU | ResponseAPDU | ATR
  | CardReaderStatus | StatusChange | TransportProtocol | CommandAPDU7816

fun paramIdValue :: "BluetoothParamId \<Rightarrow> byte" where
  "paramIdValue MaxMsgSize = 0x00"
| "paramIdValue ConnectionStatus = 0x01"
| "paramIdValue ResultCode = 0x02"
| "paramIdValue DisconnectionType = 0x03"
| "paramIdValue CommandAPDU = 0x04"
| "paramIdValue ResponseAPDU = 0x05"
| "paramIdValue ATR = 0x06"
| "paramIdValue CardReaderStatus = 0x07"
| "paramIdValue StatusChange = 0x08"
| "paramIdValue TransportProtocol = 0x09"
| "paramIdValue CommandAPDU7816 = 0x10"

definition BluetoothParamId_list :: "BluetoothParamId list" where
  "BluetoothParamId_list =
    [MaxMsgSize, ConnectionStatus, ResultCode, DisconnectionType, CommandAPDU, ResponseAPDU, ATR,
     CardReaderStatus, StatusChange, TransportProtocol, CommandAPDU7816]"

interpretation param_id: enum_type paramIdValue BluetoothParamId_list
proof
  fix e :: BluetoothParamId
  show "e \<in> set BluetoothParamId_list"
    by (cases e) (simp_all add: BluetoothParamId_list_def)
  show "distinct (map paramIdValue BluetoothParamId_list)"
    by (simp add: BluetoothParamId_list_def)
qed

section \<open>Parameters\<close>

text \<open>
  \<open>bp_number\<close> is the member that a subclass adds: the maximum message size, the result code, the
  connection status, the status change or the status of the reader.
\<close>

record bt_param =
  bp_id :: byte
  bp_value :: bytes
  bp_valid :: bool
  bp_number :: "32 word"

definition BluetoothMessageParameter :: "byte \<Rightarrow> bytes \<Rightarrow> bt_param" where
  "BluetoothMessageParameter pParamId pValue =
     \<lparr>bp_id = pParamId, bp_value = pValue, bp_valid = True, bp_number = 0\<rparr>"

definition parseByteParameter :: "bt_param \<Rightarrow> bt_param" where
  "parseByteParameter p =
    (if length (bp_value p) = 1 then p\<lparr>bp_number := scast (bp_value p ! 0), bp_valid := True\<rparr>
     else p\<lparr>bp_valid := False\<rparr>)"

definition maxMsgSizeOfBytes :: "bytes \<Rightarrow> bt_param" where
  "maxMsgSizeOfBytes pValue =
    (let p = BluetoothMessageParameter (paramIdValue MaxMsgSize) pValue
     in if length pValue \<noteq> 2 then p\<lparr>bp_value := [], bp_valid := False\<rparr>
        else p\<lparr>bp_number := scast (pValue ! 1) OR push_bit 8 (scast (pValue ! 0))\<rparr>)"

definition maxMsgSizeOfNumber :: "32 word \<Rightarrow> bt_param" where
  "maxMsgSizeOfNumber pMaxMsgSize =
    (let p = BluetoothMessageParameter (paramIdValue MaxMsgSize) []
     in if drop_bit 16 pMaxMsgSize \<noteq> 0 then p\<lparr>bp_valid := False\<rparr>
        else p\<lparr>bp_value := be16 (unat pMaxMsgSize), bp_number := pMaxMsgSize\<rparr>)"

definition getPaddingLength :: "nat \<Rightarrow> nat \<Rightarrow> nat" where
  "getPaddingLength pParamLen pPaddingLen =
    (let needsPaddingLen = pPaddingLen - pParamLen mod pPaddingLen
     in if needsPaddingLen = pPaddingLen then 0 else needsPaddingLen)"

definition DEFAULT_PADDING_LENGTH :: nat where
  "DEFAULT_PADDING_LENGTH = 4"

definition addPadding :: "bytes \<Rightarrow> bytes \<Rightarrow> bytes" where
  "addPadding pData pContent =
    (if 0xFFFF < length pContent then pData
     else pData @ replicate (getPaddingLength (length pContent) DEFAULT_PADDING_LENGTH) 0)"

definition paramToData :: "bt_param \<Rightarrow> bytes" where
  "paramToData p =
    (if 0xFFFF < length (bp_value p) then []
     else addPadding ([bp_id p, 0] @ be16 (length (bp_value p)) @ bp_value p) (bp_value p))"

section \<open>Messages\<close>

text \<open>
  The parameters are a \<open>QMap\<close> with several values for a key: in the order of the keys, and for the
  same key the last one that was inserted comes first.
\<close>

record bt_message =
  bm_id :: byte
  bm_params :: "bt_param list"

definition BluetoothMessage :: "byte \<Rightarrow> bt_message" where
  "BluetoothMessage pMsgId = \<lparr>bm_id = pMsgId, bm_params = []\<rparr>"

definition getParameter :: "byte \<Rightarrow> bt_message \<Rightarrow> bt_param option" where
  "getParameter pId m = find (\<lambda>p. bp_id p = pId) (bm_params m)"

definition addParameter :: "bt_param \<Rightarrow> bt_message \<Rightarrow> bt_message" where
  "addParameter p m =
    (let less = (\<lambda>q. sint (bp_id q) < sint (bp_id p))
     in m\<lparr>bm_params := takeWhile less (bm_params m) @ p # dropWhile less (bm_params m)\<rparr>)"

definition toData :: "bt_message \<Rightarrow> bytes" where
  "toData m =
    (if 127 < length (bm_params m) then []
     else [bm_id m, word_of_nat (length (bm_params m)), 0, 0] @ concat (map paramToData (bm_params m)))"

definition createConnectRequest :: "32 word \<Rightarrow> bt_message" where
  "createConnectRequest pMaxMsgSize =
     addParameter (maxMsgSizeOfNumber pMaxMsgSize) (BluetoothMessage (msgIdValue ConnectRequest))"

definition createDisconnectRequest :: bt_message where
  "createDisconnectRequest = BluetoothMessage (msgIdValue DisconnectRequest)"

definition createTransferApduRequest :: "bytes \<Rightarrow> bt_message" where
  "createTransferApduRequest pApdu =
     addParameter (BluetoothMessageParameter (paramIdValue CommandAPDU7816) pApdu)
       (BluetoothMessage (msgIdValue TransferApduRequest))"

definition createTransferAtrRequest :: bt_message where
  "createTransferAtrRequest = BluetoothMessage (msgIdValue TransferAtrRequest)"

definition createPowerSimOnRequest :: bt_message where
  "createPowerSimOnRequest = BluetoothMessage (msgIdValue PowerSimOnRequest)"

definition createPowerSimOffRequest :: bt_message where
  "createPowerSimOffRequest = BluetoothMessage (msgIdValue PowerSimOffRequest)"

definition createResetSimRequest :: bt_message where
  "createResetSimRequest = BluetoothMessage (msgIdValue ResetSimRequest)"

definition createTransferCardReaderStatusRequest :: bt_message where
  "createTransferCardReaderStatusRequest = BluetoothMessage (msgIdValue TransferCardReaderStatusRequest)"

text \<open>The protocol is T0 (0) or T1 (1).\<close>

definition createSetTransportProtocolRequest :: "byte \<Rightarrow> bt_message" where
  "createSetTransportProtocolRequest pProtocol =
     addParameter (BluetoothMessageParameter (paramIdValue TransportProtocol) [pProtocol])
       (BluetoothMessage (msgIdValue SetTransportProtocolRequest))"

section \<open>The parser\<close>

definition createMessageParameter :: "byte \<Rightarrow> bytes \<Rightarrow> bt_param" where
  "createMessageParameter pParamId pValue =
    (if pParamId \<in> {paramIdValue StatusChange, paramIdValue ResultCode, paramIdValue ConnectionStatus,
                    paramIdValue CardReaderStatus}
     then parseByteParameter (BluetoothMessageParameter pParamId pValue)
     else if pParamId = paramIdValue MaxMsgSize then maxMsgSizeOfBytes pValue
     else BluetoothMessageParameter pParamId pValue)"

text \<open>\<open>None\<close> when the data ends before the message does.\<close>

fun parseParameter :: "nat \<Rightarrow> bytes \<Rightarrow> bt_message \<Rightarrow> (bt_message \<times> bytes) option" where
  "parseParameter 0 data m = Some (m, data)"
| "parseParameter (Suc pParamCount) data m =
    (if length data < 4 then None
     else
       let paramLength = from_be [data ! 2, data ! 3];
           padded = paramLength + getPaddingLength paramLength DEFAULT_PADDING_LENGTH;
           rest = drop 4 data
       in if length rest < padded then None
          else parseParameter pParamCount (drop padded rest)
                 (addParameter (createMessageParameter (data ! 0) (take paramLength rest)) m))"

lemma parseParameter_length: "parseParameter n data m = Some (m', rest) \<Longrightarrow> length rest \<le> length data"
  by (induction n data m rule: parseParameter.induct) (fastforce simp: Let_def split: if_splits)+

function parse :: "bytes \<Rightarrow> bt_message list \<times> bytes" where
  "parse data =
    (if length data < 4 then ([], data)
     else case parseParameter (nat (sint (data ! 1))) (drop 4 data) (BluetoothMessage (data ! 0)) of
            None \<Rightarrow> ([], data)
          | Some (m, rest) \<Rightarrow> (case parse rest of (ms, remaining) \<Rightarrow> (m # ms, remaining)))"
  by pat_completeness auto
termination
  by (relation "measure length") (auto dest!: parseParameter_length)

declare parse.simps [simp del] parseParameter.simps(2) [simp del]

section \<open>Messages are read back\<close>

text \<open>
  A parameter as the parser makes it, that fits into its length field; and the order in which a
  map with one value for each key holds them.
\<close>

definition wireParameter :: "bt_param \<Rightarrow> bool" where
  "wireParameter p \<longleftrightarrow> createMessageParameter (bp_id p) (bp_value p) = p \<and> length (bp_value p) \<le> 0xFFFF"

definition ascending :: "bt_param list \<Rightarrow> bool" where
  "ascending ps \<longleftrightarrow> sorted_wrt (\<lambda>p q. sint (bp_id p) < sint (bp_id q)) ps"

definition wireMessage :: "bt_message \<Rightarrow> bool" where
  "wireMessage m \<longleftrightarrow>
     list_all wireParameter (bm_params m) \<and> ascending (bm_params m) \<and> length (bm_params m) \<le> 127"

lemma addParameter_last:
  assumes "ascending (ps @ p # qs)"
  shows "addParameter p \<lparr>bm_id = i, bm_params = ps\<rparr> = \<lparr>bm_id = i, bm_params = ps @ [p]\<rparr>"
proof -
  have "\<forall>q\<in>set ps. sint (bp_id q) < sint (bp_id p)"
    using assms by (simp add: ascending_def sorted_wrt_append)
  then show ?thesis
    by (simp add: addParameter_def takeWhile_eq_all_conv [THEN iffD2] dropWhile_eq_Nil_conv [THEN iffD2])
qed

definition paddedLength :: "bytes \<Rightarrow> nat" where
  "paddedLength v = length v + getPaddingLength (length v) DEFAULT_PADDING_LENGTH"

lemma paramToData_wire:
  assumes "wireParameter p"
  shows "paramToData p = [bp_id p, 0, high_byte (length (bp_value p)), low_byte (length (bp_value p))] @ bp_value p @
    replicate (getPaddingLength (length (bp_value p)) DEFAULT_PADDING_LENGTH) 0"
  using assms by (simp add: wireParameter_def paramToData_def addPadding_def be16_def)

lemma length_paramToData:
  "wireParameter p \<Longrightarrow> length (paramToData p) = 4 + paddedLength (bp_value p)"
  by (simp add: paramToData_wire paddedLength_def)

text \<open>One step of the parser on a parameter that may be cut off.\<close>

lemma parse_wire_parameter:
  assumes "wireParameter p" "length (paramToData p) \<le> k"
  shows "parseParameter (Suc n) (take k (paramToData p @ rest)) m =
    parseParameter n (take (k - length (paramToData p)) rest) (addParameter p m)"
proof -
  let ?v = "bp_value p"
  have len: "length ?v < 65536" using assms(1) by (simp add: wireParameter_def)
  have be: "from_be [high_byte (length ?v), low_byte (length ?v)] = length ?v"
    using len by (simp add: from_be_pair)
  have "take k (paramToData p @ rest) = paramToData p @ take (k - length (paramToData p)) rest"
    using assms(2) by simp
  moreover have "createMessageParameter (bp_id p) ?v = p" using assms(1) by (simp add: wireParameter_def)
  ultimately show ?thesis
    using be by (simp add: paramToData_wire [OF assms(1)] parseParameter.simps(2) Let_def del: from_be_2)
qed

lemma parse_cut_parameter:
  assumes "wireParameter p" "k < length (paramToData p)"
  shows "parseParameter (Suc n) (take k (paramToData p @ rest)) m = None"
proof (cases "k < 4")
  case False
  let ?v = "bp_value p"
  have len: "length ?v < 65536" using assms(1) by (simp add: wireParameter_def)
  have be: "from_be [high_byte (length ?v), low_byte (length ?v)] = length ?v"
    using len by (simp add: from_be_pair)
  define t where "t = take (k - 4) (?v @ replicate (getPaddingLength (length ?v) DEFAULT_PADDING_LENGTH) 0)"
  have data: "take k (paramToData p @ rest) =
      [bp_id p, 0, high_byte (length ?v), low_byte (length ?v)] @ t"
    using False assms(2) by (simp add: paramToData_wire [OF assms(1)] t_def take_Cons' numeral_eq_Suc)
  have "length t < length ?v + getPaddingLength (length ?v) DEFAULT_PADDING_LENGTH"
    using False assms(2) by (simp add: t_def length_paramToData [OF assms(1)] paddedLength_def)
  then show ?thesis
    unfolding data using be by (simp add: parseParameter.simps(2) Let_def del: from_be_2)
next
  case True
  then have "length (take k (paramToData p @ rest)) < 4" by simp
  then show ?thesis by (simp only: parseParameter.simps(2) if_True)
qed

lemma parse_wire_parameters:
  assumes "list_all wireParameter qs" "ascending (ps @ qs)"
    and "length (concat (map paramToData qs)) \<le> k"
  shows "parseParameter (length qs) (take k (concat (map paramToData qs) @ rest)) \<lparr>bm_id = i, bm_params = ps\<rparr> =
    Some (\<lparr>bm_id = i, bm_params = ps @ qs\<rparr>, take (k - length (concat (map paramToData qs))) rest)"
  using assms
proof (induction qs arbitrary: ps k)
  case (Cons q qs)
  have "addParameter q \<lparr>bm_id = i, bm_params = ps\<rparr> = \<lparr>bm_id = i, bm_params = ps @ [q]\<rparr>"
    using Cons.prems(2) by (rule addParameter_last)
  with Cons.prems Cons.IH [of "ps @ [q]" "k - length (paramToData q)"]
    parse_wire_parameter [of q k "length qs" "concat (map paramToData qs) @ rest"] show ?case
    by simp
qed simp

lemma parse_cut_parameters:
  assumes "list_all wireParameter qs" "k < length (concat (map paramToData qs))"
  shows "parseParameter (length qs) (take k (concat (map paramToData qs) @ rest)) m = None"
  using assms
proof (induction qs arbitrary: m k)
  case (Cons q qs)
  show ?case
  proof (cases "k < length (paramToData q)")
    case True
    with Cons.prems parse_cut_parameter [of q k "length qs" "concat (map paramToData qs) @ rest"] show ?thesis
      by simp
  next
    case False
    with Cons.prems Cons.IH [of "k - length (paramToData q)"]
      parse_wire_parameter [of q k "length qs" "concat (map paramToData qs) @ rest"] show ?thesis
      by simp
  qed
qed simp

lemma toData_wire:
  "wireMessage m \<Longrightarrow> toData m =
     [bm_id m, word_of_nat (length (bm_params m)), 0, 0] @ concat (map paramToData (bm_params m))"
  by (simp add: wireMessage_def toData_def)

lemma parameter_count: "n \<le> 127 \<Longrightarrow> nat (sint (word_of_nat n :: byte)) = n"
  by (simp add: signed_of_nat signed_take_bit_int_eq_self)

lemma parse_wire_message:
  assumes "wireMessage m"
  shows "parse (toData m @ rest) = (m # fst (parse rest), snd (parse rest))"
proof -
  let ?b = "concat (map paramToData (bm_params m))"
  have "parseParameter (length (bm_params m)) (?b @ rest) (BluetoothMessage (bm_id m)) = Some (m, rest)"
    using assms parse_wire_parameters [of "bm_params m" "[]" "length ?b + length rest" rest "bm_id m"]
    by (simp add: wireMessage_def BluetoothMessage_def)
  then show ?thesis
    using assms parse.simps [of "toData m @ rest"]
    by (simp add: toData_wire parameter_count wireMessage_def split: prod.split)
qed

lemma parse_nothing [simp]: "parse [] = ([], [])"
  by (simp add: parse.simps)

lemma parse_cut_message:
  assumes "wireMessage m" "k < length (toData m)"
  shows "parse (take k (toData m @ rest)) = ([], take k (toData m))"
proof (cases "k < 4")
  case True
  then show ?thesis using assms by (subst parse.simps) simp
next
  case False
  let ?b = "concat (map paramToData (bm_params m))"
  have k: "k - 4 < length ?b" using assms False by (simp add: toData_wire)
  have "take k (toData m @ rest) =
      [bm_id m, word_of_nat (length (bm_params m)), 0, 0] @ take (k - 4) (?b @ rest)"
    using False assms(2) by (simp add: toData_wire [OF assms(1)] take_Cons' numeral_eq_Suc)
  moreover have "parseParameter (length (bm_params m)) (take (k - 4) (?b @ rest)) (BluetoothMessage (bm_id m)) = None"
    using assms(1) k by (intro parse_cut_parameters) (simp_all add: wireMessage_def)
  moreover have "take k (toData m @ rest) = take k (toData m)" using assms(2) by simp
  ultimately show ?thesis
    using assms parse.simps [of "take k (toData m @ rest)"]
    by (simp add: parameter_count wireMessage_def)
qed

text \<open>
  A sequence of messages that is written one after the other is read back: the parser gives the
  same messages with the same parameters, and keeps the bytes of a message that is not complete.
  The parameters are those the parser makes, with different identifiers.
\<close>

theorem bluetooth_messages_roundtrip:
  assumes "list_all wireMessage ms" "wireMessage m" "k < length (toData m)"
  shows "parse (concat (map toData ms) @ take k (toData m)) = (ms, take k (toData m))"
  using assms(1)
proof (induction ms)
  case Nil
  then show ?case using parse_cut_message [OF assms(2,3), of "[]"] by simp
next
  case (Cons x ms)
  then show ?case by (simp add: parse_wire_message)
qed

lemma padding_zeros: "replicate 3 x = [x, x, x]" "replicate 2 x = [x, x]"
  by (simp_all add: numeral_eq_Suc)

theorem bluetooth_messages_roundtrip_witness:
  "parse [0x06, 0x02, 0, 0, 0x02, 0, 0, 0x01, 0, 0, 0, 0, 0x05, 0, 0, 0x02, 0x90, 0, 0, 0, 0x11, 0x01, 0] =
    ([\<lparr>bm_id = 0x06, bm_params = [createMessageParameter 2 [0], createMessageParameter 5 [0x90, 0]]\<rparr>],
     [0x11, 0x01, 0])"
  using bluetooth_messages_roundtrip
    [of "[\<lparr>bm_id = 0x06, bm_params = [createMessageParameter 2 [0], createMessageParameter 5 [0x90, 0]]\<rparr>]"
        "\<lparr>bm_id = 0x11, bm_params = [createMessageParameter 8 [4]]\<rparr>" 3]
  by (simp add: wireMessage_def wireParameter_def ascending_def createMessageParameter_def parseByteParameter_def
      BluetoothMessageParameter_def toData_def paramToData_def addPadding_def getPaddingLength_def
      DEFAULT_PADDING_LENGTH_def be16_def high_byte_def low_byte_def Let_def
      padding_zeros)

section \<open>Transport\<close>

definition OUTPUT_BLOCK_SIZE :: nat where
  "OUTPUT_BLOCK_SIZE = 20"

text \<open>The blocks that \<open>CyberJackWaveDevice::write\<close> hands to the device.\<close>

definition writeBlocks :: "bytes \<Rightarrow> bytes list" where
  "writeBlocks pValue =
     map (\<lambda>i. mid (i * OUTPUT_BLOCK_SIZE) OUTPUT_BLOCK_SIZE pValue) [0..<length pValue div OUTPUT_BLOCK_SIZE + 1]"

record 'd bt_device =
  bd_isValid :: "'d \<Rightarrow> bool"
  bd_exchange :: "bytes list \<Rightarrow> 'd \<Rightarrow> bytes list \<times> 'd"

text \<open>\<open>onCharacteristicChanged\<close> for the notifications in their order; the first message ends the wait.\<close>

fun onCharacteristicChanged :: "bytes \<Rightarrow> bytes list \<Rightarrow> bt_message option" where
  "onCharacteristicChanged mBuffer [] = None"
| "onCharacteristicChanged mBuffer (pNewValue # news) =
    (case fst (parse (mBuffer @ pNewValue)) of
       [] \<Rightarrow> onCharacteristicChanged (mBuffer @ pNewValue) news
     | m # _ \<Rightarrow> Some m)"

definition SynchronousBtCall_send ::
  "'d bt_device \<Rightarrow> bt_message \<Rightarrow> BluetoothMsgId \<Rightarrow> 'd \<Rightarrow> bt_message option \<times> 'd" where
  "SynchronousBtCall_send D pRequest pResponseType d =
    (let (news, d') = bd_exchange D (if bd_isValid D d then writeBlocks (toData pRequest) else []) d
     in case onCharacteristicChanged [] news of
          None \<Rightarrow> (None, d')
        | Some m \<Rightarrow> (if bm_id m \<noteq> msgIdValue pResponseType then None else Some m, d'))"

lemma writeBlocks_concat: "concat (writeBlocks v) = v"
proof -
  have "concat (map (\<lambda>i. mid (i * 20) 20 v) [0..<n]) = take (n * 20) v" for n
    by (induction n) (simp_all add: mid_def add.commute [of 20] flip: take_add)
  moreover have "length v \<le> (length v div 20 + 1) * 20" by presburger
  ultimately show ?thesis by (simp only: writeBlocks_def OUTPUT_BLOCK_SIZE_def) (rule take_all)
qed

text \<open>
  What is written reaches the device complete, in order and in blocks of at most 20 bytes; the
  last block is empty when the length is a multiple of 20.
\<close>

theorem written_blocks_carry_the_message:
  "concat (writeBlocks v) = v \<and> list_all (\<lambda>b. length b \<le> 20) (writeBlocks v) \<and>
   (last (writeBlocks v) = [] \<longleftrightarrow> 20 dvd length v)"
proof -
  have "length v div 20 * 20 + length v mod 20 = length v" by simp
  then have "length v \<le> length v div 20 * 20 \<longleftrightarrow> length v mod 20 = 0" by linarith
  then show ?thesis
    using writeBlocks_concat [of v]
    by (auto simp: writeBlocks_def OUTPUT_BLOCK_SIZE_def list_all_iff mid_def dvd_eq_mod_eq_0)
qed

lemma receive_buffer:
  assumes "wireMessage m" "concat news = drop k (toData m @ junk)" "k < length (toData m)"
  shows "onCharacteristicChanged (take k (toData m @ junk)) news = Some m"
  using assms(2,3)
proof (induction news arbitrary: k)
  case Nil
  then show ?case by simp
next
  case (Cons c news)
  let ?all = "toData m @ junk"
  let ?n = "k + length c"
  have buffer: "take k ?all @ c = take ?n ?all"
    unfolding take_add Cons.prems(1) [symmetric] by simp
  have rest: "concat news = drop ?n ?all"
    unfolding add.commute [of k] drop_drop [symmetric] Cons.prems(1) [symmetric] by simp
  show ?case
  proof (cases "?n < length (toData m)")
    case True
    with Cons.IH [OF rest True] parse_cut_message [OF assms(1) True, of junk] show ?thesis
      by (simp add: buffer del: take_append)
  next
    case False
    then have "take ?n ?all = toData m @ take (?n - length (toData m)) junk" by simp
    then show ?thesis using parse_wire_message [OF assms(1)] by (simp add: buffer del: take_append)
  qed
qed

lemma toData_wire_nonempty: "wireMessage m \<Longrightarrow> 0 < length (toData m)"
  by (simp add: toData_wire)

text \<open>
  A response is recognised however the device cuts it into notifications, as soon as it is
  complete, and whatever follows it.
\<close>

theorem response_is_assembled:
  assumes "wireMessage m" "concat news = toData m @ junk"
  shows "onCharacteristicChanged [] news = Some m"
  using receive_buffer [OF assms(1), of news 0 junk] assms(2) toData_wire_nonempty [OF assms(1)] by simp

theorem response_is_assembled_witness:
  "onCharacteristicChanged [] [[0x11], [0x01, 0, 0, 0x08], [0, 0, 0x01, 0x04, 0, 0], [0, 0xFF]] =
     Some \<lparr>bm_id = 0x11, bm_params = [createMessageParameter 8 [4]]\<rparr>"
  by (rule response_is_assembled [where junk = "[0xFF]"])
    (simp_all add: wireMessage_def wireParameter_def ascending_def createMessageParameter_def parseByteParameter_def
      BluetoothMessageParameter_def toData_def paramToData_def addPadding_def getPaddingLength_def
      DEFAULT_PADDING_LENGTH_def be16_def high_byte_def low_byte_def Let_def padding_zeros)

section \<open>The card\<close>

text \<open>\<open>getResultCode\<close> of the responses and \<open>getResponseAPDU\<close>; \<open>None\<close> is a null pointer that is used.\<close>

definition getResultCode :: "bt_message \<Rightarrow> 32 word option" where
  "getResultCode m = map_option bp_number (getParameter (paramIdValue ResultCode) m)"

definition getResponseAPDU :: "bt_message \<Rightarrow> bytes option" where
  "getResponseAPDU m = map_option bp_value (getParameter (paramIdValue ResponseAPDU) m)"

text \<open>\<open>BluetoothResultCode::Ok\<close>.\<close>

definition resultOk :: "32 word" where
  "resultOk = 0"

record 'd bt_card =
  bc_connected :: bool
  bc_device :: 'd

definition BluetoothCard_connect :: "'d bt_device \<Rightarrow> 'd bt_card \<Rightarrow> (CardReturnCode \<times> 'd bt_card) option" where
  "BluetoothCard_connect D c =
    (if bc_connected c then Some (CR_COMMAND_FAILED, c)
     else
       let (response, d) = SynchronousBtCall_send D (createSetTransportProtocolRequest 0x01)
             SetTransportProtocolResponse (bc_device c);
           c = c\<lparr>bc_device := d\<rparr>
       in case response of
            None \<Rightarrow> Some (CR_COMMAND_FAILED, c)
          | Some m \<Rightarrow>
             (case getResultCode m of
                None \<Rightarrow> None
              | Some resultCode \<Rightarrow>
                 if resultCode \<noteq> resultOk then Some (CR_COMMAND_FAILED, c)
                 else Some (CR_OK, c\<lparr>bc_connected := True\<rparr>)))"

definition BluetoothCard_disconnect :: "'d bt_device \<Rightarrow> 'd bt_card \<Rightarrow> CardReturnCode \<times> 'd bt_card" where
  "BluetoothCard_disconnect D c =
    (if \<not> bc_connected c then (CR_COMMAND_FAILED, c)
     else
       let (response, d) = SynchronousBtCall_send D createDisconnectRequest DisconnectResponse (bc_device c);
           c = c\<lparr>bc_device := d, bc_connected := False\<rparr>
       in (if response = None then CR_COMMAND_FAILED else CR_OK, c))"

text \<open>The response is \<open>None\<close> where the code leaves the given one as it is.\<close>

definition BluetoothCard_transmit ::
  "'d bt_device \<Rightarrow> bytes \<Rightarrow> 'd bt_card \<Rightarrow> (CardReturnCode \<times> bytes option \<times> 'd bt_card) option" where
  "BluetoothCard_transmit D pCmd c =
    (if \<not> bc_connected c then Some (CR_COMMAND_FAILED, None, c)
     else
       let (response, d) = SynchronousBtCall_send D (createTransferApduRequest pCmd) TransferApduResponse (bc_device c);
           c = c\<lparr>bc_device := d\<rparr>
       in case response of
            None \<Rightarrow> Some (CR_COMMAND_FAILED, None, c)
          | Some m \<Rightarrow>
             (case getResultCode m of
                None \<Rightarrow> None
              | Some resultCode \<Rightarrow>
                 if resultCode \<noteq> resultOk then Some (CR_COMMAND_FAILED, None, c)
                 else
                   (case getResponseAPDU m of
                      None \<Rightarrow> None
                    | Some apdu \<Rightarrow> Some (CR_OK, Some apdu, c))))"

definition BluetoothCard_establishPaceChannel ::
  "'d bt_device \<Rightarrow> pace_input_asn1 \<Rightarrow> pace_asn1 \<Rightarrow> pace_input \<Rightarrow> 'd bt_card
     \<Rightarrow> (CardReturnCode \<times> pace_output option \<times> 'd bt_card) option" where
  "BluetoothCard_establishPaceChannel D I P builder c =
    (case BluetoothCard_transmit D (createCommandDataCcid I builder) c of
       None \<Rightarrow> None
     | Some (returnCode, response, c) \<Rightarrow>
        if returnCode \<noteq> CR_OK then Some (returnCode, None, c)
        else
          let output = parseFromCcid P (case response of None \<Rightarrow> [] | Some b \<Rightarrow> b) (pi_passwordId builder)
          in Some (po_returnCode output, Some output, c))"

definition destroyPaceChannelCommandData :: bytes where
  "destroyPaceChannelCommandData = [0x03, 0, 0]"

definition destroyPaceChannelCcid :: bytes where
  "destroyPaceChannelCcid = CommandApdu 0xFF 0x9A 0x04 0x03 [] 0"

definition BluetoothCard_destroyPaceChannel ::
  "'d bt_device \<Rightarrow> 'd bt_card \<Rightarrow> (CardReturnCode \<times> bytes option \<times> 'd bt_card) option" where
  "BluetoothCard_destroyPaceChannel D c = BluetoothCard_transmit D destroyPaceChannelCcid c"

definition BluetoothCard_setEidPin ::
  "'d bt_device \<Rightarrow> byte \<Rightarrow> 'd bt_card \<Rightarrow> (CardReturnCode \<times> bytes option \<times> 'd bt_card) option" where
  "BluetoothCard_setEidPin D pTimeoutSeconds c =
    (case BluetoothCard_transmit D (createCcidForBluetooth pTimeoutSeconds) c of
       None \<Rightarrow> None
     | Some (returnCode, response, c) \<Rightarrow>
        if returnCode \<noteq> CR_OK then Some (returnCode, response, c)
        else Some (pinModifyStatusToCardReturnCode (case response of None \<Rightarrow> [] | Some b \<Rightarrow> b), response, c))"

lemma transfer_request_wire:
  assumes "length cmd \<le> 0xFFFF"
  shows "wireMessage (createTransferApduRequest cmd)"
    "createTransferApduRequest cmd = \<lparr>bm_id = 5, bm_params = [BluetoothMessageParameter 0x10 cmd]\<rparr>"
  using assms
  by (simp_all add: createTransferApduRequest_def addParameter_def BluetoothMessage_def wireMessage_def
      wireParameter_def ascending_def createMessageParameter_def BluetoothMessageParameter_def Let_def)

text \<open>
  The transmission of an APDU: the device is handed blocks that are exactly one message, the
  request with this APDU; and when it answers with the result Ok and a response APDU, in whatever
  notifications, the caller gets this response.
\<close>

theorem transmit_over_bluetooth:
  assumes "bc_connected c" "bd_isValid D (bc_device c)" "length cmd \<le> 0xFFFF"
    and "bd_exchange D blocks (bc_device c) = (news, d')"
    and "blocks = writeBlocks (toData (createTransferApduRequest cmd))"
    and "wireMessage m" "bm_id m = msgIdValue TransferApduResponse" "concat news = toData m @ junk"
    and "getResultCode m = Some resultOk" "getResponseAPDU m = Some r"
  shows "BluetoothCard_transmit D cmd c = Some (CR_OK, Some r, c\<lparr>bc_device := d'\<rparr>) \<and>
    parse (concat blocks) = ([\<lparr>bm_id = 5, bm_params = [BluetoothMessageParameter 0x10 cmd]\<rparr>], [])"
proof
  have "onCharacteristicChanged [] news = Some m"
    using receive_buffer [OF assms(6), of news 0 junk] assms(8) toData_wire_nonempty [OF assms(6)] by simp
  with assms show "BluetoothCard_transmit D cmd c = Some (CR_OK, Some r, c\<lparr>bc_device := d'\<rparr>)"
    by (simp add: BluetoothCard_transmit_def SynchronousBtCall_send_def Let_def)
  show "parse (concat blocks) = ([\<lparr>bm_id = 5, bm_params = [BluetoothMessageParameter 0x10 cmd]\<rparr>], [])"
    using parse_wire_message [OF transfer_request_wire(1) [OF assms(3)], of "[]"]
    by (simp add: assms(5) writeBlocks_concat transfer_request_wire(2) [OF assms(3)])
qed

definition okDevice :: "unit bt_device" where
  "okDevice = \<lparr>bd_isValid = (\<lambda>_. True),
     bd_exchange = (\<lambda>_ d. ([[0x06, 0x02, 0, 0, 0x02, 0, 0, 0x01, 0], [0, 0, 0, 0x05, 0, 0, 0x02, 0x90, 0, 0, 0]], d))\<rparr>"

theorem transmit_over_bluetooth_witness:
  "BluetoothCard_transmit okDevice [0, 0x84, 0, 0, 8] \<lparr>bc_connected = True, bc_device = ()\<rparr> =
     Some (CR_OK, Some [0x90, 0], \<lparr>bc_connected = True, bc_device = ()\<rparr>)"
  using transmit_over_bluetooth
    [of "\<lparr>bc_connected = True, bc_device = ()\<rparr>" okDevice "[0, 0x84, 0, 0, 8]"
        "writeBlocks (toData (createTransferApduRequest [0, 0x84, 0, 0, 8]))"
        "[[0x06, 0x02, 0, 0, 0x02, 0, 0, 0x01, 0], [0, 0, 0, 0x05, 0, 0, 0x02, 0x90, 0, 0, 0]]" "()"
        "\<lparr>bm_id = 0x06, bm_params = [createMessageParameter 2 [0], createMessageParameter 5 [0x90, 0]]\<rparr>" "[]"
        "[0x90, 0]"]
  by (simp add: okDevice_def wireMessage_def wireParameter_def ascending_def createMessageParameter_def
      parseByteParameter_def BluetoothMessageParameter_def toData_def paramToData_def addPadding_def
      getPaddingLength_def DEFAULT_PADDING_LENGTH_def be16_def high_byte_def low_byte_def Let_def padding_zeros
      getResultCode_def getResponseAPDU_def getParameter_def resultOk_def)

text \<open>
  A message of the device that lacks a parameter makes the code use a null pointer: a response to
  the transfer of an APDU without result code.
\<close>

theorem response_without_result_is_undefined:
  "BluetoothCard_transmit \<lparr>bd_isValid = (\<lambda>_. True), bd_exchange = (\<lambda>_ d. ([[0x06, 0, 0, 0]], d))\<rparr> cmd
     \<lparr>bc_connected = True, bc_device = d\<rparr> = None"
  by (simp add: BluetoothCard_transmit_def SynchronousBtCall_send_def parse.simps [of "[6, 0, 0, 0]"]
      BluetoothMessage_def getResultCode_def getParameter_def Let_def)

text \<open>
  A result code of the wrong size counts as Ok, whatever its bytes are, since nobody asks whether
  the parameter is valid.
\<close>

theorem oversized_result_code_is_ok:
  assumes "length v \<noteq> 1"
  shows "getResultCode \<lparr>bm_id = i, bm_params = [createMessageParameter (paramIdValue ResultCode) v]\<rparr> = Some resultOk"
  using assms
  by (simp add: getResultCode_def getParameter_def createMessageParameter_def parseByteParameter_def
      BluetoothMessageParameter_def resultOk_def)

theorem oversized_result_code_is_ok_witness:
  "getResultCode \<lparr>bm_id = 6, bm_params = [createMessageParameter (paramIdValue ResultCode) [0, 4]]\<rparr> = Some resultOk"
  by (rule oversized_result_code_is_ok) simp

text \<open>
  The maximum message size 200 is not read back: its byte is negative as a \<open>char\<close>, and the sign is
  extended.
\<close>

theorem max_message_size_sign:
  "maxMsgSizeOfBytes (bp_value (maxMsgSizeOfNumber 200)) =
     \<lparr>bp_id = 0, bp_value = [0, 200], bp_valid = True, bp_number = 0xFFFFFFC8\<rparr>"
  by (simp add: maxMsgSizeOfBytes_def maxMsgSizeOfNumber_def BluetoothMessageParameter_def be16_def high_byte_def
      low_byte_def Let_def)

section \<open>The reader\<close>

text \<open>
  \<open>br_card\<close> tells whether the reader holds a card object. What \<open>CardInfoFactory\<close> reads from a new
  card is left out here, but not that it waits for the answers of the card in an event loop of its own, which
  handles the events that come meanwhile.
\<close>

datatype CardEvent = NONE | CARD_INSERTED | CARD_REMOVED

record bt_reader =
  br_card :: bool
  br_lastCardEvent :: CardEvent
  br_connected :: bool
  br_timer :: bool

datatype BluetoothStatusChange = Unknown | CardReset | CardNotAccessible | CardRemoved | CardInserted | CardRecovered

fun statusChangeValue :: "BluetoothStatusChange \<Rightarrow> byte" where
  "statusChangeValue Unknown = 0"
| "statusChangeValue CardReset = 1"
| "statusChangeValue CardNotAccessible = 2"
| "statusChangeValue CardRemoved = 3"
| "statusChangeValue CardInserted = 4"
| "statusChangeValue CardRecovered = 5"

text \<open>A status indication without the parameter is unknown.\<close>

definition getStatusChange :: "bt_message \<Rightarrow> 32 word" where
  "getStatusChange m =
    (case getParameter (paramIdValue StatusChange) m of
       None \<Rightarrow> ucast (statusChangeValue Unknown) | Some p \<Rightarrow> bp_number p)"

text \<open>\<open>BluetoothMessageParameterCardReaderStatus::getStatusChange\<close> and its message.\<close>

definition getReaderStatusChange :: "bt_message \<Rightarrow> BluetoothStatusChange" where
  "getReaderStatusChange m =
    (case getParameter (paramIdValue CardReaderStatus) m of
       None \<Rightarrow> Unknown
     | Some p \<Rightarrow> if bp_number p = 0x78 then CardInserted else if bp_number p = 0x38 then CardRemoved else Unknown)"

definition BluetoothReader :: "bool \<Rightarrow> bt_reader" where
  "BluetoothReader deviceValid =
     \<lparr>br_card = False, br_lastCardEvent = NONE, br_connected = deviceValid, br_timer = False\<rparr>"

definition onCardRemoved :: "bt_reader \<Rightarrow> bt_reader" where
  "onCardRemoved r = r\<lparr>br_lastCardEvent := CARD_REMOVED, br_card := False\<rparr>"

definition updateCard :: "bt_reader \<Rightarrow> CardEvent \<times> bt_reader" where
  "updateCard r = (br_lastCardEvent r, r\<lparr>br_lastCardEvent := NONE\<rparr>)"

text \<open>
  A notification. When a card is there, \<open>readCard\<close> stands for the creation of the connection and of the
  card information, with the events that their event loops handle, before the insertion is noted
  as the event to report. The second result are the events reported meanwhile.
\<close>

definition onStatusCharacteristicChanged ::
  "(bt_reader \<Rightarrow> bt_reader \<times> CardEvent list) \<Rightarrow> bytes \<Rightarrow> bt_reader \<Rightarrow> bt_reader \<times> CardEvent list" where
  "onStatusCharacteristicChanged readCard pValue r =
    (case fst (parse pValue) of
       [m] \<Rightarrow>
         if bm_id m \<noteq> msgIdValue StatusInd then (r, [])
         else
           let statusChange = getStatusChange m
           in if \<not> br_card r \<and> (statusChange = ucast (statusChangeValue CardInserted)
                               \<or> statusChange = ucast (statusChangeValue CardReset))
              then (case readCard (r\<lparr>br_card := True\<rparr>) of (r, out) \<Rightarrow> (r\<lparr>br_lastCardEvent := CARD_INSERTED\<rparr>, out))
              else if br_card r \<and> statusChange = ucast (statusChangeValue CardRemoved) then (onCardRemoved r, [])
              else (r, [])
     | _ \<Rightarrow> (r, []))"

text \<open>
  A notification carries the events that are handled while the card is read, if it is read. \<open>Initialized\<close>
  is the end of the initialization, with whether the transport protocol was accepted and whether the device is
  valid; what is handled while it waits comes before it.
\<close>

datatype reader_event = Initialized bool bool | Disconnected | StatusNotified bytes "reader_event list" | Timer

text \<open>The events that are reported to the rest of the program are the second component.\<close>

fun reader_step :: "bt_reader \<Rightarrow> reader_event \<Rightarrow> bt_reader \<times> CardEvent list"
  and reader_run :: "bt_reader \<Rightarrow> reader_event list \<Rightarrow> bt_reader \<times> CardEvent list" where
  "reader_step r (Initialized ok valid) =
     (if \<not> ok then (r, [])
      else (r\<lparr>br_connected := valid, br_lastCardEvent := CARD_REMOVED, br_timer := True\<rparr>, []))"
| "reader_step r Disconnected =
     (case updateCard (onCardRemoved (r\<lparr>br_timer := False, br_connected := False\<rparr>)) of (ev, r) \<Rightarrow> (r, [ev]))"
| "reader_step r (StatusNotified v meanwhile) = onStatusCharacteristicChanged (\<lambda>r. reader_run r meanwhile) v r"
| "reader_step r Timer = (if br_timer r then (case updateCard r of (ev, r) \<Rightarrow> (r, [ev])) else (r, []))"
| "reader_run r [] = (r, [])"
| "reader_run r (e # es) = (case reader_step r e of (r', out) \<Rightarrow>
     (case reader_run r' es of (r'', outs) \<Rightarrow> (r'', out @ outs)))"

text \<open>What a listener knows from the events: whether a card is inserted.\<close>

fun known :: "bool \<Rightarrow> CardEvent list \<Rightarrow> bool" where
  "known b [] = b"
| "known b (NONE # evs) = known b evs"
| "known b (CARD_INSERTED # evs) = known True evs"
| "known b (CARD_REMOVED # evs) = known False evs"

definition agrees :: "bool \<Rightarrow> bt_reader \<Rightarrow> bool" where
  "agrees b r \<longleftrightarrow> (case br_lastCardEvent r of NONE \<Rightarrow> b = br_card r | CARD_INSERTED \<Rightarrow> br_card r | CARD_REMOVED \<Rightarrow> \<not> br_card r)"

lemma known_append: "known b (xs @ ys) = known (known b xs) ys"
  by (induction b xs rule: known.induct) simp_all

text \<open>The events that take a card away: the end of the connection, and a notification of the removal.\<close>

fun takesCard :: "reader_event \<Rightarrow> bool" where
  "takesCard Disconnected \<longleftrightarrow> True"
| "takesCard (StatusNotified v _) \<longleftrightarrow>
     (\<exists>m rest. parse v = ([m], rest) \<and> bm_id m = msgIdValue StatusInd \<and> getStatusChange m = ucast (statusChangeValue CardRemoved))"
| "takesCard _ \<longleftrightarrow> False"

text \<open>The card stays while it is read, and the reader is initialized while it is empty.\<close>

fun undisturbed :: "reader_event \<Rightarrow> bool" where
  "undisturbed (StatusNotified _ meanwhile) \<longleftrightarrow> (\<forall>e \<in> set meanwhile. \<not> takesCard e)"
| "undisturbed _ \<longleftrightarrow> True"

fun initializedEmpty :: "bt_reader \<Rightarrow> reader_event list \<Rightarrow> bool" where
  "initializedEmpty r [] \<longleftrightarrow> True"
| "initializedEmpty r (e # es) \<longleftrightarrow>
     (case e of Initialized _ _ \<Rightarrow> \<not> br_card r | _ \<Rightarrow> True) \<and> initializedEmpty (fst (reader_step r e)) es"

lemma status_of_full_reader:
  assumes "br_card r" "\<not> takesCard (StatusNotified v es)"
  shows "onStatusCharacteristicChanged f v r = (r, [])"
  using assms
  by (cases "parse v") (auto simp: onStatusCharacteristicChanged_def Let_def split: list.split)

lemma card_stays:
  assumes "br_card r" "\<forall>e \<in> set es. \<not> takesCard e"
  shows "br_card (fst (reader_run r es))"
  using assms
proof (induction es arbitrary: r)
  case (Cons e es)
  have "br_card (fst (reader_step r e))"
    using Cons.prems status_of_full_reader [of r]
    by (cases e) (auto simp: updateCard_def simp del: takesCard.simps(2))
  with Cons show ?case by (simp add: case_prod_beta)
qed simp

lemma agrees_status:
  assumes "agrees b r" "undisturbed (StatusNotified v es)"
    and "onStatusCharacteristicChanged (\<lambda>r. reader_run r es) v r = (r', out)"
  shows "agrees (known b out) r'"
proof -
  have stays: "br_card r2" if "reader_run (r\<lparr>br_card := True\<rparr>) es = (r2, out2)" for r2 out2
    using card_stays [of "r\<lparr>br_card := True\<rparr>" es] assms(2) that by simp
  show ?thesis
    using assms(1,3)
    by (auto simp: onStatusCharacteristicChanged_def onCardRemoved_def agrees_def Let_def dest: stays
        split: list.splits if_splits prod.splits CardEvent.splits)
qed

lemma agrees_update: "agrees b r \<Longrightarrow> updateCard r = (ev, r') \<Longrightarrow> agrees (known b [ev]) r'"
  by (cases "br_lastCardEvent r") (auto simp: agrees_def updateCard_def)

lemma agrees_step:
  assumes "agrees b r" "initializedEmpty r [e]" "undisturbed e" "reader_step r e = (r', out)"
  shows "agrees (known b out) r'"
proof (cases e)
  case Disconnected
  have "agrees b (onCardRemoved (r\<lparr>br_timer := False, br_connected := False\<rparr>))"
    by (simp add: agrees_def onCardRemoved_def)
  with Disconnected assms(4) agrees_update show ?thesis by (auto split: prod.splits)
next
  case Timer
  with assms agrees_update [OF assms(1)] show ?thesis by (auto split: prod.splits if_splits)
next
  case (Initialized ok valid)
  with assms show ?thesis by (auto simp: agrees_def split: if_splits CardEvent.splits)
next
  case (StatusNotified v es)
  with assms agrees_status show ?thesis by simp
qed

lemma agrees_run:
  "agrees b r \<Longrightarrow> initializedEmpty r es \<Longrightarrow> \<forall>e \<in> set es. undisturbed e \<Longrightarrow> reader_run r es = (r', outs) \<Longrightarrow>
     agrees (known b outs) r'"
proof (induction es arbitrary: b r outs)
  case (Cons e es)
  obtain r1 out where step: "reader_step r e = (r1, out)" by force
  obtain outs' where run: "reader_run r1 es = (r', outs')" "outs = out @ outs'"
    using Cons.prems(4) step by (auto split: prod.splits)
  have "agrees (known b out) r1" using agrees_step [OF Cons.prems(1) _ _ step] Cons.prems(2,3) by simp
  from Cons.IH [OF this _ _ run(1)] Cons.prems(2,3) step run(2) show ?case
    by (simp add: known_append)
qed simp

text \<open>
  C30. The events that a reader reports tell whether a card is in it: whenever no event is pending, a
  listener that follows the insertions and removals knows the card exactly when the reader holds
  one. This needs that the card stays while it is read and that the reader is initialized while it is
  empty; \<open>removal_while_reading_is_not_reported\<close> and \<open>early_card_is_not_reported\<close> are runs of the program
  in which one of these fails and the report is wrong.
\<close>

theorem reported_events_track_the_card:
  assumes "initializedEmpty (BluetoothReader valid) es" and "\<forall>e \<in> set es. undisturbed e"
    and "reader_run (BluetoothReader valid) es = (r, outs)"
    and "br_lastCardEvent r = NONE"
  shows "known False outs \<longleftrightarrow> br_card r"
  using agrees_run [OF _ assms(1-3), of False] assms(4) by (simp add: agrees_def BluetoothReader_def)

text \<open>The notifications of an insertion and of a removal.\<close>

definition statusInd :: "byte \<Rightarrow> bytes" where
  "statusInd n = [0x11, 0x01, 0, 0, 0x08, 0, 0, 0x01, n, 0, 0, 0]"

abbreviation insertedInd :: bytes where "insertedInd \<equiv> statusInd 4"

abbreviation removedInd :: bytes where "removedInd \<equiv> statusInd 3"

lemma parse_statusInd: "parse (statusInd n) = ([\<lparr>bm_id = 0x11, bm_params = [createMessageParameter 8 [n]]\<rparr>], [])"
  using parse_wire_message [of "\<lparr>bm_id = 0x11, bm_params = [createMessageParameter 8 [n]]\<rparr>" "[]"]
  by (simp add: statusInd_def wireMessage_def wireParameter_def ascending_def createMessageParameter_def
      parseByteParameter_def BluetoothMessageParameter_def toData_def paramToData_def addPadding_def
      getPaddingLength_def DEFAULT_PADDING_LENGTH_def be16_def high_byte_def low_byte_def Let_def padding_zeros)

lemmas reader_eval = onStatusCharacteristicChanged_def parse_statusInd BluetoothReader_def
  getStatusChange_def getParameter_def createMessageParameter_def parseByteParameter_def
  BluetoothMessageParameter_def updateCard_def onCardRemoved_def Let_def

theorem reported_events_track_the_card_witness:
  "known False [CARD_REMOVED, NONE, CARD_INSERTED] \<longleftrightarrow> True"
  using reported_events_track_the_card
    [of True "[Initialized True True, Timer, StatusNotified insertedInd [Timer, StatusNotified insertedInd []], Timer]"
        "\<lparr>br_card = True, br_lastCardEvent = NONE, br_connected = True, br_timer = True\<rparr>"
        "[CARD_REMOVED, NONE, CARD_INSERTED]"]
  by (simp add: reader_eval)

text \<open>
  A card that is notified while the reader waits for the answer to the transport protocol is in
  the reader, but never reported: the initialization replaces its event.
\<close>

theorem early_card_is_not_reported:
  "reader_run (BluetoothReader True)
     [StatusNotified insertedInd [], Initialized True True, Timer, StatusNotified insertedInd [], Timer]
     = (\<lparr>br_card = True, br_lastCardEvent = NONE, br_connected = True, br_timer = True\<rparr>, [CARD_REMOVED, NONE])"
  by (simp add: reader_eval)

text \<open>
  A card that is removed while it is read: the event loop of the reading handles the removal, the event of
  which the insertion then replaces. The reader holds no card, but reports one.
\<close>

theorem removal_while_reading_is_not_reported:
  "reader_run (BluetoothReader True)
     [Initialized True True, Timer, StatusNotified insertedInd [StatusNotified removedInd []], Timer]
     = (\<lparr>br_card = False, br_lastCardEvent = NONE, br_connected = True, br_timer = True\<rparr>, [CARD_REMOVED, CARD_INSERTED])"
  by (simp add: reader_eval)

end
