(* ===== verification/ECardApi.thy ===== *)
theory ECardApi
  imports CardCodes
begin

text \<open>
  Results of the eCard API (src/src/global/ECardApiResult.cpp) and their conversion from and to a
  global status: the URIs of major and minor results, the conversion maps, validity, and what a
  workflow keeps of a result of the server (AbstractState.cpp, StateStartPaosResponse.cpp). The
  translation of texts is a parameter \<open>tr\<close>, the description of a status is a parameter
  \<open>describe\<close>, and the language tag is not modelled.
\<close>

section \<open>Codes\<close>

datatype ECardMajor = MA_Unknown | MA_Ok | MA_Warning | MA_Error

datatype ECardMinor =
    MI_null | MI_AL_Unknown_Error | MI_AL_No_Permission | MI_AL_Internal_Error
    | MI_AL_Parameter_Error | MI_AL_Unkown_API_Function | MI_AL_Not_Initialized
    | MI_AL_Warning_Connection_Disconnected | MI_AL_Session_Terminated_Warning
    | MI_AL_Communication_Error | MI_DP_Timeout_Error | MI_DP_Unknown_Channel_Handle
    | MI_DP_Communication_Error | MI_DP_Trusted_Channel_Establishment_Failed
    | MI_DP_Unknown_Protocol | MI_DP_Unknown_Cipher_Suite | MI_DP_Unknown_Webservice_Binding
    | MI_DP_Node_Not_Reachable | MI_IFDL_Timeout_Error | MI_IFDL_UnknownSlot
    | MI_IFDL_InvalidSlotHandle | MI_IFDL_CancellationByUser | MI_IFDL_IFD_SharingViolation
    | MI_IFDL_Terminal_NoCard | MI_IFDL_IO_RepeatedDataMismatch | MI_IFDL_IO_UnknownPINFormat
    | MI_IL_Signature_InvalidCertificatePath | MI_KEY_KeyGenerationNotPossible
    | MI_SAL_Cancellation_by_User | MI_SAL_Invalid_Key | MI_SAL_SecurityConditionNotSatisfied
    | MI_SAL_MEAC_AgeVerificationFailedWarning | MI_SAL_MEAC_CommunityVerificationFailedWarning
    | MI_SAL_MEAC_DocumentValidityVerificationFailed

datatype ECardOrigin = Server | Client

definition RESULTMAJOR :: string where
  "RESULTMAJOR = ''http://www.bsi.bund.de/ecard/api/1.1/resultmajor''"

definition RESULTMINOR :: string where
  "RESULTMINOR = ''http://www.bsi.bund.de/ecard/api/1.1/resultminor''"

fun majorSuffix :: "ECardMajor \<Rightarrow> string" where
  "majorSuffix MA_Unknown = []"
| "majorSuffix MA_Ok = ''#ok''"
| "majorSuffix MA_Warning = ''#warning''"
| "majorSuffix MA_Error = ''#error''"

definition major_list :: "ECardMajor list" where
  "major_list = [MA_Ok, MA_Warning, MA_Error]"

fun minorSuffix :: "ECardMinor \<Rightarrow> string" where
  "minorSuffix MI_null = ''''"
| "minorSuffix MI_AL_Unknown_Error = ''/al/common#unknownError''"
| "minorSuffix MI_AL_No_Permission = ''/al/common#noPermission''"
| "minorSuffix MI_AL_Internal_Error = ''/al/common#internalError''"
| "minorSuffix MI_AL_Parameter_Error = ''/al/common#parameterError''"
| "minorSuffix MI_AL_Unkown_API_Function = ''/al/common#unknownAPIFunction''"
| "minorSuffix MI_AL_Not_Initialized = ''/al/common#notInitialized''"
| "minorSuffix MI_AL_Warning_Connection_Disconnected = ''/al/common#warningConnectionDisconnected''"
| "minorSuffix MI_AL_Session_Terminated_Warning = ''/al/common#SessionTerminatedWarning''"
| "minorSuffix MI_AL_Communication_Error = ''/al/common#communicationError''"
| "minorSuffix MI_DP_Timeout_Error = ''/dp#timeout''"
| "minorSuffix MI_DP_Unknown_Channel_Handle = ''/dp#unknownChannelHandle''"
| "minorSuffix MI_DP_Communication_Error = ''/dp#communicationError''"
| "minorSuffix MI_DP_Trusted_Channel_Establishment_Failed = ''/dp#trustedChannelEstablishmentFailed''"
| "minorSuffix MI_DP_Unknown_Protocol = ''/dp#unknownProtocol''"
| "minorSuffix MI_DP_Unknown_Cipher_Suite = ''/dp#unknownCipherSuite''"
| "minorSuffix MI_DP_Unknown_Webservice_Binding = ''/dp#unknownWebserviceBinding''"
| "minorSuffix MI_DP_Node_Not_Reachable = ''/dp#nodeNotReachable''"
| "minorSuffix MI_IFDL_Timeout_Error = ''/ifdl/common#timeoutError''"
| "minorSuffix MI_IFDL_UnknownSlot = ''/ifdl/terminal#unknownSlot''"
| "minorSuffix MI_IFDL_InvalidSlotHandle = ''/ifdl/common#invalidSlotHandle''"
| "minorSuffix MI_IFDL_CancellationByUser = ''/ifdl#cancellationByUser''"
| "minorSuffix MI_IFDL_IFD_SharingViolation = ''ifdl/terminal#IFDSharingViolation''"
| "minorSuffix MI_IFDL_Terminal_NoCard = ''/ifdl/terminal#noCard''"
| "minorSuffix MI_IFDL_IO_RepeatedDataMismatch = ''/ifdl/IO#repeatedDataMismatch''"
| "minorSuffix MI_IFDL_IO_UnknownPINFormat = ''/ifdl/IO#unknownPINFormat''"
| "minorSuffix MI_IL_Signature_InvalidCertificatePath = ''/il/signature#invalidCertificatePath''"
| "minorSuffix MI_KEY_KeyGenerationNotPossible = ''/il/key#keyGenerationNotPossible''"
| "minorSuffix MI_SAL_Cancellation_by_User = ''/sal#cancellationByUser''"
| "minorSuffix MI_SAL_Invalid_Key = ''/sal#invalidKey''"
| "minorSuffix MI_SAL_SecurityConditionNotSatisfied = ''/sal#securityConditionNotSatisfied''"
| "minorSuffix MI_SAL_MEAC_AgeVerificationFailedWarning = ''/sal/mEAC#AgeVerificationFailedWarning''"
| "minorSuffix MI_SAL_MEAC_CommunityVerificationFailedWarning = ''/sal/mEAC#CommunityVerificationFailedWarning''"
| "minorSuffix MI_SAL_MEAC_DocumentValidityVerificationFailed = ''/sal/mEAC#DocumentValidityVerificationFailed''"

definition minor_list :: "ECardMinor list" where
  "minor_list =
    [MI_AL_Unknown_Error, MI_AL_No_Permission, MI_AL_Internal_Error, MI_AL_Parameter_Error,
     MI_AL_Unkown_API_Function, MI_AL_Not_Initialized, MI_AL_Warning_Connection_Disconnected,
     MI_AL_Session_Terminated_Warning, MI_AL_Communication_Error, MI_DP_Timeout_Error,
     MI_DP_Unknown_Channel_Handle, MI_DP_Communication_Error,
     MI_DP_Trusted_Channel_Establishment_Failed, MI_DP_Unknown_Protocol,
     MI_DP_Unknown_Cipher_Suite, MI_DP_Unknown_Webservice_Binding, MI_DP_Node_Not_Reachable,
     MI_IFDL_Timeout_Error, MI_IFDL_UnknownSlot, MI_IFDL_InvalidSlotHandle,
     MI_IFDL_CancellationByUser, MI_IFDL_IFD_SharingViolation, MI_IFDL_Terminal_NoCard,
     MI_IFDL_IO_RepeatedDataMismatch, MI_IFDL_IO_UnknownPINFormat,
     MI_IL_Signature_InvalidCertificatePath, MI_KEY_KeyGenerationNotPossible,
     MI_SAL_Cancellation_by_User, MI_SAL_Invalid_Key, MI_SAL_SecurityConditionNotSatisfied,
     MI_SAL_MEAC_AgeVerificationFailedWarning, MI_SAL_MEAC_CommunityVerificationFailedWarning,
     MI_SAL_MEAC_DocumentValidityVerificationFailed]"

text \<open>\<open>cMajorResults\<close> and \<open>cMinorResults\<close>: a key that is not in the map has the empty string.\<close>

definition getMajorString :: "ECardMajor \<Rightarrow> string" where
  "getMajorString m = (if m = MA_Unknown then [] else RESULTMAJOR @ majorSuffix m)"

definition getMinorString :: "ECardMinor \<Rightarrow> string" where
  "getMinorString m = (if m = MI_null then [] else RESULTMINOR @ minorSuffix m)"

definition parseMajor :: "string \<Rightarrow> ECardMajor" where
  "parseMajor pMajor = (case find (\<lambda>m. getMajorString m = pMajor) major_list of None \<Rightarrow> MA_Unknown | Some m \<Rightarrow> m)"

definition parseMinor :: "string \<Rightarrow> ECardMinor" where
  "parseMinor pMinor = (case find (\<lambda>m. getMinorString m = pMinor) minor_list of None \<Rightarrow> MI_null | Some m \<Rightarrow> m)"

definition isMajor :: "string \<Rightarrow> bool" where
  "isMajor s \<longleftrightarrow> parseMajor s \<noteq> MA_Unknown"

definition isMinor :: "string \<Rightarrow> bool" where
  "isMinor s \<longleftrightarrow> parseMinor s \<noteq> MI_null"

fun minorText :: "ECardMinor \<Rightarrow> string" where
  "minorText MI_null = []"
| "minorText MI_AL_Unknown_Error =
     ''An unexpected error has occurred during processing.''"
| "minorText MI_AL_No_Permission =
     ''Use of the function by the client application is not permitted.''"
| "minorText MI_AL_Internal_Error =
     ''An internal error has occurred during processing.''"
| "minorText MI_AL_Parameter_Error =
     ''There was some problem with a provided or omitted parameter.''"
| "minorText MI_AL_Unkown_API_Function = ''The API function is unknown.''"
| "minorText MI_AL_Not_Initialized =
     ''The framework or layer has not been initialized.''"
| "minorText MI_AL_Warning_Connection_Disconnected = ''The active session has been terminated.''"
| "minorText MI_AL_Session_Terminated_Warning = ''The active session has been terminated.''"
| "minorText MI_AL_Communication_Error =
     ''A Communication error occurred during processing.''"
| "minorText MI_DP_Timeout_Error =
     ''The operation was terminated as the set time was exceeded.''"
| "minorText MI_DP_Unknown_Channel_Handle =
     ''The operation was aborted as an invalid channel handle was used.''"
| "minorText MI_DP_Communication_Error =
     ''A Communication error occurred during processing.''"
| "minorText MI_DP_Trusted_Channel_Establishment_Failed = ''A trusted channel could not be opened.''"
| "minorText MI_DP_Unknown_Protocol =
     ''The operation was aborted as an unknown protocol was used.''"
| "minorText MI_DP_Unknown_Cipher_Suite =
     ''The operation was aborted as an unknown cipher suite was used.''"
| "minorText MI_DP_Unknown_Webservice_Binding =
     ''The operation was aborted as an unknown web service binding was used.''"
| "minorText MI_DP_Node_Not_Reachable =
     ''A Communication error occurred during processing.''"
| "minorText MI_IFDL_Timeout_Error =
     ''The operation was terminated as the set time was exceeded.''"
| "minorText MI_IFDL_UnknownSlot = []"
| "minorText MI_IFDL_InvalidSlotHandle = []"
| "minorText MI_IFDL_CancellationByUser = []"
| "minorText MI_IFDL_IFD_SharingViolation = []"
| "minorText MI_IFDL_Terminal_NoCard = ''The card is missing or was removed.''"
| "minorText MI_IFDL_IO_RepeatedDataMismatch =
     ''The new PIN and the confirmation do not match.''"
| "minorText MI_IFDL_IO_UnknownPINFormat = ''The format of the PIN is wrong.''"
| "minorText MI_IL_Signature_InvalidCertificatePath =
     ''One or more certificate checks failed. The operation will be aborted due to security reasons.''"
| "minorText MI_KEY_KeyGenerationNotPossible =
     ''Signature certificate key generation is not possible.''"
| "minorText MI_SAL_Cancellation_by_User = ''The process was cancelled by the user.''"
| "minorText MI_SAL_Invalid_Key =
     ''This action cannot be performed. The online identification function of your ID card is deactivated. Please contact the authority responsible for issuing your identification document to activate the online identification function.''"
| "minorText MI_SAL_SecurityConditionNotSatisfied =
     ''The authenticity of your ID card could not be verified. Please make sure that you are using a genuine ID card. Please note that test applications require the use of a test ID card.''"
| "minorText MI_SAL_MEAC_AgeVerificationFailedWarning = ''The age verification failed.''"
| "minorText MI_SAL_MEAC_CommunityVerificationFailedWarning = ''The community verification failed.''"
| "minorText MI_SAL_MEAC_DocumentValidityVerificationFailed = ''The ID card is invalid or disabled.''"

definition minorMessage :: "(string \<Rightarrow> string) \<Rightarrow> ECardMinor \<Rightarrow> string" where
  "minorMessage tr m = (if minorText m = [] then [] else tr (minorText m))"

section \<open>The conversion maps\<close>

definition conversionElements :: "(GlobalStatusCode \<times> ECardMinor) list" where
  "conversionElements =
    [(GS_Paos_Error_AL_Unknown_Error, MI_AL_Unknown_Error),
     (GS_Paos_Unexpected_Warning, MI_AL_Unknown_Error),
     (GS_Unknown_Error, MI_AL_Unknown_Error),
     (GS_Card_Unexpected_Transmit_Status, MI_AL_Unknown_Error),
     (GS_No_Error, MI_null),
     (GS_RemoteReader_CloseCode_NormalClose, MI_null),
     (GS_Workflow_Card_Removed, MI_IFDL_CancellationByUser),
     (GS_Workflow_No_Unique_DvCvc, MI_IL_Signature_InvalidCertificatePath),
     (GS_Workflow_No_Unique_AtCvc, MI_IL_Signature_InvalidCertificatePath),
     (GS_Workflow_Preverification_Error, MI_IL_Signature_InvalidCertificatePath),
     (GS_Workflow_Preverification_Developermode_Error, MI_IL_Signature_InvalidCertificatePath),
     (GS_Workflow_Certificate_No_Description, MI_AL_Parameter_Error),
     (GS_Workflow_Certificate_No_Url_In_Description, MI_AL_Parameter_Error),
     (GS_Workflow_Certificate_Hash_Error, MI_AL_Parameter_Error),
     (GS_Workflow_Certificate_Sop_Error, MI_AL_Parameter_Error),
     (GS_Paos_Error_DP_Trusted_Channel_Establishment_Failed, MI_DP_Trusted_Channel_Establishment_Failed),
     (GS_Workflow_TrustedChannel_Establishment_Error, MI_DP_Trusted_Channel_Establishment_Failed),
     (GS_Workflow_TrustedChannel_Error_From_Server, MI_DP_Trusted_Channel_Establishment_Failed),
     (GS_Workflow_TrustedChannel_Hash_Not_In_Description, MI_DP_Trusted_Channel_Establishment_Failed),
     (GS_Workflow_TrustedChannel_No_Data_Received, MI_DP_Trusted_Channel_Establishment_Failed),
     (GS_Workflow_TrustedChannel_Ssl_Certificate_Unsupported_Algorithm_Or_Length, MI_DP_Trusted_Channel_Establishment_Failed),
     (GS_Workflow_TrustedChannel_ServiceUnavailable, MI_DP_Trusted_Channel_Establishment_Failed),
     (GS_Workflow_TrustedChannel_TimeOut, MI_DP_Trusted_Channel_Establishment_Failed),
     (GS_Workflow_TrustedChannel_Proxy_Error, MI_DP_Trusted_Channel_Establishment_Failed),
     (GS_Workflow_TrustedChannel_Ssl_Establishment_Error, MI_DP_Trusted_Channel_Establishment_Failed),
     (GS_Workflow_TrustedChannel_Server_Format_Error, MI_DP_Trusted_Channel_Establishment_Failed),
     (GS_Workflow_TrustedChannel_Other_Network_Error, MI_DP_Trusted_Channel_Establishment_Failed),
     (GS_Paos_Error_SAL_Cancellation_by_User, MI_SAL_Cancellation_by_User),
     (GS_Workflow_Cancellation_By_User, MI_SAL_Cancellation_by_User),
     (GS_Card_Cancellation_By_User, MI_SAL_Cancellation_by_User),
     (GS_Workflow_No_Permission_Error, MI_AL_No_Permission),
     (GS_Paos_Error_AL_Communication_Error, MI_AL_Communication_Error),
     (GS_Workflow_Communication_Missing_Redirect_Url, MI_AL_Communication_Error),
     (GS_Workflow_Error_Page_Transmission_Error, MI_AL_Communication_Error),
     (GS_Workflow_Redirect_Transmission_Error, MI_AL_Communication_Error),
     (GS_Workflow_Processing_Error, MI_AL_Communication_Error),
     (GS_Workflow_Reader_Became_Inaccessible, MI_AL_Communication_Error),
     (GS_Workflow_Reader_Communication_Error, MI_AL_Communication_Error),
     (GS_Workflow_Reader_Device_Connection_Error, MI_AL_Communication_Error),
     (GS_Workflow_Reader_Device_Scan_Error, MI_AL_Communication_Error),
     (GS_Workflow_Server_Incomplete_Information_Provided, MI_AL_Communication_Error),
     (GS_Network_Ssl_Establishment_Error, MI_AL_Communication_Error),
     (GS_Workflow_Network_Ssl_Connection_Unsupported_Algorithm_Or_Length, MI_AL_Communication_Error),
     (GS_Workflow_Network_Ssl_Certificate_Unsupported_Algorithm_Or_Length, MI_AL_Communication_Error),
     (GS_Workflow_Nerwork_Ssl_Hash_Not_In_Certificate_Description, MI_AL_Communication_Error),
     (GS_Workflow_Network_Empty_Redirect_Url, MI_AL_Communication_Error),
     (GS_Workflow_Network_Expected_Redirect, MI_AL_Communication_Error),
     (GS_Workflow_Network_Invalid_Scheme, MI_AL_Communication_Error),
     (GS_Workflow_Network_Malformed_Redirect_Url, MI_AL_Communication_Error),
     (GS_Network_ServiceUnavailable, MI_AL_Communication_Error),
     (GS_Network_TimeOut, MI_AL_Communication_Error),
     (GS_Network_Proxy_Error, MI_AL_Communication_Error),
     (GS_Network_Other_Error, MI_AL_Communication_Error),
     (GS_Workflow_Wrong_Parameter_Invocation, MI_AL_Communication_Error),
     (GS_Card_Invalid_Pin, MI_AL_Communication_Error),
     (GS_Card_Invalid_Can, MI_AL_Communication_Error),
     (GS_Card_Invalid_Puk, MI_AL_Communication_Error),
     (GS_Card_Puk_Blocked, MI_AL_Communication_Error),
     (GS_Card_NewPin_Invalid_Length, MI_AL_Unknown_Error),
     (GS_Workflow_AlreadyInProgress_Error, MI_AL_Unknown_Error),
     (GS_Card_Not_Found, MI_AL_Unknown_Error),
     (GS_Card_Communication_Error, MI_AL_Unknown_Error),
     (GS_Card_Input_TimeOut, MI_AL_Unknown_Error),
     (GS_Card_Pin_Blocked, MI_AL_Unknown_Error),
     (GS_Card_Pin_Not_Blocked, MI_AL_Unknown_Error),
     (GS_Card_NewPin_Mismatch, MI_AL_Unknown_Error),
     (GS_Paos_Error_AL_Internal_Error, MI_AL_Internal_Error),
     (GS_Workflow_Cannot_Confirm_IdCard_Authenticity, MI_AL_Internal_Error),
     (GS_Workflow_Unknown_Paos_Form_EidServer, MI_AL_Internal_Error),
     (GS_Workflow_Unexpected_Message_From_EidServer, MI_AL_Internal_Error),
     (GS_Workflow_Pin_Blocked_And_Puk_Objectionable, MI_AL_Internal_Error),
     (GS_Card_Protocol_Error, MI_AL_Internal_Error),
     (GS_Paos_Generic_Server_Error, MI_AL_Unkown_API_Function),
     (GS_Paos_Generic_Server_Error, MI_AL_Not_Initialized),
     (GS_Paos_Generic_Server_Error, MI_AL_Warning_Connection_Disconnected),
     (GS_Paos_Generic_Server_Error, MI_AL_Session_Terminated_Warning),
     (GS_Paos_Generic_Server_Error, MI_DP_Timeout_Error),
     (GS_Paos_Generic_Server_Error, MI_DP_Unknown_Channel_Handle),
     (GS_Paos_Generic_Server_Error, MI_DP_Communication_Error),
     (GS_Paos_Generic_Server_Error, MI_DP_Unknown_Protocol),
     (GS_Paos_Generic_Server_Error, MI_DP_Unknown_Cipher_Suite),
     (GS_Paos_Generic_Server_Error, MI_DP_Unknown_Webservice_Binding),
     (GS_Paos_Generic_Server_Error, MI_DP_Node_Not_Reachable),
     (GS_Paos_Generic_Server_Error, MI_IFDL_Timeout_Error),
     (GS_Paos_Generic_Server_Error, MI_IFDL_UnknownSlot),
     (GS_Paos_Generic_Server_Error, MI_IFDL_InvalidSlotHandle),
     (GS_Paos_Generic_Server_Error, MI_IFDL_IFD_SharingViolation),
     (GS_Paos_Generic_Server_Error, MI_IFDL_Terminal_NoCard),
     (GS_Paos_Generic_Server_Error, MI_IFDL_IO_RepeatedDataMismatch),
     (GS_Paos_Generic_Server_Error, MI_IFDL_IO_UnknownPINFormat),
     (GS_Paos_Generic_Server_Error, MI_KEY_KeyGenerationNotPossible),
     (GS_Paos_Generic_Server_Error, MI_IL_Signature_InvalidCertificatePath),
     (GS_Paos_Generic_Server_Error, MI_SAL_SecurityConditionNotSatisfied),
     (GS_Paos_Generic_Server_Error, MI_SAL_MEAC_AgeVerificationFailedWarning),
     (GS_Paos_Generic_Server_Error, MI_SAL_MEAC_CommunityVerificationFailedWarning),
     (GS_Paos_Generic_Server_Error, MI_SAL_MEAC_DocumentValidityVerificationFailed),
     (GS_Paos_Error_SAL_Invalid_Key, MI_SAL_Invalid_Key),
     (GS_Downloader_Data_Corrupted, MI_AL_Unknown_Error),
     (GS_RemoteReader_CloseCode_AbnormalClose, MI_AL_Unknown_Error),
     (GS_RemoteReader_CloseCode_Undefined, MI_AL_Unknown_Error),
     (GS_RemoteConnector_InvalidRequest, MI_AL_Unknown_Error),
     (GS_RemoteConnector_EmptyPassword, MI_AL_Unknown_Error),
     (GS_RemoteConnector_NoSupportedApiLevel, MI_AL_Unknown_Error),
     (GS_RemoteConnector_ConnectionTimeout, MI_AL_Unknown_Error),
     (GS_RemoteConnector_ConnectionError, MI_AL_Unknown_Error),
     (GS_RemoteConnector_RemoteHostRefusedConnection, MI_AL_Unknown_Error),
     (GS_Downloader_File_Not_Found, MI_AL_Unknown_Error),
     (GS_Downloader_Cannot_Save_File, MI_AL_Unknown_Error)]"

text \<open>A code and a minor keep the first partner that they were added with.\<close>

type_synonym conversion_maps =
  "(GlobalStatusCode \<Rightarrow> ECardMinor option) \<times> (ECardMinor \<Rightarrow> GlobalStatusCode option)"

definition addConversionElement :: "conversion_maps \<Rightarrow> GlobalStatusCode \<times> ECardMinor \<Rightarrow> conversion_maps" where
  "addConversionElement maps e =
    (case maps of (m1, m2) \<Rightarrow> (case e of (pCode, pMinor) \<Rightarrow>
      (if m1 pCode = None then m1(pCode \<mapsto> pMinor) else m1,
       if m2 pMinor = None then m2(pMinor \<mapsto> pCode) else m2)))"

definition initConversionMaps :: conversion_maps where
  "initConversionMaps = foldl addConversionElement (\<lambda>_. None, \<lambda>_. None) conversionElements"

definition minorToStatus :: "ECardMinor \<Rightarrow> GlobalStatusCode" where
  "minorToStatus pMinor = (case snd initConversionMaps pMinor of None \<Rightarrow> GS_Unknown_Error | Some c \<Rightarrow> c)"

definition statusToMinor :: "GlobalStatusCode \<Rightarrow> ECardMinor" where
  "statusToMinor pCode = (case fst initConversionMaps pCode of None \<Rightarrow> MI_AL_Unknown_Error | Some m \<Rightarrow> m)"

section \<open>Results\<close>

record ecard_result =
  er_major :: ECardMajor
  er_minor :: ECardMinor
  er_message :: string
  er_origin :: ECardOrigin

record global_status =
  gs_code :: GlobalStatusCode
  gs_information :: string
  gs_origin :: ECardOrigin

definition ECardApiResult :: "ECardMajor \<Rightarrow> ECardMinor \<Rightarrow> string \<Rightarrow> ECardOrigin \<Rightarrow> ecard_result" where
  "ECardApiResult pMajor pMinor pMessage pOrigin =
    (let nullWithoutOk = (pMajor \<noteq> MA_Ok \<and> pMinor = MI_null);
         okWithoutNull = (pMajor = MA_Ok \<and> pMinor \<noteq> MI_null)
     in if nullWithoutOk \<or> okWithoutNull
        then \<lparr>er_major = MA_Error, er_minor = MI_AL_Internal_Error, er_message = pMessage, er_origin = pOrigin\<rparr>
        else \<lparr>er_major = pMajor, er_minor = pMinor, er_message = pMessage, er_origin = pOrigin\<rparr>)"

definition createOk :: ecard_result where
  "createOk = ECardApiResult MA_Ok MI_null [] Client"

definition ECardApiResultOfStrings :: "string \<Rightarrow> string \<Rightarrow> string \<Rightarrow> ECardOrigin \<Rightarrow> ecard_result" where
  "ECardApiResultOfStrings pMajor pMinor pMessage pOrigin =
     \<lparr>er_major = parseMajor pMajor, er_minor = parseMinor pMinor, er_message = pMessage, er_origin = pOrigin\<rparr>"

definition fromStatus :: "(global_status \<Rightarrow> string) \<Rightarrow> global_status \<Rightarrow> ecard_result" where
  "fromStatus describe pStatus =
    (if gs_code pStatus = GS_No_Error \<or> gs_code pStatus = GS_RemoteReader_CloseCode_NormalClose then createOk
     else ECardApiResult MA_Error (statusToMinor (gs_code pStatus)) (describe pStatus) (gs_origin pStatus))"

definition isValid :: "ecard_result \<Rightarrow> bool" where
  "isValid r =
    (case er_major r of
       MA_Unknown \<Rightarrow> False
     | MA_Ok \<Rightarrow> er_minor r = MI_null
     | _ \<Rightarrow> er_minor r \<noteq> MI_null)"

definition isOk :: "ecard_result \<Rightarrow> bool" where
  "isOk r \<longleftrightarrow> er_major r = MA_Ok \<and> er_minor r = MI_null"

definition isOriginServer :: "ecard_result \<Rightarrow> bool" where
  "isOriginServer r \<longleftrightarrow> er_origin r = Server"

definition toStatus :: "(string \<Rightarrow> string) \<Rightarrow> ecard_result \<Rightarrow> global_status" where
  "toStatus tr r =
    (let message = (if er_message r = [] \<or> isOriginServer r then minorMessage tr (er_minor r) else er_message r);
         status = (\<lambda>c o'. \<lparr>gs_code = c, gs_information = message, gs_origin = o'\<rparr>);
         error = status (minorToStatus (er_minor r)) (er_origin r)
     in case er_major r of
          MA_Unknown \<Rightarrow> status GS_Unknown_Error Client
        | MA_Ok \<Rightarrow> (if isOk r then \<lparr>gs_code = GS_No_Error, gs_information = [], gs_origin = Client\<rparr> else error)
        | MA_Error \<Rightarrow> error
        | MA_Warning \<Rightarrow> status GS_Paos_Unexpected_Warning Client)"

text \<open>The object that is written as JSON, as pairs of key and value; without the language.\<close>

definition resultToJson :: "(string \<Rightarrow> string) \<Rightarrow> ecard_result \<Rightarrow> (string \<times> string) list" where
  "resultToJson tr r =
     [(''major'', getMajorString (er_major r))] @
     (if er_minor r \<noteq> MI_null then [(''minor'', getMinorString (er_minor r))] else []) @
     (if er_message r \<noteq> [] then [(''message'', er_message r)] else []) @
     (if minorMessage tr (er_minor r) \<noteq> [] then [(''description'', minorMessage tr (er_minor r))] else [])"

definition isError :: "global_status \<Rightarrow> bool" where
  "isError s \<longleftrightarrow> gs_code s \<noteq> GS_No_Error"

definition isCancellationByUser :: "global_status \<Rightarrow> bool" where
  "isCancellationByUser s \<longleftrightarrow>
     gs_code s = GS_Workflow_Cancellation_By_User \<or> gs_code s = GS_Card_Cancellation_By_User \<or>
     gs_code s = GS_Paos_Error_SAL_Cancellation_by_User"

section \<open>What a workflow keeps of a result of the server\<close>

record paos_context =
  pc_status :: global_status
  pc_startPaosResult :: ecard_result

definition setFirstError :: "global_status \<Rightarrow> paos_context \<Rightarrow> paos_context" where
  "setFirstError pStatus c = (if isError pStatus \<and> \<not> isError (pc_status c) then c\<lparr>pc_status := pStatus\<rparr> else c)"

definition updateStartPaosResult :: "(string \<Rightarrow> string) \<Rightarrow> ecard_result \<Rightarrow> paos_context \<Rightarrow> paos_context" where
  "updateStartPaosResult tr pStartPaosResult c =
    (if \<not> isOk pStartPaosResult \<and> isOk (pc_startPaosResult c)
     then setFirstError (toStatus tr pStartPaosResult) (c\<lparr>pc_startPaosResult := pStartPaosResult\<rparr>)
     else c)"

text \<open>The flag says whether the workflow goes on (\<open>fireContinue\<close>) or aborts.\<close>

definition runStartPaosResponse :: "(string \<Rightarrow> string) \<Rightarrow> ecard_result \<Rightarrow> paos_context \<Rightarrow> bool \<times> paos_context" where
  "runStartPaosResponse tr result c =
    (if isOk result then (True, c) else (False, updateStartPaosResult tr result c))"

section \<open>Lemmas\<close>

text \<open>
  The maps that the code fills element by element are the maps of the association list: the first
  entry counts.
\<close>

lemma addConversion_foldl:
  "foldl addConversionElement (m1, m2) es = (map_of es ++ m1, map_of (map prod.swap es) ++ m2)"
  for m1 :: "GlobalStatusCode \<Rightarrow> ECardMinor option" and m2
proof (induction es arbitrary: m1 m2)
  case (Cons e es)
  obtain c m where e: "e = (c, m)" by force
  have "map_of es ++ (if m1 c = None then m1(c \<mapsto> m) else m1) = (map_of es)(c \<mapsto> m) ++ m1"
    by (auto simp: map_add_def fun_eq_iff split: option.split)
  moreover have "map_of (map prod.swap es) ++ (if m2 m = None then m2(m \<mapsto> c) else m2) =
      (map_of (map prod.swap es))(m \<mapsto> c) ++ m2"
    by (auto simp: map_add_def fun_eq_iff split: option.split)
  moreover have "addConversionElement (m1, m2) (c, m) =
      (if m1 c = None then m1(c \<mapsto> m) else m1, if m2 m = None then m2(m \<mapsto> c) else m2)"
    by (simp add: addConversionElement_def)
  ultimately show ?case
    unfolding foldl_Cons e by (simp only: Cons.IH map_of.simps list.map fst_conv snd_conv swap_simp)
qed (simp add: map_add_def)

lemma conversion_maps_map:
  "initConversionMaps = (map_of conversionElements, map_of (map prod.swap conversionElements))"
  by (simp add: initConversionMaps_def addConversion_foldl map_add_def)

text \<open>
  The conversion maps agree with the list of their elements read from the front: a code has the
  minor, and a minor the code, of the first element that names it.
\<close>

theorem conversion_maps_of_list:
  "initConversionMaps = (map_of conversionElements, map_of (map prod.swap conversionElements))"
  by (rule conversion_maps_map)

lemma code_converted: "\<exists>m. map_of conversionElements c = Some m"
  by (cases c) (simp_all add: conversionElements_def)

lemma minor_converted: "\<exists>c. map_of (map prod.swap conversionElements) m = Some c"
  by (cases m) (simp_all add: conversionElements_def)

lemma statusToMinor_null:
  "statusToMinor c = MI_null \<longleftrightarrow> c = GS_No_Error \<or> c = GS_RemoteReader_CloseCode_NormalClose"
  by (cases c) (simp_all add: statusToMinor_def conversion_maps_map conversionElements_def)

lemma minorToStatus_No_Error: "minorToStatus m = GS_No_Error \<longleftrightarrow> m = MI_null"
  by (cases m) (simp_all add: minorToStatus_def conversion_maps_map conversionElements_def)

text \<open>
  C31. Every status becomes a valid result, and exactly the absence of an error (or the regular end of
  a remote reader's connection) the result ok; a result that came from a status with an error
  becomes a status with an error again, of the same origin.
\<close>

theorem status_conversion_keeps_errors:
  "isValid (fromStatus describe s) \<and>
   (isOk (fromStatus describe s) \<longleftrightarrow> gs_code s = GS_No_Error \<or> gs_code s = GS_RemoteReader_CloseCode_NormalClose) \<and>
   (isError (toStatus tr (fromStatus describe s)) \<longleftrightarrow> \<not> isOk (fromStatus describe s)) \<and>
   (isOk (fromStatus describe s) \<or> gs_origin (toStatus tr (fromStatus describe s)) = gs_origin s)"
  using statusToMinor_null [of "gs_code s"]
  by (auto simp: fromStatus_def createOk_def ECardApiResult_def isValid_def isOk_def toStatus_def isError_def
      minorToStatus_No_Error Let_def)

text \<open>
  The codes have partners in both directions, so the fallback for a missing conversion is never
  taken; and a minor result that is converted to a status and back differs from itself only where
  several results share a status.
\<close>

theorem conversions_are_total:
  "fst initConversionMaps c = Some (statusToMinor c) \<and> snd initConversionMaps m = Some (minorToStatus m) \<and>
   minorToStatus (statusToMinor (minorToStatus m)) = minorToStatus m"
proof -
  have "minorToStatus (statusToMinor (minorToStatus m)) = minorToStatus m"
    by (cases m) (simp_all add: minorToStatus_def statusToMinor_def conversion_maps_map conversionElements_def)
  then show ?thesis
    using code_converted [of c] minor_converted [of m]
    by (auto simp: statusToMinor_def minorToStatus_def conversion_maps_map)
qed

section \<open>Reading the URIs\<close>

lemma minor_list_complete: "m \<in> set minor_list \<longleftrightarrow> m \<noteq> MI_null"
  by (cases m) (simp_all add: minor_list_def)

lemma minor_suffixes_distinct: "distinct (map minorSuffix minor_list)"
  by (simp add: minor_list_def)

lemma find_distinct:
  assumes "distinct (map f xs)" "x \<in> set xs"
  shows "find (\<lambda>y. f y = f x) xs = Some x"
  using assms by (induction xs) auto

lemma find_SomeD: "find P xs = Some x \<Longrightarrow> P x \<and> x \<in> set xs"
  by (auto simp: find_Some_iff)

lemma uri_prefixes [simp]: "RESULTMAJOR \<noteq> []" "RESULTMINOR \<noteq> []"
  by (simp_all add: RESULTMAJOR_def RESULTMINOR_def)

lemma getMinorString_list: "map getMinorString minor_list = map (\<lambda>m. RESULTMINOR @ minorSuffix m) minor_list"
  by (simp add: getMinorString_def minor_list_complete)

lemma minor_strings_distinct: "distinct (map getMinorString minor_list)"
  using minor_suffixes_distinct by (simp add: getMinorString_list distinct_map inj_on_def)

lemma major_strings_distinct: "distinct (map getMajorString major_list)"
  by (simp add: major_list_def getMajorString_def)

text \<open>
  The URIs of the results are read back as they are written, and any other text as the unknown
  major or no minor result.
\<close>

theorem result_uris_roundtrip:
  "parseMajor (getMajorString a) = a \<and> parseMinor (getMinorString i) = i \<and>
   (isMajor s \<longleftrightarrow> (\<exists>x. x \<noteq> MA_Unknown \<and> s = getMajorString x)) \<and>
   (isMinor t \<longleftrightarrow> (\<exists>x. x \<noteq> MI_null \<and> t = getMinorString x))"
proof -
  have minor: "parseMinor (getMinorString i) = i" for i
  proof (cases "i = MI_null")
    case True
    then show ?thesis
      by (auto simp: parseMinor_def getMinorString_def minor_list_complete split: option.split dest: find_SomeD)
  next
    case False
    then show ?thesis
      using find_distinct [OF minor_strings_distinct, of i] by (simp add: parseMinor_def minor_list_complete)
  qed
  have major: "parseMajor (getMajorString a) = a" for a
  proof (cases "a = MA_Unknown")
    case True
    then show ?thesis by (simp add: parseMajor_def major_list_def getMajorString_def)
  next
    case False
    then have "a \<in> set major_list" by (cases a) (simp_all add: major_list_def)
    then show ?thesis using find_distinct [OF major_strings_distinct] by (simp add: parseMajor_def)
  qed
  have "parseMinor t = MI_null \<or> (\<exists>x. x \<noteq> MI_null \<and> t = getMinorString x)"
    by (auto simp: parseMinor_def minor_list_complete split: option.split dest!: find_SomeD)
  moreover have "parseMajor s = MA_Unknown \<or> (\<exists>x. x \<noteq> MA_Unknown \<and> s = getMajorString x)"
    by (auto simp: parseMajor_def split: option.split dest!: find_SomeD)
  ultimately show ?thesis using minor major by (auto simp: isMinor_def isMajor_def)
qed

lemma sharing_violation_unread:
  "list_all (\<lambda>m. minorSuffix m \<noteq> ''/ifdl/terminal#IFDSharingViolation'') minor_list"
  by (simp add: minor_list_def)

text \<open>
  The URI of a sharing violation as the specification has it is not read: the entry of the map
  lacks a slash.
\<close>

theorem sharing_violation_is_not_read:
  "parseMinor (RESULTMINOR @ ''/ifdl/terminal#IFDSharingViolation'') = MI_null"
  using sharing_violation_unread
  by (auto simp: parseMinor_def getMinorString_def minor_list_complete list_all_iff split: option.split
      dest!: find_SomeD)

text \<open>
  An error that the server reports with a minor result that is not in the map, or with none,
  aborts the workflow but leaves it without an error: the conversion of no minor result is the
  status "no error".
\<close>

theorem unknown_minor_of_server_is_no_error:
  assumes "\<not> isMinor minor" "isOk (pc_startPaosResult c)" "\<not> isError (pc_status c)"
  shows "\<exists>c'. runStartPaosResponse tr (ECardApiResultOfStrings (getMajorString MA_Error) minor message Server) c = (False, c') \<and>
    \<not> isOk (pc_startPaosResult c') \<and> \<not> isError (pc_status c')"
proof -
  have "parseMajor (getMajorString MA_Error) = MA_Error"
    using find_distinct [OF major_strings_distinct, of MA_Error] by (simp add: parseMajor_def major_list_def)
  then show ?thesis
    using assms minorToStatus_No_Error [of MI_null]
    by (simp add: runStartPaosResponse_def ECardApiResultOfStrings_def isOk_def updateStartPaosResult_def
        setFirstError_def toStatus_def isError_def isMinor_def Let_def)
qed

definition freshPaosContext :: paos_context where
  "freshPaosContext = \<lparr>pc_status = \<lparr>gs_code = GS_No_Error, gs_information = [], gs_origin = Client\<rparr>,
     pc_startPaosResult = createOk\<rparr>"

lemma fresh_context: "isOk (pc_startPaosResult freshPaosContext)" "\<not> isError (pc_status freshPaosContext)"
  by (simp_all add: freshPaosContext_def createOk_def ECardApiResult_def isOk_def isError_def)

lemma empty_minor: "\<not> isMinor []"
  by (auto simp: isMinor_def parseMinor_def getMinorString_def minor_list_complete split: option.split
      dest!: find_SomeD)

theorem unknown_minor_of_server_is_no_error_witness:
  "\<exists>c'. runStartPaosResponse (\<lambda>s. s) (ECardApiResultOfStrings (getMajorString MA_Error) [] [] Server) freshPaosContext
     = (False, c') \<and> \<not> isOk (pc_startPaosResult c') \<and> \<not> isError (pc_status c')"
  by (rule unknown_minor_of_server_is_no_error [OF empty_minor fresh_context])

text \<open>
  Every other result of the server that is not ok leaves the workflow with an error: a warning, an
  unknown major result, an error with a known minor result.
\<close>

theorem refusal_of_server_is_kept:
  assumes "parseMajor major \<noteq> MA_Ok" "parseMajor major = MA_Error \<longrightarrow> isMinor minor"
    and "isOk (pc_startPaosResult c)" "\<not> isError (pc_status c)"
  shows "\<exists>c'. runStartPaosResponse tr (ECardApiResultOfStrings major minor message Server) c = (False, c') \<and>
    isError (pc_status c')"
  using assms minorToStatus_No_Error [of "parseMinor minor"]
  by (cases "parseMajor major")
    (auto simp: runStartPaosResponse_def ECardApiResultOfStrings_def isOk_def updateStartPaosResult_def
        setFirstError_def toStatus_def isError_def isMinor_def Let_def)

theorem refusal_of_server_is_kept_witness:
  "\<exists>c'. runStartPaosResponse (\<lambda>s. s) (ECardApiResultOfStrings [] [] [] Server) freshPaosContext
     = (False, c') \<and> isError (pc_status c')"
  by (rule refusal_of_server_is_kept [OF _ _ fresh_context])
    (simp_all add: parseMajor_def major_list_def getMajorString_def)

end
