(* ===== verification/NetworkChecks.thy ===== *)
theory NetworkChecks
  imports ECardApi
begin

text \<open>
  URLs, certificates of TLS and the TC token: src/src/network/UrlUtil.cpp, TlsChecker.cpp,
  the classification of network errors in NetworkManager.cpp, src/src/core/CertificateChecker.cpp
  and TcToken.cpp. A URL is a record of the parts that the code asks for; how Qt reads a string as
  a URL is a parameter \<open>url_of\<close>. A certificate is a record of what the code reads of it. The
  minimal sizes of keys come from the configuration; like the developer mode they are members of
  \<open>settings\<close>.
\<close>

section \<open>URLs\<close>

record url =
  u_scheme :: string
  u_host :: string
  u_port :: int
  u_path :: string
  u_query :: "(string \<times> string) list"
  u_wellFormed :: bool

definition emptyUrl :: url where
  "emptyUrl = \<lparr>u_scheme = [], u_host = [], u_port = -1, u_path = [], u_query = [], u_wellFormed = True\<rparr>"

definition url_isEmpty :: "url \<Rightarrow> bool" where
  "url_isEmpty u \<longleftrightarrow> u_scheme u = [] \<and> u_host u = [] \<and> u_port u = -1 \<and> u_path u = [] \<and> u_query u = []"

definition url_isValid :: "url \<Rightarrow> bool" where
  "url_isValid u \<longleftrightarrow> \<not> url_isEmpty u \<and> u_wellFormed u"

definition getUrlOrigin :: "url \<Rightarrow> url" where
  "getUrlOrigin pUrl =
    (let scheme = u_scheme pUrl;
         defaultPort = (if scheme = ''http'' then 80 else if scheme = ''https'' then 443 else -1)
     in emptyUrl\<lparr>u_scheme := scheme, u_host := u_host pUrl,
          u_port := (if u_port pUrl = -1 then defaultPort else u_port pUrl)\<rparr>)"

definition isMatchingSameOriginPolicy :: "url \<Rightarrow> url \<Rightarrow> bool" where
  "isMatchingSameOriginPolicy pUrl1 pUrl2 \<longleftrightarrow> getUrlOrigin pUrl1 = getUrlOrigin pUrl2"

text \<open>The pattern takes everything up to the last hash sign.\<close>

definition removePrefix :: "string \<Rightarrow> string" where
  "removePrefix pStr = rev (takeWhile (\<lambda>c. c \<noteq> CHR ''#'') (rev pStr))"

definition getSuffix :: "ECardMinor \<Rightarrow> string" where
  "getSuffix pMinor = removePrefix (getMinorString pMinor)"

definition addMajorMinor :: "url \<Rightarrow> global_status \<Rightarrow> url" where
  "addMajorMinor pOriginUrl pStatus =
    (let major = removePrefix (getMajorString (if isError pStatus then MA_Error else MA_Ok));
         q = u_query pOriginUrl @ [(''ResultMajor'', major)];
         minor = (if gs_origin pStatus = Server then ''serverError''
                  else if gs_code pStatus = GS_Paos_Error_AL_Communication_Error then getSuffix MI_AL_Communication_Error
                  else if gs_code pStatus = GS_Paos_Error_DP_Trusted_Channel_Establishment_Failed
                  then getSuffix MI_DP_Trusted_Channel_Establishment_Failed
                  else if gs_code pStatus = GS_Paos_Error_SAL_Cancellation_by_User
                  then getSuffix MI_SAL_Cancellation_by_User
                  else ''clientError'')
     in pOriginUrl\<lparr>u_query := (if isError pStatus then q @ [(''ResultMinor'', minor)] else q)\<rparr>)"

section \<open>Settings and certificates\<close>

datatype key_algorithm = Opaque | Rsa | Dsa | Ec | Dh | OtherAlgorithm

record settings =
  st_developerMode :: bool
  st_minStaticKeySizes :: "key_algorithm \<Rightarrow> int option"
  st_minEphemeralKeySizes :: "key_algorithm \<Rightarrow> int option"

record ssl_certificate =
  sc_isNull :: bool
  sc_keyLength :: int
  sc_keyAlgorithm :: key_algorithm
  sc_digest :: "string \<Rightarrow> string"
  sc_issuerNames :: "string list"

text \<open>The handle of a key is what OpenSSL says of it: its bits and its type.\<close>

record ssl_key =
  sk_length :: int
  sk_algorithm :: key_algorithm
  sk_handle :: "(int \<times> key_algorithm option) option"

record ssl_configuration =
  cfg_peerCertificate :: ssl_certificate
  cfg_ephemeralServerKey :: ssl_key
  cfg_sessionTicket :: string

definition getMinimumStaticKeySize :: "settings \<Rightarrow> key_algorithm \<Rightarrow> int" where
  "getMinimumStaticKeySize S a = (case st_minStaticKeySizes S a of None \<Rightarrow> 0 | Some n \<Rightarrow> n)"

definition getMinimumEphemeralKeySize :: "settings \<Rightarrow> key_algorithm \<Rightarrow> int" where
  "getMinimumEphemeralKeySize S a = (case st_minEphemeralKeySizes S a of None \<Rightarrow> 0 | Some n \<Rightarrow> n)"

definition isValidKeyLength :: "settings \<Rightarrow> int \<Rightarrow> key_algorithm \<Rightarrow> bool \<Rightarrow> bool" where
  "isValidKeyLength S pKeyLength pKeyAlgorithm pIsEphemeral =
    (let minKeySize = (if pIsEphemeral then getMinimumEphemeralKeySize S pKeyAlgorithm
                       else getMinimumStaticKeySize S pKeyAlgorithm)
     in pKeyLength \<ge> minKeySize \<or> st_developerMode S)"

definition hasValidCertificateKeyLength :: "settings \<Rightarrow> ssl_certificate \<Rightarrow> bool" where
  "hasValidCertificateKeyLength S c \<longleftrightarrow>
     \<not> sc_isNull c \<and> isValidKeyLength S (sc_keyLength c) (sc_keyAlgorithm c) False"

definition hasValidEphemeralKeyLength :: "settings \<Rightarrow> ssl_key \<Rightarrow> bool" where
  "hasValidEphemeralKeyLength S k =
    (case (sk_algorithm k, sk_handle k) of
       (Opaque, Some (bits, t)) \<Rightarrow>
         isValidKeyLength S bits (case t of None \<Rightarrow> Opaque | Some a \<Rightarrow> if a = Dh then Dsa else a) True
     | _ \<Rightarrow> isValidKeyLength S (sk_length k) (sk_algorithm k) True)"

definition toLower :: "string \<Rightarrow> string" where
  "toLower s = map (\<lambda>c. if 65 \<le> (of_char c :: nat) \<and> of_char c \<le> (90 :: nat) then char_of (of_char c + 32 :: nat) else c) s"

definition checkCertificate :: "ssl_certificate \<Rightarrow> string \<Rightarrow> string list \<Rightarrow> bool" where
  "checkCertificate pCertificate pAlgorithm pAcceptedCertificateHashes \<longleftrightarrow>
     list_ex (\<lambda>h. toLower (sc_digest pCertificate pAlgorithm) = toLower h) pAcceptedCertificateHashes"

definition getCertificateIssuerName :: "ssl_certificate \<Rightarrow> string" where
  "getCertificateIssuerName c = (case sc_issuerNames c of [] \<Rightarrow> [] | n # _ \<Rightarrow> n)"

datatype ssl_error =
    CertificateSignatureFailed | CertificateNotYetValid | CertificateExpired | InvalidNotBeforeField
  | InvalidNotAfterField | CertificateRevoked | InvalidCaCertificate | CertificateRejected
  | SubjectIssuerMismatch | HostNameMismatch | UnspecifiedError | NoSslSupport
  | CertificateBlacklisted | OtherSslError nat

definition fatalErrors :: "ssl_error list" where
  "fatalErrors =
    [CertificateSignatureFailed, CertificateNotYetValid, CertificateExpired, InvalidNotBeforeField,
     InvalidNotAfterField, CertificateRevoked, InvalidCaCertificate, CertificateRejected,
     SubjectIssuerMismatch, HostNameMismatch, UnspecifiedError, NoSslSupport, CertificateBlacklisted]"

definition getFatalErrors :: "settings \<Rightarrow> ssl_error list \<Rightarrow> ssl_error list" where
  "getFatalErrors S pErrors = filter (\<lambda>e. e \<in> set fatalErrors \<and> \<not> st_developerMode S) pErrors"

text \<open>Errors that are not fatal are ignored, which lets the connection go on.\<close>

definition containsFatalError :: "settings \<Rightarrow> ssl_error list \<Rightarrow> bool" where
  "containsFatalError S pErrors \<longleftrightarrow> getFatalErrors S pErrors \<noteq> []"

datatype CertificateStatus = Good | Unsupported_Algorithm_Or_Length | Hash_Not_In_Description

text \<open>
  The hashes are those of the certificate description of EAC1, the algorithm is the one of the
  document verifier's certificate. The URL and certificate are saved by the caller when the status
  is \<open>Good\<close>.
\<close>

definition checkAndSaveCertificate ::
  "settings \<Rightarrow> ssl_certificate \<Rightarrow> string list option option \<Rightarrow> string option \<Rightarrow> CertificateStatus" where
  "checkAndSaveCertificate S pCertificate pEAC1 pDvCvc =
    (if \<not> hasValidCertificateKeyLength S pCertificate then Unsupported_Algorithm_Or_Length
     else case (pEAC1, pDvCvc) of
            (Some (Some certHashes), Some hashAlgo) \<Rightarrow>
              if \<not> checkCertificate pCertificate hashAlgo certHashes \<and> \<not> st_developerMode S
              then Hash_Not_In_Description else Good
          | _ \<Rightarrow> Good)"

section \<open>Network errors\<close>

datatype reply_error =
    NoError | TimeoutError | ServiceUnavailableError | ProxyAuthenticationRequiredError
  | ProxyConnectionClosedError | ProxyConnectionRefusedError | ProxyNotFoundError | ProxyTimeoutError
  | UnknownProxyError | SslHandshakeFailedError | OperationCanceledError | OtherReplyError nat

datatype NetworkError = ServiceUnavailable | TimeOut | ProxyError | SslError | OtherError

fun toNetworkError :: "reply_error \<Rightarrow> NetworkError" where
  "toNetworkError TimeoutError = TimeOut"
| "toNetworkError ServiceUnavailableError = ServiceUnavailable"
| "toNetworkError ProxyAuthenticationRequiredError = ProxyError"
| "toNetworkError ProxyConnectionClosedError = ProxyError"
| "toNetworkError ProxyConnectionRefusedError = ProxyError"
| "toNetworkError ProxyNotFoundError = ProxyError"
| "toNetworkError ProxyTimeoutError = ProxyError"
| "toNetworkError UnknownProxyError = ProxyError"
| "toNetworkError SslHandshakeFailedError = SslError"
| "toNetworkError _ = OtherError"

fun toTrustedChannelStatus :: "NetworkError \<Rightarrow> GlobalStatusCode" where
  "toTrustedChannelStatus ServiceUnavailable = GS_Workflow_TrustedChannel_ServiceUnavailable"
| "toTrustedChannelStatus TimeOut = GS_Workflow_TrustedChannel_TimeOut"
| "toTrustedChannelStatus ProxyError = GS_Workflow_TrustedChannel_Proxy_Error"
| "toTrustedChannelStatus SslError = GS_Workflow_TrustedChannel_Ssl_Establishment_Error"
| "toTrustedChannelStatus OtherError = GS_Workflow_TrustedChannel_Other_Network_Error"

fun networkStatus :: "NetworkError \<Rightarrow> GlobalStatusCode" where
  "networkStatus ServiceUnavailable = GS_Network_ServiceUnavailable"
| "networkStatus TimeOut = GS_Network_TimeOut"
| "networkStatus ProxyError = GS_Network_Proxy_Error"
| "networkStatus SslError = GS_Network_Ssl_Establishment_Error"
| "networkStatus OtherError = GS_Network_Other_Error"

section \<open>The TC token\<close>

text \<open>
  The reader of Qt gives the start elements in their order with their text, or an error. A text
  that is there is never null, so \<open>None\<close> is an element that is missing.
\<close>

record tc_token =
  tt_schemaConform :: bool
  tt_binding :: string
  tt_pathSecurityProtocol :: "string option"
  tt_psk :: "string option"
  tt_sessionIdentifier :: "string option"
  tt_serverAddress :: url
  tt_communicationErrorAddress :: url
  tt_refreshAddress :: url

definition isSpace :: "char \<Rightarrow> bool" where
  "isSpace c \<longleftrightarrow> of_char c \<in> {9 .. 13 :: nat} \<or> of_char c = (32 :: nat)"

definition trimmed :: "string \<Rightarrow> string" where
  "trimmed s = rev (dropWhile isSpace (rev (dropWhile isSpace s)))"

text \<open>The last element of a name counts.\<close>

definition elementValue :: "(string \<times> string) list \<Rightarrow> string \<Rightarrow> string option" where
  "elementValue elements name = map_option trimmed (map_of (rev elements) name)"

definition isAnyUri :: "(string \<Rightarrow> url) \<Rightarrow> string option \<Rightarrow> bool" where
  "isAnyUri url_of pCandidate =
    (case pCandidate of None \<Rightarrow> True | Some u \<Rightarrow> u = [] \<or> url_isValid (url_of u))"

definition valuesAreSchemaConform ::
  "(string \<Rightarrow> url) \<Rightarrow> string option \<Rightarrow> string option \<Rightarrow> string option \<Rightarrow> string option \<Rightarrow> bool" where
  "valuesAreSchemaConform url_of pBinding pServerAddress pCommunicationErrorAddress pRefreshAddress \<longleftrightarrow>
     pBinding \<noteq> None \<and> isAnyUri url_of pBinding \<and>
     pServerAddress \<noteq> None \<and> isAnyUri url_of pServerAddress \<and>
     pRefreshAddress \<noteq> None \<and> isAnyUri url_of pRefreshAddress \<and>
     isAnyUri url_of pCommunicationErrorAddress"

definition emptyToken :: tc_token where
  "emptyToken = \<lparr>tt_schemaConform = False, tt_binding = [], tt_pathSecurityProtocol = None, tt_psk = None,
     tt_sessionIdentifier = None, tt_serverAddress = emptyUrl, tt_communicationErrorAddress = emptyUrl,
     tt_refreshAddress = emptyUrl\<rparr>"

definition setUrl :: "(string \<Rightarrow> url) \<Rightarrow> string option \<Rightarrow> url" where
  "setUrl url_of s = (case s of None \<Rightarrow> emptyUrl | Some u \<Rightarrow> if u = [] then emptyUrl else url_of u)"

text \<open>\<open>None\<close> is data that the reader refuses.\<close>

definition parseTcTokenData :: "(string \<Rightarrow> url) \<Rightarrow> (string \<times> string) list option \<Rightarrow> tc_token" where
  "parseTcTokenData url_of pData =
    (case pData of
       None \<Rightarrow> emptyToken
     | Some elements \<Rightarrow>
        let v = elementValue elements
        in if valuesAreSchemaConform url_of (v ''Binding'') (v ''ServerAddress'')
                (v ''CommunicationErrorAddress'') (v ''RefreshAddress'')
           then \<lparr>tt_schemaConform = True,
                 tt_binding = (case v ''Binding'' of None \<Rightarrow> [] | Some b \<Rightarrow> b),
                 tt_pathSecurityProtocol = v ''PathSecurity-Protocol'',
                 tt_psk = v ''PSK'',
                 tt_sessionIdentifier = v ''SessionIdentifier'',
                 tt_serverAddress = setUrl url_of (v ''ServerAddress''),
                 tt_communicationErrorAddress = setUrl url_of (v ''CommunicationErrorAddress''),
                 tt_refreshAddress = setUrl url_of (v ''RefreshAddress'')\<rparr>
           else emptyToken)"

definition isHexBinary :: "string \<Rightarrow> bool" where
  "isHexBinary pCandidate \<longleftrightarrow>
     list_all (\<lambda>c. c \<in> set ''0123456789ABCDEFabcdef'') pCandidate \<and> even (length pCandidate)"

definition TcToken_isValid :: "settings \<Rightarrow> tc_token \<Rightarrow> bool" where
  "TcToken_isValid S t \<longleftrightarrow>
     tt_schemaConform t \<and>
     tt_binding t = ''urn:liberty:paos:2006-08'' \<and>
     (case tt_pathSecurityProtocol t of None \<Rightarrow> True | Some p \<Rightarrow> p = ''urn:ietf:rfc:4279'') \<and>
     u_scheme (tt_serverAddress t) = ''https'' \<and>
     (u_scheme (tt_refreshAddress t) = ''https'' \<or> st_developerMode S) \<and>
     (case tt_psk t of None \<Rightarrow> True | Some k \<Rightarrow> isHexBinary k)"

definition usePsk :: "tc_token \<Rightarrow> bool" where
  "usePsk t \<longleftrightarrow> tt_psk t \<noteq> None"

section \<open>What the browser is told\<close>

lemma suffixes:
  "removePrefix (getMajorString MA_Ok) = ''ok''" "removePrefix (getMajorString MA_Error) = ''error''"
  "getSuffix MI_AL_Communication_Error = ''communicationError''"
  "getSuffix MI_DP_Trusted_Channel_Establishment_Failed = ''trustedChannelEstablishmentFailed''"
  "getSuffix MI_SAL_Cancellation_by_User = ''cancellationByUser''"
  by (simp_all add: removePrefix_def getSuffix_def getMajorString_def getMinorString_def RESULTMAJOR_def RESULTMINOR_def)

lemma minorToStatus_special:
  "minorToStatus m = GS_Paos_Error_AL_Communication_Error \<longleftrightarrow> m = MI_AL_Communication_Error"
  "minorToStatus m = GS_Paos_Error_DP_Trusted_Channel_Establishment_Failed \<longleftrightarrow> m = MI_DP_Trusted_Channel_Establishment_Failed"
  "minorToStatus m = GS_Paos_Error_SAL_Cancellation_by_User \<longleftrightarrow> m = MI_SAL_Cancellation_by_User"
  by (cases m; simp add: minorToStatus_def conversion_maps_map conversionElements_def)+

text \<open>
  What the browser is told with the redirect. The status of the workflow is turned into a result
  and back before it is added to the URL; so every code is told as the minor result it belongs to,
  and an error of the server as such.
\<close>

theorem redirect_tells_the_result:
  "u_query (addMajorMinor u (toStatus tr (fromStatus describe s))) =
    u_query u @
    (if gs_code s = GS_No_Error \<or> gs_code s = GS_RemoteReader_CloseCode_NormalClose then [(''ResultMajor'', ''ok'')]
     else [(''ResultMajor'', ''error''),
           (''ResultMinor'',
            if gs_origin s = Server then ''serverError''
            else if statusToMinor (gs_code s) = MI_AL_Communication_Error then ''communicationError''
            else if statusToMinor (gs_code s) = MI_DP_Trusted_Channel_Establishment_Failed
            then ''trustedChannelEstablishmentFailed''
            else if statusToMinor (gs_code s) = MI_SAL_Cancellation_by_User then ''cancellationByUser''
            else ''clientError'')])"
proof (cases "gs_code s = GS_No_Error \<or> gs_code s = GS_RemoteReader_CloseCode_NormalClose")
  case True
  then show ?thesis
    by (simp add: fromStatus_def createOk_def ECardApiResult_def toStatus_def isOk_def addMajorMinor_def
        isError_def suffixes Let_def)
next
  case False
  let ?m = "statusToMinor (gs_code s)"
  have m: "?m \<noteq> MI_null" using False statusToMinor_null by simp
  then have "gs_code (toStatus tr (fromStatus describe s)) = minorToStatus ?m"
    "gs_origin (toStatus tr (fromStatus describe s)) = gs_origin s"
    using False by (auto simp: fromStatus_def ECardApiResult_def toStatus_def Let_def)
  moreover have "minorToStatus ?m \<noteq> GS_No_Error" using m minorToStatus_No_Error by simp
  ultimately show ?thesis
    using False minorToStatus_special [of ?m]
    by (auto simp: addMajorMinor_def isError_def suffixes Let_def)
qed

end
