(* ===== verification/AuthData.thy ===== *)
theory AuthData
  imports Chat CvcChains
begin

text \<open>
  What the server asks of the user: the auxiliary data
  (src/src/card/base/asn1/AuthenticatedAuxiliaryData.cpp), the certificate description as far as
  the workflow reads it, the input of EAC1 and EAC2 (src/src/core/paos/element/Eac1InputType.h,
  Eac2InputType.h), and the access rights that the context of the workflow derives from them and
  that the user edits (src/src/core/context/AuthContext.cpp). What OpenSSL decodes is a parameter.
\<close>

section \<open>Auxiliary data\<close>

datatype AuxilaryData = ID_DATE_OF_BIRTH | ID_DATE_OF_EXPIRY | ID_COMMUNITY_ID

fun oid_AuxilaryData :: "AuxilaryData \<Rightarrow> string" where
  "oid_AuxilaryData ID_DATE_OF_BIRTH = oid_BSI_DE @ ''.3.1.4.1''"
| "oid_AuxilaryData ID_DATE_OF_EXPIRY = oid_BSI_DE @ ''.3.1.4.2''"
| "oid_AuxilaryData ID_COMMUNITY_ID = oid_BSI_DE @ ''.3.1.4.3''"

text \<open>The content of the extension is \<open>None\<close> when OpenSSL does not read an octet string in it.\<close>

record aux_template =
  at_oid :: string
  at_content :: "string option"

type_synonym aux_data = "aux_template list"

definition AuxiliaryData_decode :: "(bytes \<Rightarrow> aux_data option) \<Rightarrow> bytes \<Rightarrow> aux_data option" where
  "AuxiliaryData_decode decodeAux pBytes =
    (case decodeAux pBytes of
       None \<Rightarrow> None
     | Some auxDate \<Rightarrow>
        let oids = map at_oid auxDate;
            rest = remove1 (oid_AuxilaryData ID_DATE_OF_EXPIRY)
                     (remove1 (oid_AuxilaryData ID_DATE_OF_BIRTH)
                       (remove1 (oid_AuxilaryData ID_COMMUNITY_ID) oids))
        in if \<not> distinct oids then None
           else if rest \<noteq> [] then None
           else Some auxDate)"

definition getAuxDataTemplateFor :: "AuxilaryData \<Rightarrow> aux_data \<Rightarrow> aux_template option" where
  "getAuxDataTemplateFor pData mData = find (\<lambda>t. at_oid t = oid_AuxilaryData pData) mData"

text \<open>A date is its year, month and day. The text has the form \<open>yyyyMMdd\<close>.\<close>

type_synonym date = "int \<times> int \<times> int"

definition isLeapYear :: "int \<Rightarrow> bool" where
  "isLeapYear y \<longleftrightarrow> (y mod 4 = 0 \<and> y mod 100 \<noteq> 0) \<or> y mod 400 = 0"

definition daysInMonth :: "int \<Rightarrow> int \<Rightarrow> int" where
  "daysInMonth y m =
    (if m = 2 then (if isLeapYear y then 29 else 28) else if m \<in> {4, 6, 9, 11} then 30 else 31)"

definition digits :: "string \<Rightarrow> int" where
  "digits s = foldl (\<lambda>n c. 10 * n + (of_char c - 48)) 0 s"

definition date_fromString :: "string \<Rightarrow> date option" where
  "date_fromString s =
    (let y = digits (take 4 s); m = digits (take 2 (drop 4 s)); d = digits (drop 6 s)
     in if length s = 8 \<and> list_all (\<lambda>c. of_char c \<in> {48 .. 57 :: nat}) s \<and>
           1 \<le> m \<and> m \<le> 12 \<and> 1 \<le> d \<and> d \<le> daysInMonth y m
        then Some (y, m, d) else None)"

definition hasValidityDate :: "aux_data \<Rightarrow> bool" where
  "hasValidityDate a \<longleftrightarrow> getAuxDataTemplateFor ID_DATE_OF_EXPIRY a \<noteq> None"

definition hasAgeVerificationDate :: "aux_data \<Rightarrow> bool" where
  "hasAgeVerificationDate a \<longleftrightarrow> getAuxDataTemplateFor ID_DATE_OF_BIRTH a \<noteq> None"

definition hasCommunityID :: "aux_data \<Rightarrow> bool" where
  "hasCommunityID a \<longleftrightarrow> getAuxDataTemplateFor ID_COMMUNITY_ID a \<noteq> None"

definition auxDate :: "AuxilaryData \<Rightarrow> aux_data \<Rightarrow> date option" where
  "auxDate pData a =
    (case getAuxDataTemplateFor pData a of
       None \<Rightarrow> None
     | Some t \<Rightarrow> (case at_content t of None \<Rightarrow> None | Some s \<Rightarrow> date_fromString s))"

definition getValidityDate :: "aux_data \<Rightarrow> date option" where
  "getValidityDate a = auxDate ID_DATE_OF_EXPIRY a"

definition getAgeVerificationDate :: "aux_data \<Rightarrow> date option" where
  "getAgeVerificationDate a = auxDate ID_DATE_OF_BIRTH a"

text \<open>The age before it is written as text; \<open>None\<close> is the empty text.\<close>

definition getRequiredAge :: "date option \<Rightarrow> aux_data \<Rightarrow> int option" where
  "getRequiredAge pEffectiveDate a =
    (case (pEffectiveDate, getAgeVerificationDate a) of
       (Some (ey, em, ed), Some (vy, vm, vd)) \<Rightarrow>
         let age = ey - vy
         in Some (if em \<le> vm \<and> (em \<noteq> vm \<or> ed < vd) then age - 1 else age)
     | _ \<Rightarrow> None)"

section \<open>Input of EAC1 and EAC2\<close>

record description =
  cd_subjectUrl :: "string option"
  cd_commCertificates :: "string list"

record eac1_message =
  e1_cvCertificates :: "cvc list"
  e1_descriptionAsBinary :: "bytes option"
  e1_description :: "description option"
  e1_requiredChat :: "chat option"
  e1_optionalChat :: "chat option"
  e1_auxiliaryDataAsBinary :: bytes
  e1_auxiliaryData :: "aux_data option"
  e1_transactionInfo :: string

record eac2_message =
  e2_cvCertificates :: "cvc list"
  e2_ephemeralPublicKey :: string
  e2_signature :: string

section \<open>Access rights\<close>

record auth_rights =
  ax_terminalCvc :: "cvc option"
  ax_required :: "AccessRight set"
  ax_optional :: "AccessRight set"
  ax_effective :: "AccessRight set"
  ax_canAllowedMode :: bool

definition noRights :: auth_rights where
  "noRights = \<lparr>ax_terminalCvc = None, ax_required = {}, ax_optional = {}, ax_effective = {},
     ax_canAllowedMode = False\<rparr>"

text \<open>The second component says whether the set was changed.\<close>

definition removeForbiddenAccessRights ::
  "cvc option \<Rightarrow> eac1_message option \<Rightarrow> AccessRight set \<Rightarrow> AccessRight set \<times> bool" where
  "removeForbiddenAccessRights mTerminalCvc mEac1 pAccessRights =
    (case mTerminalCvc of
       None \<Rightarrow> (pAccessRights, False)
     | Some cvc \<Rightarrow>
        let allowed = set (getAccessRights (cvc_chat cvc)) \<inter> set allDisplayedOrderedRights;
            rights = pAccessRights \<inter> allowed
        in case mEac1 of
             None \<Rightarrow> (rights, rights \<noteq> pAccessRights)
           | Some eac1 \<Rightarrow>
              let aux = e1_auxiliaryData eac1;
                  rights = (if AGE_VERIFICATION \<in> rights \<and> \<not> (case aux of None \<Rightarrow> False | Some a \<Rightarrow> hasAgeVerificationDate a)
                            then rights - {AGE_VERIFICATION} else rights);
                  rights = (if COMMUNITY_ID_VERIFICATION \<in> rights \<and> \<not> (case aux of None \<Rightarrow> False | Some a \<Rightarrow> hasCommunityID a)
                            then rights - {COMMUNITY_ID_VERIFICATION} else rights)
              in (rights, rights \<noteq> pAccessRights))"

definition initializeChat :: "eac1_message \<Rightarrow> auth_rights \<Rightarrow> auth_rights" where
  "initializeChat eac1 x =
    (let permitted = (\<lambda>rs. fst (removeForbiddenAccessRights (ax_terminalCvc x) (Some eac1) rs));
         required = (case e1_requiredChat eac1 of None \<Rightarrow> {} | Some c \<Rightarrow> permitted (set (getAccessRights c)));
         optional = (case e1_optionalChat eac1 of
                       None \<Rightarrow> {}
                     | Some c \<Rightarrow>
                         let rs = permitted (set (getAccessRights c))
                         in if rs \<noteq> {} \<and> required \<noteq> {} then rs - required else rs);
         optional = (if optional = {} \<and> required = {}
                     then permitted (case ax_terminalCvc x of None \<Rightarrow> {} | Some cvc \<Rightarrow> set (getAccessRights (cvc_chat cvc)))
                     else optional)
     in x\<lparr>ax_required := required, ax_optional := optional, ax_effective := required \<union> optional\<rparr>)"

definition setTerminalCvc :: "eac1_message \<Rightarrow> cvc \<Rightarrow> auth_rights \<Rightarrow> auth_rights" where
  "setTerminalCvc eac1 pTerminalCvc x =
     initializeChat eac1 (x\<lparr>ax_terminalCvc := Some pTerminalCvc,
       ax_canAllowedMode := hasAccessRight CAN_ALLOWED (cvc_chat pTerminalCvc)\<rparr>)"

definition addEffectiveAccessRight :: "AccessRight \<Rightarrow> auth_rights \<Rightarrow> bool \<times> auth_rights" where
  "addEffectiveAccessRight pAccessRight x =
    (if pAccessRight \<in> ax_effective x then (True, x)
     else if pAccessRight \<in> ax_optional x
     then (True, x\<lparr>ax_effective := insert pAccessRight (ax_effective x)\<rparr>)
     else (False, x))"

definition removeEffectiveAccessRight :: "AccessRight \<Rightarrow> auth_rights \<Rightarrow> bool \<times> auth_rights" where
  "removeEffectiveAccessRight pAccessRight x =
    (if pAccessRight \<in> ax_required x then (False, x)
     else if pAccessRight \<in> ax_effective x
     then (True, x\<lparr>ax_effective := ax_effective x - {pAccessRight}\<rparr>)
     else (True, x))"

text \<open>The rights are tried in any order, here as a list.\<close>

definition setEffectiveAccessRights :: "AccessRight list \<Rightarrow> auth_rights \<Rightarrow> bool \<times> auth_rights" where
  "setEffectiveAccessRights pAccessRights x =
    (let x = foldl (\<lambda>x r. snd (addEffectiveAccessRight r x)) (x\<lparr>ax_effective := ax_required x\<rparr>) pAccessRights
     in (set pAccessRights = ax_effective x, x))"

text \<open>The CHAT that is sent to the card and the server.\<close>

definition effectiveChat :: "cvc \<Rightarrow> auth_rights \<Rightarrow> chat" where
  "effectiveChat terminalCvc x =
    (let c = setAccessRights (filter (\<lambda>r. r \<in> ax_effective x) allRights) (removeAllAccessRights (cvc_chat terminalCvc))
     in if ax_canAllowedMode x then setAccessRight CAN_ALLOWED c else c)"

section \<open>Dates and ages\<close>

fun date_le :: "date \<Rightarrow> date \<Rightarrow> bool" where
  "date_le (y, m, d) (y', m', d') \<longleftrightarrow> y < y' \<or> y = y' \<and> (m < m' \<or> m = m' \<and> d \<le> d')"

text \<open>
  The required age is the number of completed years: the day with this many years added is not
  after the effective date, the next birthday is.
\<close>

theorem required_age_counts_completed_years:
  assumes "getAgeVerificationDate a = Some (y, m, d)" "getRequiredAge (Some e) a = Some age"
  shows "date_le (y + age, m, d) e \<and> \<not> date_le (y + age + 1, m, d) e"
  using assms by (cases e) (auto simp: getRequiredAge_def Let_def split: if_splits)

definition sampleAux :: aux_data where
  "sampleAux = [\<lparr>at_oid = oid_AuxilaryData ID_DATE_OF_BIRTH, at_content = Some ''20010715''\<rparr>]"

theorem required_age_counts_completed_years_witness:
  "date_le (2001 + 17, 7, 15) (2019, 7, 14) \<and> \<not> date_le (2001 + 17 + 1, 7, 15) (2019, 7, 14)"
  using required_age_counts_completed_years [of sampleAux 2001 7 15 "(2019, 7, 14)" 17]
  by (simp add: sampleAux_def getRequiredAge_def getAgeVerificationDate_def auxDate_def getAuxDataTemplateFor_def
      date_fromString_def digits_def daysInMonth_def Let_def)

lemma set_remove1_distinct: "distinct xs \<Longrightarrow> set (remove1 x xs) = set xs - {x}"
  by (rule set_remove1_eq)

text \<open>
  C40. Auxiliary data that is accepted is what OpenSSL decoded, and has no templates but the date of
  birth, the date of expiry and the community, each of them at most once.
\<close>

theorem accepted_auxiliary_data_is_known:
  "AuxiliaryData_decode decodeAux b = Some a \<longleftrightarrow>
     decodeAux b = Some a \<and> distinct (map at_oid a) \<and> set (map at_oid a) \<subseteq> range oid_AuxilaryData"
proof -
  have univ: "UNIV = {ID_COMMUNITY_ID, ID_DATE_OF_BIRTH, ID_DATE_OF_EXPIRY}"
    using AuxilaryData.exhaust by blast
  have known: "range oid_AuxilaryData =
      {oid_AuxilaryData ID_COMMUNITY_ID, oid_AuxilaryData ID_DATE_OF_BIRTH, oid_AuxilaryData ID_DATE_OF_EXPIRY}"
    by (simp only: univ image_insert image_empty)
  have "remove1 (oid_AuxilaryData ID_DATE_OF_EXPIRY) (remove1 (oid_AuxilaryData ID_DATE_OF_BIRTH)
          (remove1 (oid_AuxilaryData ID_COMMUNITY_ID) oids)) = [] \<longleftrightarrow> set oids \<subseteq> range oid_AuxilaryData"
    if "distinct oids" for oids
    unfolding known set_empty [symmetric]
    by (simp only: set_remove1_distinct distinct_remove1 that) blast
  then show ?thesis
    by (auto simp: AuxiliaryData_decode_def Let_def split: option.split)
qed

section \<open>What the rights of the user can be\<close>

text \<open>
  The rights that the certificate of the server has and that can be shown to the user.
\<close>

definition permittedRights :: "cvc \<Rightarrow> AccessRight set" where
  "permittedRights cvc = set (getAccessRights (cvc_chat cvc)) \<inter> set allDisplayedOrderedRights"

definition rights_inv :: "auth_rights \<Rightarrow> bool" where
  "rights_inv x \<longleftrightarrow>
     ax_required x \<subseteq> ax_effective x \<and> ax_effective x \<subseteq> ax_required x \<union> ax_optional x \<and>
     (case ax_terminalCvc x of
        None \<Rightarrow> ax_required x = {} \<and> ax_optional x = {}
      | Some cvc \<Rightarrow> ax_required x \<union> ax_optional x \<subseteq> permittedRights cvc)"

lemma removeForbidden_permitted:
  "fst (removeForbiddenAccessRights (Some cvc) e rs) \<subseteq> permittedRights cvc \<inter> rs"
  by (auto simp: removeForbiddenAccessRights_def permittedRights_def Let_def split: option.split if_splits)

lemma rights_inv_setTerminalCvc: "rights_inv (setTerminalCvc eac1 cvc x)"
  unfolding setTerminalCvc_def initializeChat_def rights_inv_def Let_def
  using removeForbidden_permitted [of cvc "Some eac1"]
  by (auto split: option.split if_splits)

datatype rights_op = AddRight AccessRight | RemoveRight AccessRight | SetRights "AccessRight list"

fun rights_step :: "auth_rights \<Rightarrow> rights_op \<Rightarrow> auth_rights" where
  "rights_step x (AddRight r) = snd (addEffectiveAccessRight r x)"
| "rights_step x (RemoveRight r) = snd (removeEffectiveAccessRight r x)"
| "rights_step x (SetRights rs) = snd (setEffectiveAccessRights rs x)"

lemma rights_inv_add: "rights_inv x \<Longrightarrow> rights_inv (snd (addEffectiveAccessRight r x))"
  by (auto simp: rights_inv_def addEffectiveAccessRight_def split: option.splits)

lemma rights_inv_foldl_add:
  "rights_inv x \<Longrightarrow> rights_inv (foldl (\<lambda>x r. snd (addEffectiveAccessRight r x)) x rs)"
  by (induction rs arbitrary: x) (auto intro: rights_inv_add)

lemma rights_inv_remove: "rights_inv x \<Longrightarrow> rights_inv (snd (removeEffectiveAccessRight r x))"
  by (auto simp: rights_inv_def removeEffectiveAccessRight_def split: option.splits)

lemma rights_inv_set: "rights_inv x \<Longrightarrow> rights_inv (snd (setEffectiveAccessRights rs x))"
  using rights_inv_foldl_add [of "x\<lparr>ax_effective := ax_required x\<rparr>" rs]
  by (auto simp: setEffectiveAccessRights_def rights_inv_def Let_def split: option.splits)

lemma rights_inv_step: "rights_inv x \<Longrightarrow> rights_inv (rights_step x op)"
  by (cases op) (simp_all add: rights_inv_add rights_inv_remove rights_inv_set)

lemma rights_frame_add [simp]:
  "ax_required (snd (addEffectiveAccessRight r x)) = ax_required x"
  "ax_optional (snd (addEffectiveAccessRight r x)) = ax_optional x"
  "ax_terminalCvc (snd (addEffectiveAccessRight r x)) = ax_terminalCvc x"
  "ax_canAllowedMode (snd (addEffectiveAccessRight r x)) = ax_canAllowedMode x"
  by (simp_all add: addEffectiveAccessRight_def)

lemma rights_frame_foldl_add [simp]:
  "ax_required (foldl (\<lambda>x r. snd (addEffectiveAccessRight r x)) x rs) = ax_required x"
  "ax_optional (foldl (\<lambda>x r. snd (addEffectiveAccessRight r x)) x rs) = ax_optional x"
  "ax_terminalCvc (foldl (\<lambda>x r. snd (addEffectiveAccessRight r x)) x rs) = ax_terminalCvc x"
  "ax_canAllowedMode (foldl (\<lambda>x r. snd (addEffectiveAccessRight r x)) x rs) = ax_canAllowedMode x"
  by (induction rs arbitrary: x) simp_all

lemma rights_frame_step [simp]:
  "ax_required (rights_step x op) = ax_required x" "ax_terminalCvc (rights_step x op) = ax_terminalCvc x"
  "ax_canAllowedMode (rights_step x op) = ax_canAllowedMode x"
  by (cases op; simp add: removeEffectiveAccessRight_def setEffectiveAccessRights_def Let_def)+

interpretation rights: machine rights_step rights_inv
  by unfold_locales (rule rights_inv_step)

lemma rights_frame_run:
  "ax_required (run rights_step x ops) = ax_required x" "ax_terminalCvc (run rights_step x ops) = ax_terminalCvc x"
  "ax_canAllowedMode (run rights_step x ops) = ax_canAllowedMode x"
  by (induction ops arbitrary: x) simp_all

text \<open>
  Whatever the user ticks or the caller sets, the rights that the workflow will ask the card for
  are rights of the server's certificate that were shown to the user, and the required rights are
  among them.
\<close>

theorem effective_rights_are_permitted:
  fixes eac1 cvc ops x
  defines "y \<equiv> run rights_step (setTerminalCvc eac1 cvc x) ops"
  shows "ax_effective y \<subseteq> set (getAccessRights (cvc_chat cvc)) \<inter> set allDisplayedOrderedRights \<and>
    ax_required (setTerminalCvc eac1 cvc x) \<subseteq> ax_effective y \<and>
    ax_canAllowedMode y = hasAccessRight CAN_ALLOWED (cvc_chat cvc)"
proof -
  have "rights_inv y" unfolding y_def by (rule rights.run_inv [OF rights_inv_setTerminalCvc])
  moreover have "ax_terminalCvc (setTerminalCvc eac1 cvc x) = Some cvc"
    "ax_canAllowedMode (setTerminalCvc eac1 cvc x) = hasAccessRight CAN_ALLOWED (cvc_chat cvc)"
    by (simp_all add: setTerminalCvc_def initializeChat_def Let_def)
  ultimately show ?thesis
    unfolding rights_inv_def y_def rights_frame_run permittedRights_def by (simp add: rights_frame_run) blast
qed

lemma effectiveChat_rights:
  assumes "length (chat_template (cvc_chat cvc)) = 5"
  shows "set (getAccessRights (effectiveChat cvc x)) =
      ax_effective x \<union> (if ax_canAllowedMode x then {CAN_ALLOWED} else {})"
    and "getAccessRole (effectiveChat cvc x) = getAccessRole (cvc_chat cvc)"
proof -
  let ?none = "removeAllAccessRights (cvc_chat cvc)"
  let ?rs = "filter (\<lambda>r. r \<in> ax_effective x) allRights"
  have none: "length (chat_template ?none) = 5" "set (getAccessRights ?none) = {}"
    "getAccessRole ?none = getAccessRole (cvc_chat cvc)"
    using foldl_removeAccessRight [OF assms, of "getAccessRights (cvc_chat cvc)"]
    by (simp_all add: removeAllAccessRights_def)
  have all: "length (chat_template (setAccessRights ?rs ?none)) = 5"
    "set (getAccessRights (setAccessRights ?rs ?none)) = ax_effective x"
    "getAccessRole (setAccessRights ?rs ?none) = getAccessRole (cvc_chat cvc)"
    using foldl_setAccessRight [OF none(1), of ?rs] none(2,3) access_right.es_complete by auto
  show "set (getAccessRights (effectiveChat cvc x)) =
      ax_effective x \<union> (if ax_canAllowedMode x then {CAN_ALLOWED} else {})"
    using all by (simp add: effectiveChat_def Let_def setAccessRight_def rights_setTemplateBit del: rightValue.simps)
  show "getAccessRole (effectiveChat cvc x) = getAccessRole (cvc_chat cvc)"
    using all by (simp add: effectiveChat_def Let_def setAccessRight_def role_setTemplateBit del: rightValue.simps)
qed

text \<open>
  C38. The CHAT that is sent has exactly the rights that the user left, and the right to use the CAN
  when the certificate has it; so it never asks for more than the certificate allows. Its role is
  that of the certificate.
\<close>

theorem effective_chat_within_certificate:
  fixes eac1 cvc ops x
  defines "y \<equiv> run rights_step (setTerminalCvc eac1 cvc x) ops"
  assumes "CHAT_decodeCallback (cvc_chat cvc) = Some (cvc_chat cvc)"
  shows "set (getAccessRights (effectiveChat cvc y)) =
      ax_effective y \<union> (if ax_canAllowedMode y then {CAN_ALLOWED} else {}) \<and>
    set (getAccessRights (effectiveChat cvc y)) \<subseteq> set (getAccessRights (cvc_chat cvc)) \<and>
    getAccessRole (effectiveChat cvc y) = getAccessRole (cvc_chat cvc)"
proof -
  have len: "length (chat_template (cvc_chat cvc)) = 5"
    using assms(2) by (simp add: CHAT_decodeCallback_def split: if_splits)
  have "rights_inv y" unfolding y_def by (rule rights.run_inv [OF rights_inv_setTerminalCvc])
  moreover have "ax_terminalCvc y = Some cvc" "ax_canAllowedMode y = hasAccessRight CAN_ALLOWED (cvc_chat cvc)"
    by (simp_all add: y_def rights_frame_run setTerminalCvc_def initializeChat_def Let_def)
  ultimately have "ax_effective y \<subseteq> set (getAccessRights (cvc_chat cvc))"
    "ax_canAllowedMode y \<Longrightarrow> CAN_ALLOWED \<in> set (getAccessRights (cvc_chat cvc))"
    by (auto simp: rights_inv_def permittedRights_def hasAccessRight_def)
  then show ?thesis by (auto simp: effectiveChat_rights [OF len])
qed

definition sampleEac1 :: eac1_message where
  "sampleEac1 = \<lparr>e1_cvCertificates = [], e1_descriptionAsBinary = None, e1_description = None,
     e1_requiredChat = Some \<lparr>chat_type = oid_ID_AT, chat_template = [0, 0, 0, 0x10, 0]\<rparr>,
     e1_optionalChat = Some \<lparr>chat_type = oid_ID_AT, chat_template = [0, 0, 0, 0x01, 0x01]\<rparr>,
     e1_auxiliaryDataAsBinary = [], e1_auxiliaryData = None, e1_transactionInfo = []\<rparr>"

definition sampleTerminalCvc :: cvc where
  "sampleTerminalCvc = (sample_cvc 3 0 0 0)\<lparr>cvc_chat := \<lparr>chat_type = oid_ID_AT, chat_template = [0, 0, 0, 0x11, 0x10]\<rparr>\<rparr>"

theorem effective_chat_within_certificate_witness:
  "set (getAccessRights (effectiveChat sampleTerminalCvc
     (run rights_step (setTerminalCvc sampleEac1 sampleTerminalCvc noRights) [RemoveRight READ_DG05, RemoveRight READ_DG01])))
   \<subseteq> set (getAccessRights (cvc_chat sampleTerminalCvc))"
proof -
  have decoded: "CHAT_decodeCallback (cvc_chat sampleTerminalCvc) = Some (cvc_chat sampleTerminalCvc)"
    by (simp add: sampleTerminalCvc_def CHAT_decodeCallback_def)
  show ?thesis
    using effective_chat_within_certificate [OF decoded, of sampleEac1 noRights "[RemoveRight READ_DG05, RemoveRight READ_DG01]"]
    by blast
qed

end
