(* ===== verification/RefreshAddress.thy ===== *)
theory RefreshAddress
  imports NetworkChecks AuthData
begin

text \<open>
  The states of the authentication that talk to the service provider: StateGetTcToken.cpp fetches
  the TC token, StateCheckRefreshAddress.cpp follows the refresh address to the URL that the
  browser is sent to. Each is a machine over the signals of the network reply that it listens to.
  The state listens only to the reply of its phase, and to nothing once it has left. A status is
  its code; the name of an issuer that some of them carry is left out.
\<close>

section \<open>Context\<close>

record net_context =
  nc_status :: global_status
  nc_tcTokenUrl :: url
  nc_tcToken :: "tc_token option"
  nc_tcTokenNotFound :: bool
  nc_refreshUrl :: url
  nc_certificates :: "(url \<times> ssl_certificate) list"
  nc_sslSession :: string
  nc_eac1 :: "eac1_message option"
  nc_dvCvc :: "cvc option"

text \<open>A status that the code makes of a code alone comes from the client.\<close>

definition clientStatus :: "GlobalStatusCode \<Rightarrow> global_status" where
  "clientStatus pCode = \<lparr>gs_code = pCode, gs_information = [], gs_origin = Client\<rparr>"

definition setStatus :: "GlobalStatusCode \<Rightarrow> 'a net_context_scheme \<Rightarrow> 'a net_context_scheme" where
  "setStatus pStatus c =
    (if pStatus \<noteq> GS_No_Error \<and> \<not> isError (nc_status c) then c\<lparr>nc_status := clientStatus pStatus\<rparr> else c)"

definition addCertificateData :: "url \<Rightarrow> ssl_certificate \<Rightarrow> 'a net_context_scheme \<Rightarrow> 'a net_context_scheme" where
  "addCertificateData pUrl pCert c = c\<lparr>nc_certificates := (getUrlOrigin pUrl, pCert) # nc_certificates c\<rparr>"

text \<open>The check of a certificate against the description of EAC1 in this context.\<close>

definition certificateStatus :: "settings \<Rightarrow> 'a net_context_scheme \<Rightarrow> ssl_certificate \<Rightarrow> CertificateStatus" where
  "certificateStatus S c cert =
     checkAndSaveCertificate S cert (map_option (\<lambda>e. map_option cd_commCertificates (e1_description e)) (nc_eac1 c))
       (map_option cvc_hashOid (nc_dvCvc c))"

section \<open>Replies of the network\<close>

record network_reply =
  nr_error :: reply_error
  nr_statusCode :: int
  nr_redirectUrl :: url
  nr_elements :: "(string \<times> string) list option"
  nr_hasData :: bool

datatype network_event =
    RunState | SslErrors "ssl_error list" | Encrypted ssl_configuration
  | ReplyFinished network_reply | ReplyError reply_error | UserCancelled

section \<open>The refresh address\<close>

datatype refresh_phase = Entered | Getting | Fetching | Left bool

record 'a refresh_state =
  rs_url :: url
  rs_subjectUrl :: url
  rs_certificateFetched :: bool
  rs_verified :: "url list"
  rs_phase :: refresh_phase
  rs_context :: "'a net_context_scheme"

definition StateCheckRefreshAddress :: "'a net_context_scheme \<Rightarrow> 'a refresh_state" where
  "StateCheckRefreshAddress pContext = \<lparr>rs_url = emptyUrl, rs_subjectUrl = emptyUrl,
     rs_certificateFetched = False, rs_verified = [], rs_phase = Entered, rs_context = pContext\<rparr>"

definition isMatchingSameOriginPolicyInDevMode :: "settings \<Rightarrow> url \<Rightarrow> url \<Rightarrow> bool" where
  "isMatchingSameOriginPolicyInDevMode S mUrl mSubjectUrl \<longleftrightarrow>
     st_developerMode S \<and> (u_scheme mUrl = ''http'' \<or> u_scheme mSubjectUrl = ''http'') \<and>
     isMatchingSameOriginPolicy (mUrl\<lparr>u_scheme := ''http'', u_port := 80\<rparr>)
       (mSubjectUrl\<lparr>u_scheme := ''http'', u_port := 80\<rparr>)"

definition determineSubjectUrl :: "settings \<Rightarrow> (string \<Rightarrow> url) \<Rightarrow> 'a net_context_scheme \<Rightarrow> url" where
  "determineSubjectUrl S url_of c =
    (let subjectUrl = (case nc_eac1 c of
           None \<Rightarrow> emptyUrl
         | Some eac1 \<Rightarrow>
            (case e1_description eac1 of
               None \<Rightarrow> emptyUrl
             | Some d \<Rightarrow>
                (let u = (case cd_subjectUrl d of None \<Rightarrow> emptyUrl | Some s \<Rightarrow> url_of s)
                 in if url_isValid u then u else emptyUrl)));
         subjectUrl = (if st_developerMode S then nc_tcTokenUrl c else subjectUrl)
     in if url_isEmpty subjectUrl then nc_tcTokenUrl c else subjectUrl)"

definition reportCommunicationError :: "GlobalStatusCode \<Rightarrow> 'a refresh_state \<Rightarrow> 'a refresh_state" where
  "reportCommunicationError pStatus r =
     r\<lparr>rs_context := setStatus pStatus (rs_context r), rs_phase := Left False\<rparr>"

definition doneSuccess :: "'a refresh_state \<Rightarrow> 'a refresh_state" where
  "doneSuccess r = r\<lparr>rs_context := (rs_context r)\<lparr>nc_refreshUrl := rs_url r\<rparr>, rs_phase := Left True\<rparr>"

definition checkSslConnectionAndSaveCertificate ::
  "settings \<Rightarrow> ssl_configuration \<Rightarrow> 'a refresh_state \<Rightarrow> bool \<times> 'a refresh_state" where
  "checkSslConnectionAndSaveCertificate S cfg r =
    (case certificateStatus S (rs_context r) (cfg_peerCertificate cfg) of
       Unsupported_Algorithm_Or_Length \<Rightarrow>
         (False, reportCommunicationError GS_Workflow_Network_Ssl_Certificate_Unsupported_Algorithm_Or_Length r)
     | Hash_Not_In_Description \<Rightarrow>
         (False, reportCommunicationError GS_Workflow_Nerwork_Ssl_Hash_Not_In_Certificate_Description r)
     | Good \<Rightarrow>
         let r = r\<lparr>rs_verified := rs_url r # rs_verified r,
                   rs_context := addCertificateData (rs_url r) (cfg_peerCertificate cfg) (rs_context r)\<rparr>
         in if \<not> hasValidEphemeralKeyLength S (cfg_ephemeralServerKey cfg)
            then (False, reportCommunicationError GS_Workflow_Network_Ssl_Connection_Unsupported_Algorithm_Or_Length r)
            else (True, r))"

definition fetchServerCertificate :: "settings \<Rightarrow> 'a refresh_state \<Rightarrow> 'a refresh_state" where
  "fetchServerCertificate S r =
    (if st_developerMode S \<and> u_scheme (rs_url r) = ''http'' then doneSuccess r
     else if rs_url r \<in> set (rs_verified r) then doneSuccess r
     else r\<lparr>rs_phase := Fetching\<rparr>)"

definition sendGetRequest :: "'a refresh_state \<Rightarrow> 'a refresh_state" where
  "sendGetRequest r = r\<lparr>rs_phase := Getting\<rparr>"

definition runCheckRefreshAddress :: "settings \<Rightarrow> (string \<Rightarrow> url) \<Rightarrow> 'a refresh_state \<Rightarrow> 'a refresh_state" where
  "runCheckRefreshAddress S url_of r =
    (case nc_tcToken (rs_context r) of
       None \<Rightarrow> r\<lparr>rs_phase := Left True\<rparr>
     | Some tcToken \<Rightarrow>
        let r = r\<lparr>rs_url := tt_refreshAddress tcToken\<rparr>
        in if \<not> url_isValid (rs_url r) then r\<lparr>rs_phase := Left True\<rparr>
           else if u_scheme (rs_url r) \<noteq> ''https'' \<and> \<not> st_developerMode S then r\<lparr>rs_phase := Left True\<rparr>
           else
             let r = r\<lparr>rs_subjectUrl := determineSubjectUrl S url_of (rs_context r)\<rparr>
             in if isMatchingSameOriginPolicy (rs_subjectUrl r) (rs_url r) \<or>
                   isMatchingSameOriginPolicyInDevMode S (rs_url r) (rs_subjectUrl r)
                then fetchServerCertificate S r else sendGetRequest r)"

definition onRefreshReply :: "settings \<Rightarrow> network_reply \<Rightarrow> 'a refresh_state \<Rightarrow> 'a refresh_state" where
  "onRefreshReply S reply r =
    (let redirectUrl = nr_redirectUrl reply
     in if nr_error reply \<noteq> NoError
        then reportCommunicationError (networkStatus (toNetworkError (nr_error reply))) r
        else if nr_statusCode reply \<notin> {302, 303, 307}
        then reportCommunicationError GS_Workflow_Network_Expected_Redirect r
        else if url_isEmpty redirectUrl then reportCommunicationError GS_Workflow_Network_Empty_Redirect_Url r
        else if \<not> url_isValid redirectUrl
        then reportCommunicationError GS_Workflow_Network_Malformed_Redirect_Url r
        else if u_scheme redirectUrl \<noteq> ''https'' \<and> \<not> st_developerMode S
        then reportCommunicationError GS_Workflow_Network_Invalid_Scheme r
        else if isMatchingSameOriginPolicy (rs_url r) (rs_subjectUrl r) \<or>
                isMatchingSameOriginPolicyInDevMode S (rs_url r) (rs_subjectUrl r)
        then fetchServerCertificate S (r\<lparr>rs_url := redirectUrl\<rparr>)
        else sendGetRequest (r\<lparr>rs_url := redirectUrl\<rparr>))"

definition onHandshakeFetching :: "settings \<Rightarrow> ssl_configuration \<Rightarrow> 'a refresh_state \<Rightarrow> 'a refresh_state" where
  "onHandshakeFetching S cfg r =
    (case checkSslConnectionAndSaveCertificate S cfg (r\<lparr>rs_certificateFetched := True\<rparr>) of
       (ok, r) \<Rightarrow> if ok then doneSuccess r else r)"

definition onNetworkErrorFetching :: "reply_error \<Rightarrow> 'a refresh_state \<Rightarrow> 'a refresh_state" where
  "onNetworkErrorFetching pError r =
    (if rs_certificateFetched r \<and> pError = OperationCanceledError then r
     else reportCommunicationError GS_Workflow_Network_Empty_Redirect_Url r)"

definition refresh_step ::
  "settings \<Rightarrow> (string \<Rightarrow> url) \<Rightarrow> 'a refresh_state \<Rightarrow> network_event \<Rightarrow> 'a refresh_state" where
  "refresh_step S url_of r e =
    (case rs_phase r of
       Left _ \<Rightarrow> r
     | phase \<Rightarrow>
       (case e of
          UserCancelled \<Rightarrow> reportCommunicationError GS_Workflow_Cancellation_By_User r
        | RunState \<Rightarrow> if phase = Entered then runCheckRefreshAddress S url_of r else r
        | SslErrors errs \<Rightarrow>
            if phase \<noteq> Entered \<and> containsFatalError S errs
            then reportCommunicationError GS_Network_Ssl_Establishment_Error r else r
        | Encrypted cfg \<Rightarrow>
            if phase = Getting then snd (checkSslConnectionAndSaveCertificate S cfg r)
            else if phase = Fetching then onHandshakeFetching S cfg r else r
        | ReplyFinished reply \<Rightarrow> if phase = Getting then onRefreshReply S reply r else r
        | ReplyError err \<Rightarrow> if phase = Fetching then onNetworkErrorFetching err r else r))"

section \<open>What the refresh URL is\<close>

abbreviation refresh_run ::
  "settings \<Rightarrow> (string \<Rightarrow> url) \<Rightarrow> 'a net_context_scheme \<Rightarrow> network_event list \<Rightarrow> 'a refresh_state" where
  "refresh_run S url_of c es \<equiv> run (refresh_step S url_of) (StateCheckRefreshAddress c) es"

text \<open>
  A handshake for this URL was accepted: the certificate has a key of the required size and is in
  the description, where there is one, and the key of the connection is long enough.
\<close>

definition certified ::
  "settings \<Rightarrow> (string \<Rightarrow> url) \<Rightarrow> 'a net_context_scheme \<Rightarrow> network_event list \<Rightarrow> url \<Rightarrow> bool" where
  "certified S url_of c es u \<longleftrightarrow>
     (\<exists>pre cfg post. es = pre @ Encrypted cfg # post \<and> rs_url (refresh_run S url_of c pre) = u \<and>
        certificateStatus S c (cfg_peerCertificate cfg) = Good \<and>
        hasValidEphemeralKeyLength S (cfg_ephemeralServerKey cfg))"

text \<open>
  The URL has the origin of the subject, or it is the target of the redirect that a URL of this
  origin answered.
\<close>

definition ofSubject ::
  "settings \<Rightarrow> (string \<Rightarrow> url) \<Rightarrow> 'a net_context_scheme \<Rightarrow> network_event list \<Rightarrow> url \<Rightarrow> bool" where
  "ofSubject S url_of c es u \<longleftrightarrow>
     isMatchingSameOriginPolicy (determineSubjectUrl S url_of c) u \<or>
     (\<exists>pre reply post. es = pre @ ReplyFinished reply # post \<and> nr_redirectUrl reply = u \<and>
        isMatchingSameOriginPolicy (rs_url (refresh_run S url_of c pre)) (determineSubjectUrl S url_of c))"

lemma certified_snoc: "certified S url_of c es u \<Longrightarrow> certified S url_of c (es @ [e]) u"
  by (force simp: certified_def)

lemma ofSubject_snoc: "ofSubject S url_of c es u \<Longrightarrow> ofSubject S url_of c (es @ [e]) u"
  by (force simp: ofSubject_def)

lemma certified_now:
  "rs_url (refresh_run S url_of c es) = u \<Longrightarrow> certificateStatus S c (cfg_peerCertificate cfg) = Good \<Longrightarrow>
     hasValidEphemeralKeyLength S (cfg_ephemeralServerKey cfg) \<Longrightarrow> certified S url_of c (es @ [Encrypted cfg]) u"
  by (auto simp: certified_def)

lemma ofSubject_now:
  "isMatchingSameOriginPolicy (rs_url (refresh_run S url_of c es)) (determineSubjectUrl S url_of c) \<Longrightarrow>
     ofSubject S url_of c (es @ [ReplyFinished reply]) (nr_redirectUrl reply)"
  by (auto simp: ofSubject_def)

text \<open>What the machine never changes, and what holds after every sequence of events.\<close>

definition sameFrame :: "'a net_context_scheme \<Rightarrow> 'a net_context_scheme \<Rightarrow> bool" where
  "sameFrame c c' \<longleftrightarrow> nc_eac1 c' = nc_eac1 c \<and> nc_dvCvc c' = nc_dvCvc c \<and> nc_tcToken c' = nc_tcToken c \<and>
     nc_tcTokenUrl c' = nc_tcTokenUrl c"

lemma sameFrame_determines:
  assumes "sameFrame c c'"
  shows "certificateStatus S c' cert = certificateStatus S c cert"
    and "determineSubjectUrl S url_of c' = determineSubjectUrl S url_of c"
    and "sameFrame c (setStatus s c')" and "sameFrame c (addCertificateData u cert c')"
    and "sameFrame c (c'\<lparr>nc_refreshUrl := u\<rparr>)"
  using assms
  by (simp_all add: sameFrame_def certificateStatus_def determineSubjectUrl_def setStatus_def addCertificateData_def Let_def)

lemma setStatus_refreshUrl [simp]: "nc_refreshUrl (setStatus s c) = nc_refreshUrl c"
  by (simp add: setStatus_def)

lemma addCertificateData_refreshUrl [simp]: "nc_refreshUrl (addCertificateData u cert c) = nc_refreshUrl c"
  by (simp add: addCertificateData_def)

definition https :: "url \<Rightarrow> bool" where
  "https u \<longleftrightarrow> u_scheme u = ''https''"

definition refresh_inv ::
  "settings \<Rightarrow> (string \<Rightarrow> url) \<Rightarrow> 'a net_context_scheme \<Rightarrow> network_event list \<Rightarrow> 'a refresh_state \<Rightarrow> bool" where
  "refresh_inv S url_of c es r \<longleftrightarrow>
     sameFrame c (rs_context r) \<and>
     (rs_phase r \<in> {Getting, Fetching} \<longrightarrow>
        https (rs_url r) \<and> rs_subjectUrl r = determineSubjectUrl S url_of c \<and>
        (\<forall>u\<in>set (rs_verified r). certified S url_of c es u)) \<and>
     (rs_phase r = Entered \<longrightarrow> rs_verified r = []) \<and>
     (rs_phase r = Fetching \<longrightarrow> ofSubject S url_of c es (rs_url r)) \<and>
     (rs_phase r \<noteq> Left True \<longrightarrow> nc_refreshUrl (rs_context r) = nc_refreshUrl c) \<and>
     (rs_phase r = Left True \<longrightarrow> nc_refreshUrl (rs_context r) = nc_refreshUrl c \<or>
        https (nc_refreshUrl (rs_context r)) \<and> certified S url_of c es (nc_refreshUrl (rs_context r)) \<and>
        ofSubject S url_of c es (nc_refreshUrl (rs_context r)))"

lemma inv_report:
  assumes "refresh_inv S url_of c es r" "rs_phase r \<noteq> Left True"
  shows "refresh_inv S url_of c (es @ [e]) (reportCommunicationError s r)"
  using assms by (auto simp: refresh_inv_def reportCommunicationError_def sameFrame_determines)

lemma inv_keep:
  assumes "refresh_inv S url_of c es r"
  shows "refresh_inv S url_of c (es @ [e]) r"
  using assms by (auto simp: refresh_inv_def intro: certified_snoc ofSubject_snoc)

lemma inv_fetch:
  assumes "\<not> st_developerMode S" "sameFrame c (rs_context r)" "https (rs_url r)"
    "rs_subjectUrl r = determineSubjectUrl S url_of c" "\<forall>u\<in>set (rs_verified r). certified S url_of c es u"
    "ofSubject S url_of c es (rs_url r)" "nc_refreshUrl (rs_context r) = nc_refreshUrl c"
  shows "refresh_inv S url_of c es (fetchServerCertificate S r)"
  using assms by (auto simp: refresh_inv_def fetchServerCertificate_def doneSuccess_def sameFrame_determines)

lemma inv_run:
  assumes "\<not> st_developerMode S" "refresh_inv S url_of c es r" "rs_phase r = Entered"
  shows "refresh_inv S url_of c (es @ [RunState]) (runCheckRefreshAddress S url_of r)"
proof (cases "nc_tcToken (rs_context r)")
  case None
  with assms show ?thesis by (simp add: refresh_inv_def runCheckRefreshAddress_def)
next
  case (Some t)
  let ?r = "r\<lparr>rs_url := tt_refreshAddress t, rs_subjectUrl := determineSubjectUrl S url_of c\<rparr>"
  have frame: "sameFrame c (rs_context r)" "rs_verified r = []" "nc_refreshUrl (rs_context r) = nc_refreshUrl c"
    using assms by (simp_all add: refresh_inv_def)
  show ?thesis
  proof (cases "url_isValid (tt_refreshAddress t) \<and> https (tt_refreshAddress t)")
    case False
    then have "runCheckRefreshAddress S url_of r = r\<lparr>rs_url := tt_refreshAddress t, rs_phase := Left True\<rparr>"
      using Some assms(1) by (auto simp: runCheckRefreshAddress_def https_def Let_def)
    with frame show ?thesis by (simp add: refresh_inv_def)
  next
    case True
    have "refresh_inv S url_of c (es @ [RunState]) (fetchServerCertificate S ?r)"
      if "isMatchingSameOriginPolicy (determineSubjectUrl S url_of c) (tt_refreshAddress t)"
      using True frame that assms(1) by (intro inv_fetch) (simp_all add: ofSubject_def)
    moreover have "refresh_inv S url_of c (es @ [RunState]) (sendGetRequest ?r)"
      using True frame by (simp add: refresh_inv_def sendGetRequest_def)
    moreover have "runCheckRefreshAddress S url_of r =
        (if isMatchingSameOriginPolicy (determineSubjectUrl S url_of c) (tt_refreshAddress t)
         then fetchServerCertificate S ?r else sendGetRequest ?r)"
      using True Some assms(1) frame(1)
      by (simp add: runCheckRefreshAddress_def https_def isMatchingSameOriginPolicyInDevMode_def
          sameFrame_determines Let_def)
    ultimately show ?thesis by simp
  qed
qed

lemma inv_check:
  assumes "refresh_inv S url_of c es r" "rs_phase r \<in> {Getting, Fetching}"
    and "r = refresh_run S url_of c es"
    and "checkSslConnectionAndSaveCertificate S cfg r = (ok, r')"
  shows "\<not> ok \<Longrightarrow> refresh_inv S url_of c (es @ [Encrypted cfg]) r'"
    and "ok \<Longrightarrow> r' = r\<lparr>rs_verified := rs_url r # rs_verified r,
            rs_context := addCertificateData (rs_url r) (cfg_peerCertificate cfg) (rs_context r)\<rparr> \<and>
          certified S url_of c (es @ [Encrypted cfg]) (rs_url r)"
proof -
  have frame: "sameFrame c (rs_context r)" "nc_refreshUrl (rs_context r) = nc_refreshUrl c"
    using assms(1,2) by (auto simp: refresh_inv_def)
  show "refresh_inv S url_of c (es @ [Encrypted cfg]) r'" if "\<not> ok"
    using assms(4) that frame
    by (auto simp: checkSslConnectionAndSaveCertificate_def reportCommunicationError_def refresh_inv_def
        sameFrame_determines Let_def split: CertificateStatus.splits if_splits)
  show "r' = r\<lparr>rs_verified := rs_url r # rs_verified r,
            rs_context := addCertificateData (rs_url r) (cfg_peerCertificate cfg) (rs_context r)\<rparr> \<and>
          certified S url_of c (es @ [Encrypted cfg]) (rs_url r)" if "ok"
    using assms(3,4) that frame
    by (auto simp: checkSslConnectionAndSaveCertificate_def sameFrame_determines Let_def
        intro!: certified_now split: CertificateStatus.splits if_splits)
qed

lemma inv_handshake_getting:
  assumes "refresh_inv S url_of c es r" "rs_phase r = Getting" "r = refresh_run S url_of c es"
  shows "refresh_inv S url_of c (es @ [Encrypted cfg]) (snd (checkSslConnectionAndSaveCertificate S cfg r))"
proof -
  obtain ok r' where check: "checkSslConnectionAndSaveCertificate S cfg r = (ok, r')" by force
  note checked = inv_check [OF assms(1) _ assms(3) check]
  show ?thesis
  proof (cases ok)
    case True
    with checked(2) assms(2) have r': "r' = r\<lparr>rs_verified := rs_url r # rs_verified r,
        rs_context := addCertificateData (rs_url r) (cfg_peerCertificate cfg) (rs_context r)\<rparr>"
      and "certified S url_of c (es @ [Encrypted cfg]) (rs_url r)" by auto
    with inv_keep [OF assms(1), of "Encrypted cfg"] assms(2) show ?thesis
      by (simp add: check refresh_inv_def sameFrame_determines)
  next
    case False
    with checked(1) assms(2) check show ?thesis by simp
  qed
qed

text \<open>The member that only tells whether the certificate was fetched plays no part in the checks.\<close>

lemma check_certificateFetched:
  "checkSslConnectionAndSaveCertificate S cfg (r\<lparr>rs_certificateFetched := b\<rparr>) =
     (case checkSslConnectionAndSaveCertificate S cfg r of (ok, r) \<Rightarrow> (ok, r\<lparr>rs_certificateFetched := b\<rparr>))"
  by (auto simp: checkSslConnectionAndSaveCertificate_def reportCommunicationError_def Let_def
      split: CertificateStatus.splits)

lemma inv_fetched: "refresh_inv S url_of c es r \<Longrightarrow> refresh_inv S url_of c es (r\<lparr>rs_certificateFetched := b\<rparr>)"
  by (simp add: refresh_inv_def)

lemma inv_handshake_fetching:
  assumes "refresh_inv S url_of c es r" "rs_phase r = Fetching" "r = refresh_run S url_of c es"
  shows "refresh_inv S url_of c (es @ [Encrypted cfg]) (onHandshakeFetching S cfg r)"
proof -
  obtain ok r' where check: "checkSslConnectionAndSaveCertificate S cfg r = (ok, r')" by force
  note checked = inv_check [OF assms(1) _ assms(3) check]
  show ?thesis
  proof (cases ok)
    case True
    with checked(2) assms(2) have r': "r' = r\<lparr>rs_verified := rs_url r # rs_verified r,
        rs_context := addCertificateData (rs_url r) (cfg_peerCertificate cfg) (rs_context r)\<rparr>"
      and "certified S url_of c (es @ [Encrypted cfg]) (rs_url r)" by auto
    with inv_keep [OF assms(1), of "Encrypted cfg"] assms(2) True show ?thesis
      by (simp add: onHandshakeFetching_def check_certificateFetched check doneSuccess_def refresh_inv_def
          sameFrame_determines)
  next
    case False
    with checked(1) assms(2) have "refresh_inv S url_of c (es @ [Encrypted cfg]) r'" by simp
    with False show ?thesis
      by (simp add: onHandshakeFetching_def check_certificateFetched check inv_fetched)
  qed
qed

lemma inv_reply:
  assumes "\<not> st_developerMode S" "refresh_inv S url_of c es r" "rs_phase r = Getting"
    and "r = refresh_run S url_of c es"
  shows "refresh_inv S url_of c (es @ [ReplyFinished reply]) (onRefreshReply S reply r)"
proof -
  let ?es = "es @ [ReplyFinished reply]" and ?r = "r\<lparr>rs_url := nr_redirectUrl reply\<rparr>"
  have report: "refresh_inv S url_of c ?es (reportCommunicationError s r)" for s
    using inv_report [OF assms(2)] assms(3) by simp
  have inv: "refresh_inv S url_of c ?es r" by (rule inv_keep [OF assms(2)])
  have fetch: "refresh_inv S url_of c ?es (fetchServerCertificate S ?r)"
    if "https (nr_redirectUrl reply)" "isMatchingSameOriginPolicy (rs_url r) (rs_subjectUrl r)"
  proof (rule inv_fetch [OF assms(1)])
    have "rs_subjectUrl r = determineSubjectUrl S url_of c" using inv assms(3) by (simp add: refresh_inv_def)
    then show "ofSubject S url_of c ?es (rs_url ?r)"
      using that(2) assms(4) ofSubject_now [of S url_of c es reply] by simp
  qed (use inv assms(3) that in \<open>simp_all add: refresh_inv_def\<close>)
  have get: "refresh_inv S url_of c ?es (sendGetRequest ?r)" if "https (nr_redirectUrl reply)"
    using inv assms(3) that by (simp add: refresh_inv_def sendGetRequest_def)
  show ?thesis
    using report fetch get assms(1)
    by (simp add: onRefreshReply_def isMatchingSameOriginPolicyInDevMode_def https_def Let_def)
qed

lemma inv_step:
  assumes "\<not> st_developerMode S" "refresh_inv S url_of c es r" "r = refresh_run S url_of c es"
  shows "refresh_inv S url_of c (es @ [e]) (refresh_step S url_of r e)"
proof (cases "rs_phase r")
  case (Left b)
  then show ?thesis using inv_keep [OF assms(2)] by (simp add: refresh_step_def)
next
  case Entered
  with assms inv_run [OF assms(1,2)] inv_report [OF assms(2)] inv_keep [OF assms(2)] show ?thesis
    by (simp add: refresh_step_def split: network_event.split)
next
  case Getting
  with assms inv_handshake_getting [OF assms(2) _ assms(3)] inv_reply [OF assms(1,2) _ assms(3)]
    inv_report [OF assms(2)] inv_keep [OF assms(2)]
  show ?thesis by (simp add: refresh_step_def split: network_event.split)
next
  case Fetching
  with assms inv_handshake_fetching [OF assms(2) _ assms(3)] inv_report [OF assms(2)] inv_keep [OF assms(2)]
  show ?thesis by (simp add: refresh_step_def onNetworkErrorFetching_def split: network_event.split)
qed

lemma refresh_run_inv:
  assumes "\<not> st_developerMode S"
  shows "refresh_inv S url_of c es (refresh_run S url_of c es)"
proof (induction es rule: rev_induct)
  case Nil
  show ?case by (simp add: refresh_inv_def StateCheckRefreshAddress_def sameFrame_def)
next
  case (snoc e es)
  from inv_step [OF assms snoc refl] show ?case by simp
qed

text \<open>
  C39. Outside the developer mode a refresh URL is only set when the state succeeds. It is an https URL
  for which a TLS handshake was accepted, and it has the origin of the subject URL of the
  certificate description (or of the TC token's URL where there is none), or is the target of a
  redirect from a URL of that origin.
\<close>

theorem refresh_url_is_verified:
  fixes S url_of and c :: "'a net_context_scheme" and es
  defines "r \<equiv> run (refresh_step S url_of) (StateCheckRefreshAddress c) es"
  assumes "\<not> st_developerMode S" "nc_refreshUrl c = emptyUrl" "nc_refreshUrl (rs_context r) \<noteq> emptyUrl"
  shows "rs_phase r = Left True \<and> u_scheme (nc_refreshUrl (rs_context r)) = ''https'' \<and>
    certified S url_of c es (nc_refreshUrl (rs_context r)) \<and>
    ofSubject S url_of c es (nc_refreshUrl (rs_context r))"
  using refresh_run_inv [OF assms(2), of url_of c es] assms(3,4)
  by (auto simp: refresh_inv_def https_def r_def)

definition sampleSettings :: settings where
  "sampleSettings = \<lparr>st_developerMode = False,
     st_minStaticKeySizes = (\<lambda>a. if a = Ec then Some 224 else Some 2000),
     st_minEphemeralKeySizes = (\<lambda>a. if a = Ec then Some 224 else Some 2000)\<rparr>"

definition httpsUrl :: "string \<Rightarrow> url" where
  "httpsUrl host = emptyUrl\<lparr>u_scheme := ''https'', u_host := host\<rparr>"

definition sampleToken :: "string \<Rightarrow> tc_token" where
  "sampleToken host = \<lparr>tt_schemaConform = True, tt_binding = ''urn:liberty:paos:2006-08'',
     tt_pathSecurityProtocol = None, tt_psk = None, tt_sessionIdentifier = None,
     tt_serverAddress = httpsUrl ''server'', tt_communicationErrorAddress = emptyUrl,
     tt_refreshAddress = httpsUrl host\<rparr>"

definition sampleContext :: "string \<Rightarrow> net_context" where
  "sampleContext host = \<lparr>nc_status = clientStatus GS_No_Error, nc_tcTokenUrl = httpsUrl ''service'',
     nc_tcToken = Some (sampleToken host), nc_tcTokenNotFound = False, nc_refreshUrl = emptyUrl,
     nc_certificates = [], nc_sslSession = [], nc_eac1 = None, nc_dvCvc = None\<rparr>"

definition sampleConfiguration :: ssl_configuration where
  "sampleConfiguration = \<lparr>
     cfg_peerCertificate = \<lparr>sc_isNull = False, sc_keyLength = 256, sc_keyAlgorithm = Ec,
       sc_digest = (\<lambda>_. ''00ff''), sc_issuerNames = []\<rparr>,
     cfg_ephemeralServerKey = \<lparr>sk_length = 256, sk_algorithm = Ec, sk_handle = None\<rparr>,
     cfg_sessionTicket = ''t''\<rparr>"

definition redirectTo :: "string \<Rightarrow> network_reply" where
  "redirectTo host = \<lparr>nr_error = NoError, nr_statusCode = 302, nr_redirectUrl = httpsUrl host,
     nr_elements = None, nr_hasData = False\<rparr>"

lemmas refresh_eval = refresh_step_def runCheckRefreshAddress_def onRefreshReply_def onHandshakeFetching_def
  fetchServerCertificate_def sendGetRequest_def doneSuccess_def checkSslConnectionAndSaveCertificate_def
  certificateStatus_def checkAndSaveCertificate_def hasValidCertificateKeyLength_def
  hasValidEphemeralKeyLength_def isValidKeyLength_def getMinimumStaticKeySize_def
  getMinimumEphemeralKeySize_def determineSubjectUrl_def isMatchingSameOriginPolicy_def
  isMatchingSameOriginPolicyInDevMode_def getUrlOrigin_def url_isValid_def url_isEmpty_def emptyUrl_def
  addCertificateData_def StateCheckRefreshAddress_def sampleSettings_def httpsUrl_def sampleToken_def
  sampleContext_def sampleConfiguration_def redirectTo_def Let_def

theorem refresh_url_is_verified_witness:
  "nc_refreshUrl (rs_context (run (refresh_step sampleSettings (\<lambda>_. emptyUrl))
     (StateCheckRefreshAddress (sampleContext ''service'')) [RunState, Encrypted sampleConfiguration])) =
       httpsUrl ''service'' \<and>
   certified sampleSettings (\<lambda>_. emptyUrl) (sampleContext ''service'') [RunState, Encrypted sampleConfiguration]
     (httpsUrl ''service'')"
proof -
  have url: "nc_refreshUrl (rs_context (run (refresh_step sampleSettings (\<lambda>_. emptyUrl))
     (StateCheckRefreshAddress (sampleContext ''service'')) [RunState, Encrypted sampleConfiguration])) =
       httpsUrl ''service''"
    by (simp add: refresh_eval)
  then show ?thesis
    using refresh_url_is_verified [of sampleSettings "sampleContext ''service''" "\<lambda>_. emptyUrl"
        "[RunState, Encrypted sampleConfiguration]"]
    by (simp add: sampleSettings_def sampleContext_def httpsUrl_def emptyUrl_def)
qed

text \<open>
  The origin of the refresh URL itself can be another one: the check compares the URL that
  answered the redirect, not its target, so the URL after the matching one is taken.
\<close>

theorem refresh_url_of_foreign_origin:
  "nc_refreshUrl (rs_context (run (refresh_step sampleSettings (\<lambda>_. emptyUrl))
     (StateCheckRefreshAddress (sampleContext ''refresh''))
     [RunState, Encrypted sampleConfiguration, ReplyFinished (redirectTo ''service''),
      ReplyFinished (redirectTo ''foreign''), Encrypted sampleConfiguration])) = httpsUrl ''foreign'' \<and>
   \<not> isMatchingSameOriginPolicy
       (determineSubjectUrl sampleSettings (\<lambda>_. emptyUrl) (sampleContext ''refresh'')) (httpsUrl ''foreign'')"
  by (simp add: refresh_eval)

section \<open>The TC token\<close>

datatype token_phase = TokenEntered | TokenGetting | TokenLeft bool

record 'a token_state =
  gt_url :: url
  gt_phase :: token_phase
  gt_context :: "'a net_context_scheme"

definition StateGetTcToken :: "'a net_context_scheme \<Rightarrow> 'a token_state" where
  "StateGetTcToken pContext = \<lparr>gt_url = emptyUrl, gt_phase = TokenEntered, gt_context = pContext\<rparr>"

definition isValidRedirectUrl :: "settings \<Rightarrow> url \<Rightarrow> 'a net_context_scheme \<Rightarrow> bool \<times> 'a net_context_scheme" where
  "isValidRedirectUrl S pUrl c =
    (if url_isEmpty pUrl then (False, setStatus GS_Workflow_TrustedChannel_Server_Format_Error c)
     else if u_scheme pUrl \<noteq> ''https'' \<and> \<not> st_developerMode S
     then (False, setStatus GS_Workflow_TrustedChannel_Server_Format_Error (c\<lparr>nc_tcTokenNotFound := False\<rparr>))
     else (True, c))"

definition tokenAbort :: "GlobalStatusCode \<Rightarrow> 'a token_state \<Rightarrow> 'a token_state" where
  "tokenAbort pStatus g = g\<lparr>gt_context := setStatus pStatus (gt_context g), gt_phase := TokenLeft False\<rparr>"

definition sendRequest :: "url \<Rightarrow> 'a token_state \<Rightarrow> 'a token_state" where
  "sendRequest pUrl g = g\<lparr>gt_url := pUrl, gt_phase := TokenGetting\<rparr>"

definition runGetTcToken :: "settings \<Rightarrow> 'a token_state \<Rightarrow> 'a token_state" where
  "runGetTcToken S g =
    (let url = nc_tcTokenUrl (gt_context g)
     in case isValidRedirectUrl S url (gt_context g) of
          (ok, c) \<Rightarrow> if \<not> ok then g\<lparr>gt_context := c, gt_phase := TokenLeft False\<rparr> else sendRequest url g)"

definition parseTcToken :: "settings \<Rightarrow> (string \<Rightarrow> url) \<Rightarrow> network_reply \<Rightarrow> 'a token_state \<Rightarrow> 'a token_state" where
  "parseTcToken S url_of reply g =
    (if \<not> nr_hasData reply then tokenAbort GS_Workflow_TrustedChannel_No_Data_Received g
     else
       let tcToken = parseTcTokenData url_of (nr_elements reply);
           g = g\<lparr>gt_context := (gt_context g)\<lparr>nc_tcToken := Some tcToken,
                 nc_tcTokenNotFound := \<not> tt_schemaConform tcToken\<rparr>\<rparr>
       in if TcToken_isValid S tcToken then g\<lparr>gt_phase := TokenLeft True\<rparr>
          else tokenAbort GS_Workflow_TrustedChannel_Server_Format_Error g)"

definition onTokenReply :: "settings \<Rightarrow> (string \<Rightarrow> url) \<Rightarrow> network_reply \<Rightarrow> 'a token_state \<Rightarrow> 'a token_state" where
  "onTokenReply S url_of reply g =
    (if nr_error reply \<noteq> NoError then tokenAbort (toTrustedChannelStatus (toNetworkError (nr_error reply))) g
     else if nr_statusCode reply = 200 then parseTcToken S url_of reply g
     else
       case isValidRedirectUrl S (nr_redirectUrl reply) (gt_context g) of
         (ok, c) \<Rightarrow>
           if \<not> ok then g\<lparr>gt_context := c, gt_phase := TokenLeft False\<rparr>
           else if nr_statusCode reply \<notin> {302, 303, 307}
           then tokenAbort GS_Workflow_TrustedChannel_Server_Format_Error g
           else sendRequest (nr_redirectUrl reply) g)"

text \<open>
  Aborting a reply emits its end at once, with the error that the operation was cancelled, to the
  state that still listens to it.
\<close>

definition canceledReply :: network_reply where
  "canceledReply = \<lparr>nr_error = OperationCanceledError, nr_statusCode = 0, nr_redirectUrl = emptyUrl,
     nr_elements = None, nr_hasData = False\<rparr>"

definition onTokenHandshake ::
  "settings \<Rightarrow> (string \<Rightarrow> url) \<Rightarrow> ssl_configuration \<Rightarrow> 'a token_state \<Rightarrow> 'a token_state" where
  "onTokenHandshake S url_of cfg g =
    (if \<not> hasValidCertificateKeyLength S (cfg_peerCertificate cfg) \<or>
        \<not> hasValidEphemeralKeyLength S (cfg_ephemeralServerKey cfg)
     then tokenAbort GS_Workflow_TrustedChannel_Ssl_Establishment_Error (onTokenReply S url_of canceledReply g)
     else g\<lparr>gt_context := (addCertificateData (gt_url g) (cfg_peerCertificate cfg) (gt_context g))
             \<lparr>nc_sslSession := cfg_sessionTicket cfg\<rparr>\<rparr>)"

definition token_step ::
  "settings \<Rightarrow> (string \<Rightarrow> url) \<Rightarrow> 'a token_state \<Rightarrow> network_event \<Rightarrow> 'a token_state" where
  "token_step S url_of g e =
    (case gt_phase g of
       TokenLeft _ \<Rightarrow> g
     | phase \<Rightarrow>
       (case e of
          UserCancelled \<Rightarrow> tokenAbort GS_Workflow_Cancellation_By_User g
        | RunState \<Rightarrow> if phase = TokenEntered then runGetTcToken S g else g
        | Encrypted cfg \<Rightarrow> if phase = TokenGetting then onTokenHandshake S url_of cfg g else g
        | ReplyFinished reply \<Rightarrow> if phase = TokenGetting then onTokenReply S url_of reply g else g
        | _ \<Rightarrow> g))"

text \<open>The session ticket is the first one, or one of a handshake with keys of the required size.\<close>

definition sessionChecked :: "settings \<Rightarrow> string \<Rightarrow> network_event list \<Rightarrow> string \<Rightarrow> bool" where
  "sessionChecked S s0 es s \<longleftrightarrow> s = s0 \<or>
     (\<exists>cfg. Encrypted cfg \<in> set es \<and> cfg_sessionTicket cfg = s \<and>
        hasValidCertificateKeyLength S (cfg_peerCertificate cfg) \<and>
        hasValidEphemeralKeyLength S (cfg_ephemeralServerKey cfg))"

definition token_inv :: "settings \<Rightarrow> string \<Rightarrow> network_event list \<Rightarrow> 'a token_state \<Rightarrow> bool" where
  "token_inv S s0 es g \<longleftrightarrow>
     (gt_phase g = TokenGetting \<longrightarrow> https (gt_url g)) \<and>
     (gt_phase g = TokenLeft True \<longrightarrow>
        (\<exists>t. nc_tcToken (gt_context g) = Some t \<and> TcToken_isValid S t) \<and> \<not> nc_tcTokenNotFound (gt_context g)) \<and>
     (gt_phase g = TokenLeft False \<longrightarrow> isError (nc_status (gt_context g))) \<and>
     sessionChecked S s0 es (nc_sslSession (gt_context g))"

lemma trustedChannelStatus_error: "toTrustedChannelStatus e \<noteq> GS_No_Error"
  by (cases e) simp_all

lemma setStatus_error: "s \<noteq> GS_No_Error \<Longrightarrow> isError (nc_status (setStatus s c))"
  by (simp add: setStatus_def clientStatus_def isError_def)

lemma setStatus_sslSession [simp]: "nc_sslSession (setStatus s c) = nc_sslSession c"
  by (simp add: setStatus_def)

lemma token_inv_abort:
  "s \<noteq> GS_No_Error \<Longrightarrow> sessionChecked S s0 es (nc_sslSession (gt_context g)) \<Longrightarrow> token_inv S s0 es (tokenAbort s g)"
  by (simp add: token_inv_def tokenAbort_def setStatus_error)

lemma token_inv_redirect:
  assumes "\<not> st_developerMode S" "sessionChecked S s0 es (nc_sslSession (gt_context g))"
    "isValidRedirectUrl S u (gt_context g) = (ok, c)"
  shows "\<not> ok \<Longrightarrow> token_inv S s0 es (g\<lparr>gt_context := c, gt_phase := TokenLeft False\<rparr>)"
    and "ok \<Longrightarrow> token_inv S s0 es (sendRequest u g)"
  using assms
  by (auto simp: token_inv_def isValidRedirectUrl_def sendRequest_def https_def setStatus_error
      split: if_splits)

lemma token_inv_reply:
  assumes "\<not> st_developerMode S" "sessionChecked S s0 es (nc_sslSession (gt_context g))"
  shows "token_inv S s0 es (onTokenReply S url_of reply g)"
proof -
  obtain ok c where redirect: "isValidRedirectUrl S (nr_redirectUrl reply) (gt_context g) = (ok, c)" by force
  have "token_inv S s0 es (parseTcToken S url_of reply g)"
    using assms(2)
    by (auto simp: parseTcToken_def token_inv_abort token_inv_def TcToken_isValid_def tokenAbort_def setStatus_error Let_def)
  with token_inv_redirect [OF assms redirect] show ?thesis
    using assms(2) by (simp add: onTokenReply_def redirect token_inv_abort trustedChannelStatus_error)
qed

lemma sessionChecked_snoc: "sessionChecked S s0 es s \<Longrightarrow> sessionChecked S s0 (es @ [e]) s"
  by (auto simp: sessionChecked_def)

lemma onTokenReply_sslSession: "nc_sslSession (gt_context (onTokenReply S url_of reply g)) = nc_sslSession (gt_context g)"
  by (auto simp: onTokenReply_def parseTcToken_def tokenAbort_def isValidRedirectUrl_def sendRequest_def Let_def)

lemma token_inv_step:
  assumes "\<not> st_developerMode S" "token_inv S s0 es g"
  shows "token_inv S s0 (es @ [e]) (token_step S url_of g e)"
proof -
  have session: "sessionChecked S s0 (es @ [e]) (nc_sslSession (gt_context g))"
    using assms(2) by (auto simp: token_inv_def intro: sessionChecked_snoc)
  have keep: "token_inv S s0 (es @ [e]) g" using assms(2) session by (simp add: token_inv_def)
  have abort: "token_inv S s0 (es @ [e]) (tokenAbort GS_Workflow_Cancellation_By_User g)"
    using session by (simp add: token_inv_abort)
  have run: "token_inv S s0 (es @ [e]) (runGetTcToken S g)"
    using token_inv_redirect [OF assms(1) session, of "nc_tcTokenUrl (gt_context g)"]
    by (auto simp: runGetTcToken_def Let_def split: prod.split)
  have handshake: "token_inv S s0 (es @ [e]) (onTokenHandshake S url_of cfg g)"
    if "e = Encrypted cfg" "gt_phase g = TokenGetting" for cfg
  proof (cases "hasValidCertificateKeyLength S (cfg_peerCertificate cfg) \<and>
      hasValidEphemeralKeyLength S (cfg_ephemeralServerKey cfg)")
    case True
    then have "sessionChecked S s0 (es @ [e]) (cfg_sessionTicket cfg)"
      using that(1) by (auto simp: sessionChecked_def)
    with True keep that(2) show ?thesis
      by (simp add: onTokenHandshake_def token_inv_def)
  next
    case False
    then show ?thesis
      using session by (auto simp: onTokenHandshake_def onTokenReply_sslSession intro!: token_inv_abort)
  qed
  show ?thesis
    using keep abort run handshake token_inv_reply [OF assms(1) session]
    by (auto simp: token_step_def split: token_phase.split network_event.split)
qed

text \<open>
  Outside the developer mode the TC token is asked for at https URLs only. When the state succeeds
  the token is valid, when it fails there is an error, and the session ticket that the server's
  channel has to resume comes from a handshake with keys of the required size.
\<close>

theorem tc_token_is_fetched_safely:
  fixes S url_of and c :: "'a net_context_scheme" and es
  defines "g \<equiv> run (token_step S url_of) (StateGetTcToken c) es"
  assumes "\<not> st_developerMode S"
  shows "(gt_phase g = TokenGetting \<longrightarrow> u_scheme (gt_url g) = ''https'') \<and>
    (gt_phase g = TokenLeft True \<longrightarrow>
       (\<exists>t. nc_tcToken (gt_context g) = Some t \<and> TcToken_isValid S t) \<and> \<not> nc_tcTokenNotFound (gt_context g)) \<and>
    (gt_phase g = TokenLeft False \<longrightarrow> isError (nc_status (gt_context g))) \<and>
    sessionChecked S (nc_sslSession c) es (nc_sslSession (gt_context g))"
proof -
  have "token_inv S (nc_sslSession c) es g"
    unfolding g_def
  proof (induction es rule: rev_induct)
    case Nil
    show ?case by (simp add: token_inv_def StateGetTcToken_def sessionChecked_def)
  next
    case (snoc e es)
    from token_inv_step [OF assms(2) snoc] show ?case by simp
  qed
  then show ?thesis by (simp add: token_inv_def https_def)
qed

definition tokenReply :: network_reply where
  "tokenReply = \<lparr>nr_error = NoError, nr_statusCode = 200, nr_redirectUrl = emptyUrl,
     nr_elements = Some [(''ServerAddress'', ''s''), (''RefreshAddress'', ''r''),
       (''Binding'', '' urn:liberty:paos:2006-08 '')], nr_hasData = True\<rparr>"

theorem tc_token_is_fetched_safely_witness:
  "\<not> nc_tcTokenNotFound (gt_context (run (token_step sampleSettings httpsUrl)
     (StateGetTcToken (sampleContext ''service'')) [RunState, Encrypted sampleConfiguration, ReplyFinished tokenReply]))"
proof -
  let ?g = "run (token_step sampleSettings httpsUrl) (StateGetTcToken (sampleContext ''service''))
    [RunState, Encrypted sampleConfiguration, ReplyFinished tokenReply]"
  have "gt_phase ?g = TokenLeft True"
    by (simp add: token_step_def StateGetTcToken_def runGetTcToken_def isValidRedirectUrl_def sendRequest_def
        onTokenHandshake_def onTokenReply_def parseTcToken_def tokenReply_def parseTcTokenData_def
        elementValue_def trimmed_def isSpace_def valuesAreSchemaConform_def isAnyUri_def TcToken_isValid_def
        setUrl_def refresh_eval)
  then show ?thesis
    using tc_token_is_fetched_safely [of sampleSettings httpsUrl "sampleContext ''service''"
        "[RunState, Encrypted sampleConfiguration, ReplyFinished tokenReply]"]
    by (simp only: sampleSettings_def settings.simps) simp
qed

text \<open>
  A server key that is too short ends the state, but not with the status that the code names: the
  reply is aborted before the status is set, and its end is taken for another network error.
\<close>

theorem short_key_status_is_masked:
  assumes "gt_phase g = TokenGetting" "\<not> isError (nc_status (gt_context g))"
    "\<not> hasValidCertificateKeyLength S (cfg_peerCertificate cfg) \<or>
     \<not> hasValidEphemeralKeyLength S (cfg_ephemeralServerKey cfg)"
  shows "gt_phase (token_step S url_of g (Encrypted cfg)) = TokenLeft False \<and>
    nc_status (gt_context (token_step S url_of g (Encrypted cfg))) = clientStatus GS_Workflow_TrustedChannel_Other_Network_Error"
  using assms
  by (simp add: token_step_def onTokenHandshake_def onTokenReply_def canceledReply_def tokenAbort_def setStatus_def
      clientStatus_def isError_def)

theorem short_key_status_is_masked_witness:
  "nc_status (gt_context (token_step sampleSettings httpsUrl
     ((StateGetTcToken (sampleContext ''service''))\<lparr>gt_phase := TokenGetting\<rparr>)
     (Encrypted (sampleConfiguration\<lparr>cfg_ephemeralServerKey := \<lparr>sk_length = 160, sk_algorithm = Ec, sk_handle = None\<rparr>\<rparr>)))) =
   clientStatus GS_Workflow_TrustedChannel_Other_Network_Error"
  using short_key_status_is_masked
    [of "(StateGetTcToken (sampleContext ''service''))\<lparr>gt_phase := TokenGetting\<rparr>" sampleSettings
        "sampleConfiguration\<lparr>cfg_ephemeralServerKey := \<lparr>sk_length = 160, sk_algorithm = Ec, sk_handle = None\<rparr>\<rparr>" httpsUrl]
  by (simp add: StateGetTcToken_def clientStatus_def isError_def refresh_eval)

end
