(* ===== verification/CvcStates.thy ===== *)
theory CvcStates
  imports RefreshAddress
begin

text \<open>
  The states of the authentication that check what the server sent before the user is asked:
  src/src/core/states/CompositeStateProcessCvcsAndSetRights.cpp with
  StateExtractCvcsFromEac1InputType.cpp, StatePreVerification.cpp,
  StateCertificateDescriptionCheck.cpp and StateCheckCertificates.cpp, the certificate chains of
  AuthContext.cpp and StateProcessCertificatesFromEac2.cpp. A state is a function on the context;
  its flag says whether it emits \<open>fireContinue\<close> (else \<open>fireAbort\<close>).
\<close>

section \<open>Context and environment\<close>

record auth_context = net_context +
  au_rights :: auth_rights
  au_chainBuilderProd :: "cvc list list"
  au_chainBuilderTest :: "cvc list list"
  au_linkCertificates :: "cvc list"
  au_paceOutput :: "(bytes \<times> bytes) option"
  au_eac2 :: "eac2_message option"

text \<open>
  The configured roots of both PKIs, the time, the hash functions, the extension of a certificate
  that holds the hash of the description, the check of signatures (see CvcChains), and how Qt
  reads a URL, tolerant and strict.
\<close>

record trust_env =
  te_settings :: settings
  te_urlOf :: "string \<Rightarrow> url"
  te_urlStrict :: "string \<Rightarrow> url"
  te_hash :: "string \<Rightarrow> bytes \<Rightarrow> bytes"
  te_descriptionExtension :: "cvc \<Rightarrow> bytes"
  te_verify :: "bytes \<Rightarrow> bytes \<Rightarrow> string \<Rightarrow> bytes \<Rightarrow> bytes \<Rightarrow> bool"
  te_prodRoots :: "cvc list"
  te_testRoots :: "cvc list"
  te_validationDate :: int
  te_preVerificationEnabled :: bool

section \<open>The certificates of EAC1\<close>

text \<open>
  The loop over the certificates with its two flags; \<open>None\<close> goes on to the code after the loop.
\<close>

fun extractCvcs ::
  "eac1_message \<Rightarrow> cvc list \<Rightarrow> bool \<Rightarrow> bool \<Rightarrow> 'a auth_context_scheme
     \<Rightarrow> GlobalStatusCode option \<times> bool \<times> bool \<times> 'a auth_context_scheme" where
  "extractCvcs eac1 [] foundTerminalCvc foundDvCvc c = (None, foundTerminalCvc, foundDvCvc, c)"
| "extractCvcs eac1 (cvc # cvcs) foundTerminalCvc foundDvCvc c =
    (let cvcAccessRole = getAccessRole (cvc_chat cvc)
     in if cvcAccessRole = AT then
          (if foundTerminalCvc then (Some GS_Workflow_No_Unique_AtCvc, foundTerminalCvc, foundDvCvc, c)
           else extractCvcs eac1 cvcs True foundDvCvc (c\<lparr>au_rights := setTerminalCvc eac1 cvc (au_rights c)\<rparr>))
        else if cvcAccessRole = DV_no_f \<or> cvcAccessRole = DV_od then
          (if foundDvCvc then (Some GS_Workflow_No_Unique_DvCvc, foundTerminalCvc, foundDvCvc, c)
           else extractCvcs eac1 cvcs foundTerminalCvc True (c\<lparr>nc_dvCvc := Some cvc\<rparr>))
        else extractCvcs eac1 cvcs foundTerminalCvc foundDvCvc c)"

definition initCvcChainBuilder ::
  "trust_env \<Rightarrow> eac1_message \<Rightarrow> cvc list \<Rightarrow> 'a auth_context_scheme \<Rightarrow> 'a auth_context_scheme" where
  "initCvcChainBuilder E eac1 pAdditionalCertificates c =
    (let cvcs = au_linkCertificates c @ e1_cvCertificates eac1 @ pAdditionalCertificates
     in c\<lparr>au_chainBuilderProd := CVCertificateChainBuilder (cvcs @ te_prodRoots E),
          au_chainBuilderTest := CVCertificateChainBuilder (cvcs @ te_testRoots E)\<rparr>)"

definition runExtractCvcs ::
  "trust_env \<Rightarrow> eac1_message \<Rightarrow> 'a auth_context_scheme \<Rightarrow> bool \<times> 'a auth_context_scheme" where
  "runExtractCvcs E eac1 c =
    (case extractCvcs eac1 (e1_cvCertificates eac1) False False c of
       (Some status, _, _, c) \<Rightarrow> (False, setStatus status c)
     | (None, foundTerminalCvc, foundDvCvc, c) \<Rightarrow>
         if \<not> foundTerminalCvc then (False, setStatus GS_Workflow_No_Unique_AtCvc c)
         else if \<not> foundDvCvc then (False, setStatus GS_Workflow_No_Unique_DvCvc c)
         else (True, initCvcChainBuilder E eac1 [] c))"

section \<open>Chains\<close>

text \<open>A chain with the flag whether it is productive; the default chain is empty and productive.\<close>

definition context_getChainStartingWith :: "'a auth_context_scheme \<Rightarrow> cvc \<Rightarrow> cvc list \<times> bool" where
  "context_getChainStartingWith c pChainRoot =
    (let productionChain = getChainStartingWith (au_chainBuilderProd c) pChainRoot;
         testChain = getChainStartingWith (au_chainBuilderTest c) pChainRoot
     in if isValidChain productionChain then (productionChain, True)
        else if isValidChain testChain then (testChain, False)
        else ([], True))"

definition context_getChainForCertificationAuthority ::
  "'a auth_context_scheme \<Rightarrow> bytes \<times> bytes \<Rightarrow> cvc list" where
  "context_getChainForCertificationAuthority c pPaceOutput =
    (let productionChain = getChainForCertificationAuthority (au_chainBuilderProd c) (fst pPaceOutput) (snd pPaceOutput)
     in if isValidChain productionChain then productionChain
        else getChainForCertificationAuthority (au_chainBuilderTest c) (fst pPaceOutput) (snd pPaceOutput))"

definition hasChainForCertificationAuthority :: "'a auth_context_scheme \<Rightarrow> bytes \<times> bytes \<Rightarrow> bool" where
  "hasChainForCertificationAuthority c pPaceOutput \<longleftrightarrow>
     isValidChain (context_getChainForCertificationAuthority c pPaceOutput)"

section \<open>Pre-verification\<close>

fun certificateChainOf :: "'a auth_context_scheme \<Rightarrow> cvc list \<Rightarrow> cvc list \<times> bool \<Rightarrow> cvc list \<times> bool" where
  "certificateChainOf c [] chain = chain"
| "certificateChainOf c (trustPoint # rest) chain =
    (if \<not> isIssuedBy trustPoint trustPoint then certificateChainOf c rest chain
     else
       let chain = context_getChainStartingWith c trustPoint
       in if isValidChain (fst chain) then chain else certificateChainOf c rest chain)"

text \<open>From the end of the chain up to the first CVCA.\<close>

fun isValidBackwards :: "int \<Rightarrow> cvc list \<Rightarrow> bool" where
  "isValidBackwards now [] = True"
| "isValidBackwards now (cert # rest) =
    (if \<not> isValidOn now cert then False
     else if getAccessRole (cvc_chat cert) = CVCA then True
     else isValidBackwards now rest)"

definition isValidCertificates :: "int \<Rightarrow> cvc list \<Rightarrow> bool" where
  "isValidCertificates mValidationDateTime pCertificates = isValidBackwards mValidationDateTime (rev pCertificates)"

text \<open>\<open>addLinkCertificate\<close> of the settings keeps one entry per certificate.\<close>

definition saveCvcaLinkCertificates :: "cvc list \<Rightarrow> cvc list \<Rightarrow> 'a auth_context_scheme \<Rightarrow> 'a auth_context_scheme" where
  "saveCvcaLinkCertificates mTrustedCvcas pCertificates c =
     c\<lparr>au_linkCertificates := foldl (\<lambda>links certificate.
         if getAccessRole (cvc_chat certificate) = CVCA \<and>
            \<not> list_ex (\<lambda>t. cvc_equal t certificate) mTrustedCvcas \<and> \<not> list_ex (\<lambda>l. cvc_equal l certificate) links
         then links @ [certificate] else links) (au_linkCertificates c) pCertificates\<rparr>"

definition runPreVerification :: "trust_env \<Rightarrow> 'a auth_context_scheme \<Rightarrow> bool \<times> 'a auth_context_scheme" where
  "runPreVerification E c =
    (let mTrustedCvcas = te_prodRoots E @ te_testRoots E;
         (certificateChain, productive) = certificateChainOf c mTrustedCvcas ([], True);
         developerMode = st_developerMode (te_settings E);
         failed = (False, setStatus GS_Workflow_Preverification_Error c)
     in if developerMode \<and> productive then (False, setStatus GS_Workflow_Preverification_Developermode_Error c)
        else if \<not> te_preVerificationEnabled E then (True, c)
        else if \<not> isValidChain certificateChain then failed
        else if \<not> SignatureChecker_check (te_verify E) certificateChain then failed
        else if \<not> isValidCertificates (te_validationDate E) certificateChain \<and> \<not> developerMode then failed
        else (True, saveCvcaLinkCertificates mTrustedCvcas certificateChain c))"

section \<open>Certificate description and TLS certificates\<close>

text \<open>
  \<open>None\<close> is a null pointer that is used: the description that was sent but not decoded, or no
  terminal certificate.
\<close>

definition runCertificateDescriptionCheck ::
  "trust_env \<Rightarrow> eac1_message \<Rightarrow> 'a auth_context_scheme \<Rightarrow> (bool \<times> 'a auth_context_scheme) option" where
  "runCertificateDescriptionCheck E eac1 c =
    (let developerMode = st_developerMode (te_settings E);
         failed = (\<lambda>s. Some (False, setStatus s c))
     in case e1_descriptionAsBinary eac1 of
          None \<Rightarrow> failed GS_Workflow_Certificate_No_Description
        | Some binary \<Rightarrow>
           (case (e1_description eac1, ax_terminalCvc (au_rights c)) of
              (Some d, Some terminalCvc) \<Rightarrow>
                (case cd_subjectUrl d of
                   None \<Rightarrow> failed GS_Workflow_Certificate_No_Url_In_Description
                 | Some subjectUrl \<Rightarrow>
                     if te_hash E (cvc_hashOid terminalCvc) binary \<noteq> te_descriptionExtension E terminalCvc \<and> \<not> developerMode
                     then failed GS_Workflow_Certificate_Hash_Error
                     else if \<not> isMatchingSameOriginPolicy (te_urlOf E subjectUrl) (nc_tcTokenUrl c) \<and> \<not> developerMode
                     then failed GS_Workflow_Certificate_Sop_Error
                     else Some (True, c))
            | _ \<Rightarrow> None))"

definition runCheckCertificates ::
  "trust_env \<Rightarrow> eac1_message \<Rightarrow> 'a auth_context_scheme \<Rightarrow> (bool \<times> 'a auth_context_scheme) option" where
  "runCheckCertificates E eac1 c =
    (case (e1_description eac1, nc_dvCvc c) of
       (Some d, Some dv) \<Rightarrow>
         (if list_all (\<lambda>(u, cert). checkCertificate cert (cvc_hashOid dv) (cd_commCertificates d) \<or>
                st_developerMode (te_settings E)) (nc_certificates c)
          then Some (True, c)
          else Some (False, setStatus GS_Workflow_TrustedChannel_Hash_Not_In_Description c))
     | _ \<Rightarrow> None)"

section \<open>The composite state\<close>

text \<open>
  The states run one after the other; the last one waits for the user to edit the rights, which
  AuthData models. \<open>None\<close> is a null pointer.
\<close>

definition runProcessCvcs ::
  "trust_env \<Rightarrow> eac1_message \<Rightarrow> 'a auth_context_scheme \<Rightarrow> (bool \<times> 'a auth_context_scheme) option" where
  "runProcessCvcs E eac1 c =
    (case runExtractCvcs E eac1 c of
       (False, c) \<Rightarrow> Some (False, c)
     | (True, c) \<Rightarrow>
        (case runPreVerification E c of
           (False, c) \<Rightarrow> Some (False, c)
         | (True, c) \<Rightarrow>
            (case runCertificateDescriptionCheck E eac1 c of
               None \<Rightarrow> None
             | Some (False, c) \<Rightarrow> Some (False, c)
             | Some (True, c) \<Rightarrow> runCheckCertificates E eac1 c)))"

section \<open>The certificates of EAC2\<close>

text \<open>\<open>None\<close> is the use of the output of PACE when there is none.\<close>

definition runProcessCertificatesFromEac2 ::
  "trust_env \<Rightarrow> eac1_message \<Rightarrow> eac2_message \<Rightarrow> 'a auth_context_scheme \<Rightarrow> (bool \<times> 'a auth_context_scheme) option" where
  "runProcessCertificatesFromEac2 E eac1 eac2 c =
    (case au_paceOutput c of
       None \<Rightarrow> None
     | Some paceOutput \<Rightarrow>
        if hasChainForCertificationAuthority c paceOutput then Some (True, c)
        else
          let cvcs = filter (\<lambda>cvc. getAccessRole (cvc_chat cvc) \<noteq> AT) (e2_cvCertificates eac2);
              c = initCvcChainBuilder E eac1 cvcs c
          in if \<not> hasChainForCertificationAuthority c paceOutput
             then Some (False, setStatus GS_Workflow_Cannot_Confirm_IdCard_Authenticity c)
             else Some (True, c))"

section \<open>What is verified when the user is asked\<close>

definition isDV :: "cvc \<Rightarrow> bool" where
  "isDV cvc \<longleftrightarrow> getAccessRole (cvc_chat cvc) \<in> {DV_no_f, DV_od}"

definition isAT :: "cvc \<Rightarrow> bool" where
  "isAT cvc \<longleftrightarrow> getAccessRole (cvc_chat cvc) = AT"

text \<open>What the extraction of the certificates leaves as it was.\<close>

definition cvcFrame :: "'a auth_context_scheme \<Rightarrow> 'a auth_context_scheme \<Rightarrow> bool" where
  "cvcFrame c c' \<longleftrightarrow> au_linkCertificates c' = au_linkCertificates c \<and> nc_tcTokenUrl c' = nc_tcTokenUrl c \<and>
     nc_certificates c' = nc_certificates c"

lemma setTerminalCvc_terminal [simp]: "ax_terminalCvc (setTerminalCvc eac1 cvc x) = Some cvc"
  by (simp add: setTerminalCvc_def initializeChat_def Let_def)

lemma extractCvcs_None:
  assumes "extractCvcs eac1 cvcs ft fd c = (None, ft', fd', c')"
  shows "length (filter isAT cvcs) \<le> (if ft then 0 else 1) \<and> length (filter isDV cvcs) \<le> (if fd then 0 else 1) \<and>
    ft' = (ft \<or> filter isAT cvcs \<noteq> []) \<and> fd' = (fd \<or> filter isDV cvcs \<noteq> []) \<and>
    ax_terminalCvc (au_rights c') =
      (if filter isAT cvcs = [] then ax_terminalCvc (au_rights c) else Some (hd (filter isAT cvcs))) \<and>
    nc_dvCvc c' = (if filter isDV cvcs = [] then nc_dvCvc c else Some (hd (filter isDV cvcs))) \<and> cvcFrame c c'"
  using assms
proof (induction cvcs arbitrary: ft fd c)
  case Nil
  then show ?case by (simp add: cvcFrame_def)
next
  case (Cons cvc cvcs)
  show ?case
  proof (cases "isAT cvc")
    case True
    let ?c = "c\<lparr>au_rights := setTerminalCvc eac1 cvc (au_rights c)\<rparr>"
    have "\<not> isDV cvc" using True by (simp add: isAT_def isDV_def)
    moreover have "\<not> ft" "extractCvcs eac1 cvcs True fd ?c = (None, ft', fd', c')"
      using True Cons.prems by (simp_all add: isAT_def split: if_splits)
    ultimately show ?thesis using True Cons.IH [of True fd ?c] by (simp add: cvcFrame_def)
  next
    case noAT: False
    show ?thesis
    proof (cases "isDV cvc")
      case True
      let ?c = "c\<lparr>nc_dvCvc := Some cvc\<rparr>"
      have "\<not> fd" "extractCvcs eac1 cvcs ft True ?c = (None, ft', fd', c')"
        using True noAT Cons.prems by (simp_all add: isAT_def isDV_def split: if_splits)
      then show ?thesis using True noAT Cons.IH [of ft True ?c] by (simp add: cvcFrame_def)
    next
      case False
      then have "extractCvcs eac1 cvcs ft fd c = (None, ft', fd', c')"
        using noAT Cons.prems by (simp add: isAT_def isDV_def)
      then show ?thesis using False noAT Cons.IH [of ft fd c] by simp
    qed
  qed
qed

text \<open>After the extraction the certificates of the context are the only ones of their role.\<close>

lemma runExtractCvcs_unique:
  assumes "runExtractCvcs E eac1 c = (True, c')"
  obtains t d where "filter isAT (e1_cvCertificates eac1) = [t]" "filter isDV (e1_cvCertificates eac1) = [d]"
    "ax_terminalCvc (au_rights c') = Some t" "nc_dvCvc c' = Some d" "cvcFrame c c'"
    "au_chainBuilderProd c' = CVCertificateChainBuilder (au_linkCertificates c @ e1_cvCertificates eac1 @ te_prodRoots E)"
    "au_chainBuilderTest c' = CVCertificateChainBuilder (au_linkCertificates c @ e1_cvCertificates eac1 @ te_testRoots E)"
proof -
  obtain s ft fd c1 where ex: "extractCvcs eac1 (e1_cvCertificates eac1) False False c = (s, ft, fd, c1)"
    using prod_cases4 by blast
  with assms have s: "s = None" "ft" "fd" "c' = initCvcChainBuilder E eac1 [] c1"
    by (auto simp: runExtractCvcs_def split: option.splits if_splits)
  note f = extractCvcs_None [OF ex [unfolded s(1)]]
  then have one: "length (filter isAT (e1_cvCertificates eac1)) = 1" "length (filter isDV (e1_cvCertificates eac1)) = 1"
    using s(2,3) by (auto simp: le_Suc_eq simp del: filter_empty_conv)
  obtain t where t: "filter isAT (e1_cvCertificates eac1) = [t]" using one(1) by (auto simp: length_Suc_conv)
  obtain d where d: "filter isDV (e1_cvCertificates eac1) = [d]" using one(2) by (auto simp: length_Suc_conv)
  show thesis
    by (rule that [OF t d]) (use f t d s(4) in \<open>simp_all add: initCvcChainBuilder_def cvcFrame_def Let_def\<close>)
qed

lemma certificateChainOf_cases:
  assumes "certificateChainOf c roots chain = (r, p)" "isValidChain r"
  shows "(r, p) = chain \<or> (\<exists>root\<in>set roots. isIssuedBy root root \<and>
    (r = getChainStartingWith (au_chainBuilderProd c) root \<or> r = getChainStartingWith (au_chainBuilderTest c) root))"
  using assms
proof (induction roots arbitrary: chain)
  case (Cons root roots)
  show ?case
  proof (cases "isIssuedBy root root \<and> isValidChain (fst (context_getChainStartingWith c root))")
    case True
    then show ?thesis
      using Cons.prems not_valid_Nil by (auto simp: context_getChainStartingWith_def Let_def split: if_splits)
  next
    case False
    then have "certificateChainOf c roots (if isIssuedBy root root then context_getChainStartingWith c root else chain) = (r, p)"
      using Cons.prems(1) by (auto simp: Let_def split: if_splits)
    from Cons.IH [OF this Cons.prems(2)] False Cons.prems(2) show ?thesis
      by (auto split: if_splits) (metis fst_conv)+
  qed
qed simp

text \<open>
  The certificates that the workflow stores besides those of the server: roots and links, all of
  certification authorities.
\<close>

definition onlyAuthorities :: "trust_env \<Rightarrow> 'a auth_context_scheme \<Rightarrow> bool" where
  "onlyAuthorities E c \<longleftrightarrow>
     list_all (\<lambda>x. getAccessRole (cvc_chat x) = CVCA) (au_linkCertificates c @ te_prodRoots E @ te_testRoots E)"

text \<open>
  A chain from a trusted root to the certificates of the context, with valid signatures and within
  its dates from the end to the first authority.
\<close>

definition verifiedChain :: "trust_env \<Rightarrow> cvc list \<Rightarrow> cvc \<Rightarrow> cvc \<Rightarrow> bool" where
  "verifiedChain E chain dv terminal \<longleftrightarrow>
     (\<exists>root\<in>set (te_prodRoots E @ te_testRoots E). isIssuedBy root root \<and> cvc_equal (hd chain) root) \<and>
     (\<forall>i. Suc i < length chain \<longrightarrow> isIssuedBy (chain ! Suc i) (chain ! i)) \<and>
     2 \<le> length chain \<and> last chain = terminal \<and> chain ! (length chain - 2) = dv \<and>
     SignatureChecker_check (te_verify E) chain \<and> isValidCertificates (te_validationDate E) chain"

lemma runPreVerification_chain:
  assumes ex: "runExtractCvcs E eac1 c = (True, c1)" and pre: "runPreVerification E c1 = (True, c2)"
    and "\<not> st_developerMode (te_settings E)" "te_preVerificationEnabled E" "onlyAuthorities E c"
  obtains chain t d where "verifiedChain E chain d t" "ax_terminalCvc (au_rights c2) = Some t" "nc_dvCvc c2 = Some d"
    "nc_tcTokenUrl c2 = nc_tcTokenUrl c" "nc_certificates c2 = nc_certificates c"
proof -
  obtain t d where td: "filter isAT (e1_cvCertificates eac1) = [t]" "filter isDV (e1_cvCertificates eac1) = [d]"
    "ax_terminalCvc (au_rights c1) = Some t" "nc_dvCvc c1 = Some d" "cvcFrame c c1"
    "au_chainBuilderProd c1 = CVCertificateChainBuilder (au_linkCertificates c @ e1_cvCertificates eac1 @ te_prodRoots E)"
    "au_chainBuilderTest c1 = CVCertificateChainBuilder (au_linkCertificates c @ e1_cvCertificates eac1 @ te_testRoots E)"
    by (rule runExtractCvcs_unique [OF ex])
  obtain chain p where chain: "certificateChainOf c1 (te_prodRoots E @ te_testRoots E) ([], True) = (chain, p)" by force
  with pre assms(3,4) have ok: "isValidChain chain" "SignatureChecker_check (te_verify E) chain"
    "isValidCertificates (te_validationDate E) chain"
    and c2: "c2 = saveCvcaLinkCertificates (te_prodRoots E @ te_testRoots E) chain c1"
    by (auto simp: runPreVerification_def Let_def split: if_splits)
  have "chain \<noteq> []" using ok(1) not_valid_Nil by auto
  then obtain root pool where root: "root \<in> set (te_prodRoots E @ te_testRoots E)" "isIssuedBy root root"
    and pool: "chain = findInChains (\<lambda>cert. cvc_equal cert root) (CVCertificateChainBuilder pool)"
      "set pool \<subseteq> set (au_linkCertificates c @ e1_cvCertificates eac1 @ te_prodRoots E @ te_testRoots E)"
    using certificateChainOf_cases [OF chain ok(1)] td(6,7)
    by (fastforce simp: getChainStartingWith_def)
  note sound = findInChains_sound [OF pool(1) \<open>chain \<noteq> []\<close>]
  have fromServer: "x \<in> set (e1_cvCertificates eac1)" if "x \<in> set chain" "getAccessRole (cvc_chat x) \<noteq> CVCA" for x
    using that sound pool(2) assms(5) by (auto simp: onlyAuthorities_def list_all_iff)
  have "last chain \<in> set chain" "chain ! (length chain - 2) \<in> set chain"
    using sound \<open>chain \<noteq> []\<close> by (simp_all add: nth_mem)
  then have "last chain \<in> set (filter isAT (e1_cvCertificates eac1))"
    "chain ! (length chain - 2) \<in> set (filter isDV (e1_cvCertificates eac1))"
    using sound fromServer by (auto simp: isAT_def isDV_def)
  then have "last chain = t" "chain ! (length chain - 2) = d" by (simp_all only: td(1,2) list.set) auto
  with sound root ok have "verifiedChain E chain d t" by (auto simp: verifiedChain_def)
  with td(3-5) c2 show thesis
    by (intro that) (simp_all add: saveCvcaLinkCertificates_def cvcFrame_def)
qed

lemma runCertificateDescriptionCheck_True:
  assumes "runCertificateDescriptionCheck E eac1 c = Some (True, c')" "ax_terminalCvc (au_rights c) = Some t"
    and "\<not> st_developerMode (te_settings E)"
  obtains descr binary subjectUrl where "e1_descriptionAsBinary eac1 = Some binary"
    "te_hash E (cvc_hashOid t) binary = te_descriptionExtension E t" "e1_description eac1 = Some descr"
    "cd_subjectUrl descr = Some subjectUrl" "isMatchingSameOriginPolicy (te_urlOf E subjectUrl) (nc_tcTokenUrl c)" "c' = c"
proof -
  obtain binary where b: "e1_descriptionAsBinary eac1 = Some binary"
    using assms(1) by (cases "e1_descriptionAsBinary eac1") (simp_all add: runCertificateDescriptionCheck_def Let_def)
  obtain descr where d: "e1_description eac1 = Some descr"
    using assms(1) b by (cases "e1_description eac1") (simp_all add: runCertificateDescriptionCheck_def Let_def)
  obtain u where u: "cd_subjectUrl descr = Some u"
    using assms(1,2) b d by (cases "cd_subjectUrl descr") (simp_all add: runCertificateDescriptionCheck_def Let_def)
  show thesis
    by (rule that [OF b _ d u])
      (use assms b d u in \<open>simp_all add: runCertificateDescriptionCheck_def Let_def split: if_splits\<close>)
qed

lemma runCheckCertificates_True:
  assumes "runCheckCertificates E eac1 c = Some (True, c')" "nc_dvCvc c = Some dv" "e1_description eac1 = Some descr"
    and "\<not> st_developerMode (te_settings E)"
  shows "c' = c \<and> (\<forall>(u, cert) \<in> set (nc_certificates c). checkCertificate cert (cvc_hashOid dv) (cd_commCertificates descr))"
  using assms by (simp add: runCheckCertificates_def list_all_iff split: if_splits)

text \<open>
  C32. With pre-verification and outside the developer mode the user is only asked for the rights when
  everything fits: a chain of valid signatures leads from a configured root to the very
  certificate of the terminal that the rights come from, within its dates; the description that
  the user sees is the one whose hash this certificate holds; the subject of the description has
  the origin of the TC token; and every TLS certificate seen so far is in the description.
\<close>

theorem accepted_server_is_verified:
  assumes "runProcessCvcs E eac1 c = Some (True, c')"
    and "\<not> st_developerMode (te_settings E)" "te_preVerificationEnabled E" "onlyAuthorities E c"
  shows "\<exists>chain t d descr binary subjectUrl.
    verifiedChain E chain d t \<and> ax_terminalCvc (au_rights c') = Some t \<and> nc_dvCvc c' = Some d \<and>
    e1_descriptionAsBinary eac1 = Some binary \<and> te_hash E (cvc_hashOid t) binary = te_descriptionExtension E t \<and>
    e1_description eac1 = Some descr \<and> cd_subjectUrl descr = Some subjectUrl \<and>
    isMatchingSameOriginPolicy (te_urlOf E subjectUrl) (nc_tcTokenUrl c) \<and>
    (\<forall>(u, cert) \<in> set (nc_certificates c). checkCertificate cert (cvc_hashOid d) (cd_commCertificates descr))"
proof -
  obtain b1 c1 where 1: "runExtractCvcs E eac1 c = (b1, c1)" by force
  obtain b2 c2 where 2: "runPreVerification E c1 = (b2, c2)" by force
  from assms(1) 1 2 have b: "b1" "b2" by (simp_all add: runProcessCvcs_def split: bool.splits)
  with assms(1) 1 2 obtain c3 where steps: "runExtractCvcs E eac1 c = (True, c1)" "runPreVerification E c1 = (True, c2)"
    "runCertificateDescriptionCheck E eac1 c2 = Some (True, c3)" "runCheckCertificates E eac1 c3 = Some (True, c')"
    by (auto simp: runProcessCvcs_def split: bool.splits option.splits)
  obtain chain t d where v: "verifiedChain E chain d t" "ax_terminalCvc (au_rights c2) = Some t" "nc_dvCvc c2 = Some d"
    "nc_tcTokenUrl c2 = nc_tcTokenUrl c" "nc_certificates c2 = nc_certificates c"
    by (rule runPreVerification_chain [OF steps(1,2) assms(2-4)])
  obtain descr binary subjectUrl where w: "e1_descriptionAsBinary eac1 = Some binary"
    "te_hash E (cvc_hashOid t) binary = te_descriptionExtension E t" "e1_description eac1 = Some descr"
    "cd_subjectUrl descr = Some subjectUrl" "isMatchingSameOriginPolicy (te_urlOf E subjectUrl) (nc_tcTokenUrl c2)"
    "c3 = c2"
    by (rule runCertificateDescriptionCheck_True [OF steps(3) v(2) assms(2)])
  have "c' = c2 \<and> (\<forall>(u, cert) \<in> set (nc_certificates c2). checkCertificate cert (cvc_hashOid d) (cd_commCertificates descr))"
    using runCheckCertificates_True [OF steps(4) _ w(3) assms(2)] v(3) w(6) by simp
  with v w show ?thesis
    by (intro exI [of _ chain] exI [of _ t] exI [of _ d] exI [of _ descr] exI [of _ binary] exI [of _ subjectUrl]) simp
qed

definition sampleAuthContext :: auth_context where
  "sampleAuthContext = \<lparr>nc_status = clientStatus GS_No_Error, nc_tcTokenUrl = httpsUrl ''service'',
     nc_tcToken = Some (sampleToken ''service''), nc_tcTokenNotFound = False, nc_refreshUrl = emptyUrl,
     nc_certificates = [], nc_sslSession = [], nc_eac1 = None, nc_dvCvc = None, au_rights = noRights,
     au_chainBuilderProd = [], au_chainBuilderTest = [], au_linkCertificates = [], au_paceOutput = None, au_eac2 = None\<rparr>"

definition sampleTrust :: trust_env where
  "sampleTrust = \<lparr>te_settings = sampleSettings, te_urlOf = httpsUrl, te_urlStrict = httpsUrl, te_hash = (\<lambda>_ b. b),
     te_descriptionExtension = (\<lambda>_. [7]), te_verify = (\<lambda>k p h b s. p = s),
     te_prodRoots = [sample_cvc 2 1 1 0xC0], te_testRoots = [], te_validationDate = 5, te_preVerificationEnabled = True\<rparr>"

definition sampleServer :: eac1_message where
  "sampleServer = sampleEac1\<lparr>e1_cvCertificates := [sample_cvc 4 2 3 0, sample_cvc 3 1 2 0x80],
     e1_descriptionAsBinary := Some [7], e1_description := Some \<lparr>cd_subjectUrl = Some ''service'', cd_commCertificates = []\<rparr>\<rparr>"

lemma sample_roles:
  "getAccessRole (cvc_chat (sample_cvc n car chr 0)) = AT"
  "getAccessRole (cvc_chat (sample_cvc n car chr 0x80)) = DV_od"
  "getAccessRole (cvc_chat (sample_cvc n car chr 0xC0)) = CVCA"
  by (simp_all add: sample_cvc_def getAccessRole_def enum_ofValue_def AccessRole_list_def drop_bit_eq_div)

lemma sample_server_chains:
  "CVCertificateChainBuilder [sample_cvc 4 2 3 0, sample_cvc 3 1 2 0x80, sample_cvc 2 1 1 0xC0] =
     [[sample_cvc 2 1 1 0xC0, sample_cvc 3 1 2 0x80, sample_cvc 4 2 3 0]]"
  "CVCertificateChainBuilder [sample_cvc 4 2 3 0, sample_cvc 3 1 2 0x80] =
     [[sample_cvc 3 1 2 0x80, sample_cvc 4 2 3 0]]"
proof -
  have "getChains isChildCvc [sample_cvc 4 2 3 0, sample_cvc 3 1 2 0x80, sample_cvc 2 1 1 0xC0] =
      [[sample_cvc 2 1 1 0xC0, sample_cvc 3 1 2 0x80, sample_cvc 4 2 3 0]]"
    "getChains isChildCvc [sample_cvc 4 2 3 0, sample_cvc 3 1 2 0x80] = [[sample_cvc 3 1 2 0x80, sample_cvc 4 2 3 0]]"
    by (simp_all add: getChains_eval isChildCvc_def isIssuedBy_def sample_cvc_def)
  then show "CVCertificateChainBuilder [sample_cvc 4 2 3 0, sample_cvc 3 1 2 0x80, sample_cvc 2 1 1 0xC0] =
     [[sample_cvc 2 1 1 0xC0, sample_cvc 3 1 2 0x80, sample_cvc 4 2 3 0]]"
    "CVCertificateChainBuilder [sample_cvc 4 2 3 0, sample_cvc 3 1 2 0x80] =
     [[sample_cvc 3 1 2 0x80, sample_cvc 4 2 3 0]]"
    by (simp_all add: CVCertificateChainBuilder_def CVCertificateChain_def isValidChain_def sample_roles)
qed

lemma sample_process:
  assumes "au_linkCertificates c = []" "nc_certificates c = []" "nc_tcTokenUrl c = httpsUrl ''service''"
  shows "\<exists>c'. runProcessCvcs sampleTrust sampleServer c = Some (True, c')"
proof -
  have same: "cvc_equal (sample_cvc 2 1 1 0xC0) (sample_cvc 2 1 1 0xC0)"
    "isIssuedBy (sample_cvc 2 1 1 0xC0) (sample_cvc 2 1 1 0xC0)"
    by (simp_all add: cvc_equal_def isIssuedBy_def sample_cvc_def)
  have valid: "isValidChain [sample_cvc 2 1 1 0xC0, sample_cvc 3 1 2 0x80, sample_cvc 4 2 3 0]"
    by (simp add: isValidChain_def sample_roles)
  have signed: "SignatureChecker_check (\<lambda>k p h b s. p = s) [sample_cvc 2 1 1 0xC0, sample_cvc 3 1 2 0x80, sample_cvc 4 2 3 0]"
    by (simp add: SignatureChecker_check_def sample_cvc_def)
  have dates: "isValidOn 5 (sample_cvc n a b r)" for n a b r by (simp add: isValidOn_def sample_cvc_def)
  show ?thesis
    by (simp add: runProcessCvcs_def runExtractCvcs_def sampleServer_def sampleTrust_def sample_roles initCvcChainBuilder_def
        runPreVerification_def context_getChainStartingWith_def getChainStartingWith_def sample_server_chains
        assms same valid signed dates CVCertificateChain_def isValidCertificates_def sampleSettings_def
        runCertificateDescriptionCheck_def runCheckCertificates_def saveCvcaLinkCertificates_def
        isMatchingSameOriginPolicy_def Let_def)
qed

theorem accepted_server_is_verified_witness:
  "te_hash sampleTrust [] [7] = te_descriptionExtension sampleTrust (sample_cvc 4 2 3 0)"
proof -
  obtain c' where c': "runProcessCvcs sampleTrust sampleServer sampleAuthContext = Some (True, c')"
    using sample_process [of sampleAuthContext] by (auto simp: sampleAuthContext_def)
  have "\<not> st_developerMode (te_settings sampleTrust)" "te_preVerificationEnabled sampleTrust"
    "onlyAuthorities sampleTrust sampleAuthContext"
    by (simp_all add: sampleTrust_def sampleSettings_def onlyAuthorities_def sampleAuthContext_def sample_roles)
  from accepted_server_is_verified [OF c' this] show ?thesis
    by (auto simp: sampleTrust_def sampleServer_def)
qed

end
