(* ===== verification/AuthWorkflow.thy ===== *)
theory AuthWorkflow
  imports CvcStates CardConnection
begin

text \<open>
  The workflow of an authentication: the controller src/src/core/controller/AuthController.cpp as
  a table from a state and a signal to the next state, and its states in src/src/core/states. The
  exchange of PAOS messages is StateGenericSendReceive.cpp and .h; the TC token, the refresh
  address and the certificates are the machines of RefreshAddress and CvcStates. PACE appears with
  the signals of its composite state, which PaceWorkflow models. The machine takes one event at a
  time and gives the effects of the step: messages to the server, commands to the card, answers to
  the browser. A null pointer that is used leads to \<open>PhUndefined\<close>, where the machine stays.
\<close>

section \<open>Messages\<close>

datatype PaosType =
    PT_UNKNOWN_MESSAGE | PT_STARTPAOS | PT_STARTPAOS_RESPONSE | PT_INITIALIZE_FRAMEWORK
  | PT_INITIALIZE_FRAMEWORK_RESPONSE | PT_DID_LIST | PT_DID_LIST_RESPONSE | PT_DID_AUTHENTICATE_EAC1
  | PT_DID_AUTHENTICATE_RESPONSE_EAC1 | PT_DID_AUTHENTICATE_EAC2 | PT_DID_AUTHENTICATE_RESPONSE_EAC2
  | PT_DID_AUTHENTICATE_EAC_ADDITIONAL_INPUT_TYPE | PT_TRANSMIT | PT_TRANSMIT_RESPONSE | PT_DISCONNECT
  | PT_DISCONNECT_RESPONSE

datatype paos_message =
    StartPaosResponse ecard_result | InitializeFramework | DIDList | DIDAuthenticateEAC1 eac1_message
  | DIDAuthenticateEAC2 eac2_message | DIDAuthenticateEACAdditional string | TransmitMessage "input_apdu list"
  | Disconnect

text \<open>A message that could not be read is of the unknown type.\<close>

fun detectedPaosType :: "paos_message option \<Rightarrow> PaosType" where
  "detectedPaosType None = PT_UNKNOWN_MESSAGE"
| "detectedPaosType (Some (StartPaosResponse r)) = PT_STARTPAOS_RESPONSE"
| "detectedPaosType (Some InitializeFramework) = PT_INITIALIZE_FRAMEWORK"
| "detectedPaosType (Some DIDList) = PT_DID_LIST"
| "detectedPaosType (Some (DIDAuthenticateEAC1 e)) = PT_DID_AUTHENTICATE_EAC1"
| "detectedPaosType (Some (DIDAuthenticateEAC2 e)) = PT_DID_AUTHENTICATE_EAC2"
| "detectedPaosType (Some (DIDAuthenticateEACAdditional s)) = PT_DID_AUTHENTICATE_EAC_ADDITIONAL_INPUT_TYPE"
| "detectedPaosType (Some (TransmitMessage apdus)) = PT_TRANSMIT"
| "detectedPaosType (Some Disconnect) = PT_DISCONNECT"

record eac1_response =
  r1_chat :: "chat option"
  r1_challenge :: string
  r1_certificationAuthorityReference :: "(bytes \<times> bytes) option"

record eac2_response =
  r2_authenticationToken :: string
  r2_efCardSecurity :: string
  r2_nonce :: string

definition emptyEac1Response :: eac1_response where
  "emptyEac1Response = \<lparr>r1_chat = None, r1_challenge = [], r1_certificationAuthorityReference = None\<rparr>"

definition emptyEac2Response :: eac2_response where
  "emptyEac2Response = \<lparr>r2_authenticationToken = [], r2_efCardSecurity = [], r2_nonce = []\<rparr>"

section \<open>Context\<close>

record workflow_data = auth_context +
  aw_pin :: string
  aw_can :: string
  aw_puk :: string
  aw_hasCardConnection :: bool
  aw_startPaosResult :: ecard_result
  aw_startPaosResponse :: "ecard_result option"
  aw_errorReportedToServer :: bool
  aw_skipRedirect :: bool
  aw_hasInitializeFrameworkResponse :: bool
  aw_hasDidListResponse :: bool
  aw_hasDisconnectResponse :: bool
  aw_responseEac1 :: "eac1_response option"
  aw_responseAdditional :: "string option"
  aw_responseEac2 :: "eac2_response option"
  aw_eacAdditional :: "string option"
  aw_transmits :: "input_apdu list list"
  aw_transmitResponses :: "string list list"

definition clearPasswords :: "workflow_data \<Rightarrow> workflow_data" where
  "clearPasswords c = c\<lparr>aw_pin := [], aw_can := [], aw_puk := []\<rparr>"

text \<open>
  The environment: what the caller of the workflow answers (ActivationContext), the settings of the
  history, and the texts of results (see ECardApi).
\<close>

record auth_env = trust_env +
  ae_activationQuery :: "(string \<times> string) list"
  ae_sendProcessing :: bool
  ae_sendErrorPage :: bool
  ae_sendRedirect :: bool
  ae_historyEnabled :: bool
  ae_describe :: "global_status \<Rightarrow> string"
  ae_tr :: "string \<Rightarrow> string"

section \<open>The controller\<close>

datatype auth_state =
    Processing | ParseTcTokenUrl | GetTcToken | StartPaos | SendStartPaos | InitializeFrameworkState
  | SendInitializeFrameworkResponse | DidListState | SendDidListResponse | ProcessCvcsAndSetRights
  | PaceState | ClearPacePasswordsState | DidAuthenticateEac1State | SendDidAuthenticateResponseEac1
  | EacAdditionalInputType | SendDidAuthenticatResponseEacAdditionalInput | ProcessCertificatesFromEac2
  | DidAuthenticateEac2State | SendDidAuthenticateResponseEac2 | TransmitState | SendTransmitResponse
  | SendDisconnectResponse | StartPaosResponseState | CheckRefreshAddress | ActivateStoreFeedbackDialog
  | WriteHistory | RedirectBrowser | UpdateRetryCounterFinal | CleanUpReaderManager | SendWhitelistSurvey
  | FinalState | Stopped

datatype auth_signal =
    fireContinue | fireAbort | fireReceivedDidList | fireReceivedExtractCvcsFromEac1InputType
  | fireReceivedStartPaosResponse | fireReceivedDisconnect | firePaceChannelEstablished
  | firePacePukEstablished | fireSendDidAuthenticatResponse

definition authTable :: "((auth_state \<times> auth_signal) \<times> auth_state) list" where
  "authTable =
    [((Processing, fireContinue), ParseTcTokenUrl),
     ((Processing, fireAbort), CleanUpReaderManager),
     ((ParseTcTokenUrl, fireContinue), GetTcToken),
     ((ParseTcTokenUrl, fireAbort), CleanUpReaderManager),
     ((GetTcToken, fireContinue), StartPaos),
     ((GetTcToken, fireAbort), CleanUpReaderManager),
     ((StartPaos, fireContinue), SendStartPaos),
     ((StartPaos, fireAbort), CleanUpReaderManager),
     ((SendStartPaos, fireContinue), InitializeFrameworkState),
     ((SendStartPaos, fireAbort), CleanUpReaderManager),
     ((SendStartPaos, fireReceivedDidList), DidListState),
     ((SendStartPaos, fireReceivedExtractCvcsFromEac1InputType), ProcessCvcsAndSetRights),
     ((SendStartPaos, fireReceivedStartPaosResponse), StartPaosResponseState),
     ((InitializeFrameworkState, fireContinue), SendInitializeFrameworkResponse),
     ((InitializeFrameworkState, fireAbort), SendInitializeFrameworkResponse),
     ((SendInitializeFrameworkResponse, fireContinue), DidListState),
     ((SendInitializeFrameworkResponse, fireAbort), CleanUpReaderManager),
     ((SendInitializeFrameworkResponse, fireReceivedExtractCvcsFromEac1InputType), ProcessCvcsAndSetRights),
     ((SendInitializeFrameworkResponse, fireReceivedStartPaosResponse), StartPaosResponseState),
     ((DidListState, fireContinue), SendDidListResponse),
     ((DidListState, fireAbort), SendDidListResponse),
     ((SendDidListResponse, fireContinue), ProcessCvcsAndSetRights),
     ((SendDidListResponse, fireAbort), CleanUpReaderManager),
     ((SendDidListResponse, fireReceivedDisconnect), SendDisconnectResponse),
     ((SendDidListResponse, fireReceivedStartPaosResponse), StartPaosResponseState),
     ((ProcessCvcsAndSetRights, fireContinue), PaceState),
     ((ProcessCvcsAndSetRights, fireAbort), SendDidAuthenticateResponseEac1),
     ((PaceState, firePaceChannelEstablished), ClearPacePasswordsState),
     ((PaceState, firePacePukEstablished), PaceState),
     ((PaceState, fireAbort), SendDidAuthenticateResponseEac1),
     ((ClearPacePasswordsState, fireContinue), DidAuthenticateEac1State),
     ((ClearPacePasswordsState, fireAbort), DidAuthenticateEac1State),
     ((DidAuthenticateEac1State, fireContinue), SendDidAuthenticateResponseEac1),
     ((DidAuthenticateEac1State, fireAbort), SendDidAuthenticateResponseEac1),
     ((SendDidAuthenticateResponseEac1, fireContinue), EacAdditionalInputType),
     ((SendDidAuthenticateResponseEac1, fireAbort), UpdateRetryCounterFinal),
     ((SendDidAuthenticateResponseEac1, fireReceivedDisconnect), SendDisconnectResponse),
     ((SendDidAuthenticateResponseEac1, fireReceivedStartPaosResponse), StartPaosResponseState),
     ((EacAdditionalInputType, fireContinue), ProcessCertificatesFromEac2),
     ((EacAdditionalInputType, fireAbort), SendDidAuthenticatResponseEacAdditionalInput),
     ((EacAdditionalInputType, fireSendDidAuthenticatResponse), SendDidAuthenticatResponseEacAdditionalInput),
     ((SendDidAuthenticatResponseEacAdditionalInput, fireContinue), ProcessCertificatesFromEac2),
     ((SendDidAuthenticatResponseEacAdditionalInput, fireAbort), UpdateRetryCounterFinal),
     ((SendDidAuthenticatResponseEacAdditionalInput, fireReceivedStartPaosResponse), StartPaosResponseState),
     ((ProcessCertificatesFromEac2, fireContinue), DidAuthenticateEac2State),
     ((ProcessCertificatesFromEac2, fireAbort), SendDidAuthenticateResponseEac2),
     ((DidAuthenticateEac2State, fireContinue), SendDidAuthenticateResponseEac2),
     ((DidAuthenticateEac2State, fireAbort), SendDidAuthenticateResponseEac2),
     ((SendDidAuthenticateResponseEac2, fireContinue), TransmitState),
     ((SendDidAuthenticateResponseEac2, fireAbort), UpdateRetryCounterFinal),
     ((SendDidAuthenticateResponseEac2, fireReceivedDisconnect), SendDisconnectResponse),
     ((SendDidAuthenticateResponseEac2, fireReceivedStartPaosResponse), StartPaosResponseState),
     ((TransmitState, fireContinue), SendTransmitResponse),
     ((TransmitState, fireAbort), SendTransmitResponse),
     ((SendTransmitResponse, fireContinue), TransmitState),
     ((SendTransmitResponse, fireAbort), UpdateRetryCounterFinal),
     ((SendTransmitResponse, fireReceivedDisconnect), SendDisconnectResponse),
     ((SendTransmitResponse, fireReceivedStartPaosResponse), StartPaosResponseState),
     ((SendDisconnectResponse, fireContinue), StartPaosResponseState),
     ((SendDisconnectResponse, fireAbort), UpdateRetryCounterFinal),
     ((StartPaosResponseState, fireContinue), UpdateRetryCounterFinal),
     ((StartPaosResponseState, fireAbort), UpdateRetryCounterFinal),
     ((UpdateRetryCounterFinal, fireContinue), CleanUpReaderManager),
     ((UpdateRetryCounterFinal, fireAbort), CleanUpReaderManager),
     ((CleanUpReaderManager, fireContinue), CheckRefreshAddress),
     ((CleanUpReaderManager, fireAbort), CheckRefreshAddress),
     ((CheckRefreshAddress, fireContinue), ActivateStoreFeedbackDialog),
     ((CheckRefreshAddress, fireAbort), RedirectBrowser),
     ((ActivateStoreFeedbackDialog, fireContinue), WriteHistory),
     ((ActivateStoreFeedbackDialog, fireAbort), WriteHistory),
     ((WriteHistory, fireContinue), SendWhitelistSurvey),
     ((WriteHistory, fireAbort), RedirectBrowser),
     ((SendWhitelistSurvey, fireContinue), RedirectBrowser),
     ((SendWhitelistSurvey, fireAbort), RedirectBrowser),
     ((RedirectBrowser, fireContinue), FinalState),
     ((RedirectBrowser, fireAbort), FinalState)]"

definition authTransition :: "auth_state \<Rightarrow> auth_signal \<Rightarrow> auth_state option" where
  "authTransition st s = map_of authTable (st, s)"

section \<open>Sending and receiving\<close>

text \<open>The messages that a state expects, and the signals for all but the first of them.\<close>

fun typesToReceive :: "auth_state \<Rightarrow> PaosType list" where
  "typesToReceive SendStartPaos =
     [PT_INITIALIZE_FRAMEWORK, PT_DID_LIST, PT_DID_AUTHENTICATE_EAC1, PT_STARTPAOS_RESPONSE]"
| "typesToReceive SendInitializeFrameworkResponse = [PT_DID_LIST, PT_DID_AUTHENTICATE_EAC1, PT_STARTPAOS_RESPONSE]"
| "typesToReceive SendDidListResponse = [PT_DID_AUTHENTICATE_EAC1, PT_DISCONNECT, PT_STARTPAOS_RESPONSE]"
| "typesToReceive SendDidAuthenticateResponseEac1 = [PT_DID_AUTHENTICATE_EAC2, PT_DISCONNECT, PT_STARTPAOS_RESPONSE]"
| "typesToReceive SendDidAuthenticatResponseEacAdditionalInput =
     [PT_DID_AUTHENTICATE_EAC_ADDITIONAL_INPUT_TYPE, PT_STARTPAOS_RESPONSE]"
| "typesToReceive SendDidAuthenticateResponseEac2 = [PT_TRANSMIT, PT_DISCONNECT, PT_STARTPAOS_RESPONSE]"
| "typesToReceive SendTransmitResponse = [PT_TRANSMIT, PT_DISCONNECT, PT_STARTPAOS_RESPONSE]"
| "typesToReceive SendDisconnectResponse = [PT_STARTPAOS_RESPONSE]"
| "typesToReceive _ = []"

fun stateMachineSignal :: "auth_state \<Rightarrow> nat \<Rightarrow> auth_signal option" where
  "stateMachineSignal SendStartPaos n =
     (if n = 3 then Some fireReceivedDidList
      else if n = 4 then Some fireReceivedExtractCvcsFromEac1InputType
      else if n = 5 then Some fireReceivedStartPaosResponse else None)"
| "stateMachineSignal SendInitializeFrameworkResponse n =
     (if n = 3 then Some fireReceivedExtractCvcsFromEac1InputType
      else if n = 4 then Some fireReceivedStartPaosResponse else None)"
| "stateMachineSignal SendDidAuthenticatResponseEacAdditionalInput n =
     (if n = 3 then Some fireReceivedStartPaosResponse else None)"
| "stateMachineSignal SendDisconnectResponse n = None"
| "stateMachineSignal _ n =
     (if n = 3 then Some fireReceivedDisconnect
      else if n = 4 then Some fireReceivedStartPaosResponse else None)"

fun isSendReceive :: "auth_state \<Rightarrow> bool" where
  "isSendReceive st = (typesToReceive st \<noteq> [])"

text \<open>The type of the message that a state sends; \<open>None\<close> when the object is not there.\<close>

fun getAsCreator :: "auth_state \<Rightarrow> workflow_data \<Rightarrow> PaosType option" where
  "getAsCreator SendStartPaos c = Some PT_STARTPAOS"
| "getAsCreator SendInitializeFrameworkResponse c =
     (if aw_hasInitializeFrameworkResponse c then Some PT_INITIALIZE_FRAMEWORK_RESPONSE else None)"
| "getAsCreator SendDidListResponse c = (if aw_hasDidListResponse c then Some PT_DID_LIST_RESPONSE else None)"
| "getAsCreator SendDidAuthenticateResponseEac1 c =
     map_option (\<lambda>_. PT_DID_AUTHENTICATE_RESPONSE_EAC1) (aw_responseEac1 c)"
| "getAsCreator SendDidAuthenticatResponseEacAdditionalInput c =
     map_option (\<lambda>_. PT_DID_AUTHENTICATE_RESPONSE_EAC2) (aw_responseAdditional c)"
| "getAsCreator SendDidAuthenticateResponseEac2 c =
     map_option (\<lambda>_. PT_DID_AUTHENTICATE_RESPONSE_EAC2) (aw_responseEac2 c)"
| "getAsCreator SendTransmitResponse c = (if aw_transmitResponses c = [] then None else Some PT_TRANSMIT_RESPONSE)"
| "getAsCreator SendDisconnectResponse c = (if aw_hasDisconnectResponse c then Some PT_DISCONNECT_RESPONSE else None)"
| "getAsCreator _ c = None"

fun setReceivedMessage :: "paos_message \<Rightarrow> workflow_data \<Rightarrow> workflow_data" where
  "setReceivedMessage (StartPaosResponse r) c = c\<lparr>aw_startPaosResponse := Some r\<rparr>"
| "setReceivedMessage InitializeFramework c = c\<lparr>aw_hasInitializeFrameworkResponse := True\<rparr>"
| "setReceivedMessage DIDList c = c\<lparr>aw_hasDidListResponse := True\<rparr>"
| "setReceivedMessage (DIDAuthenticateEAC1 e) c = c\<lparr>nc_eac1 := Some e, aw_responseEac1 := Some emptyEac1Response\<rparr>"
| "setReceivedMessage (DIDAuthenticateEAC2 e) c =
     c\<lparr>au_eac2 := Some e, aw_responseEac2 := Some emptyEac2Response, aw_responseAdditional := Some []\<rparr>"
| "setReceivedMessage (DIDAuthenticateEACAdditional s) c = c\<lparr>aw_eacAdditional := Some s\<rparr>"
| "setReceivedMessage (TransmitMessage apdus) c =
     c\<lparr>aw_transmits := aw_transmits c @ [apdus], aw_transmitResponses := aw_transmitResponses c @ [[]]\<rparr>"
| "setReceivedMessage Disconnect c = c\<lparr>aw_hasDisconnectResponse := True\<rparr>"

section \<open>Effects\<close>

datatype card_call =
    CallEac1 | CallEac2 "cvc list" string string bytes | CallTransmit "input_apdu list" | CallUpdateRetryCounter

text \<open>A message carries its result, where it has one, and what the card answered.\<close>

datatype auth_effect =
    SendPaos PaosType "ecard_result option" "string list" | CardCall card_call
  | RedirectTo url global_status | ErrorPage nat

fun payload :: "auth_state \<Rightarrow> workflow_data \<Rightarrow> string list" where
  "payload SendDidAuthenticateResponseEac1 c = (case aw_responseEac1 c of None \<Rightarrow> [] | Some r \<Rightarrow> [r1_challenge r])"
| "payload SendDidAuthenticateResponseEac2 c =
     (case aw_responseEac2 c of None \<Rightarrow> []
      | Some r \<Rightarrow> [r2_authenticationToken r, r2_efCardSecurity r, r2_nonce r])"
| "payload SendDidAuthenticatResponseEacAdditionalInput c =
     (case aw_responseAdditional c of None \<Rightarrow> [] | Some s \<Rightarrow> [s])"
| "payload SendTransmitResponse c = (if aw_transmitResponses c = [] then [] else last (aw_transmitResponses c))"
| "payload _ c = []"

text \<open>The result of a response: an error is put into one message, and only if it is not the server's.\<close>

definition setPaosResult :: "auth_env \<Rightarrow> workflow_data \<Rightarrow> ecard_result \<times> workflow_data" where
  "setPaosResult E c =
    (if \<not> aw_errorReportedToServer c \<and> isError (nc_status c) \<and> gs_origin (nc_status c) \<noteq> Server
     then (if \<not> isOk (aw_startPaosResult c) then aw_startPaosResult c else fromStatus (ae_describe E) (nc_status c),
           c\<lparr>aw_errorReportedToServer := True\<rparr>)
     else (createOk, c))"

section \<open>What a state does when it runs\<close>

text \<open>A state emits a signal, waits for an answer, or uses a null pointer.\<close>

datatype run_outcome = Emit auth_signal | Wait | Undef

definition runSendReceive ::
  "auth_env \<Rightarrow> auth_state \<Rightarrow> workflow_data \<Rightarrow> run_outcome \<times> workflow_data \<times> auth_effect list" where
  "runSendReceive E st c =
    (case (getAsCreator st c, nc_tcToken c) of
       (Some t, Some token) \<Rightarrow>
         (if st = SendStartPaos then (Wait, c, [SendPaos t None []])
          else (case setPaosResult E c of (result, c') \<Rightarrow> (Wait, c', [SendPaos t (Some result) (payload st c)])))
     | _ \<Rightarrow> (Undef, c, []))"

definition runParseTcTokenUrl :: "auth_env \<Rightarrow> workflow_data \<Rightarrow> run_outcome \<times> workflow_data" where
  "runParseTcTokenUrl E c =
    (let tcTokenURL = te_urlOf E (case map_of (ae_activationQuery E) ''tcTokenURL'' of None \<Rightarrow> [] | Some v \<Rightarrow> v)
     in if url_isValid tcTokenURL then (Emit fireContinue, c\<lparr>nc_tcTokenUrl := tcTokenURL\<rparr>)
        else (Emit fireAbort, setStatus GS_Workflow_Wrong_Parameter_Invocation c))"

definition runEacAdditionalInputType :: "workflow_data \<Rightarrow> run_outcome \<times> workflow_data" where
  "runEacAdditionalInputType c =
    (case au_eac2 c of
       None \<Rightarrow> (Undef, c)
     | Some e \<Rightarrow>
        if e2_signature e \<noteq> [] then (Emit fireContinue, c)
        else (case (aw_responseAdditional c, aw_responseEac1 c) of
                (Some _, Some r) \<Rightarrow>
                  (Emit fireSendDidAuthenticatResponse, c\<lparr>aw_responseAdditional := Some (r1_challenge r)\<rparr>)
              | _ \<Rightarrow> (Undef, c)))"

definition runDidAuthenticateEac2 :: "workflow_data \<Rightarrow> run_outcome \<times> workflow_data \<times> auth_effect list" where
  "runDidAuthenticateEac2 c =
    (case (au_eac2 c, nc_eac1 c, au_paceOutput c) of
       (Some eac2, Some eac1, Some paceOutput) \<Rightarrow>
         (let signatureAsHex = (if e2_signature eac2 \<noteq> [] then e2_signature eac2
                                else case aw_eacAdditional c of None \<Rightarrow> [] | Some s \<Rightarrow> s);
              cvcChain = context_getChainForCertificationAuthority c paceOutput
          in if \<not> isValidChain cvcChain then (Emit fireAbort, setStatus GS_Workflow_No_Permission_Error c, [])
             else if \<not> aw_hasCardConnection c then (Undef, c, [])
             else (Wait, c, [CardCall (CallEac2 cvcChain (e2_ephemeralPublicKey eac2) signatureAsHex
                               (e1_auxiliaryDataAsBinary eac1))]))
     | _ \<Rightarrow> (Undef, c, []))"

definition runStartPaosResponseState :: "auth_env \<Rightarrow> workflow_data \<Rightarrow> run_outcome \<times> workflow_data" where
  "runStartPaosResponseState E c =
    (case aw_startPaosResponse c of
       None \<Rightarrow> (Undef, c)
     | Some result \<Rightarrow>
        (case runStartPaosResponse (ae_tr E) result \<lparr>pc_status = nc_status c, pc_startPaosResult = aw_startPaosResult c\<rparr> of
           (ok, p) \<Rightarrow> (Emit (if ok then fireContinue else fireAbort),
                      c\<lparr>nc_status := pc_status p, aw_startPaosResult := pc_startPaosResult p\<rparr>)))"

definition runWriteHistory :: "auth_env \<Rightarrow> workflow_data \<Rightarrow> run_outcome" where
  "runWriteHistory E c =
    (if \<not> ae_historyEnabled E then Emit fireContinue
     else if nc_eac1 c = None \<or> ax_effective (au_rights c) = {} then Emit fireAbort
     else Emit fireContinue)"

definition sendErrorPage :: "auth_env \<Rightarrow> nat \<Rightarrow> workflow_data \<Rightarrow> run_outcome \<times> workflow_data \<times> auth_effect list" where
  "sendErrorPage E pStatus c =
    (if ae_sendErrorPage E then (Emit fireContinue, c, [ErrorPage pStatus])
     else (Emit fireAbort, setStatus GS_Workflow_Error_Page_Transmission_Error c, [ErrorPage pStatus]))"

text \<open>The result goes through a status once more before it is added to the URL.\<close>

definition sendRedirect ::
  "auth_env \<Rightarrow> url \<Rightarrow> ecard_result \<Rightarrow> workflow_data \<Rightarrow> run_outcome \<times> workflow_data \<times> auth_effect list" where
  "sendRedirect E pRedirectAddress pResult c =
    (let effect = RedirectTo pRedirectAddress (toStatus (ae_tr E) pResult)
     in if ae_sendRedirect E then (Emit fireContinue, c, [effect])
        else (Emit fireAbort, setStatus GS_Workflow_Redirect_Transmission_Error c, [effect]))"

definition runRedirectBrowser :: "auth_env \<Rightarrow> workflow_data \<Rightarrow> run_outcome \<times> workflow_data \<times> auth_effect list" where
  "runRedirectBrowser E c =
    (if aw_skipRedirect c then (Emit fireContinue, c, [])
     else if nc_tcTokenNotFound c then sendErrorPage E 404 c
     else if url_isEmpty (nc_refreshUrl c) then
       (case nc_tcToken c of
          Some token \<Rightarrow>
            if url_isValid (tt_communicationErrorAddress token)
            then sendRedirect E (tt_communicationErrorAddress token)
                   (fromStatus (ae_describe E) (clientStatus GS_Workflow_Communication_Missing_Redirect_Url)) c
            else sendErrorPage E 400 c
        | None \<Rightarrow> sendErrorPage E 400 c)
     else if \<not> isOk (aw_startPaosResult c) then sendRedirect E (nc_refreshUrl c) (aw_startPaosResult c) c
     else sendRedirect E (nc_refreshUrl c) (fromStatus (ae_describe E) (nc_status c)) c)"

text \<open>
  The states but those that send a message and the two machines of RefreshAddress. The states
  without a card listener or logic of their own only go on: the ones that hand on a message,
  the dialog for feedback and the survey (which is built for other platforms).
\<close>

definition runPlainState ::
  "auth_env \<Rightarrow> auth_state \<Rightarrow> workflow_data \<Rightarrow> run_outcome \<times> workflow_data \<times> auth_effect list" where
  "runPlainState E st c =
    (case st of
       Processing \<Rightarrow>
         if ae_sendProcessing E then (Emit fireContinue, c, [])
         else (Emit fireAbort, setStatus GS_Workflow_Processing_Error c, [])
     | ParseTcTokenUrl \<Rightarrow> (case runParseTcTokenUrl E c of (out, c) \<Rightarrow> (out, c, []))
     | StartPaos \<Rightarrow> (if nc_tcToken c = None then Undef else Emit fireContinue, c, [])
     | ProcessCvcsAndSetRights \<Rightarrow>
         (case nc_eac1 c of
            None \<Rightarrow> (Undef, c, [])
          | Some eac1 \<Rightarrow>
             (case runProcessCvcs (trust_env.truncate E) eac1 c of
                None \<Rightarrow> (Undef, c, [])
              | Some (ok, c) \<Rightarrow> (if ok then Wait else Emit fireAbort, c, [])))
     | PaceState \<Rightarrow> (Wait, c, [])
     | ClearPacePasswordsState \<Rightarrow> (Emit fireContinue, clearPasswords c, [])
     | DidAuthenticateEac1State \<Rightarrow>
         if aw_hasCardConnection c then (Wait, c, [CardCall CallEac1]) else (Undef, c, [])
     | EacAdditionalInputType \<Rightarrow> (case runEacAdditionalInputType c of (out, c) \<Rightarrow> (out, c, []))
     | ProcessCertificatesFromEac2 \<Rightarrow>
         (case (nc_eac1 c, au_eac2 c) of
            (Some eac1, Some eac2) \<Rightarrow>
              (case runProcessCertificatesFromEac2 (trust_env.truncate E) eac1 eac2 c of
                 None \<Rightarrow> (Undef, c, [])
               | Some (ok, c) \<Rightarrow> (Emit (if ok then fireContinue else fireAbort), c, []))
          | _ \<Rightarrow> (Undef, c, []))
     | DidAuthenticateEac2State \<Rightarrow> runDidAuthenticateEac2 c
     | TransmitState \<Rightarrow>
         if aw_transmits c = [] \<or> \<not> aw_hasCardConnection c then (Undef, c, [])
         else (Wait, c, [CardCall (CallTransmit (last (aw_transmits c)))])
     | StartPaosResponseState \<Rightarrow> (case runStartPaosResponseState E c of (out, c) \<Rightarrow> (out, c, []))
     | UpdateRetryCounterFinal \<Rightarrow>
         if aw_hasCardConnection c then (Wait, c, [CardCall CallUpdateRetryCounter]) else (Emit fireAbort, c, [])
     | CleanUpReaderManager \<Rightarrow> (Emit fireContinue, c\<lparr>aw_hasCardConnection := False\<rparr>, [])
     | WriteHistory \<Rightarrow> (runWriteHistory E c, c, [])
     | RedirectBrowser \<Rightarrow> runRedirectBrowser E c
     | _ \<Rightarrow> (Emit fireContinue, c, []))"

section \<open>The machine\<close>

datatype auth_phase = PhEntered | PhRunning | PhUndefined

text \<open>The members of the two states that are machines of their own.\<close>

record auth_machine =
  am_state :: auth_state
  am_phase :: auth_phase
  am_tokenUrl :: url
  am_refresh :: "url \<times> url \<times> bool \<times> url list \<times> refresh_phase"
  am_context :: workflow_data

datatype auth_event =
    Approve | Cancel | CardRemoved | Net network_event | PaosReply reply_error int "paos_message option"
  | EditRights rights_op | EnterPassword string string string
  | PaceEstablished "bytes \<times> bytes" | PacePukEstablished | PaceAborted GlobalStatusCode bool
  | Eac1Done CardReturnCode string | Eac2Done CardReturnCode string string string
  | TransmitDone CardReturnCode "string list" | RetryCounterDone CardReturnCode

definition emit :: "auth_signal \<Rightarrow> auth_machine \<Rightarrow> auth_machine" where
  "emit s m = (case authTransition (am_state m) s of
       None \<Rightarrow> m
     | Some st \<Rightarrow> m\<lparr>am_state := st, am_phase := PhEntered\<rparr>)"

definition withContext :: "workflow_data \<Rightarrow> auth_machine \<Rightarrow> auth_machine" where
  "withContext c m = m\<lparr>am_context := c\<rparr>"

definition proceed :: "run_outcome \<times> workflow_data \<times> auth_effect list \<Rightarrow> auth_machine \<Rightarrow> auth_machine \<times> auth_effect list" where
  "proceed r m = (case r of (out, c, fx) \<Rightarrow>
     let m = m\<lparr>am_context := c, am_phase := PhRunning\<rparr>
     in (case out of Emit s \<Rightarrow> emit s m | Wait \<Rightarrow> m | Undef \<Rightarrow> m\<lparr>am_phase := PhUndefined\<rparr>, fx))"

definition abortWith :: "GlobalStatusCode \<Rightarrow> auth_machine \<Rightarrow> auth_machine" where
  "abortWith s m = emit fireAbort (withContext (setStatus s (am_context m)) m)"

definition tokenEvent :: "auth_env \<Rightarrow> network_event \<Rightarrow> auth_machine \<Rightarrow> auth_machine" where
  "tokenEvent E ne m =
    (let g = token_step (te_settings E) (te_urlOf E)
           \<lparr>gt_url = am_tokenUrl m, gt_phase = (if am_phase m = PhEntered then TokenEntered else TokenGetting),
            gt_context = am_context m\<rparr> ne;
         m' = m\<lparr>am_context := gt_context g, am_tokenUrl := gt_url g\<rparr>
     in case gt_phase g of
          TokenEntered \<Rightarrow> m'
        | TokenGetting \<Rightarrow> m'\<lparr>am_phase := PhRunning\<rparr>
        | TokenLeft b \<Rightarrow> emit (if b then fireContinue else fireAbort) (m'\<lparr>am_phase := PhRunning\<rparr>))"

definition refreshEvent :: "auth_env \<Rightarrow> network_event \<Rightarrow> auth_machine \<Rightarrow> auth_machine" where
  "refreshEvent E ne m =
    (case am_refresh m of (mUrl, mSubjectUrl, fetched, verified, phase) \<Rightarrow>
      let r = refresh_step (te_settings E) (te_urlStrict E)
            \<lparr>rs_url = mUrl, rs_subjectUrl = mSubjectUrl, rs_certificateFetched = fetched, rs_verified = verified,
             rs_phase = phase, rs_context = am_context m\<rparr> ne;
          m' = m\<lparr>am_context := rs_context r,
                 am_refresh := (rs_url r, rs_subjectUrl r, rs_certificateFetched r, rs_verified r, rs_phase r)\<rparr>
      in case rs_phase r of
           Entered \<Rightarrow> m'
         | Left b \<Rightarrow> emit (if b then fireContinue else fireAbort) (m'\<lparr>am_phase := PhRunning\<rparr>)
         | _ \<Rightarrow> m'\<lparr>am_phase := PhRunning\<rparr>)"

text \<open>The handshake with the server: its certificate, and the session of the TC token or a PSK.\<close>

definition onServerHandshake :: "auth_env \<Rightarrow> ssl_configuration \<Rightarrow> auth_machine \<Rightarrow> auth_machine" where
  "onServerHandshake E cfg m =
    (case nc_tcToken (am_context m) of
       None \<Rightarrow> m\<lparr>am_phase := PhUndefined\<rparr>
     | Some token \<Rightarrow>
        (case certificateStatus (te_settings E) (am_context m) (cfg_peerCertificate cfg) of
           Unsupported_Algorithm_Or_Length \<Rightarrow>
             abortWith GS_Workflow_TrustedChannel_Ssl_Certificate_Unsupported_Algorithm_Or_Length m
         | Hash_Not_In_Description \<Rightarrow> abortWith GS_Workflow_TrustedChannel_Hash_Not_In_Description m
         | Good \<Rightarrow>
             let c = addCertificateData (tt_serverAddress token) (cfg_peerCertificate cfg) (am_context m);
                 session = nc_sslSession c
             in if \<not> usePsk token \<and> (session = [] \<or> session \<noteq> cfg_sessionTicket cfg) \<and>
                   \<not> st_developerMode (te_settings E)
                then abortWith GS_Workflow_TrustedChannel_Ssl_Establishment_Error (withContext c m)
                else withContext c m))"

definition serverEvent :: "auth_env \<Rightarrow> network_event \<Rightarrow> auth_machine \<Rightarrow> auth_machine" where
  "serverEvent E ne m =
    (case ne of
       SslErrors errs \<Rightarrow>
         if containsFatalError (te_settings E) errs
         then abortWith GS_Workflow_TrustedChannel_Establishment_Error m else m
     | Encrypted cfg \<Rightarrow> onServerHandshake E cfg m
     | _ \<Rightarrow> m)"

fun indexOf :: "'a \<Rightarrow> 'a list \<Rightarrow> nat" where
  "indexOf x [] = 0"
| "indexOf x (y # ys) = (if x = y then 0 else Suc (indexOf x ys))"

definition onReplyFinished ::
  "reply_error \<Rightarrow> int \<Rightarrow> paos_message option \<Rightarrow> auth_machine \<Rightarrow> auth_machine" where
  "onReplyFinished err statusCode msg m =
    (let expected = typesToReceive (am_state m); t = detectedPaosType msg
     in if err \<noteq> NoError then abortWith (toTrustedChannelStatus (toNetworkError err)) m
        else if statusCode \<ge> 500 then abortWith GS_Workflow_TrustedChannel_Error_From_Server m
        else if t \<notin> set expected then
          abortWith (if t = PT_UNKNOWN_MESSAGE then GS_Workflow_Unknown_Paos_Form_EidServer
                     else GS_Workflow_Unexpected_Message_From_EidServer) m
        else
          let m = withContext (case msg of None \<Rightarrow> am_context m | Some p \<Rightarrow> setReceivedMessage p (am_context m)) m;
              result = indexOf t expected
          in if result = 0 then emit fireContinue m
             else (case stateMachineSignal (am_state m) (result + 2) of None \<Rightarrow> m | Some s \<Rightarrow> emit s m))"

text \<open>The states that listen for the removal of the card.\<close>

definition connectsOnCardRemoved :: "auth_state \<Rightarrow> bool" where
  "connectsOnCardRemoved st \<longleftrightarrow> st \<in>
     {Processing, ParseTcTokenUrl, DidAuthenticateEac1State, SendDidAuthenticateResponseEac1,
      EacAdditionalInputType, SendDidAuthenticatResponseEacAdditionalInput, ProcessCertificatesFromEac2,
      DidAuthenticateEac2State, SendDidAuthenticateResponseEac2, TransmitState, SendTransmitResponse,
      SendDisconnectResponse, StartPaosResponseState}"

definition onEac1Done :: "CardReturnCode \<Rightarrow> string \<Rightarrow> auth_machine \<Rightarrow> auth_machine" where
  "onEac1Done rc challenge m =
    (let c = am_context m
     in if rc \<noteq> CR_OK then abortWith (toGlobalStatus rc) m
        else case (aw_responseEac1 c, au_paceOutput c, ax_terminalCvc (au_rights c)) of
               (Some r, Some paceOutput, Some cvc) \<Rightarrow>
                 let r = r\<lparr>r1_chat := Some (effectiveChat cvc (au_rights c)), r1_challenge := challenge\<rparr>;
                     r = (if \<not> hasChainForCertificationAuthority c paceOutput
                          then r\<lparr>r1_certificationAuthorityReference := Some paceOutput\<rparr> else r)
                 in emit fireContinue (withContext (c\<lparr>aw_responseEac1 := Some r\<rparr>) m)
             | _ \<Rightarrow> m\<lparr>am_phase := PhUndefined\<rparr>)"

text \<open>After a failure the answers are set all the same; the second signal comes too late.\<close>

definition onEac2Done :: "CardReturnCode \<Rightarrow> string \<Rightarrow> string \<Rightarrow> string \<Rightarrow> auth_machine \<Rightarrow> auth_machine" where
  "onEac2Done rc token efSecurity nonce m =
    (let c = (if rc = CR_OK then am_context m
              else setStatus (if rc = CR_COMMAND_FAILED then GS_Workflow_Card_Removed
                              else GS_Workflow_No_Permission_Error) (am_context m))
     in case aw_responseEac2 c of
          None \<Rightarrow> m\<lparr>am_phase := PhUndefined\<rparr>
        | Some _ \<Rightarrow>
           emit (if rc = CR_OK then fireContinue else fireAbort)
             (withContext (c\<lparr>aw_responseEac2 := Some \<lparr>r2_authenticationToken = token, r2_efCardSecurity = efSecurity,
                 r2_nonce = nonce\<rparr>\<rparr>) m))"

definition onTransmitDone :: "CardReturnCode \<Rightarrow> string list \<Rightarrow> auth_machine \<Rightarrow> auth_machine" where
  "onTransmitDone rc outputs m =
    (let c = am_context m
     in if rc = CR_OK \<or> rc = CR_UNEXPECTED_TRANSMIT_STATUS then
          (if aw_transmitResponses c = [] then m\<lparr>am_phase := PhUndefined\<rparr>
           else
             let c = c\<lparr>aw_transmitResponses := butlast (aw_transmitResponses c) @ [outputs]\<rparr>
             in emit fireContinue (withContext (if rc = CR_OK then c else setStatus (toGlobalStatus rc) c) m))
        else abortWith (toGlobalStatus rc) m)"

definition approveState :: "auth_env \<Rightarrow> auth_machine \<Rightarrow> auth_machine \<times> auth_effect list" where
  "approveState E m =
    (let st = am_state m
     in if st = FinalState then (m\<lparr>am_state := Stopped\<rparr>, [])
        else if st = GetTcToken then (tokenEvent E RunState m, [])
        else if st = CheckRefreshAddress then (refreshEvent E RunState m, [])
        else if isSendReceive st then proceed (runSendReceive E st (am_context m)) m
        else proceed (runPlainState E st (am_context m)) m)"

text \<open>The answers that the running state waits for.\<close>

definition answerEvent :: "auth_env \<Rightarrow> auth_event \<Rightarrow> auth_machine \<Rightarrow> auth_machine" where
  "answerEvent E e m =
    (let st = am_state m; c = am_context m
     in case e of
          Net ne \<Rightarrow>
            if st = GetTcToken then tokenEvent E ne m
            else if st = CheckRefreshAddress then refreshEvent E ne m
            else if isSendReceive st then serverEvent E ne m else m
        | PaosReply err statusCode msg \<Rightarrow> if isSendReceive st then onReplyFinished err statusCode msg m else m
        | PaceEstablished paceOutput \<Rightarrow>
            if st = PaceState
            then emit firePaceChannelEstablished (withContext (c\<lparr>au_paceOutput := Some paceOutput, aw_hasCardConnection := True\<rparr>) m)
            else m
        | PacePukEstablished \<Rightarrow>
            if st = PaceState
            then emit firePacePukEstablished (withContext ((clearPasswords c)\<lparr>aw_hasCardConnection := True\<rparr>) m) else m
        | PaceAborted s connected \<Rightarrow>
            if st = PaceState
            then abortWith s (withContext ((clearPasswords c)\<lparr>aw_hasCardConnection := connected\<rparr>) m) else m
        | Eac1Done rc challenge \<Rightarrow> if st = DidAuthenticateEac1State then onEac1Done rc challenge m else m
        | Eac2Done rc token ef nonce \<Rightarrow> if st = DidAuthenticateEac2State then onEac2Done rc token ef nonce m else m
        | TransmitDone rc outputs \<Rightarrow> if st = TransmitState then onTransmitDone rc outputs m else m
        | RetryCounterDone rc \<Rightarrow>
            if st \<noteq> UpdateRetryCounterFinal then m
            else if rc \<noteq> CR_OK then emit fireAbort (withContext (c\<lparr>aw_hasCardConnection := False\<rparr>) m)
            else emit fireContinue m
        | _ \<Rightarrow> m)"

text \<open>
  The states within PACE are approved one by one, so its end does not wait for an approval here.
  The rights can be edited at any time. The last of the states that process the certificates waits
  for the user, whose approval ends it. The cancellation of PACE ends in \<open>PaceAborted\<close>.
\<close>

definition auth_step :: "auth_env \<Rightarrow> auth_machine \<Rightarrow> auth_event \<Rightarrow> auth_machine \<times> auth_effect list" where
  "auth_step E m e =
    (let c = am_context m
     in if am_phase m = PhUndefined \<or> am_state m = Stopped then (m, [])
        else case e of
          Approve \<Rightarrow>
            if am_phase m = PhEntered then approveState E m
            else if am_state m = ProcessCvcsAndSetRights then (emit fireContinue m, []) else (m, [])
        | Cancel \<Rightarrow>
            if am_state m = PaceState then (withContext (setStatus GS_Workflow_Cancellation_By_User c) m, [])
            else (abortWith GS_Workflow_Cancellation_By_User m, [])
        | CardRemoved \<Rightarrow>
            (if connectsOnCardRemoved (am_state m) then abortWith GS_Workflow_Card_Removed m else m, [])
        | EditRights op \<Rightarrow> (withContext (c\<lparr>au_rights := rights_step (au_rights c) op\<rparr>) m, [])
        | EnterPassword pin can puk \<Rightarrow>
            (if am_state m = PaceState then withContext (c\<lparr>aw_pin := pin, aw_can := can, aw_puk := puk\<rparr>) m else m, [])
        | _ \<Rightarrow> (if am_phase m = PhRunning \<or> am_state m = PaceState then answerEvent E e m else m, []))"

fun auth_run :: "auth_env \<Rightarrow> auth_machine \<Rightarrow> auth_event list \<Rightarrow> auth_machine \<times> auth_effect list" where
  "auth_run E m [] = (m, [])"
| "auth_run E m (e # es) =
    (case auth_step E m e of (m', fx) \<Rightarrow> (case auth_run E m' es of (m'', fx') \<Rightarrow> (m'', fx @ fx')))"

definition initialData :: "cvc list \<Rightarrow> workflow_data" where
  "initialData links = \<lparr>nc_status = clientStatus GS_No_Error, nc_tcTokenUrl = emptyUrl, nc_tcToken = None,
     nc_tcTokenNotFound = True, nc_refreshUrl = emptyUrl, nc_certificates = [], nc_sslSession = [], nc_eac1 = None,
     nc_dvCvc = None, au_rights = noRights, au_chainBuilderProd = [], au_chainBuilderTest = [],
     au_linkCertificates = links, au_paceOutput = None, au_eac2 = None, aw_pin = [], aw_can = [], aw_puk = [],
     aw_hasCardConnection = False, aw_startPaosResult = createOk, aw_startPaosResponse = None,
     aw_errorReportedToServer = False, aw_skipRedirect = False, aw_hasInitializeFrameworkResponse = False,
     aw_hasDidListResponse = False, aw_hasDisconnectResponse = False, aw_responseEac1 = None,
     aw_responseAdditional = None, aw_responseEac2 = None, aw_eacAdditional = None, aw_transmits = [],
     aw_transmitResponses = []\<rparr>"

definition initialMachine :: "cvc list \<Rightarrow> auth_machine" where
  "initialMachine links = \<lparr>am_state = Processing, am_phase = PhEntered, am_tokenUrl = emptyUrl,
     am_refresh = (emptyUrl, emptyUrl, False, [], Entered), am_context = initialData links\<rparr>"

end
