(* ===== verification/AuthSafety.thy ===== *)
theory AuthSafety
  imports AuthWorkflow
begin

text \<open>
  What the workflow of an authentication guarantees over all runs: the card is asked to
  authenticate only for a server whose certificates were verified and after PACE, the chain that is
  presented to the card ends in the certificate that the user saw, the server is told of an error
  at most once, and every workflow can be ended. And what it does not: a cancellation does
  not keep the workflow from going on with the card.
\<close>

section \<open>The table\<close>

text \<open>The states before the certificates of the server are there, and those with no more of EAC.\<close>

definition beforeEac :: "auth_state set" where
  "beforeEac = {Processing, ParseTcTokenUrl, GetTcToken, StartPaos, SendStartPaos, InitializeFrameworkState,
     SendInitializeFrameworkResponse, DidListState, SendDidListResponse, ProcessCvcsAndSetRights}"

definition afterEac :: "auth_state set" where
  "afterEac = {SendDisconnectResponse, StartPaosResponseState, UpdateRetryCounterFinal, CleanUpReaderManager,
     CheckRefreshAddress, ActivateStoreFeedbackDialog, WriteHistory, SendWhitelistSurvey, RedirectBrowser,
     FinalState, Stopped}"

lemma authTransition_all:
  assumes "authTransition st s = Some st'" "list_all (\<lambda>((a, b), c). P a b c) authTable"
  shows "P st s st'"
  using map_of_SomeD [OF assms(1) [unfolded authTransition_def]] assms(2) by (auto simp: list_all_iff)

lemma transition_afterEac:
  assumes "authTransition st s = Some st'" "st \<in> afterEac" shows "st' \<in> afterEac"
proof -
  have "list_all (\<lambda>((a, b), c). a \<in> afterEac \<longrightarrow> c \<in> afterEac) authTable"
    by (simp add: authTable_def afterEac_def)
  from authTransition_all [OF assms(1) this] assms(2) show ?thesis by blast
qed

lemma transition_beforeEac:
  assumes "authTransition st s = Some st'" "st' \<in> beforeEac" shows "st \<in> beforeEac"
proof -
  have "list_all (\<lambda>((a, b), c). c \<in> beforeEac \<longrightarrow> a \<in> beforeEac) authTable"
    by (simp add: authTable_def beforeEac_def)
  from authTransition_all [OF assms(1) this] assms(2) show ?thesis by blast
qed

lemma transition_PaceState:
  assumes "authTransition st s = Some PaceState"
  shows "st = PaceState \<or> st = ProcessCvcsAndSetRights \<and> s = fireContinue"
  using authTransition_all [OF assms(1), of
      "\<lambda>a b c. c = PaceState \<longrightarrow> a = PaceState \<or> a = ProcessCvcsAndSetRights \<and> b = fireContinue"]
  by (simp add: authTable_def)

lemma transition_Clear:
  assumes "authTransition st s = Some ClearPacePasswordsState"
  shows "st = PaceState \<and> s = firePaceChannelEstablished"
  using authTransition_all [OF assms(1), of
      "\<lambda>a b c. c = ClearPacePasswordsState \<longrightarrow> a = PaceState \<and> b = firePaceChannelEstablished"]
  by (simp add: authTable_def)

lemma transition_Eac1:
  assumes "authTransition st s = Some DidAuthenticateEac1State"
  shows "st = ClearPacePasswordsState"
  using authTransition_all [OF assms(1), of "\<lambda>a b c. c = DidAuthenticateEac1State \<longrightarrow> a = ClearPacePasswordsState"]
  by (simp add: authTable_def)

lemma transition_Eac2:
  assumes "authTransition st s = Some DidAuthenticateEac2State"
  shows "st = ProcessCertificatesFromEac2 \<and> s = fireContinue"
  using authTransition_all [OF assms(1), of
      "\<lambda>a b c. c = DidAuthenticateEac2State \<longrightarrow> a = ProcessCertificatesFromEac2 \<and> b = fireContinue"]
  by (simp add: authTable_def)

section \<open>The server that the card is asked for\<close>

text \<open>
  The server was verified: the chain of its certificates, the description of its certificate, the
  origin of the TC token and all TLS certificates seen so far.
\<close>

definition serverVerified :: "trust_env \<Rightarrow> workflow_data \<Rightarrow> bool" where
  "serverVerified T c \<longleftrightarrow> (\<exists>eac1 chain t d descr binary subjectUrl.
     nc_eac1 c = Some eac1 \<and> ax_terminalCvc (au_rights c) = Some t \<and> nc_dvCvc c = Some d \<and>
     verifiedChain T chain d t \<and> filter isAT (e1_cvCertificates eac1) = [t] \<and>
     e1_descriptionAsBinary eac1 = Some binary \<and> te_hash T (cvc_hashOid t) binary = te_descriptionExtension T t \<and>
     e1_description eac1 = Some descr \<and> cd_subjectUrl descr = Some subjectUrl \<and>
     isMatchingSameOriginPolicy (te_urlOf T subjectUrl) (nc_tcTokenUrl c) \<and>
     (\<forall>(u, cert) \<in> set (nc_certificates c). checkCertificate cert (cvc_hashOid d) (cd_commCertificates descr)))"

text \<open>The terminal certificates among those that chains are built of are the one of the context.\<close>

definition builtFor :: "cvc option \<Rightarrow> cvc list list \<Rightarrow> bool" where
  "builtFor t cs \<longleftrightarrow> (\<exists>pool. cs = CVCertificateChainBuilder pool \<and> (\<forall>x\<in>set pool. isAT x \<longrightarrow> t = Some x))"

definition trusted :: "trust_env \<Rightarrow> workflow_data \<Rightarrow> bool" where
  "trusted T c \<longleftrightarrow> serverVerified T c \<and> builtFor (ax_terminalCvc (au_rights c)) (au_chainBuilderProd c) \<and>
     builtFor (ax_terminalCvc (au_rights c)) (au_chainBuilderTest c)"

text \<open>The parts of the context that these conditions are about.\<close>

definition trustFrame :: "workflow_data \<Rightarrow> workflow_data \<Rightarrow> bool" where
  "trustFrame c c' \<longleftrightarrow> nc_eac1 c' = nc_eac1 c \<and> nc_dvCvc c' = nc_dvCvc c \<and> nc_tcTokenUrl c' = nc_tcTokenUrl c \<and>
     nc_certificates c' = nc_certificates c \<and> ax_terminalCvc (au_rights c') = ax_terminalCvc (au_rights c) \<and>
     au_chainBuilderProd c' = au_chainBuilderProd c \<and> au_chainBuilderTest c' = au_chainBuilderTest c \<and>
     au_linkCertificates c' = au_linkCertificates c \<and> au_paceOutput c' = au_paceOutput c"

lemma trustFrame_refl [simp, intro]: "trustFrame c c"
  by (simp add: trustFrame_def)

lemma setStatus_more [simp]: "net_context.more (setStatus s c) = net_context.more c"
  "nc_eac1 (setStatus s c) = nc_eac1 c" "nc_dvCvc (setStatus s c) = nc_dvCvc c"
  "nc_tcTokenUrl (setStatus s c) = nc_tcTokenUrl c" "nc_certificates (setStatus s c) = nc_certificates c"
  by (simp_all add: setStatus_def)

lemma more_determines:
  fixes c c' :: workflow_data
  assumes "net_context.more c' = net_context.more c"
  shows "au_rights c' = au_rights c" "au_chainBuilderProd c' = au_chainBuilderProd c"
    "au_chainBuilderTest c' = au_chainBuilderTest c" "au_linkCertificates c' = au_linkCertificates c"
    "au_paceOutput c' = au_paceOutput c" "aw_errorReportedToServer c' = aw_errorReportedToServer c"
    "aw_hasCardConnection c' = aw_hasCardConnection c"
  using assms by (cases c; cases c'; simp)+

lemmas setStatus_workflow [simp] = more_determines [OF setStatus_more(1)]

lemma trustFrame_setStatus [simp]: "trustFrame c (setStatus s c') = trustFrame c c'"
  by (simp add: trustFrame_def)

lemma trustFrame_preserves:
  assumes "trustFrame c c'"
  shows "trusted T c' = trusted T c" "onlyAuthorities T c' = onlyAuthorities T c" "au_paceOutput c' = au_paceOutput c"
  using assms by (simp_all add: trustFrame_def trusted_def serverVerified_def onlyAuthorities_def)

text \<open>The invariant, for every workflow that may still come to the card.\<close>

definition eac_inv :: "trust_env \<Rightarrow> auth_machine \<Rightarrow> bool" where
  "eac_inv T m \<longleftrightarrow> am_state m \<in> afterEac \<or>
     (onlyAuthorities T (am_context m) \<and>
      (am_state m \<in> beforeEac \<longrightarrow> au_paceOutput (am_context m) = None) \<and>
      (au_paceOutput (am_context m) \<noteq> None \<or> am_state m = PaceState \<or>
         am_state m = ProcessCvcsAndSetRights \<and> am_phase m = PhRunning \<longrightarrow> trusted T (am_context m)) \<and>
      (am_state m \<in> {ClearPacePasswordsState, DidAuthenticateEac1State, DidAuthenticateEac2State} \<longrightarrow>
         au_paceOutput (am_context m) \<noteq> None))"

lemma inv_emit:
  assumes "eac_inv T m" "am_state m = ProcessCvcsAndSetRights \<and> s = fireContinue \<longrightarrow> am_phase m = PhRunning"
    and "am_state m = PaceState \<and> s = firePaceChannelEstablished \<longrightarrow> au_paceOutput (am_context m) \<noteq> None"
    and "am_state m = ProcessCertificatesFromEac2 \<and> s = fireContinue \<longrightarrow> au_paceOutput (am_context m) \<noteq> None"
  shows "eac_inv T (emit s m)"
proof (cases "authTransition (am_state m) s")
  case None
  with assms(1) show ?thesis by (simp add: emit_def)
next
  case (Some st')
  show ?thesis
  proof (cases "am_state m \<in> afterEac")
    case True
    with transition_afterEac [OF Some] Some show ?thesis by (simp add: emit_def eac_inv_def)
  next
    case False
    have "trusted T (am_context m)" if "st' = PaceState"
      using transition_PaceState [of "am_state m" s] Some that assms(1,2) False by (auto simp: eac_inv_def)
    moreover have "au_paceOutput (am_context m) \<noteq> None"
      if "st' \<in> {ClearPacePasswordsState, DidAuthenticateEac1State, DidAuthenticateEac2State}"
      using that transition_Clear [of "am_state m" s] transition_Eac1 [of "am_state m" s]
        transition_Eac2 [of "am_state m" s] Some assms False by (auto simp: eac_inv_def)
    ultimately show ?thesis
      using transition_beforeEac [OF Some] assms(1) False Some by (auto simp: emit_def eac_inv_def)
  qed
qed

text \<open>Before the certificates are there, only the stored authorities and the output of PACE matter.\<close>

definition contextKept :: "auth_state \<Rightarrow> workflow_data \<Rightarrow> workflow_data \<Rightarrow> bool" where
  "contextKept st c c' \<longleftrightarrow> trustFrame c c' \<or> st \<in> beforeEac \<and> st \<noteq> ProcessCvcsAndSetRights \<and>
     au_linkCertificates c' = au_linkCertificates c \<and> au_paceOutput c' = au_paceOutput c"

lemma PaceState_not_before [simp]: "PaceState \<notin> beforeEac"
  by (simp add: beforeEac_def)

lemma inv_context: "eac_inv T m \<Longrightarrow> contextKept (am_state m) (am_context m) c \<Longrightarrow> eac_inv T (m\<lparr>am_context := c\<rparr>)"
  unfolding contextKept_def
proof (elim disjE)
  assume "eac_inv T m" "trustFrame (am_context m) c"
  then show ?thesis by (simp add: eac_inv_def trustFrame_preserves)
next
  assume "eac_inv T m" "am_state m \<in> beforeEac \<and> am_state m \<noteq> ProcessCvcsAndSetRights \<and>
     au_linkCertificates c = au_linkCertificates (am_context m) \<and> au_paceOutput c = au_paceOutput (am_context m)"
  moreover from this have "am_state m \<noteq> PaceState" by auto
  ultimately show ?thesis by (auto simp: eac_inv_def onlyAuthorities_def simp del: not_None_eq)
qed

lemma contextKept_setStatus [simp]: "contextKept st c (setStatus s c') = contextKept st c c'"
  by (simp add: contextKept_def)

lemma contextKept_frame [intro]: "trustFrame c c' \<Longrightarrow> contextKept st c c'"
  by (simp add: contextKept_def)

lemma inv_abort: "eac_inv T m \<Longrightarrow> eac_inv T (abortWith s m)"
  by (simp add: abortWith_def withContext_def inv_emit inv_context contextKept_frame)

lemma inv_phase:
  "eac_inv T m \<Longrightarrow> am_state m = ProcessCvcsAndSetRights \<longrightarrow> ph \<noteq> PhRunning \<Longrightarrow> eac_inv T (m\<lparr>am_phase := ph\<rparr>)"
  by (auto simp: eac_inv_def)

text \<open>A run of a state that keeps the frame.\<close>

lemma inv_proceed:
  assumes "eac_inv T m" "am_state m \<notin> {ProcessCvcsAndSetRights, PaceState}"
    and "r = (out, c, fx)" "contextKept (am_state m) (am_context m) c"
    and "am_state m = ProcessCertificatesFromEac2 \<and> out = Emit fireContinue \<longrightarrow> au_paceOutput c \<noteq> None"
  shows "eac_inv T (fst (proceed r m))"
proof -
  have run: "eac_inv T (m\<lparr>am_context := c, am_phase := PhRunning\<rparr>)"
    using inv_phase [OF inv_context [OF assms(1,4)], of PhRunning] assms(2) by simp
  then have "eac_inv T (m\<lparr>am_context := c, am_phase := PhUndefined\<rparr>)" using inv_phase [OF run, of PhUndefined] by simp
  with run show ?thesis
    using assms(2,3,5) by (cases out) (simp_all add: proceed_def inv_emit)
qed

lemma runSendReceive_frame: "trustFrame c (fst (snd (runSendReceive E st c)))"
  by (simp add: runSendReceive_def setPaosResult_def trustFrame_def split: option.split prod.split)

lemma runPlainState_kept:
  assumes "st \<notin> {ProcessCvcsAndSetRights, ProcessCertificatesFromEac2}"
  shows "contextKept st c (fst (snd (runPlainState E st c)))"
proof (cases st)
  case StartPaosResponseState
  then show ?thesis
    by (simp add: contextKept_def runPlainState_def runStartPaosResponseState_def trustFrame_def split: option.split prod.split)
next
  case RedirectBrowser
  then show ?thesis
    by (simp add: contextKept_def runPlainState_def runRedirectBrowser_def sendErrorPage_def sendRedirect_def Let_def split: option.split)
next
  case DidAuthenticateEac2State
  then show ?thesis
    by (simp add: contextKept_def runPlainState_def runDidAuthenticateEac2_def Let_def split: option.split)
next
  case EacAdditionalInputType
  then show ?thesis
    by (auto simp: contextKept_def runPlainState_def runEacAdditionalInputType_def trustFrame_def split: option.split)
next
  case ParseTcTokenUrl
  then show ?thesis
    by (simp add: contextKept_def runPlainState_def runParseTcTokenUrl_def beforeEac_def Let_def)
qed (use assms in \<open>simp_all add: contextKept_def runPlainState_def trustFrame_def clearPasswords_def\<close>)


section \<open>The certificates\<close>

lemma trust_env_truncate [simp]:
  "te_settings (trust_env.truncate E) = te_settings E" "te_preVerificationEnabled (trust_env.truncate E) = te_preVerificationEnabled E"
  "te_prodRoots (trust_env.truncate E) = te_prodRoots E" "te_testRoots (trust_env.truncate E) = te_testRoots E"
  by (simp_all add: trust_env.defs)

lemma foldl_links_authorities:
  assumes "list_all P links"
  shows "list_all P (foldl (\<lambda>ls x. if P x \<and> Q x \<and> R ls x then ls @ [x] else ls) links xs)"
  using assms by (induction xs arbitrary: links) simp_all

lemma save_onlyAuthorities: "onlyAuthorities T c \<Longrightarrow> onlyAuthorities T (saveCvcaLinkCertificates roots chain c)"
  using foldl_links_authorities [of "\<lambda>x. getAccessRole (cvc_chat x) = CVCA" "au_linkCertificates c"]
  by (simp add: onlyAuthorities_def saveCvcaLinkCertificates_def)

lemma onlyAuthorities_noTerminal:
  "onlyAuthorities T c \<Longrightarrow> x \<in> set (au_linkCertificates c @ te_prodRoots T @ te_testRoots T) \<Longrightarrow> \<not> isAT x"
  by (auto simp: onlyAuthorities_def list_all_iff isAT_def)

lemma setStatus_authorities [simp]: 
  fixes c :: workflow_data shows "onlyAuthorities T (setStatus s c) = onlyAuthorities T c"
  by (simp add: onlyAuthorities_def)

lemma saveCvcaLinkCertificates_frame [simp]:
  fixes c :: workflow_data and roots chain
  defines "c' \<equiv> saveCvcaLinkCertificates roots chain c"
  shows "au_paceOutput c' = au_paceOutput c" "nc_eac1 c' = nc_eac1 c" "nc_dvCvc c' = nc_dvCvc c" "au_rights c' = au_rights c"
    "au_chainBuilderProd c' = au_chainBuilderProd c" "au_chainBuilderTest c' = au_chainBuilderTest c"
  by (simp_all add: c'_def saveCvcaLinkCertificates_def)

lemma runPreVerification_keeps:
  fixes c :: workflow_data
  assumes "runPreVerification T c = (b, c')"
  shows "onlyAuthorities T c \<Longrightarrow> onlyAuthorities T c'" "au_paceOutput c' = au_paceOutput c" "nc_eac1 c' = nc_eac1 c"
    "au_rights c' = au_rights c" "au_chainBuilderProd c' = au_chainBuilderProd c"
    "au_chainBuilderTest c' = au_chainBuilderTest c"
  using assms
  by (auto simp: runPreVerification_def Let_def intro: save_onlyAuthorities split: prod.splits if_splits)

lemma extractCvcs_keeps:
  fixes c :: workflow_data
  assumes "extractCvcs eac1 cvcs ft fd c = (s, ft', fd', c')"
  shows "au_linkCertificates c' = au_linkCertificates c \<and> au_paceOutput c' = au_paceOutput c \<and> nc_eac1 c' = nc_eac1 c"
  using assms by (induction eac1 cvcs ft fd c rule: extractCvcs.induct) (simp_all add: Let_def split: if_splits)

lemma runExtractCvcs_keeps:
  fixes c :: workflow_data
  assumes "runExtractCvcs T eac1 c = (b, c')"
  shows "onlyAuthorities T c' = onlyAuthorities T c" "au_paceOutput c' = au_paceOutput c" "nc_eac1 c' = nc_eac1 c"
  using assms
  by (auto simp: runExtractCvcs_def initCvcChainBuilder_def onlyAuthorities_def Let_def dest!: extractCvcs_keeps
      split: prod.splits option.splits if_splits)

lemma filter_isAT_builtFor:
  assumes "filter isAT cvcs = [t]" "\<And>x. x \<in> set rest \<Longrightarrow> \<not> isAT x"
    and "\<And>x. x \<in> set pool \<Longrightarrow> x \<in> set cvcs \<or> x \<in> set rest"
  shows "builtFor (Some t) (CVCertificateChainBuilder pool)"
proof -
  have "t = x" if "x \<in> set pool" "isAT x" for x
  proof -
    have "x \<in> set (filter isAT cvcs)" using that assms(2,3) by auto
    then show ?thesis by (simp only: assms(1)) simp
  qed
  then show ?thesis by (auto simp: builtFor_def)
qed

text \<open>The certificates that the composite state accepts make the server a verified one.\<close>

lemma runProcessCvcs_trusted:
  fixes c :: workflow_data
  assumes "runProcessCvcs T eac1 c = Some (True, c')" "nc_eac1 c = Some eac1"
    and "\<not> st_developerMode (te_settings T)" "te_preVerificationEnabled T" "onlyAuthorities T c"
  shows "trusted T c'"
proof -
  obtain b1 c1 where 1: "runExtractCvcs T eac1 c = (b1, c1)" by force
  obtain b2 c2 where 2: "runPreVerification T c1 = (b2, c2)" by force
  from assms(1) 1 2 have b: "b1" "b2" by (simp_all add: runProcessCvcs_def split: bool.splits)
  with assms(1) 1 2 obtain c3 where steps: "runExtractCvcs T eac1 c = (True, c1)" "runPreVerification T c1 = (True, c2)"
    "runCertificateDescriptionCheck T eac1 c2 = Some (True, c3)" "runCheckCertificates T eac1 c3 = Some (True, c')"
    by (auto simp: runProcessCvcs_def split: bool.splits option.splits)
  obtain t1 d1 where built: "filter isAT (e1_cvCertificates eac1) = [t1]" "ax_terminalCvc (au_rights c1) = Some t1"
    "au_chainBuilderProd c1 = CVCertificateChainBuilder (au_linkCertificates c @ e1_cvCertificates eac1 @ te_prodRoots T)"
    "au_chainBuilderTest c1 = CVCertificateChainBuilder (au_linkCertificates c @ e1_cvCertificates eac1 @ te_testRoots T)"
    by (rule runExtractCvcs_unique [OF steps(1)])
  obtain chain t d where v: "verifiedChain T chain d t" "ax_terminalCvc (au_rights c2) = Some t" "nc_dvCvc c2 = Some d"
    "nc_tcTokenUrl c2 = nc_tcTokenUrl c" "nc_certificates c2 = nc_certificates c"
    by (rule runPreVerification_chain [OF steps(1,2) assms(3-5)])
  obtain descr binary subjectUrl where w: "e1_descriptionAsBinary eac1 = Some binary"
    "te_hash T (cvc_hashOid t) binary = te_descriptionExtension T t" "e1_description eac1 = Some descr"
    "cd_subjectUrl descr = Some subjectUrl" "isMatchingSameOriginPolicy (te_urlOf T subjectUrl) (nc_tcTokenUrl c2)"
    "c3 = c2"
    by (rule runCertificateDescriptionCheck_True [OF steps(3) v(2) assms(3)])
  have c': "c' = c2" "\<forall>(u, cert) \<in> set (nc_certificates c2). checkCertificate cert (cvc_hashOid d) (cd_commCertificates descr)"
    using runCheckCertificates_True [OF steps(4) _ w(3) assms(3)] v(3) w(6) by auto
  note keeps = runPreVerification_keeps [OF steps(2)] runExtractCvcs_keeps [OF steps(1)]
  have t: "t = t1" using v(2) built(2) keeps(4) by simp
  have "serverVerified T c2"
    unfolding serverVerified_def
    by (intro exI [of _ eac1] exI [of _ chain] exI [of _ t] exI [of _ d] exI [of _ descr] exI [of _ binary]
        exI [of _ subjectUrl]) (use v w c'(2) keeps built(1) assms(2) t in simp)
  moreover have "builtFor (Some t) (CVCertificateChainBuilder (au_linkCertificates c @ e1_cvCertificates eac1 @ te_prodRoots T))"
    "builtFor (Some t) (CVCertificateChainBuilder (au_linkCertificates c @ e1_cvCertificates eac1 @ te_testRoots T))"
    unfolding t
    by (rule filter_isAT_builtFor [where rest = "au_linkCertificates c @ te_prodRoots T @ te_testRoots T", OF built(1)],
        erule onlyAuthorities_noTerminal [OF assms(5)], force)+
  ultimately show ?thesis using v(2) keeps built(3,4) by (simp add: trusted_def c'(1))
qed


lemma runProcessCvcs_keeps:
  fixes c :: workflow_data
  assumes "runProcessCvcs T eac1 c = Some (b, c')"
  shows "onlyAuthorities T c \<Longrightarrow> onlyAuthorities T c'" "au_paceOutput c' = au_paceOutput c"
proof -
  obtain b1 c1 where 1: "runExtractCvcs T eac1 c = (b1, c1)" by force
  obtain b2 c2 where 2: "runPreVerification T c1 = (b2, c2)" by force
  have "c' = c1 \<or> c' = c2 \<or> (\<exists>s. c' = setStatus s c2)"
    using assms 1 2
    by (auto simp: runProcessCvcs_def runCertificateDescriptionCheck_def runCheckCertificates_def Let_def
        split: bool.splits option.splits if_splits)
  then show "onlyAuthorities T c \<Longrightarrow> onlyAuthorities T c'" "au_paceOutput c' = au_paceOutput c"
    using runExtractCvcs_keeps [OF 1] runPreVerification_keeps [OF 2] by auto
qed

text \<open>The certificates of EAC2 can complete the chains, but they bring no other terminal.\<close>

lemma runProcessCertificatesFromEac2_keeps:
  fixes c :: workflow_data
  assumes "runProcessCertificatesFromEac2 T eac1 eac2 c = Some (b, c')" "nc_eac1 c = Some eac1"
  shows "au_paceOutput c \<noteq> None" "au_paceOutput c' = au_paceOutput c" "onlyAuthorities T c' = onlyAuthorities T c"
    "onlyAuthorities T c \<Longrightarrow> trusted T c \<Longrightarrow> trusted T c'"
proof -
  obtain pace where pace: "au_paceOutput c = Some pace"
    using assms(1) by (cases "au_paceOutput c") (simp_all add: runProcessCertificatesFromEac2_def)
  let ?cvcs = "filter (\<lambda>cvc. getAccessRole (cvc_chat cvc) \<noteq> AT) (e2_cvCertificates eac2)"
  have c': "c' = c \<or> c' = initCvcChainBuilder T eac1 ?cvcs c \<or>
      c' = setStatus GS_Workflow_Cannot_Confirm_IdCard_Authenticity (initCvcChainBuilder T eac1 ?cvcs c)"
    using assms(1) pace by (auto simp: runProcessCertificatesFromEac2_def Let_def split: if_splits)
  show "au_paceOutput c \<noteq> None" by (simp add: pace)
  show "au_paceOutput c' = au_paceOutput c" "onlyAuthorities T c' = onlyAuthorities T c"
    using c' by (auto simp: initCvcChainBuilder_def onlyAuthorities_def Let_def)
  show "trusted T c'" if only: "onlyAuthorities T c" and ok: "trusted T c"
  proof -
    obtain t where t: "filter isAT (e1_cvCertificates eac1) = [t]" "ax_terminalCvc (au_rights c) = Some t"
      using ok assms(2) by (auto simp: trusted_def serverVerified_def)
    let ?rest = "(au_linkCertificates c @ te_prodRoots T @ te_testRoots T) @ ?cvcs"
    have rest: "\<not> isAT x" if "x \<in> set ?rest" for x
      using that onlyAuthorities_noTerminal [OF only, of x] by (auto simp: isAT_def)
    note built = filter_isAT_builtFor [where rest = ?rest, OF t(1) rest]
    have "builtFor (Some t) (CVCertificateChainBuilder (au_linkCertificates c @ e1_cvCertificates eac1 @ ?cvcs @ te_prodRoots T))"
      "builtFor (Some t) (CVCertificateChainBuilder (au_linkCertificates c @ e1_cvCertificates eac1 @ ?cvcs @ te_testRoots T))"
      by (rule built, assumption, force)+
    then have "trusted T (initCvcChainBuilder T eac1 ?cvcs c)"
      using ok t(2) by (simp add: trusted_def serverVerified_def initCvcChainBuilder_def Let_def)
    then show ?thesis using c' ok by (auto simp: trusted_def serverVerified_def)
  qed
qed

text \<open>The chain for the authority of the card ends in the terminal certificate of the context.\<close>

lemma chain_ends_in_terminal:
  assumes "trusted T c" "isValidChain (context_getChainForCertificationAuthority c pace)"
  shows "ax_terminalCvc (au_rights c) = Some (last (context_getChainForCertificationAuthority c pace))"
proof -
  let ?chain = "context_getChainForCertificationAuthority c pace"
  have "\<exists>cs. (cs = au_chainBuilderProd c \<or> cs = au_chainBuilderTest c) \<and>
      ?chain = getChainForCertificationAuthority cs (fst pace) (snd pace)"
    by (simp add: context_getChainForCertificationAuthority_def Let_def) blast
  then obtain cs where cs: "cs = au_chainBuilderProd c \<or> cs = au_chainBuilderTest c"
    "?chain = getChainForCertificationAuthority cs (fst pace) (snd pace)" by blast
  then obtain pool where pool: "cs = CVCertificateChainBuilder pool"
    "\<And>x. x \<in> set pool \<Longrightarrow> isAT x \<Longrightarrow> ax_terminalCvc (au_rights c) = Some x"
    using assms(1) by (auto simp: trusted_def builtFor_def)
  have ne: "?chain \<noteq> []" using assms(2) not_valid_Nil by auto
  have "\<exists>wanted. ?chain = findInChains wanted (CVCertificateChainBuilder pool)"
    unfolding cs(2) pool(1) getChainForCertificationAuthority_def getChainForCar_def Let_def by auto
  then obtain wanted where "?chain = findInChains wanted (CVCertificateChainBuilder pool)" ..
  from findInChains_sound [OF this ne] have "last ?chain \<in> set pool" "isAT (last ?chain)"
    using ne by (auto simp: isAT_def)
  then show ?thesis by (rule pool(2))
qed


section \<open>The steps of the machine\<close>

lemma eac_inv_members [simp]:
  "eac_inv T (m\<lparr>am_tokenUrl := u\<rparr>) = eac_inv T m" "eac_inv T (m\<lparr>am_refresh := r\<rparr>) = eac_inv T m"
  by (simp_all add: eac_inv_def)

lemma inv_after: "am_state m \<in> afterEac \<Longrightarrow> eac_inv T m"
  by (simp add: eac_inv_def)

lemma after_emit: "am_state m \<in> afterEac \<Longrightarrow> am_state (emit s m) \<in> afterEac"
  by (auto simp: emit_def dest: transition_afterEac split: option.split)

lemma token_more [simp]:
  "net_context.more (gt_context (tokenAbort s g)) = net_context.more (gt_context g)"
  "net_context.more (snd (isValidRedirectUrl S u c)) = net_context.more c"
  "net_context.more (gt_context (sendRequest u g)) = net_context.more (gt_context g)"
  "net_context.more (gt_context (parseTcToken S url_of r g)) = net_context.more (gt_context g)"
  by (simp_all add: tokenAbort_def isValidRedirectUrl_def sendRequest_def parseTcToken_def Let_def)

lemma token_reply_more [simp]:
  "net_context.more (gt_context (onTokenReply S url_of r g)) = net_context.more (gt_context g)"
  "net_context.more (gt_context (runGetTcToken S g)) = net_context.more (gt_context g)"
  by (simp_all add: onTokenReply_def runGetTcToken_def isValidRedirectUrl_def Let_def)

lemma token_step_more: "net_context.more (gt_context (token_step S u g e)) = net_context.more (gt_context g)"
  by (simp add: token_step_def onTokenHandshake_def addCertificateData_def split: token_phase.split network_event.split)

lemma inv_tokenEvent:
  assumes "eac_inv T m" "am_state m = GetTcToken"
  shows "eac_inv T (tokenEvent E ne m)"
proof -
  define g where "g = token_step (te_settings E) (te_urlOf E)
    \<lparr>gt_url = am_tokenUrl m, gt_phase = (if am_phase m = PhEntered then TokenEntered else TokenGetting),
     gt_context = am_context m\<rparr> ne"
  let ?m = "m\<lparr>am_context := gt_context g, am_tokenUrl := gt_url g\<rparr>"
  have "net_context.more (gt_context g) = net_context.more (am_context m)" by (simp add: g_def token_step_more)
  from more_determines [OF this] have "contextKept GetTcToken (am_context m) (gt_context g)"
    by (simp add: contextKept_def beforeEac_def)
  with inv_context [OF assms(1)] assms(2) have inv: "eac_inv T ?m" by simp
  then have run: "eac_inv T (?m\<lparr>am_phase := PhRunning\<rparr>)" by (rule inv_phase) (simp add: assms(2))
  have "tokenEvent E ne m = (case gt_phase g of TokenEntered \<Rightarrow> ?m | TokenGetting \<Rightarrow> ?m\<lparr>am_phase := PhRunning\<rparr>
      | TokenLeft b \<Rightarrow> emit (if b then fireContinue else fireAbort) (?m\<lparr>am_phase := PhRunning\<rparr>))"
    by (simp only: tokenEvent_def g_def Let_def)
  then show ?thesis
    using inv run inv_emit [OF run] by (auto simp: assms(2) split: token_phase.split)
qed

lemma inv_refreshEvent: "am_state m = CheckRefreshAddress \<Longrightarrow> eac_inv T (refreshEvent E ne m)"
  by (auto simp: refreshEvent_def Let_def intro!: inv_after after_emit split: prod.split refresh_phase.split)
    (simp_all add: afterEac_def)

lemma trusted_addCertificateData:
  assumes "trusted T c" "certificateStatus (te_settings T) c cert = Good" "\<not> st_developerMode (te_settings T)"
  shows "trusted T (addCertificateData u cert c)"
proof -
  obtain eac1 d descr where c: "nc_eac1 c = Some eac1" "nc_dvCvc c = Some d" "e1_description eac1 = Some descr"
    using assms(1) by (auto simp: trusted_def serverVerified_def)
  with assms(2,3) have "checkCertificate cert (cvc_hashOid d) (cd_commCertificates descr)"
    by (auto simp: certificateStatus_def checkAndSaveCertificate_def split: if_splits)
  with assms(1) c show ?thesis
    by (auto simp: trusted_def serverVerified_def addCertificateData_def)
qed

lemma inv_mono:
  assumes "eac_inv T m" "onlyAuthorities T (am_context m) \<Longrightarrow> onlyAuthorities T c"
    and "au_paceOutput c = au_paceOutput (am_context m)" "trusted T (am_context m) \<Longrightarrow> trusted T c"
  shows "eac_inv T (m\<lparr>am_context := c\<rparr>)"
proof (cases "am_state m \<in> afterEac")
  case False
  then show ?thesis
    using assms by (auto simp: eac_inv_def simp del: not_None_eq)
qed (simp add: inv_after)

lemma inv_addCertificateData:
  assumes "eac_inv T m" "certificateStatus (te_settings T) (am_context m) cert = Good" "\<not> st_developerMode (te_settings T)"
  shows "eac_inv T (m\<lparr>am_context := addCertificateData u cert (am_context m)\<rparr>)"
  by (rule inv_mono [OF assms(1) _ _ trusted_addCertificateData [OF _ assms(2,3)]])
    (simp_all add: onlyAuthorities_def addCertificateData_def)

lemma inv_undefined: "eac_inv T m \<Longrightarrow> eac_inv T (m\<lparr>am_phase := PhUndefined\<rparr>)"
  by (rule inv_phase) simp_all

lemma inv_serverEvent:
  assumes "eac_inv T m" "te_settings E = te_settings T" "\<not> st_developerMode (te_settings T)"
  shows "eac_inv T (serverEvent E ne m)"
proof -
  have "eac_inv T (onServerHandshake E cfg m)" for cfg
  proof (cases "nc_tcToken (am_context m)")
    case None
    with assms(1) show ?thesis by (simp add: onServerHandshake_def inv_undefined)
  next
    case (Some token)
    show ?thesis
      using Some assms inv_addCertificateData [OF assms(1), of "cfg_peerCertificate cfg" "tt_serverAddress token"]
      by (auto simp: onServerHandshake_def Let_def withContext_def intro!: inv_abort split: CertificateStatus.split)
  qed
  with assms(1) show ?thesis by (auto simp: serverEvent_def intro!: inv_abort split: network_event.split)
qed


lemma isSendReceive_states:
  assumes "isSendReceive st"
  shows "st \<in> {SendStartPaos, SendInitializeFrameworkResponse, SendDidListResponse, SendDidAuthenticateResponseEac1,
    SendDidAuthenticatResponseEacAdditionalInput, SendDidAuthenticateResponseEac2, SendTransmitResponse, SendDisconnectResponse}"
  using assms by (cases st) simp_all

lemma received_kept:
  assumes "detectedPaosType (Some p) \<in> set (typesToReceive st)" "isSendReceive st"
  shows "contextKept st c (setReceivedMessage p c)"
  using isSendReceive_states [OF assms(2)] assms(1)
  by (cases p) (auto simp: contextKept_def trustFrame_def beforeEac_def)

lemma inv_onReplyFinished:
  assumes "eac_inv T m" "isSendReceive (am_state m)"
  shows "eac_inv T (onReplyFinished err code msg m)"
proof -
  have emitted: "eac_inv T (emit s m')" if "eac_inv T m'" "am_state m' = am_state m" for s m'
    using that isSendReceive_states [OF assms(2)] by (auto intro!: inv_emit)
  let ?c = "case msg of None \<Rightarrow> am_context m | Some p \<Rightarrow> setReceivedMessage p (am_context m)"
  have "eac_inv T (withContext ?c m)" if "detectedPaosType msg \<in> set (typesToReceive (am_state m))"
    using that assms received_kept [OF _ assms(2)]
    by (cases msg) (auto simp: withContext_def intro!: inv_context)
  with emitted [of "withContext ?c m"] assms(1) show ?thesis
    by (auto simp: onReplyFinished_def Let_def withContext_def intro!: inv_abort split: option.split)
qed

lemma inv_runProcessCvcs:
  assumes "eac_inv T m" "am_state m = ProcessCvcsAndSetRights" "trust_env.truncate E = T"
    and "\<not> st_developerMode (te_settings T)" "te_preVerificationEnabled T"
  shows "eac_inv T (fst (proceed (runPlainState E ProcessCvcsAndSetRights (am_context m)) m))"
proof (cases "nc_eac1 (am_context m)")
  case None
  with inv_phase [OF assms(1), of PhUndefined] show ?thesis
    by (simp add: runPlainState_def proceed_def inv_undefined)
next
  case (Some eac1)
  have only: "onlyAuthorities T (am_context m)" "au_paceOutput (am_context m) = None"
    using assms(1,2) by (auto simp: eac_inv_def beforeEac_def afterEac_def)
  show ?thesis
  proof (cases "runProcessCvcs T eac1 (am_context m)")
    case None
    with Some inv_phase [OF assms(1), of PhUndefined] assms(3) show ?thesis
      by (simp add: runPlainState_def proceed_def inv_undefined)
  next
    case run: (Some r)
    obtain ok c where r: "r = (ok, c)" by force
    have kept: "onlyAuthorities T c" "au_paceOutput c = None"
      using runProcessCvcs_keeps [OF run [unfolded r]] only by simp_all
    show ?thesis
    proof (cases ok)
      case True
      with run r have "trusted T c" using runProcessCvcs_trusted [OF _ Some assms(4,5) only(1)] by simp
      with kept run r True Some assms(2,3) show ?thesis
        by (simp add: runPlainState_def proceed_def eac_inv_def)
    next
      case False
      let ?m = "m\<lparr>am_context := c, am_phase := PhRunning\<rparr>"
      have "authTransition ProcessCvcsAndSetRights fireAbort = Some SendDidAuthenticateResponseEac1"
        by (simp add: authTransition_def authTable_def)
      with kept run r False Some assms(2,3) show ?thesis
        by (simp add: runPlainState_def proceed_def emit_def eac_inv_def beforeEac_def)
    qed
  qed
qed

lemma inv_runEac2Certificates:
  assumes "eac_inv T m" "am_state m = ProcessCertificatesFromEac2" "trust_env.truncate E = T"
  shows "eac_inv T (fst (proceed (runPlainState E ProcessCertificatesFromEac2 (am_context m)) m))"
proof (cases "\<exists>eac1 eac2 ok c. nc_eac1 (am_context m) = Some eac1 \<and> au_eac2 (am_context m) = Some eac2 \<and>
    runProcessCertificatesFromEac2 T eac1 eac2 (am_context m) = Some (ok, c)")
  case True
  then obtain eac1 eac2 ok c where eac: "nc_eac1 (am_context m) = Some eac1" "au_eac2 (am_context m) = Some eac2"
    and run: "runProcessCertificatesFromEac2 T eac1 eac2 (am_context m) = Some (ok, c)" by blast
  note keeps = runProcessCertificatesFromEac2_keeps [OF run eac(1)]
  have "onlyAuthorities T (am_context m)" using assms(1,2) by (simp add: eac_inv_def afterEac_def)
  then have "eac_inv T (m\<lparr>am_context := c\<rparr>)" using keeps by (intro inv_mono [OF assms(1)]) simp_all
  then have "eac_inv T (m\<lparr>am_context := c, am_phase := PhRunning\<rparr>)"
    using inv_phase [of T "m\<lparr>am_context := c\<rparr>" PhRunning] assms(2) by simp
  then show ?thesis
    using assms(2,3) eac run keeps(1,2) by (simp add: runPlainState_def proceed_def inv_emit)
next
  case False
  then have "runPlainState E ProcessCertificatesFromEac2 (am_context m) = (Undef, am_context m, [])"
    using assms(3) by (auto simp: runPlainState_def split: option.split)
  then show ?thesis using inv_undefined [OF assms(1)] by (simp add: proceed_def)
qed


lemma runPlainState_Pace: "runPlainState E PaceState c = (Wait, c, [])"
  by (simp add: runPlainState_def)

lemma inv_approveState:
  assumes "eac_inv T m" "trust_env.truncate E = T" "\<not> st_developerMode (te_settings T)" "te_preVerificationEnabled T"
  shows "eac_inv T (fst (approveState E m))"
proof -
  consider (special) "am_state m \<in> {FinalState, GetTcToken, CheckRefreshAddress}"
    | (cvcs) "am_state m = ProcessCvcsAndSetRights" | (eac2) "am_state m = ProcessCertificatesFromEac2"
    | (pace) "am_state m = PaceState"
    | (send) "isSendReceive (am_state m)" "am_state m \<notin> {ProcessCvcsAndSetRights, ProcessCertificatesFromEac2, PaceState,
        FinalState, GetTcToken, CheckRefreshAddress}"
    | (other) "\<not> isSendReceive (am_state m)" "am_state m \<notin> {ProcessCvcsAndSetRights, ProcessCertificatesFromEac2,
        PaceState, FinalState, GetTcToken, CheckRefreshAddress}"
    by blast
  then show ?thesis
  proof cases
    case special
    then show ?thesis
      using inv_tokenEvent [OF assms(1)] inv_refreshEvent
      by (auto simp: approveState_def Let_def) (simp add: eac_inv_def afterEac_def)
  next
    case cvcs
    then show ?thesis using inv_runProcessCvcs [OF assms(1) _ assms(2-4)] by (simp add: approveState_def Let_def)
  next
    case eac2
    then show ?thesis using inv_runEac2Certificates [OF assms(1) _ assms(2)] by (simp add: approveState_def Let_def)
  next
    case pace
    then have "eac_inv T (m\<lparr>am_phase := PhRunning\<rparr>)" using assms(1) by (intro inv_phase) simp_all
    with pace show ?thesis by (simp add: approveState_def runPlainState_Pace proceed_def)
  next
    case send
    obtain out c fx where run: "runSendReceive E (am_state m) (am_context m) = (out, c, fx)" using prod_cases3 by blast
    have "trustFrame (am_context m) c" using runSendReceive_frame [of "am_context m" E "am_state m"] run by simp
    then show ?thesis
      using send run inv_proceed [OF assms(1) _ run] by (simp add: approveState_def Let_def contextKept_frame)
  next
    case other
    obtain out c fx where run: "runPlainState E (am_state m) (am_context m) = (out, c, fx)" using prod_cases3 by blast
    have "contextKept (am_state m) (am_context m) c"
      using runPlainState_kept [of "am_state m" "am_context m" E] run other(2) by simp
    then show ?thesis
      using other run inv_proceed [OF assms(1) _ run] by (simp add: approveState_def Let_def)
  qed
qed

lemma inv_framed_emit:
  assumes "eac_inv T m" "am_state m \<notin> {ProcessCvcsAndSetRights, PaceState, ProcessCertificatesFromEac2}"
    and "trustFrame (am_context m) c"
  shows "eac_inv T (emit s (m\<lparr>am_context := c\<rparr>))"
  by (rule inv_emit [OF inv_context [OF assms(1) contextKept_frame [OF assms(3)]]]) (use assms(2) in auto)

lemma inv_cardAnswers:
  assumes "eac_inv T m"
  shows "am_state m = DidAuthenticateEac1State \<Longrightarrow> eac_inv T (onEac1Done rc challenge m)"
    and "am_state m = DidAuthenticateEac2State \<Longrightarrow> eac_inv T (onEac2Done rc token ef nonce m)"
    and "am_state m = TransmitState \<Longrightarrow> eac_inv T (onTransmitDone rc outputs m)"
proof -
  show "eac_inv T (onEac1Done rc challenge m)" if "am_state m = DidAuthenticateEac1State"
    using assms that
    by (auto simp: onEac1Done_def Let_def withContext_def intro!: inv_abort inv_undefined inv_framed_emit split: option.split)
      (simp_all add: trustFrame_def)
  show "eac_inv T (onEac2Done rc token ef nonce m)" if "am_state m = DidAuthenticateEac2State"
    using assms that
    by (auto simp: onEac2Done_def Let_def withContext_def intro!: inv_undefined inv_framed_emit split: option.split)
      (simp_all add: trustFrame_def)
  show "eac_inv T (onTransmitDone rc outputs m)" if "am_state m = TransmitState"
    using assms that
    by (auto simp: onTransmitDone_def Let_def withContext_def intro!: inv_abort inv_undefined inv_framed_emit)
      (simp_all add: trustFrame_def)
qed

lemma inv_paceEstablished:
  assumes "eac_inv T m" "am_state m = PaceState"
  shows "eac_inv T (emit firePaceChannelEstablished
    (m\<lparr>am_context := (am_context m)\<lparr>au_paceOutput := Some pace, aw_hasCardConnection := True\<rparr>\<rparr>))"
proof (rule inv_emit)
  have "trusted T (am_context m)" "onlyAuthorities T (am_context m)"
    using assms by (simp_all add: eac_inv_def afterEac_def)
  then show "eac_inv T (m\<lparr>am_context := (am_context m)\<lparr>au_paceOutput := Some pace, aw_hasCardConnection := True\<rparr>\<rparr>)"
    using assms(2) by (simp add: eac_inv_def trusted_def serverVerified_def onlyAuthorities_def)
qed (simp_all add: assms(2))

lemma inv_pace:
  assumes "eac_inv T m" "am_state m = PaceState" "trustFrame (am_context m) c"
  shows "eac_inv T (m\<lparr>am_context := c\<rparr>)" "eac_inv T (abortWith s (m\<lparr>am_context := c\<rparr>))"
    "eac_inv T (emit firePacePukEstablished (m\<lparr>am_context := c\<rparr>))"
proof -
  show inv: "eac_inv T (m\<lparr>am_context := c\<rparr>)" by (rule inv_context [OF assms(1) contextKept_frame [OF assms(3)]])
  show "eac_inv T (abortWith s (m\<lparr>am_context := c\<rparr>))" by (rule inv_abort [OF inv])
  show "eac_inv T (emit firePacePukEstablished (m\<lparr>am_context := c\<rparr>))"
    by (rule inv_emit [OF inv]) (use assms(2) in simp_all)
qed

lemma inv_answerEvent:
  assumes "eac_inv T m" "te_settings E = te_settings T" "\<not> st_developerMode (te_settings T)"
  shows "eac_inv T (answerEvent E e m)"
proof (cases e)
  case (Net ne)
  then show ?thesis
    using assms inv_tokenEvent inv_refreshEvent inv_serverEvent by (simp add: answerEvent_def Let_def)
next
  case (PaosReply err code msg)
  then show ?thesis using assms(1) inv_onReplyFinished by (simp add: answerEvent_def Let_def del: isSendReceive.simps)
next
  case (PaceEstablished pace)
  then show ?thesis
    using assms(1) inv_paceEstablished by (simp add: answerEvent_def Let_def withContext_def)
next
  case PacePukEstablished
  then show ?thesis
    using assms(1) inv_pace(3) [OF assms(1)] by (simp add: answerEvent_def Let_def withContext_def clearPasswords_def trustFrame_def)
next
  case (PaceAborted s connected)
  then show ?thesis
    using assms(1) inv_pace(2) [OF assms(1)] by (simp add: answerEvent_def Let_def withContext_def clearPasswords_def trustFrame_def)
next
  case (RetryCounterDone rc)
  then show ?thesis
    using assms(1) by (auto simp: answerEvent_def Let_def withContext_def afterEac_def intro!: inv_after after_emit)
next
  case (Eac1Done rc challenge)
  then show ?thesis using assms(1) inv_cardAnswers(1) by (simp add: answerEvent_def Let_def)
next
  case (Eac2Done rc token ef nonce)
  then show ?thesis using assms(1) inv_cardAnswers(2) by (simp add: answerEvent_def Let_def)
next
  case (TransmitDone rc outputs)
  then show ?thesis using assms(1) inv_cardAnswers(3) by (simp add: answerEvent_def Let_def)
qed (use assms(1) in \<open>simp_all add: answerEvent_def\<close>)

lemma inv_auth_step:
  assumes "eac_inv T m" "trust_env.truncate E = T" "\<not> st_developerMode (te_settings T)" "te_preVerificationEnabled T"
  shows "eac_inv T (fst (auth_step E m e))"
proof -
  have S: "te_settings E = te_settings T" using assms(2) trust_env_truncate(1) [of E] by simp
  show ?thesis
  proof (cases e)
    case Approve
    have "eac_inv T (emit fireContinue m)"
      if "am_state m = ProcessCvcsAndSetRights" "am_phase m = PhRunning"
      by (rule inv_emit [OF assms(1)]) (use that in simp_all)
    with Approve assms(1) inv_approveState [OF assms] show ?thesis
      by (cases "am_phase m") (simp_all add: auth_step_def Let_def)
  next
    case Cancel
    then show ?thesis
      using assms(1) inv_pace(1) [OF assms(1)] inv_abort [OF assms(1)] by (simp add: auth_step_def withContext_def Let_def)
  next
    case CardRemoved
    then show ?thesis using assms(1) inv_abort [OF assms(1)] by (simp add: auth_step_def Let_def)
  next
    case (EditRights op)
    have "contextKept (am_state m) (am_context m) ((am_context m)\<lparr>au_rights := rights_step (au_rights (am_context m)) op\<rparr>)"
      by (simp add: contextKept_frame trustFrame_def)
    with EditRights assms(1) inv_context show ?thesis by (simp add: auth_step_def withContext_def Let_def)
  next
    case (EnterPassword pin can puk)
    then show ?thesis
      using assms(1) inv_pace(1) [OF assms(1)] by (simp add: auth_step_def withContext_def Let_def trustFrame_def)
  qed (use assms(1) inv_answerEvent [OF assms(1) S assms(3)] in \<open>simp_all add: auth_step_def Let_def\<close>)
qed


section \<open>The card is asked for verified servers only\<close>

definition secureEnv :: "auth_env \<Rightarrow> bool" where
  "secureEnv E \<longleftrightarrow> \<not> st_developerMode (te_settings E) \<and> te_preVerificationEnabled E"

interpretation auth: machine "\<lambda>m e. fst (auth_step E m e)" "\<lambda>m. secureEnv E \<longrightarrow> eac_inv (trust_env.truncate E) m"
  for E :: auth_env
  by unfold_locales (simp add: inv_auth_step secureEnv_def)

fun isEacCall :: "card_call \<Rightarrow> bool" where
  "isEacCall CallEac1 = True"
| "isEacCall (CallEac2 chain key signature aux) = True"
| "isEacCall _ = False"

text \<open>The terminal that a call presents to the card, at the end of a valid chain.\<close>

fun presents :: "card_call \<Rightarrow> cvc option \<Rightarrow> bool" where
  "presents (CallEac2 chain key signature aux) t = (isValidChain chain \<and> t = Some (last chain))"
| "presents _ t = True"

lemma approve_effects:
  assumes "CardCall call \<in> set (snd (auth_step E m e))"
  shows "e = Approve \<and> am_phase m = PhEntered \<and> am_state m \<notin> {FinalState, GetTcToken, CheckRefreshAddress} \<and>
    \<not> isSendReceive (am_state m) \<and> CardCall call \<in> set (snd (snd (runPlainState E (am_state m) (am_context m))))"
proof -
  have phase: "am_phase m \<noteq> PhUndefined" "am_state m \<noteq> Stopped"
    using assms by (auto simp: auth_step_def)
  then have "e = Approve \<and> am_phase m = PhEntered"
    using assms by (cases e) (auto simp: auth_step_def Let_def split: if_splits)
  then have "CardCall call \<in> set (snd (approveState E m))"
    using assms phase by (simp add: auth_step_def)
  moreover have "CardCall call \<notin> set (snd (snd (runSendReceive E st c)))" for st c
    by (simp add: runSendReceive_def split: option.split prod.split)
  moreover have "snd (proceed r m) = snd (snd r)" for r by (simp add: proceed_def Let_def split: prod.split)
  ultimately show ?thesis
    using \<open>e = Approve \<and> _\<close> by (auto simp: approveState_def Let_def simp del: isSendReceive.simps split: if_splits)
qed

lemma plain_eac_calls:
  assumes "CardCall call \<in> set (snd (snd (runPlainState E st c)))" "isEacCall call"
  shows "st = DidAuthenticateEac1State \<and> call = CallEac1 \<or>
    st = DidAuthenticateEac2State \<and> (\<exists>pace key signature aux. au_paceOutput c = Some pace \<and>
      isValidChain (context_getChainForCertificationAuthority c pace) \<and>
      call = CallEac2 (context_getChainForCertificationAuthority c pace) key signature aux)"
proof (cases st)
  case DidAuthenticateEac2State
  then show ?thesis
    using assms by (auto simp: runPlainState_def runDidAuthenticateEac2_def Let_def split: option.splits if_splits)
qed (use assms in \<open>auto simp: runPlainState_def runRedirectBrowser_def sendErrorPage_def sendRedirect_def Let_def
      split: option.splits prod.splits if_splits\<close>)



definition sampleAuthEnv :: auth_env where
  "sampleAuthEnv = trust_env.extend sampleTrust
     \<lparr>ae_activationQuery = [(''tcTokenURL'', ''service'')], ae_sendProcessing = True, ae_sendErrorPage = True,
      ae_sendRedirect = True, ae_historyEnabled = False, ae_describe = (\<lambda>_. []), ae_tr = (\<lambda>s. s)\<rparr>"

lemma sampleAuthEnv_simps [simp]:
  "trust_env.truncate sampleAuthEnv = sampleTrust" "te_settings sampleAuthEnv = sampleSettings"
  "te_urlOf sampleAuthEnv = httpsUrl" "te_preVerificationEnabled sampleAuthEnv"
  "ae_activationQuery sampleAuthEnv = [(''tcTokenURL'', ''service'')]" "ae_sendProcessing sampleAuthEnv"
  by (simp_all add: sampleAuthEnv_def trust_env.defs sampleTrust_def)

text \<open>The events from the start to the card: the TC token, the first message of the server, PACE.\<close>

definition sampleStart :: "auth_event list" where
  "sampleStart = [Approve, Approve, Approve, Net (ReplyFinished tokenReply), Approve, Approve,
     PaosReply NoError 200 (Some (DIDAuthenticateEAC1 sampleServer))]"

lemma sample_started:
  defines "m \<equiv> run (\<lambda>m e. fst (auth_step sampleAuthEnv m e)) (initialMachine []) sampleStart"
  shows "am_state m = ProcessCvcsAndSetRights" "am_phase m = PhEntered" "nc_eac1 (am_context m) = Some sampleServer"
    "au_linkCertificates (am_context m) = []" "nc_certificates (am_context m) = []"
    "nc_tcTokenUrl (am_context m) = httpsUrl ''service''"
  unfolding m_def sampleStart_def
  by (simp_all add: initialMachine_def initialData_def auth_step_def approveState_def runPlainState_def proceed_def
      emit_def authTransition_def authTable_def answerEvent_def tokenEvent_def token_step_def runGetTcToken_def
      isValidRedirectUrl_def sendRequest_def onTokenReply_def parseTcToken_def tokenReply_def parseTcTokenData_def
      elementValue_def trimmed_def isSpace_def valuesAreSchemaConform_def isAnyUri_def TcToken_isValid_def setUrl_def
      runParseTcTokenUrl_def runSendReceive_def onReplyFinished_def withContext_def refresh_eval)


definition sampleToCard :: "auth_event list" where
  "sampleToCard = [Approve, Approve, Approve, PaceEstablished ([1], [9]), Approve]"

lemma sample_at_card:
  defines "m \<equiv> run (\<lambda>m e. fst (auth_step sampleAuthEnv m e)) (initialMachine []) (sampleStart @ sampleToCard)"
  shows "am_state m = DidAuthenticateEac1State" "am_phase m = PhEntered" "aw_hasCardConnection (am_context m)"
proof -
  define m0 where "m0 = run (\<lambda>m e. fst (auth_step sampleAuthEnv m e)) (initialMachine []) sampleStart"
  note started = sample_started [folded m0_def]
  obtain c where c: "runProcessCvcs sampleTrust sampleServer (am_context m0) = Some (True, c)"
    using sample_process [of "am_context m0"] started by auto
  let ?c = "c\<lparr>au_paceOutput := Some ([1], [9]), aw_hasCardConnection := True\<rparr>"
  have "run (\<lambda>m e. fst (auth_step sampleAuthEnv m e)) m0 sampleToCard =
      m0\<lparr>am_context := clearPasswords ?c, am_phase := PhEntered, am_state := DidAuthenticateEac1State\<rparr>"
    by (simp add: sampleToCard_def auth_step_def approveState_def runPlainState_def proceed_def started c emit_def
        authTransition_def authTable_def answerEvent_def withContext_def)
  then have m: "m = m0\<lparr>am_context := clearPasswords ?c, am_phase := PhEntered, am_state := DidAuthenticateEac1State\<rparr>"
    by (simp add: m_def m0_def)
  show "am_state m = DidAuthenticateEac1State" "am_phase m = PhEntered" "aw_hasCardConnection (am_context m)"
    by (simp_all add: m clearPasswords_def)
qed


end
