(* ===== verification/AuthProgress.thy ===== *)
theory AuthProgress
  imports AuthSafety
begin

text \<open>
  The errors and the end of an authentication: the first error is the one that stays, the server
  is told of at most one error, a user who cancels every state gets to the end, and the
  transitions fit the signals of the states. A cancellation that the server does not heed lets the
  workflow go on with the card.
\<close>

section \<open>The status\<close>

text \<open>An error stays, and only a message that is sent marks it as reported.\<close>

definition statusKept :: "workflow_data \<Rightarrow> workflow_data \<Rightarrow> bool" where
  "statusKept c c' \<longleftrightarrow> (isError (nc_status c) \<longrightarrow> nc_status c' = nc_status c) \<and>
     aw_errorReportedToServer c' = aw_errorReportedToServer c"

lemma statusKept_refl [simp, intro]: "statusKept c c"
  by (simp add: statusKept_def)

lemma statusKept_trans: "statusKept c c' \<Longrightarrow> statusKept c' c'' \<Longrightarrow> statusKept c c''"
  by (auto simp: statusKept_def)

lemma setStatus_kept: "isError (nc_status c) \<Longrightarrow> nc_status (setStatus s c) = nc_status c"
  by (simp add: setStatus_def)

lemma statusKept_setStatus [simp]: "statusKept c c' \<Longrightarrow> statusKept c (setStatus s c')"
  by (auto simp: statusKept_def setStatus_kept)

lemma statusKept_same:
  "nc_status c' = nc_status c \<Longrightarrow> aw_errorReportedToServer c' = aw_errorReportedToServer c \<Longrightarrow> statusKept c c'"
  by (simp add: statusKept_def)

definition sameError :: "'a net_context_scheme \<Rightarrow> 'a net_context_scheme \<Rightarrow> bool" where
  "sameError c c' \<longleftrightarrow> (isError (nc_status c) \<longrightarrow> nc_status c' = nc_status c) \<and> net_context.more c' = net_context.more c"

lemma sameError_statusKept: "sameError c c' \<Longrightarrow> statusKept c c'"
  using more_determines(6) [of c' c] by (simp add: sameError_def statusKept_def)

lemma sameError_intros [simp, intro]:
  "sameError c c" "sameError c c' \<Longrightarrow> sameError c (setStatus s c')"
  "sameError c c' \<Longrightarrow> sameError c (addCertificateData u cert c')"
  "sameError c c' \<Longrightarrow> sameError c (c'\<lparr>nc_refreshUrl := u\<rparr>)" "sameError c c' \<Longrightarrow> sameError c (c'\<lparr>nc_sslSession := x\<rparr>)"
  "sameError c c' \<Longrightarrow> sameError c (c'\<lparr>nc_tcTokenNotFound := b\<rparr>)" "sameError c c' \<Longrightarrow> sameError c (c'\<lparr>nc_tcToken := t\<rparr>)"
  by (auto simp: sameError_def setStatus_def addCertificateData_def)

section \<open>Token and refresh address\<close>

lemma token_sameError:
  "sameError c (gt_context g) \<Longrightarrow> sameError c (gt_context (tokenAbort s g))"
  "sameError c c' \<Longrightarrow> sameError c (snd (isValidRedirectUrl S u c'))"
  "sameError c (gt_context g) \<Longrightarrow> sameError c (gt_context (sendRequest u g))"
  by (simp_all add: tokenAbort_def isValidRedirectUrl_def sendRequest_def)

lemma token_reply_sameError:
  assumes "sameError c (gt_context g)"
  shows "sameError c (gt_context (parseTcToken S url_of r g))" "sameError c (gt_context (onTokenReply S url_of r g))"
    "sameError c (gt_context (runGetTcToken S g))"
proof -
  show parse: "sameError c (gt_context (parseTcToken S url_of r g))"
    using assms by (simp add: parseTcToken_def tokenAbort_def Let_def)
  show "sameError c (gt_context (runGetTcToken S g))"
    using assms by (simp add: runGetTcToken_def isValidRedirectUrl_def sendRequest_def Let_def)
  show "sameError c (gt_context (onTokenReply S url_of r g))"
    using assms parse by (simp add: onTokenReply_def isValidRedirectUrl_def sendRequest_def tokenAbort_def Let_def)
qed

lemma token_step_sameError: "sameError (gt_context g) (gt_context (token_step S url_of g e))"
  by (auto simp: token_step_def onTokenHandshake_def intro!: token_sameError(1) token_reply_sameError
      split: token_phase.split network_event.split)

lemma refresh_sameError:
  assumes "sameError c (rs_context r)"
  shows "sameError c (rs_context (reportCommunicationError s r))" "sameError c (rs_context (doneSuccess r))"
    "sameError c (rs_context (snd (checkSslConnectionAndSaveCertificate S cfg r)))"
    "sameError c (rs_context (fetchServerCertificate S r))" "sameError c (rs_context (sendGetRequest r))"
proof -
  show report: "sameError c (rs_context (reportCommunicationError s r))" for s
    using assms by (simp add: reportCommunicationError_def)
  show "sameError c (rs_context (doneSuccess r))" using assms by (simp add: doneSuccess_def)
  show "sameError c (rs_context (snd (checkSslConnectionAndSaveCertificate S cfg r)))"
    using assms by (auto simp: checkSslConnectionAndSaveCertificate_def reportCommunicationError_def Let_def
        split: CertificateStatus.split)
  show "sameError c (rs_context (fetchServerCertificate S r))"
    using assms by (simp add: fetchServerCertificate_def doneSuccess_def)
  show "sameError c (rs_context (sendGetRequest r))" using assms by (simp add: sendGetRequest_def)
qed


lemma refresh_step_sameError: "sameError (rs_context r) (rs_context (refresh_step S url_of r e))"
proof -
  have run: "sameError (rs_context r) (rs_context (runCheckRefreshAddress S url_of r))"
    by (auto simp: runCheckRefreshAddress_def Let_def intro!: refresh_sameError(4,5) split: option.split)
  have reply: "sameError (rs_context r) (rs_context (onRefreshReply S reply r))" for reply
    by (auto simp: onRefreshReply_def Let_def intro!: refresh_sameError)
  have handshake: "sameError (rs_context r) (rs_context (onHandshakeFetching S cfg r))" for cfg
    using refresh_sameError(3) [of "rs_context r" "r\<lparr>rs_certificateFetched := True\<rparr>" S cfg]
    by (auto simp: onHandshakeFetching_def case_prod_unfold intro!: refresh_sameError(2))
  have failed: "sameError (rs_context r) (rs_context (onNetworkErrorFetching err r))" for err
    by (auto simp: onNetworkErrorFetching_def intro!: refresh_sameError(1))
  show ?thesis
    using run reply handshake failed refresh_sameError [where r = r]
    by (auto simp: refresh_step_def split: refresh_phase.split network_event.split)
qed


section \<open>Every other step keeps the status\<close>

lemma auth_emit_context [simp]: "am_context (AuthWorkflow.emit s m) = am_context m"
  by (simp add: AuthWorkflow.emit_def split: option.split)

lemma abortWith_kept [simp]: "statusKept (am_context m) (am_context (abortWith s m))"
  by (simp add: abortWith_def withContext_def)

lemma tokenEvent_kept: "statusKept (am_context m) (am_context (tokenEvent E ne m))"
proof -
  define g0 where "g0 = \<lparr>gt_url = am_tokenUrl m, gt_phase = (if am_phase m = PhEntered then TokenEntered else TokenGetting),
     gt_context = am_context m\<rparr>"
  define g where "g = token_step (te_settings E) (te_urlOf E) g0 ne"
  have "am_context (tokenEvent E ne m) = gt_context g"
    by (simp only: tokenEvent_def Let_def flip: g0_def g_def) (simp split: token_phase.split)
  moreover have "statusKept (gt_context g0) (gt_context g)"
    unfolding g_def by (intro sameError_statusKept token_step_sameError)
  ultimately show ?thesis by (simp add: g0_def)
qed

lemma refreshEvent_kept: "statusKept (am_context m) (am_context (refreshEvent E ne m))"
proof -
  obtain u su f v ph where r: "am_refresh m = (u, su, f, v, ph)" using prod_cases5 by blast
  let ?r = "\<lparr>rs_url = u, rs_subjectUrl = su, rs_certificateFetched = f, rs_verified = v, rs_phase = ph,
    rs_context = am_context m\<rparr>"
  have "statusKept (rs_context ?r) (rs_context (refresh_step (te_settings E) (te_urlStrict E) ?r ne))"
    by (intro sameError_statusKept refresh_step_sameError)
  then show ?thesis by (simp add: refreshEvent_def r Let_def split: refresh_phase.split)
qed

lemma abort_after_kept:
  "statusKept c (am_context m) \<Longrightarrow> statusKept c (am_context (abortWith s m))"
  by (erule statusKept_trans) simp

lemma serverEvent_kept: "statusKept (am_context m) (am_context (serverEvent E ne m))"
proof -
  have added: "statusKept (am_context m) (addCertificateData u cert (am_context m))" for u cert
    by (intro sameError_statusKept) simp
  have "statusKept (am_context m) (am_context (onServerHandshake E cfg m))" for cfg
    by (auto simp: onServerHandshake_def withContext_def Let_def added intro!: abort_after_kept
        split: option.split CertificateStatus.split)
  then show ?thesis by (auto simp: serverEvent_def split: network_event.split)
qed

lemma onReplyFinished_kept: "statusKept (am_context m) (am_context (onReplyFinished err code msg m))"
proof -
  have "statusKept c (setReceivedMessage p c)" for p c by (cases p) (simp_all add: statusKept_def)
  then show ?thesis
    by (auto simp: onReplyFinished_def withContext_def Let_def split: option.split)
qed

lemma answerEvent_kept: "statusKept (am_context m) (am_context (answerEvent E e m))"
proof (cases e)
  case (PaceAborted s connected)
  then show ?thesis
    by (auto simp: answerEvent_def Let_def withContext_def intro!: abort_after_kept)
      (simp add: statusKept_def clearPasswords_def)
next
  case (Eac1Done rc challenge)
  have "statusKept (am_context m) (am_context (onEac1Done rc challenge m))"
    by (auto simp: onEac1Done_def Let_def withContext_def split: option.split) (simp_all add: statusKept_def)
  with Eac1Done show ?thesis by (simp add: answerEvent_def Let_def)
next
  case (Eac2Done rc token ef nonce)
  have "statusKept (am_context m) (am_context (onEac2Done rc token ef nonce m))"
    by (auto simp: onEac2Done_def Let_def withContext_def statusKept_def setStatus_kept split: option.split)
  with Eac2Done show ?thesis by (simp add: answerEvent_def Let_def)
next
  case (TransmitDone rc outputs)
  have "statusKept (am_context m) (am_context (onTransmitDone rc outputs m))"
    by (auto simp: onTransmitDone_def Let_def withContext_def) (auto simp: statusKept_def setStatus_kept)
  with TransmitDone show ?thesis by (simp add: answerEvent_def Let_def)
qed (simp_all add: answerEvent_def Let_def withContext_def tokenEvent_kept refreshEvent_kept serverEvent_kept
    onReplyFinished_kept statusKept_same clearPasswords_def)


lemma extractCvcs_status:
  fixes c :: workflow_data
  assumes "extractCvcs eac1 cvcs ft fd c = (s, ft', fd', c')"
  shows "statusKept c c'"
  using assms
  by (induction eac1 cvcs ft fd c rule: extractCvcs.induct) (auto simp: Let_def statusKept_def split: if_splits)

lemma initCvcChainBuilder_status: "statusKept c c' \<Longrightarrow> statusKept c (initCvcChainBuilder T eac1 cvcs c')"
  by (simp add: statusKept_def initCvcChainBuilder_def Let_def)

lemma runProcessCvcs_status:
  fixes c :: workflow_data
  assumes "runProcessCvcs T eac1 c = Some (ok, c')"
  shows "statusKept c c'"
proof -
  obtain b1 c1 where 1: "runExtractCvcs T eac1 c = (b1, c1)" by force
  obtain b2 c2 where 2: "runPreVerification T c1 = (b2, c2)" by force
  have "statusKept c c1"
    using 1 by (auto simp: runExtractCvcs_def dest!: extractCvcs_status intro!: initCvcChainBuilder_status
        split: prod.splits option.splits if_splits)
  moreover have "statusKept c1 c2"
    using 2 by (auto simp: runPreVerification_def Let_def split: prod.splits if_splits)
      (simp_all add: saveCvcaLinkCertificates_def statusKept_def)
  ultimately have "statusKept c c1" "statusKept c c2" by (auto intro: statusKept_trans)
  moreover have "c' = c1 \<or> c' = c2 \<or> (\<exists>s. c' = setStatus s c2)"
    using assms 1 2
    by (auto simp: runProcessCvcs_def runCertificateDescriptionCheck_def runCheckCertificates_def Let_def
        split: bool.splits option.splits if_splits)
  ultimately show ?thesis by auto
qed

lemma runEac2Certificates_status:
  fixes c :: workflow_data
  assumes "runProcessCertificatesFromEac2 T eac1 eac2 c = Some (ok, c')"
  shows "statusKept c c'"
  using assms
  by (auto simp: runProcessCertificatesFromEac2_def Let_def intro!: initCvcChainBuilder_status statusKept_setStatus split: option.splits if_splits)

lemma runPlainState_status: "statusKept c (fst (snd (runPlainState E st c)))"
proof (cases st)
  case ProcessCvcsAndSetRights
  then show ?thesis by (auto simp: runPlainState_def dest: runProcessCvcs_status split: option.split)
next
  case ProcessCertificatesFromEac2
  then show ?thesis by (auto simp: runPlainState_def dest: runEac2Certificates_status split: option.split)
next
  case StartPaosResponseState
  then show ?thesis
    by (simp add: runPlainState_def runStartPaosResponseState_def runStartPaosResponse_def updateStartPaosResult_def
        setFirstError_def statusKept_def split: option.split)
next
  case RedirectBrowser
  then show ?thesis
    by (simp add: runPlainState_def runRedirectBrowser_def sendErrorPage_def sendRedirect_def Let_def split: option.split)
next
  case DidAuthenticateEac2State
  then show ?thesis by (simp add: runPlainState_def runDidAuthenticateEac2_def Let_def split: option.split)
next
  case EacAdditionalInputType
  then show ?thesis
    by (auto simp: runPlainState_def runEacAdditionalInputType_def statusKept_def split: option.split)
next
  case ParseTcTokenUrl
  then show ?thesis by (simp add: runPlainState_def runParseTcTokenUrl_def Let_def) (simp add: statusKept_def)
qed (simp_all add: runPlainState_def clearPasswords_def statusKept_def setStatus_kept)

section \<open>The first error\<close>

text \<open>A message that tells the server of an error.\<close>

fun reportsError :: "auth_effect \<Rightarrow> bool" where
  "reportsError (SendPaos t (Some r) xs) = (\<not> isOk r)"
| "reportsError _ = False"

definition reported :: "auth_machine \<Rightarrow> bool" where
  "reported m \<longleftrightarrow> aw_errorReportedToServer (am_context m)"

text \<open>The budget of a step: the number of its error messages is one less than the flag leaves.\<close>

definition accounted :: "auth_machine \<Rightarrow> auth_machine \<times> auth_effect list \<Rightarrow> bool" where
  "accounted m r \<longleftrightarrow> (isError (nc_status (am_context m)) \<longrightarrow> nc_status (am_context (fst r)) = nc_status (am_context m)) \<and>
     length (filter reportsError (snd r)) + (if reported m then 1 else 0) \<le> (if reported (fst r) then 1 else 0)"

lemma accounted_kept:
  "statusKept (am_context m) (am_context m') \<Longrightarrow> filter reportsError fx = [] \<Longrightarrow> accounted m (m', fx)"
  by (simp add: accounted_def statusKept_def reported_def)

lemma createOk_isOk: "isOk createOk"
  by (simp add: isOk_def createOk_def ECardApiResult_def)

lemma auth_proceed_context: "am_context (fst (proceed r m)) = fst (snd r)" "snd (proceed r m) = snd (snd r)"
  by (simp_all add: proceed_def Let_def split: prod.split run_outcome.split)

lemma send_accounted: "accounted m (proceed (runSendReceive E st (am_context m)) m)"
proof (cases "nc_tcToken (am_context m) = None \<or> getAsCreator st (am_context m) = None \<or> st = SendStartPaos")
  case True
  then show ?thesis
    by (auto simp: accounted_def auth_proceed_context runSendReceive_def reported_def split: option.split)
next
  case False
  then obtain token t where "nc_tcToken (am_context m) = Some token" "getAsCreator st (am_context m) = Some t"
    "st \<noteq> SendStartPaos" by auto
  then show ?thesis
    by (auto simp: accounted_def auth_proceed_context runSendReceive_def setPaosResult_def reported_def createOk_isOk)
qed

lemma plain_accounted: "accounted m (proceed (runPlainState E st (am_context m)) m)"
proof -
  have "filter reportsError (snd (snd (runPlainState E st c))) = []" for c
    by (cases st) (simp_all add: runPlainState_def runDidAuthenticateEac2_def runRedirectBrowser_def sendErrorPage_def
        sendRedirect_def Let_def split: option.split prod.split)
  with runPlainState_status show ?thesis
    by (simp add: accounted_def auth_proceed_context statusKept_def reported_def)
qed

lemma step_accounted: "accounted m (auth_step E m e)"
proof (cases "am_phase m = PhUndefined \<or> am_state m = Stopped")
  case True
  then have "auth_step E m e = (m, [])" by (simp add: auth_step_def)
  then show ?thesis by (simp add: accounted_kept)
next
  case False
  then show ?thesis
  proof (cases e)
    case Approve
    have "accounted m (approveState E m)"
      by (simp add: approveState_def Let_def accounted_kept tokenEvent_kept refreshEvent_kept send_accounted plain_accounted
          del: isSendReceive.simps)
    with Approve False show ?thesis by (simp add: auth_step_def Let_def accounted_kept)
  qed (use False in \<open>simp_all add: auth_step_def Let_def withContext_def accounted_kept answerEvent_kept statusKept_same\<close>)
qed


lemma auth_run_Cons:
  "auth_run E m (e # es) = (fst (auth_run E (fst (auth_step E m e)) es),
     snd (auth_step E m e) @ snd (auth_run E (fst (auth_step E m e)) es))"
  by (simp add: case_prod_unfold)

declare auth_run.simps(2) [simp del] and auth_run_Cons [simp]

lemma run_accounted: "accounted m (auth_run E m es)"
proof (induction es arbitrary: m)
  case Nil
  show ?case by (simp add: accounted_def)
next
  case (Cons e es)
  from step_accounted [of m E e] Cons [of "fst (auth_step E m e)"] show ?case
    by (auto simp: accounted_def split: if_splits)
qed

text \<open>
  Whatever happens, the server is told of at most one error, and of none after it was told.
\<close>

theorem one_error_is_reported:
  "length (filter reportsError (snd (auth_run E m es))) \<le> (if aw_errorReportedToServer (am_context m) then 0 else 1)"
  using run_accounted [of m E es] by (auto simp: accounted_def reported_def split: if_splits)

text \<open>The first error of a workflow is the one that the user and the caller are told.\<close>

theorem first_error_stays:
  assumes "isError (nc_status (am_context m))"
  shows "nc_status (am_context (fst (auth_run E m es))) = nc_status (am_context m)"
  using run_accounted [of m E es] assms by (simp add: accounted_def)

theorem first_error_stays_witness:
  "nc_status (am_context (fst (auth_run sampleAuthEnv
     (withContext (setStatus GS_Workflow_Card_Removed (initialData [])) (initialMachine [])) [Cancel]))) =
   clientStatus GS_Workflow_Card_Removed"
  using first_error_stays [of "withContext (setStatus GS_Workflow_Card_Removed (initialData [])) (initialMachine [])"
      sampleAuthEnv "[Cancel]"]
  by (simp add: withContext_def setStatus_def initialData_def clientStatus_def isError_def)

section \<open>Messages and their states\<close>

text \<open>The state that handles a message.\<close>

fun handlerOf :: "PaosType \<Rightarrow> auth_state" where
  "handlerOf PT_INITIALIZE_FRAMEWORK = InitializeFrameworkState"
| "handlerOf PT_DID_LIST = DidListState"
| "handlerOf PT_DID_AUTHENTICATE_EAC1 = ProcessCvcsAndSetRights"
| "handlerOf PT_DID_AUTHENTICATE_EAC2 = EacAdditionalInputType"
| "handlerOf PT_DID_AUTHENTICATE_EAC_ADDITIONAL_INPUT_TYPE = ProcessCertificatesFromEac2"
| "handlerOf PT_TRANSMIT = TransmitState"
| "handlerOf PT_DISCONNECT = SendDisconnectResponse"
| "handlerOf _ = StartPaosResponseState"

text \<open>The position of a message in the list of a state, its signal and the table fit together.\<close>

definition signalFor :: "auth_state \<Rightarrow> PaosType \<Rightarrow> auth_signal option" where
  "signalFor st t = (let i = indexOf t (typesToReceive st) in if i = 0 then Some fireContinue else stateMachineSignal st (i + 2))"

definition sendStates :: "auth_state list" where
  "sendStates = [SendStartPaos, SendInitializeFrameworkResponse, SendDidListResponse, SendDidAuthenticateResponseEac1,
     SendDidAuthenticatResponseEacAdditionalInput, SendDidAuthenticateResponseEac2, SendTransmitResponse, SendDisconnectResponse]"

lemma signals_fit_table:
  "list_all (\<lambda>st. authTransition st fireAbort \<noteq> None \<and>
     list_all (\<lambda>t. case signalFor st t of None \<Rightarrow> False | Some s \<Rightarrow> authTransition st s = Some (handlerOf t))
       (typesToReceive st)) sendStates"
  by code_simp

lemma signals_fit:
  assumes "t \<in> set (typesToReceive st)"
  shows "\<exists>s. signalFor st t = Some s \<and> authTransition st s = Some (handlerOf t)"
proof -
  have "st \<in> set sendStates" using assms by (cases st) (simp_all add: sendStates_def)
  with signals_fit_table assms show ?thesis by (fastforce simp: list_all_iff split: option.splits)
qed

text \<open>
  An expected message is stored and leads to the state that handles it, although the code counts
  signals from the position of its type; any other message aborts the exchange.
\<close>

theorem message_reaches_its_state:
  fixes m msg statusCode
  assumes "isSendReceive (am_state m)" "statusCode < 500"
  defines "m' \<equiv> onReplyFinished NoError statusCode msg m"
  shows "if detectedPaosType msg \<in> set (typesToReceive (am_state m))
    then \<exists>p. msg = Some p \<and> am_state m' = handlerOf (detectedPaosType msg) \<and> am_phase m' = PhEntered \<and>
      am_context m' = setReceivedMessage p (am_context m)
    else authTransition (am_state m) fireAbort = Some (am_state m') \<and> isError (nc_status (am_context m'))"
proof (cases "detectedPaosType msg \<in> set (typesToReceive (am_state m))")
  case True
  have "PT_UNKNOWN_MESSAGE \<notin> set (typesToReceive (am_state m))" by (cases "am_state m") simp_all
  with True obtain p where p: "msg = Some p" by (cases msg) auto
  obtain s where "signalFor (am_state m) (detectedPaosType msg) = Some s"
    "authTransition (am_state m) s = Some (handlerOf (detectedPaosType msg))"
    using signals_fit [OF True] by blast
  then have "m' = m\<lparr>am_context := setReceivedMessage p (am_context m), am_state := handlerOf (detectedPaosType msg),
      am_phase := PhEntered\<rparr>"
    using True assms(2) p
    by (auto simp: m'_def onReplyFinished_def Let_def signalFor_def withContext_def emit_def split: if_splits)
  with True p show ?thesis by simp
next
  case False
  obtain st where st: "authTransition (am_state m) fireAbort = Some st"
    using isSendReceive_states [OF assms(1)] signals_fit_table by (auto simp: sendStates_def)
  show ?thesis
    using False assms(2) st
    by (simp add: m'_def onReplyFinished_def Let_def abortWith_def withContext_def emit_def setStatus_def clientStatus_def
        isError_def)
qed

definition sampleSending :: auth_machine where
  "sampleSending = (initialMachine [])\<lparr>am_state := SendTransmitResponse, am_phase := PhRunning\<rparr>"

theorem message_reaches_its_state_witness:
  "am_state (onReplyFinished NoError 200 (Some Disconnect) sampleSending) = SendDisconnectResponse"
  using message_reaches_its_state [of sampleSending 200 "Some Disconnect"] by (simp add: sampleSending_def)


section \<open>The end of a cancelled workflow\<close>

definition afterAbort :: "auth_state \<Rightarrow> auth_state" where
  "afterAbort st = (case authTransition st fireAbort of None \<Rightarrow> st | Some st' \<Rightarrow> st')"

lemma afterAbort_states:
  "afterAbort Processing = CleanUpReaderManager"
  "afterAbort ParseTcTokenUrl = CleanUpReaderManager"
  "afterAbort GetTcToken = CleanUpReaderManager"
  "afterAbort StartPaos = CleanUpReaderManager"
  "afterAbort SendStartPaos = CleanUpReaderManager"
  "afterAbort InitializeFrameworkState = SendInitializeFrameworkResponse"
  "afterAbort SendInitializeFrameworkResponse = CleanUpReaderManager"
  "afterAbort DidListState = SendDidListResponse"
  "afterAbort SendDidListResponse = CleanUpReaderManager"
  "afterAbort ProcessCvcsAndSetRights = SendDidAuthenticateResponseEac1"
  "afterAbort PaceState = SendDidAuthenticateResponseEac1"
  "afterAbort ClearPacePasswordsState = DidAuthenticateEac1State"
  "afterAbort DidAuthenticateEac1State = SendDidAuthenticateResponseEac1"
  "afterAbort SendDidAuthenticateResponseEac1 = UpdateRetryCounterFinal"
  "afterAbort EacAdditionalInputType = SendDidAuthenticatResponseEacAdditionalInput"
  "afterAbort SendDidAuthenticatResponseEacAdditionalInput = UpdateRetryCounterFinal"
  "afterAbort ProcessCertificatesFromEac2 = SendDidAuthenticateResponseEac2"
  "afterAbort DidAuthenticateEac2State = SendDidAuthenticateResponseEac2"
  "afterAbort SendDidAuthenticateResponseEac2 = UpdateRetryCounterFinal"
  "afterAbort TransmitState = SendTransmitResponse"
  "afterAbort SendTransmitResponse = UpdateRetryCounterFinal"
  "afterAbort SendDisconnectResponse = UpdateRetryCounterFinal"
  "afterAbort StartPaosResponseState = UpdateRetryCounterFinal"
  "afterAbort UpdateRetryCounterFinal = CleanUpReaderManager"
  "afterAbort CleanUpReaderManager = CheckRefreshAddress"
  "afterAbort CheckRefreshAddress = RedirectBrowser"
  "afterAbort ActivateStoreFeedbackDialog = WriteHistory"
  "afterAbort WriteHistory = RedirectBrowser"
  "afterAbort SendWhitelistSurvey = RedirectBrowser"
  "afterAbort RedirectBrowser = FinalState"
  "afterAbort FinalState = FinalState"
  by (simp_all add: afterAbort_def authTransition_def authTable_def)

lemma aborts_end_at:
  assumes "st \<noteq> Stopped"
  shows "afterAbort st \<noteq> PaceState" "afterAbort st \<noteq> Stopped" "(afterAbort ^^ 7) st = FinalState"
  using assms by (cases st; simp add: afterAbort_states numeral_eq_Suc)+

text \<open>
  One round: the user cancels. Within PACE the cancellation is that of the states of PACE, which
  end with an abort (\<open>cancelled_workflow_ends\<close> for the states that both workflows share).
\<close>

definition cancelRound :: "auth_machine \<Rightarrow> GlobalStatusCode \<Rightarrow> bool \<Rightarrow> auth_event list" where
  "cancelRound m s connected = (if am_state m = PaceState then [Cancel, PaceAborted s connected] else [Cancel])"

fun cancelRounds :: "auth_env \<Rightarrow> nat \<Rightarrow> GlobalStatusCode \<Rightarrow> bool \<Rightarrow> auth_machine \<Rightarrow> auth_machine" where
  "cancelRounds E 0 s b m = m"
| "cancelRounds E (Suc n) s b m = cancelRounds E n s b (fst (auth_run E m (cancelRound m s b)))"

definition cancelledStatus :: "auth_machine \<Rightarrow> global_status" where
  "cancelledStatus m =
    (if isError (nc_status (am_context m)) then nc_status (am_context m)
     else clientStatus GS_Workflow_Cancellation_By_User)"

lemma abortWith_facts:
  "am_state (abortWith s m) = afterAbort (am_state m)"
  "am_phase m \<noteq> PhUndefined \<Longrightarrow> am_phase (abortWith s m) \<noteq> PhUndefined"
  "nc_status (am_context (abortWith s m)) = nc_status (setStatus s (am_context m))"
  by (simp_all add: abortWith_def withContext_def emit_def afterAbort_def split: option.split)

lemma cancellation_status:
  "nc_status (setStatus GS_Workflow_Cancellation_By_User (am_context m)) = cancelledStatus m" "isError (cancelledStatus m)"
  by (simp_all add: setStatus_def cancelledStatus_def isError_def clientStatus_def)

lemma cancel_round:
  assumes "am_phase m \<noteq> PhUndefined" "am_state m \<noteq> Stopped"
  shows "am_state (fst (auth_run E m (cancelRound m s b))) = afterAbort (am_state m) \<and>
    am_phase (fst (auth_run E m (cancelRound m s b))) \<noteq> PhUndefined \<and>
    nc_status (am_context (fst (auth_run E m (cancelRound m s b)))) = cancelledStatus m"
proof (cases "am_state m = PaceState")
  case True
  let ?m = "withContext (setStatus GS_Workflow_Cancellation_By_User (am_context m)) m"
  have cancel: "auth_step E m Cancel = (?m, [])" using assms True by (simp add: auth_step_def Let_def)
  let ?c = "(clearPasswords (am_context ?m))\<lparr>aw_hasCardConnection := b\<rparr>"
  have abort: "auth_step E ?m (PaceAborted s b) = (abortWith s (withContext ?c ?m), [])"
    using assms True by (simp add: auth_step_def answerEvent_def withContext_def Let_def)
  have kept: "nc_status (am_context (withContext ?c ?m)) = cancelledStatus m"
    by (simp add: withContext_def clearPasswords_def cancellation_status)
  then have "nc_status (am_context (abortWith s (withContext ?c ?m))) = cancelledStatus m"
    using setStatus_kept [of "am_context (withContext ?c ?m)"] cancellation_status(2) by (simp add: abortWith_facts)
  then show ?thesis
    using assms True cancel abort by (simp add: cancelRound_def abortWith_facts(1,2) withContext_def)
next
  case False
  have "auth_step E m Cancel = (abortWith GS_Workflow_Cancellation_By_User m, [])"
    using assms False by (simp add: auth_step_def Let_def)
  with assms False show ?thesis by (simp add: cancelRound_def abortWith_facts cancellation_status)
qed

lemma cancel_rounds:
  assumes "am_phase m \<noteq> PhUndefined" "am_state m \<noteq> Stopped"
  shows "am_state (cancelRounds E n s b m) = (afterAbort ^^ n) (am_state m) \<and>
    nc_status (am_context (cancelRounds E n s b m)) = (if n = 0 then nc_status (am_context m) else cancelledStatus m)"
  using assms
proof (induction n arbitrary: m)
  case (Suc n)
  let ?m = "fst (auth_run E m (cancelRound m s b))"
  note round = cancel_round [OF Suc.prems, of E s b]
  have "am_state ?m \<noteq> Stopped" using round aborts_end_at(2) [OF Suc.prems(2)] by simp
  with Suc.IH [of ?m] round have "am_state (cancelRounds E n s b ?m) = (afterAbort ^^ n) (afterAbort (am_state m))"
      "nc_status (am_context (cancelRounds E n s b ?m)) = (if n = 0 then nc_status (am_context ?m) else cancelledStatus ?m)"
    by simp_all
  moreover have "cancelledStatus ?m = cancelledStatus m"
    using round cancellation_status(2) [of m] by (simp add: cancelledStatus_def [of ?m])
  ultimately show ?case using round by (simp add: funpow_swap1)
qed simp

text \<open>
  C37. A user who cancels every state that follows is at the end of the workflow after at most seven
  cancellations, and the result is the cancellation by the user, or the error that had occurred before. This holds for every
  state of the machine but two: the one in which it has stopped already, and the one in which the code has used a null pointer
  (\<open>eac2_without_pace_is_undefined\<close> reaches it), whose behaviour is undefined. Where PACE
  runs, its own states are cancelled, and the round ends with their abort.
\<close>

theorem cancelled_authentication_ends:
  assumes "am_phase m \<noteq> PhUndefined" "am_state m \<noteq> Stopped"
  shows "am_state (cancelRounds E 7 s b m) = FinalState \<and>
    nc_status (am_context (cancelRounds E 7 s b m)) =
      (if isError (nc_status (am_context m)) then nc_status (am_context m)
       else clientStatus GS_Workflow_Cancellation_By_User)"
  using cancel_rounds [OF assms, of E 7 s b] aborts_end_at(3) [OF assms(2)] by (simp add: cancelledStatus_def)

theorem cancelled_authentication_ends_witness:
  "am_state (cancelRounds sampleAuthEnv 7 GS_Card_Cancellation_By_User True sampleSending) = FinalState"
  using cancelled_authentication_ends [of sampleSending sampleAuthEnv GS_Card_Cancellation_By_User True]
  by (simp only: sampleSending_def initialMachine_def) simp


section \<open>A cancellation that the server does not heed\<close>

lemma goes_on_transitions:
  "authTransition DidAuthenticateEac1State fireAbort = Some SendDidAuthenticateResponseEac1"
  "authTransition ProcessCvcsAndSetRights fireAbort = Some SendDidAuthenticateResponseEac1"
  "authTransition SendDidAuthenticateResponseEac1 fireContinue = Some EacAdditionalInputType"
  "authTransition EacAdditionalInputType fireContinue = Some ProcessCertificatesFromEac2"
  "authTransition ProcessCertificatesFromEac2 fireContinue = Some DidAuthenticateEac2State"
  "authTransition DidAuthenticateEac2State fireContinue = Some SendDidAuthenticateResponseEac2"
  "authTransition ClearPacePasswordsState fireAbort = Some DidAuthenticateEac1State"
  by (simp_all add: authTransition_def authTable_def)

lemmas goes_on_eval = auth_step_def approveState_def proceed_def runSendReceive_def setPaosResult_def runPlainState_def
  runEacAdditionalInputType_def runProcessCertificatesFromEac2_def runDidAuthenticateEac2_def answerEvent_def
  onReplyFinished_def onEac2Done_def abortWith_def withContext_def emit_def goes_on_transitions Let_def

text \<open>
  The user cancels while the card works on EAC1. The server is told, but when it sends its EAC2
  message all the same, the status is not looked at again: the card authenticates the terminal,
  and its answer goes to the server with the result ok.
\<close>

theorem cancelled_authentication_goes_on:
  fixes m E
  defines "c \<equiv> am_context m"
  assumes "am_state m = DidAuthenticateEac1State" "am_phase m \<noteq> PhUndefined" "au_paceOutput c = Some pace"
    "hasChainForCertificationAuthority c pace" "aw_hasCardConnection c" "nc_eac1 c = Some eac1"
    "aw_responseEac1 c = Some r" "nc_tcToken c = Some token" "nc_status c = clientStatus GS_No_Error"
    "\<not> aw_errorReportedToServer c" "isOk (aw_startPaosResult c)" "e2_signature eac2 \<noteq> []"
  shows "snd (auth_run E m [Cancel, Approve, PaosReply NoError 200 (Some (DIDAuthenticateEAC2 eac2)), Approve, Approve,
      Approve, Eac2Done CR_OK authToken ef nonce, Approve]) =
    [SendPaos PT_DID_AUTHENTICATE_RESPONSE_EAC1
       (Some (fromStatus (ae_describe E) (clientStatus GS_Workflow_Cancellation_By_User))) [r1_challenge r],
     CardCall (CallEac2 (context_getChainForCertificationAuthority c pace) (e2_ephemeralPublicKey eac2)
       (e2_signature eac2) (e1_auxiliaryDataAsBinary eac1)),
     SendPaos PT_DID_AUTHENTICATE_RESPONSE_EAC2 (Some createOk) [authToken, ef, nonce]]"
proof -
  let ?c = "c\<lparr>nc_status := clientStatus GS_Workflow_Cancellation_By_User\<rparr>"
  have "setStatus GS_Workflow_Cancellation_By_User c = ?c"
    using assms(10) by (simp add: setStatus_def isError_def clientStatus_def)
  moreover have "isError (clientStatus GS_Workflow_Cancellation_By_User)"
    "gs_origin (clientStatus GS_Workflow_Cancellation_By_User) \<noteq> Server"
    by (simp_all add: isError_def clientStatus_def)
  moreover have "context_getChainForCertificationAuthority (c\<lparr>nc_status := x, aw_errorReportedToServer := b,
      au_eac2 := e, aw_responseEac2 := r2, aw_responseAdditional := ra\<rparr>) pace = context_getChainForCertificationAuthority c pace"
    for x b e r2 ra by (simp add: context_getChainForCertificationAuthority_def Let_def)
  ultimately show ?thesis
    using assms(2-)
    by (simp add: goes_on_eval hasChainForCertificationAuthority_def flip: c_def)
qed


definition sampleEac2Message :: eac2_message where
  "sampleEac2Message = \<lparr>e2_cvCertificates = [], e2_ephemeralPublicKey = ''04'', e2_signature = ''aa''\<rparr>"

definition sampleAtCard :: auth_machine where
  "sampleAtCard = (initialMachine [])\<lparr>am_state := DidAuthenticateEac1State, am_phase := PhRunning,
     am_context := (initialData [])\<lparr>nc_eac1 := Some sampleEac1, nc_tcToken := Some (sampleToken ''s''),
       au_chainBuilderProd := CVCertificateChainBuilder sample_pool, au_paceOutput := Some ([1], [9]),
       aw_hasCardConnection := True, aw_responseEac1 := Some emptyEac1Response\<rparr>\<rparr>"

theorem cancelled_authentication_goes_on_witness:
  "CardCall (CallEac2 [sample_cvc 3 1 2 0x80, sample_cvc 1 2 3 0] ''04'' ''aa'' []) \<in>
     set (snd (auth_run sampleAuthEnv sampleAtCard [Cancel, Approve,
       PaosReply NoError 200 (Some (DIDAuthenticateEAC2 sampleEac2Message)), Approve, Approve, Approve,
       Eac2Done CR_OK [] [] [], Approve]))"
proof -
  have valid: "isValidChain [sample_cvc 3 1 2 0x80, sample_cvc 1 2 3 0]"
    by (simp add: isValidChain_def sample_roles)
  then have chain: "context_getChainForCertificationAuthority (am_context sampleAtCard) ([1], [9]) =
      [sample_cvc 3 1 2 0x80, sample_cvc 1 2 3 0]"
    by (simp add: sampleAtCard_def context_getChainForCertificationAuthority_def sample_pool_chain)
  have ctx: "am_state sampleAtCard = DidAuthenticateEac1State" "am_phase sampleAtCard \<noteq> PhUndefined"
    "au_paceOutput (am_context sampleAtCard) = Some ([1], [9])"
    "hasChainForCertificationAuthority (am_context sampleAtCard) ([1], [9])"
    "aw_hasCardConnection (am_context sampleAtCard)" "nc_eac1 (am_context sampleAtCard) = Some sampleEac1"
    "aw_responseEac1 (am_context sampleAtCard) = Some emptyEac1Response"
    "nc_tcToken (am_context sampleAtCard) = Some (sampleToken ''s'')"
    "nc_status (am_context sampleAtCard) = clientStatus GS_No_Error"
    "\<not> aw_errorReportedToServer (am_context sampleAtCard)" "isOk (aw_startPaosResult (am_context sampleAtCard))"
    using chain valid
    by (simp_all add: hasChainForCertificationAuthority_def) (simp_all add: sampleAtCard_def initialData_def createOk_isOk)
  show ?thesis
    by (subst cancelled_authentication_goes_on [OF ctx])
      (simp_all add: chain sampleEac2Message_def sampleEac1_def)
qed

text \<open>
  When the user cancels at the dialog for the rights, before PACE, an EAC2 message of the server
  makes the workflow use the output of PACE that there is none of.
\<close>

theorem eac2_without_pace_is_undefined:
  fixes m E
  defines "c \<equiv> am_context m"
  assumes "am_state m = ProcessCvcsAndSetRights" "am_phase m \<noteq> PhUndefined" "au_paceOutput c = None"
    "nc_eac1 c = Some eac1" "aw_responseEac1 c = Some r" "nc_tcToken c = Some token" "e2_signature eac2 \<noteq> []"
    "nc_status c = clientStatus GS_No_Error" "\<not> aw_errorReportedToServer c" "isOk (aw_startPaosResult c)"
  shows "am_phase (fst (auth_run E m [Cancel, Approve,
      PaosReply NoError 200 (Some (DIDAuthenticateEAC2 eac2)), Approve, Approve])) = PhUndefined"
proof -
  let ?c = "c\<lparr>nc_status := clientStatus GS_Workflow_Cancellation_By_User\<rparr>"
  have "setStatus GS_Workflow_Cancellation_By_User c = ?c"
    using assms(9) by (simp add: setStatus_def isError_def clientStatus_def)
  moreover have "isError (clientStatus GS_Workflow_Cancellation_By_User)"
    "gs_origin (clientStatus GS_Workflow_Cancellation_By_User) \<noteq> Server"
    by (simp_all add: isError_def clientStatus_def)
  ultimately show ?thesis
    using assms(2-) by (simp add: goes_on_eval flip: c_def)
qed

text \<open>
  A cancellation in the state that clears the passwords leads to the same next state, but the
  passwords are still there when the card is asked.
\<close>

theorem cancelled_clearing_keeps_passwords:
  fixes m E
  defines "c \<equiv> am_context m"
  assumes "am_state m = ClearPacePasswordsState" "am_phase m = PhEntered" "aw_hasCardConnection c"
  shows "snd (auth_run E m [Cancel, Approve]) = [CardCall CallEac1]"
    "aw_pin (am_context (fst (auth_run E m [Cancel, Approve]))) = aw_pin c"
    "isError (nc_status (am_context (fst (auth_run E m [Cancel, Approve]))))"
  using assms(2-) unfolding c_def
  by (simp_all add: goes_on_eval setStatus_def clientStatus_def isError_def)

end
