(* ===== verification/RemoteMessages.thy ===== *)
theory RemoteMessages
  imports Eac2 ECardApi
begin

text \<open>
  The messages between this program and a remote card reader (a smartphone that is used as card
  reader): src/src/remote_device/messages. A JSON object of Qt is an association list with one
  entry per name; \<open>json\<close> has the values a message can hold, a number that is no
  integer being \<open>JNumber None\<close>. The rendering of objects as text is Qt's and belongs to
  the channel (RemoteServer). Each class of a message is a record that extends
  \<open>remote_message\<close> or \<open>remote_response\<close>, as the classes extend RemoteMessage and
  RemoteMessageResponse, with a constructor for sending, one for reading (\<open>..._of\<close>) and
  the object that \<open>toByteArray\<close> writes (\<open>..._toJson\<close>). The build is a release
  build (\<open>QT_NO_DEBUG\<close>), so there is one protocol version.
\<close>

section \<open>JSON objects\<close>

datatype json =
    JNull | JBool bool | JNumber "int option" | JString string
  | JArray "json list" | JObject "(string \<times> json) list"

type_synonym object = "(string \<times> json) list"

definition jput :: "string \<Rightarrow> json \<Rightarrow> object \<Rightarrow> object" where
  "jput k v obj = (k, v) # filter (\<lambda>p. fst p \<noteq> k) obj"

text \<open>\<open>QJsonValue::toInt\<close>: zero for a number that is no 32-bit integer.\<close>

definition numberToInt :: "int option \<Rightarrow> int" where
  "numberToInt n = (case n of None \<Rightarrow> 0 | Some i \<Rightarrow> if -(2 ^ 31) \<le> i \<and> i < 2 ^ 31 then i else 0)"

text \<open>
  The getters of RemoteMessage. Each gives its value and the flag \<open>mIncomplete\<close>, which is
  set when the value is missing or has another type.
\<close>

definition getBoolValue :: "object \<Rightarrow> string \<Rightarrow> bool \<Rightarrow> bool \<times> bool" where
  "getBoolValue obj name mIncomplete =
    (case map_of obj name of
       None \<Rightarrow> (False, True)
     | Some v \<Rightarrow> (case v of JBool b \<Rightarrow> (b, mIncomplete) | _ \<Rightarrow> (False, True)))"

definition getIntValue :: "object \<Rightarrow> string \<Rightarrow> bool \<Rightarrow> int \<times> bool" where
  "getIntValue obj name mIncomplete =
    (case map_of obj name of
       None \<Rightarrow> (0, True)
     | Some v \<Rightarrow> (case v of JNumber n \<Rightarrow> (numberToInt n, mIncomplete) | _ \<Rightarrow> (0, True)))"

definition getStringValue :: "object \<Rightarrow> string \<Rightarrow> bool \<Rightarrow> string \<times> bool" where
  "getStringValue obj name mIncomplete =
    (case map_of obj name of
       None \<Rightarrow> ([], True)
     | Some v \<Rightarrow> (case v of JString s \<Rightarrow> (s, mIncomplete) | _ \<Rightarrow> ([], True)))"

section \<open>The common part of all messages\<close>

datatype (plugins only: size) RemoteCardMessageType =
    IFDEstablishContext | IFDEstablishContextResponse | IFDGetStatus | IFDStatus | IFDConnect
  | IFDConnectResponse | IFDDisconnect | IFDDisconnectResponse | IFDError | IFDTransmit
  | IFDTransmitResponse | IFDEstablishPACEChannel | IFDEstablishPACEChannelResponse | IFDModifyPIN
  | IFDModifyPINResponse | MSG_UNDEFINED

fun messageTypeName :: "RemoteCardMessageType \<Rightarrow> string" where
  "messageTypeName IFDEstablishContext = ''IFDEstablishContext''"
| "messageTypeName IFDEstablishContextResponse = ''IFDEstablishContextResponse''"
| "messageTypeName IFDGetStatus = ''IFDGetStatus''"
| "messageTypeName IFDStatus = ''IFDStatus''"
| "messageTypeName IFDConnect = ''IFDConnect''"
| "messageTypeName IFDConnectResponse = ''IFDConnectResponse''"
| "messageTypeName IFDDisconnect = ''IFDDisconnect''"
| "messageTypeName IFDDisconnectResponse = ''IFDDisconnectResponse''"
| "messageTypeName IFDError = ''IFDError''"
| "messageTypeName IFDTransmit = ''IFDTransmit''"
| "messageTypeName IFDTransmitResponse = ''IFDTransmitResponse''"
| "messageTypeName IFDEstablishPACEChannel = ''IFDEstablishPACEChannel''"
| "messageTypeName IFDEstablishPACEChannelResponse = ''IFDEstablishPACEChannelResponse''"
| "messageTypeName IFDModifyPIN = ''IFDModifyPIN''"
| "messageTypeName IFDModifyPINResponse = ''IFDModifyPINResponse''"
| "messageTypeName MSG_UNDEFINED = ''UNDEFINED''"

definition messageTypes :: "RemoteCardMessageType list" where
  "messageTypes =
    [IFDEstablishContext, IFDEstablishContextResponse, IFDGetStatus, IFDStatus, IFDConnect,
     IFDConnectResponse, IFDDisconnect, IFDDisconnectResponse, IFDError, IFDTransmit,
     IFDTransmitResponse, IFDEstablishPACEChannel, IFDEstablishPACEChannelResponse, IFDModifyPIN,
     IFDModifyPINResponse, MSG_UNDEFINED]"

definition messageTypeOf :: "string \<Rightarrow> RemoteCardMessageType" where
  "messageTypeOf s =
    (case enum_ofValue messageTypeName messageTypes s of None \<Rightarrow> MSG_UNDEFINED | Some t \<Rightarrow> t)"

interpretation message_type: enum_type messageTypeName messageTypes
proof
  show "e \<in> set messageTypes" for e
    by (cases e) (simp_all add: messageTypes_def)
  show "distinct (map messageTypeName messageTypes)"
    by (simp add: messageTypes_def)
qed

record remote_message =
  rm_incomplete :: bool
  rm_type :: RemoteCardMessageType
  rm_context :: string

definition RemoteMessage :: "RemoteCardMessageType \<Rightarrow> remote_message" where
  "RemoteMessage pMessageType = \<lparr>rm_incomplete = False, rm_type = pMessageType, rm_context = []\<rparr>"

definition RemoteMessage_of :: "object \<Rightarrow> remote_message" where
  "RemoteMessage_of obj =
    (let (msgType, inc) = getStringValue obj ''msg'' False;
         mMessageType = messageTypeOf msgType;
         inc = (if mMessageType = MSG_UNDEFINED then True else inc);
         (mContextHandle, inc) =
           (if mMessageType \<noteq> IFDEstablishContext then getStringValue obj ''ContextHandle'' inc
            else ([], inc))
     in \<lparr>rm_incomplete = inc, rm_type = mMessageType, rm_context = mContextHandle\<rparr>)"

definition createMessageBody :: "RemoteCardMessageType \<Rightarrow> string \<Rightarrow> object" where
  "createMessageBody mMessageType pContextHandle =
    (let messageBody = jput ''msg'' (JString (messageTypeName mMessageType)) []
     in if mMessageType = IFDEstablishContext then messageBody
        else jput ''ContextHandle'' (JString pContextHandle) messageBody)"

record remote_response = remote_message +
  rr_major :: ECardMajor
  rr_minor :: ECardMinor

definition RemoteMessageResponse :: "RemoteCardMessageType \<Rightarrow> ECardMinor \<Rightarrow> remote_response" where
  "RemoteMessageResponse pMessageType pResultMinor =
    \<lparr>rm_incomplete = False, rm_type = pMessageType, rm_context = [],
     rr_major = (if pResultMinor = MI_null then MA_Ok else MA_Error), rr_minor = pResultMinor\<rparr>"

definition resultHasError :: "'a remote_response_scheme \<Rightarrow> bool" where
  "resultHasError r \<longleftrightarrow> rr_major r \<noteq> MA_Ok"

definition RemoteMessageResponse_of :: "object \<Rightarrow> remote_response" where
  "RemoteMessageResponse_of obj =
    (let b = RemoteMessage_of obj;
         (major, inc) = getStringValue obj ''ResultMajor'' (rm_incomplete b);
         mResultMajor = parseMajor major;
         (mResultMinor, inc) =
           (if mResultMajor \<noteq> MA_Ok then
              let (minor, inc) = getStringValue obj ''ResultMinor'' inc in (parseMinor minor, inc)
            else (MI_null, inc))
     in \<lparr>rm_incomplete = inc, rm_type = rm_type b, rm_context = rm_context b,
         rr_major = mResultMajor, rr_minor = mResultMinor\<rparr>)"

definition createResponseBody :: "'a remote_response_scheme \<Rightarrow> string \<Rightarrow> object" where
  "createResponseBody r pContextHandle =
    jput ''ResultMinor''
      (if rr_minor r = MI_null then JNull else JString (getMinorString (rr_minor r)))
      (jput ''ResultMajor'' (JString (getMajorString (rr_major r)))
        (createMessageBody (rm_type r) pContextHandle))"

section \<open>Protocol versions\<close>

datatype Version = V_Unknown | V_v0

fun versionToString :: "Version \<Rightarrow> string" where
  "versionToString V_Unknown = []"
| "versionToString V_v0 = ''IFDInterface_WebSocket_v0''"

definition versionFromString :: "string \<Rightarrow> Version" where
  "versionFromString pVersionString =
    (if pVersionString = versionToString V_v0 then V_v0 else V_Unknown)"

definition supportedVersions :: "Version list" where
  "supportedVersions = [V_v0]"

definition versionIsSupported :: "Version \<Rightarrow> bool" where
  "versionIsSupported v \<longleftrightarrow> list_ex (\<lambda>s. v = s) supportedVersions"

definition selectLatestSupported :: "Version list \<Rightarrow> Version" where
  "selectLatestSupported pVersions = last (V_Unknown # filter versionIsSupported pVersions)"

section \<open>Establishing a context\<close>

record ifd_establish_context = remote_message +
  ec_protocolRaw :: string
  ec_protocol :: Version
  ec_udName :: string

definition IfdEstablishContext :: "Version \<Rightarrow> string \<Rightarrow> ifd_establish_context" where
  "IfdEstablishContext pProtocol pUdName =
    \<lparr>rm_incomplete = False, rm_type = IFDEstablishContext, rm_context = [],
     ec_protocolRaw = [], ec_protocol = pProtocol, ec_udName = pUdName\<rparr>"

definition IfdEstablishContext_of :: "object \<Rightarrow> ifd_establish_context" where
  "IfdEstablishContext_of obj =
    (let b = RemoteMessage_of obj;
         (mProtocolRaw, inc) = getStringValue obj ''Protocol'' (rm_incomplete b);
         (mUdName, inc) = getStringValue obj ''UDName'' inc;
         inc = (if rm_type b \<noteq> IFDEstablishContext then True else inc)
     in \<lparr>rm_incomplete = inc, rm_type = rm_type b, rm_context = rm_context b,
         ec_protocolRaw = mProtocolRaw, ec_protocol = versionFromString mProtocolRaw, ec_udName = mUdName\<rparr>)"

definition IfdEstablishContext_toJson :: "ifd_establish_context \<Rightarrow> string \<Rightarrow> object" where
  "IfdEstablishContext_toJson m pContextHandle =
    jput ''UDName'' (JString (ec_udName m))
      (jput ''Protocol'' (JString (versionToString (ec_protocol m)))
        (createMessageBody (rm_type m) pContextHandle))"

record ifd_establish_context_response = remote_response +
  ecr_ifdName :: string

definition IfdEstablishContextResponse :: "string \<Rightarrow> ECardMinor \<Rightarrow> ifd_establish_context_response" where
  "IfdEstablishContextResponse pIfdName pResultMinor =
    remote_response.extend (RemoteMessageResponse IFDEstablishContextResponse pResultMinor)
      (ifd_establish_context_response.fields pIfdName)"

definition IfdEstablishContextResponse_of :: "object \<Rightarrow> ifd_establish_context_response" where
  "IfdEstablishContextResponse_of obj =
    (let b = RemoteMessageResponse_of obj;
         (mIfdName, inc) = getStringValue obj ''IFDName'' (rm_incomplete b);
         inc = (if rm_type b \<noteq> IFDEstablishContextResponse then True else inc)
     in remote_response.extend (b\<lparr>rm_incomplete := inc\<rparr>) (ifd_establish_context_response.fields mIfdName))"

definition IfdEstablishContextResponse_toJson :: "ifd_establish_context_response \<Rightarrow> string \<Rightarrow> object" where
  "IfdEstablishContextResponse_toJson m pContextHandle =
    jput ''IFDName'' (JString (ecr_ifdName m)) (createResponseBody m pContextHandle)"

section \<open>Status of a reader\<close>

text \<open>
  \<open>ReaderInfo\<close> (src/src/card/base/ReaderInfo.h), of the card information only the type of
  the card, which decides \<open>hasCard\<close> and \<open>hasEidCard\<close>.
\<close>

datatype ReaderManagerPlugInType = PI_UNKNOWN | PI_PCSC | PI_BLUETOOTH | PI_NFC | PI_REMOTE | PI_OMAPI

record reader_description =
  rdr_plugInType :: ReaderManagerPlugInType
  rdr_name :: string
  rdr_basicReader :: bool
  rdr_cardType :: CardType
  rdr_connected :: bool
  rdr_maxApduLength :: int

definition ReaderInfo :: "string \<Rightarrow> ReaderManagerPlugInType \<Rightarrow> CardType \<Rightarrow> reader_description" where
  "ReaderInfo pName pPlugInType pCardType =
    \<lparr>rdr_plugInType = pPlugInType, rdr_name = pName, rdr_basicReader = True, rdr_cardType = pCardType,
     rdr_connected = False, rdr_maxApduLength = (if pPlugInType = PI_NFC then 0 else 500)\<rparr>"

definition readerHasCard :: "reader_description \<Rightarrow> bool" where
  "readerHasCard i \<longleftrightarrow> rdr_cardType i \<noteq> CT_NONE"

definition hasEidCard :: "reader_description \<Rightarrow> bool" where
  "hasEidCard i \<longleftrightarrow> rdr_cardType i = CT_EID_CARD"

definition sufficientApduLength :: "reader_description \<Rightarrow> bool" where
  "sufficientApduLength i =
    (if \<not> readerHasCard i then True else rdr_maxApduLength i = 0 \<or> rdr_maxApduLength i \<ge> 500)"

record pace_capabilities =
  pc_pace :: bool
  pc_eId :: bool
  pc_eSign :: bool
  pc_destroy :: bool

definition PaceCapabilities :: "bool \<Rightarrow> pace_capabilities" where
  "PaceCapabilities pPace = \<lparr>pc_pace = pPace, pc_eId = False, pc_eSign = False, pc_destroy = False\<rparr>"

definition PaceCapabilities_toJson :: "pace_capabilities \<Rightarrow> json" where
  "PaceCapabilities_toJson c =
    JObject (jput ''Destroy'' (JBool (pc_destroy c)) (jput ''eSign'' (JBool (pc_eSign c))
      (jput ''eID'' (JBool (pc_eId c)) (jput ''PACE'' (JBool (pc_pace c)) []))))"

record ifd_status = remote_message +
  st_slotName :: string
  st_paceCapabilities :: pace_capabilities
  st_maxApduLength :: int
  st_connectedReader :: bool
  st_cardAvailable :: bool

definition IfdStatus :: "string \<Rightarrow> pace_capabilities \<Rightarrow> int \<Rightarrow> bool \<Rightarrow> bool \<Rightarrow> ifd_status" where
  "IfdStatus pSlotName pPaceCapabilities pMaxApduLength pConnected pCardAvailable =
    \<lparr>rm_incomplete = False, rm_type = IFDStatus, rm_context = [], st_slotName = pSlotName,
     st_paceCapabilities = pPaceCapabilities, st_maxApduLength = pMaxApduLength,
     st_connectedReader = pConnected, st_cardAvailable = pCardAvailable\<rparr>"

definition IfdStatus_ofReader :: "bool \<Rightarrow> reader_description \<Rightarrow> ifd_status" where
  "IfdStatus_ofReader pinPadMode pReaderInfo =
    IfdStatus (rdr_name pReaderInfo)
      (PaceCapabilities (if rdr_basicReader pReaderInfo then pinPadMode else True))
      (rdr_maxApduLength pReaderInfo) (rdr_connected pReaderInfo) (readerHasCard pReaderInfo)"

definition parsePaceCapabilities :: "object \<Rightarrow> bool \<Rightarrow> pace_capabilities \<times> bool" where
  "parsePaceCapabilities obj inc =
    (case map_of obj ''PINCapabilities'' of
       None \<Rightarrow> (PaceCapabilities False, True)
     | Some value \<Rightarrow>
        (case value of
           JObject o' \<Rightarrow>
             (let (pace, inc) = getBoolValue o' ''PACE'' inc;
                  (eId, inc) = getBoolValue o' ''eID'' inc;
                  (eSign, inc) = getBoolValue o' ''eSign'' inc;
                  (destroy, inc) = getBoolValue o' ''Destroy'' inc
              in (\<lparr>pc_pace = pace, pc_eId = eId, pc_eSign = eSign, pc_destroy = destroy\<rparr>, inc))
         | _ \<Rightarrow> (PaceCapabilities False, True)))"

definition IfdStatus_of :: "object \<Rightarrow> ifd_status" where
  "IfdStatus_of obj =
    (let b = RemoteMessage_of obj;
         (mSlotName, inc) = getStringValue obj ''SlotName'' (rm_incomplete b);
         (mPaceCapabilities, inc) = parsePaceCapabilities obj inc;
         (mMaxApduLength, inc) = getIntValue obj ''MaxAPDULength'' inc;
         (mConnectedReader, inc) = getBoolValue obj ''ConnectedReader'' inc;
         (mCardAvailable, inc) = getBoolValue obj ''CardAvailable'' inc;
         inc = (if rm_type b \<noteq> IFDStatus then True else inc)
     in \<lparr>rm_incomplete = inc, rm_type = rm_type b, rm_context = rm_context b, st_slotName = mSlotName,
         st_paceCapabilities = mPaceCapabilities, st_maxApduLength = mMaxApduLength,
         st_connectedReader = mConnectedReader, st_cardAvailable = mCardAvailable\<rparr>)"

definition IfdStatus_toJson :: "ifd_status \<Rightarrow> string \<Rightarrow> object" where
  "IfdStatus_toJson m pContextHandle =
    jput ''EFDIR'' JNull (jput ''EFATR'' JNull
      (jput ''CardAvailable'' (JBool (st_cardAvailable m))
        (jput ''ConnectedReader'' (JBool (st_connectedReader m))
          (jput ''MaxAPDULength'' (JNumber (Some (st_maxApduLength m)))
            (jput ''PINCapabilities'' (PaceCapabilities_toJson (st_paceCapabilities m))
              (jput ''SlotName'' (JString (st_slotName m))
                (createMessageBody (rm_type m) pContextHandle)))))))"

record ifd_get_status = remote_message +
  gs_slotName :: string

definition IfdGetStatus :: "string \<Rightarrow> ifd_get_status" where
  "IfdGetStatus pSlotName =
    remote_message.extend (RemoteMessage IFDGetStatus) (ifd_get_status.fields pSlotName)"

definition IfdGetStatus_of :: "object \<Rightarrow> ifd_get_status" where
  "IfdGetStatus_of obj =
    (let b = RemoteMessage_of obj;
         (mSlotName, inc) = getStringValue obj ''SlotName'' (rm_incomplete b);
         inc = (if rm_type b \<noteq> IFDGetStatus then True else inc)
     in remote_message.extend (b\<lparr>rm_incomplete := inc\<rparr>) (ifd_get_status.fields mSlotName))"

definition IfdGetStatus_toJson :: "ifd_get_status \<Rightarrow> string \<Rightarrow> object" where
  "IfdGetStatus_toJson m pContextHandle =
    jput ''SlotName'' (JString (gs_slotName m)) (createMessageBody (rm_type m) pContextHandle)"

section \<open>Connecting and disconnecting a card\<close>

record ifd_connect = remote_message +
  co_slotName :: string
  co_exclusive :: bool

definition IfdConnect :: "string \<Rightarrow> bool \<Rightarrow> ifd_connect" where
  "IfdConnect pSlotName pExclusive =
    remote_message.extend (RemoteMessage IFDConnect) (ifd_connect.fields pSlotName pExclusive)"

definition IfdConnect_of :: "object \<Rightarrow> ifd_connect" where
  "IfdConnect_of obj =
    (let b = RemoteMessage_of obj;
         (mSlotName, inc) = getStringValue obj ''SlotName'' (rm_incomplete b);
         (mExclusive, inc) = getBoolValue obj ''exclusive'' inc;
         inc = (if rm_type b \<noteq> IFDConnect then True else inc)
     in remote_message.extend (b\<lparr>rm_incomplete := inc\<rparr>) (ifd_connect.fields mSlotName mExclusive))"

definition IfdConnect_toJson :: "ifd_connect \<Rightarrow> string \<Rightarrow> object" where
  "IfdConnect_toJson m pContextHandle =
    jput ''exclusive'' (JBool (co_exclusive m))
      (jput ''SlotName'' (JString (co_slotName m)) (createMessageBody (rm_type m) pContextHandle))"

record ifd_connect_response = remote_response +
  cor_slotHandle :: string
  cor_error :: string

definition IfdConnectResponse :: "string \<Rightarrow> ECardMinor \<Rightarrow> ifd_connect_response" where
  "IfdConnectResponse pSlotHandle pResultMinor =
    remote_response.extend (RemoteMessageResponse IFDConnectResponse pResultMinor)
      (ifd_connect_response.fields pSlotHandle [])"

definition IfdConnectResponse_of :: "object \<Rightarrow> ifd_connect_response" where
  "IfdConnectResponse_of obj =
    (let b = RemoteMessageResponse_of obj;
         (mSlotHandle, inc) = getStringValue obj ''SlotHandle'' (rm_incomplete b);
         mError = (case map_of obj ''error'' of Some (JString s) \<Rightarrow> s | _ \<Rightarrow> []);
         inc = (if rm_type b \<noteq> IFDConnectResponse then True else inc)
     in remote_response.extend (b\<lparr>rm_incomplete := inc\<rparr>) (ifd_connect_response.fields mSlotHandle mError))"

definition IfdConnectResponse_toJson :: "ifd_connect_response \<Rightarrow> string \<Rightarrow> object" where
  "IfdConnectResponse_toJson m pContextHandle =
    jput ''SlotHandle'' (JString (cor_slotHandle m)) (createResponseBody m pContextHandle)"

record ifd_disconnect = remote_message +
  di_slotHandle :: string

definition IfdDisconnect :: "string \<Rightarrow> ifd_disconnect" where
  "IfdDisconnect pSlotHandle =
    remote_message.extend (RemoteMessage IFDDisconnect) (ifd_disconnect.fields pSlotHandle)"

definition IfdDisconnect_of :: "object \<Rightarrow> ifd_disconnect" where
  "IfdDisconnect_of obj =
    (let b = RemoteMessage_of obj;
         (mSlotHandle, inc) = getStringValue obj ''SlotHandle'' (rm_incomplete b);
         inc = (if rm_type b \<noteq> IFDDisconnect then True else inc)
     in remote_message.extend (b\<lparr>rm_incomplete := inc\<rparr>) (ifd_disconnect.fields mSlotHandle))"

definition IfdDisconnect_toJson :: "ifd_disconnect \<Rightarrow> string \<Rightarrow> object" where
  "IfdDisconnect_toJson m pContextHandle =
    jput ''SlotHandle'' (JString (di_slotHandle m)) (createMessageBody (rm_type m) pContextHandle)"

record ifd_disconnect_response = remote_response +
  dir_slotHandle :: string

definition IfdDisconnectResponse :: "string \<Rightarrow> ECardMinor \<Rightarrow> ifd_disconnect_response" where
  "IfdDisconnectResponse pSlotHandle pResultMinor =
    remote_response.extend (RemoteMessageResponse IFDDisconnectResponse pResultMinor) (ifd_disconnect_response.fields pSlotHandle)"

definition IfdDisconnectResponse_of :: "object \<Rightarrow> ifd_disconnect_response" where
  "IfdDisconnectResponse_of obj =
    (let b = RemoteMessageResponse_of obj;
         (mSlotHandle, inc) = getStringValue obj ''SlotHandle'' (rm_incomplete b);
         inc = (if rm_type b \<noteq> IFDDisconnectResponse then True else inc)
     in remote_response.extend (b\<lparr>rm_incomplete := inc\<rparr>) (ifd_disconnect_response.fields mSlotHandle))"

definition IfdDisconnectResponse_toJson :: "ifd_disconnect_response \<Rightarrow> string \<Rightarrow> object" where
  "IfdDisconnectResponse_toJson m pContextHandle =
    jput ''SlotHandle'' (JString (dir_slotHandle m)) (createResponseBody m pContextHandle)"

record ifd_error = remote_response +
  err_slotHandle :: string

definition IfdError :: "string \<Rightarrow> ECardMinor \<Rightarrow> ifd_error" where
  "IfdError pSlotHandle pResultMinor =
    remote_response.extend (RemoteMessageResponse IFDError pResultMinor) (ifd_error.fields pSlotHandle)"

definition IfdError_of :: "object \<Rightarrow> ifd_error" where
  "IfdError_of obj =
    (let b = RemoteMessageResponse_of obj;
         (mSlotHandle, inc) = getStringValue obj ''SlotHandle'' (rm_incomplete b);
         inc = (if rm_type b \<noteq> IFDError then True else inc)
     in remote_response.extend (b\<lparr>rm_incomplete := inc\<rparr>) (ifd_error.fields mSlotHandle))"

definition IfdError_toJson :: "ifd_error \<Rightarrow> string \<Rightarrow> object" where
  "IfdError_toJson m pContextHandle =
    jput ''SlotHandle'' (JString (err_slotHandle m)) (createResponseBody m pContextHandle)"

section \<open>Transmitting commands\<close>

record ifd_transmit = remote_message +
  tr_slotHandle :: string
  tr_inputApdu :: bytes

definition IfdTransmit :: "string \<Rightarrow> bytes \<Rightarrow> ifd_transmit" where
  "IfdTransmit pSlotHandle pInputApdu =
    remote_message.extend (RemoteMessage IFDTransmit) (ifd_transmit.fields pSlotHandle pInputApdu)"

text \<open>\<open>QJsonArray::at(0)\<close> of an empty array is an undefined value, which has no type.\<close>

definition parseCommandApdu :: "json option \<Rightarrow> bool \<Rightarrow> bytes \<times> bool" where
  "parseCommandApdu pEntry inc =
    (case pEntry of
       Some (JObject commandApdu) \<Rightarrow>
         (let (inputApdu, inc) = getStringValue commandApdu ''InputAPDU'' inc in (fromHex inputApdu, inc))
     | _ \<Rightarrow> ([], True))"

definition firstOf :: "'a list \<Rightarrow> 'a option" where
  "firstOf xs = (case xs of [] \<Rightarrow> None | x # _ \<Rightarrow> Some x)"

definition IfdTransmit_of :: "object \<Rightarrow> ifd_transmit" where
  "IfdTransmit_of obj =
    (let b = RemoteMessage_of obj;
         (mSlotHandle, inc) = getStringValue obj ''SlotHandle'' (rm_incomplete b);
         (mInputApdu, inc) =
           (case map_of obj ''CommandAPDUs'' of
              None \<Rightarrow> ([], True)
            | Some value \<Rightarrow>
               (case value of JArray a \<Rightarrow> parseCommandApdu (firstOf a) inc | _ \<Rightarrow> ([], True)));
         inc = (if rm_type b \<noteq> IFDTransmit then True else inc)
     in remote_message.extend (b\<lparr>rm_incomplete := inc\<rparr>) (ifd_transmit.fields mSlotHandle mInputApdu))"

definition IfdTransmit_toJson :: "ifd_transmit \<Rightarrow> string \<Rightarrow> object" where
  "IfdTransmit_toJson m pContextHandle =
    (let commandApdu = jput ''AcceptableStatusCodes'' JNull
                         (jput ''InputAPDU'' (JString (toHex (tr_inputApdu m))) [])
     in jput ''CommandAPDUs'' (JArray [JObject commandApdu])
          (jput ''SlotHandle'' (JString (tr_slotHandle m)) (createMessageBody (rm_type m) pContextHandle)))"

record ifd_transmit_response = remote_response +
  trr_slotHandle :: string
  trr_responseApdu :: bytes

definition IfdTransmitResponse :: "string \<Rightarrow> bytes \<Rightarrow> ECardMinor \<Rightarrow> ifd_transmit_response" where
  "IfdTransmitResponse pSlotHandle pResponseApdu pResultMinor =
    remote_response.extend (RemoteMessageResponse IFDTransmitResponse pResultMinor)
      (ifd_transmit_response.fields pSlotHandle pResponseApdu)"

definition parseResponseApdu :: "json option \<Rightarrow> bool \<Rightarrow> bytes \<times> bool" where
  "parseResponseApdu inputApduValue inc =
    (case inputApduValue of Some (JString s) \<Rightarrow> (fromHex s, inc) | _ \<Rightarrow> ([], True))"

definition IfdTransmitResponse_of :: "object \<Rightarrow> ifd_transmit_response" where
  "IfdTransmitResponse_of obj =
    (let b = RemoteMessageResponse_of obj;
         (mSlotHandle, inc) = getStringValue obj ''SlotHandle'' (rm_incomplete b);
         (mResponseApdu, inc) =
           (case map_of obj ''ResponseAPDUs'' of
              None \<Rightarrow> ([], True)
            | Some value \<Rightarrow>
               (case value of JArray a \<Rightarrow> parseResponseApdu (firstOf a) inc | _ \<Rightarrow> ([], True)));
         inc = (if rm_type b \<noteq> IFDTransmitResponse then True else inc)
     in remote_response.extend (b\<lparr>rm_incomplete := inc\<rparr>)
         (ifd_transmit_response.fields mSlotHandle mResponseApdu))"

definition IfdTransmitResponse_toJson :: "ifd_transmit_response \<Rightarrow> string \<Rightarrow> object" where
  "IfdTransmitResponse_toJson m pContextHandle =
    jput ''ResponseAPDUs'' (JArray [JString (toHex (trr_responseApdu m))])
      (jput ''SlotHandle'' (JString (trr_slotHandle m)) (createResponseBody m pContextHandle))"

section \<open>PACE and change of the PIN in the reader\<close>

record ifd_establish_pace_channel = remote_message +
  ep_slotHandle :: string
  ep_inputData :: bytes

definition IfdEstablishPaceChannel :: "string \<Rightarrow> bytes \<Rightarrow> ifd_establish_pace_channel" where
  "IfdEstablishPaceChannel pSlotHandle pInputData =
    remote_message.extend (RemoteMessage IFDEstablishPACEChannel)
      (ifd_establish_pace_channel.fields pSlotHandle pInputData)"

definition IfdEstablishPaceChannel_of :: "object \<Rightarrow> ifd_establish_pace_channel" where
  "IfdEstablishPaceChannel_of obj =
    (let b = RemoteMessage_of obj;
         (mSlotHandle, inc) = getStringValue obj ''SlotHandle'' (rm_incomplete b);
         (inputData, inc) = getStringValue obj ''InputData'' inc;
         inc = (if rm_type b \<noteq> IFDEstablishPACEChannel then True else inc)
     in remote_message.extend (b\<lparr>rm_incomplete := inc\<rparr>)
         (ifd_establish_pace_channel.fields mSlotHandle (fromHex inputData)))"

definition IfdEstablishPaceChannel_toJson :: "ifd_establish_pace_channel \<Rightarrow> string \<Rightarrow> object" where
  "IfdEstablishPaceChannel_toJson m pContextHandle =
    jput ''InputData'' (JString (toHex (ep_inputData m)))
      (jput ''SlotHandle'' (JString (ep_slotHandle m)) (createMessageBody (rm_type m) pContextHandle))"

record ifd_establish_pace_channel_response = remote_response +
  epr_slotHandle :: string
  epr_outputData :: bytes

definition IfdEstablishPaceChannelResponse :: "string \<Rightarrow> bytes \<Rightarrow> ECardMinor \<Rightarrow> ifd_establish_pace_channel_response" where
  "IfdEstablishPaceChannelResponse pSlotHandle pOutputData pResultMinor =
    remote_response.extend (RemoteMessageResponse IFDEstablishPACEChannelResponse pResultMinor)
      (ifd_establish_pace_channel_response.fields pSlotHandle pOutputData)"

definition IfdEstablishPaceChannelResponse_of :: "object \<Rightarrow> ifd_establish_pace_channel_response" where
  "IfdEstablishPaceChannelResponse_of obj =
    (let b = RemoteMessageResponse_of obj;
         (mSlotHandle, inc) = getStringValue obj ''SlotHandle'' (rm_incomplete b);
         (outputData, inc) = getStringValue obj ''OutputData'' inc;
         inc = (if rm_type b \<noteq> IFDEstablishPACEChannelResponse then True else inc)
     in remote_response.extend (b\<lparr>rm_incomplete := inc\<rparr>)
         (ifd_establish_pace_channel_response.fields mSlotHandle (fromHex outputData)))"

definition IfdEstablishPaceChannelResponse_toJson :: "ifd_establish_pace_channel_response \<Rightarrow> string \<Rightarrow> object" where
  "IfdEstablishPaceChannelResponse_toJson m pContextHandle =
    jput ''OutputData'' (JString (toHex (epr_outputData m)))
      (jput ''SlotHandle'' (JString (epr_slotHandle m)) (createResponseBody m pContextHandle))"

record ifd_modify_pin = remote_message +
  mp_slotHandle :: string
  mp_inputData :: bytes

definition IfdModifyPin :: "string \<Rightarrow> bytes \<Rightarrow> ifd_modify_pin" where
  "IfdModifyPin pSlotHandle pInputData =
    remote_message.extend (RemoteMessage IFDModifyPIN)
      (ifd_modify_pin.fields pSlotHandle pInputData)"

definition IfdModifyPin_of :: "object \<Rightarrow> ifd_modify_pin" where
  "IfdModifyPin_of obj =
    (let b = RemoteMessage_of obj;
         (mSlotHandle, inc) = getStringValue obj ''SlotHandle'' (rm_incomplete b);
         (inputData, inc) = getStringValue obj ''InputData'' inc;
         inc = (if rm_type b \<noteq> IFDModifyPIN then True else inc)
     in remote_message.extend (b\<lparr>rm_incomplete := inc\<rparr>)
         (ifd_modify_pin.fields mSlotHandle (fromHex inputData)))"

definition IfdModifyPin_toJson :: "ifd_modify_pin \<Rightarrow> string \<Rightarrow> object" where
  "IfdModifyPin_toJson m pContextHandle =
    jput ''InputData'' (JString (toHex (mp_inputData m)))
      (jput ''SlotHandle'' (JString (mp_slotHandle m)) (createMessageBody (rm_type m) pContextHandle))"

record ifd_modify_pin_response = remote_response +
  mpr_slotHandle :: string
  mpr_outputData :: bytes

definition IfdModifyPinResponse :: "string \<Rightarrow> bytes \<Rightarrow> ECardMinor \<Rightarrow> ifd_modify_pin_response" where
  "IfdModifyPinResponse pSlotHandle pOutputData pResultMinor =
    remote_response.extend (RemoteMessageResponse IFDModifyPINResponse pResultMinor)
      (ifd_modify_pin_response.fields pSlotHandle pOutputData)"

definition IfdModifyPinResponse_of :: "object \<Rightarrow> ifd_modify_pin_response" where
  "IfdModifyPinResponse_of obj =
    (let b = RemoteMessageResponse_of obj;
         (mSlotHandle, inc) = getStringValue obj ''SlotHandle'' (rm_incomplete b);
         (outputData, inc) = getStringValue obj ''OutputData'' inc;
         inc = (if rm_type b \<noteq> IFDModifyPINResponse then True else inc)
     in remote_response.extend (b\<lparr>rm_incomplete := inc\<rparr>)
         (ifd_modify_pin_response.fields mSlotHandle (fromHex outputData)))"

definition IfdModifyPinResponse_toJson :: "ifd_modify_pin_response \<Rightarrow> string \<Rightarrow> object" where
  "IfdModifyPinResponse_toJson m pContextHandle =
    jput ''OutputData'' (JString (toHex (mpr_outputData m)))
      (jput ''SlotHandle'' (JString (mpr_slotHandle m)) (createResponseBody m pContextHandle))"

definition IfdModifyPinResponse_getReturnCode :: "'a remote_response_scheme \<Rightarrow> CardReturnCode" where
  "IfdModifyPinResponse_getReturnCode r =
    (if \<not> resultHasError r then CR_OK
     else case rr_minor r of
       MI_IFDL_Timeout_Error \<Rightarrow> CR_INPUT_TIME_OUT
     | MI_IFDL_CancellationByUser \<Rightarrow> CR_CANCELLATION_BY_USER
     | MI_IFDL_IO_RepeatedDataMismatch \<Rightarrow> CR_NEW_PIN_MISMATCH
     | MI_IFDL_IO_UnknownPINFormat \<Rightarrow> CR_NEW_PIN_INVALID_LENGTH
     | MI_IFDL_Terminal_NoCard \<Rightarrow> CR_CARD_NOT_FOUND
     | MI_AL_Unkown_API_Function \<Rightarrow> CR_PROTOCOL_ERROR
     | MI_AL_Unknown_Error \<Rightarrow> CR_UNKNOWN
     | _ \<Rightarrow> CR_COMMAND_FAILED)"

section \<open>Discovery of readers in the local network\<close>

record discovery = remote_message +
  dc_ifdName :: string
  dc_ifdId :: string
  dc_port :: "16 word"
  dc_supportedApis :: "Version list"

definition Discovery :: "string \<Rightarrow> string \<Rightarrow> 16 word \<Rightarrow> Version list \<Rightarrow> discovery" where
  "Discovery pIfdName pIfdId pPort pSupportedApis =
    remote_message.extend (RemoteMessage MSG_UNDEFINED)
      (discovery.fields pIfdName pIfdId pPort pSupportedApis)"

fun parseApis :: "json list \<Rightarrow> bool \<Rightarrow> Version list \<times> bool" where
  "parseApis [] inc = ([], inc)"
| "parseApis (JString s # rest) inc = (let (vs, inc) = parseApis rest inc in (versionFromString s # vs, inc))"
| "parseApis (_ # rest) inc = parseApis rest True"

definition Discovery_of :: "object \<Rightarrow> discovery" where
  "Discovery_of obj =
    (let (msg, inc) = getStringValue obj ''msg'' False;
         inc = (if msg \<noteq> ''REMOTE_IFD'' then True else inc);
         (mIfdName, inc) = getStringValue obj ''IFDName'' inc;
         (mIfdId, inc) = getStringValue obj ''IFDID'' inc;
         (port, inc) = getIntValue obj ''port'' inc;
         mPort = word_of_int port;
         (mSupportedApis, inc) =
           (case map_of obj ''SupportedAPI'' of
              None \<Rightarrow> ([], True)
            | Some value \<Rightarrow> (case value of JArray a \<Rightarrow> parseApis a inc | _ \<Rightarrow> ([], True)))
     in remote_message.extend ((RemoteMessage MSG_UNDEFINED)\<lparr>rm_incomplete := inc\<rparr>)
          (discovery.fields mIfdName mIfdId mPort mSupportedApis))"

definition Discovery_toJson :: "discovery \<Rightarrow> object" where
  "Discovery_toJson m =
    jput ''SupportedAPI'' (JArray (map (\<lambda>v. JString (versionToString v)) (dc_supportedApis m)))
      (jput ''port'' (JNumber (Some (uint (dc_port m))))
        (jput ''msg'' (JString ''REMOTE_IFD'')
          (jput ''IFDID'' (JString (dc_ifdId m)) (jput ''IFDName'' (JString (dc_ifdName m)) []))))"

section \<open>Reading what was written\<close>

lemma map_of_filter_neq: "map_of (filter (\<lambda>p. fst p \<noteq> k) xs) n = (if n = k then None else map_of xs n)"
  by (induction xs) auto

lemma map_of_jput [simp]: "map_of (jput k v obj) n = (if n = k then Some v else map_of obj n)"
  by (auto simp: jput_def map_of_filter_neq)

lemma messageTypeOf_name [simp]: "messageTypeOf (messageTypeName t) = t"
  by (simp add: messageTypeOf_def)

lemma versionFromString_toString [simp]: "versionFromString (versionToString v) = v"
  by (cases v) (simp_all add: versionFromString_def)

lemma numberToInt_Some [simp]: "-(2 ^ 31) \<le> i \<Longrightarrow> i < 2 ^ 31 \<Longrightarrow> numberToInt (Some i) = i"
  by (simp add: numberToInt_def)

lemma parse_result_strings [simp]:
  "parseMajor (getMajorString a) = a" "parseMinor (getMinorString i) = i"
  using result_uris_roundtrip by blast+

lemma map_of_createMessageBody [simp]:
  "map_of (createMessageBody t ctx) n =
    (if n = ''msg'' then Some (JString (messageTypeName t))
     else if n = ''ContextHandle'' \<and> t \<noteq> IFDEstablishContext then Some (JString ctx) else None)"
  by (simp add: createMessageBody_def Let_def)

lemma map_of_createResponseBody [simp]:
  "map_of (createResponseBody r ctx) n =
    (if n = ''ResultMinor'' then
       Some (if rr_minor r = MI_null then JNull else JString (getMinorString (rr_minor r)))
     else if n = ''ResultMajor'' then Some (JString (getMajorString (rr_major r)))
     else map_of (createMessageBody (rm_type r) ctx) n)"
  by (simp add: createResponseBody_def del: map_of_createMessageBody)

lemma getStringValue_present:
  "map_of obj n = Some (JString s) \<Longrightarrow> getStringValue obj n inc = (s, inc)"
  by (simp add: getStringValue_def)

lemma getBoolValue_present:
  "map_of obj n = Some (JBool b) \<Longrightarrow> getBoolValue obj n inc = (b, inc)"
  by (simp add: getBoolValue_def)

lemma getIntValue_present:
  "map_of obj n = Some (JNumber i) \<Longrightarrow> getIntValue obj n inc = (numberToInt i, inc)"
  by (simp add: getIntValue_def)

lemma getStringValue_jput [simp]:
  "k \<noteq> n \<Longrightarrow> getStringValue (jput k v obj) n inc = getStringValue obj n inc"
  by (simp add: getStringValue_def)

lemma RemoteMessage_of_jput [simp]:
  "k \<noteq> ''msg'' \<Longrightarrow> k \<noteq> ''ContextHandle'' \<Longrightarrow> RemoteMessage_of (jput k v obj) = RemoteMessage_of obj"
  by (simp add: RemoteMessage_of_def Let_def cong: if_cong)

lemma RemoteMessageResponse_of_jput [simp]:
  "k \<noteq> ''msg'' \<Longrightarrow> k \<noteq> ''ContextHandle'' \<Longrightarrow> k \<noteq> ''ResultMajor'' \<Longrightarrow> k \<noteq> ''ResultMinor'' \<Longrightarrow>
   RemoteMessageResponse_of (jput k v obj) = RemoteMessageResponse_of obj"
  by (simp add: RemoteMessageResponse_of_def Let_def cong: if_cong)

lemma RemoteMessage_of_body [simp]:
  "t \<noteq> MSG_UNDEFINED \<Longrightarrow> RemoteMessage_of (createMessageBody t ctx) =
    \<lparr>rm_incomplete = False, rm_type = t, rm_context = (if t = IFDEstablishContext then [] else ctx)\<rparr>"
  by (simp add: RemoteMessage_of_def getStringValue_present)

lemma RemoteMessageResponse_of_body [simp]:
  assumes "rm_type r \<noteq> MSG_UNDEFINED" "rm_type r \<noteq> IFDEstablishContext"
    and "rr_major r = (if rr_minor r = MI_null then MA_Ok else MA_Error)"
  shows "RemoteMessageResponse_of (createResponseBody r ctx) =
    \<lparr>rm_incomplete = False, rm_type = rm_type r, rm_context = ctx,
     rr_major = rr_major r, rr_minor = rr_minor r\<rparr>"
  using assms
  by (simp add: RemoteMessageResponse_of_def RemoteMessage_of_def getStringValue_present Let_def)

lemmas read_written = getStringValue_present getBoolValue_present getIntValue_present

lemmas message_ctors = RemoteMessage_def RemoteMessageResponse_def remote_message.defs remote_response.defs

lemma context_messages_roundtrip:
  "IfdEstablishContext_of (IfdEstablishContext_toJson (IfdEstablishContext v u) ctx) =
     (IfdEstablishContext v u)\<lparr>ec_protocolRaw := versionToString v\<rparr>"
  "IfdEstablishContextResponse_of (IfdEstablishContextResponse_toJson (IfdEstablishContextResponse s i) ctx) =
     (IfdEstablishContextResponse s i)\<lparr>rm_context := ctx\<rparr>"
  by (simp_all add: IfdEstablishContext_of_def IfdEstablishContext_toJson_def IfdEstablishContext_def
      IfdEstablishContextResponse_of_def IfdEstablishContextResponse_toJson_def IfdEstablishContextResponse_def
      read_written message_ctors ifd_establish_context_response.defs)

lemma status_messages_roundtrip:
  "IfdGetStatus_of (IfdGetStatus_toJson (IfdGetStatus s) ctx) = (IfdGetStatus s)\<lparr>rm_context := ctx\<rparr>"
  "-(2 ^ 31) \<le> n \<Longrightarrow> n < 2 ^ 31 \<Longrightarrow>
     IfdStatus_of (IfdStatus_toJson (IfdStatus s c n cr ca) ctx) = (IfdStatus s c n cr ca)\<lparr>rm_context := ctx\<rparr>"
  by (simp_all add: IfdGetStatus_of_def IfdGetStatus_toJson_def IfdGetStatus_def IfdStatus_of_def
      IfdStatus_toJson_def IfdStatus_def parsePaceCapabilities_def PaceCapabilities_toJson_def
      read_written message_ctors ifd_get_status.defs)

lemma connect_messages_roundtrip:
  "IfdConnect_of (IfdConnect_toJson (IfdConnect s e) ctx) = (IfdConnect s e)\<lparr>rm_context := ctx\<rparr>"
  "IfdConnectResponse_of (IfdConnectResponse_toJson (IfdConnectResponse s i) ctx) =
     (IfdConnectResponse s i)\<lparr>rm_context := ctx\<rparr>"
  "IfdDisconnect_of (IfdDisconnect_toJson (IfdDisconnect s) ctx) = (IfdDisconnect s)\<lparr>rm_context := ctx\<rparr>"
  "IfdDisconnectResponse_of (IfdDisconnectResponse_toJson (IfdDisconnectResponse s i) ctx) =
     (IfdDisconnectResponse s i)\<lparr>rm_context := ctx\<rparr>"
  "IfdError_of (IfdError_toJson (IfdError s i) ctx) = (IfdError s i)\<lparr>rm_context := ctx\<rparr>"
  by (simp_all add: IfdConnect_of_def IfdConnect_toJson_def IfdConnect_def IfdConnectResponse_of_def
      IfdConnectResponse_toJson_def IfdConnectResponse_def IfdDisconnect_of_def IfdDisconnect_toJson_def
      IfdDisconnect_def IfdDisconnectResponse_of_def IfdDisconnectResponse_toJson_def
      IfdDisconnectResponse_def IfdError_of_def IfdError_toJson_def IfdError_def read_written message_ctors
      ifd_connect.defs ifd_connect_response.defs ifd_disconnect.defs ifd_disconnect_response.defs ifd_error.defs)

lemma transmit_messages_roundtrip:
  "IfdTransmit_of (IfdTransmit_toJson (IfdTransmit s d) ctx) = (IfdTransmit s d)\<lparr>rm_context := ctx\<rparr>"
  "IfdTransmitResponse_of (IfdTransmitResponse_toJson (IfdTransmitResponse s d i) ctx) =
     (IfdTransmitResponse s d i)\<lparr>rm_context := ctx\<rparr>"
  by (simp_all add: IfdTransmit_of_def IfdTransmit_toJson_def IfdTransmit_def IfdTransmitResponse_of_def
      IfdTransmitResponse_toJson_def IfdTransmitResponse_def read_written message_ctors firstOf_def
      parseCommandApdu_def parseResponseApdu_def hex_roundtrip ifd_transmit.defs ifd_transmit_response.defs)

lemma pin_messages_roundtrip:
  "IfdEstablishPaceChannel_of (IfdEstablishPaceChannel_toJson (IfdEstablishPaceChannel s d) ctx) =
     (IfdEstablishPaceChannel s d)\<lparr>rm_context := ctx\<rparr>"
  "IfdEstablishPaceChannelResponse_of
     (IfdEstablishPaceChannelResponse_toJson (IfdEstablishPaceChannelResponse s d i) ctx) =
     (IfdEstablishPaceChannelResponse s d i)\<lparr>rm_context := ctx\<rparr>"
  "IfdModifyPin_of (IfdModifyPin_toJson (IfdModifyPin s d) ctx) = (IfdModifyPin s d)\<lparr>rm_context := ctx\<rparr>"
  "IfdModifyPinResponse_of (IfdModifyPinResponse_toJson (IfdModifyPinResponse s d i) ctx) =
     (IfdModifyPinResponse s d i)\<lparr>rm_context := ctx\<rparr>"
  by (simp_all add: IfdEstablishPaceChannel_of_def IfdEstablishPaceChannel_toJson_def
      IfdEstablishPaceChannel_def IfdEstablishPaceChannelResponse_of_def
      IfdEstablishPaceChannelResponse_toJson_def IfdEstablishPaceChannelResponse_def IfdModifyPin_of_def
      IfdModifyPin_toJson_def IfdModifyPin_def IfdModifyPinResponse_of_def IfdModifyPinResponse_toJson_def
      IfdModifyPinResponse_def read_written message_ctors hex_roundtrip ifd_establish_pace_channel.defs
      ifd_establish_pace_channel_response.defs ifd_modify_pin.defs ifd_modify_pin_response.defs)

lemma parseApis_written [simp]:
  "parseApis (map (\<lambda>v. JString (versionToString v)) vs) inc = (vs, inc)"
  by (induction vs) simp_all

lemma discovery_roundtrip: "Discovery_of (Discovery_toJson (Discovery n i p vs)) = Discovery n i p vs"
proof -
  have "uint p < 2 ^ 16"
    using uint_lt2p [of p] by simp
  then have "numberToInt (Some (uint p)) = uint p"
    by (intro numberToInt_Some) (auto intro: order_trans [OF _ uint_ge_0])
  then show ?thesis
    by (simp add: Discovery_of_def Discovery_toJson_def Discovery_def read_written message_ctors
        discovery.defs)
qed

text \<open>
  C24. Every message of the protocol is read back as it was written: the constructor of the
  receiver gives the sender's message, complete, with the context handle of the sender's
  dispatcher added (an IFDEstablishContext carries none), a failed result with its minor code, and
  the announcement of a reader with its name, its port and its versions. The one bound is that of
  an integer, which is 32 bits wide in the code.
\<close>

theorem remote_messages_roundtrip:
  "IfdEstablishContext_of (IfdEstablishContext_toJson (IfdEstablishContext v s) ctx) =
     (IfdEstablishContext v s)\<lparr>ec_protocolRaw := versionToString v\<rparr> \<and>
   IfdEstablishContextResponse_of (IfdEstablishContextResponse_toJson (IfdEstablishContextResponse s i) ctx) =
     (IfdEstablishContextResponse s i)\<lparr>rm_context := ctx\<rparr> \<and>
   IfdGetStatus_of (IfdGetStatus_toJson (IfdGetStatus s) ctx) = (IfdGetStatus s)\<lparr>rm_context := ctx\<rparr> \<and>
   (-(2 ^ 31) \<le> n \<and> n < 2 ^ 31 \<longrightarrow>
     IfdStatus_of (IfdStatus_toJson (IfdStatus s c n cr ca) ctx) = (IfdStatus s c n cr ca)\<lparr>rm_context := ctx\<rparr>) \<and>
   IfdConnect_of (IfdConnect_toJson (IfdConnect s e) ctx) = (IfdConnect s e)\<lparr>rm_context := ctx\<rparr> \<and>
   IfdConnectResponse_of (IfdConnectResponse_toJson (IfdConnectResponse s i) ctx) =
     (IfdConnectResponse s i)\<lparr>rm_context := ctx\<rparr> \<and>
   IfdDisconnect_of (IfdDisconnect_toJson (IfdDisconnect s) ctx) = (IfdDisconnect s)\<lparr>rm_context := ctx\<rparr> \<and>
   IfdDisconnectResponse_of (IfdDisconnectResponse_toJson (IfdDisconnectResponse s i) ctx) =
     (IfdDisconnectResponse s i)\<lparr>rm_context := ctx\<rparr> \<and>
   IfdError_of (IfdError_toJson (IfdError s i) ctx) = (IfdError s i)\<lparr>rm_context := ctx\<rparr> \<and>
   IfdTransmit_of (IfdTransmit_toJson (IfdTransmit s d) ctx) = (IfdTransmit s d)\<lparr>rm_context := ctx\<rparr> \<and>
   IfdTransmitResponse_of (IfdTransmitResponse_toJson (IfdTransmitResponse s d i) ctx) =
     (IfdTransmitResponse s d i)\<lparr>rm_context := ctx\<rparr> \<and>
   IfdEstablishPaceChannel_of (IfdEstablishPaceChannel_toJson (IfdEstablishPaceChannel s d) ctx) =
     (IfdEstablishPaceChannel s d)\<lparr>rm_context := ctx\<rparr> \<and>
   IfdEstablishPaceChannelResponse_of
     (IfdEstablishPaceChannelResponse_toJson (IfdEstablishPaceChannelResponse s d i) ctx) =
     (IfdEstablishPaceChannelResponse s d i)\<lparr>rm_context := ctx\<rparr> \<and>
   IfdModifyPin_of (IfdModifyPin_toJson (IfdModifyPin s d) ctx) = (IfdModifyPin s d)\<lparr>rm_context := ctx\<rparr> \<and>
   IfdModifyPinResponse_of (IfdModifyPinResponse_toJson (IfdModifyPinResponse s d i) ctx) =
     (IfdModifyPinResponse s d i)\<lparr>rm_context := ctx\<rparr> \<and>
   Discovery_of (Discovery_toJson (Discovery s s' p vs)) = Discovery s s' p vs"
  by (simp add: context_messages_roundtrip status_messages_roundtrip connect_messages_roundtrip
      transmit_messages_roundtrip pin_messages_roundtrip discovery_roundtrip)

theorem remote_messages_roundtrip_witness:
  "IfdStatus_of (IfdStatus_toJson (IfdStatus ''Reader'' (PaceCapabilities True) 500 True False) ''ctx'') =
     (IfdStatus ''Reader'' (PaceCapabilities True) 500 True False)\<lparr>rm_context := ''ctx''\<rparr>"
  using remote_messages_roundtrip [where n = 500 and s = "''Reader''" and c = "PaceCapabilities True"
      and cr = True and ca = False and ctx = "''ctx''"] by simp

section \<open>Which objects are complete messages\<close>

text \<open>
  The abstract specification: the names and kinds of the fields that each message must have. The
  announcement of a reader has no message type of its own and stands under \<open>MSG_UNDEFINED\<close>.
\<close>

datatype field_kind = K_string | K_bool | K_number | K_capabilities | K_commands | K_responses | K_strings

definition boolIn :: "object \<Rightarrow> string \<Rightarrow> bool" where
  "boolIn obj n = (case map_of obj n of Some (JBool b) \<Rightarrow> True | _ \<Rightarrow> False)"

definition stringIn :: "object \<Rightarrow> string \<Rightarrow> bool" where
  "stringIn obj n = (case map_of obj n of Some (JString s) \<Rightarrow> True | _ \<Rightarrow> False)"

definition isJString :: "json \<Rightarrow> bool" where
  "isJString v = (case v of JString s \<Rightarrow> True | _ \<Rightarrow> False)"

fun hasKind :: "field_kind \<Rightarrow> json \<Rightarrow> bool" where
  "hasKind K_string (JString s) = True"
| "hasKind K_bool (JBool b) = True"
| "hasKind K_number (JNumber n) = True"
| "hasKind K_capabilities (JObject obj) = list_all (boolIn obj) [''PACE'', ''eID'', ''eSign'', ''Destroy'']"
| "hasKind K_commands (JArray (JObject obj # rest)) = stringIn obj ''InputAPDU''"
| "hasKind K_responses (JArray (JString s # rest)) = True"
| "hasKind K_strings (JArray vs) = list_all isJString vs"
| "hasKind _ _ = False"

definition hasField :: "object \<Rightarrow> string \<times> field_kind \<Rightarrow> bool" where
  "hasField obj f = (case map_of obj (fst f) of None \<Rightarrow> False | Some v \<Rightarrow> hasKind (snd f) v)"

fun fieldsOf :: "RemoteCardMessageType \<Rightarrow> (string \<times> field_kind) list" where
  "fieldsOf IFDEstablishContext = [(''Protocol'', K_string), (''UDName'', K_string)]"
| "fieldsOf IFDEstablishContextResponse = [(''IFDName'', K_string)]"
| "fieldsOf IFDGetStatus = [(''SlotName'', K_string)]"
| "fieldsOf IFDStatus = [(''SlotName'', K_string), (''PINCapabilities'', K_capabilities),
     (''MaxAPDULength'', K_number), (''ConnectedReader'', K_bool), (''CardAvailable'', K_bool)]"
| "fieldsOf IFDConnect = [(''SlotName'', K_string), (''exclusive'', K_bool)]"
| "fieldsOf IFDTransmit = [(''SlotHandle'', K_string), (''CommandAPDUs'', K_commands)]"
| "fieldsOf IFDTransmitResponse = [(''SlotHandle'', K_string), (''ResponseAPDUs'', K_responses)]"
| "fieldsOf IFDEstablishPACEChannel = [(''SlotHandle'', K_string), (''InputData'', K_string)]"
| "fieldsOf IFDEstablishPACEChannelResponse = [(''SlotHandle'', K_string), (''OutputData'', K_string)]"
| "fieldsOf IFDModifyPIN = [(''SlotHandle'', K_string), (''InputData'', K_string)]"
| "fieldsOf IFDModifyPINResponse = [(''SlotHandle'', K_string), (''OutputData'', K_string)]"
| "fieldsOf MSG_UNDEFINED =
     [(''IFDName'', K_string), (''IFDID'', K_string), (''port'', K_number), (''SupportedAPI'', K_strings)]"
| "fieldsOf _ = [(''SlotHandle'', K_string)]"

definition isResponseType :: "RemoteCardMessageType \<Rightarrow> bool" where
  "isResponseType t \<longleftrightarrow> t \<in> {IFDEstablishContextResponse, IFDConnectResponse, IFDDisconnectResponse,
     IFDError, IFDTransmitResponse, IFDEstablishPACEChannelResponse, IFDModifyPINResponse}"

definition hasResult :: "object \<Rightarrow> bool" where
  "hasResult obj =
    (case map_of obj ''ResultMajor'' of
       Some (JString s) \<Rightarrow> s = getMajorString MA_Ok \<or> stringIn obj ''ResultMinor''
     | _ \<Rightarrow> False)"

definition conforms :: "RemoteCardMessageType \<Rightarrow> object \<Rightarrow> bool" where
  "conforms t obj \<longleftrightarrow>
     map_of obj ''msg'' =
       Some (JString (if t = MSG_UNDEFINED then ''REMOTE_IFD'' else messageTypeName t)) \<and>
     (t = MSG_UNDEFINED \<or> t = IFDEstablishContext \<or> stringIn obj ''ContextHandle'') \<and>
     (isResponseType t \<longrightarrow> hasResult obj) \<and> list_all (hasField obj) (fieldsOf t)"

text \<open>The flag \<open>mIncomplete\<close> after the constructor of each class.\<close>

fun incompleteAs :: "RemoteCardMessageType \<Rightarrow> object \<Rightarrow> bool" where
  "incompleteAs IFDEstablishContext obj = rm_incomplete (IfdEstablishContext_of obj)"
| "incompleteAs IFDEstablishContextResponse obj = rm_incomplete (IfdEstablishContextResponse_of obj)"
| "incompleteAs IFDGetStatus obj = rm_incomplete (IfdGetStatus_of obj)"
| "incompleteAs IFDStatus obj = rm_incomplete (IfdStatus_of obj)"
| "incompleteAs IFDConnect obj = rm_incomplete (IfdConnect_of obj)"
| "incompleteAs IFDConnectResponse obj = rm_incomplete (IfdConnectResponse_of obj)"
| "incompleteAs IFDDisconnect obj = rm_incomplete (IfdDisconnect_of obj)"
| "incompleteAs IFDDisconnectResponse obj = rm_incomplete (IfdDisconnectResponse_of obj)"
| "incompleteAs IFDError obj = rm_incomplete (IfdError_of obj)"
| "incompleteAs IFDTransmit obj = rm_incomplete (IfdTransmit_of obj)"
| "incompleteAs IFDTransmitResponse obj = rm_incomplete (IfdTransmitResponse_of obj)"
| "incompleteAs IFDEstablishPACEChannel obj = rm_incomplete (IfdEstablishPaceChannel_of obj)"
| "incompleteAs IFDEstablishPACEChannelResponse obj = rm_incomplete (IfdEstablishPaceChannelResponse_of obj)"
| "incompleteAs IFDModifyPIN obj = rm_incomplete (IfdModifyPin_of obj)"
| "incompleteAs IFDModifyPINResponse obj = rm_incomplete (IfdModifyPinResponse_of obj)"
| "incompleteAs MSG_UNDEFINED obj = rm_incomplete (Discovery_of obj)"

lemma getter_flags:
  "snd (getStringValue obj n inc) \<longleftrightarrow> inc \<or> \<not> hasField obj (n, K_string)"
  "snd (getBoolValue obj n inc) \<longleftrightarrow> inc \<or> \<not> hasField obj (n, K_bool)"
  "snd (getIntValue obj n inc) \<longleftrightarrow> inc \<or> \<not> hasField obj (n, K_number)"
  by (auto simp: getStringValue_def getBoolValue_def getIntValue_def hasField_def split: option.split json.split)

lemma field_flags:
  "stringIn obj n \<longleftrightarrow> hasField obj (n, K_string)"
  "boolIn obj n \<longleftrightarrow> hasField obj (n, K_bool)"
  by (auto simp: stringIn_def boolIn_def hasField_def split: option.split json.split)

lemma messageTypeOf_eq: "t \<noteq> MSG_UNDEFINED \<Longrightarrow> messageTypeOf s = t \<longleftrightarrow> s = messageTypeName t"
  by (auto simp: messageTypeOf_def message_type.ofValue_Some_iff message_type.val_inject split: option.splits)

lemma message_type: "rm_type (RemoteMessage_of obj) = messageTypeOf (fst (getStringValue obj ''msg'' False))"
  by (simp add: RemoteMessage_of_def Let_def split: prod.split)

lemma response_type: "rm_type (RemoteMessageResponse_of obj) = rm_type (RemoteMessage_of obj)"
  by (simp add: RemoteMessageResponse_of_def Let_def split: prod.split)

lemma message_flag:
  "rm_incomplete (RemoteMessage_of obj) \<longleftrightarrow>
     \<not> hasField obj (''msg'', K_string) \<or> rm_type (RemoteMessage_of obj) = MSG_UNDEFINED \<or>
     (rm_type (RemoteMessage_of obj) \<noteq> IFDEstablishContext \<and> \<not> hasField obj (''ContextHandle'', K_string))"
  unfolding message_type
  by (simp add: RemoteMessage_of_def Let_def case_prod_beta getter_flags cong: if_cong)

lemma parseMajor_Ok: "parseMajor s = MA_Ok \<longleftrightarrow> s = getMajorString MA_Ok"
  using parse_result_strings(1) [of MA_Ok] find_SomeD [of "\<lambda>m. getMajorString m = s" major_list MA_Ok]
  by (auto simp: parseMajor_def split: option.splits)

lemma response_flag:
  "rm_incomplete (RemoteMessageResponse_of obj) \<longleftrightarrow>
     rm_incomplete (RemoteMessage_of obj) \<or> \<not> hasResult obj"
  by (auto simp: RemoteMessageResponse_of_def Let_def case_prod_beta hasResult_def field_flags getter_flags parseMajor_Ok
      getStringValue_def hasField_def split: option.split json.split)

lemma base_complete:
  assumes "t \<noteq> MSG_UNDEFINED"
  shows "hasField obj (''msg'', K_string) \<and> rm_type (RemoteMessage_of obj) = t \<longleftrightarrow>
    map_of obj ''msg'' = Some (JString (messageTypeName t))"
  using messageTypeOf_eq [OF assms]
  by (auto simp: message_type hasField_def getStringValue_def split: option.splits json.splits)

text \<open>
  What the common part of a message leaves of its own fields: it is complete as message of type
  \<open>t\<close> when the common fields are there and nothing else is missing.
\<close>

lemma message_conforms:
  assumes "t \<noteq> MSG_UNDEFINED" "\<not> isResponseType t"
  shows "conforms t obj \<longleftrightarrow> \<not> rm_incomplete (RemoteMessage_of obj) \<and> rm_type (RemoteMessage_of obj) = t \<and>
     list_all (hasField obj) (fieldsOf t)"
  unfolding conforms_def message_flag field_flags
  using base_complete [OF assms(1), of obj] assms by auto

lemma response_conforms:
  assumes "t \<noteq> MSG_UNDEFINED" "isResponseType t"
  shows "conforms t obj \<longleftrightarrow>
     \<not> rm_incomplete (RemoteMessageResponse_of obj) \<and> rm_type (RemoteMessageResponse_of obj) = t \<and>
     list_all (hasField obj) (fieldsOf t)"
  unfolding conforms_def response_flag response_type message_flag field_flags
  using base_complete [OF assms(1), of obj] assms by (auto simp: isResponseType_def)

lemmas parse_flags = getter_flags Let_def case_prod_beta

lemma capabilities_flag:
  "snd (parsePaceCapabilities obj inc) \<longleftrightarrow> inc \<or> \<not> hasField obj (''PINCapabilities'', K_capabilities)"
  by (auto simp: parsePaceCapabilities_def hasField_def [of obj] field_flags parse_flags
      split: option.split json.split)

lemma commands_flag:
  "snd (case map_of obj ''CommandAPDUs'' of
          None \<Rightarrow> ([], True)
        | Some value \<Rightarrow> (case value of JArray a \<Rightarrow> parseCommandApdu (firstOf a) inc | _ \<Rightarrow> ([], True)))
     \<longleftrightarrow> inc \<or> \<not> hasField obj (''CommandAPDUs'', K_commands)"
  by (auto simp: parseCommandApdu_def firstOf_def hasField_def [of obj] field_flags parse_flags
      split: option.split json.split list.split)

lemma responses_flag:
  "snd (case map_of obj ''ResponseAPDUs'' of
          None \<Rightarrow> ([], True)
        | Some value \<Rightarrow> (case value of JArray a \<Rightarrow> parseResponseApdu (firstOf a) inc | _ \<Rightarrow> ([], True)))
     \<longleftrightarrow> inc \<or> \<not> hasField obj (''ResponseAPDUs'', K_responses)"
  by (auto simp: parseResponseApdu_def firstOf_def hasField_def [of obj] parse_flags
      split: option.split json.split list.split)

lemma parseApis_flag: "snd (parseApis vs inc) \<longleftrightarrow> inc \<or> \<not> list_all isJString vs"
  by (induction vs inc rule: parseApis.induct) (auto simp: isJString_def case_prod_beta Let_def)

lemma apis_flag:
  "snd (case map_of obj ''SupportedAPI'' of
          None \<Rightarrow> ([], True)
        | Some value \<Rightarrow> (case value of JArray a \<Rightarrow> parseApis a inc | _ \<Rightarrow> ([], True)))
     \<longleftrightarrow> inc \<or> \<not> hasField obj (''SupportedAPI'', K_strings)"
  by (auto simp: parseApis_flag hasField_def split: option.split json.split)

lemma request_incomplete:
  assumes "t \<in> {IFDEstablishContext, IFDGetStatus, IFDStatus, IFDConnect, IFDDisconnect, IFDTransmit,
    IFDEstablishPACEChannel, IFDModifyPIN}"
  shows "incompleteAs t obj \<longleftrightarrow> \<not> conforms t obj"
proof -
  have r: "t \<noteq> MSG_UNDEFINED" "\<not> isResponseType t"
    using assms by (auto simp: isResponseType_def)
  show ?thesis
    unfolding message_conforms [OF r]
    using assms
    by (elim insertE; clarsimp simp: IfdEstablishContext_of_def IfdGetStatus_of_def IfdStatus_of_def
        IfdConnect_of_def IfdDisconnect_of_def IfdTransmit_of_def IfdEstablishPaceChannel_of_def
        IfdModifyPin_of_def remote_message.defs parse_flags capabilities_flag commands_flag; blast?)
qed

lemma response_incomplete:
  assumes "isResponseType t"
  shows "incompleteAs t obj \<longleftrightarrow> \<not> conforms t obj"
proof -
  have r: "t \<noteq> MSG_UNDEFINED"
    using assms by (auto simp: isResponseType_def)
  show ?thesis
    unfolding response_conforms [OF r assms]
    using assms
    unfolding isResponseType_def
    by (elim insertE; clarsimp simp: IfdEstablishContextResponse_of_def IfdConnectResponse_of_def
        IfdDisconnectResponse_of_def IfdError_of_def IfdTransmitResponse_of_def
        IfdEstablishPaceChannelResponse_of_def IfdModifyPinResponse_of_def remote_response.defs
        parse_flags responses_flag; blast?)
qed

lemma discovery_incomplete: "incompleteAs MSG_UNDEFINED obj \<longleftrightarrow> \<not> conforms MSG_UNDEFINED obj"
proof -
  have m: "map_of obj ''msg'' = Some (JString ''REMOTE_IFD'') \<longleftrightarrow>
      hasField obj (''msg'', K_string) \<and> fst (getStringValue obj ''msg'' False) = ''REMOTE_IFD''"
    by (auto simp: hasField_def getStringValue_def split: option.splits json.splits)
  show ?thesis
    by (simp add: conforms_def isResponseType_def m Discovery_of_def remote_message.defs parse_flags
        apis_flag cong: if_cong)
qed

text \<open>
  C27. The constructor of each class leaves its message complete exactly when the object is one of
  that class: it names the class, carries a context handle (a context request none), a result with
  its minor code unless it is Ok where the class is a response, and every field of the class with its
  type. A number, a list element or a flag of another type is never taken for a field.
\<close>

theorem complete_messages_are_well_typed: "incompleteAs t obj \<longleftrightarrow> \<not> conforms t obj"
proof -
  have "t = MSG_UNDEFINED \<or> isResponseType t \<or> t \<in> {IFDEstablishContext, IFDGetStatus, IFDStatus,
      IFDConnect, IFDDisconnect, IFDTransmit, IFDEstablishPACEChannel, IFDModifyPIN}"
    by (cases t) (simp_all add: isResponseType_def)
  then show ?thesis
    using request_incomplete response_incomplete discovery_incomplete by blast
qed

end
