(* ===== verification/RemoteServer.thy ===== *)
theory RemoteServer
  imports RemoteMessages "HOL-Library.List_Lexorder" "HOL-Library.Char_ord"
begin

text \<open>
  The side of the card reader in a connection to a remote device:
  src/src/remote_device/RemoteDispatcher.cpp, RemoteDispatcherServer.cpp and
  ServerMessageHandler.cpp. The state is the record \<open>server\<close>: the context handle of the
  dispatcher, whether the handler listens to the reader manager, the connection commands that are
  under way, and the card connections by slot handle in the order of their keys (a \<open>QMap\<close>).
  The reader manager, the settings and the card connections are the record \<open>server_env\<close>,
  given anew with each event, since they change between events; the fresh value of
  \<open>QUuid::createUuid\<close> comes with the event that uses it. What a handler does to the outside
  is a list of effects in the order of the code. Text received from the channel is given as the
  object that \<open>parseByteArray\<close> reads from it.
\<close>

section \<open>State\<close>

record 'c server_env =
  se_readerInfo :: "string \<Rightarrow> reader_description"
  se_readerInfos :: "reader_description list"
  se_pinPadMode :: bool
  se_serverName :: string
  se_connectionReader :: "'c \<Rightarrow> reader_description"
  se_secureMessaging :: "'c \<Rightarrow> bool"

record 'c server =
  sv_contextHandle :: string
  sv_listening :: bool
  sv_connecting :: "string list"
  sv_connections :: "(string \<times> 'c) list"

definition ServerMessageHandler :: "'c server" where
  "ServerMessageHandler = \<lparr>sv_contextHandle = [], sv_listening = False, sv_connecting = [], sv_connections = []\<rparr>"

datatype 'c server_effect =
    SE_saveRemoteName string
  | SE_send object
  | SE_createCardConnection string
  | SE_stopSecureMessaging 'c
  | SE_secureMessagingStopped
  | SE_transmit 'c bytes string
  | SE_establishPaceChannel ifd_establish_pace_channel 'c
  | SE_modifyPin ifd_modify_pin 'c
  | SE_closed

text \<open>\<open>QMap\<close>: the entries in the order of the keys, one entry per key.\<close>

definition mapRemove :: "string \<Rightarrow> (string \<times> 'c) list \<Rightarrow> (string \<times> 'c) list" where
  "mapRemove k m = filter (\<lambda>p. fst p \<noteq> k) m"

definition mapInsert :: "string \<Rightarrow> 'c \<Rightarrow> (string \<times> 'c) list \<Rightarrow> (string \<times> 'c) list" where
  "mapInsert k c m = insort_key fst (k, c) (mapRemove k m)"

section \<open>Handlers\<close>

definition handleIfdGetStatus ::
  "'c server_env \<Rightarrow> object \<Rightarrow> 'c server \<Rightarrow> 'c server_effect list \<times> 'c server" where
  "handleIfdGetStatus env obj sv =
    (let slotName = gs_slotName (IfdGetStatus_of obj);
         status = (\<lambda>info. SE_send (IfdStatus_toJson (IfdStatus_ofReader (se_pinPadMode env) info) (sv_contextHandle sv)))
     in if slotName \<noteq> [] then ([status (se_readerInfo env slotName)], sv)
        else (map status (filter rdr_basicReader (se_readerInfos env)), sv))"

definition connectResponse :: "'c server \<Rightarrow> string \<Rightarrow> ECardMinor \<Rightarrow> 'c server_effect" where
  "connectResponse sv slot minor =
    SE_send (IfdConnectResponse_toJson (IfdConnectResponse slot minor) (sv_contextHandle sv))"

definition handleIfdConnect ::
  "'c server_env \<Rightarrow> object \<Rightarrow> 'c server \<Rightarrow> 'c server_effect list \<times> 'c server" where
  "handleIfdConnect env obj sv =
    (let slotName = co_slotName (IfdConnect_of obj);
         info = se_readerInfo env slotName
     in if \<not> rdr_connected info then ([connectResponse sv slotName MI_IFDL_UnknownSlot], sv)
        else if \<not> hasEidCard info then ([connectResponse sv slotName MI_AL_Unknown_Error], sv)
        else if list_ex (\<lambda>p. rdr_name (se_connectionReader env (snd p)) = slotName) (sv_connections sv)
        then ([connectResponse sv slotName MI_IFDL_IFD_SharingViolation], sv)
        else ([SE_createCardConnection slotName], sv\<lparr>sv_connecting := sv_connecting sv @ [slotName]\<rparr>))"

text \<open>The answer of the reader manager to a connection command that is under way.\<close>

definition onCreateCardConnectionCommandDone ::
  "string \<Rightarrow> 'c option \<Rightarrow> string \<Rightarrow> 'c server \<Rightarrow> 'c server_effect list \<times> 'c server" where
  "onCreateCardConnectionCommandDone readerName cardConnection uuid sv =
    (if readerName \<notin> set (sv_connecting sv) then ([], sv)
     else
       let sv = sv\<lparr>sv_connecting := remove1 readerName (sv_connecting sv)\<rparr>
       in case cardConnection of
            None \<Rightarrow> ([connectResponse sv readerName MI_AL_Unknown_Error], sv)
          | Some c \<Rightarrow>
              let sv = sv\<lparr>sv_connections := mapInsert uuid c (sv_connections sv)\<rparr>
              in ([connectResponse sv uuid MI_null], sv))"

definition slotHandleForReaderName :: "'c server_env \<Rightarrow> string \<Rightarrow> 'c server \<Rightarrow> string" where
  "slotHandleForReaderName env readerName sv =
    (case find (\<lambda>p. rdr_name (se_connectionReader env (snd p)) = readerName) (sv_connections sv) of
       None \<Rightarrow> []
     | Some p \<Rightarrow> fst p)"

definition convertSlotHandle :: "'c server_env \<Rightarrow> string \<Rightarrow> 'c server \<Rightarrow> string" where
  "convertSlotHandle env readerName sv =
    (if map_of (sv_connections sv) readerName = None
     then let slotHandle = slotHandleForReaderName env readerName sv
          in if slotHandle \<noteq> [] then slotHandle else readerName
     else readerName)"

definition handleIfdDisconnect ::
  "'c server_env \<Rightarrow> object \<Rightarrow> 'c server \<Rightarrow> 'c server_effect list \<times> 'c server" where
  "handleIfdDisconnect env obj sv =
    (let slotHandle = convertSlotHandle env (di_slotHandle (IfdDisconnect_of obj)) sv;
         response = (\<lambda>minor. SE_send (IfdDisconnectResponse_toJson (IfdDisconnectResponse slotHandle minor)
                       (sv_contextHandle sv)))
     in if map_of (sv_connections sv) slotHandle = None then ([response MI_IFDL_InvalidSlotHandle], sv)
        else ([response MI_null], sv\<lparr>sv_connections := mapRemove slotHandle (sv_connections sv)\<rparr>))"

definition transmitResponse :: "'c server \<Rightarrow> string \<Rightarrow> bytes \<Rightarrow> ECardMinor \<Rightarrow> 'c server_effect" where
  "transmitResponse sv slot apdu minor =
    SE_send (IfdTransmitResponse_toJson (IfdTransmitResponse slot apdu minor) (sv_contextHandle sv))"

definition handleIfdTransmit ::
  "'c server_env \<Rightarrow> object \<Rightarrow> 'c server \<Rightarrow> 'c server_effect list \<times> 'c server" where
  "handleIfdTransmit env obj sv =
    (let m = IfdTransmit_of obj;
         slotHandle = convertSlotHandle env (tr_slotHandle m) sv
     in case map_of (sv_connections sv) slotHandle of
          None \<Rightarrow> ([transmitResponse sv slotHandle [] MI_IFDL_InvalidSlotHandle], sv)
        | Some c \<Rightarrow>
            let commandApdu = tr_inputApdu m;
                stop = (if se_pinPadMode env \<and> isSecureMessaging commandApdu
                        then SE_stopSecureMessaging c #
                          (if se_secureMessaging env c then [SE_secureMessagingStopped] else [])
                        else [])
            in (stop @ [SE_transmit c commandApdu slotHandle], sv))"

definition onTransmitCardCommandDone ::
  "'c server_env \<Rightarrow> CardReturnCode \<Rightarrow> string list \<Rightarrow> string \<Rightarrow> 'c server \<Rightarrow> 'c server_effect list \<times> 'c server" where
  "onTransmitCardCommandDone env returnCode outputApduAsHex commandSlotHandle sv =
    (let slotHandle = convertSlotHandle env commandSlotHandle sv
     in if returnCode \<noteq> CR_OK then ([transmitResponse sv slotHandle [] MI_AL_Unknown_Error], sv)
        else ([transmitResponse sv slotHandle
                 (case outputApduAsHex of [h] \<Rightarrow> fromHex h | _ \<Rightarrow> []) MI_null], sv))"

definition paceResponse :: "'c server \<Rightarrow> string \<Rightarrow> bytes \<Rightarrow> ECardMinor \<Rightarrow> 'c server_effect" where
  "paceResponse sv slot output minor =
    SE_send (IfdEstablishPaceChannelResponse_toJson (IfdEstablishPaceChannelResponse slot output minor)
      (sv_contextHandle sv))"

definition handleIfdEstablishPaceChannel ::
  "'c server_env \<Rightarrow> object \<Rightarrow> 'c server \<Rightarrow> 'c server_effect list \<times> 'c server" where
  "handleIfdEstablishPaceChannel env obj sv =
    (let m = IfdEstablishPaceChannel_of obj;
         slotHandle = convertSlotHandle env (ep_slotHandle m) sv
     in case map_of (sv_connections sv) slotHandle of
          None \<Rightarrow> ([paceResponse sv slotHandle [] MI_IFDL_InvalidSlotHandle], sv)
        | Some c \<Rightarrow>
            if rdr_basicReader (se_connectionReader env c) \<and> \<not> se_pinPadMode env
            then ([paceResponse sv slotHandle [] MI_AL_Unknown_Error], sv)
            else ([SE_establishPaceChannel m c], sv))"

definition sendEstablishPaceChannelResponse ::
  "pace_asn1 \<Rightarrow> string \<Rightarrow> pace_output \<Rightarrow> 'c server \<Rightarrow> 'c server_effect list \<times> 'c server" where
  "sendEstablishPaceChannelResponse P pSlotHandle pChannelOutput sv =
    (let ccid = toCcid P pChannelOutput
     in if po_returnCode pChannelOutput = CR_UNKNOWN then ([paceResponse sv pSlotHandle ccid MI_AL_Unknown_Error], sv)
        else if po_returnCode pChannelOutput = CR_CARD_NOT_FOUND
        then ([paceResponse sv pSlotHandle ccid MI_IFDL_Terminal_NoCard], sv)
        else ([paceResponse sv pSlotHandle ccid MI_null], sv))"

definition modifyPinResponse :: "'c server \<Rightarrow> string \<Rightarrow> bytes \<Rightarrow> ECardMinor \<Rightarrow> 'c server_effect" where
  "modifyPinResponse sv slot output minor =
    SE_send (IfdModifyPinResponse_toJson (IfdModifyPinResponse slot output minor) (sv_contextHandle sv))"

definition handleIfdModifyPIN ::
  "'c server_env \<Rightarrow> object \<Rightarrow> 'c server \<Rightarrow> 'c server_effect list \<times> 'c server" where
  "handleIfdModifyPIN env obj sv =
    (let m = IfdModifyPin_of obj;
         slotHandle = mp_slotHandle m
     in if \<not> se_pinPadMode env then ([modifyPinResponse sv slotHandle [] MI_AL_Unknown_Error], sv)
        else case map_of (sv_connections sv) slotHandle of
               None \<Rightarrow> ([modifyPinResponse sv slotHandle [] MI_IFDL_InvalidSlotHandle], sv)
             | Some c \<Rightarrow> ([SE_modifyPin m c], sv))"

definition modifyPinMinor :: "StatusCode \<Rightarrow> ECardMinor" where
  "modifyPinMinor s =
    (case s of
       SC_SUCCESS \<Rightarrow> MI_null
     | SC_EMPTY \<Rightarrow> MI_IFDL_Terminal_NoCard
     | SC_INPUT_TIMEOUT \<Rightarrow> MI_IFDL_Timeout_Error
     | SC_INPUT_CANCELLED \<Rightarrow> MI_IFDL_CancellationByUser
     | SC_PASSWORDS_DIFFER \<Rightarrow> MI_IFDL_IO_RepeatedDataMismatch
     | SC_PASSWORD_OUTOF_RANGE \<Rightarrow> MI_IFDL_IO_UnknownPINFormat
     | _ \<Rightarrow> MI_AL_Unknown_Error)"

definition sendModifyPinResponse ::
  "string \<Rightarrow> bytes \<Rightarrow> 'c server \<Rightarrow> 'c server_effect list \<times> 'c server" where
  "sendModifyPinResponse pSlotHandle pResponseApdu sv =
    ([modifyPinResponse sv pSlotHandle pResponseApdu (modifyPinMinor (getReturnCode pResponseApdu))], sv)"

definition onReaderChanged ::
  "'c server_env \<Rightarrow> string \<Rightarrow> 'c server \<Rightarrow> 'c server_effect list \<times> 'c server" where
  "onReaderChanged env pReaderName sv =
    (let info = se_readerInfo env pReaderName;
         sv = (if \<not> hasEidCard info
               then sv\<lparr>sv_connections := mapRemove (slotHandleForReaderName env pReaderName sv) (sv_connections sv)\<rparr>
               else sv)
     in ([SE_send (IfdStatus_toJson (IfdStatus_ofReader (se_pinPadMode env) info) (sv_contextHandle sv))], sv))"

definition onReaderRemoved ::
  "'c server_env \<Rightarrow> string \<Rightarrow> 'c server \<Rightarrow> 'c server_effect list \<times> 'c server" where
  "onReaderRemoved env pReaderName sv =
    ([SE_send (IfdStatus_toJson
        (IfdStatus_ofReader (se_pinPadMode env) (ReaderInfo pReaderName PI_UNKNOWN CT_NONE))
        (sv_contextHandle sv))], sv)"

section \<open>The dispatcher\<close>

definition sendError :: "'c server \<Rightarrow> 'c server_effect" where
  "sendError sv =
    SE_send (IfdError_toJson (IfdError [] MI_AL_Unkown_API_Function) (sv_contextHandle sv))"

definition onRemoteMessage ::
  "'c server_env \<Rightarrow> RemoteCardMessageType \<Rightarrow> object \<Rightarrow> 'c server \<Rightarrow> 'c server_effect list \<times> 'c server" where
  "onRemoteMessage env pMessageType obj sv =
    (case pMessageType of
       IFDStatus \<Rightarrow> ([sendError sv], sv)
     | IFDConnectResponse \<Rightarrow> ([sendError sv], sv)
     | IFDDisconnectResponse \<Rightarrow> ([sendError sv], sv)
     | IFDTransmitResponse \<Rightarrow> ([sendError sv], sv)
     | IFDEstablishPACEChannelResponse \<Rightarrow> ([sendError sv], sv)
     | IFDModifyPINResponse \<Rightarrow> ([sendError sv], sv)
     | IFDGetStatus \<Rightarrow> handleIfdGetStatus env obj sv
     | IFDConnect \<Rightarrow> handleIfdConnect env obj sv
     | IFDTransmit \<Rightarrow> handleIfdTransmit env obj sv
     | IFDDisconnect \<Rightarrow> handleIfdDisconnect env obj sv
     | IFDEstablishPACEChannel \<Rightarrow> handleIfdEstablishPaceChannel env obj sv
     | IFDModifyPIN \<Rightarrow> handleIfdModifyPIN env obj sv
     | _ \<Rightarrow> ([], sv))"

definition createAndSendContext ::
  "'c server_env \<Rightarrow> string \<Rightarrow> object \<Rightarrow> 'c server \<Rightarrow> 'c server_effect list \<times> 'c server" where
  "createAndSendContext env uuid obj sv =
    (let fail = (if sv_contextHandle sv \<noteq> [] then MI_AL_Unknown_Error else MI_null);
         fail = (if \<not> versionIsSupported (ec_protocol (IfdEstablishContext_of obj)) then MI_AL_Unknown_Error else fail);
         response = (\<lambda>minor. IfdEstablishContextResponse (se_serverName env) minor)
     in if fail \<noteq> MI_null
        then ([SE_send (IfdEstablishContextResponse_toJson (response fail) (sv_contextHandle sv))], sv)
        else
          let sv = sv\<lparr>sv_contextHandle := uuid\<rparr>
          in ([SE_send (IfdEstablishContextResponse_toJson (response MI_null) (sv_contextHandle sv))],
              sv\<lparr>sv_listening := True\<rparr>))"

definition serverProcessContext ::
  "'c server_env \<Rightarrow> string \<Rightarrow> RemoteCardMessageType \<Rightarrow> object \<Rightarrow> 'c server
     \<Rightarrow> ('c server_effect list \<times> 'c server) option" where
  "serverProcessContext env uuid pMsgType obj sv =
    (if pMsgType \<noteq> IFDEstablishContext then None
     else
       let (effs, sv') = createAndSendContext env uuid obj sv
       in Some (SE_saveRemoteName (ec_udName (IfdEstablishContext_of obj)) # effs, sv'))"

definition serverOnReceived ::
  "'c server_env \<Rightarrow> string \<Rightarrow> object \<Rightarrow> 'c server \<Rightarrow> 'c server_effect list \<times> 'c server" where
  "serverOnReceived env uuid obj sv =
    (let remoteMessage = RemoteMessage_of obj;
         messageType = rm_type remoteMessage
     in if messageType = MSG_UNDEFINED then ([sendError sv], sv)
        else case serverProcessContext env uuid messageType obj sv of
               Some r \<Rightarrow> r
             | None \<Rightarrow>
                 let contextHandle = rm_context remoteMessage
                 in if contextHandle = [] \<or> sv_contextHandle sv \<noteq> contextHandle then ([], sv)
                    else onRemoteMessage env messageType obj sv)"

section \<open>The handler as a machine\<close>

datatype 'c server_event =
    SV_received object string
  | SV_connectionCreated string "'c option" string
  | SV_transmitDone CardReturnCode "string list" string
  | SV_paceDone string pace_output
  | SV_modifyPinDone string bytes
  | SV_readerChanged string
  | SV_readerRemoved string
  | SV_closed

definition server_step ::
  "pace_asn1 \<Rightarrow> 'c server \<Rightarrow> 'c server_env \<times> 'c server_event \<Rightarrow> 'c server_effect list \<times> 'c server" where
  "server_step P sv x =
    (let (env, ev) = x in
     case ev of
       SV_received obj uuid \<Rightarrow> serverOnReceived env uuid obj sv
     | SV_connectionCreated readerName c uuid \<Rightarrow> onCreateCardConnectionCommandDone readerName c uuid sv
     | SV_transmitDone rc out slot \<Rightarrow> onTransmitCardCommandDone env rc out slot sv
     | SV_paceDone slot output \<Rightarrow> sendEstablishPaceChannelResponse P slot output sv
     | SV_modifyPinDone slot apdu \<Rightarrow> sendModifyPinResponse slot apdu sv
     | SV_readerChanged readerName \<Rightarrow> if sv_listening sv then onReaderChanged env readerName sv else ([], sv)
     | SV_readerRemoved readerName \<Rightarrow> if sv_listening sv then onReaderRemoved env readerName sv else ([], sv)
     | SV_closed \<Rightarrow> ([SE_closed], sv\<lparr>sv_connections := []\<rparr>))"

section \<open>Access to the card\<close>

text \<open>The effects that reach a card or ask for it.\<close>

fun touchesCard :: "'c server_effect \<Rightarrow> bool" where
  "touchesCard (SE_createCardConnection slot) = True"
| "touchesCard (SE_stopSecureMessaging c) = True"
| "touchesCard (SE_transmit c apdu slot) = True"
| "touchesCard (SE_establishPaceChannel m c) = True"
| "touchesCard (SE_modifyPin m c) = True"
| "touchesCard _ = False"

text \<open>What the handlers check before such an effect, for the object \<open>obj\<close> of the request.\<close>

fun accessGranted :: "'c server_env \<Rightarrow> object \<Rightarrow> 'c server \<Rightarrow> 'c server_effect \<Rightarrow> bool" where
  "accessGranted env obj sv (SE_createCardConnection slot) \<longleftrightarrow>
     rm_type (RemoteMessage_of obj) = IFDConnect \<and> slot = co_slotName (IfdConnect_of obj) \<and>
     rdr_connected (se_readerInfo env slot) \<and> hasEidCard (se_readerInfo env slot) \<and>
     (\<forall>c \<in> snd ` set (sv_connections sv). rdr_name (se_connectionReader env c) \<noteq> slot)"
| "accessGranted env obj sv (SE_stopSecureMessaging c) \<longleftrightarrow>
     rm_type (RemoteMessage_of obj) = IFDTransmit \<and> c \<in> snd ` set (sv_connections sv) \<and>
     se_pinPadMode env \<and> isSecureMessaging (tr_inputApdu (IfdTransmit_of obj))"
| "accessGranted env obj sv (SE_transmit c apdu slot) \<longleftrightarrow>
     rm_type (RemoteMessage_of obj) = IFDTransmit \<and> map_of (sv_connections sv) slot = Some c \<and>
     slot = convertSlotHandle env (tr_slotHandle (IfdTransmit_of obj)) sv \<and> apdu = tr_inputApdu (IfdTransmit_of obj)"
| "accessGranted env obj sv (SE_establishPaceChannel m c) \<longleftrightarrow>
     rm_type (RemoteMessage_of obj) = IFDEstablishPACEChannel \<and> m = IfdEstablishPaceChannel_of obj \<and>
     c \<in> snd ` set (sv_connections sv) \<and>
     (se_pinPadMode env \<or> \<not> rdr_basicReader (se_connectionReader env c))"
| "accessGranted env obj sv (SE_modifyPin m c) \<longleftrightarrow>
     rm_type (RemoteMessage_of obj) = IFDModifyPIN \<and> m = IfdModifyPin_of obj \<and>
     map_of (sv_connections sv) (mp_slotHandle m) = Some c \<and> se_pinPadMode env"
| "accessGranted env obj sv _ \<longleftrightarrow> True"

lemma map_of_in_range: "map_of m k = Some c \<Longrightarrow> c \<in> snd ` set m"
  by (metis image_eqI map_of_SomeD snd_conv)

lemma answers_do_not_touch [simp]:
  "\<not> touchesCard (connectResponse sv s i)" "\<not> touchesCard (transmitResponse sv s d i)"
  "\<not> touchesCard (paceResponse sv s d i)" "\<not> touchesCard (modifyPinResponse sv s d i)"
  "\<not> touchesCard (sendError sv)"
  by (simp_all add: connectResponse_def transmitResponse_def paceResponse_def modifyPinResponse_def sendError_def)

lemma connect_access:
  "e \<in> set (fst (handleIfdConnect env obj sv)) \<Longrightarrow> touchesCard e \<Longrightarrow>
   rm_type (RemoteMessage_of obj) = IFDConnect \<Longrightarrow> accessGranted env obj sv e"
  by (auto simp: handleIfdConnect_def Let_def list_ex_iff split: if_splits)

lemma transmit_access:
  "e \<in> set (fst (handleIfdTransmit env obj sv)) \<Longrightarrow> touchesCard e \<Longrightarrow>
   rm_type (RemoteMessage_of obj) = IFDTransmit \<Longrightarrow> accessGranted env obj sv e"
  by (auto simp: handleIfdTransmit_def Let_def map_of_in_range split: if_splits option.splits)

lemma pace_access:
  "e \<in> set (fst (handleIfdEstablishPaceChannel env obj sv)) \<Longrightarrow> touchesCard e \<Longrightarrow>
   rm_type (RemoteMessage_of obj) = IFDEstablishPACEChannel \<Longrightarrow> accessGranted env obj sv e"
  by (auto simp: handleIfdEstablishPaceChannel_def Let_def map_of_in_range split: if_splits option.splits)

lemma modify_access:
  "e \<in> set (fst (handleIfdModifyPIN env obj sv)) \<Longrightarrow> touchesCard e \<Longrightarrow>
   rm_type (RemoteMessage_of obj) = IFDModifyPIN \<Longrightarrow> accessGranted env obj sv e"
  by (auto simp: handleIfdModifyPIN_def Let_def split: if_splits option.splits)

lemma quiet_handlers:
  "e \<in> set (fst (handleIfdGetStatus env obj sv)) \<Longrightarrow> \<not> touchesCard e"
  "e \<in> set (fst (handleIfdDisconnect env obj sv)) \<Longrightarrow> \<not> touchesCard e"
  "e \<in> set (fst (createAndSendContext env uuid obj sv)) \<Longrightarrow> \<not> touchesCard e"
  "e \<in> set (fst (onCreateCardConnectionCommandDone rn c uuid sv)) \<Longrightarrow> \<not> touchesCard e"
  "e \<in> set (fst (onTransmitCardCommandDone env rc out slot sv)) \<Longrightarrow> \<not> touchesCard e"
  "e \<in> set (fst (sendEstablishPaceChannelResponse P slot po sv)) \<Longrightarrow> \<not> touchesCard e"
  "e \<in> set (fst (sendModifyPinResponse slot apdu sv)) \<Longrightarrow> \<not> touchesCard e"
  "e \<in> set (fst (onReaderChanged env rn sv)) \<Longrightarrow> \<not> touchesCard e"
  "e \<in> set (fst (onReaderRemoved env rn sv)) \<Longrightarrow> \<not> touchesCard e"
  by (auto simp: handleIfdGetStatus_def handleIfdDisconnect_def createAndSendContext_def
      onCreateCardConnectionCommandDone_def onTransmitCardCommandDone_def
      sendEstablishPaceChannelResponse_def sendModifyPinResponse_def onReaderChanged_def
      onReaderRemoved_def Let_def split: if_splits option.splits)

lemma message_access:
  assumes "e \<in> set (fst (onRemoteMessage env t obj sv))" "touchesCard e" "rm_type (RemoteMessage_of obj) = t"
  shows "accessGranted env obj sv e"
  using assms
  by (cases t) (auto simp: onRemoteMessage_def dest: quiet_handlers
      intro: connect_access transmit_access pace_access modify_access)

lemma received_access:
  assumes "e \<in> set (fst (serverOnReceived env uuid obj sv))" "touchesCard e"
  shows "sv_contextHandle sv \<noteq> [] \<and> rm_context (RemoteMessage_of obj) = sv_contextHandle sv \<and>
    accessGranted env obj sv e"
proof (cases "rm_type (RemoteMessage_of obj) = IFDEstablishContext")
  case True
  then have "e = SE_saveRemoteName (ec_udName (IfdEstablishContext_of obj)) \<or>
      e \<in> set (fst (createAndSendContext env uuid obj sv))"
    using assms(1) by (auto simp: serverOnReceived_def serverProcessContext_def Let_def split: prod.splits)
  then show ?thesis
    using assms(2) by (auto dest: quiet_handlers)
next
  case False
  then show ?thesis
    using assms message_access [OF _ assms(2), of env _ obj sv]
    by (auto simp: serverOnReceived_def serverProcessContext_def Let_def split: if_splits)
qed

text \<open>
  C21. The device that is used as a card reader lets nobody use the card unasked: a card is connected,
  told a command, its secure messaging stopped, asked for a PACE channel or for a new PIN only while
  a message is handled that carries the context handle of the established context, and only when
  that message asks for it. A connection is opened for a reader that is there with an identity card
  and has no connection yet; a command goes to the connection of the slot handle and is the command
  of the message; secure messaging is stopped only in PIN pad mode by a secured command; PACE with
  the device itself (a basic reader) and the change of the PIN need the PIN pad mode.
\<close>

theorem remote_card_access_is_guarded:
  assumes "server_step P sv (env, ev) = (effs, sv')" "e \<in> set effs" "touchesCard e"
  shows "\<exists>obj uuid. ev = SV_received obj uuid \<and> sv_contextHandle sv \<noteq> [] \<and>
    rm_context (RemoteMessage_of obj) = sv_contextHandle sv \<and> accessGranted env obj sv e"
proof -
  have e: "e \<in> set (fst (server_step P sv (env, ev)))"
    using assms by simp
  show ?thesis
  proof (cases ev)
    case (SV_received obj uuid)
    then show ?thesis
      using e received_access [OF _ assms(3)] by (auto simp: server_step_def)
  qed (use e assms(3) in \<open>auto simp: server_step_def dest: quiet_handlers split: if_splits\<close>)
qed

section \<open>The context over a whole connection\<close>

definition server_next :: "pace_asn1 \<Rightarrow> 'c server \<Rightarrow> 'c server_env \<times> 'c server_event \<Rightarrow> 'c server" where
  "server_next P sv x = snd (server_step P sv x)"

fun server_effects ::
  "pace_asn1 \<Rightarrow> 'c server \<Rightarrow> ('c server_env \<times> 'c server_event) list \<Rightarrow> 'c server_effect list" where
  "server_effects P sv [] = []"
| "server_effects P sv (x # xs) = fst (server_step P sv x) @ server_effects P (server_next P sv x) xs"

text \<open>\<open>QUuid::createUuid().toString()\<close> is never empty.\<close>

definition freshUuid :: "'c server_env \<times> 'c server_event \<Rightarrow> bool" where
  "freshUuid x = (case snd x of SV_received obj uuid \<Rightarrow> uuid \<noteq> [] | _ \<Rightarrow> True)"

definition server_inv :: "'c server \<Rightarrow> bool" where
  "server_inv sv \<longleftrightarrow> distinct (map fst (sv_connections sv)) \<and>
     (sv_contextHandle sv = [] \<longrightarrow>
        sv_connections sv = [] \<and> sv_connecting sv = [] \<and> \<not> sv_listening sv)"

lemma distinct_mapRemove [simp]: "distinct (map fst m) \<Longrightarrow> distinct (map fst (mapRemove k m))"
  by (simp add: mapRemove_def distinct_map_filter)

lemma set_insort_map: "set (map fst (insort_key fst p m)) = insert (fst p) (set (map fst m))"
  by (simp add: set_insort_key)

lemma distinct_insort_map:
  "distinct (map fst (insort_key fst p m)) \<longleftrightarrow> fst p \<notin> set (map fst m) \<and> distinct (map fst m)"
  by (induction m) (auto simp: set_insort_map [simplified])

lemma distinct_mapInsert [simp]: "distinct (map fst m) \<Longrightarrow> distinct (map fst (mapInsert k c m))"
  unfolding mapInsert_def distinct_insort_map by (auto simp: mapRemove_def distinct_map_filter)

lemma handlers_keep_state:
  "snd (handleIfdGetStatus env obj sv) = sv" "snd (handleIfdTransmit env obj sv) = sv"
  "snd (handleIfdEstablishPaceChannel env obj sv) = sv" "snd (handleIfdModifyPIN env obj sv) = sv"
  "snd (onTransmitCardCommandDone env rc out slot sv) = sv"
  "snd (sendEstablishPaceChannelResponse P slot po sv) = sv" "snd (sendModifyPinResponse slot apdu sv) = sv"
  "snd (onReaderRemoved env rn sv) = sv"
  by (auto simp: handleIfdGetStatus_def handleIfdTransmit_def handleIfdEstablishPaceChannel_def
      handleIfdModifyPIN_def onTransmitCardCommandDone_def sendEstablishPaceChannelResponse_def
      sendModifyPinResponse_def onReaderRemoved_def Let_def split: option.split)

lemma handlers_keep_context:
  "sv_contextHandle (snd (handleIfdConnect env obj sv)) = sv_contextHandle sv"
  "sv_contextHandle (snd (handleIfdDisconnect env obj sv)) = sv_contextHandle sv"
  "sv_contextHandle (snd (onCreateCardConnectionCommandDone rn c uuid sv)) = sv_contextHandle sv"
  "sv_contextHandle (snd (onReaderChanged env rn sv)) = sv_contextHandle sv"
  by (auto simp: handleIfdConnect_def handleIfdDisconnect_def onCreateCardConnectionCommandDone_def
      onReaderChanged_def Let_def split: option.split)

lemma onRemoteMessage_context:
  "sv_contextHandle (snd (onRemoteMessage env t obj sv)) = sv_contextHandle sv"
  by (cases t) (simp_all add: onRemoteMessage_def handlers_keep_state handlers_keep_context)

lemma received_context:
  assumes "sv_contextHandle sv \<noteq> []"
  shows "sv_contextHandle (snd (serverOnReceived env uuid obj sv)) = sv_contextHandle sv"
  using assms
  by (auto simp: serverOnReceived_def serverProcessContext_def createAndSendContext_def
      onRemoteMessage_context Let_def)

lemma server_next_context:
  "sv_contextHandle sv \<noteq> [] \<Longrightarrow> sv_contextHandle (server_next P sv x) = sv_contextHandle sv"
  by (cases x, cases "snd x")
    (auto simp: server_next_def server_step_def received_context handlers_keep_state handlers_keep_context)

lemma connection_handlers_inv:
  assumes "server_inv sv"
  shows "sv_contextHandle sv \<noteq> [] \<Longrightarrow> server_inv (snd (handleIfdConnect env obj sv))"
    "server_inv (snd (handleIfdDisconnect env obj sv))"
    "server_inv (snd (onCreateCardConnectionCommandDone rn c uuid sv))"
    "server_inv (snd (onReaderChanged env rn sv))"
  using assms
  by (auto simp: server_inv_def handleIfdConnect_def handleIfdDisconnect_def onReaderChanged_def
      onCreateCardConnectionCommandDone_def mapRemove_def distinct_map_filter Let_def split: option.split)

lemma received_inv:
  assumes "server_inv sv" "uuid \<noteq> []"
  shows "server_inv (snd (serverOnReceived env uuid obj sv))"
proof -
  have "server_inv (snd (onRemoteMessage env t obj sv))" if "sv_contextHandle sv \<noteq> []" for t
    using assms(1) that connection_handlers_inv [OF assms(1)]
    by (cases t) (auto simp: onRemoteMessage_def handlers_keep_state)
  moreover have "server_inv (snd (createAndSendContext env uuid obj sv))"
    using assms by (auto simp: createAndSendContext_def server_inv_def Let_def)
  ultimately show ?thesis
    using assms(1) by (auto simp: serverOnReceived_def serverProcessContext_def Let_def split: prod.split)
qed

interpretation connection: machine
  "\<lambda>sv x. if freshUuid x then server_next P sv x else sv" server_inv
proof
  fix sv :: "'c server" and x
  assume "server_inv sv"
  then show "server_inv (if freshUuid x then server_next P sv x else sv)"
    using received_inv [of sv] connection_handlers_inv [of sv]
    by (cases "snd x") (auto simp: freshUuid_def server_next_def server_step_def handlers_keep_state
        server_inv_def [of "sv\<lparr>sv_connections := []\<rparr>"] server_inv_def [of sv] split: prod.split)
qed

definition server_run ::
  "pace_asn1 \<Rightarrow> 'c server \<Rightarrow> ('c server_env \<times> 'c server_event) list \<Rightarrow> 'c server" where
  "server_run P sv xs = run (server_next P) sv xs"

lemma server_run_inv:
  assumes "list_all freshUuid xs" "server_inv sv"
  shows "server_inv (server_run P sv xs)"
proof -
  have "server_run P sv xs = run (\<lambda>sv x. if freshUuid x then server_next P sv x else sv) sv xs"
    using assms(1) by (induction xs arbitrary: sv) (simp_all add: server_run_def)
  then show ?thesis
    by (simp add: connection.run_inv [OF assms(2)])
qed

lemma server_run_context:
  "sv_contextHandle sv \<noteq> [] \<Longrightarrow> sv_contextHandle (server_run P sv xs) = sv_contextHandle sv"
  by (induction xs arbitrary: sv) (simp_all add: server_run_def server_next_context)

lemma step_needs_context:
  assumes "sv_contextHandle sv = []" "e \<in> set (fst (server_step P sv x))"
  shows "\<not> touchesCard e"
proof -
  obtain env ev where x: "x = (env, ev)" by force
  show ?thesis
  proof (cases ev)
    case (SV_received obj uuid)
    then show ?thesis
      using assms received_access [of e env uuid obj sv] by (auto simp: x server_step_def)
  qed (use assms in \<open>auto simp: x server_step_def dest: quiet_handlers split: if_splits\<close>)
qed

lemma effects_need_context:
  "sv_contextHandle (server_run P sv xs) = [] \<Longrightarrow> e \<in> set (server_effects P sv xs) \<Longrightarrow> \<not> touchesCard e"
proof (induction xs arbitrary: sv)
  case (Cons x xs)
  have "sv_contextHandle (server_run P (server_next P sv x) xs) = []"
    using Cons.prems(1) by (simp add: server_run_def)
  moreover have "sv_contextHandle sv = []"
    using Cons.prems(1) server_run_context by metis
  ultimately show ?case
    using Cons.IH [of "server_next P sv x"] Cons.prems(2) step_needs_context [of sv e P x] by auto
qed simp

text \<open>
  Over a whole connection, whatever is received and in whatever order the commands end: as
  long as no context is established there is no card connection, none under way, the handler does
  not listen to the reader manager and nothing has touched a card; once there is a context, its
  handle is never replaced, by a second request for a context neither. No two connections have the
  same slot handle.
\<close>

theorem context_handle_is_fixed:
  assumes "list_all freshUuid xs" "sv = server_run P ServerMessageHandler xs"
  shows "(sv_contextHandle sv = [] \<longrightarrow>
       sv_connections sv = [] \<and> sv_connecting sv = [] \<and> \<not> sv_listening sv \<and>
       list_all (\<lambda>e. \<not> touchesCard e) (server_effects P ServerMessageHandler xs)) \<and>
     (sv_contextHandle sv \<noteq> [] \<longrightarrow> sv_contextHandle (server_run P sv ys) = sv_contextHandle sv) \<and>
     distinct (map fst (sv_connections sv))"
proof -
  have "server_inv (ServerMessageHandler :: 'c server)"
    by (simp add: server_inv_def ServerMessageHandler_def)
  then have "server_inv sv"
    using server_run_inv assms by simp
  moreover have "sv_contextHandle sv = [] \<Longrightarrow>
      list_all (\<lambda>e. \<not> touchesCard e) (server_effects P ServerMessageHandler xs)"
    using assms(2) effects_need_context [of P ServerMessageHandler xs] by (auto simp: list_all_iff)
  ultimately show ?thesis
    by (simp add: server_inv_def server_run_context)
qed

section \<open>Every request is answered\<close>

fun responseTypeOf :: "RemoteCardMessageType \<Rightarrow> RemoteCardMessageType" where
  "responseTypeOf IFDConnect = IFDConnectResponse"
| "responseTypeOf IFDDisconnect = IFDDisconnectResponse"
| "responseTypeOf IFDTransmit = IFDTransmitResponse"
| "responseTypeOf IFDEstablishPACEChannel = IFDEstablishPACEChannelResponse"
| "responseTypeOf IFDModifyPIN = IFDModifyPINResponse"
| "responseTypeOf _ = IFDError"

text \<open>An answer of a given type in a given context, and the command that will give one.\<close>

fun isAnswer :: "string \<Rightarrow> RemoteCardMessageType \<Rightarrow> 'c server_effect \<Rightarrow> bool" where
  "isAnswer ctx t (SE_send obj) \<longleftrightarrow>
     rm_type (RemoteMessage_of obj) = responseTypeOf t \<and> rm_context (RemoteMessage_of obj) = ctx"
| "isAnswer ctx t _ \<longleftrightarrow> False"

definition isCommandFor :: "RemoteCardMessageType \<Rightarrow> 'c server_effect \<Rightarrow> bool" where
  "isCommandFor t e =
    (case e of
       SE_createCardConnection _ \<Rightarrow> t = IFDConnect
     | SE_transmit _ _ _ \<Rightarrow> t = IFDTransmit
     | SE_establishPaceChannel _ _ \<Rightarrow> t = IFDEstablishPACEChannel
     | SE_modifyPin _ _ \<Rightarrow> t = IFDModifyPIN
     | _ \<Rightarrow> False)"

lemma written_responses:
  "isAnswer ctx IFDConnect (connectResponse sv s i) \<longleftrightarrow> sv_contextHandle sv = ctx"
  "isAnswer ctx IFDTransmit (transmitResponse sv s d i) \<longleftrightarrow> sv_contextHandle sv = ctx"
  "isAnswer ctx IFDEstablishPACEChannel (paceResponse sv s d i) \<longleftrightarrow> sv_contextHandle sv = ctx"
  "isAnswer ctx IFDModifyPIN (modifyPinResponse sv s d i) \<longleftrightarrow> sv_contextHandle sv = ctx"
  "isAnswer ctx IFDDisconnect (SE_send (IfdDisconnectResponse_toJson (IfdDisconnectResponse s i) c)) \<longleftrightarrow> c = ctx"
  by (simp_all add: connectResponse_def transmitResponse_def paceResponse_def modifyPinResponse_def
      IfdConnectResponse_toJson_def IfdConnectResponse_def IfdTransmitResponse_toJson_def IfdTransmitResponse_def
      IfdEstablishPaceChannelResponse_toJson_def IfdEstablishPaceChannelResponse_def
      IfdModifyPinResponse_toJson_def IfdModifyPinResponse_def IfdDisconnectResponse_toJson_def
      IfdDisconnectResponse_def createResponseBody_def message_ctors
      ifd_connect_response.defs ifd_transmit_response.defs ifd_establish_pace_channel_response.defs
      ifd_modify_pin_response.defs ifd_disconnect_response.defs)

declare isAnswer.simps(1) [simp del]

definition answersOnce :: "string \<Rightarrow> RemoteCardMessageType \<Rightarrow> 'c server_effect list \<Rightarrow> bool" where
  "answersOnce ctx t effs \<longleftrightarrow> length (filter (isAnswer ctx t) effs) = 1"

text \<open>
  C25. No request in the established context is dropped by the message handler, and none is answered twice. A request to connect,
  to disconnect, to transmit, to establish a PACE channel or to modify the PIN leads to exactly one reaction: an
  answer at once, of the type that belongs to it and with the context handle; or one command to the card
  (connect and transmit), which sends exactly one such answer when it ends, with whatever outcome; or the handover of a PACE or PIN
  request to the workflow of the device by a signal. A call of the functions with which that
  workflow responds sends exactly one such answer. That the workflow makes this call is not claimed:
  a second request that comes while it works is lost (\<open>second_request_is_lost\<close> in
  RemoteService).
\<close>

theorem requests_are_answered_or_handed_over:
  assumes "t \<in> {IFDConnect, IFDDisconnect, IFDTransmit, IFDEstablishPACEChannel, IFDModifyPIN}"
    and "rm_type (RemoteMessage_of obj) = t"
    and "rm_context (RemoteMessage_of obj) = ctx" "sv_contextHandle sv = ctx" "ctx \<noteq> []"
  shows "length (filter (\<lambda>e. isAnswer ctx t e \<or> isCommandFor t e) (fst (serverOnReceived env uuid obj sv))) = 1 \<and>
    (readerName \<in> set (sv_connecting sv) \<longrightarrow>
       answersOnce ctx IFDConnect (fst (onCreateCardConnectionCommandDone readerName c uuid sv))) \<and>
    answersOnce ctx IFDTransmit (fst (onTransmitCardCommandDone env rc out slot sv)) \<and>
    answersOnce ctx IFDEstablishPACEChannel (fst (sendEstablishPaceChannelResponse P slot output sv)) \<and>
    answersOnce ctx IFDModifyPIN (fst (sendModifyPinResponse slot apdu sv))"
proof -
  have m: "fst (serverOnReceived env uuid obj sv) = fst (onRemoteMessage env t obj sv)"
    using assms by (auto simp: serverOnReceived_def serverProcessContext_def)
  have c: "sv_contextHandle (sv\<lparr>sv_connecting := xs\<rparr>) = ctx"
    "sv_contextHandle (sv\<lparr>sv_connecting := xs, sv_connections := ys\<rparr>) = ctx" for xs ys
    using assms(4) by simp_all
  have "length (filter (\<lambda>e. isAnswer ctx t e \<or> isCommandFor t e) (fst (onRemoteMessage env t obj sv))) = 1"
    using assms(1,4)
    by (auto simp: onRemoteMessage_def handleIfdConnect_def handleIfdDisconnect_def handleIfdTransmit_def
        handleIfdEstablishPaceChannel_def handleIfdModifyPIN_def isCommandFor_def written_responses Let_def
        split: option.split)
  then show ?thesis
    unfolding m answersOnce_def
    using assms(4) c
    by (simp add: onCreateCardConnectionCommandDone_def onTransmitCardCommandDone_def
        sendEstablishPaceChannelResponse_def sendModifyPinResponse_def written_responses Let_def
        split: option.split)
qed

section \<open>Concrete runs\<close>

text \<open>One reader with an identity card, in PIN pad mode or not; its connections are numbers.\<close>

definition sample_reader :: reader_description where
  "sample_reader = (ReaderInfo ''R'' PI_NFC CT_EID_CARD)\<lparr>rdr_connected := True\<rparr>"

definition sample_server_env :: "bool \<Rightarrow> nat server_env" where
  "sample_server_env pinPad =
    \<lparr>se_readerInfo = (\<lambda>n. if n = ''R'' then sample_reader else ReaderInfo n PI_UNKNOWN CT_NONE),
     se_readerInfos = [sample_reader], se_pinPadMode = pinPad, se_serverName = ''Phone'',
     se_connectionReader = (\<lambda>c. sample_reader), se_secureMessaging = (\<lambda>c. False)\<rparr>"

definition sample_server :: "nat server" where
  "sample_server =
    \<lparr>sv_contextHandle = ''ctx'', sv_listening = True, sv_connecting = [], sv_connections = [(''slot'', 7)]\<rparr>"

definition hello :: object where
  "hello = IfdEstablishContext_toJson (IfdEstablishContext V_v0 ''PC'') []"

definition transmit_request :: object where
  "transmit_request = IfdTransmit_toJson (IfdTransmit ''slot'' [0, 0xA4]) ''ctx''"

lemmas sample_defs = sample_server_env_def sample_server_def sample_reader_def ReaderInfo_def

lemma transmit_request_parsed [simp]:
  "IfdTransmit_of transmit_request = (IfdTransmit ''slot'' [0, 0xA4])\<lparr>rm_context := ''ctx''\<rparr>"
  "RemoteMessage_of transmit_request =
     \<lparr>rm_incomplete = False, rm_type = IFDTransmit, rm_context = ''ctx''\<rparr>"
  by (simp_all add: transmit_request_def transmit_messages_roundtrip)
    (simp add: IfdTransmit_toJson_def IfdTransmit_def message_ctors ifd_transmit.defs Let_def)

lemma transmit_request_step:
  "server_step P sample_server (sample_server_env False, SV_received transmit_request u) =
     ([SE_transmit 7 [0, 0xA4] ''slot''], sample_server)"
  by (simp add: server_step_def Let_def serverOnReceived_def serverProcessContext_def onRemoteMessage_def
      handleIfdTransmit_def sample_defs convertSlotHandle_def IfdTransmit_def ifd_transmit.defs message_ctors)

theorem remote_card_access_is_guarded_witness:
  "accessGranted (sample_server_env False) transmit_request sample_server (SE_transmit 7 [0, 0xA4] ''slot'')"
  using remote_card_access_is_guarded [OF transmit_request_step, of "SE_transmit 7 [0, 0xA4] ''slot''"]
  by auto

theorem requests_are_answered_or_handed_over_witness:
  "length (filter (\<lambda>e. isAnswer ''ctx'' IFDTransmit e \<or> isCommandFor IFDTransmit e)
     (fst (serverOnReceived (sample_server_env False) ''u'' transmit_request sample_server))) = 1"
  using requests_are_answered_or_handed_over [of IFDTransmit transmit_request "''ctx''" sample_server "sample_server_env False"]
  by (simp add: sample_server_def)

definition sample_run :: "(nat server_env \<times> nat server_event) list" where
  "sample_run =
    [(sample_server_env False, SV_received hello ''ctx''), (sample_server_env False, SV_received hello ''other'')]"

lemma hello_parsed [simp]:
  "RemoteMessage_of hello = \<lparr>rm_incomplete = False, rm_type = IFDEstablishContext, rm_context = []\<rparr>"
  "IfdEstablishContext_of hello =
     (IfdEstablishContext V_v0 ''PC'')\<lparr>ec_protocolRaw := versionToString V_v0\<rparr>"
  by (simp_all add: hello_def context_messages_roundtrip)
    (simp add: IfdEstablishContext_toJson_def IfdEstablishContext_def)

lemma sample_run_context: "sv_contextHandle (server_run P ServerMessageHandler sample_run) = ''ctx''"
  by (simp add: sample_run_def server_run_def run_def server_next_def server_step_def Let_def serverOnReceived_def
      serverProcessContext_def createAndSendContext_def IfdEstablishContext_def ServerMessageHandler_def
      versionIsSupported_def supportedVersions_def)

definition sample_output_asn1 :: pace_asn1 where
  "sample_output_asn1 = \<lparr>i2d_out = (\<lambda>_. None), d2i_out = (\<lambda>_. None), norm_secinfos = Some\<rparr>"

theorem context_handle_is_fixed_witness:
  "sv_contextHandle (server_run sample_output_asn1
     (server_run sample_output_asn1 ServerMessageHandler sample_run) sample_run) = ''ctx''"
  using context_handle_is_fixed [of sample_run "server_run sample_output_asn1 ServerMessageHandler sample_run"
      sample_output_asn1 sample_run] sample_run_context [of sample_output_asn1]
  by (simp add: sample_run_def freshUuid_def)

section \<open>What the checks miss\<close>

text \<open>
  The sharing violation is checked against the connections that are there, not against those under
  way: two requests to connect the same slot, the second before the first command has ended, give two
  connections to one reader, and the client has two slot handles for it.
\<close>

definition connect_request :: object where
  "connect_request = IfdConnect_toJson (IfdConnect ''R'' True) ''ctx''"

lemma connect_request_parsed [simp]:
  "IfdConnect_of connect_request = (IfdConnect ''R'' True)\<lparr>rm_context := ''ctx''\<rparr>"
  "RemoteMessage_of connect_request =
     \<lparr>rm_incomplete = False, rm_type = IFDConnect, rm_context = ''ctx''\<rparr>"
  by (simp_all add: connect_request_def connect_messages_roundtrip)
    (simp add: IfdConnect_toJson_def IfdConnect_def message_ctors ifd_connect.defs)

theorem two_connections_to_one_reader:
  "map snd (sv_connections (server_run P (sample_server\<lparr>sv_connections := []\<rparr>)
     [(sample_server_env False, SV_received connect_request ''u''),
      (sample_server_env False, SV_received connect_request ''v''),
      (sample_server_env False, SV_connectionCreated ''R'' (Some 1) ''a''),
      (sample_server_env False, SV_connectionCreated ''R'' (Some 2) ''b'')])) = [1, 2]"
  by (simp add: server_run_def run_def server_next_def server_step_def Let_def serverOnReceived_def
      serverProcessContext_def onRemoteMessage_def handleIfdConnect_def sample_defs hasEidCard_def
      IfdConnect_def message_ctors ifd_connect.defs onCreateCardConnectionCommandDone_def mapInsert_def
      mapRemove_def less_eq_char_def less_char_def)

text \<open>A request to transmit that names no command is not refused: an empty command goes to the card.\<close>

theorem incomplete_transmit_reaches_card:
  defines "obj \<equiv> jput ''SlotHandle'' (JString ''slot'') (createMessageBody IFDTransmit ''ctx'')"
  shows "rm_incomplete (IfdTransmit_of obj) \<and>
    fst (server_step P sample_server (sample_server_env False, SV_received obj u)) = [SE_transmit 7 [] ''slot'']"
  by (simp add: obj_def IfdTransmit_of_def getStringValue_def Let_def server_step_def Let_def serverOnReceived_def
      serverProcessContext_def onRemoteMessage_def handleIfdTransmit_def sample_defs convertSlotHandle_def
      ifd_transmit.defs message_ctors)

text \<open>
  A reader that is removed keeps its connection: only a change of its card removes it. The next
  request to connect that reader, when it is back, is refused as a sharing violation.
\<close>

theorem removed_reader_keeps_connection:
  "snd (server_step P sample_server (sample_server_env False, SV_readerRemoved ''R'')) = sample_server \<and>
   fst (server_step P sample_server (sample_server_env False, SV_received connect_request u)) =
     [connectResponse sample_server ''R'' MI_IFDL_IFD_SharingViolation]"
  by (simp add: server_step_def Let_def onReaderRemoved_def serverOnReceived_def serverProcessContext_def
      onRemoteMessage_def handleIfdConnect_def sample_defs hasEidCard_def IfdConnect_def message_ctors
      ifd_connect.defs connectResponse_def)

end
