(* ===== verification/RemoteReaders.thy ===== *)
theory RemoteReaders
  imports RemoteServer
begin

text \<open>
  The side of the computer in a connection to a remote device:
  src/src/remote_device/RemoteDispatcherClient.cpp and the plugin for readers behind it,
  src/src/remote_device/plugin/RemoteCard.cpp, RemoteReader.cpp and RemoteReaderManagerPlugIn.cpp.
  \<open>RemoteCard::sendMessage\<close> blocks until an answer is there, the connection is closed or the
  time is over; what the dispatcher reports meanwhile is a list of events, and an answer that is
  not in the list came too late. The store of settings, the search for devices and the reading of a
  new card are parameters.
\<close>

section \<open>The dispatcher\<close>

record client_dispatcher =
  cd_contextHandle :: string

datatype client_effect =
    CE_send object
  | CE_contextEstablished string
  | CE_received RemoteCardMessageType object

definition clientProcessContext ::
  "RemoteCardMessageType \<Rightarrow> object \<Rightarrow> client_dispatcher \<Rightarrow> (client_effect list \<times> client_dispatcher) option" where
  "clientProcessContext pMsgType obj cd =
    (if pMsgType \<noteq> IFDEstablishContextResponse then None
     else
       let response = IfdEstablishContextResponse_of obj
       in if resultHasError response then Some ([], cd)
          else Some ([CE_contextEstablished (ecr_ifdName response)],
                 cd\<lparr>cd_contextHandle := rm_context response\<rparr>))"

definition clientOnReceived :: "object \<Rightarrow> client_dispatcher \<Rightarrow> client_effect list \<times> client_dispatcher" where
  "clientOnReceived obj cd =
    (let remoteMessage = RemoteMessage_of obj;
         messageType = rm_type remoteMessage
     in if messageType = MSG_UNDEFINED
        then ([CE_send (IfdError_toJson (IfdError [] MI_AL_Unkown_API_Function) (cd_contextHandle cd))], cd)
        else case clientProcessContext messageType obj cd of
               Some r \<Rightarrow> r
             | None \<Rightarrow>
                 let contextHandle = rm_context remoteMessage
                 in if contextHandle = [] \<or> cd_contextHandle cd \<noteq> contextHandle then ([], cd)
                    else ([CE_received messageType obj], cd))"

definition sendEstablishContext :: "Version \<Rightarrow> string \<Rightarrow> client_dispatcher \<Rightarrow> object" where
  "sendEstablishContext mVersion serverName cd =
    IfdEstablishContext_toJson (IfdEstablishContext mVersion serverName) (cd_contextHandle cd)"

section \<open>The card of a remote reader\<close>

text \<open>\<open>QString::remove\<close>: every occurrence, from left to right.\<close>

function qremove :: "string \<Rightarrow> string \<Rightarrow> string" where
  "qremove str [] = []"
| "qremove str (c # cs) =
    (if str \<noteq> [] \<and> take (length str) (c # cs) = str then qremove str (drop (length str) (c # cs))
     else c # qremove str cs)"
  by pat_completeness auto
termination
  by (relation "measure (\<lambda>(str, s). length s)") auto

record remote_card =
  rc_contextHandle :: string
  rc_readerName :: string
  rc_connected :: bool
  rc_slotHandle :: string

definition RemoteCard :: "client_dispatcher \<Rightarrow> string \<Rightarrow> remote_card" where
  "RemoteCard cd pReaderName =
    \<lparr>rc_contextHandle = cd_contextHandle cd, rc_readerName = qremove (cd_contextHandle cd) pReaderName,
     rc_connected = False, rc_slotHandle = []\<rparr>"

datatype dispatcher_event = DE_received RemoteCardMessageType object | DE_closed

text \<open>
  The answer that \<open>sendMessage\<close> leaves in \<open>mResponse\<close>, or \<open>None\<close> when it gives
  up. A connection that is closed leaves an empty object.
\<close>

fun awaitAnswer :: "RemoteCardMessageType \<Rightarrow> dispatcher_event list \<Rightarrow> object option" where
  "awaitAnswer mExpectedAnswerType [] = None"
| "awaitAnswer mExpectedAnswerType (DE_closed # evs) = Some []"
| "awaitAnswer mExpectedAnswerType (DE_received t obj # evs) =
    (if t = mExpectedAnswerType \<or> t = IFDError then Some obj else awaitAnswer mExpectedAnswerType evs)"

definition RemoteCard_connect ::
  "dispatcher_event list \<Rightarrow> remote_card \<Rightarrow> object \<times> CardReturnCode \<times> remote_card" where
  "RemoteCard_connect evs c =
    (IfdConnect_toJson (IfdConnect (rc_readerName c) True) (rc_contextHandle c),
     case awaitAnswer IFDConnectResponse evs of
       None \<Rightarrow> (CR_INPUT_TIME_OUT, c)
     | Some obj \<Rightarrow>
        (let response = IfdConnectResponse_of obj
         in if \<not> rm_incomplete response \<and> \<not> resultHasError response
            then (CR_OK, c\<lparr>rc_connected := True, rc_slotHandle := cor_slotHandle response\<rparr>)
            else (CR_COMMAND_FAILED, c)))"

definition RemoteCard_disconnect ::
  "dispatcher_event list \<Rightarrow> remote_card \<Rightarrow> object \<times> CardReturnCode \<times> remote_card" where
  "RemoteCard_disconnect evs c =
    (IfdDisconnect_toJson (IfdDisconnect (rc_slotHandle c)) (rc_contextHandle c),
     case awaitAnswer IFDDisconnectResponse evs of
       None \<Rightarrow> (CR_INPUT_TIME_OUT, c)
     | Some obj \<Rightarrow>
        (let response = IfdDisconnectResponse_of obj
         in if \<not> rm_incomplete response \<and> \<not> resultHasError response
            then (CR_OK, c\<lparr>rc_connected := False\<rparr>)
            else (CR_COMMAND_FAILED, c)))"

definition RemoteCard_transmit ::
  "dispatcher_event list \<Rightarrow> bytes \<Rightarrow> remote_card \<Rightarrow> object \<times> CardReturnCode \<times> bytes option" where
  "RemoteCard_transmit evs pCommand c =
    (IfdTransmit_toJson (IfdTransmit (rc_slotHandle c) pCommand) (rc_contextHandle c),
     case awaitAnswer IFDTransmitResponse evs of
       None \<Rightarrow> (CR_INPUT_TIME_OUT, None)
     | Some obj \<Rightarrow>
        (let response = IfdTransmitResponse_of obj
         in if \<not> rm_incomplete response \<and> \<not> resultHasError response
            then (CR_OK, Some (trr_responseApdu response))
            else (CR_COMMAND_FAILED, None)))"

definition RemoteCard_establishPaceChannel ::
  "pace_input_asn1 \<Rightarrow> pace_asn1 \<Rightarrow> dispatcher_event list \<Rightarrow> pace_input \<Rightarrow> remote_card
     \<Rightarrow> object \<times> CardReturnCode \<times> pace_output option" where
  "RemoteCard_establishPaceChannel I P evs input c =
    (IfdEstablishPaceChannel_toJson
       (IfdEstablishPaceChannel (rc_slotHandle c) (createCommandDataCcid I input)) (rc_contextHandle c),
     case awaitAnswer IFDEstablishPACEChannelResponse evs of
       None \<Rightarrow> (CR_INPUT_TIME_OUT, None)
     | Some obj \<Rightarrow>
        (let response = IfdEstablishPaceChannelResponse_of obj
         in if rm_incomplete response then (CR_COMMAND_FAILED, None)
            else if rr_minor response = MI_IFDL_Terminal_NoCard then (CR_CARD_NOT_FOUND, None)
            else if \<not> resultHasError response then
              let output = parseFromCcid P (epr_outputData response) (pi_passwordId input)
              in (po_returnCode output, Some output)
            else (CR_COMMAND_FAILED, None)))"

definition RemoteCard_setEidPin ::
  "dispatcher_event list \<Rightarrow> byte \<Rightarrow> remote_card \<Rightarrow> object \<times> CardReturnCode \<times> bytes option" where
  "RemoteCard_setEidPin evs pTimeoutSeconds c =
    (IfdModifyPin_toJson (IfdModifyPin (rc_slotHandle c) (createCcidForRemote pTimeoutSeconds)) (rc_contextHandle c),
     case awaitAnswer IFDModifyPINResponse evs of
       None \<Rightarrow> (CR_INPUT_TIME_OUT, None)
     | Some obj \<Rightarrow>
        (let response = IfdModifyPinResponse_of obj
         in if resultHasError response then (IfdModifyPinResponse_getReturnCode response, None)
            else if \<not> rm_incomplete response
            then (pinModifyStatusToCardReturnCode (mpr_outputData response), Some (mpr_outputData response))
            else (CR_COMMAND_FAILED, None)))"

section \<open>Remote readers\<close>

record remote_reader =
  rd_info :: reader_description
  rd_card :: "remote_card option"

datatype plugin_effect =
    PE_readerAdded string
  | PE_readerRemoved string
  | PE_cardInserted string
  | PE_cardRemoved string
  | PE_propertiesUpdated string
  | PE_send string object
  | PE_close string
  | PE_setRemoteName string string
  | PE_requestRemoteDevices
  | PE_establishConnection string
  | PE_startDetection
  | PE_stopDetection

text \<open>
  \<open>RemoteReader::update\<close>. The parameter \<open>detect\<close> is what the reading of a new card finds
  out (\<open>CardInfoFactory\<close>, modelled in CardConnection) and the card after it.
\<close>

definition RemoteReader_update ::
  "client_dispatcher \<Rightarrow> (remote_card \<Rightarrow> CardType \<times> remote_card) \<Rightarrow> ifd_status \<Rightarrow> remote_reader
     \<Rightarrow> plugin_effect list \<times> remote_reader" where
  "RemoteReader_update cd detect st r =
    (let name = rdr_name (rd_info r);
         changed = (rdr_maxApduLength (rd_info r) \<noteq> st_maxApduLength st);
         r = (if changed then r\<lparr>rd_info := (rd_info r)\<lparr>rdr_maxApduLength := st_maxApduLength st\<rparr>\<rparr> else r);
         s = (if changed then [PE_propertiesUpdated name] else [])
     in if rd_card r \<noteq> None then
          if \<not> st_cardAvailable st
          then (s @ [PE_cardRemoved name], \<lparr>rd_info = (rd_info r)\<lparr>rdr_cardType := CT_NONE\<rparr>, rd_card = None\<rparr>)
          else (s, r)
        else if st_cardAvailable st then
          let (cardType, card) = detect (RemoteCard cd name)
          in (s @ [PE_cardInserted name], \<lparr>rd_info = (rd_info r)\<lparr>rdr_cardType := cardType\<rparr>, rd_card = Some card\<rparr>)
        else (s, r))"

text \<open>The constructor. Nobody is connected to its signals yet.\<close>

definition RemoteReader ::
  "client_dispatcher \<Rightarrow> (remote_card \<Rightarrow> CardType \<times> remote_card) \<Rightarrow> string \<Rightarrow> ifd_status
     \<Rightarrow> plugin_effect list \<times> remote_reader" where
  "RemoteReader cd detect pReaderName st =
    RemoteReader_update cd detect st
      \<lparr>rd_info = (ReaderInfo pReaderName PI_REMOTE CT_NONE)
         \<lparr>rdr_basicReader := \<not> pc_pace (st_paceCapabilities st), rdr_connected := True\<rparr>,
       rd_card = None\<rparr>"

section \<open>The plugin for remote readers\<close>

record remote_plugin =
  pl_dispatchers :: "(string \<times> client_dispatcher) list"
  pl_readers :: "(string \<times> remote_reader) list"
  pl_readersForDispatcher :: "(string \<times> string) list"
  pl_connectToPairedReaders :: bool
  pl_connectionCheckInProgress :: bool

definition RemoteReaderManagerPlugIn :: remote_plugin where
  "RemoteReaderManagerPlugIn =
    \<lparr>pl_dispatchers = [], pl_readers = [], pl_readersForDispatcher = [],
     pl_connectToPairedReaders = True, pl_connectionCheckInProgress = False\<rparr>"

text \<open>Removal of one reader of a dispatcher, by a status or with the dispatcher.\<close>

definition takeReader :: "string \<Rightarrow> string \<Rightarrow> remote_plugin \<Rightarrow> remote_plugin" where
  "takeReader pId readerName pl =
    pl\<lparr>pl_readers := mapRemove readerName (pl_readers pl),
       pl_readersForDispatcher := filter (\<lambda>p. p \<noteq> (pId, readerName)) (pl_readersForDispatcher pl)\<rparr>"

fun removeReaders :: "string \<Rightarrow> string list \<Rightarrow> remote_plugin \<Rightarrow> plugin_effect list \<times> remote_plugin" where
  "removeReaders pId [] pl = ([], pl)"
| "removeReaders pId (readerName # rest) pl =
    (if readerName = [] then removeReaders pId rest pl
     else
       let (effs, pl') = removeReaders pId rest (takeReader pId readerName pl)
       in (PE_readerRemoved readerName # effs, pl'))"

definition removeDispatcher :: "string \<Rightarrow> remote_plugin \<Rightarrow> plugin_effect list \<times> remote_plugin" where
  "removeDispatcher pId pl =
    (let names = map snd (filter (\<lambda>p. fst p = pId) (pl_readersForDispatcher pl));
         (effs, pl) = removeReaders pId names pl
     in (effs, pl\<lparr>pl_dispatchers := mapRemove pId (pl_dispatchers pl)\<rparr>))"

definition removeAllDispatchers :: "remote_plugin \<Rightarrow> plugin_effect list" where
  "removeAllDispatchers pl = map (\<lambda>p. PE_close (fst p)) (pl_dispatchers pl)"

definition connectToPairedReaders :: "remote_plugin \<Rightarrow> plugin_effect list \<times> remote_plugin" where
  "connectToPairedReaders pl =
    (if \<not> pl_connectToPairedReaders pl \<or> pl_connectionCheckInProgress pl then ([], pl)
     else ([PE_requestRemoteDevices], pl\<lparr>pl_connectionCheckInProgress := True\<rparr>))"

text \<open>
  The status of a reader. The dispatcher is looked up by its identifier, which is that of a
  dispatcher in the list: the signals of the others are disconnected.
\<close>

definition handleIFDStatus ::
  "(remote_card \<Rightarrow> CardType \<times> remote_card) \<Rightarrow> client_dispatcher \<Rightarrow> object \<Rightarrow> string \<Rightarrow> remote_plugin
     \<Rightarrow> plugin_effect list \<times> remote_plugin" where
  "handleIFDStatus detect cd obj pId pl =
    (let st = IfdStatus_of obj;
         readerName = st_slotName st @ cd_contextHandle cd
     in case map_of (pl_readers pl) readerName of
          Some r \<Rightarrow>
            if st_connectedReader st then
              let (effs, r') = RemoteReader_update cd detect st r
              in (effs, pl\<lparr>pl_readers := mapInsert readerName r' (pl_readers pl)\<rparr>)
            else ([PE_readerRemoved readerName], takeReader pId readerName pl)
        | None \<Rightarrow>
            if st_connectedReader st then
              let (_, r) = RemoteReader cd detect readerName st;
                  (effs, r') = RemoteReader_update cd detect st r
              in (PE_readerAdded readerName # effs,
                  pl\<lparr>pl_readers := mapInsert readerName r' (pl_readers pl),
                     pl_readersForDispatcher := (pId, readerName) # pl_readersForDispatcher pl\<rparr>)
            else ([], pl))"

text \<open>
  A device of the list: its identifier and versions. \<open>fingerprint\<close> is the fingerprint that
  the settings keep for an identifier, empty when the device is not paired.
\<close>

record remote_device =
  dv_ifdId :: string
  dv_apiVersions :: "Version list"

definition deviceIsSupported :: "remote_device \<Rightarrow> bool" where
  "deviceIsSupported d \<longleftrightarrow> selectLatestSupported (dv_apiVersions d) \<noteq> V_Unknown"

definition continueConnectToPairedReaders ::
  "(string \<Rightarrow> string) \<Rightarrow> remote_device list \<Rightarrow> remote_plugin \<Rightarrow> plugin_effect list \<times> remote_plugin" where
  "continueConnectToPairedReaders fingerprint pRemoteDevices pl =
    (map (\<lambda>d. PE_establishConnection (dv_ifdId d))
       (filter (\<lambda>d. deviceIsSupported d \<and> map_of (pl_dispatchers pl) (dv_ifdId d) = None \<and>
                   fingerprint (dv_ifdId d) = dv_ifdId d) pRemoteDevices),
     pl\<lparr>pl_connectionCheckInProgress := False\<rparr>)"

definition onContextEstablished :: "(string \<Rightarrow> string) \<Rightarrow> string \<Rightarrow> string \<Rightarrow> client_dispatcher \<Rightarrow> plugin_effect list" where
  "onContextEstablished storedName pIfdName pId cd =
    PE_setRemoteName pId pIfdName #
      (if storedName pId = [] then [PE_close pId]
       else [PE_send pId (IfdGetStatus_toJson (IfdGetStatus []) (cd_contextHandle cd))])"

definition pluginOnRemoteMessage ::
  "(remote_card \<Rightarrow> CardType \<times> remote_card) \<Rightarrow> client_dispatcher \<Rightarrow> RemoteCardMessageType \<Rightarrow> object \<Rightarrow> string
     \<Rightarrow> remote_plugin \<Rightarrow> plugin_effect list \<times> remote_plugin" where
  "pluginOnRemoteMessage detect cd pMessageType obj pId pl =
    (if pMessageType \<in> {IFDEstablishContext, IFDGetStatus, IFDConnect, IFDDisconnect, IFDTransmit,
          IFDEstablishPACEChannel, IFDModifyPIN}
     then ([PE_send pId (IfdError_toJson (IfdError [] MI_AL_Unkown_API_Function) (cd_contextHandle cd))], pl)
     else if pMessageType = IFDStatus then handleIFDStatus detect cd obj pId pl
     else ([], pl))"

definition addRemoteDispatcher ::
  "string \<Rightarrow> string \<Rightarrow> client_dispatcher \<Rightarrow> remote_plugin \<Rightarrow> plugin_effect list \<times> remote_plugin" where
  "addRemoteDispatcher deviceName pId cd pl =
    ([PE_send pId (IfdEstablishContext_toJson
        (IfdEstablishContext (versionFromString ''IFDInterface_WebSocket_v0'') deviceName) (cd_contextHandle cd))],
     pl\<lparr>pl_dispatchers := mapInsert pId cd (pl_dispatchers pl)\<rparr>)"

definition pluginStartScan :: "bool \<Rightarrow> remote_plugin \<Rightarrow> plugin_effect list \<times> remote_plugin" where
  "pluginStartScan pAutoConnect pl =
    (let pl = pl\<lparr>pl_connectToPairedReaders := pAutoConnect\<rparr>;
         closing = (if \<not> pAutoConnect then removeAllDispatchers pl else []);
         (effs, pl) = connectToPairedReaders pl
     in (closing @ [PE_startDetection] @ effs, pl))"

definition pluginStopScan :: "remote_plugin \<Rightarrow> plugin_effect list" where
  "pluginStopScan pl = PE_stopDetection # removeAllDispatchers pl"

text \<open>
  What a dispatcher of the list receives: first the dispatcher handles it, then the plugin what
  the dispatcher reports. \<open>PE_send\<close> and \<open>PE_close\<close> are queued by the code.
\<close>

definition plugin_received ::
  "(remote_card \<Rightarrow> CardType \<times> remote_card) \<Rightarrow> (string \<Rightarrow> string) \<Rightarrow> string \<Rightarrow> object \<Rightarrow> remote_plugin
     \<Rightarrow> plugin_effect list \<times> remote_plugin" where
  "plugin_received detect storedName pId obj pl =
    (case map_of (pl_dispatchers pl) pId of
       None \<Rightarrow> ([], pl)
     | Some cd \<Rightarrow>
        (let (effs, cd') = clientOnReceived obj cd;
             pl = pl\<lparr>pl_dispatchers := mapInsert pId cd' (pl_dispatchers pl)\<rparr>
         in case effs of
              [CE_send answer] \<Rightarrow> ([PE_send pId answer], pl)
            | [CE_contextEstablished ifdName] \<Rightarrow> (onContextEstablished storedName ifdName pId cd', pl)
            | [CE_received t msg] \<Rightarrow> pluginOnRemoteMessage detect cd' t msg pId pl
            | _ \<Rightarrow> ([], pl)))"

section \<open>Both sides together\<close>

text \<open>
  A request for a context and its answer give both sides the same handle: the server takes the
  fresh one, says so with its name, and the client takes it over and reports the name. A version that
  the server does not support leaves both sides without a context.
\<close>

theorem handshake_agrees:
  assumes "sv_contextHandle sv = []" "cd_contextHandle cd = []" "uuid \<noteq> []"
  shows "\<exists>resp. fst (serverOnReceived env uuid (sendEstablishContext v deviceName cd) sv) =
      [SE_saveRemoteName deviceName, SE_send resp] \<and>
    sv_contextHandle (snd (serverOnReceived env uuid (sendEstablishContext v deviceName cd) sv)) =
      cd_contextHandle (snd (clientOnReceived resp cd)) \<and>
    (if v = V_v0
     then clientOnReceived resp cd = ([CE_contextEstablished (se_serverName env)], \<lparr>cd_contextHandle = uuid\<rparr>)
     else clientOnReceived resp cd = ([], cd))"
proof -
  have m: "RemoteMessage_of (sendEstablishContext u deviceName d) =
      \<lparr>rm_incomplete = False, rm_type = IFDEstablishContext, rm_context = []\<rparr>" for u d
    by (simp add: sendEstablishContext_def IfdEstablishContext_toJson_def IfdEstablishContext_def)
  have c: "IfdEstablishContext_of (sendEstablishContext u deviceName d) =
      (IfdEstablishContext u deviceName)\<lparr>ec_protocolRaw := versionToString u\<rparr>" for u d
    by (simp add: sendEstablishContext_def context_messages_roundtrip)
  have r: "RemoteMessage_of (IfdEstablishContextResponse_toJson (IfdEstablishContextResponse n i) h) =
      \<lparr>rm_incomplete = False, rm_type = IFDEstablishContextResponse, rm_context = h\<rparr>" for n i h
    by (simp add: IfdEstablishContextResponse_toJson_def IfdEstablishContextResponse_def message_ctors
        ifd_establish_context_response.defs createResponseBody_def)
  have f: "resultHasError (IfdEstablishContextResponse n i) \<longleftrightarrow> i \<noteq> MI_null"
    "resultHasError ((IfdEstablishContextResponse n i)\<lparr>rm_context := h\<rparr>) \<longleftrightarrow> i \<noteq> MI_null"
    "ecr_ifdName (IfdEstablishContextResponse n i) = n" for n i h
    by (simp_all add: resultHasError_def IfdEstablishContextResponse_def message_ctors
        ifd_establish_context_response.defs)
  show ?thesis
    using assms
    by (cases v; cases cd)
      (simp_all add: serverOnReceived_def serverProcessContext_def createAndSendContext_def m c r
        context_messages_roundtrip IfdEstablishContext_def versionIsSupported_def supportedVersions_def
        clientOnReceived_def clientProcessContext_def f Let_def)
qed

theorem handshake_agrees_witness:
  "\<exists>resp. clientOnReceived resp \<lparr>cd_contextHandle = []\<rparr> =
     ([CE_contextEstablished ''Phone''], \<lparr>cd_contextHandle = ''ctx''\<rparr>)"
  using handshake_agrees [of ServerMessageHandler "\<lparr>cd_contextHandle = []\<rparr>" "''ctx''" "sample_server_env True" V_v0]
  by (auto simp: ServerMessageHandler_def sample_server_env_def)

text \<open>
  What the dispatcher of the client reports of the messages that the server sends, and one
  command of the client's card on its whole way: the request, the connection of the server with its
  worker \<open>w\<close>, the command that the server runs on it, and the answer.
\<close>

definition delivered :: "client_dispatcher \<Rightarrow> 'c server_effect list \<Rightarrow> dispatcher_event list" where
  "delivered cd effs =
    concat (map (\<lambda>e. case e of
        SE_send obj \<Rightarrow> (case fst (clientOnReceived obj cd) of [CE_received t m] \<Rightarrow> [DE_received t m] | _ \<Rightarrow> [])
      | _ \<Rightarrow> []) effs)"

definition remoteTransmit ::
  "'d card_env \<Rightarrow> 'c server_env \<Rightarrow> string \<Rightarrow> bytes \<Rightarrow> remote_card \<Rightarrow> 'c server \<Rightarrow> ('d, 'x) worker
     \<Rightarrow> (CardReturnCode \<times> bytes option) \<times> ('d, 'x) worker" where
  "remoteTransmit E env uuid apdu rcard sv w =
    (let cd = \<lparr>cd_contextHandle = rc_contextHandle rcard\<rparr>;
         request = fst (RemoteCard_transmit [] apdu rcard);
         (effs, sv) = serverOnReceived env uuid request sv
     in case last effs of
          SE_transmit c a slot \<Rightarrow>
            (let w = (if \<exists>e \<in> set effs. e = SE_stopSecureMessaging c then snd (stopSecureMessaging w) else w);
                 (returnCode, out, w) = TransmitCommand_execute E [\<lparr>ia_inputApdu = a, ia_acceptableStatusCodes = []\<rparr>] [] w;
                 (effs, sv) = onTransmitCardCommandDone env returnCode out slot sv
             in (snd (RemoteCard_transmit (delivered cd effs) apdu rcard), w))
        | _ \<Rightarrow> (snd (RemoteCard_transmit (delivered cd effs) apdu rcard), w))"

lemma RemoteMessage_of_transmit [simp]:
  "RemoteMessage_of (IfdTransmit_toJson (IfdTransmit s d) ctx) =
     \<lparr>rm_incomplete = False, rm_type = IFDTransmit, rm_context = ctx\<rparr>"
  "RemoteMessage_of (IfdTransmitResponse_toJson (IfdTransmitResponse s d i) ctx) =
     \<lparr>rm_incomplete = False, rm_type = IFDTransmitResponse, rm_context = ctx\<rparr>"
  by (simp_all add: IfdTransmit_toJson_def IfdTransmit_def IfdTransmitResponse_toJson_def
      IfdTransmitResponse_def message_ctors ifd_transmit.defs ifd_transmit_response.defs
      createResponseBody_def Let_def)

lemma delivered_transmit:
  assumes "sv_contextHandle sv = ctx" "ctx \<noteq> []"
  shows "delivered \<lparr>cd_contextHandle = ctx\<rparr> [transmitResponse sv slot d i] =
    [DE_received IFDTransmitResponse (IfdTransmitResponse_toJson (IfdTransmitResponse slot d i) ctx)]"
  using assms
  by (simp add: delivered_def transmitResponse_def clientOnReceived_def clientProcessContext_def)

lemma transmit_answered:
  "snd (RemoteCard_transmit [DE_received IFDTransmitResponse
      (IfdTransmitResponse_toJson (IfdTransmitResponse slot d i) ctx)] apdu rcard) =
    (if i = MI_null then (CR_OK, Some d) else (CR_COMMAND_FAILED, None))"
  by (simp add: RemoteCard_transmit_def transmit_messages_roundtrip)
    (simp add: IfdTransmitResponse_def message_ctors ifd_transmit_response.defs resultHasError_def Let_def)

text \<open>
  C22. A command over the remote device does to the card what the same command does to it there:
  the worker of the connected slot transmits it once, the client gets the card's response when the
  transmission was successful and a failure otherwise. In PIN pad mode a command that the service
  has secured itself first ends the secure messaging of the device, so that it is never secured twice.
  A slot handle that is no connection leaves the card alone.
\<close>

theorem remote_transmit_is_local:
  fixes sv :: "'c server" and w :: "('d, 'x) worker"
  assumes "rc_contextHandle rcard = sv_contextHandle sv" "sv_contextHandle sv \<noteq> []"
  shows "(map_of (sv_connections sv) (rc_slotHandle rcard) = Some c \<longrightarrow>
      remoteTransmit E env uuid apdu rcard sv w =
        (let w1 = (if se_pinPadMode env \<and> isSecureMessaging apdu then snd (stopSecureMessaging w) else w);
             (returnCode, resp, w2) = transmit E apdu w1
         in (if returnCode = CR_OK then (CR_OK, Some (bufferOf resp)) else (CR_COMMAND_FAILED, None), w2))) \<and>
    (map_of (sv_connections sv) (convertSlotHandle env (rc_slotHandle rcard) sv) = None \<longrightarrow>
      remoteTransmit E env uuid apdu rcard sv w = ((CR_COMMAND_FAILED, None), w))"
proof -
  let ?ctx = "sv_contextHandle sv"
  let ?slot = "convertSlotHandle env (rc_slotHandle rcard) sv"
  have r: "serverOnReceived env uuid (fst (RemoteCard_transmit [] apdu rcard)) sv =
      handleIfdTransmit env (IfdTransmit_toJson (IfdTransmit (rc_slotHandle rcard) apdu) ?ctx) sv"
    using assms
    by (simp add: RemoteCard_transmit_def serverOnReceived_def serverProcessContext_def onRemoteMessage_def)
  have t: "tr_slotHandle (IfdTransmit s d) = s" "tr_inputApdu (IfdTransmit s d) = d" for s d
    by (simp_all add: IfdTransmit_def message_ctors ifd_transmit.defs)
  have none: "remoteTransmit E env uuid apdu rcard sv w = ((CR_COMMAND_FAILED, None), w)"
    if "map_of (sv_connections sv) ?slot = None"
    using assms that
    by (simp add: remoteTransmit_def r handleIfdTransmit_def transmit_messages_roundtrip t
        delivered_transmit [unfolded transmitResponse_def] transmit_answered transmitResponse_def Let_def)
  have conn: "?slot = rc_slotHandle rcard" if "map_of (sv_connections sv) (rc_slotHandle rcard) = Some c"
    using that by (simp add: convertSlotHandle_def)
  have some: "remoteTransmit E env uuid apdu rcard sv w =
      (let w1 = (if se_pinPadMode env \<and> isSecureMessaging apdu then snd (stopSecureMessaging w) else w);
           (returnCode, resp, w2) = transmit E apdu w1
       in (if returnCode = CR_OK then (CR_OK, Some (bufferOf resp)) else (CR_COMMAND_FAILED, None), w2))"
    if "map_of (sv_connections sv) (rc_slotHandle rcard) = Some c"
    using assms that conn [OF that]
    by (simp add: remoteTransmit_def r handleIfdTransmit_def transmit_messages_roundtrip t
        delivered_transmit transmit_answered onTransmitCardCommandDone_def isAcceptable_def
        hex_roundtrip Let_def split: prod.split)
  show ?thesis
    using none some by blast
qed

definition sample_remote_card :: remote_card where
  "sample_remote_card =
    \<lparr>rc_contextHandle = ''ctx'', rc_readerName = ''R'', rc_connected = True, rc_slotHandle = ''slot''\<rparr>"

theorem remote_transmit_is_local_witness:
  "remoteTransmit mute_env (sample_server_env False) ''u'' [0, 0xA4] sample_remote_card sample_server plain_worker =
     ((CR_OK, Some (be16 0x9000)), plain_worker\<lparr>wk_card := Some 1\<rparr>)"
  using remote_transmit_is_local [of sample_remote_card sample_server 7 mute_env "sample_server_env False"
      "''u''" "[0, 0xA4]" plain_worker]
  by (simp add: sample_remote_card_def sample_server_def sample_server_env_def transmit_def mute_env_def
      plain_worker_def bufferOf_def)

section \<open>The list of readers\<close>

text \<open>
  A reader of the slot \<open>slot\<close> asks the server for that slot: the handle of the context, which
  its name ends with, is removed again. A handle is a UUID in braces, a slot name has none.
\<close>

lemma qremove_without: "str \<noteq> [] \<Longrightarrow> hd str \<notin> set s \<Longrightarrow> qremove str (s @ str) = s"
proof (induction s)
  case Nil
  then show ?case by (cases str) simp_all
next
  case (Cons c s)
  have "take (length str) (c # s @ str) \<noteq> str"
    using Cons.prems by (cases str) auto
  then show ?case
    using Cons by simp
qed

text \<open>What the plugin knows of a reader: its maximal length of an APDU and whether it has a card.\<close>

definition reader_view :: "remote_plugin \<Rightarrow> string \<Rightarrow> (int \<times> bool) option" where
  "reader_view pl name =
    map_option (\<lambda>r. (rdr_maxApduLength (rd_info r), rd_card r \<noteq> None)) (map_of (pl_readers pl) name)"

lemma map_of_insort_key:
  "k \<notin> set (map fst m) \<Longrightarrow> map_of (insort_key fst (k, c) m) n = (if n = k then Some c else map_of m n)"
  by (induction m) auto

lemma map_of_mapRemove [simp]: "map_of (mapRemove k m) n = (if n = k then None else map_of m n)"
  by (simp add: mapRemove_def map_of_filter_neq)

lemma map_of_mapInsert [simp]: "map_of (mapInsert k c m) n = (if n = k then Some c else map_of m n)"
proof -
  have "k \<notin> set (map fst (mapRemove k m))"
    by (auto simp: mapRemove_def)
  then show ?thesis
    by (simp add: mapInsert_def map_of_insort_key)
qed

lemma keys_mapInsert [simp]: "fst ` set (mapInsert k c m) = insert k (fst ` set m)"
  by (auto simp: mapInsert_def mapRemove_def set_insort_key image_iff)

lemma keys_mapRemove [simp]: "fst ` set (mapRemove k m) = fst ` set m - {k}"
  by (auto simp: mapRemove_def)

lemma update_view:
  "rdr_maxApduLength (rd_info (snd (RemoteReader_update cd detect st r))) = st_maxApduLength st"
  "rd_card (snd (RemoteReader_update cd detect st r)) = None \<longleftrightarrow> \<not> st_cardAvailable st"
  by (auto simp: RemoteReader_update_def Let_def split: prod.split)

lemma status_view:
  "reader_view (snd (handleIFDStatus detect cd obj pId pl)) =
    (reader_view pl)(st_slotName (IfdStatus_of obj) @ cd_contextHandle cd :=
      if st_connectedReader (IfdStatus_of obj)
      then Some (st_maxApduLength (IfdStatus_of obj), st_cardAvailable (IfdStatus_of obj)) else None)"
  by (auto simp: fun_eq_iff reader_view_def handleIFDStatus_def takeReader_def Let_def update_view case_prod_beta
      simp del: not_None_eq split: option.split)

lemma reader_view_dispatchers [simp]: "reader_view (pl\<lparr>pl_dispatchers := d\<rparr>) = reader_view pl"
  by (simp add: reader_view_def fun_eq_iff)

text \<open>
  The list of readers is the one that the devices report: after a message of a known dispatcher
  the reader that a complete or incomplete status names, in the context of the dispatcher, is in the
  list exactly when the status says that it is connected, with the length of an APDU and the card of
  that status, and every other reader is as it was. A message of another type, of an unknown dispatcher
  or of another context changes no reader.
\<close>

theorem reader_list_follows_status:
  "reader_view (snd (plugin_received detect storedName pId obj pl)) =
    (case map_of (pl_dispatchers pl) pId of
       None \<Rightarrow> reader_view pl
     | Some cd \<Rightarrow>
        if rm_type (RemoteMessage_of obj) = IFDStatus \<and> rm_context (RemoteMessage_of obj) = cd_contextHandle cd \<and>
           cd_contextHandle cd \<noteq> []
        then (reader_view pl)(st_slotName (IfdStatus_of obj) @ cd_contextHandle cd :=
          if st_connectedReader (IfdStatus_of obj)
          then Some (st_maxApduLength (IfdStatus_of obj), st_cardAvailable (IfdStatus_of obj)) else None)
        else reader_view pl)"
  by (auto simp: plugin_received_def clientOnReceived_def clientProcessContext_def pluginOnRemoteMessage_def
      status_view Let_def split: option.split)

text \<open>
  The card of a reader that is new is never announced: the constructor has found it already, before
  anyone listens, and the update after \<open>fireReaderAdded\<close>, which is there to \<open>also update
  card\<close>, finds nothing new.
\<close>

theorem first_card_is_not_announced:
  assumes "map_of (pl_readers pl) (st_slotName (IfdStatus_of obj) @ cd_contextHandle cd) = None"
    and "st_connectedReader (IfdStatus_of obj)" "st_cardAvailable (IfdStatus_of obj)"
  shows "fst (handleIFDStatus detect cd obj pId pl) =
    [PE_readerAdded (st_slotName (IfdStatus_of obj) @ cd_contextHandle cd)]"
proof -
  let ?n = "st_slotName (IfdStatus_of obj) @ cd_contextHandle cd"
  let ?r = "snd (RemoteReader cd detect ?n (IfdStatus_of obj))"
  have "rd_card ?r \<noteq> None" "rdr_maxApduLength (rd_info ?r) = st_maxApduLength (IfdStatus_of obj)"
    using assms(3) by (simp_all add: RemoteReader_def update_view)
  then have "fst (RemoteReader_update cd detect (IfdStatus_of obj) ?r) = []"
    using assms(3) by (simp add: RemoteReader_update_def)
  then show ?thesis
    using assms by (simp add: handleIFDStatus_def Let_def case_prod_beta)
qed

text \<open>
  Neither is a change of the PIN pad mode: the capabilities of a reader are those of its first status.
\<close>

theorem capabilities_are_not_updated:
  "rdr_basicReader (rd_info (snd (RemoteReader_update cd detect st r))) = rdr_basicReader (rd_info r)"
  by (auto simp: RemoteReader_update_def Let_def split: prod.split)

section \<open>Readers and dispatchers\<close>

lemma removeReaders_effect:
  "fst (removeReaders pId names pl) = map PE_readerRemoved (filter (\<lambda>n. n \<noteq> []) names)"
  by (induction names arbitrary: pl) (simp_all add: case_prod_beta)

lemma removeReaders_state:
  "map_of (pl_readers (snd (removeReaders pId names pl))) n =
     (if n \<noteq> [] \<and> n \<in> set names then None else map_of (pl_readers pl) n)"
  "pl_dispatchers (snd (removeReaders pId names pl)) = pl_dispatchers pl"
  "set (pl_readersForDispatcher (snd (removeReaders pId names pl))) =
     set (pl_readersForDispatcher pl) - {pId} \<times> (set names - {[]})"
  by (induction names arbitrary: pl) (auto simp: takeReader_def case_prod_beta)

text \<open>
  When the connection to a device is closed, every reader of that device is reported as removed
  and is gone from the list, and so is the dispatcher; the readers of the other devices stay as they
  are.
\<close>

theorem closed_dispatcher_takes_its_readers:
  "fst (removeDispatcher pId pl) =
     map PE_readerRemoved (filter (\<lambda>n. n \<noteq> []) (map snd (filter (\<lambda>p. fst p = pId) (pl_readersForDispatcher pl)))) \<and>
   reader_view (snd (removeDispatcher pId pl)) n =
     (if n \<noteq> [] \<and> (pId, n) \<in> set (pl_readersForDispatcher pl) then None else reader_view pl n) \<and>
   map_of (pl_dispatchers (snd (removeDispatcher pId pl))) d =
     (if d = pId then None else map_of (pl_dispatchers pl) d)"
  by (auto simp: removeDispatcher_def removeReaders_effect removeReaders_state reader_view_def case_prod_beta
      Let_def image_iff)

datatype plugin_event =
    PV_added string client_dispatcher
  | PV_received string object
  | PV_closed string
  | PV_startScan bool
  | PV_stopScan
  | PV_timer
  | PV_devices "remote_device list"

definition plugin_step ::
  "(remote_card \<Rightarrow> CardType \<times> remote_card) \<Rightarrow> (string \<Rightarrow> string) \<Rightarrow> (string \<Rightarrow> string) \<Rightarrow> string
     \<Rightarrow> remote_plugin \<Rightarrow> plugin_event \<Rightarrow> plugin_effect list \<times> remote_plugin" where
  "plugin_step detect storedName fingerprint deviceName pl ev =
    (case ev of
       PV_added pId cd \<Rightarrow> addRemoteDispatcher deviceName pId cd pl
     | PV_received pId obj \<Rightarrow> plugin_received detect storedName pId obj pl
     | PV_closed pId \<Rightarrow> removeDispatcher pId pl
     | PV_startScan auto \<Rightarrow> pluginStartScan auto pl
     | PV_stopScan \<Rightarrow> (pluginStopScan pl, pl)
     | PV_timer \<Rightarrow> connectToPairedReaders pl
     | PV_devices ds \<Rightarrow> continueConnectToPairedReaders fingerprint ds pl)"

definition plugin_inv :: "remote_plugin \<Rightarrow> bool" where
  "plugin_inv pl \<longleftrightarrow>
     (\<forall>n. map_of (pl_readers pl) n \<noteq> None \<longrightarrow>
        n \<noteq> [] \<and> (\<exists>d. (d, n) \<in> set (pl_readersForDispatcher pl) \<and> map_of (pl_dispatchers pl) d \<noteq> None))"

lemma status_keeps_inv:
  assumes "plugin_inv pl" "cd_contextHandle cd \<noteq> []" "map_of (pl_dispatchers pl) pId \<noteq> None"
  shows "plugin_inv (snd (handleIFDStatus detect cd obj pId pl))"
  using assms
  by (auto simp: plugin_inv_def handleIFDStatus_def takeReader_def Let_def case_prod_beta split: option.splits)

lemma plugin_inv_mono:
  assumes "plugin_inv pl" "pl_readers pl' = pl_readers pl"
    and "pl_readersForDispatcher pl' = pl_readersForDispatcher pl"
    and "\<And>d. map_of (pl_dispatchers pl) d \<noteq> None \<Longrightarrow> map_of (pl_dispatchers pl') d \<noteq> None"
  shows "plugin_inv pl'"
  using assms unfolding plugin_inv_def by metis

lemma received_keeps_inv:
  assumes "plugin_inv pl"
  shows "plugin_inv (snd (plugin_received detect storedName pId obj pl))"
proof (cases "map_of (pl_dispatchers pl) pId")
  case (Some cd)
  let ?pl = "\<lambda>d. pl\<lparr>pl_dispatchers := mapInsert pId d (pl_dispatchers pl)\<rparr>"
  have i: "plugin_inv (?pl d)" for d
    by (rule plugin_inv_mono [OF assms]) auto
  have k: "plugin_inv (snd (handleIFDStatus detect d obj pId (?pl d)))" if "cd_contextHandle d \<noteq> []" for d
    by (rule status_keeps_inv [OF i that]) simp
  show ?thesis
    using Some i k
    by (simp add: plugin_received_def clientOnReceived_def clientProcessContext_def
        pluginOnRemoteMessage_def Let_def)
qed (use assms in \<open>simp add: plugin_received_def\<close>)

lemma removed_keeps_inv:
  assumes "plugin_inv pl"
  shows "plugin_inv (snd (removeDispatcher pId pl))"
  unfolding plugin_inv_def
proof (intro allI impI)
  fix n
  let ?names = "map snd (filter (\<lambda>p. fst p = pId) (pl_readersForDispatcher pl))"
  assume n: "map_of (pl_readers (snd (removeDispatcher pId pl))) n \<noteq> None"
  then have r: "map_of (pl_readers pl) n \<noteq> None" "n \<noteq> [] \<longrightarrow> n \<notin> set ?names"
    by (auto simp: removeDispatcher_def removeReaders_state case_prod_beta Let_def split: if_splits)
  obtain d where d: "n \<noteq> []" "(d, n) \<in> set (pl_readersForDispatcher pl)" "map_of (pl_dispatchers pl) d \<noteq> None"
    using r(1) assms unfolding plugin_inv_def by blast
  moreover from this r(2) have "d \<noteq> pId"
    by force
  ultimately show "n \<noteq> [] \<and> (\<exists>d. (d, n) \<in> set (pl_readersForDispatcher (snd (removeDispatcher pId pl))) \<and>
      map_of (pl_dispatchers (snd (removeDispatcher pId pl))) d \<noteq> None)"
    by (auto simp: removeDispatcher_def removeReaders_state case_prod_beta Let_def intro!: exI [of _ d])
qed

lemma plugin_step_inv:
  assumes "plugin_inv pl"
  shows "plugin_inv (snd (plugin_step detect storedName fingerprint deviceName pl ev))"
proof -
  note mono = plugin_inv_mono [OF assms]
  show ?thesis
    using assms
    by (cases ev) (auto simp: plugin_step_def addRemoteDispatcher_def pluginStartScan_def connectToPairedReaders_def
        continueConnectToPairedReaders_def received_keeps_inv removed_keeps_inv Let_def intro: mono)
qed

interpretation readers: machine
  "\<lambda>pl ev. snd (plugin_step detect storedName fingerprint deviceName pl ev)" plugin_inv
  by standard (rule plugin_step_inv)

lemma deviceIsSupported_iff: "deviceIsSupported d \<longleftrightarrow> V_v0 \<in> set (dv_apiVersions d)"
proof -
  have f: "versionIsSupported = (\<lambda>v. v = V_v0)"
    by (rule ext, case_tac v) (simp_all add: versionIsSupported_def supportedVersions_def)
  show ?thesis
  proof (cases "V_v0 \<in> set (dv_apiVersions d)")
    case True
    then have "filter (\<lambda>v. v = V_v0) (dv_apiVersions d) \<noteq> []"
      by (auto simp: filter_empty_conv)
    from last_in_set [OF this] show ?thesis
      using True \<open>filter _ _ \<noteq> []\<close> by (simp add: deviceIsSupported_def selectLatestSupported_def f)
  next
    case False
    then have "filter (\<lambda>v. v = V_v0) (dv_apiVersions d) = []"
      by (auto simp: filter_empty_conv)
    then show ?thesis
      using False by (simp add: deviceIsSupported_def selectLatestSupported_def f)
  qed
qed

lemma establishes_nothing:
  "PE_establishConnection i \<notin> set (fst (plugin_received detect storedName pId obj pl))"
  "PE_establishConnection i \<notin> set (fst (removeDispatcher pId pl))"
  "PE_establishConnection i \<notin> set (fst (connectToPairedReaders pl))"
  "PE_establishConnection i \<notin> set (removeAllDispatchers pl)"
proof -
  have "PE_establishConnection i \<notin> set (fst (RemoteReader_update cd detect st r))" for cd st r
    by (auto simp: RemoteReader_update_def Let_def split: prod.split)
  then show "PE_establishConnection i \<notin> set (fst (plugin_received detect storedName pId obj pl))"
    by (auto simp: plugin_received_def clientOnReceived_def clientProcessContext_def onContextEstablished_def
        pluginOnRemoteMessage_def handleIFDStatus_def Let_def case_prod_beta split: option.split)
qed (auto simp: removeDispatcher_def removeReaders_effect connectToPairedReaders_def removeAllDispatchers_def
    case_prod_beta Let_def)

text \<open>
  Whatever happens to the plugin, a reader in its list belongs to a dispatcher that is there, so
  when no device is connected any more no remote reader is left; and a connection to a device is
  opened by itself only when the device is paired, supports a version of the protocol and has no
  dispatcher yet.
\<close>

theorem readers_belong_to_dispatchers:
  fixes detect storedName fingerprint deviceName
  defines "next \<equiv> \<lambda>pl ev. snd (plugin_step detect storedName fingerprint deviceName pl ev)"
  assumes "pl = run next RemoteReaderManagerPlugIn evs"
  shows "(reader_view pl n \<noteq> None \<longrightarrow>
      (\<exists>d. (d, n) \<in> set (pl_readersForDispatcher pl) \<and> map_of (pl_dispatchers pl) d \<noteq> None)) \<and>
    (pl_dispatchers pl = [] \<longrightarrow> reader_view pl n = None) \<and>
    (PE_establishConnection i \<in> set (fst (plugin_step detect storedName fingerprint deviceName pl ev)) \<longrightarrow>
      fingerprint i = i \<and> map_of (pl_dispatchers pl) i = None \<and>
      (\<exists>ds. ev = PV_devices ds \<and> (\<exists>d \<in> set ds. dv_ifdId d = i \<and> V_v0 \<in> set (dv_apiVersions d))))"
proof -
  have "plugin_inv pl"
    unfolding assms(2) next_def
    by (rule readers.run_inv) (simp add: plugin_inv_def RemoteReaderManagerPlugIn_def)
  moreover have "fingerprint i = i \<and> map_of (pl_dispatchers pl) i = None \<and>
      (\<exists>ds. ev = PV_devices ds \<and> (\<exists>d \<in> set ds. dv_ifdId d = i \<and> V_v0 \<in> set (dv_apiVersions d)))"
    if "PE_establishConnection i \<in> set (fst (plugin_step detect storedName fingerprint deviceName pl ev))"
    using that establishes_nothing
    by (cases ev) (auto simp: plugin_step_def addRemoteDispatcher_def pluginStartScan_def pluginStopScan_def
        continueConnectToPairedReaders_def deviceIsSupported_iff case_prod_beta Let_def split: if_splits)
  ultimately show ?thesis
    by (auto simp: plugin_inv_def reader_view_def)
qed

definition sample_status :: object where
  "sample_status = IfdStatus_toJson (IfdStatus ''R'' (PaceCapabilities True) 500 True False) ''ctx''"

definition sample_plugin_run :: "plugin_event list" where
  "sample_plugin_run = [PV_added ''d'' \<lparr>cd_contextHandle = ''ctx''\<rparr>, PV_received ''d'' sample_status]"

lemma sample_plugin_view:
  "reader_view (run (\<lambda>pl ev. snd (plugin_step (\<lambda>c. (CT_EID_CARD, c)) id id ''PC'' pl ev))
     RemoteReaderManagerPlugIn sample_plugin_run) ''Rctx'' = Some (500, False)"
proof -
  have m: "RemoteMessage_of sample_status = \<lparr>rm_incomplete = False, rm_type = IFDStatus, rm_context = ''ctx''\<rparr>"
    by (simp add: sample_status_def IfdStatus_toJson_def IfdStatus_def)
  have s: "IfdStatus_of sample_status = (IfdStatus ''R'' (PaceCapabilities True) 500 True False)\<lparr>rm_context := ''ctx''\<rparr>"
    by (simp add: sample_status_def status_messages_roundtrip)
  show ?thesis
    by (simp add: sample_plugin_run_def plugin_step_def addRemoteDispatcher_def plugin_received_def
        clientOnReceived_def clientProcessContext_def pluginOnRemoteMessage_def status_view m s Let_def)
      (simp add: IfdStatus_def)
qed

theorem readers_belong_to_dispatchers_witness:
  "\<exists>d. (d, ''Rctx'') \<in> set (pl_readersForDispatcher (run (\<lambda>pl ev. snd (plugin_step (\<lambda>c. (CT_EID_CARD, c)) id id ''PC'' pl ev))
     RemoteReaderManagerPlugIn sample_plugin_run))"
  using readers_belong_to_dispatchers [OF refl, where detect = "\<lambda>c. (CT_EID_CARD, c)" and storedName = id and
      fingerprint = id and deviceName = "''PC''" and evs = sample_plugin_run and n = "''Rctx''"]
    sample_plugin_view by auto

end
