(* ===== verification/RemoteDevices.thy ===== *)
theory RemoteDevices
  imports RemoteReaders
begin

text \<open>
  Devices in the local network and connections to them:
  src/src/remote_device/RemoteDeviceDescriptor.cpp (what an announcement says of a device),
  RemoteDeviceList.cpp (which devices have been heard of lately), RemoteConnectorImpl.cpp (one attempt
  to connect) and RemoteClientImpl.cpp (the counters of refused attempts). The time of day is a number
  of milliseconds, \<open>QTime\<close> has no date. TLS, sockets and settings are parameters: the error
  list and the cipher of a handshake, the trusted devices and their names.
\<close>

section \<open>Descriptors\<close>

record descriptor_data =
  dd_ifdName :: string
  dd_ifdId :: string
  dd_apiVersions :: "Version list"
  dd_url :: "string \<times> 16 word"

type_synonym descriptor = "descriptor_data option"

text \<open>The address of \<open>wss://host:port\<close>; \<open>host\<close> is what \<open>QUrl\<close> makes of the sender's address.\<close>

definition urlFromMsgAndHost :: "discovery \<Rightarrow> string \<Rightarrow> (string \<times> 16 word) option" where
  "urlFromMsgAndHost pDiscovery host = (if rm_incomplete pDiscovery then None else Some (host, dc_port pDiscovery))"

definition RemoteDeviceDescriptor :: "discovery \<Rightarrow> string \<Rightarrow> descriptor" where
  "RemoteDeviceDescriptor pDiscovery host =
    (case urlFromMsgAndHost pDiscovery host of
       None \<Rightarrow> None
     | Some url \<Rightarrow>
        if fst url = [] then None
        else Some \<lparr>dd_ifdName = dc_ifdName pDiscovery, dd_ifdId = dc_ifdId pDiscovery,
               dd_apiVersions = dc_supportedApis pDiscovery, dd_url = url\<rparr>)"

definition descriptorIfdId :: "descriptor \<Rightarrow> string" where
  "descriptorIfdId d = (case d of None \<Rightarrow> [] | Some x \<Rightarrow> dd_ifdId x)"

definition descriptorIfdName :: "descriptor \<Rightarrow> string" where
  "descriptorIfdName d = (case d of None \<Rightarrow> [] | Some x \<Rightarrow> dd_ifdName x)"

definition descriptorApiVersions :: "descriptor \<Rightarrow> Version list" where
  "descriptorApiVersions d = (case d of None \<Rightarrow> [] | Some x \<Rightarrow> dd_apiVersions x)"

definition descriptorIsSupported :: "descriptor \<Rightarrow> bool" where
  "descriptorIsSupported d \<longleftrightarrow> selectLatestSupported (descriptorApiVersions d) \<noteq> V_Unknown"

definition dataIsEquivalent :: "descriptor_data \<Rightarrow> descriptor_data \<Rightarrow> bool" where
  "dataIsEquivalent a b \<longleftrightarrow>
     dd_ifdName a = dd_ifdName b \<and> dd_ifdId a = dd_ifdId b \<and> dd_apiVersions a = dd_apiVersions b"

definition isEquivalent :: "descriptor \<Rightarrow> descriptor \<Rightarrow> bool" where
  "isEquivalent a b =
    (case a of
       None \<Rightarrow> b = None
     | Some x \<Rightarrow> (case b of None \<Rightarrow> False | Some y \<Rightarrow> dataIsEquivalent x y))"

definition descriptorEq :: "descriptor \<Rightarrow> descriptor \<Rightarrow> bool" where
  "descriptorEq a b =
    (case a of
       None \<Rightarrow> b = None
     | Some x \<Rightarrow> (case b of None \<Rightarrow> False | Some y \<Rightarrow> dataIsEquivalent x y \<and> dd_url x = dd_url y))"

section \<open>The list of devices\<close>

definition msPerDay :: int where
  "msPerDay = 86400000"

definition addMSecs :: "int \<Rightarrow> int \<Rightarrow> int" where
  "addMSecs t ms = (t + ms) mod msPerDay"

record device_entry =
  de_descriptor :: descriptor
  de_lastSeen :: int

record device_list =
  dl_responsive :: "device_entry list"
  dl_timer :: bool

definition RemoteDeviceList :: device_list where
  "RemoteDeviceList = \<lparr>dl_responsive = [], dl_timer = False\<rparr>"

definition containsEquivalent :: "descriptor \<Rightarrow> device_entry \<Rightarrow> bool" where
  "containsEquivalent d e \<longleftrightarrow> isEquivalent (de_descriptor e) d"

fun touchFirst :: "int \<Rightarrow> descriptor \<Rightarrow> device_entry list \<Rightarrow> device_entry list option" where
  "touchFirst now d [] = None"
| "touchFirst now d (e # es) =
    (if containsEquivalent d e then Some (e\<lparr>de_lastSeen := now\<rparr> # es)
     else map_option ((#) e) (touchFirst now d es))"

text \<open>\<open>RemoteDeviceListImpl::update\<close>: the list and the device that appeared, if it is new.\<close>

definition deviceListUpdate :: "int \<Rightarrow> descriptor \<Rightarrow> device_list \<Rightarrow> descriptor list \<times> device_list" where
  "deviceListUpdate now pDescriptor dl =
    (case touchFirst now pDescriptor (dl_responsive dl) of
       Some es \<Rightarrow> ([], dl\<lparr>dl_responsive := es\<rparr>)
     | None \<Rightarrow>
        ([pDescriptor],
         \<lparr>dl_responsive = dl_responsive dl @ [\<lparr>de_descriptor = pDescriptor, de_lastSeen = now\<rparr>], dl_timer = True\<rparr>))"

definition deviceListClear :: "device_list \<Rightarrow> device_list" where
  "deviceListClear dl = dl\<lparr>dl_responsive := []\<rparr>"

text \<open>\<open>onProcessUnresponsiveRemoteReaders\<close>: the devices that vanished and the list.\<close>

definition processUnresponsive :: "int \<Rightarrow> int \<Rightarrow> device_list \<Rightarrow> device_entry list \<times> device_list" where
  "processUnresponsive now mReaderResponsiveTimeout dl =
    (let threshold = addMSecs now (- mReaderResponsiveTimeout);
         gone = (\<lambda>e. de_lastSeen e < threshold);
         es = filter (\<lambda>e. \<not> gone e) (dl_responsive dl)
     in (filter gone (dl_responsive dl),
         \<lparr>dl_responsive = es, dl_timer = (if es = [] then False else dl_timer dl)\<rparr>))"

section \<open>One attempt to connect\<close>

datatype RemoteErrorCode =
    RE_INVALID_REQUEST | RE_EMPTY_PASSWORD | RE_NO_SUPPORTED_API_LEVEL | RE_CONNECTION_TIMEOUT
  | RE_CONNECTION_ERROR | RE_REMOTE_HOST_REFUSED_CONNECTION

fun errorToGlobalStatus :: "RemoteErrorCode \<Rightarrow> GlobalStatusCode" where
  "errorToGlobalStatus RE_INVALID_REQUEST = GS_RemoteConnector_InvalidRequest"
| "errorToGlobalStatus RE_EMPTY_PASSWORD = GS_RemoteConnector_EmptyPassword"
| "errorToGlobalStatus RE_NO_SUPPORTED_API_LEVEL = GS_RemoteConnector_NoSupportedApiLevel"
| "errorToGlobalStatus RE_CONNECTION_TIMEOUT = GS_RemoteConnector_ConnectionTimeout"
| "errorToGlobalStatus RE_CONNECTION_ERROR = GS_RemoteConnector_ConnectionError"
| "errorToGlobalStatus RE_REMOTE_HOST_REFUSED_CONNECTION = GS_RemoteConnector_RemoteHostRefusedConnection"

text \<open>
  The handshake of one attempt as \<open>QSslSocket\<close> reports it: the certificate of the peer and its
  key length, the length of the ephemeral key if there is one, whether the cipher is one of those for
  pairing, and the errors. \<open>validCert\<close> and \<open>validEphemeral\<close> are the checks of the
  settings on the key lengths (\<open>TlsChecker\<close>, see NetworkChecks).
\<close>

datatype handshake_error = SSL_HostNameMismatch | SSL_SelfSignedCertificate | SSL_other nat

record handshake =
  hs_peerCertificate :: string
  hs_validCertificate :: bool
  hs_validEphemeral :: "bool option"
  hs_pairingCipher :: bool

datatype connect_effect =
    CN_abort
  | CN_addTrustedCertificate string
  | CN_setLastConnected string
  | CN_created
  | CN_error RemoteErrorCode
  | CN_ignoreSslErrors

definition connectOnConnected :: "handshake \<Rightarrow> connect_effect list" where
  "connectOnConnected h =
    (if \<not> hs_validCertificate h \<or> (case hs_validEphemeral h of None \<Rightarrow> False | Some ok \<Rightarrow> \<not> ok)
     then [CN_abort, CN_error RE_REMOTE_HOST_REFUSED_CONNECTION]
     else (if hs_pairingCipher h then [CN_addTrustedCertificate (hs_peerCertificate h)]
           else [CN_setLastConnected (hs_peerCertificate h)]) @ [CN_created])"

definition connectOnError :: "bool \<Rightarrow> connect_effect list" where
  "connectOnError remoteHostClosed =
    [CN_error (if remoteHostClosed then RE_REMOTE_HOST_REFUSED_CONNECTION else RE_CONNECTION_ERROR)]"

definition connectOnTimeout :: "connect_effect list" where
  "connectOnTimeout = [CN_error RE_CONNECTION_TIMEOUT]"

definition connectOnSslErrors :: "handshake \<Rightarrow> handshake_error list \<Rightarrow> connect_effect list" where
  "connectOnSslErrors h pErrors =
    (let allowedErrors = [SSL_HostNameMismatch] @ (if hs_pairingCipher h then [SSL_SelfSignedCertificate] else []);
         ignoreErrors = list_all (\<lambda>e. e \<in> set allowedErrors) pErrors
     in if ignoreErrors then [CN_ignoreSslErrors] else [])"

text \<open>\<open>RemoteConnectorImpl::onConnectRequest\<close>: the error at once, or the start of an attempt.\<close>

definition onConnectRequest :: "descriptor \<Rightarrow> RemoteErrorCode option" where
  "onConnectRequest d =
    (if d = None \<or> descriptorIfdName d = [] then Some RE_INVALID_REQUEST
     else if \<not> descriptorIsSupported d then Some RE_NO_SUPPORTED_API_LEVEL
     else None)"

definition removeRequest :: "descriptor \<Rightarrow> descriptor list \<Rightarrow> descriptor list" where
  "removeRequest d pending = filter (\<lambda>r. \<not> descriptorEq r d) pending"

section \<open>The client\<close>

text \<open>
  The state of RemoteClientImpl. \<open>mErrorCounter\<close> is a map whose missing entries are zero. The
  settings give the trusted devices as pairs of fingerprint and name.
\<close>

record remote_client =
  cl_errorCounter :: "string \<Rightarrow> nat"
  cl_pending :: "descriptor list"
  cl_connectedIds :: "string list"
  cl_devices :: device_list
  cl_detecting :: bool

definition RemoteClient :: remote_client where
  "RemoteClient = \<lparr>cl_errorCounter = (\<lambda>_. 0), cl_pending = [], cl_connectedIds = [],
     cl_devices = RemoteDeviceList, cl_detecting = False\<rparr>"

datatype remote_client_effect =
    CL_deviceAppeared descriptor
  | CL_connectRequest descriptor string
  | CL_connectionDone descriptor GlobalStatusCode
  | CL_newDispatcher string
  | CL_removeTrustedCertificate string
  | CL_certificateRemoved string
  | CL_dispatcherDestroyed string
  | CL_detectionChanged

text \<open>\<open>mapToAndTakeRemoteConnectorPending\<close>: the first entry that fits, which is removed.\<close>

fun takePending :: "descriptor \<Rightarrow> descriptor list \<Rightarrow> (descriptor \<times> descriptor list) option" where
  "takePending d [] = None"
| "takePending d (p # ps) =
    (if isEquivalent p d then Some (p, ps)
     else map_option (\<lambda>(q, qs). (q, p # qs)) (takePending d ps))"

definition clientOnNewMessage ::
  "int \<Rightarrow> object \<Rightarrow> string \<Rightarrow> remote_client \<Rightarrow> remote_client_effect list \<times> remote_client" where
  "clientOnNewMessage now obj host cl =
    (let disc = Discovery_of obj
     in if rm_incomplete disc then ([], cl)
        else
          let d = RemoteDeviceDescriptor disc host
          in if d = None then ([], cl)
             else
               let (appeared, dl) = deviceListUpdate now d (cl_devices cl)
               in (map CL_deviceAppeared appeared, cl\<lparr>cl_devices := dl\<rparr>))"

definition onRemoteDispatcherCreated ::
  "descriptor \<Rightarrow> string \<Rightarrow> remote_client \<Rightarrow> remote_client_effect list \<times> remote_client" where
  "onRemoteDispatcherCreated d dispatcherId cl =
    (let cl = cl\<lparr>cl_errorCounter := (cl_errorCounter cl)(descriptorIfdId d := 0)\<rparr>
     in case takePending d (cl_pending cl) of
          None \<Rightarrow> ([], cl)
        | Some (entry, rest) \<Rightarrow>
            ([CL_connectionDone entry GS_No_Error, CL_newDispatcher dispatcherId],
             cl\<lparr>cl_pending := rest, cl_connectedIds := cl_connectedIds cl @ [descriptorIfdId entry]\<rparr>))"

definition refuses :: "RemoteErrorCode \<Rightarrow> bool" where
  "refuses e \<longleftrightarrow> e = RE_REMOTE_HOST_REFUSED_CONNECTION \<or> e = RE_NO_SUPPORTED_API_LEVEL"

text \<open>The name of a device: that of the last entry of the settings with its fingerprint.\<close>

definition deviceNameOf :: "(string \<times> string) list \<Rightarrow> string \<Rightarrow> string" where
  "deviceNameOf infos i = foldl (\<lambda>n p. if fst p = i then snd p else n) [] infos"

definition onRemoteDispatcherError ::
  "(string \<times> string) list \<Rightarrow> descriptor \<Rightarrow> RemoteErrorCode \<Rightarrow> remote_client
     \<Rightarrow> remote_client_effect list \<times> remote_client" where
  "onRemoteDispatcherError infos d pErrorCode cl =
    (case takePending d (cl_pending cl) of
       None \<Rightarrow> ([], cl)
     | Some (entry, rest) \<Rightarrow>
        (let cl = cl\<lparr>cl_pending := rest\<rparr>;
             i = descriptorIfdId d;
             done = CL_connectionDone entry (errorToGlobalStatus pErrorCode)
         in if refuses pErrorCode then
              let cl = cl\<lparr>cl_errorCounter := (cl_errorCounter cl)(i := cl_errorCounter cl i + 1)\<rparr>
              in if cl_errorCounter cl i \<ge> 7 then
                   let deviceName = deviceNameOf infos i
                   in ([CL_removeTrustedCertificate i] @
                       (if deviceName \<noteq> [] then [CL_certificateRemoved deviceName] else []) @ [done],
                       cl\<lparr>cl_errorCounter := (cl_errorCounter cl)(i := 0)\<rparr>)
                 else ([done], cl)
            else ([done], cl\<lparr>cl_errorCounter := (cl_errorCounter cl)(i := 0)\<rparr>)))"

definition clientStartDetection :: "remote_client \<Rightarrow> remote_client_effect list \<times> remote_client" where
  "clientStartDetection cl =
    (if cl_detecting cl then ([], cl) else ([CL_detectionChanged], cl\<lparr>cl_detecting := True\<rparr>))"

definition clientStopDetection :: "remote_client \<Rightarrow> remote_client_effect list \<times> remote_client" where
  "clientStopDetection cl =
    ([CL_detectionChanged], cl\<lparr>cl_detecting := False, cl_devices := deviceListClear (cl_devices cl)\<rparr>)"

definition establishConnection ::
  "descriptor option \<Rightarrow> string \<Rightarrow> remote_client \<Rightarrow> remote_client_effect list \<times> remote_client" where
  "establishConnection pEntry pPsk cl =
    (case pEntry of
       None \<Rightarrow> ([CL_connectionDone None GS_RemoteConnector_ConnectionError], cl)
     | Some d \<Rightarrow> ([CL_connectRequest d pPsk], cl\<lparr>cl_pending := cl_pending cl @ [d]\<rparr>))"

definition getConnectedDeviceInfos :: "(string \<times> string) list \<Rightarrow> remote_client \<Rightarrow> (string \<times> string) list" where
  "getConnectedDeviceInfos infos cl =
    concat (map (\<lambda>info. map (\<lambda>_. info) (filter (\<lambda>i. fst info = i) (cl_connectedIds cl))) infos)"

definition onDispatcherDestroyed :: "string \<Rightarrow> remote_client \<Rightarrow> remote_client_effect list \<times> remote_client" where
  "onDispatcherDestroyed pId cl =
    ([CL_dispatcherDestroyed pId], cl\<lparr>cl_connectedIds := filter (\<lambda>i. i \<noteq> pId) (cl_connectedIds cl)\<rparr>)"

section \<open>Properties of the list of devices\<close>

lemma isEquivalent_refl [simp]: "isEquivalent d d"
  by (cases d) (simp_all add: isEquivalent_def dataIsEquivalent_def)

lemma isEquivalent_sym: "isEquivalent a b \<longleftrightarrow> isEquivalent b a"
  by (cases a; cases b) (auto simp: isEquivalent_def dataIsEquivalent_def)

lemma isEquivalent_trans: "isEquivalent a b \<Longrightarrow> isEquivalent b c \<Longrightarrow> isEquivalent a c"
  by (cases a; cases b; cases c) (auto simp: isEquivalent_def dataIsEquivalent_def)

lemma touchFirst_descriptors:
  "touchFirst now d es = Some es' \<Longrightarrow> map de_descriptor es' = map de_descriptor es"
  by (induction es arbitrary: es') (auto split: if_splits)

lemma touchFirst_None: "touchFirst now d es = None \<longleftrightarrow> (\<forall>e \<in> set es. \<not> isEquivalent (de_descriptor e) d)"
  by (induction es) (auto simp: containsEquivalent_def)

definition noDuplicates :: "device_list \<Rightarrow> bool" where
  "noDuplicates dl \<longleftrightarrow>
     sorted_wrt (\<lambda>a b. \<not> isEquivalent a b) (map de_descriptor (dl_responsive dl)) \<and>
     (dl_responsive dl \<noteq> [] \<longrightarrow> dl_timer dl)"

lemma sorted_wrt_filter_map:
  "sorted_wrt R (map f xs) \<Longrightarrow> sorted_wrt R (map f (filter P xs))"
  by (induction xs) auto

lemma update_noDuplicates: "noDuplicates dl \<Longrightarrow> noDuplicates (snd (deviceListUpdate now d dl))"
  by (auto simp: noDuplicates_def deviceListUpdate_def touchFirst_descriptors touchFirst_None sorted_wrt_append
      dest: touchFirst_descriptors split: option.split)

lemma process_noDuplicates: "noDuplicates dl \<Longrightarrow> noDuplicates (snd (processUnresponsive now timeout dl))"
  by (auto simp: noDuplicates_def processUnresponsive_def Let_def sorted_wrt_filter_map)

datatype device_list_event = DL_heard int descriptor | DL_check int int | DL_clear

definition device_list_step :: "device_list \<Rightarrow> device_list_event \<Rightarrow> device_list" where
  "device_list_step dl ev =
    (case ev of
       DL_heard now d \<Rightarrow> snd (deviceListUpdate now d dl)
     | DL_check now timeout \<Rightarrow> snd (processUnresponsive now timeout dl)
     | DL_clear \<Rightarrow> deviceListClear dl)"

interpretation devices: machine device_list_step noDuplicates
proof
  fix dl ev
  assume "noDuplicates dl"
  then show "noDuplicates (device_list_step dl ev)"
    by (cases ev) (simp_all add: device_list_step_def update_noDuplicates process_noDuplicates
        deviceListClear_def noDuplicates_def [of "dl\<lparr>dl_responsive := []\<rparr>"])
qed

text \<open>
  Whatever is heard, the list of devices names no device twice, and its timer runs as long as
  there is a device in it. A check removes exactly the devices that have been silent for longer than the
  time allowed, when it does not fall in the first moments of a day: \<open>now\<close> is at least that
  time after midnight and nothing in the list is younger than \<open>now\<close>.
\<close>

theorem device_list_is_current:
  assumes "dl = run device_list_step RemoteDeviceList evs"
    and "0 \<le> timeout" "timeout \<le> now" "now < msPerDay" "\<forall>e \<in> set (dl_responsive dl). de_lastSeen e \<le> now"
  shows "sorted_wrt (\<lambda>a b. \<not> isEquivalent a b) (map de_descriptor (dl_responsive dl)) \<and>
    (dl_responsive dl \<noteq> [] \<longrightarrow> dl_timer dl) \<and>
    dl_responsive (snd (processUnresponsive now timeout dl)) =
      filter (\<lambda>e. now - de_lastSeen e \<le> timeout) (dl_responsive dl)"
proof -
  have "noDuplicates dl"
    unfolding assms(1) by (rule devices.run_inv) (simp add: noDuplicates_def RemoteDeviceList_def)
  moreover have "addMSecs now (- timeout) = now - timeout"
    using assms by (simp add: addMSecs_def)
  then have "dl_responsive (snd (processUnresponsive now timeout dl)) =
      filter (\<lambda>e. now - de_lastSeen e \<le> timeout) (dl_responsive dl)"
    by (auto simp: processUnresponsive_def Let_def intro: filter_cong)
  ultimately show ?thesis
    by (simp add: noDuplicates_def)
qed

definition sample_descriptor :: "string \<Rightarrow> descriptor" where
  "sample_descriptor i = Some \<lparr>dd_ifdName = ''Phone'', dd_ifdId = i, dd_apiVersions = [V_v0], dd_url = (''192.168.0.2'', 24727)\<rparr>"

theorem device_list_is_current_witness:
  "map de_descriptor (dl_responsive (snd (processUnresponsive 20000 5000
      (run device_list_step RemoteDeviceList [DL_heard 10000 (sample_descriptor ''a''), DL_heard 18000 (sample_descriptor ''b'')])))) =
     [sample_descriptor ''b'']"
proof -
  let ?dl = "run device_list_step RemoteDeviceList [DL_heard 10000 (sample_descriptor ''a''), DL_heard 18000 (sample_descriptor ''b'')]"
  have dl: "dl_responsive ?dl = [\<lparr>de_descriptor = sample_descriptor ''a'', de_lastSeen = 10000\<rparr>,
      \<lparr>de_descriptor = sample_descriptor ''b'', de_lastSeen = 18000\<rparr>]"
    by (simp add: device_list_step_def deviceListUpdate_def RemoteDeviceList_def containsEquivalent_def
        isEquivalent_def dataIsEquivalent_def sample_descriptor_def)
  show ?thesis
    using device_list_is_current [OF refl, of 5000 20000
        "[DL_heard 10000 (sample_descriptor ''a''), DL_heard 18000 (sample_descriptor ''b'')]"] dl
    by (simp add: msPerDay_def)
qed

text \<open>
  In the first moments of a day the threshold lies in the evening, and a device that has just been
  heard of vanishes.
\<close>

theorem devices_vanish_at_midnight:
  assumes "0 \<le> seen" "seen \<le> now" "now < timeout" "timeout < msPerDay div 2"
  shows "dl_responsive (snd (processUnresponsive now timeout
      (snd (deviceListUpdate seen d RemoteDeviceList)))) = []"
proof -
  have "(now - timeout) mod msPerDay = now - timeout + msPerDay"
    using assms mod_pos_pos_trivial [of "now - timeout + msPerDay" msPerDay] by (simp add: msPerDay_def)
  then have "seen < addMSecs now (- timeout)"
    using assms by (simp add: addMSecs_def msPerDay_def)
  then show ?thesis
    by (simp add: processUnresponsive_def deviceListUpdate_def RemoteDeviceList_def)
qed

section \<open>Refused attempts and pairing\<close>

text \<open>One attempt to connect to the device \<open>d\<close>, from its request to its end.\<close>

definition attempt ::
  "(string \<times> string) list \<Rightarrow> remote_client \<Rightarrow> descriptor \<times> RemoteErrorCode option
     \<Rightarrow> remote_client_effect list \<times> remote_client" where
  "attempt infos cl x =
    (let (d, outcome) = x;
         cl = snd (establishConnection (Some d) [] cl)
     in case outcome of
          None \<Rightarrow> onRemoteDispatcherCreated d (descriptorIfdId d) cl
        | Some e \<Rightarrow> onRemoteDispatcherError infos d e cl)"

text \<open>How many attempts in a row the device \<open>i\<close> has refused, the latest attempt first.\<close>

fun refusedInARow :: "string \<Rightarrow> (descriptor \<times> RemoteErrorCode option) list \<Rightarrow> nat" where
  "refusedInARow i [] = 0"
| "refusedInARow i ((d, outcome) # earlier) =
    (if descriptorIfdId d \<noteq> i then refusedInARow i earlier
     else case outcome of
            None \<Rightarrow> 0
          | Some e \<Rightarrow> if refuses e then Suc (refusedInARow i earlier) else 0)"

lemma takePending_last: "takePending d (ps @ [d]) \<noteq> None"
  by (induction ps) auto

lemma attempt_counter:
  "cl_errorCounter (snd (attempt infos cl (d, outcome))) i =
    (if descriptorIfdId d \<noteq> i then cl_errorCounter cl i
     else case outcome of
            None \<Rightarrow> 0
          | Some e \<Rightarrow> if refuses e then (if cl_errorCounter cl i + 1 \<ge> 7 then 0 else cl_errorCounter cl i + 1) else 0)"
  using takePending_last [of d "cl_pending cl"]
  by (auto simp: attempt_def establishConnection_def onRemoteDispatcherCreated_def onRemoteDispatcherError_def
      Let_def split: option.split)

lemma attempt_removes:
  "CL_removeTrustedCertificate i \<in> set (fst (attempt infos cl (d, outcome))) \<longleftrightarrow>
     descriptorIfdId d = i \<and> (\<exists>e. outcome = Some e \<and> refuses e) \<and> cl_errorCounter cl i + 1 \<ge> 7"
  using takePending_last [of d "cl_pending cl"]
  by (auto simp: attempt_def establishConnection_def onRemoteDispatcherCreated_def onRemoteDispatcherError_def
      Let_def split: option.split)

definition attempts ::
  "(string \<times> string) list \<Rightarrow> (descriptor \<times> RemoteErrorCode option) list \<Rightarrow> remote_client" where
  "attempts infos xs = run (\<lambda>cl x. snd (attempt infos cl x)) RemoteClient xs"

lemma run_snoc: "run step s (xs @ [x]) = step (run step s xs) x"
  by (simp add: run_def)

lemma counter_counts_refusals:
  "cl_errorCounter (attempts infos xs) i = refusedInARow i (rev xs) mod 7"
proof (induction xs rule: rev_induct)
  case (snoc x xs)
  obtain d outcome where x: "x = (d, outcome)" by force
  have "(if n mod 7 + 1 \<ge> 7 then 0 else n mod 7 + 1) = Suc n mod 7" for n :: nat
    using mod_less_divisor [of 7 n] by (auto simp: mod_Suc)
  then show ?case
    using snoc by (simp only: attempts_def run_snoc x attempt_counter rev_append rev.simps append_Cons append_Nil
        refusedInARow.simps split: option.split) simp
qed (simp add: attempts_def RemoteClient_def)

text \<open>
  C28. The certificate of a paired device is removed after seven refused attempts in a row and never
  before: an attempt removes it exactly when it is refused itself and the refusals of that device
  without another outcome in between, this one included, are a multiple of seven. Attempts to
  connect to other devices do not count.
\<close>

theorem certificate_removed_after_seven_refusals:
  "CL_removeTrustedCertificate i \<in> set (fst (attempt infos (attempts infos xs) x)) \<longleftrightarrow>
     descriptorIfdId (fst x) = i \<and> refusedInARow i (rev (xs @ [x])) > 0 \<and> 7 dvd refusedInARow i (rev (xs @ [x]))"
proof -
  obtain d outcome where x: "x = (d, outcome)" by force
  have "n mod 7 + 1 \<ge> 7 \<longleftrightarrow> 7 dvd Suc n" for n :: nat
    by presburger
  then show ?thesis
    by (auto simp: x attempt_removes counter_counts_refusals split: option.split)
qed

text \<open>
  A device is trusted only by pairing: its certificate is added only after a handshake with a
  cipher for pairing, that is with the shared secret, and a key of sufficient length; errors of the
  handshake are ignored only when each of them is a host name that does not match, or, while pairing,
  a self-signed certificate; and no connection is made out of a handshake whose keys are too short.
\<close>

theorem trust_needs_pairing:
  "(CN_addTrustedCertificate c \<in> set (connectOnConnected h) \<longleftrightarrow>
      c = hs_peerCertificate h \<and> hs_pairingCipher h \<and> CN_created \<in> set (connectOnConnected h)) \<and>
   (CN_created \<in> set (connectOnConnected h) \<longleftrightarrow> hs_validCertificate h \<and> hs_validEphemeral h \<noteq> Some False) \<and>
   (CN_ignoreSslErrors \<in> set (connectOnSslErrors h errors) \<longleftrightarrow>
      set errors \<subseteq> {SSL_HostNameMismatch} \<union> (if hs_pairingCipher h then {SSL_SelfSignedCertificate} else {}))"
  by (auto simp: connectOnConnected_def connectOnSslErrors_def Let_def list_all_iff split: option.splits)

end
