(* ===== verification/RemoteService.thy ===== *)
theory RemoteService
  imports RemoteServer PaceWorkflow
begin

text \<open>
  The workflow of a device that offers itself as card reader:
  src/src/core/controller/RemoteServiceController.cpp, the states in
  src/src/core/states/remote_service with the states StateUpdateRetryCounter,
  StateVerifyRetryCounter and StateClearPacePasswords of PaceWorkflow, RemoteServiceContext.cpp, and
  the one connection that src/src/remote_device/RemoteWebSocketServer.cpp accepts. A state is entered
  and runs when the user interface approves it (AbstractState.cpp). Parameter \<open>I\<close> is the
  decoder of the PACE request. \<open>Undefined\<close> is a use of a pointer that is null or a place that
  the code marks as unreachable.
\<close>

section \<open>States and transitions\<close>

datatype service_state =
    StartRemoteService | ProcessRemoteMessages | UpdateRetryCounterRemote | VerifyRetryCounterRemote
  | PreparePaceRemote | EnterPacePasswordRemote | EstablishPaceChannelRemote
  | EstablishPaceChannelResponseState | PrepareChangePinRemote | EnterNewPacePinRemote
  | ChangePinRemote | ChangePinResponseState | ClearPacePasswordsRemote | StopRemoteService | ServiceFinal

datatype service_signal =
    Common signal | fireModifyPin | fireSecureMessagingStopped | fireWrongPacePassword
  | firePacePasswordModified

definition serviceTable :: "((service_state \<times> service_signal) \<times> service_state) list" where
  "serviceTable =
    [((StartRemoteService, Common fireContinue), ProcessRemoteMessages),
     ((StartRemoteService, Common fireAbort), StopRemoteService),
     ((ProcessRemoteMessages, Common fireAbort), StopRemoteService),
     ((ProcessRemoteMessages, Common fireEstablishPaceChannel), UpdateRetryCounterRemote),
     ((ProcessRemoteMessages, fireModifyPin), PrepareChangePinRemote),
     ((ProcessRemoteMessages, fireSecureMessagingStopped), ClearPacePasswordsRemote),
     ((UpdateRetryCounterRemote, Common fireContinue), VerifyRetryCounterRemote),
     ((UpdateRetryCounterRemote, Common fireAbort), EstablishPaceChannelResponseState),
     ((VerifyRetryCounterRemote, Common fireContinue), PreparePaceRemote),
     ((VerifyRetryCounterRemote, Common fireAbort), EstablishPaceChannelResponseState),
     ((PreparePaceRemote, Common fireContinue), EstablishPaceChannelRemote),
     ((PreparePaceRemote, Common fireEnterPacePassword), EnterPacePasswordRemote),
     ((PreparePaceRemote, Common fireAbort), EstablishPaceChannelRemote),
     ((EnterPacePasswordRemote, Common fireContinue), EstablishPaceChannelRemote),
     ((EnterPacePasswordRemote, Common fireAbort), EstablishPaceChannelResponseState),
     ((EstablishPaceChannelRemote, Common fireContinue), EstablishPaceChannelResponseState),
     ((EstablishPaceChannelRemote, Common fireAbort), EstablishPaceChannelResponseState),
     ((EstablishPaceChannelResponseState, Common fireContinue), ProcessRemoteMessages),
     ((EstablishPaceChannelResponseState, fireWrongPacePassword), ClearPacePasswordsRemote),
     ((EstablishPaceChannelResponseState, Common fireAbort), ProcessRemoteMessages),
     ((PrepareChangePinRemote, Common fireContinue), ChangePinRemote),
     ((PrepareChangePinRemote, Common fireEnterNewPacePin), EnterNewPacePinRemote),
     ((PrepareChangePinRemote, Common fireAbort), ChangePinRemote),
     ((EnterNewPacePinRemote, Common fireContinue), ChangePinRemote),
     ((EnterNewPacePinRemote, Common fireAbort), ChangePinResponseState),
     ((ChangePinRemote, Common fireContinue), ChangePinResponseState),
     ((ChangePinRemote, Common fireAbort), ChangePinResponseState),
     ((ChangePinResponseState, Common fireContinue), ProcessRemoteMessages),
     ((ChangePinResponseState, firePacePasswordModified), ClearPacePasswordsRemote),
     ((ChangePinResponseState, Common fireAbort), ProcessRemoteMessages),
     ((ClearPacePasswordsRemote, Common fireContinue), ProcessRemoteMessages),
     ((ClearPacePasswordsRemote, Common fireAbort), ProcessRemoteMessages),
     ((StopRemoteService, Common fireContinue), ServiceFinal),
     ((StopRemoteService, Common fireAbort), ServiceFinal)]"

definition serviceTransition :: "service_state \<Rightarrow> service_signal \<Rightarrow> service_state option" where
  "serviceTransition st s = map_of serviceTable (st, s)"

lemma serviceTransition_simps:
  "serviceTransition StartRemoteService s =
     (if s = Common fireContinue then Some ProcessRemoteMessages else
      if s = Common fireAbort then Some StopRemoteService else None)"
  "serviceTransition ProcessRemoteMessages s =
     (if s = Common fireAbort then Some StopRemoteService else
      if s = Common fireEstablishPaceChannel then Some UpdateRetryCounterRemote else
      if s = fireModifyPin then Some PrepareChangePinRemote else
      if s = fireSecureMessagingStopped then Some ClearPacePasswordsRemote else None)"
  "serviceTransition UpdateRetryCounterRemote s =
     (if s = Common fireContinue then Some VerifyRetryCounterRemote else
      if s = Common fireAbort then Some EstablishPaceChannelResponseState else None)"
  "serviceTransition VerifyRetryCounterRemote s =
     (if s = Common fireContinue then Some PreparePaceRemote else
      if s = Common fireAbort then Some EstablishPaceChannelResponseState else None)"
  "serviceTransition PreparePaceRemote s =
     (if s = Common fireContinue then Some EstablishPaceChannelRemote else
      if s = Common fireEnterPacePassword then Some EnterPacePasswordRemote else
      if s = Common fireAbort then Some EstablishPaceChannelRemote else None)"
  "serviceTransition EnterPacePasswordRemote s =
     (if s = Common fireContinue then Some EstablishPaceChannelRemote else
      if s = Common fireAbort then Some EstablishPaceChannelResponseState else None)"
  "serviceTransition EstablishPaceChannelRemote s =
     (if s = Common fireContinue then Some EstablishPaceChannelResponseState else
      if s = Common fireAbort then Some EstablishPaceChannelResponseState else None)"
  "serviceTransition EstablishPaceChannelResponseState s =
     (if s = Common fireContinue then Some ProcessRemoteMessages else
      if s = fireWrongPacePassword then Some ClearPacePasswordsRemote else
      if s = Common fireAbort then Some ProcessRemoteMessages else None)"
  "serviceTransition PrepareChangePinRemote s =
     (if s = Common fireContinue then Some ChangePinRemote else
      if s = Common fireEnterNewPacePin then Some EnterNewPacePinRemote else
      if s = Common fireAbort then Some ChangePinRemote else None)"
  "serviceTransition EnterNewPacePinRemote s =
     (if s = Common fireContinue then Some ChangePinRemote else
      if s = Common fireAbort then Some ChangePinResponseState else None)"
  "serviceTransition ChangePinRemote s =
     (if s = Common fireContinue then Some ChangePinResponseState else
      if s = Common fireAbort then Some ChangePinResponseState else None)"
  "serviceTransition ChangePinResponseState s =
     (if s = Common fireContinue then Some ProcessRemoteMessages else
      if s = firePacePasswordModified then Some ClearPacePasswordsRemote else
      if s = Common fireAbort then Some ProcessRemoteMessages else None)"
  "serviceTransition ClearPacePasswordsRemote s =
     (if s = Common fireContinue then Some ProcessRemoteMessages else
      if s = Common fireAbort then Some ProcessRemoteMessages else None)"
  "serviceTransition StopRemoteService s =
     (if s = Common fireContinue then Some ServiceFinal else
      if s = Common fireAbort then Some ServiceFinal else None)"
  "serviceTransition ServiceFinal s = None"
  by (simp_all add: serviceTransition_def serviceTable_def)

section \<open>The context\<close>

text \<open>
  \<open>rs_context\<close> is what the context inherits from WorkflowContext, with the new PIN;
  \<open>rs_handler\<close> says whether the server has a message handler, \<open>rs_watched\<close> whether the
  state was entered while it had one, \<open>rs_passwordId\<close> is the member of
  StateEstablishPaceChannelRemote.
\<close>

record remote_service =
  rs_state :: service_state
  rs_phase :: phase
  rs_context :: workflow_context
  rs_paceMessage :: "ifd_establish_pace_channel option"
  rs_paceOutput :: pace_output
  rs_modifyMessage :: "ifd_modify_pin option"
  rs_modifyResponse :: bytes
  rs_passwordId :: PacePasswordId
  rs_handler :: bool
  rs_watched :: bool
  rs_pinPadMode :: bool

definition RemoteServiceContext :: "bool \<Rightarrow> remote_service" where
  "RemoteServiceContext pinPad =
    \<lparr>rs_state = StartRemoteService, rs_phase = Entered, rs_context = WorkflowContext False,
     rs_paceMessage = None, rs_paceOutput = emptyPaceOutput, rs_modifyMessage = None,
     rs_modifyResponse = [], rs_passwordId = PW_UNKNOWN, rs_handler = False, rs_watched = False,
     rs_pinPadMode = pinPad\<rparr>"

definition setEstablishPaceChannelMessage ::
  "ifd_establish_pace_channel option \<Rightarrow> remote_service \<Rightarrow> remote_service" where
  "setEstablishPaceChannelMessage pMessage m = m\<lparr>rs_paceMessage := pMessage, rs_paceOutput := emptyPaceOutput\<rparr>"

definition setModifyPinMessage :: "ifd_modify_pin option \<Rightarrow> remote_service \<Rightarrow> remote_service" where
  "setModifyPinMessage pMessage m = m\<lparr>rs_modifyMessage := pMessage, rs_modifyResponse := []\<rparr>"

definition onResetMessageHandler :: "remote_service \<Rightarrow> remote_service" where
  "onResetMessageHandler m =
    (let m = m\<lparr>rs_context := resetLastPaceResult (resetCardConnection (resetPacePasswords (rs_context m)))\<rparr>
     in (setEstablishPaceChannelMessage None m)\<lparr>rs_modifyMessage := None\<rparr>)"

section \<open>Running a state\<close>

datatype service_command =
    RC_updateRetryCounter
  | RC_unblockPin string
  | RC_establishPaceChannel PacePasswordId string bytes bytes
  | RC_setEidPin string byte

datatype service_effect =
    SX_startServer
  | SX_command service_command
  | SX_paceResponse string pace_output
  | SX_modifyPinResponse string bytes
  | SX_stopServer

text \<open>Leaving a state: \<open>onExit\<close> of StateStopRemoteService stops the server.\<close>

definition serviceEmit :: "service_signal \<Rightarrow> remote_service \<Rightarrow> service_effect list \<times> remote_service" where
  "serviceEmit s m =
    (case serviceTransition (rs_state m) s of
       None \<Rightarrow> ([], m)
     | Some st \<Rightarrow>
        (let stops = (rs_state m = StopRemoteService);
             m = (if stops then m\<lparr>rs_handler := False\<rparr> else m)
         in (if stops then [SX_stopServer] else [],
             m\<lparr>rs_state := st, rs_phase := Entered, rs_watched := rs_handler m\<rparr>)))"

definition undefinedService :: "remote_service \<Rightarrow> service_effect list \<times> remote_service" where
  "undefinedService m = ([], m\<lparr>rs_phase := Undefined\<rparr>)"

definition callCommand :: "service_command \<Rightarrow> remote_service \<Rightarrow> service_effect list \<times> remote_service" where
  "callCommand c m = ([SX_command c], m)"

definition continueService :: "remote_service \<Rightarrow> service_effect list \<times> remote_service" where
  "continueService m = serviceEmit (Common fireContinue) m"

definition runPreparePaceRemote :: "pace_input_asn1 \<Rightarrow> remote_service \<Rightarrow> service_effect list \<times> remote_service" where
  "runPreparePaceRemote I m =
    (if rs_pinPadMode m then
       (case rs_paceMessage m of
          None \<Rightarrow> undefinedService m
        | Some msg \<Rightarrow>
           (let c = rs_context m;
                ask = (\<lambda>pw. serviceEmit (Common (if pw = [] then fireEnterPacePassword else fireContinue)) m)
            in case pp_passwordId (fromCcid I (ep_inputData msg)) of
                 PACE_CAN \<Rightarrow> ask (wc_can c)
               | PACE_PIN \<Rightarrow> ask (wc_pin c)
               | PACE_PUK \<Rightarrow> ask (wc_puk c)
               | _ \<Rightarrow> undefinedService m))
     else continueService m)"

definition runEstablishPaceChannelRemote ::
  "pace_input_asn1 \<Rightarrow> remote_service \<Rightarrow> service_effect list \<times> remote_service" where
  "runEstablishPaceChannelRemote I m =
    (if wc_cardConnection (rs_context m) = None then continueService m
     else case rs_paceMessage m of
       None \<Rightarrow> undefinedService m
     | Some msg \<Rightarrow>
        (let parser = fromCcid I (ep_inputData msg);
             m = m\<lparr>rs_passwordId := pp_passwordId parser\<rparr>;
             c = rs_context m;
             pace = (\<lambda>pw. callCommand (RC_establishPaceChannel (pp_passwordId parser) pw (pp_chat parser)
                       (pp_certificateDescription parser)) m)
         in case pp_passwordId parser of
              PACE_CAN \<Rightarrow> pace (wc_can c)
            | PACE_PIN \<Rightarrow> pace (wc_pin c)
            | PACE_PUK \<Rightarrow> callCommand (RC_unblockPin (wc_puk c)) m
            | _ \<Rightarrow> serviceEmit (Common fireAbort) m))"

definition runEstablishPaceChannelResponse :: "remote_service \<Rightarrow> service_effect list \<times> remote_service" where
  "runEstablishPaceChannelResponse m =
    (let output = rs_paceOutput m;
         leave = serviceEmit (if equalsWrongPacePassword (po_returnCode output)
                              then fireWrongPacePassword else Common fireContinue) m
     in if rs_handler m then
          (case rs_paceMessage m of
             None \<Rightarrow> undefinedService m
           | Some msg \<Rightarrow> (SX_paceResponse (ep_slotHandle msg) output # fst leave, snd leave))
        else leave)"

definition runChangePinRemote :: "remote_service \<Rightarrow> service_effect list \<times> remote_service" where
  "runChangePinRemote m =
    (if wc_cardConnection (rs_context m) = None
     then continueService (m\<lparr>rs_modifyResponse := ResponseApduOfStatus SC_EMPTY\<rparr>)
     else case rs_modifyMessage m of
       None \<Rightarrow> undefinedService m
     | Some msg \<Rightarrow>
        callCommand (RC_setEidPin (wc_newPin (rs_context m)) (pinModifyOfRemote (mp_inputData msg))) m)"

definition runChangePinResponse :: "remote_service \<Rightarrow> service_effect list \<times> remote_service" where
  "runChangePinResponse m =
    (let apdu = rs_modifyResponse m;
         leave = serviceEmit (if getCardReturnCode apdu = CR_OK
                              then firePacePasswordModified else Common fireContinue) m
     in if rs_handler m then
          (case rs_modifyMessage m of
             None \<Rightarrow> undefinedService m
           | Some msg \<Rightarrow> (SX_modifyPinResponse (mp_slotHandle msg) apdu # fst leave, snd leave))
        else leave)"

fun runServiceState :: "pace_input_asn1 \<Rightarrow> service_state \<Rightarrow> remote_service \<Rightarrow> service_effect list \<times> remote_service" where
  "runServiceState I StartRemoteService m =
     (SX_startServer # fst (continueService m), snd (continueService m))"
| "runServiceState I ProcessRemoteMessages m = ([], if rs_handler m then m else onResetMessageHandler m)"
| "runServiceState I UpdateRetryCounterRemote m =
     (case runUpdateRetryCounter (rs_context m) of
        Call cmd \<Rightarrow> callCommand RC_updateRetryCounter m
      | _ \<Rightarrow> serviceEmit (Common fireAbort) m)"
| "runServiceState I VerifyRetryCounterRemote m =
     (case runVerifyRetryCounter (rs_context m) of
        (s, c) \<Rightarrow> serviceEmit (Common s) (m\<lparr>rs_context := c\<rparr>))"
| "runServiceState I PreparePaceRemote m = runPreparePaceRemote I m"
| "runServiceState I EnterPacePasswordRemote m = continueService m"
| "runServiceState I EstablishPaceChannelRemote m = runEstablishPaceChannelRemote I m"
| "runServiceState I EstablishPaceChannelResponseState m = runEstablishPaceChannelResponse m"
| "runServiceState I PrepareChangePinRemote m = serviceEmit (Common (runPrepareChangePin (rs_context m))) m"
| "runServiceState I EnterNewPacePinRemote m = continueService m"
| "runServiceState I ChangePinRemote m = runChangePinRemote m"
| "runServiceState I ChangePinResponseState m = runChangePinResponse m"
| "runServiceState I ClearPacePasswordsRemote m =
     continueService (m\<lparr>rs_context := resetPacePasswords (rs_context m)\<rparr>)"
| "runServiceState I StopRemoteService m = continueService m"
| "runServiceState I ServiceFinal m = ([], m)"

section \<open>Events\<close>

datatype service_event =
    RQ_approve | RQ_cancelWorkflow | RQ_cancelPasswordRequest | RQ_cardRemoved string
  | RQ_handlerAdded | RQ_handlerGone | RQ_resetContext
  | RQ_establishPaceChannel ifd_establish_pace_channel connection string
  | RQ_modifyPin ifd_modify_pin connection string
  | RQ_smStopped
  | RQ_retryCounterDone CardReturnCode
  | RQ_establishPaceDone pace_output
  | RQ_unblockPinDone CardReturnCode
  | RQ_setEidPinDone bytes
  | RQ_retryCounterChanged int
  | RQ_setCan string | RQ_setPin string | RQ_setPuk string | RQ_setNewPin string
  | RQ_setPinPadMode bool

definition receivesRequests :: "remote_service \<Rightarrow> bool" where
  "receivesRequests m \<longleftrightarrow> rs_state m = ProcessRemoteMessages \<and> rs_phase m = Running \<and> rs_handler m"

text \<open>\<open>onUserCancelled\<close> of AbstractState.\<close>

definition serviceCancelled :: "remote_service \<Rightarrow> service_effect list \<times> remote_service" where
  "serviceCancelled m =
    serviceEmit (Common fireAbort)
      (m\<lparr>rs_context := updateStatus GS_Workflow_Cancellation_By_User (rs_context m)\<rparr>)"

text \<open>\<open>onCancelEstablishPaceChannel\<close> and \<open>onCancelChangePin\<close>.\<close>

definition passwordRequestCancelled :: "remote_service \<Rightarrow> service_effect list \<times> remote_service" where
  "passwordRequestCancelled m =
    (if rs_state m = EnterPacePasswordRemote then
       serviceEmit (Common fireAbort)
         (if rs_handler m then m\<lparr>rs_paceOutput := emptyPaceOutput\<lparr>po_returnCode := CR_CANCELLATION_BY_USER\<rparr>\<rparr> else m)
     else if rs_state m = EnterNewPacePinRemote then
       serviceEmit (Common fireAbort)
         (if rs_handler m then m\<lparr>rs_modifyResponse := ResponseApduOfStatus SC_INPUT_CANCELLED\<rparr> else m)
     else ([], m))"

text \<open>The last reference to the handler is gone: its signal \<open>destroyed\<close>.\<close>

definition handlerDestroyed :: "remote_service \<Rightarrow> service_effect list \<times> remote_service" where
  "handlerDestroyed m =
    (let had = rs_handler m; m = m\<lparr>rs_handler := False\<rparr>
     in if had \<and> rs_state m = ProcessRemoteMessages \<and> rs_phase m = Running then ([], onResetMessageHandler m)
        else if had \<and> rs_watched m then passwordRequestCancelled m
        else ([], m))"

text \<open>\<open>onEstablishConnectionDone\<close> for the two commands.\<close>

definition establishPaceDone :: "pace_output \<Rightarrow> remote_service \<Rightarrow> service_effect list \<times> remote_service" where
  "establishPaceDone output m =
    (let m = m\<lparr>rs_paceOutput := output\<rparr>;
         c = rs_context m;
         code = po_returnCode output;
         c = (if rs_passwordId m = PACE_PIN then
                (if equalsWrongPacePassword code then c\<lparr>wc_expectedRetryCounter := wc_expectedRetryCounter c - 1\<rparr>
                 else if code = CR_OK then c\<lparr>wc_expectedRetryCounter := 3\<rparr> else c)
              else c)
     in continueService (m\<lparr>rs_context := c\<rparr>))"

definition unblockPinDone :: "CardReturnCode \<Rightarrow> remote_service \<Rightarrow> service_effect list \<times> remote_service" where
  "unblockPinDone returnCode m =
    (let c = rs_context m;
         c = (if returnCode = CR_OK \<or> equalsWrongPacePassword returnCode
              then (resetPacePasswords c)\<lparr>wc_expectedRetryCounter := -1\<rparr> else c)
     in continueService (m\<lparr>rs_context := c, rs_paceOutput := emptyPaceOutput\<lparr>po_returnCode := returnCode\<rparr>\<rparr>))"

definition service_step ::
  "pace_input_asn1 \<Rightarrow> remote_service \<Rightarrow> service_event \<Rightarrow> service_effect list \<times> remote_service" where
  "service_step I m ev =
    (let running = (\<lambda>st. rs_state m = st \<and> rs_phase m = Running);
         ctx = (\<lambda>f. ([], m\<lparr>rs_context := f (rs_context m)\<rparr>))
     in if rs_phase m = Undefined \<or> rs_state m = ServiceFinal then ([], m)
     else case ev of
       RQ_approve \<Rightarrow>
         if rs_phase m = Entered then runServiceState I (rs_state m) (m\<lparr>rs_phase := Running\<rparr>) else ([], m)
     | RQ_cancelWorkflow \<Rightarrow> serviceCancelled m
     | RQ_cancelPasswordRequest \<Rightarrow> passwordRequestCancelled m
     | RQ_cardRemoved name \<Rightarrow>
         if (rs_state m = StartRemoteService \<or> rs_state m = StopRemoteService) \<and> name = wc_readerName (rs_context m)
         then serviceEmit (Common fireAbort)
                (m\<lparr>rs_context := updateStatus GS_Workflow_Card_Removed (rs_context m)\<rparr>)
         else ([], m)
     | RQ_handlerAdded \<Rightarrow> ([], if rs_handler m then m else m\<lparr>rs_handler := True\<rparr>)
     | RQ_handlerGone \<Rightarrow> handlerDestroyed m
     | RQ_resetContext \<Rightarrow> ([], onResetMessageHandler m)
     | RQ_establishPaceChannel msg cn name \<Rightarrow>
         if receivesRequests m
         then serviceEmit (Common fireEstablishPaceChannel)
                ((setEstablishPaceChannelMessage (Some msg) m)
                   \<lparr>rs_context := (rs_context m)\<lparr>wc_cardConnection := Some cn, wc_readerName := name\<rparr>\<rparr>)
         else ([], m)
     | RQ_modifyPin msg cn name \<Rightarrow>
         if receivesRequests m
         then serviceEmit fireModifyPin
                ((setModifyPinMessage (Some msg) m)
                   \<lparr>rs_context := (rs_context m)\<lparr>wc_cardConnection := Some cn, wc_readerName := name\<rparr>\<rparr>)
         else ([], m)
     | RQ_smStopped \<Rightarrow> if receivesRequests m then serviceEmit fireSecureMessagingStopped m else ([], m)
     | RQ_retryCounterDone rc \<Rightarrow>
         if running UpdateRetryCounterRemote
         then (case onUpdateRetryCounterDone rc (rs_context m) of (s, c) \<Rightarrow> serviceEmit (Common s) (m\<lparr>rs_context := c\<rparr>))
         else ([], m)
     | RQ_establishPaceDone output \<Rightarrow>
         if running EstablishPaceChannelRemote then establishPaceDone output m else ([], m)
     | RQ_unblockPinDone rc \<Rightarrow>
         if running EstablishPaceChannelRemote then unblockPinDone rc m else ([], m)
     | RQ_setEidPinDone apdu \<Rightarrow>
         if running ChangePinRemote then continueService (m\<lparr>rs_modifyResponse := apdu\<rparr>) else ([], m)
     | RQ_retryCounterChanged n \<Rightarrow>
         ctx (\<lambda>c. c\<lparr>wc_cardConnection := map_option (\<lambda>cn. cn\<lparr>cn_retryCounter := n\<rparr>) (wc_cardConnection c)\<rparr>)
     | RQ_setCan s \<Rightarrow> ctx (\<lambda>c. c\<lparr>wc_can := s\<rparr>)
     | RQ_setPin s \<Rightarrow> ctx (\<lambda>c. c\<lparr>wc_pin := s\<rparr>)
     | RQ_setPuk s \<Rightarrow> ctx (\<lambda>c. c\<lparr>wc_puk := s\<rparr>)
     | RQ_setNewPin s \<Rightarrow> ctx (\<lambda>c. c\<lparr>wc_newPin := s\<rparr>)
     | RQ_setPinPadMode b \<Rightarrow> ([], m\<lparr>rs_pinPadMode := b\<rparr>))"

section \<open>Requests and responses\<close>

definition pendingStates :: "service_state list" where
  "pendingStates =
    [UpdateRetryCounterRemote, VerifyRetryCounterRemote, PreparePaceRemote, EnterPacePasswordRemote,
     EstablishPaceChannelRemote, EstablishPaceChannelResponseState, PrepareChangePinRemote,
     EnterNewPacePinRemote, ChangePinRemote, ChangePinResponseState]"

definition owes :: "remote_service \<Rightarrow> nat" where
  "owes m = (if rs_state m \<in> set pendingStates then 1 else 0)"

text \<open>Whether a step takes a request of the client, and how many responses it sends.\<close>

definition takesRequest :: "remote_service \<Rightarrow> service_event \<Rightarrow> nat" where
  "takesRequest m ev =
    (case ev of
       RQ_establishPaceChannel msg cn name \<Rightarrow> if receivesRequests m then 1 else 0
     | RQ_modifyPin msg cn name \<Rightarrow> if receivesRequests m then 1 else 0
     | _ \<Rightarrow> 0)"

fun isResponse :: "service_effect \<Rightarrow> bool" where
  "isResponse (SX_paceResponse slot output) = True"
| "isResponse (SX_modifyPinResponse slot apdu) = True"
| "isResponse _ = False"

definition responses :: "service_effect list \<Rightarrow> nat" where
  "responses effs = length (filter isResponse effs)"

text \<open>
  What takes an answer away: the client is gone, or the user ends the workflow while the response is
  about to be sent.
\<close>

definition disturbs :: "remote_service \<Rightarrow> service_event \<Rightarrow> bool" where
  "disturbs m ev =
    (case ev of
       RQ_handlerGone \<Rightarrow> True
     | RQ_resetContext \<Rightarrow> True
     | RQ_cancelWorkflow \<Rightarrow> rs_state m = EstablishPaceChannelResponseState \<or> rs_state m = ChangePinResponseState
     | _ \<Rightarrow> False)"

definition answerable :: "remote_service \<Rightarrow> bool" where
  "answerable m \<longleftrightarrow> (owes m = 1 \<longrightarrow> rs_handler m)"

lemmas service_defs = serviceEmit_def serviceTransition_simps continueService_def
  undefinedService_def callCommand_def

lemmas run_defs = runPreparePaceRemote_def runEstablishPaceChannelRemote_def runEstablishPaceChannelResponse_def
  runChangePinRemote_def runChangePinResponse_def runUpdateRetryCounter_def runVerifyRetryCounter_def
  runPrepareChangePin_def onResetMessageHandler_def setEstablishPaceChannelMessage_def setModifyPinMessage_def

definition balanced :: "nat \<Rightarrow> remote_service \<Rightarrow> service_effect list \<times> remote_service \<Rightarrow> bool" where
  "balanced taken m r \<longleftrightarrow> owes m + taken = responses (fst r) + owes (snd r) \<and> answerable (snd r)"

lemma run_balanced:
  assumes "answerable m" "rs_phase m = Running"
  shows "balanced 0 m (runServiceState I (rs_state m) m)"
  using assms
  by (cases "rs_state m")
    (auto simp: balanced_def answerable_def owes_def pendingStates_def responses_def service_defs run_defs Let_def
      split: option.splits prod.splits if_splits PacePasswordId.splits)

lemma balanced_phase [simp]:
  "answerable (m\<lparr>rs_phase := p\<rparr>) \<longleftrightarrow> answerable m" "balanced n (m\<lparr>rs_phase := p\<rparr>) r \<longleftrightarrow> balanced n m r"
  by (simp_all add: answerable_def balanced_def owes_def)

lemma balanced_nothing: "answerable m \<Longrightarrow> balanced 0 m ([], m)"
  by (simp add: balanced_def responses_def)

lemma step_balanced:
  assumes "answerable m" "\<not> disturbs m ev"
  shows "balanced (takesRequest m ev) m (service_step I m ev)"
proof (cases "rs_phase m = Undefined \<or> rs_state m = ServiceFinal")
  case True
  then show ?thesis
    using assms(1)
    by (cases ev) (auto simp: balanced_def service_step_def takesRequest_def receivesRequests_def responses_def)
next
  case False
  show ?thesis
  proof (cases "ev = RQ_approve")
    case True
    have "balanced 0 m (runServiceState I (rs_state m) (m\<lparr>rs_phase := Running\<rparr>))"
      using run_balanced [of "m\<lparr>rs_phase := Running\<rparr>" I] assms(1) by simp
    then show ?thesis
      using True False assms(1) by (simp add: service_step_def takesRequest_def balanced_nothing)
  next
    case other: False
    show ?thesis
      using False other assms
      by (cases ev; cases "rs_state m")
        (auto simp: balanced_def answerable_def owes_def pendingStates_def responses_def service_defs
          service_step_def takesRequest_def receivesRequests_def disturbs_def serviceCancelled_def
          passwordRequestCancelled_def establishPaceDone_def unblockPinDone_def onUpdateRetryCounterDone_def
          setEstablishPaceChannelMessage_def setModifyPinMessage_def Let_def)
  qed
qed

text \<open>The requests taken and the responses sent in a run, and whether anything disturbed it.\<close>

fun service_run ::
  "pace_input_asn1 \<Rightarrow> remote_service \<Rightarrow> service_event list \<Rightarrow> nat \<times> nat \<times> remote_service" where
  "service_run I m [] = (0, 0, m)"
| "service_run I m (ev # evs) =
    (let (effs, m') = service_step I m ev;
         (taken, sent, m'') = service_run I m' evs
     in (takesRequest m ev + taken, responses effs + sent, m''))"

fun undisturbed :: "pace_input_asn1 \<Rightarrow> remote_service \<Rightarrow> service_event list \<Rightarrow> bool" where
  "undisturbed I m [] \<longleftrightarrow> True"
| "undisturbed I m (ev # evs) \<longleftrightarrow> \<not> disturbs m ev \<and> undisturbed I (snd (service_step I m ev)) evs"

lemma run_is_balanced:
  assumes "answerable m" "undisturbed I m evs" "service_run I m evs = (taken, sent, m')"
  shows "owes m + taken = sent + owes m'"
  using assms
proof (induction evs arbitrary: m taken sent m')
  case (Cons ev evs)
  obtain effs m1 where s: "service_step I m ev = (effs, m1)" by force
  obtain t r m2 where t: "service_run I m1 evs = (t, r, m2)" by (metis prod_cases3)
  have b: "balanced (takesRequest m ev) m (effs, m1)"
    using step_balanced [OF Cons.prems(1), of ev I] Cons.prems(2) by (simp add: s)
  have "owes m1 + t = r + owes m2"
    using Cons.IH [OF _ _ t] b Cons.prems(2) by (simp add: s balanced_def)
  moreover have "taken = takesRequest m ev + t" "sent = responses effs + r" "m' = m2"
    using Cons.prems(3) by (simp_all add: s t)
  ultimately show ?case
    using b by (simp add: balanced_def)
qed simp

text \<open>
  C26. Requests and responses balance: in every run of the service, whatever the user enters or
  cancels and however the card answers, the number of responses sent is the number of requests taken,
  less one while a request is still being worked on; so no request is answered twice and none is
  forgotten when the service is ready for the next. What is excluded is a client that leaves and a user
  who ends the workflow in the very state that would send the response.
\<close>

theorem requests_and_responses_balance:
  assumes "undisturbed I (RemoteServiceContext pinPad) evs"
    and "service_run I (RemoteServiceContext pinPad) evs = (taken, sent, m)"
  shows "taken = sent + owes m \<and> (rs_state m = ProcessRemoteMessages \<longrightarrow> taken = sent)"
proof -
  have "answerable (RemoteServiceContext pinPad)" "owes (RemoteServiceContext pinPad) = 0"
    by (simp_all add: answerable_def owes_def RemoteServiceContext_def pendingStates_def)
  then have "taken = sent + owes m"
    using run_is_balanced [OF _ assms] by simp
  then show ?thesis
    by (simp add: owes_def pendingStates_def)
qed

section \<open>Passwords\<close>

text \<open>
  C23. A password reaches the card of the remote reader only for the request that is being worked
  on: it is the one the request names, with the CHAT and the certificate description of the request,
  on a connection that is there, when the state that establishes the channel is run; the new PIN
  likewise for a request to change the PIN.
\<close>

theorem remote_password_matches_request:
  assumes "SX_command cmd \<in> set (fst (service_step I m ev))"
  shows "case cmd of
      RC_updateRetryCounter \<Rightarrow> rs_state m = UpdateRetryCounterRemote
    | RC_establishPaceChannel pid pw chat desc \<Rightarrow>
        rs_state m = EstablishPaceChannelRemote \<and> wc_cardConnection (rs_context m) \<noteq> None \<and>
        (\<exists>msg parser. rs_paceMessage m = Some msg \<and> parser = fromCcid I (ep_inputData msg) \<and>
           pid = pp_passwordId parser \<and> chat = pp_chat parser \<and> desc = pp_certificateDescription parser) \<and>
        (pid = PACE_CAN \<and> pw = wc_can (rs_context m) \<or> pid = PACE_PIN \<and> pw = wc_pin (rs_context m))
    | RC_unblockPin pw \<Rightarrow>
        rs_state m = EstablishPaceChannelRemote \<and> wc_cardConnection (rs_context m) \<noteq> None \<and>
        (\<exists>msg. rs_paceMessage m = Some msg \<and> pp_passwordId (fromCcid I (ep_inputData msg)) = PACE_PUK) \<and>
        pw = wc_puk (rs_context m)
    | RC_setEidPin pw timeout \<Rightarrow>
        rs_state m = ChangePinRemote \<and> wc_cardConnection (rs_context m) \<noteq> None \<and>
        (\<exists>msg. rs_modifyMessage m = Some msg \<and> timeout = pinModifyOfRemote (mp_inputData msg)) \<and>
        pw = wc_newPin (rs_context m)"
proof (cases "ev = RQ_approve \<and> rs_phase m = Entered")
  case True
  then show ?thesis
    using assms
    by (cases "rs_state m")
      (auto simp: service_step_def service_defs run_defs Let_def
        split: option.splits prod.splits if_splits PacePasswordId.splits)
next
  case False
  have "SX_command cmd \<notin> set (fst (serviceEmit s k))" for s k
    by (simp add: serviceEmit_def Let_def split: option.split)
  then show ?thesis
    using assms False
    by (cases ev) (auto simp: service_step_def serviceCancelled_def passwordRequestCancelled_def
        handlerDestroyed_def establishPaceDone_def unblockPinDone_def continueService_def Let_def
        split: if_splits prod.splits)
qed

section \<open>Concrete runs\<close>

definition sample_connection :: connection where
  "sample_connection = \<lparr>cn_retryCounter = 3, cn_isBasicReader = True, cn_paceCanSuccessful = False,
     cn_pacePinSuccessful = True\<rparr>"

definition change_pin_run :: "service_event list" where
  "change_pin_run =
    [RQ_approve, RQ_handlerAdded, RQ_approve, RQ_modifyPin (IfdModifyPin ''slot'' [60]) sample_connection ''R'',
     RQ_approve, RQ_setNewPin ''123456'', RQ_approve, RQ_approve, RQ_setEidPinDone [0x90, 0], RQ_approve]"

lemma success_code: "getReturnCode [0x90, 0] = SC_SUCCESS"
  by code_simp

lemma change_pin_run_result:
  "undisturbed I (RemoteServiceContext True) change_pin_run"
  "\<exists>m. service_run I (RemoteServiceContext True) change_pin_run = (1, 1, m)"
  by (simp_all add: change_pin_run_def RemoteServiceContext_def WorkflowContext_def service_step_def service_defs
      run_defs disturbs_def takesRequest_def receivesRequests_def responses_def getCardReturnCode_def success_code
      Let_def)

definition sample_input_asn1 :: pace_input_asn1 where
  "sample_input_asn1 = \<lparr>i2d_in = (\<lambda>_. None), d2i_in = (\<lambda>_. None), norm_certdesc = Some\<rparr>"

theorem requests_and_responses_balance_witness:
  "\<exists>m. service_run sample_input_asn1 (RemoteServiceContext True) change_pin_run = (1, 1, m) \<and> owes m = 0"
proof -
  obtain m where m: "service_run sample_input_asn1 (RemoteServiceContext True) change_pin_run = (1, 1, m)"
    using change_pin_run_result(2) [of sample_input_asn1] by blast
  show ?thesis
    using requests_and_responses_balance [OF change_pin_run_result(1) m] m by auto
qed

definition changing_pin :: remote_service where
  "changing_pin = (RemoteServiceContext True)
     \<lparr>rs_state := ChangePinRemote, rs_modifyMessage := Some (IfdModifyPin ''slot'' [60]),
      rs_context := (WorkflowContext False)\<lparr>wc_cardConnection := Some sample_connection, wc_newPin := ''123456''\<rparr>\<rparr>"

theorem remote_password_matches_request_witness:
  "fst (service_step sample_input_asn1 changing_pin RQ_approve) = [SX_command (RC_setEidPin ''123456'' 60)] \<and>
   wc_newPin (rs_context changing_pin) = ''123456''"
proof -
  have f: "fst (service_step sample_input_asn1 changing_pin RQ_approve) = [SX_command (RC_setEidPin ''123456'' 60)]"
    by (simp add: changing_pin_def RemoteServiceContext_def WorkflowContext_def service_step_def service_defs run_defs
        pinModifyOfRemote_def IfdModifyPin_def message_ctors ifd_modify_pin.defs)
  show ?thesis
    using remote_password_matches_request [of "RC_setEidPin ''123456'' 60" sample_input_asn1 changing_pin RQ_approve] f by simp
qed

section \<open>What goes wrong\<close>

text \<open>
  A client may name the MRZ as password: the parser takes every password that the enumeration
  knows, but the state that prepares the channel marks it as unreachable.
\<close>

theorem mrz_request_is_undefined:
  assumes "getCLA (ep_inputData msg) = 0xFF" "getINS (ep_inputData msg) = 0x9A"
    and "getP1 (ep_inputData msg) = 0x04" "getP2 (ep_inputData msg) = 0x02"
    and "d2i_in I (getData (ep_inputData msg)) = Some s" "is_passwordID s = Some 1"
    and "rs_state m = PreparePaceRemote" "rs_phase m = Entered" "rs_pinPadMode m" "rs_paceMessage m = Some msg"
  shows "rs_phase (snd (service_step I m RQ_approve)) = Undefined"
proof -
  have "ccidPasswordId (Some 1) = PACE_MRZ"
    by (simp add: ccidPasswordId_def enum_ofValue_def PacePasswordId_list_def)
  then have "pp_passwordId (fromCcid I (ep_inputData msg)) = PACE_MRZ"
    using assms(1-6) by (simp add: fromCcid_def Let_def)
  then show ?thesis
    using assms(7-10) by (simp add: service_step_def runPreparePaceRemote_def undefinedService_def Let_def)
qed

text \<open>
  The service listens to the handler only while it processes messages. A second request of the client
  that comes while the first is worked on passes the handler and is then lost: nobody answers it.
\<close>

theorem second_request_is_lost:
  assumes "rs_state m \<in> set pendingStates"
  shows "service_step I m (RQ_establishPaceChannel msg cn name) = ([], m)"
    "service_step I m (RQ_modifyPin msg' cn name) = ([], m)"
  using assms by (auto simp: service_step_def receivesRequests_def pendingStates_def)

text \<open>
  The context is reset when the client leaves, in whatever state the workflow is. When this falls
  between two states of a request, the state that comes next uses a message that is gone.
\<close>

theorem reset_during_request_is_undefined:
  assumes "rs_state m = PreparePaceRemote" "rs_phase m = Entered" "rs_pinPadMode m"
  shows "rs_phase (snd (service_step I (snd (service_step I m RQ_resetContext)) RQ_approve)) = Undefined"
  using assms by (simp add: service_step_def run_defs undefinedService_def Let_def)

end
