(* ===== verification/PaosMessages.thy ===== *)
theory PaosMessages
  imports AuthWorkflow Eac2
begin

text \<open>
  How the messages of the eID server are read: src/src/core/paos/ElementDetector.cpp,
  PaosHandler.cpp, PaosMessage.cpp, the parsers in core/paos/element and core/paos/retrieve.
  \<open>QXmlStreamReader\<close> is library code; what it gives is a list of tokens, whose head is the current
  one. The end of the list is the token \<open>Invalid\<close>: the document is over or is not well-formed. The
  code asks for an error only inside an element, where the two are the same. The decoders of OpenSSL are
  a parameter \<open>L\<close>. A null \<open>QString\<close> is \<open>None\<close>.
\<close>

section \<open>Tokens\<close>

text \<open>An attribute has a namespace, a name and a value; names of elements are local names.\<close>

type_synonym xml_attribute = "string \<times> string \<times> string"

datatype xml_token =
    StartElement string "xml_attribute list"
  | EndElement
  | Characters string
  | OtherToken

definition isSpaceChar :: "char \<Rightarrow> bool" where
  "isSpaceChar c \<longleftrightarrow> c \<in> {CHR '' '', CHR 0x09, CHR 0x0A, CHR 0x0B, CHR 0x0C, CHR 0x0D, CHR 0x85, CHR 0xA0}"

text \<open>\<open>QString::simplified\<close>: no space at the ends, one space for every inner run of spaces.\<close>

function squeeze :: "string \<Rightarrow> string" where
  "squeeze [] = []"
| "squeeze (c # cs) =
    (if isSpaceChar c then
       (let r = dropWhile isSpaceChar cs in if r = [] then [] else CHR '' '' # squeeze r)
     else c # squeeze cs)"
  by pat_completeness auto

termination by (relation "measure length") (auto simp: less_Suc_eq_le length_dropWhile_le)

definition simplified :: "string \<Rightarrow> string" where
  "simplified s = squeeze (dropWhile isSpaceChar s)"

definition isWhitespace :: "string \<Rightarrow> bool" where
  "isWhitespace s \<longleftrightarrow> list_all (\<lambda>c. c \<in> {CHR '' '', CHR 0x09, CHR 0x0A, CHR 0x0D}) s"

definition endsWith :: "string \<Rightarrow> string \<Rightarrow> bool" where
  "endsWith s t \<longleftrightarrow> drop (length s - length t) s = t"

section \<open>Detection of elements\<close>

text \<open>
  \<open>detectStartElements\<close> with a handler of found elements. \<open>handleStartElements\<close> reads one
  token beyond an element it knows, and the loop goes on after that token.
\<close>

function detectStartElements ::
  "(string \<Rightarrow> string option \<Rightarrow> xml_attribute list \<Rightarrow> 's \<Rightarrow> 's) \<Rightarrow> string list \<Rightarrow> xml_token list \<Rightarrow> 's \<Rightarrow> 's" where
  "detectStartElements found names [] s = s"
| "detectStartElements found names (StartElement name attributes # ts) s =
    (if name \<in> set names then
       let value = (case ts of
                      Characters t # _ \<Rightarrow> if isWhitespace t then None else Some (simplified t)
                    | _ \<Rightarrow> None)
       in detectStartElements found names (tl ts) (found name value attributes s)
     else detectStartElements found names ts s)"
| "detectStartElements found names (EndElement # ts) s = detectStartElements found names ts s"
| "detectStartElements found names (Characters t # ts) s = detectStartElements found names ts s"
| "detectStartElements found names (OtherToken # ts) s = detectStartElements found names ts s"
  by pat_completeness auto

termination by (relation "measure (\<lambda>(found, names, ts, s). length ts)") (auto simp: less_Suc_eq_le)

section \<open>Elements and their texts\<close>

record paos_reader =
  pr_tokens :: "xml_token list"
  pr_error :: bool

text \<open>The library functions \<open>readNextStartElement\<close> and \<open>skipCurrentElement\<close>.\<close>

fun seekElement :: "xml_token list \<Rightarrow> xml_token list" where
  "seekElement [] = []"
| "seekElement (StartElement name attributes # ts) = StartElement name attributes # ts"
| "seekElement (EndElement # ts) = EndElement # ts"
| "seekElement (_ # ts) = seekElement ts"

fun skipElement :: "nat \<Rightarrow> xml_token list \<Rightarrow> xml_token list" where
  "skipElement depth [] = []"
| "skipElement depth (EndElement # ts) = (if depth \<le> 1 then EndElement # ts else skipElement (depth - 1) ts)"
| "skipElement depth (StartElement name attributes # ts) = skipElement (depth + 1) ts"
| "skipElement depth (_ # ts) = skipElement depth ts"

definition skipCurrentElement :: "paos_reader \<Rightarrow> paos_reader" where
  "skipCurrentElement p = p\<lparr>pr_tokens := skipElement 1 (tl (pr_tokens p))\<rparr>"

definition readNextStartElement :: "paos_reader \<Rightarrow> (string \<times> xml_attribute list) option \<times> paos_reader" where
  "readNextStartElement p =
    (if pr_error p then (None, p)
     else let ts = seekElement (tl (pr_tokens p))
          in (case ts of StartElement name attributes # _ \<Rightarrow> Some (name, attributes) | _ \<Rightarrow> None,
              p\<lparr>pr_tokens := ts\<rparr>))"

fun collectText :: "string \<Rightarrow> xml_token list \<Rightarrow> string option \<times> xml_token list" where
  "collectText text [] = (None, [])"
| "collectText text (EndElement # ts) = (Some (simplified text), EndElement # ts)"
| "collectText text (Characters t # ts) = collectText (if isWhitespace t then text else text @ '' '' @ t) ts"
| "collectText text (_ # ts) = collectText text ts"

definition readElementText :: "paos_reader \<Rightarrow> string option \<times> paos_reader" where
  "readElementText p =
    (case collectText [] (tl (pr_tokens p)) of (text, ts) \<Rightarrow> (text, p\<lparr>pr_tokens := ts\<rparr>))"

text \<open>The text when it was read, the variable after the call, and the reader.\<close>

definition readUniqueElementText :: "string option \<Rightarrow> paos_reader \<Rightarrow> string option \<times> string option \<times> paos_reader" where
  "readUniqueElementText pText p =
    (if pText \<noteq> None then (None, pText, p\<lparr>pr_error := True\<rparr>)
     else case readElementText p of (text, p) \<Rightarrow> (text, text, p))"

definition parseFailed :: "paos_reader \<Rightarrow> paos_reader" where
  "parseFailed p = p\<lparr>pr_error := True\<rparr>"

text \<open>
  The loop \<open>while (readNextStartElement())\<close>. Every turn reads a token at least, so that the length of
  the input is fuel enough (\<open>readChildren_enough\<close>).
\<close>

fun readChildren ::
  "nat \<Rightarrow> (string \<Rightarrow> xml_attribute list \<Rightarrow> 's \<times> paos_reader \<Rightarrow> 's \<times> paos_reader) \<Rightarrow> 's \<times> paos_reader \<Rightarrow> 's \<times> paos_reader" where
  "readChildren 0 body x = x"
| "readChildren (Suc n) body (s, p) =
    (case readNextStartElement p of
       (None, p) \<Rightarrow> (s, p)
     | (Some (name, attributes), p) \<Rightarrow> readChildren n body (body name attributes (s, p)))"

definition forChildren ::
  "(string \<Rightarrow> xml_attribute list \<Rightarrow> 's \<times> paos_reader \<Rightarrow> 's \<times> paos_reader) \<Rightarrow> 's \<times> paos_reader \<Rightarrow> 's \<times> paos_reader" where
  "forChildren body x = readChildren (length (pr_tokens (snd x)) + 1) body x"

text \<open>One unique text element, which goes to a component of the state.\<close>

definition setUnique ::
  "('s \<Rightarrow> string option) \<Rightarrow> (string option \<Rightarrow> 's \<Rightarrow> 's) \<Rightarrow> 's \<times> paos_reader \<Rightarrow> 's \<times> paos_reader" where
  "setUnique get put x =
    (case x of (s, p) \<Rightarrow> case readUniqueElementText (get s) p of (_, v, p) \<Rightarrow> (put v s, p))"

section \<open>The connection handle\<close>

record connection_handle =
  ch_contextHandle :: "string option"
  ch_ifdName :: "string option"
  ch_slotIndex :: "string option"
  ch_cardApplication :: "string option"
  ch_slotHandle :: "string option"

definition ConnectionHandle :: connection_handle where
  "ConnectionHandle = \<lparr>ch_contextHandle = None, ch_ifdName = None, ch_slotIndex = None,
     ch_cardApplication = None, ch_slotHandle = None\<rparr>"

definition connectionHandleElement ::
  "string \<Rightarrow> xml_attribute list \<Rightarrow> connection_handle \<times> paos_reader \<Rightarrow> connection_handle \<times> paos_reader" where
  "connectionHandleElement name attributes x =
    (if name = ''ContextHandle'' then setUnique ch_contextHandle (\<lambda>v s. s\<lparr>ch_contextHandle := v\<rparr>) x
     else if name = ''IFDName'' then setUnique ch_ifdName (\<lambda>v s. s\<lparr>ch_ifdName := v\<rparr>) x
     else if name = ''SlotIndex'' then setUnique ch_slotIndex (\<lambda>v s. s\<lparr>ch_slotIndex := v\<rparr>) x
     else if name = ''CardApplication'' then setUnique ch_cardApplication (\<lambda>v s. s\<lparr>ch_cardApplication := v\<rparr>) x
     else if name = ''SlotHandle'' then setUnique ch_slotHandle (\<lambda>v s. s\<lparr>ch_slotHandle := v\<rparr>) x
     else (fst x, skipCurrentElement (snd x)))"

text \<open>
  \<open>ConnectionHandleParser(mXmlReader).parse()\<close>: a parser of its own on the same reader, whose
  error is not that of the parser that calls it.
\<close>

definition ConnectionHandleParser_parse :: "paos_reader \<Rightarrow> connection_handle \<times> paos_reader" where
  "ConnectionHandleParser_parse p =
    (case forChildren connectionHandleElement (ConnectionHandle, p\<lparr>pr_error := False\<rparr>) of
       (h, q) \<Rightarrow> (h, q\<lparr>pr_error := pr_error p\<rparr>))"

section \<open>The input of EAC\<close>

text \<open>The decoders of the values of a message.\<close>

record paos_lib =
  pl_certificate :: "bytes \<Rightarrow> cvc option"
  pl_description :: "bytes \<Rightarrow> description option"
  pl_chat :: "bytes \<Rightarrow> chat option"
  pl_auxiliaryData :: "bytes \<Rightarrow> aux_data option"

definition fromNull :: "string option \<Rightarrow> string" where
  "fromNull t = (case t of None \<Rightarrow> [] | Some s \<Rightarrow> s)"

definition Eac1InputType :: eac1_message where
  "Eac1InputType = \<lparr>e1_cvCertificates = [], e1_descriptionAsBinary = None, e1_description = None,
     e1_requiredChat = None, e1_optionalChat = None, e1_auxiliaryDataAsBinary = [],
     e1_auxiliaryData = None, e1_transactionInfo = []\<rparr>"

text \<open>The local variables of \<open>parseEac1InputType\<close>.\<close>

record eac1_variables =
  v1_certificateDescription :: "string option"
  v1_requiredCHAT :: "string option"
  v1_optionalCHAT :: "string option"
  v1_authenticatedAuxiliaryData :: "string option"
  v1_transactionInfo :: "string option"
  v1_eac1 :: eac1_message

definition readCertificateDescription ::
  "paos_lib \<Rightarrow> eac1_variables \<times> paos_reader \<Rightarrow> eac1_variables \<times> paos_reader" where
  "readCertificateDescription L x =
    (case x of (s, p) \<Rightarrow>
     case readUniqueElementText (v1_certificateDescription s) p of (text, v, p) \<Rightarrow>
       let s = s\<lparr>v1_certificateDescription := v\<rparr>
       in case text of
            None \<Rightarrow> (s, p)
          | Some certDesc \<Rightarrow>
             (let d = pl_description L (fromHex certDesc)
              in (s\<lparr>v1_eac1 := (v1_eac1 s)\<lparr>e1_descriptionAsBinary := Some (fromHex certDesc), e1_description := d\<rparr>\<rparr>,
                  if d = None then parseFailed p else p)))"

definition readRequiredChat ::
  "paos_lib \<Rightarrow> eac1_variables \<times> paos_reader \<Rightarrow> eac1_variables \<times> paos_reader" where
  "readRequiredChat L x =
    (case x of (s, p) \<Rightarrow>
     case readUniqueElementText (v1_requiredCHAT s) p of (text, v, p) \<Rightarrow>
       let s = s\<lparr>v1_requiredCHAT := v\<rparr>
       in case text of
            None \<Rightarrow> (s, p)
          | Some hex \<Rightarrow>
             (let c = pl_chat L (fromHex hex)
              in (s\<lparr>v1_eac1 := (v1_eac1 s)\<lparr>e1_requiredChat := c\<rparr>\<rparr>, if c = None then parseFailed p else p)))"

definition readOptionalChat ::
  "paos_lib \<Rightarrow> eac1_variables \<times> paos_reader \<Rightarrow> eac1_variables \<times> paos_reader" where
  "readOptionalChat L x =
    (case x of (s, p) \<Rightarrow>
     case readUniqueElementText (v1_optionalCHAT s) p of (text, v, p) \<Rightarrow>
       let s = s\<lparr>v1_optionalCHAT := v\<rparr>
       in case text of
            None \<Rightarrow> (s, p)
          | Some hex \<Rightarrow>
             (let c = pl_chat L (fromHex hex)
              in (s\<lparr>v1_eac1 := (v1_eac1 s)\<lparr>e1_optionalChat := c\<rparr>\<rparr>, if c = None then parseFailed p else p)))"

definition readAuxiliaryData ::
  "paos_lib \<Rightarrow> eac1_variables \<times> paos_reader \<Rightarrow> eac1_variables \<times> paos_reader" where
  "readAuxiliaryData L x =
    (case x of (s, p) \<Rightarrow>
     case readUniqueElementText (v1_authenticatedAuxiliaryData s) p of (text, v, p) \<Rightarrow>
       let s = s\<lparr>v1_authenticatedAuxiliaryData := v\<rparr>
       in case text of
            None \<Rightarrow> (s, p)
          | Some hex \<Rightarrow>
             (let a = AuxiliaryData_decode (pl_auxiliaryData L) (fromHex hex)
              in (s\<lparr>v1_eac1 := (v1_eac1 s)\<lparr>e1_auxiliaryDataAsBinary := fromHex hex, e1_auxiliaryData := a\<rparr>\<rparr>,
                  if a = None then parseFailed p else p)))"

definition readTransactionInfo :: "eac1_variables \<times> paos_reader \<Rightarrow> eac1_variables \<times> paos_reader" where
  "readTransactionInfo x =
    (case x of (s, p) \<Rightarrow>
     case readUniqueElementText (v1_transactionInfo s) p of (text, v, p) \<Rightarrow>
       let s = s\<lparr>v1_transactionInfo := v\<rparr>
       in case text of
            None \<Rightarrow> (s, p)
          | Some t \<Rightarrow> (s\<lparr>v1_eac1 := (v1_eac1 s)\<lparr>e1_transactionInfo := t\<rparr>\<rparr>, p))"

definition readCertificate1 ::
  "paos_lib \<Rightarrow> eac1_variables \<times> paos_reader \<Rightarrow> eac1_variables \<times> paos_reader" where
  "readCertificate1 L x =
    (case x of (s, p) \<Rightarrow>
     case readElementText p of (text, p) \<Rightarrow>
       case pl_certificate L (fromHex (fromNull text)) of
         Some cvc \<Rightarrow> (s\<lparr>v1_eac1 := (v1_eac1 s)\<lparr>e1_cvCertificates := e1_cvCertificates (v1_eac1 s) @ [cvc]\<rparr>\<rparr>, p)
       | None \<Rightarrow> (s, parseFailed p))"

definition eac1Element ::
  "paos_lib \<Rightarrow> string \<Rightarrow> xml_attribute list \<Rightarrow> eac1_variables \<times> paos_reader \<Rightarrow> eac1_variables \<times> paos_reader" where
  "eac1Element L name attributes x =
    (if name = ''CertificateDescription'' then readCertificateDescription L x
     else if name = ''RequiredCHAT'' then readRequiredChat L x
     else if name = ''OptionalCHAT'' then readOptionalChat L x
     else if name = ''AuthenticatedAuxiliaryData'' then readAuxiliaryData L x
     else if name = ''TransactionInfo'' then readTransactionInfo x
     else if name = ''Certificate'' then readCertificate1 L x
     else (fst x, skipCurrentElement (snd x)))"

definition parseEac1InputType :: "paos_lib \<Rightarrow> paos_reader \<Rightarrow> eac1_message \<times> paos_reader" where
  "parseEac1InputType L p =
    (case forChildren (eac1Element L)
            (\<lparr>v1_certificateDescription = None, v1_requiredCHAT = None, v1_optionalCHAT = None,
              v1_authenticatedAuxiliaryData = None, v1_transactionInfo = None, v1_eac1 = Eac1InputType\<rparr>, p) of
       (s, p) \<Rightarrow> (v1_eac1 s, if e1_cvCertificates (v1_eac1 s) = [] then parseFailed p else p))"

text \<open>For EAC2: the message of the workflow and the certificates as they were sent.\<close>

record eac2_variables =
  v2_ephemeralPublicKey :: "string option"
  v2_signature :: "string option"
  v2_certificates :: "(cvc \<times> bytes) list"

definition readCertificate2 ::
  "paos_lib \<Rightarrow> eac2_variables \<times> paos_reader \<Rightarrow> eac2_variables \<times> paos_reader" where
  "readCertificate2 L x =
    (case x of (s, p) \<Rightarrow>
     case readElementText p of (text, p) \<Rightarrow>
       let hexCvc = fromNull text
       in case pl_certificate L (fromHex hexCvc) of
            Some cvc \<Rightarrow> (s\<lparr>v2_certificates := v2_certificates s @ [(cvc, fromHex hexCvc)]\<rparr>, p)
          | None \<Rightarrow> (s, parseFailed p))"

definition eac2Element ::
  "paos_lib \<Rightarrow> string \<Rightarrow> xml_attribute list \<Rightarrow> eac2_variables \<times> paos_reader \<Rightarrow> eac2_variables \<times> paos_reader" where
  "eac2Element L name attributes x =
    (if name = ''Certificate'' then readCertificate2 L x
     else if name = ''EphemeralPublicKey'' then setUnique v2_ephemeralPublicKey (\<lambda>v s. s\<lparr>v2_ephemeralPublicKey := v\<rparr>) x
     else if name = ''Signature'' then setUnique v2_signature (\<lambda>v s. s\<lparr>v2_signature := v\<rparr>) x
     else (fst x, skipCurrentElement (snd x)))"

definition Eac2InputType :: "eac2_variables \<Rightarrow> eac2_message" where
  "Eac2InputType s = \<lparr>e2_cvCertificates = map fst (v2_certificates s),
     e2_ephemeralPublicKey = fromNull (v2_ephemeralPublicKey s), e2_signature = fromNull (v2_signature s)\<rparr>"

definition noEac2Variables :: eac2_variables where
  "noEac2Variables = \<lparr>v2_ephemeralPublicKey = None, v2_signature = None, v2_certificates = []\<rparr>"

definition parseEac2InputType :: "paos_lib \<Rightarrow> paos_reader \<Rightarrow> (eac2_message \<times> bytes list) \<times> paos_reader" where
  "parseEac2InputType L p =
    (case forChildren (eac2Element L) (noEac2Variables, p) of
       (s, p) \<Rightarrow> ((Eac2InputType s, map snd (v2_certificates s)),
                  if v2_ephemeralPublicKey s = None then parseFailed p else p))"

definition additionalElement ::
  "string \<Rightarrow> xml_attribute list \<Rightarrow> string option \<times> paos_reader \<Rightarrow> string option \<times> paos_reader" where
  "additionalElement name attributes x =
    (if name = ''Signature'' then setUnique id (\<lambda>v s. v) x
     else (fst x, skipCurrentElement (snd x)))"

definition parseEacAdditionalInputType :: "paos_reader \<Rightarrow> string \<times> paos_reader" where
  "parseEacAdditionalInputType p =
    (case forChildren additionalElement (None, p) of
       (signature, p) \<Rightarrow> (fromNull signature, if signature = None then parseFailed p else p))"

section \<open>The messages\<close>

text \<open>
  The three parsers of \<open>DIDAuthenticate\<close> differ in the type of data that they read. Data of
  another type are not skipped.
\<close>

record 'a did_authenticate =
  da_connectionHandle :: "connection_handle option"
  da_didName :: "string option"
  da_input :: 'a

definition xsiNamespace :: string where
  "xsiNamespace = ''http://www.w3.org/2001/XMLSchema-instance''"

definition attributeValue :: "string \<Rightarrow> string \<Rightarrow> xml_attribute list \<Rightarrow> string" where
  "attributeValue ns name attributes =
    (case filter (\<lambda>(n, a, v). n = ns \<and> a = name) attributes of [] \<Rightarrow> [] | (n, a, v) # _ \<Rightarrow> v)"

definition didAuthenticateElement ::
  "string \<Rightarrow> (paos_reader \<Rightarrow> 'a \<times> paos_reader) \<Rightarrow> string \<Rightarrow> xml_attribute list \<Rightarrow> 'a did_authenticate \<times> paos_reader
     \<Rightarrow> 'a did_authenticate \<times> paos_reader" where
  "didAuthenticateElement inputType parseInput name attributes x =
    (case x of (s, p) \<Rightarrow>
     if name = ''ConnectionHandle'' then
       (if da_connectionHandle s \<noteq> None then (s, parseFailed p)
        else case ConnectionHandleParser_parse p of (h, p) \<Rightarrow> (s\<lparr>da_connectionHandle := Some h\<rparr>, p))
     else if name = ''DIDName'' then setUnique da_didName (\<lambda>v s. s\<lparr>da_didName := v\<rparr>) x
     else if name = ''AuthenticationProtocolData'' then
       (if endsWith (attributeValue xsiNamespace ''type'' attributes) inputType
        then case parseInput p of (i, p) \<Rightarrow> (s\<lparr>da_input := i\<rparr>, p)
        else (s, p))
     else (s, skipCurrentElement p))"

definition parseDidAuthenticate ::
  "string \<Rightarrow> (paos_reader \<Rightarrow> 'a \<times> paos_reader) \<Rightarrow> 'a \<Rightarrow> paos_reader \<Rightarrow> 'a did_authenticate option \<times> paos_reader" where
  "parseDidAuthenticate inputType parseInput noInput p =
    (case forChildren (didAuthenticateElement inputType parseInput)
            (\<lparr>da_connectionHandle = None, da_didName = None, da_input = noInput\<rparr>, p) of
       (s, p) \<Rightarrow> (if pr_error p then None else Some s, p))"

definition DidAuthenticateEac1Parser_parseMessage ::
  "paos_lib \<Rightarrow> paos_reader \<Rightarrow> eac1_message did_authenticate option \<times> paos_reader" where
  "DidAuthenticateEac1Parser_parseMessage L =
    parseDidAuthenticate ''EAC1InputType'' (parseEac1InputType L) Eac1InputType"

definition DidAuthenticateEac2Parser_parseMessage ::
  "paos_lib \<Rightarrow> paos_reader \<Rightarrow> (eac2_message \<times> bytes list) did_authenticate option \<times> paos_reader" where
  "DidAuthenticateEac2Parser_parseMessage L =
    parseDidAuthenticate ''EAC2InputType'' (parseEac2InputType L) (Eac2InputType noEac2Variables, [])"

definition DidAuthenticateEacAdditionalParser_parseMessage ::
  "paos_reader \<Rightarrow> string did_authenticate option \<times> paos_reader" where
  "DidAuthenticateEacAdditionalParser_parseMessage =
    parseDidAuthenticate ''EACAdditionalInputType'' parseEacAdditionalInputType []"

text \<open>
  \<open>parseInputApduInfo\<close>: \<open>ai_returned\<close> is the early return for an element that could not be
  read; the loop ends with it, since the reader is at its end or has an error.
\<close>

record apdu_variables =
  ai_inputApdu :: "string option"
  ai_codes :: "string list"
  ai_returned :: bool

definition inputApduElement ::
  "string \<Rightarrow> xml_attribute list \<Rightarrow> apdu_variables \<times> paos_reader \<Rightarrow> apdu_variables \<times> paos_reader" where
  "inputApduElement name attributes x =
    (case x of (s, p) \<Rightarrow>
     if name = ''InputAPDU'' then
       (case readUniqueElementText (ai_inputApdu s) p of (text, v, p) \<Rightarrow>
          (s\<lparr>ai_inputApdu := v, ai_returned := (text = None)\<rparr>, p))
     else if name = ''AcceptableStatusCode'' then
       (case readElementText p of (text, p) \<Rightarrow> (s\<lparr>ai_codes := ai_codes s @ [fromNull text]\<rparr>, p))
     else (s, skipCurrentElement p))"

definition parseInputApduInfo :: "paos_reader \<Rightarrow> input_apdu option \<times> paos_reader" where
  "parseInputApduInfo p =
    (case forChildren inputApduElement (\<lparr>ai_inputApdu = None, ai_codes = [], ai_returned = False\<rparr>, p) of
       (s, p) \<Rightarrow>
         if ai_returned s then (None, p)
         else case ai_inputApdu s of
                None \<Rightarrow> (None, parseFailed p)
              | Some apdu \<Rightarrow> (Some \<lparr>ia_inputApdu = fromHex apdu, ia_acceptableStatusCodes = ai_codes s\<rparr>, p))"

record transmit_message =
  tm_slotHandle :: "string option"
  tm_inputApduInfos :: "input_apdu list"

definition transmitElement ::
  "string \<Rightarrow> xml_attribute list \<Rightarrow> transmit_message \<times> paos_reader \<Rightarrow> transmit_message \<times> paos_reader" where
  "transmitElement name attributes x =
    (case x of (s, p) \<Rightarrow>
     if name = ''SlotHandle'' then setUnique tm_slotHandle (\<lambda>v s. s\<lparr>tm_slotHandle := v\<rparr>) x
     else if name = ''InputAPDUInfo'' then
       (case parseInputApduInfo p of
          (Some info, p) \<Rightarrow> (s\<lparr>tm_inputApduInfos := tm_inputApduInfos s @ [info]\<rparr>, p)
        | (None, p) \<Rightarrow> (s, p))
     else (s, skipCurrentElement p))"

definition TransmitParser_parseMessage :: "paos_reader \<Rightarrow> transmit_message option \<times> paos_reader" where
  "TransmitParser_parseMessage p =
    (case forChildren transmitElement (\<lparr>tm_slotHandle = None, tm_inputApduInfos = []\<rparr>, p) of
       (s, p) \<Rightarrow> (if pr_error p then None else Some s, p))"

section \<open>The envelope\<close>

record paos_ids =
  pi_messageID :: "string option"
  pi_relatesTo :: "string option"

definition noIds :: paos_ids where
  "noIds = \<lparr>pi_messageID = None, pi_relatesTo = None\<rparr>"

definition headerElement ::
  "string \<Rightarrow> xml_attribute list \<Rightarrow> paos_ids \<times> paos_reader \<Rightarrow> paos_ids \<times> paos_reader" where
  "headerElement name attributes x =
    (case x of (s, p) \<Rightarrow>
     if name = ''MessageID'' then (case readElementText p of (text, p) \<Rightarrow> (s\<lparr>pi_messageID := text\<rparr>, p))
     else if name = ''RelatesTo'' then (case readElementText p of (text, p) \<Rightarrow> (s\<lparr>pi_relatesTo := text\<rparr>, p))
     else (s, skipCurrentElement p))"

definition parseHeader :: "paos_ids \<Rightarrow> paos_reader \<Rightarrow> paos_ids \<times> paos_reader" where
  "parseHeader ids p = forChildren headerElement (ids, p)"

definition bodyElement ::
  "string \<Rightarrow> (paos_reader \<Rightarrow> 'm option \<times> paos_reader) \<Rightarrow> string \<Rightarrow> xml_attribute list \<Rightarrow> 'm option \<times> paos_reader
     \<Rightarrow> 'm option \<times> paos_reader" where
  "bodyElement mMessageName parseMessage name attributes x =
    (case x of (message, p) \<Rightarrow>
     if name = mMessageName then (if message \<noteq> None then (message, parseFailed p) else parseMessage p)
     else (message, skipCurrentElement p))"

definition parseBody ::
  "string \<Rightarrow> (paos_reader \<Rightarrow> 'm option \<times> paos_reader) \<Rightarrow> paos_reader \<Rightarrow> 'm option \<times> paos_reader" where
  "parseBody mMessageName parseMessage p = forChildren (bodyElement mMessageName parseMessage) (None, p)"

definition envelopeElement ::
  "string \<Rightarrow> (paos_reader \<Rightarrow> 'm option \<times> paos_reader) \<Rightarrow> string \<Rightarrow> xml_attribute list
     \<Rightarrow> ('m option \<times> paos_ids) \<times> paos_reader \<Rightarrow> ('m option \<times> paos_ids) \<times> paos_reader" where
  "envelopeElement mMessageName parseMessage name attributes x =
    (case x of ((message, ids), p) \<Rightarrow>
     if name = ''Body'' then
       (if message \<noteq> None then ((message, ids), parseFailed p)
        else case parseBody mMessageName parseMessage p of (message, p) \<Rightarrow> ((message, ids), p))
     else if name = ''Header'' then (case parseHeader ids p of (ids, p) \<Rightarrow> ((message, ids), p))
     else ((message, ids), skipCurrentElement p))"

definition parseEnvelope ::
  "string \<Rightarrow> (paos_reader \<Rightarrow> 'm option \<times> paos_reader) \<Rightarrow> paos_ids \<Rightarrow> paos_reader
     \<Rightarrow> ('m option \<times> paos_ids) \<times> paos_reader" where
  "parseEnvelope mMessageName parseMessage ids p =
    forChildren (envelopeElement mMessageName parseMessage) ((None, ids), p)"

text \<open>
  \<open>PaosParser::parse\<close>: the loop over the elements at the top, which ends with \<open>return nullptr\<close>
  when an envelope is not accepted; \<open>dc_rejected\<close> says that it has ended so.
\<close>

record 'm document =
  dc_message :: "'m option"
  dc_ids :: paos_ids
  dc_rejected :: bool

definition documentElement ::
  "string \<Rightarrow> (paos_reader \<Rightarrow> 'm option \<times> paos_reader) \<Rightarrow> string \<Rightarrow> xml_attribute list
     \<Rightarrow> 'm document \<times> paos_reader \<Rightarrow> 'm document \<times> paos_reader" where
  "documentElement mMessageName parseMessage name attributes x =
    (case x of (s, p) \<Rightarrow>
     if dc_rejected s then (s, p)
     else if name = ''Envelope'' then
       (if dc_message s \<noteq> None then (s\<lparr>dc_rejected := True\<rparr>, parseFailed p)
        else case parseEnvelope mMessageName parseMessage (dc_ids s) p of
               ((message, ids), p) \<Rightarrow>
                 (s\<lparr>dc_message := message, dc_ids := ids, dc_rejected := (message = None)\<rparr>, p))
     else (s, skipCurrentElement p))"

definition PaosParser_parse ::
  "string \<Rightarrow> (paos_reader \<Rightarrow> 'm option \<times> paos_reader) \<Rightarrow> xml_token list \<Rightarrow> ('m \<times> paos_ids) option" where
  "PaosParser_parse mMessageName parseMessage ts =
    (case forChildren (documentElement mMessageName parseMessage)
            (\<lparr>dc_message = None, dc_ids = noIds, dc_rejected = False\<rparr>,
             \<lparr>pr_tokens = OtherToken # ts, pr_error = False\<rparr>) of
       (s, p) \<Rightarrow>
         if dc_rejected s \<or> pr_error p then None
         else map_option (\<lambda>m. (m, dc_ids s)) (dc_message s))"

section \<open>Messages that are detected element by element\<close>

definition handleWSAddressingHeaders :: "string \<Rightarrow> string option \<Rightarrow> paos_ids \<Rightarrow> paos_ids option" where
  "handleWSAddressingHeaders pElementName pValue ids =
    (if pElementName = ''MessageID'' then Some (ids\<lparr>pi_messageID := pValue\<rparr>)
     else if pElementName = ''RelatesTo'' then Some (ids\<lparr>pi_relatesTo := pValue\<rparr>)
     else None)"

definition InitializeFramework_parse :: "xml_token list \<Rightarrow> paos_ids" where
  "InitializeFramework_parse ts =
    detectStartElements
      (\<lambda>name value attributes ids. case handleWSAddressingHeaders name value ids of Some i \<Rightarrow> i | None \<Rightarrow> ids)
      [''RelatesTo'', ''MessageID''] ts noIds"

definition handleFoundElementConnectionHandle :: "string \<Rightarrow> string option \<Rightarrow> connection_handle \<Rightarrow> connection_handle" where
  "handleFoundElementConnectionHandle name value h =
    (if name = ''ContextHandle'' then h\<lparr>ch_contextHandle := value\<rparr>
     else if name = ''IFDName'' then h\<lparr>ch_ifdName := value\<rparr>
     else if name = ''SlotIndex'' then h\<lparr>ch_slotIndex := value\<rparr>
     else if name = ''CardApplication'' then h\<lparr>ch_cardApplication := value\<rparr>
     else if name = ''SlotHandle'' then h\<lparr>ch_slotHandle := value\<rparr>
     else h)"

definition DIDList_parse :: "xml_token list \<Rightarrow> connection_handle \<times> paos_ids" where
  "DIDList_parse ts =
    detectStartElements
      (\<lambda>name value attributes (h, ids).
         case handleWSAddressingHeaders name value ids of
           Some i \<Rightarrow> (h, i)
         | None \<Rightarrow> (handleFoundElementConnectionHandle name value h, ids))
      [''RelatesTo'', ''MessageID'', ''ContextHandle'', ''IFDName'', ''SlotIndex'', ''CardApplication'',
       ''SlotHandle'', ''RecognitionInfo''] ts (ConnectionHandle, noIds)"

definition Disconnect_parse :: "xml_token list \<Rightarrow> string option \<times> paos_ids" where
  "Disconnect_parse ts =
    detectStartElements
      (\<lambda>name value attributes (slotHandle, ids).
         case handleWSAddressingHeaders name value ids of
           Some i \<Rightarrow> (slotHandle, i)
         | None \<Rightarrow> (if name = ''SlotHandle'' then value else slotHandle, ids))
      [''RelatesTo'', ''MessageID'', ''SlotHandle''] ts (None, noIds)"

record start_paos_response =
  sp_resultMajor :: "string option"
  sp_resultMinor :: "string option"
  sp_resultMessage :: "string option"
  sp_ids :: paos_ids

definition startPaosResponseElement ::
  "string \<Rightarrow> string option \<Rightarrow> xml_attribute list \<Rightarrow> start_paos_response \<Rightarrow> start_paos_response" where
  "startPaosResponseElement name value attributes s =
    (case handleWSAddressingHeaders name value (sp_ids s) of
       Some i \<Rightarrow> s\<lparr>sp_ids := i\<rparr>
     | None \<Rightarrow>
        if name = ''ResultMajor'' then s\<lparr>sp_resultMajor := value\<rparr>
        else if name = ''ResultMinor'' then s\<lparr>sp_resultMinor := value\<rparr>
        else if name = ''ResultMessage'' then s\<lparr>sp_resultMessage := value\<rparr>
        else s)"

definition StartPaosResponse_parse :: "xml_token list \<Rightarrow> ecard_result \<times> paos_ids" where
  "StartPaosResponse_parse ts =
    (let s = detectStartElements startPaosResponseElement
               [''RelatesTo'', ''MessageID'', ''ResultMajor'', ''ResultMinor'', ''ResultMessage''] ts
               \<lparr>sp_resultMajor = None, sp_resultMinor = None, sp_resultMessage = None, sp_ids = noIds\<rparr>
     in (ECardApiResultOfStrings (fromNull (sp_resultMajor s)) (fromNull (sp_resultMinor s))
           (fromNull (sp_resultMessage s)) Server, sp_ids s))"

section \<open>The handler\<close>

definition authenticationData :: "string \<Rightarrow> string option \<Rightarrow> xml_attribute list \<Rightarrow> PaosType \<Rightarrow> PaosType" where
  "authenticationData name value attributes mDetectedType =
    foldl (\<lambda>t (n, a, v).
        if endsWith v ''EAC1InputType'' then PT_DID_AUTHENTICATE_EAC1
        else if endsWith v ''EAC2InputType'' then PT_DID_AUTHENTICATE_EAC2
        else if endsWith v ''EACAdditionalInputType'' then PT_DID_AUTHENTICATE_EAC_ADDITIONAL_INPUT_TYPE
        else t) mDetectedType attributes"

text \<open>
  \<open>detect\<close> with \<open>handleFoundElement\<close>. For \<open>DIDAuthenticate\<close> the handler detects the type of
  the data on the same reader, which is at its end then.
\<close>

definition typeOfElement :: "string \<Rightarrow> PaosType option" where
  "typeOfElement name =
    (if name = ''InitializeFramework'' then Some PT_INITIALIZE_FRAMEWORK
     else if name = ''DIDList'' then Some PT_DID_LIST
     else if name = ''Transmit'' then Some PT_TRANSMIT
     else if name = ''Disconnect'' then Some PT_DISCONNECT
     else if name = ''StartPAOSResponse'' then Some PT_STARTPAOS_RESPONSE
     else None)"

function detectPaosType :: "xml_token list \<Rightarrow> PaosType \<Rightarrow> PaosType" where
  "detectPaosType [] t = t"
| "detectPaosType (StartElement name attributes # ts) t =
    (if name = ''DIDAuthenticate''
     then detectStartElements authenticationData [''AuthenticationProtocolData''] ts t
     else case typeOfElement name of
            Some u \<Rightarrow> detectPaosType (tl ts) u
          | None \<Rightarrow> detectPaosType ts t)"
| "detectPaosType (EndElement # ts) t = detectPaosType ts t"
| "detectPaosType (Characters s # ts) t = detectPaosType ts t"
| "detectPaosType (OtherToken # ts) t = detectPaosType ts t"
  by pat_completeness auto

termination by (relation "measure (\<lambda>(ts, t). length ts)") (auto simp: less_Suc_eq_le)

datatype paos_content =
    PC_InitializeFramework
  | PC_DIDList connection_handle
  | PC_Eac1 "eac1_message did_authenticate"
  | PC_Eac2 "(eac2_message \<times> bytes list) did_authenticate"
  | PC_EacAdditional "string did_authenticate"
  | PC_Transmit transmit_message
  | PC_Disconnect "string option"
  | PC_StartPaosResponse ecard_result

text \<open>The constructor \<open>PaosHandler\<close>: the type it reports and the message.\<close>

definition parsedMessage :: "paos_lib \<Rightarrow> PaosType \<Rightarrow> xml_token list \<Rightarrow> (paos_content \<times> paos_ids) option" where
  "parsedMessage L mDetectedType ts =
    (case mDetectedType of
       PT_INITIALIZE_FRAMEWORK \<Rightarrow> Some (PC_InitializeFramework, InitializeFramework_parse ts)
     | PT_DID_LIST \<Rightarrow> (case DIDList_parse ts of (h, ids) \<Rightarrow> Some (PC_DIDList h, ids))
     | PT_DID_AUTHENTICATE_EAC1 \<Rightarrow>
         map_option (map_prod PC_Eac1 id)
           (PaosParser_parse ''DIDAuthenticate'' (DidAuthenticateEac1Parser_parseMessage L) ts)
     | PT_DID_AUTHENTICATE_EAC2 \<Rightarrow>
         map_option (map_prod PC_Eac2 id)
           (PaosParser_parse ''DIDAuthenticate'' (DidAuthenticateEac2Parser_parseMessage L) ts)
     | PT_DID_AUTHENTICATE_EAC_ADDITIONAL_INPUT_TYPE \<Rightarrow>
         map_option (map_prod PC_EacAdditional id)
           (PaosParser_parse ''DIDAuthenticate'' DidAuthenticateEacAdditionalParser_parseMessage ts)
     | PT_TRANSMIT \<Rightarrow>
         map_option (map_prod PC_Transmit id) (PaosParser_parse ''Transmit'' TransmitParser_parseMessage ts)
     | PT_DISCONNECT \<Rightarrow> (case Disconnect_parse ts of (slot, ids) \<Rightarrow> Some (PC_Disconnect slot, ids))
     | PT_STARTPAOS_RESPONSE \<Rightarrow> (case StartPaosResponse_parse ts of (r, ids) \<Rightarrow> Some (PC_StartPaosResponse r, ids))
     | _ \<Rightarrow> None)"

definition PaosHandler :: "paos_lib \<Rightarrow> xml_token list \<Rightarrow> PaosType \<times> (paos_content \<times> paos_ids) option" where
  "PaosHandler L ts =
    (let mDetectedType = detectPaosType ts PT_UNKNOWN_MESSAGE
     in case parsedMessage L mDetectedType ts of
          None \<Rightarrow> (PT_UNKNOWN_MESSAGE, None)
        | Some m \<Rightarrow> (mDetectedType, Some m))"

text \<open>What the workflow sees of a message.\<close>

fun messageOf :: "paos_content \<Rightarrow> paos_message" where
  "messageOf PC_InitializeFramework = InitializeFramework"
| "messageOf (PC_DIDList h) = DIDList"
| "messageOf (PC_Eac1 d) = DIDAuthenticateEAC1 (da_input d)"
| "messageOf (PC_Eac2 d) = DIDAuthenticateEAC2 (fst (da_input d))"
| "messageOf (PC_EacAdditional d) = DIDAuthenticateEACAdditional (da_input d)"
| "messageOf (PC_Transmit t) = TransmitMessage (tm_inputApduInfos t)"
| "messageOf (PC_Disconnect slot) = Disconnect"
| "messageOf (PC_StartPaosResponse r) = StartPaosResponse r"

section \<open>Fuel\<close>

text \<open>A handler of elements that does not give tokens back.\<close>

definition consumes :: "(string \<Rightarrow> xml_attribute list \<Rightarrow> 's \<times> paos_reader \<Rightarrow> 's \<times> paos_reader) \<Rightarrow> bool" where
  "consumes body \<longleftrightarrow> (\<forall>name as s p. length (pr_tokens (snd (body name as (s, p)))) \<le> length (pr_tokens p))"

lemma length_seekElement: "length (seekElement ts) \<le> length ts"
  by (induction ts rule: seekElement.induct) auto

lemma length_skipElement: "length (skipElement d ts) \<le> length ts"
  by (induction d ts rule: skipElement.induct) auto

lemma length_collectText: "length (snd (collectText t ts)) \<le> length ts"
  by (induction t ts rule: collectText.induct) auto

lemma readNextStartElement_shorter:
  assumes "readNextStartElement p = (Some x, q)"
  shows "length (pr_tokens q) < length (pr_tokens p)"
proof -
  have q: "pr_tokens q = seekElement (tl (pr_tokens p))" "pr_tokens q \<noteq> []"
    using assms by (auto simp: readNextStartElement_def Let_def split: if_splits list.splits xml_token.splits)
  then have "tl (pr_tokens p) \<noteq> []" by auto
  then have "length (tl (pr_tokens p)) < length (pr_tokens p)" by (cases "pr_tokens p") auto
  then show ?thesis using q(1) length_seekElement [of "tl (pr_tokens p)"] by simp
qed

theorem readChildren_enough:
  assumes "consumes body" "length (pr_tokens p) \<le> n"
  shows "readChildren (n + k) body (s, p) = readChildren n body (s, p)"
  using assms(2)
proof (induction n arbitrary: s p)
  case 0
  then have "readNextStartElement p = (None, if pr_error p then p else p\<lparr>pr_tokens := []\<rparr>)"
    by (simp add: readNextStartElement_def)
  then show ?case
    using 0 by (cases k) simp_all
next
  case (Suc n)
  show ?case
  proof (cases "readNextStartElement p")
    case (Pair x q)
    show ?thesis
    proof (cases x)
      case (Some y)
      obtain s' q' where b: "body (fst y) (snd y) (s, q) = (s', q')" by force
      then have "length (pr_tokens q') \<le> length (pr_tokens q)"
        using assms(1) unfolding consumes_def by (metis snd_conv)
      then have "length (pr_tokens q') \<le> n"
        using readNextStartElement_shorter [of p y q] Pair Some Suc.prems by simp
      then show ?thesis
        using Suc.IH Pair Some b by (cases y) simp
    qed (simp add: Pair)
  qed
qed

named_theorems consumes_intros
named_theorems no_longer

lemma consumesI:
  assumes "\<And>name as s p. length (pr_tokens (snd (body name as (s, p)))) \<le> length (pr_tokens p)"
  shows "consumes body"
  using assms by (simp add: consumes_def)

lemma readChildren_consumes:
  assumes "consumes body"
  shows "length (pr_tokens (snd (readChildren n body (s, p)))) \<le> length (pr_tokens p)"
proof (induction n arbitrary: s p)
  case (Suc n)
  show ?case
  proof (cases "readNextStartElement p")
    case (Pair x q)
    have q: "length (pr_tokens q) \<le> length (pr_tokens p)"
      using Pair length_seekElement [of "tl (pr_tokens p)"]
      by (auto simp: readNextStartElement_def Let_def split: if_splits)
    show ?thesis
    proof (cases x)
      case (Some y)
      obtain s' q' where b: "body (fst y) (snd y) (s, q) = (s', q')" by force
      then have "length (pr_tokens q') \<le> length (pr_tokens q)"
        using assms unfolding consumes_def by (metis snd_conv)
      then show ?thesis using Suc.IH [of s' q'] Pair Some b q by (cases y) simp
    qed (use Pair q in simp)
  qed
qed simp

lemma forChildren_consumes:
  "consumes body \<Longrightarrow> length (pr_tokens (snd (forChildren body (s, p)))) \<le> length (pr_tokens p)"
  unfolding forChildren_def by (rule readChildren_consumes)

lemma skipCurrentElement_consumes [no_longer]: "length (pr_tokens (skipCurrentElement p)) \<le> length (pr_tokens p)"
  using length_skipElement [of 1 "tl (pr_tokens p)"] by (simp add: skipCurrentElement_def)

lemma readElementText_consumes [no_longer]:
  "length (pr_tokens (snd (readElementText p))) \<le> length (pr_tokens p)"
  using length_collectText [of "[]" "tl (pr_tokens p)"] by (simp add: readElementText_def case_prod_beta)

lemma readUniqueElementText_consumes [no_longer]:
  "length (pr_tokens (snd (snd (readUniqueElementText v p)))) \<le> length (pr_tokens p)"
  by (simp add: readUniqueElementText_def case_prod_beta no_longer)

lemma setUnique_consumes [no_longer]: "length (pr_tokens (snd (setUnique get put (s, p)))) \<le> length (pr_tokens p)"
  by (simp add: setUnique_def case_prod_beta no_longer)

lemma parseFailed_simps [simp]: "pr_tokens (parseFailed p) = pr_tokens p" "pr_error (parseFailed p)"
  by (simp_all add: parseFailed_def)

lemma if_tokens [simp]: "pr_tokens (if b then p else q) = (if b then pr_tokens p else pr_tokens q)"
  by simp

lemma connectionHandleElement_consumes [consumes_intros]: "consumes connectionHandleElement"
  by (rule consumesI) (simp add: connectionHandleElement_def no_longer)

lemma ConnectionHandleParser_consumes [no_longer]:
  "length (pr_tokens (snd (ConnectionHandleParser_parse p))) \<le> length (pr_tokens p)"
  using forChildren_consumes [OF connectionHandleElement_consumes, of ConnectionHandle "p\<lparr>pr_error := False\<rparr>"]
  by (simp add: ConnectionHandleParser_parse_def case_prod_beta)

lemma readEac1_consumes [no_longer]:
  "length (pr_tokens (snd (readCertificateDescription L (s, p)))) \<le> length (pr_tokens p)"
  "length (pr_tokens (snd (readRequiredChat L (s, p)))) \<le> length (pr_tokens p)"
  "length (pr_tokens (snd (readOptionalChat L (s, p)))) \<le> length (pr_tokens p)"
  "length (pr_tokens (snd (readAuxiliaryData L (s, p)))) \<le> length (pr_tokens p)"
  "length (pr_tokens (snd (readTransactionInfo (s, p)))) \<le> length (pr_tokens p)"
  "length (pr_tokens (snd (readCertificate1 L (s, p)))) \<le> length (pr_tokens p)"
  by (simp_all add: readCertificateDescription_def readRequiredChat_def readOptionalChat_def
      readAuxiliaryData_def readTransactionInfo_def readCertificate1_def no_longer Let_def case_prod_beta
      split: option.split)

lemma eac1Element_consumes [consumes_intros]: "consumes (eac1Element L)"
  by (rule consumesI) (simp add: eac1Element_def no_longer)

lemma eac2Element_consumes [consumes_intros]: "consumes (eac2Element L)"
  by (rule consumesI)
    (simp add: eac2Element_def readCertificate2_def no_longer Let_def case_prod_beta split: option.split)

lemma additionalElement_consumes [consumes_intros]: "consumes additionalElement"
  by (rule consumesI) (simp add: additionalElement_def no_longer)

lemma inputApduElement_consumes [consumes_intros]: "consumes inputApduElement"
  by (rule consumesI) (simp add: inputApduElement_def no_longer case_prod_beta)

lemma headerElement_consumes [consumes_intros]: "consumes headerElement"
  by (rule consumesI) (simp add: headerElement_def no_longer case_prod_beta)

lemma parseInputs_consume [no_longer]:
  "length (pr_tokens (snd (parseEac1InputType L p))) \<le> length (pr_tokens p)"
  "length (pr_tokens (snd (parseEac2InputType L p))) \<le> length (pr_tokens p)"
  "length (pr_tokens (snd (parseEacAdditionalInputType p))) \<le> length (pr_tokens p)"
  "length (pr_tokens (snd (parseInputApduInfo p))) \<le> length (pr_tokens p)"
  by (simp_all add: parseEac1InputType_def parseEac2InputType_def parseEacAdditionalInputType_def
      parseInputApduInfo_def case_prod_beta forChildren_consumes consumes_intros split: option.split)

lemma didAuthenticateElement_consumes [consumes_intros]:
  assumes "\<And>p. length (pr_tokens (snd (parseInput p))) \<le> length (pr_tokens p)"
  shows "consumes (didAuthenticateElement t parseInput)"
  by (rule consumesI) (simp add: didAuthenticateElement_def no_longer assms case_prod_beta)

lemma parseDidAuthenticate_consumes:
  assumes "\<And>p. length (pr_tokens (snd (parseInput p))) \<le> length (pr_tokens p)"
  shows "length (pr_tokens (snd (parseDidAuthenticate t parseInput n p))) \<le> length (pr_tokens p)"
  by (simp add: parseDidAuthenticate_def case_prod_beta forChildren_consumes didAuthenticateElement_consumes assms)

lemma transmitElement_consumes [consumes_intros]: "consumes transmitElement"
  by (rule consumesI) (simp add: transmitElement_def no_longer case_prod_beta split: option.split)

lemma parseMessages_consume [no_longer]:
  "length (pr_tokens (snd (DidAuthenticateEac1Parser_parseMessage L p))) \<le> length (pr_tokens p)"
  "length (pr_tokens (snd (DidAuthenticateEac2Parser_parseMessage L p))) \<le> length (pr_tokens p)"
  "length (pr_tokens (snd (DidAuthenticateEacAdditionalParser_parseMessage p))) \<le> length (pr_tokens p)"
  "length (pr_tokens (snd (TransmitParser_parseMessage p))) \<le> length (pr_tokens p)"
  by (simp_all add: DidAuthenticateEac1Parser_parseMessage_def DidAuthenticateEac2Parser_parseMessage_def
      DidAuthenticateEacAdditionalParser_parseMessage_def TransmitParser_parseMessage_def
      parseDidAuthenticate_consumes no_longer case_prod_beta forChildren_consumes consumes_intros)

lemma bodyElement_consumes [consumes_intros]:
  assumes "\<And>p. length (pr_tokens (snd (parseMessage p))) \<le> length (pr_tokens p)"
  shows "consumes (bodyElement n parseMessage)"
  by (rule consumesI) (simp add: bodyElement_def no_longer assms case_prod_beta)

lemma envelopeElement_consumes [consumes_intros]:
  assumes "\<And>p. length (pr_tokens (snd (parseMessage p))) \<le> length (pr_tokens p)"
  shows "consumes (envelopeElement n parseMessage)"
  by (rule consumesI)
    (simp add: envelopeElement_def parseBody_def parseHeader_def no_longer case_prod_beta
      forChildren_consumes bodyElement_consumes headerElement_consumes assms)

lemma documentElement_consumes [consumes_intros]:
  assumes "\<And>p. length (pr_tokens (snd (parseMessage p))) \<le> length (pr_tokens p)"
  shows "consumes (documentElement n parseMessage)"
  by (rule consumesI)
    (simp add: documentElement_def parseEnvelope_def no_longer case_prod_beta
      forChildren_consumes envelopeElement_consumes assms)

text \<open>
  The loop of the code itself, without fuel, as a relation: it stops when there is no next child, and only then. It relates
  a start to its end and to the number of its turns, so a loop that goes on for ever is not in it.
\<close>

inductive childrenRead ::
  "(string \<Rightarrow> xml_attribute list \<Rightarrow> 's \<times> paos_reader \<Rightarrow> 's \<times> paos_reader) \<Rightarrow> nat
     \<Rightarrow> 's \<times> paos_reader \<Rightarrow> 's \<times> paos_reader \<Rightarrow> bool" for body where
  stop: "readNextStartElement p = (None, q) \<Longrightarrow> childrenRead body 0 (s, p) (s, q)"
| turn: "readNextStartElement p = (Some (name, attributes), q) \<Longrightarrow>
    childrenRead body n (body name attributes (s, q)) y \<Longrightarrow> childrenRead body (Suc n) (s, p) y"

definition loopEnds :: "(string \<Rightarrow> xml_attribute list \<Rightarrow> 's \<times> paos_reader \<Rightarrow> 's \<times> paos_reader) \<Rightarrow> bool" where
  "loopEnds body \<longleftrightarrow> (\<forall>s p. \<exists>n \<le> length (pr_tokens p). childrenRead body n (s, p) (forChildren body (s, p)))"

text \<open>The relation is a function, so that the loop of the code has no other end.\<close>

lemma childrenRead_unique: "childrenRead body n x y \<Longrightarrow> childrenRead body m x z \<Longrightarrow> n = m \<and> y = z"
proof (induction arbitrary: m z rule: childrenRead.induct)
  case (stop p q s)
  from stop(2,1) show ?case by (cases rule: childrenRead.cases) simp_all
next
  case (turn p name attributes q n s y)
  from turn(4,1,3) show ?case by (cases rule: childrenRead.cases) auto
qed

lemma readChildren_reads:
  assumes "consumes body" "length (pr_tokens p) \<le> n"
  shows "\<exists>k \<le> length (pr_tokens p). childrenRead body k (s, p) (readChildren (Suc n) body (s, p))"
  using assms(2)
proof (induction n arbitrary: s p)
  case 0
  then have "readNextStartElement p = (None, if pr_error p then p else p\<lparr>pr_tokens := []\<rparr>)"
    by (simp add: readNextStartElement_def)
  then show ?case by (intro exI [of _ 0]) (simp add: childrenRead.stop)
next
  case (Suc n)
  obtain x q where r: "readNextStartElement p = (x, q)" by force
  show ?case
  proof (cases x)
    case None
    then show ?thesis using r by (intro exI [of _ 0]) (simp add: childrenRead.stop)
  next
    case (Some y)
    obtain s' q' where b: "body (fst y) (snd y) (s, q) = (s', q')" by force
    then have "length (pr_tokens q') \<le> length (pr_tokens q)"
      using assms(1) unfolding consumes_def by (metis snd_conv)
    then have l: "length (pr_tokens q') < length (pr_tokens p)"
      using readNextStartElement_shorter r Some by fastforce
    then obtain k where k: "k \<le> length (pr_tokens q')" "childrenRead body k (s', q') (readChildren (Suc n) body (s', q'))"
      using Suc.IH [of q' s'] Suc.prems by auto
    have "readChildren (Suc (Suc n)) body (s, p) = readChildren (Suc n) body (s', q')"
      using r Some b by (cases y) (simp only: readChildren.simps(2) [of "Suc n"] case_prod_conv option.case fst_conv snd_conv)
    moreover have "childrenRead body (Suc k) (s, p) (readChildren (Suc n) body (s', q'))"
      using r Some b k(2) by (cases y) (auto simp del: readChildren.simps intro: childrenRead.turn)
    ultimately show ?thesis using k(1) l by (metis Suc_leI le_less_trans)
  qed
qed

lemma consumes_ends: "consumes body \<Longrightarrow> loopEnds body"
  unfolding loopEnds_def forChildren_def snd_conv Suc_eq_plus1 [symmetric]
  by (intro allI readChildren_reads [OF _ order_refl])

text \<open>
  C36. Reading a message ends, whatever the server sends: each loop over children in the parsers, run as the code has
  it until there is no next child, comes to this end within as many turns as there are tokens left,
  from every state and every place in the document, and its result is that of the function of the model. This holds for the
  connection handle, the inputs of EAC and their message, the commands, the header, the body, the envelope and the
  document, with each of the messages that they are used for.
\<close>

theorem reading_ends_with_the_input:
  "loopEnds connectionHandleElement \<and> loopEnds (eac1Element L) \<and> loopEnds (eac2Element L) \<and> loopEnds additionalElement \<and>
   loopEnds (didAuthenticateElement ''EAC1InputType'' (parseEac1InputType L)) \<and>
   loopEnds (didAuthenticateElement ''EAC2InputType'' (parseEac2InputType L)) \<and>
   loopEnds (didAuthenticateElement ''EACAdditionalInputType'' parseEacAdditionalInputType) \<and>
   loopEnds inputApduElement \<and> loopEnds transmitElement \<and> loopEnds headerElement \<and>
   loopEnds (bodyElement ''DIDAuthenticate'' (DidAuthenticateEac1Parser_parseMessage L)) \<and>
   loopEnds (bodyElement ''DIDAuthenticate'' (DidAuthenticateEac2Parser_parseMessage L)) \<and>
   loopEnds (bodyElement ''DIDAuthenticate'' DidAuthenticateEacAdditionalParser_parseMessage) \<and>
   loopEnds (bodyElement ''Transmit'' TransmitParser_parseMessage) \<and>
   loopEnds (envelopeElement ''DIDAuthenticate'' (DidAuthenticateEac1Parser_parseMessage L)) \<and>
   loopEnds (envelopeElement ''DIDAuthenticate'' (DidAuthenticateEac2Parser_parseMessage L)) \<and>
   loopEnds (envelopeElement ''DIDAuthenticate'' DidAuthenticateEacAdditionalParser_parseMessage) \<and>
   loopEnds (envelopeElement ''Transmit'' TransmitParser_parseMessage) \<and>
   loopEnds (documentElement ''DIDAuthenticate'' (DidAuthenticateEac1Parser_parseMessage L)) \<and>
   loopEnds (documentElement ''DIDAuthenticate'' (DidAuthenticateEac2Parser_parseMessage L)) \<and>
   loopEnds (documentElement ''DIDAuthenticate'' DidAuthenticateEacAdditionalParser_parseMessage) \<and>
   loopEnds (documentElement ''Transmit'' TransmitParser_parseMessage)"
  by (intro conjI consumes_ends consumes_intros no_longer)

section \<open>What a message that is accepted can be\<close>

lemma readNextStartElement_error [simp]: "pr_error (snd (readNextStartElement p)) = pr_error p"
  by (simp add: readNextStartElement_def Let_def)

lemma readChildren_inv:
  assumes "I s (pr_error p)"
    and "\<And>name as s p. I s (pr_error p) \<Longrightarrow> I (fst (body name as (s, p))) (pr_error (snd (body name as (s, p))))"
  shows "I (fst (readChildren n body (s, p))) (pr_error (snd (readChildren n body (s, p))))"
  using assms(1)
proof (induction n arbitrary: s p)
  case (Suc n)
  obtain x q where r: "readNextStartElement p = (x, q)" by force
  then have q: "pr_error q = pr_error p" using readNextStartElement_error [of p] by simp
  show ?case
  proof (cases x)
    case (Some y)
    obtain s' q' where b: "body (fst y) (snd y) (s, q) = (s', q')" by force
    then have "I s' (pr_error q')"
      using assms(2) [of s q "fst y" "snd y"] Suc.prems q by simp
    then show ?thesis using Suc.IH r Some b by (cases y) simp
  qed (use Suc.prems r q in simp)
qed simp

lemma forChildren_inv:
  assumes "forChildren body (s, p) = (t, q)" "I s (pr_error p)"
    and "\<And>name as s p. I s (pr_error p) \<Longrightarrow> I (fst (body name as (s, p))) (pr_error (snd (body name as (s, p))))"
  shows "I t (pr_error q)"
  using readChildren_inv [of I s p body "length (pr_tokens p) + 1"] assms by (simp add: forChildren_def)

text \<open>
  Every value of an input of EAC1 has been decoded, and the description is there when it was sent,
  unless there was an error.
\<close>

definition eac1Readable :: "paos_lib \<Rightarrow> eac1_message \<Rightarrow> bool \<Rightarrow> bool" where
  "eac1Readable L m err \<longleftrightarrow>
     e1_description m = Option.bind (e1_descriptionAsBinary m) (pl_description L) \<and>
     (err \<or> e1_descriptionAsBinary m = None \<or> e1_description m \<noteq> None) \<and>
     (\<forall>c \<in> set (e1_cvCertificates m). \<exists>b. pl_certificate L b = Some c)"

lemma eac1Readable_error: "eac1Readable L m e \<Longrightarrow> e \<longrightarrow> e' \<Longrightarrow> eac1Readable L m e'"
  by (auto simp: eac1Readable_def)

lemma eac1Readable_init [simp]: "eac1Readable L Eac1InputType e"
  by (simp add: eac1Readable_def Eac1InputType_def)

lemma readElementText_error [simp]: "pr_error (snd (readElementText p)) = pr_error p"
  by (simp add: readElementText_def case_prod_beta)

lemma readUniqueElementText_error [simp]:
  "pr_error (snd (snd (readUniqueElementText v p))) = (pr_error p \<or> v \<noteq> None)"
  by (simp add: readUniqueElementText_def case_prod_beta)

lemma skipCurrentElement_error [simp]: "pr_error (skipCurrentElement p) = pr_error p"
  by (simp add: skipCurrentElement_def)

lemma if_error [simp]: "pr_error (if b then p else q) = (if b then pr_error p else pr_error q)"
  by simp

lemma setUnique_error: "pr_error (snd (setUnique get put (s, p))) = (pr_error p \<or> get s \<noteq> None)"
  by (simp add: setUnique_def case_prod_beta)

lemma ConnectionHandleParser_error [simp]: "pr_error (snd (ConnectionHandleParser_parse p)) = pr_error p"
  by (simp add: ConnectionHandleParser_parse_def case_prod_beta)

lemma readCertificateDescription_readable:
  assumes "eac1Readable L (v1_eac1 s) (pr_error p)"
  shows "eac1Readable L (v1_eac1 (fst (readCertificateDescription L (s, p))))
    (pr_error (snd (readCertificateDescription L (s, p))))"
proof -
  obtain t v q where r: "readUniqueElementText (v1_certificateDescription s) p = (t, v, q)"
    using prod_cases3 by blast
  then have q: "pr_error q = (pr_error p \<or> v1_certificateDescription s \<noteq> None)"
    using readUniqueElementText_error [of "v1_certificateDescription s" p] by simp
  show ?thesis
    using assms by (cases t) (auto simp: readCertificateDescription_def r q eac1Readable_def Let_def)
qed

lemma readEac1_readable:
  assumes "eac1Readable L (v1_eac1 s) (pr_error p)"
  shows "eac1Readable L (v1_eac1 (fst (readRequiredChat L (s, p)))) (pr_error (snd (readRequiredChat L (s, p))))"
    "eac1Readable L (v1_eac1 (fst (readOptionalChat L (s, p)))) (pr_error (snd (readOptionalChat L (s, p))))"
    "eac1Readable L (v1_eac1 (fst (readAuxiliaryData L (s, p)))) (pr_error (snd (readAuxiliaryData L (s, p))))"
    "eac1Readable L (v1_eac1 (fst (readTransactionInfo (s, p)))) (pr_error (snd (readTransactionInfo (s, p))))"
    "eac1Readable L (v1_eac1 (fst (readCertificate1 L (s, p)))) (pr_error (snd (readCertificate1 L (s, p))))"
  using assms
  by (auto simp: readRequiredChat_def readOptionalChat_def readAuxiliaryData_def readTransactionInfo_def
      readCertificate1_def eac1Readable_def Let_def case_prod_beta split: option.split)

lemma eac1Element_readable:
  assumes "eac1Readable L (v1_eac1 s) (pr_error p)"
  shows "eac1Readable L (v1_eac1 (fst (eac1Element L name as (s, p)))) (pr_error (snd (eac1Element L name as (s, p))))"
  using assms by (simp add: eac1Element_def readCertificateDescription_readable readEac1_readable)

lemma parseEac1InputType_readable:
  "eac1Readable L (fst (parseEac1InputType L p)) (pr_error (snd (parseEac1InputType L p)))"
proof -
  obtain s q where f: "forChildren (eac1Element L)
      (\<lparr>v1_certificateDescription = None, v1_requiredCHAT = None, v1_optionalCHAT = None,
        v1_authenticatedAuxiliaryData = None, v1_transactionInfo = None, v1_eac1 = Eac1InputType\<rparr>, p) = (s, q)"
    by force
  have "eac1Readable L (v1_eac1 s) (pr_error q)"
    by (rule forChildren_inv [OF f, where I = "\<lambda>s. eac1Readable L (v1_eac1 s)"])
      (simp_all add: eac1Element_readable)
  then show ?thesis
    by (auto simp: parseEac1InputType_def f intro: eac1Readable_error)
qed

lemma didAuthenticateElement_inv:
  assumes "I (da_input s) (pr_error p)"
    and "\<And>p. I (fst (parseInput p)) (pr_error (snd (parseInput p)))"
    and "\<And>i e e'. I i e \<Longrightarrow> e \<longrightarrow> e' \<Longrightarrow> I i e'"
  shows "I (da_input (fst (didAuthenticateElement t parseInput name as (s, p))))
    (pr_error (snd (didAuthenticateElement t parseInput name as (s, p))))"
  using assms(1,2) assms(3) [OF assms(1)]
  by (auto simp: didAuthenticateElement_def setUnique_def case_prod_beta)

lemma parseDidAuthenticate_inv:
  assumes "parseDidAuthenticate t parseInput noInput p = (Some d, q)" "\<And>e. I noInput e"
    and "\<And>p. I (fst (parseInput p)) (pr_error (snd (parseInput p)))"
    and "\<And>i e e'. I i e \<Longrightarrow> e \<longrightarrow> e' \<Longrightarrow> I i e'"
  shows "I (da_input d) False"
proof -
  obtain s r where f: "forChildren (didAuthenticateElement t parseInput)
      (\<lparr>da_connectionHandle = None, da_didName = None, da_input = noInput\<rparr>, p) = (s, r)"
    by force
  have "I (da_input s) (pr_error r)"
    by (rule forChildren_inv [OF f, where I = "\<lambda>s. I (da_input s)"])
      (simp_all add: assms(2) didAuthenticateElement_inv assms(3,4))
  then show ?thesis
    using assms(1) by (simp add: parseDidAuthenticate_def f split: if_splits)
qed

lemma PaosParser_parse_inv:
  assumes "PaosParser_parse n parseMessage ts = Some (m, ids)"
    and P: "\<And>p m q. parseMessage p = (Some m, q) \<Longrightarrow> P m"
  shows "P m"
proof -
  have body: "\<forall>x. fst (parseBody n parseMessage p) = Some x \<longrightarrow> P x" for p
    unfolding parseBody_def
    by (rule forChildren_inv [where I = "\<lambda>m e. \<forall>x. m = Some x \<longrightarrow> P x", OF surjective_pairing])
      (use P in \<open>auto simp: bodyElement_def prod_eq_iff\<close>)
  have envelope: "\<forall>x. fst (fst (parseEnvelope n parseMessage ids p)) = Some x \<longrightarrow> P x" for ids p
    unfolding parseEnvelope_def
    by (rule forChildren_inv [where I = "\<lambda>s e. \<forall>x. fst s = Some x \<longrightarrow> P x", OF surjective_pairing])
      (use body in \<open>auto simp: envelopeElement_def case_prod_beta\<close>)
  obtain s p where f: "forChildren (documentElement n parseMessage)
      (\<lparr>dc_message = None, dc_ids = noIds, dc_rejected = False\<rparr>,
       \<lparr>pr_tokens = OtherToken # ts, pr_error = False\<rparr>) = (s, p)"
    by force
  have "\<forall>x. dc_message s = Some x \<longrightarrow> P x"
    by (rule forChildren_inv [OF f, where I = "\<lambda>s e. \<forall>x. dc_message s = Some x \<longrightarrow> P x"])
      (use envelope in \<open>auto simp: documentElement_def case_prod_beta\<close>)
  then show ?thesis
    using assms(1) by (auto simp: PaosParser_parse_def f split: if_splits)
qed

lemma parsed_eac1_readable:
  assumes "snd (PaosHandler L ts) = Some (PC_Eac1 d, ids)"
  shows "eac1Readable L (da_input d) False"
proof -
  have "PaosParser_parse ''DIDAuthenticate'' (DidAuthenticateEac1Parser_parseMessage L) ts = Some (d, ids)"
    using assms
    by (auto simp: PaosHandler_def parsedMessage_def Let_def split: option.splits PaosType.splits prod.splits)
  then show ?thesis
    by (rule PaosParser_parse_inv)
      (auto simp: DidAuthenticateEac1Parser_parseMessage_def parseEac1InputType_readable
        elim!: parseDidAuthenticate_inv intro: eac1Readable_error)
qed

lemma runPreVerification_frame:
  "runPreVerification E c = (ok, c') \<Longrightarrow> au_rights c' = au_rights c \<and> nc_dvCvc c' = nc_dvCvc c"
  by (auto simp: runPreVerification_def saveCvcaLinkCertificates_def setStatus_def Let_def
      split: prod.splits if_splits)

text \<open>
  C33. Whatever the server sends, a request for EAC1 that the parser accepts can be checked: the states
  that check the certificates never use a description or a certificate that is not there. Every
  certificate of the request has been decoded, and so has the description if there is one.
\<close>

theorem accepted_request_can_be_checked:
  assumes "snd (PaosHandler L ts) = Some (PC_Eac1 d, ids)"
  shows "runProcessCvcs E (da_input d) c \<noteq> None \<and>
    (\<forall>cvc \<in> set (e1_cvCertificates (da_input d)). \<exists>b. pl_certificate L b = Some cvc) \<and>
    e1_description (da_input d) = Option.bind (e1_descriptionAsBinary (da_input d)) (pl_description L)"
proof -
  let ?m = "da_input d"
  have r: "eac1Readable L ?m False"
    by (rule parsed_eac1_readable [OF assms])
  have "runProcessCvcs E ?m c \<noteq> None"
  proof (cases "fst (runExtractCvcs E ?m c)")
    case True
    then obtain c1 where e: "runExtractCvcs E ?m c = (True, c1)" by (metis surjective_pairing)
    obtain t dv where t: "ax_terminalCvc (au_rights c1) = Some t" "nc_dvCvc c1 = Some dv"
      using runExtractCvcs_unique [OF e] by metis
    obtain ok c2 where p: "runPreVerification E c1 = (ok, c2)" by force
    then have t2: "ax_terminalCvc (au_rights c2) = Some t" "nc_dvCvc c2 = Some dv"
      using runPreVerification_frame [OF p] t by simp_all
    show ?thesis
      using r t2
      by (cases "e1_descriptionAsBinary ?m"; cases ok)
        (auto simp: runProcessCvcs_def e p runCertificateDescriptionCheck_def runCheckCertificates_def
          eac1Readable_def Let_def split: option.split)
  qed (auto simp: runProcessCvcs_def split: prod.split)
  then show ?thesis
    using r by (simp add: eac1Readable_def)
qed

text \<open>
  The type that the handler reports is that of the message it gives to the workflow, and unknown
  exactly when there is none.
\<close>

theorem reported_type_is_that_of_the_message:
  "fst (PaosHandler L ts) = detectedPaosType (map_option (\<lambda>(m, ids). messageOf m) (snd (PaosHandler L ts))) \<and>
   (fst (PaosHandler L ts) = PT_UNKNOWN_MESSAGE \<longleftrightarrow> snd (PaosHandler L ts) = None)"
  by (cases "detectPaosType ts PT_UNKNOWN_MESSAGE")
    (auto simp: PaosHandler_def parsedMessage_def Let_def split: option.split prod.split)

section \<open>Documents\<close>

text \<open>A tree and the tokens that a reader makes of it.\<close>

datatype xml = Element string "xml_attribute list" "xml list" | Text string

fun tokensOf :: "xml \<Rightarrow> xml_token list" where
  "tokensOf (Element name attributes children) =
     StartElement name attributes # concat (map tokensOf children) @ [EndElement]"
| "tokensOf (Text t) = [Characters t]"

definition leaf :: "string \<Rightarrow> string \<Rightarrow> xml" where
  "leaf name t = Element name [] [Text t]"

lemma skipElement_tokensOf:
  "0 < d \<Longrightarrow> skipElement d (tokensOf x @ ts) = skipElement d ts"
proof (induction x arbitrary: d ts)
  case (Element name attributes children)
  have "0 < e \<Longrightarrow> skipElement e (concat (map tokensOf cs) @ us) = skipElement e us"
    if "set cs \<subseteq> set children" for cs e us
    using that by (induction cs arbitrary: us) (simp_all add: Element.IH)
  then show ?case using Element.prems by simp
qed simp

lemma skipElement_children:
  "skipElement 1 (concat (map tokensOf cs) @ EndElement # ts) = EndElement # ts"
  by (induction cs) (simp_all add: skipElement_tokensOf)

lemma seekElement_Text [simp]: "seekElement (tokensOf (Text t) @ ts) = seekElement ts"
  by simp

abbreviation reading :: "xml_token list \<Rightarrow> paos_reader" where
  "reading ts \<equiv> \<lparr>pr_tokens = ts, pr_error = False\<rparr>"

definition tokensIn :: "xml list \<Rightarrow> xml_token list \<Rightarrow> xml_token list" where
  "tokensIn children ts = concat (map tokensOf children) @ EndElement # ts"

lemma tokensIn_append [simp]:
  "tokensIn (xs @ ys) ts = concat (map tokensOf xs) @ tokensIn ys ts"
  by (simp add: tokensIn_def)

lemma skipCurrentElement_tokensOf:
  "skipCurrentElement (reading (StartElement name attributes # tokensIn children ts)) = reading (EndElement # ts)"
  using skipElement_children [of children ts] by (simp add: skipCurrentElement_def tokensIn_def)

lemma squeeze_spaces: "list_all isSpaceChar t \<Longrightarrow> simplified t = []"
  by (simp add: simplified_def list_all_iff dropWhile_eq_Nil_conv [THEN iffD2])

lemma isWhitespace_spaces: "isWhitespace t \<Longrightarrow> simplified t = []"
  by (rule squeeze_spaces) (auto simp: isWhitespace_def isSpaceChar_def list_all_iff)

lemma simplified_space [simp]: "simplified (CHR '' '' # t) = simplified t"
  by (simp add: simplified_def isSpaceChar_def)

lemma simplified_Nil [simp]: "simplified [] = []"
  by (simp add: simplified_def)

lemma readElementText_leaf:
  "readElementText (reading (StartElement name attributes # tokensIn [Text t] ts)) =
     (Some (simplified t), reading (EndElement # ts))"
  by (simp add: readElementText_def tokensIn_def isWhitespace_spaces)

lemma readUniqueElementText_leaf:
  "readUniqueElementText None (reading (StartElement name attributes # tokensIn [Text t] ts)) =
     (Some (simplified t), Some (simplified t), reading (EndElement # ts))"
  by (simp add: readUniqueElementText_def readElementText_leaf)

lemma setUnique_leaf:
  "get s = None \<Longrightarrow>
   setUnique get put (s, reading (StartElement name attributes # tokensIn [Text t] ts)) =
     (put (Some (simplified t)) s, reading (EndElement # ts))"
  by (simp add: setUnique_def readUniqueElementText_leaf)

text \<open>The loop without its fuel.\<close>

lemma forChildren_unfold:
  assumes "consumes body"
  shows "forChildren body (s, p) =
    (case readNextStartElement p of
       (None, q) \<Rightarrow> (s, q)
     | (Some (name, attributes), q) \<Rightarrow> forChildren body (body name attributes (s, q)))"
proof (cases "readNextStartElement p")
  case (Pair x q)
  show ?thesis
  proof (cases x)
    case (Some y)
    obtain s' r where b: "body (fst y) (snd y) (s, q) = (s', r)" by force
    then have "length (pr_tokens r) \<le> length (pr_tokens q)"
      using assms unfolding consumes_def by (metis snd_conv)
    also have "\<dots> < length (pr_tokens p)"
      using Pair Some readNextStartElement_shorter [of p y q] by simp
    finally have l: "length (pr_tokens p) = (length (pr_tokens r) + 1) + (length (pr_tokens p) - length (pr_tokens r) - 1)"
      by simp
    have "readChildren (length (pr_tokens p)) body (s', r) = readChildren (length (pr_tokens r) + 1) body (s', r)"
      by (subst l, rule readChildren_enough [OF assms]) simp
    then show ?thesis
      using Pair Some b by (cases y) (simp add: forChildren_def)
  qed (simp add: forChildren_def Pair)
qed

lemma forChildren_end:
  "consumes body \<Longrightarrow> forChildren body (s, reading (t # tokensIn [] ts)) = (s, reading (EndElement # ts))"
  by (subst forChildren_unfold) (simp_all add: readNextStartElement_def tokensIn_def)

lemma forChildren_Element:
  "consumes body \<Longrightarrow>
   forChildren body (s, reading (t # tokensIn (Element name attributes cs # children) ts)) =
   forChildren body (body name attributes (s, reading (StartElement name attributes # tokensIn cs (tokensIn children ts))))"
  by (subst forChildren_unfold) (simp_all add: readNextStartElement_def tokensIn_def)

lemma forChildren_Text:
  "consumes body \<Longrightarrow>
   forChildren body (s, reading (t # tokensIn (Text u # children) ts)) =
   forChildren body (s, reading (t # tokensIn children ts))"
  by (subst (1 2) forChildren_unfold) (simp_all add: readNextStartElement_def tokensIn_def)

section \<open>What the server writes is read\<close>

text \<open>The messages as a server writes them, binary values in hexadecimal digits.\<close>

definition hexLeaf :: "string \<Rightarrow> bytes \<Rightarrow> xml" where
  "hexLeaf name b = leaf name (toHex b)"

definition optionalLeaf :: "string \<Rightarrow> bytes option \<Rightarrow> xml list" where
  "optionalLeaf name b = (case b of None \<Rightarrow> [] | Some b \<Rightarrow> [hexLeaf name b])"

definition optionalText :: "string \<Rightarrow> string option \<Rightarrow> xml list" where
  "optionalText name t = (case t of None \<Rightarrow> [] | Some t \<Rightarrow> [leaf name t])"

definition authenticationProtocolData :: "string \<Rightarrow> xml list \<Rightarrow> xml" where
  "authenticationProtocolData inputType children =
    Element ''AuthenticationProtocolData''
      [(xsiNamespace, ''type'', ''iso:'' @ inputType), ([], ''Protocol'', ''urn:oid:1.3.162.15480.3.0.14.2'')] children"

definition didAuthenticateTree :: "string \<Rightarrow> string \<Rightarrow> xml \<Rightarrow> xml" where
  "didAuthenticateTree slotHandle didName input =
    Element ''DIDAuthenticate'' []
      [Element ''ConnectionHandle'' [] [leaf ''SlotHandle'' slotHandle], leaf ''DIDName'' didName, input]"

definition envelopeTree :: "string \<Rightarrow> string \<Rightarrow> xml \<Rightarrow> xml" where
  "envelopeTree messageID relatesTo body =
    Element ''Envelope'' []
      [Element ''Header'' [] [leaf ''MessageID'' messageID, leaf ''RelatesTo'' relatesTo],
       Element ''Body'' [] [body]]"

definition eac1Tree ::
  "bytes list \<Rightarrow> bytes option \<Rightarrow> bytes option \<Rightarrow> bytes option \<Rightarrow> bytes option \<Rightarrow> string option \<Rightarrow> xml" where
  "eac1Tree certificates description required optional auxiliary transaction =
    authenticationProtocolData ''EAC1InputType''
      (map (hexLeaf ''Certificate'') certificates @ optionalLeaf ''CertificateDescription'' description @
       optionalLeaf ''RequiredCHAT'' required @ optionalLeaf ''OptionalCHAT'' optional @
       optionalLeaf ''AuthenticatedAuxiliaryData'' auxiliary @ optionalText ''TransactionInfo'' transaction)"

definition eac2Tree :: "bytes list \<Rightarrow> bytes \<Rightarrow> bytes option \<Rightarrow> xml" where
  "eac2Tree certificates ephemeralPublicKey signature =
    authenticationProtocolData ''EAC2InputType''
      (map (hexLeaf ''Certificate'') certificates @
       [hexLeaf ''EphemeralPublicKey'' ephemeralPublicKey] @ optionalLeaf ''Signature'' signature)"

definition inputApduTree :: "input_apdu \<Rightarrow> xml" where
  "inputApduTree i =
    Element ''InputAPDUInfo'' []
      (hexLeaf ''InputAPDU'' (ia_inputApdu i) # map (leaf ''AcceptableStatusCode'') (ia_acceptableStatusCodes i))"

definition transmitTree :: "string \<Rightarrow> input_apdu list \<Rightarrow> xml" where
  "transmitTree slotHandle infos =
    Element ''Transmit'' [] (leaf ''SlotHandle'' slotHandle # map inputApduTree infos)"

lemma simplified_nospace: "list_all (\<lambda>c. \<not> isSpaceChar c) t \<Longrightarrow> simplified t = t"
proof -
  assume a: "list_all (\<lambda>c. \<not> isSpaceChar c) t"
  then have "squeeze t = t" by (induction t) simp_all
  then show ?thesis using a by (cases t) (simp_all add: simplified_def)
qed

lemma hexDigit_nospace: "\<forall>n \<in> set [0..<16]. \<not> isSpaceChar (hexDigit n)"
  by code_simp

lemma toHex_nospace: "list_all (\<lambda>c. \<not> isSpaceChar c) (toHex b)"
proof (induction b)
  case (Cons x b)
  have "unat x div 16 < 16" "unat x mod 16 < 16"
    using unat_byte_less [of x] by linarith simp
  then show ?case
    using Cons hexDigit_nospace by (simp add: toHex_def)
qed (simp add: toHex_def)

lemma simplified_toHex [simp]: "simplified (toHex b) = toHex b"
  by (rule simplified_nospace [OF toHex_nospace])

lemmas tree_defs = leaf_def hexLeaf_def optionalLeaf_def

lemmas walk_simps = forChildren_Element forChildren_end readUniqueElementText_leaf readElementText_leaf
  setUnique_leaf skipCurrentElement_tokensOf

lemma eac1Element_names:
  "eac1Element L ''CertificateDescription'' as x = readCertificateDescription L x"
  "eac1Element L ''RequiredCHAT'' as x = readRequiredChat L x"
  "eac1Element L ''OptionalCHAT'' as x = readOptionalChat L x"
  "eac1Element L ''AuthenticatedAuxiliaryData'' as x = readAuxiliaryData L x"
  "eac1Element L ''TransactionInfo'' as x = readTransactionInfo x"
  "eac1Element L ''Certificate'' as x = readCertificate1 L x"
  by (simp_all add: eac1Element_def)

lemma eac2Element_names:
  "eac2Element L ''Certificate'' as x = readCertificate2 L x"
  "eac2Element L ''EphemeralPublicKey'' as x =
     setUnique v2_ephemeralPublicKey (\<lambda>v s. s\<lparr>v2_ephemeralPublicKey := v\<rparr>) x"
  "eac2Element L ''Signature'' as x = setUnique v2_signature (\<lambda>v s. s\<lparr>v2_signature := v\<rparr>) x"
  by (simp_all add: eac2Element_def)

lemma eac1_certificates:
  assumes "\<forall>(b, c) \<in> set certs. pl_certificate L b = Some c"
  shows "forChildren (eac1Element L)
      (s, reading (t # tokensIn (map (\<lambda>x. hexLeaf ''Certificate'' (fst x)) certs @ children) ts)) =
    forChildren (eac1Element L)
      (s\<lparr>v1_eac1 := (v1_eac1 s)\<lparr>e1_cvCertificates := e1_cvCertificates (v1_eac1 s) @ map snd certs\<rparr>\<rparr>,
       reading ((if certs = [] then t else EndElement) # tokensIn children ts))"
  using assms
proof (induction certs arbitrary: s t)
  case (Cons x certs)
  show ?case
    using Cons.prems Cons.IH
    by (auto simp: tree_defs walk_simps eac1Element_consumes eac1Element_names readCertificate1_def fromNull_def
        hex_roundtrip simp del: tokensIn_append)
qed simp

lemma eac2_certificates:
  assumes "\<forall>(b, c) \<in> set certs. pl_certificate L b = Some c"
  shows "forChildren (eac2Element L)
      (s, reading (t # tokensIn (map (\<lambda>x. hexLeaf ''Certificate'' (fst x)) certs @ children) ts)) =
    forChildren (eac2Element L)
      (s\<lparr>v2_certificates := v2_certificates s @ map prod.swap certs\<rparr>,
       reading ((if certs = [] then t else EndElement) # tokensIn children ts))"
  using assms
proof (induction certs arbitrary: s t)
  case (Cons x certs)
  show ?case
    using Cons.prems Cons.IH
    by (auto simp: tree_defs walk_simps eac2Element_consumes eac2Element_names readCertificate2_def fromNull_def
        hex_roundtrip Let_def simp del: tokensIn_append)
qed simp

lemma forChildren_hexLeaf:
  "consumes body \<Longrightarrow>
   forChildren body (s, reading (t # tokensIn (hexLeaf name b # children) ts)) =
   forChildren body (body name [] (s, reading (StartElement name [] # tokensIn [Text (toHex b)] (tokensIn children ts))))"
  by (simp add: hexLeaf_def leaf_def forChildren_Element)

text \<open>The token the loop starts at does not matter, it reads on from there.\<close>

lemma forChildren_head:
  "forChildren body (s, reading (t # ts)) = forChildren body (s, reading (u # ts))"
  by (simp add: forChildren_def readNextStartElement_def)

lemma eac1_description:
  assumes "v1_certificateDescription s = None" "e1_descriptionAsBinary (v1_eac1 s) = None"
    "e1_description (v1_eac1 s) = None" "\<And>c. b = Some c \<Longrightarrow> pl_description L c \<noteq> None"
  shows "forChildren (eac1Element L)
      (s, reading (t # tokensIn (optionalLeaf ''CertificateDescription'' b @ children) ts)) =
    forChildren (eac1Element L)
      (s\<lparr>v1_certificateDescription := map_option toHex b,
         v1_eac1 := (v1_eac1 s)\<lparr>e1_descriptionAsBinary := b, e1_description := Option.bind b (pl_description L)\<rparr>\<rparr>,
       reading (EndElement # tokensIn children ts))"
  using assms forChildren_head [of "eac1Element L" s t "tokensIn children ts" EndElement]
  by (cases b; cases s; cases "v1_eac1 s") (auto simp: tree_defs walk_simps eac1Element_consumes eac1Element_names readCertificateDescription_def
      hex_roundtrip Let_def)

lemma eac1_requiredChat:
  assumes "v1_requiredCHAT s = None" "e1_requiredChat (v1_eac1 s) = None"
    "\<And>c. b = Some c \<Longrightarrow> pl_chat L c \<noteq> None"
  shows "forChildren (eac1Element L)
      (s, reading (t # tokensIn (optionalLeaf ''RequiredCHAT'' b @ children) ts)) =
    forChildren (eac1Element L)
      (s\<lparr>v1_requiredCHAT := map_option toHex b,
         v1_eac1 := (v1_eac1 s)\<lparr>e1_requiredChat := Option.bind b (pl_chat L)\<rparr>\<rparr>,
       reading (EndElement # tokensIn children ts))"
  using assms forChildren_head [of "eac1Element L" s t "tokensIn children ts" EndElement]
  by (cases b; cases s; cases "v1_eac1 s") (auto simp: tree_defs walk_simps eac1Element_consumes eac1Element_names readRequiredChat_def
      hex_roundtrip Let_def)

lemma eac1_optionalChat:
  assumes "v1_optionalCHAT s = None" "e1_optionalChat (v1_eac1 s) = None"
    "\<And>c. b = Some c \<Longrightarrow> pl_chat L c \<noteq> None"
  shows "forChildren (eac1Element L)
      (s, reading (t # tokensIn (optionalLeaf ''OptionalCHAT'' b @ children) ts)) =
    forChildren (eac1Element L)
      (s\<lparr>v1_optionalCHAT := map_option toHex b,
         v1_eac1 := (v1_eac1 s)\<lparr>e1_optionalChat := Option.bind b (pl_chat L)\<rparr>\<rparr>,
       reading (EndElement # tokensIn children ts))"
  using assms forChildren_head [of "eac1Element L" s t "tokensIn children ts" EndElement]
  by (cases b; cases s; cases "v1_eac1 s") (auto simp: tree_defs walk_simps eac1Element_consumes eac1Element_names readOptionalChat_def
      hex_roundtrip Let_def)

lemma eac1_auxiliaryData:
  assumes "v1_authenticatedAuxiliaryData s = None" "e1_auxiliaryDataAsBinary (v1_eac1 s) = []"
    "e1_auxiliaryData (v1_eac1 s) = None"
    "\<And>c. b = Some c \<Longrightarrow> AuxiliaryData_decode (pl_auxiliaryData L) c \<noteq> None"
  shows "forChildren (eac1Element L)
      (s, reading (t # tokensIn (optionalLeaf ''AuthenticatedAuxiliaryData'' b @ children) ts)) =
    forChildren (eac1Element L)
      (s\<lparr>v1_authenticatedAuxiliaryData := map_option toHex b,
         v1_eac1 := (v1_eac1 s)\<lparr>e1_auxiliaryDataAsBinary := case_option [] id b,
           e1_auxiliaryData := Option.bind b (AuxiliaryData_decode (pl_auxiliaryData L))\<rparr>\<rparr>,
       reading (EndElement # tokensIn children ts))"
  using assms forChildren_head [of "eac1Element L" s t "tokensIn children ts" EndElement]
  by (cases b; cases s; cases "v1_eac1 s") (auto simp: tree_defs walk_simps eac1Element_consumes eac1Element_names readAuxiliaryData_def
      hex_roundtrip Let_def)

lemma eac1_transactionInfo:
  assumes "v1_transactionInfo s = None" "e1_transactionInfo (v1_eac1 s) = []"
  shows "forChildren (eac1Element L)
      (s, reading (t # tokensIn (optionalText ''TransactionInfo'' b) ts)) =
      (s\<lparr>v1_transactionInfo := map_option simplified b,
         v1_eac1 := (v1_eac1 s)\<lparr>e1_transactionInfo := case_option [] simplified b\<rparr>\<rparr>,
       reading (EndElement # ts))"
  using assms
  by (cases b; cases s; cases "v1_eac1 s") (auto simp: tree_defs optionalText_def walk_simps eac1Element_consumes eac1Element_names
      readTransactionInfo_def Let_def)

text \<open>The values of a message.\<close>

definition eac1Values ::
  "paos_lib \<Rightarrow> (bytes \<times> cvc) list \<Rightarrow> bytes option \<Rightarrow> bytes option \<Rightarrow> bytes option \<Rightarrow> bytes option \<Rightarrow> string option
     \<Rightarrow> eac1_message" where
  "eac1Values L certs description required optional auxiliary transaction =
    \<lparr>e1_cvCertificates = map snd certs, e1_descriptionAsBinary = description,
     e1_description = Option.bind description (pl_description L),
     e1_requiredChat = Option.bind required (pl_chat L), e1_optionalChat = Option.bind optional (pl_chat L),
     e1_auxiliaryDataAsBinary = case_option [] id auxiliary,
     e1_auxiliaryData = Option.bind auxiliary (AuxiliaryData_decode (pl_auxiliaryData L)),
     e1_transactionInfo = case_option [] simplified transaction\<rparr>"

definition decodable ::
  "paos_lib \<Rightarrow> (bytes \<times> cvc) list \<Rightarrow> bytes option \<Rightarrow> bytes option \<Rightarrow> bytes option \<Rightarrow> bytes option \<Rightarrow> bool" where
  "decodable L certs description required optional auxiliary \<longleftrightarrow>
     certs \<noteq> [] \<and> (\<forall>(b, c) \<in> set certs. pl_certificate L b = Some c) \<and>
     (\<forall>b. description = Some b \<longrightarrow> pl_description L b \<noteq> None) \<and>
     (\<forall>b. required = Some b \<longrightarrow> pl_chat L b \<noteq> None) \<and> (\<forall>b. optional = Some b \<longrightarrow> pl_chat L b \<noteq> None) \<and>
     (\<forall>b. auxiliary = Some b \<longrightarrow> AuxiliaryData_decode (pl_auxiliaryData L) b \<noteq> None)"

lemma parseEac1_tree:
  assumes "decodable L certs description required optional auxiliary"
  shows "parseEac1InputType L (reading (t # tokensIn
      (map (hexLeaf ''Certificate'') (map fst certs) @ optionalLeaf ''CertificateDescription'' description @
       optionalLeaf ''RequiredCHAT'' required @ optionalLeaf ''OptionalCHAT'' optional @
       optionalLeaf ''AuthenticatedAuxiliaryData'' auxiliary @ optionalText ''TransactionInfo'' transaction) ts)) =
    (eac1Values L certs description required optional auxiliary transaction, reading (EndElement # ts))"
  using assms
  by (simp add: parseEac1InputType_def decodable_def Eac1InputType_def eac1_certificates eac1_description
      eac1_requiredChat eac1_optionalChat eac1_auxiliaryData eac1_transactionInfo eac1Values_def comp_def del: tokensIn_append)

lemma parseEac2_tree:
  assumes "\<forall>(b, c) \<in> set certs. pl_certificate L b = Some c"
  shows "parseEac2InputType L (reading (t # tokensIn
      (map (hexLeaf ''Certificate'') (map fst certs) @
       [hexLeaf ''EphemeralPublicKey'' ephemeralPublicKey] @ optionalLeaf ''Signature'' signature) ts)) =
    ((\<lparr>e2_cvCertificates = map snd certs, e2_ephemeralPublicKey = toHex ephemeralPublicKey,
       e2_signature = case_option [] toHex signature\<rparr>, map fst certs), reading (EndElement # ts))"
  using assms
  by (cases signature)
    (simp_all add: parseEac2InputType_def noEac2Variables_def eac2_certificates Eac2InputType_def comp_def
      optionalLeaf_def forChildren_hexLeaf walk_simps eac2Element_consumes eac2Element_names fromNull_def del: tokensIn_append)

lemma ConnectionHandle_tree:
  "ConnectionHandleParser_parse (reading (t # tokensIn [leaf ''SlotHandle'' slotHandle] ts)) =
     (ConnectionHandle\<lparr>ch_slotHandle := Some (simplified slotHandle)\<rparr>, reading (EndElement # ts))"
proof -
  have "connectionHandleElement ''SlotHandle'' [] x = setUnique ch_slotHandle (\<lambda>v s. s\<lparr>ch_slotHandle := v\<rparr>) x" for x
    by (simp add: connectionHandleElement_def)
  then show ?thesis
    by (simp add: ConnectionHandleParser_parse_def leaf_def walk_simps connectionHandleElement_consumes ConnectionHandle_def)
qed

lemma endsWith_append [simp]: "endsWith (xs @ ys) ys"
  by (simp add: endsWith_def)

lemmas endsWith_iso = endsWith_append [of "''iso:''", simplified]

lemma didAuthenticateElement_names:
  "didAuthenticateElement ty parseInput ''ConnectionHandle'' as (s, p) =
     (if da_connectionHandle s \<noteq> None then (s, parseFailed p)
      else (s\<lparr>da_connectionHandle := Some (fst (ConnectionHandleParser_parse p))\<rparr>, snd (ConnectionHandleParser_parse p)))"
  "didAuthenticateElement ty parseInput ''DIDName'' as x = setUnique da_didName (\<lambda>v s. s\<lparr>da_didName := v\<rparr>) x"
  "endsWith v ty \<Longrightarrow>
     didAuthenticateElement ty parseInput ''AuthenticationProtocolData'' [(xsiNamespace, ''type'', v), y] (s, p) =
       (s\<lparr>da_input := fst (parseInput p)\<rparr>, snd (parseInput p))"
  by (simp_all add: didAuthenticateElement_def attributeValue_def case_prod_beta)

lemma parseDidAuthenticate_tree:
  assumes "\<And>p. length (pr_tokens (snd (parseInput p))) \<le> length (pr_tokens p)"
    and "\<And>t ts. parseInput (reading (t # tokensIn children ts)) = (i, reading (EndElement # ts))"
  shows "parseDidAuthenticate ty parseInput noInput (reading (t # tokensIn
      [Element ''ConnectionHandle'' [] [leaf ''SlotHandle'' slotHandle], leaf ''DIDName'' didName,
       authenticationProtocolData ty children] ts)) =
    (Some \<lparr>da_connectionHandle = Some (ConnectionHandle\<lparr>ch_slotHandle := Some (simplified slotHandle)\<rparr>),
       da_didName = Some (simplified didName), da_input = i\<rparr>, reading (EndElement # ts))"
  using assms
  by (simp add: parseDidAuthenticate_def authenticationProtocolData_def leaf_def [of "''DIDName''"] walk_simps
      didAuthenticateElement_consumes didAuthenticateElement_names ConnectionHandle_tree endsWith_iso)

lemma inputApduElement_names:
  "inputApduElement ''InputAPDU'' as (s, p) =
     (case readUniqueElementText (ai_inputApdu s) p of (t, v, p) \<Rightarrow>
        (s\<lparr>ai_inputApdu := v, ai_returned := (t = None)\<rparr>, p))"
  "inputApduElement ''AcceptableStatusCode'' as (s, p) =
     (case readElementText p of (t, p) \<Rightarrow> (s\<lparr>ai_codes := ai_codes s @ [fromNull t]\<rparr>, p))"
  by (simp_all add: inputApduElement_def)

lemma inputApdu_codes:
  "forChildren inputApduElement (s, reading (t # tokensIn (map (leaf ''AcceptableStatusCode'') codes) ts)) =
     (s\<lparr>ai_codes := ai_codes s @ map simplified codes\<rparr>, reading (EndElement # ts))"
  by (induction codes arbitrary: s t)
    (simp_all add: leaf_def walk_simps inputApduElement_consumes inputApduElement_names fromNull_def)

lemma parseInputApduInfo_tree:
  "parseInputApduInfo (reading (t # tokensIn
      (hexLeaf ''InputAPDU'' b # map (leaf ''AcceptableStatusCode'') codes) ts)) =
    (Some \<lparr>ia_inputApdu = b, ia_acceptableStatusCodes = map simplified codes\<rparr>, reading (EndElement # ts))"
  by (simp add: parseInputApduInfo_def forChildren_hexLeaf walk_simps inputApduElement_consumes
      inputApduElement_names inputApdu_codes hex_roundtrip)

lemma transmitElement_names:
  "transmitElement ''SlotHandle'' as x = setUnique tm_slotHandle (\<lambda>v s. s\<lparr>tm_slotHandle := v\<rparr>) x"
  "transmitElement ''InputAPDUInfo'' as (s, p) =
     (case parseInputApduInfo p of
        (Some info, p) \<Rightarrow> (s\<lparr>tm_inputApduInfos := tm_inputApduInfos s @ [info]\<rparr>, p)
      | (None, p) \<Rightarrow> (s, p))"
  by (simp_all add: transmitElement_def case_prod_beta split: option.split)

definition simplifiedCodes :: "input_apdu \<Rightarrow> input_apdu" where
  "simplifiedCodes i = i\<lparr>ia_acceptableStatusCodes := map simplified (ia_acceptableStatusCodes i)\<rparr>"

lemma transmit_infos:
  "forChildren transmitElement (s, reading (t # tokensIn (map inputApduTree infos) ts)) =
     (s\<lparr>tm_inputApduInfos := tm_inputApduInfos s @ map simplifiedCodes infos\<rparr>, reading (EndElement # ts))"
  by (induction infos arbitrary: s t)
    (simp_all add: inputApduTree_def walk_simps transmitElement_consumes transmitElement_names
      parseInputApduInfo_tree simplifiedCodes_def input_apdu.defs)

lemma TransmitParser_tree:
  "TransmitParser_parseMessage (reading (t # tokensIn
      (leaf ''SlotHandle'' slotHandle # map inputApduTree infos) ts)) =
    (Some \<lparr>tm_slotHandle = Some (simplified slotHandle), tm_inputApduInfos = map simplifiedCodes infos\<rparr>,
     reading (EndElement # ts))"
  by (simp add: TransmitParser_parseMessage_def leaf_def walk_simps transmitElement_consumes
      transmitElement_names transmit_infos)

lemma header_tree:
  "parseHeader ids (reading (t # tokensIn [leaf ''MessageID'' messageID, leaf ''RelatesTo'' relatesTo] ts)) =
     (\<lparr>pi_messageID = Some (simplified messageID), pi_relatesTo = Some (simplified relatesTo)\<rparr>,
      reading (EndElement # ts))"
proof -
  have names: "headerElement ''MessageID'' as (s, p) =
      (s\<lparr>pi_messageID := fst (readElementText p)\<rparr>, snd (readElementText p))"
    "headerElement ''RelatesTo'' as (s, p) =
      (s\<lparr>pi_relatesTo := fst (readElementText p)\<rparr>, snd (readElementText p))" for as s p
    by (simp_all add: headerElement_def case_prod_beta)
  show ?thesis
    by (simp add: parseHeader_def leaf_def walk_simps headerElement_consumes names)
qed

lemma PaosParser_tree:
  assumes "\<And>p. length (pr_tokens (snd (parseMessage p))) \<le> length (pr_tokens p)"
    and "\<And>t ts. parseMessage (reading (t # tokensIn children ts)) = (Some m, reading (EndElement # ts))"
  shows "PaosParser_parse name parseMessage (tokensOf (envelopeTree messageID relatesTo (Element name attributes children))) =
    Some (m, \<lparr>pi_messageID = Some (simplified messageID), pi_relatesTo = Some (simplified relatesTo)\<rparr>)"
proof -
  have body: "bodyElement name parseMessage name as (None, p) = parseMessage p" for as p
    by (simp add: bodyElement_def)
  have names: "envelopeElement name parseMessage ''Header'' as ((x, ids), p) =
      ((x, fst (parseHeader ids p)), snd (parseHeader ids p))"
    "envelopeElement name parseMessage ''Body'' as ((None, ids), p) =
      ((fst (parseBody name parseMessage p), ids), snd (parseBody name parseMessage p))"
    "documentElement name parseMessage ''Envelope'' as (\<lparr>dc_message = None, dc_ids = ids, dc_rejected = False\<rparr>, p) =
      (case parseEnvelope name parseMessage ids p of
         ((x, ids), p) \<Rightarrow> (\<lparr>dc_message = x, dc_ids = ids, dc_rejected = (x = None)\<rparr>, p))" for as x ids p
    by (simp_all add: envelopeElement_def documentElement_def case_prod_beta)
  have b: "parseBody name parseMessage (reading (t # tokensIn [Element name attributes children] ts)) =
      (Some m, reading (EndElement # ts))" for t ts
    by (simp add: parseBody_def walk_simps bodyElement_consumes assms body)
  let ?ids = "\<lparr>pi_messageID = Some (simplified messageID), pi_relatesTo = Some (simplified relatesTo)\<rparr>"
  have e: "parseEnvelope name parseMessage ids (reading (t # tokensIn
        [Element ''Header'' [] [leaf ''MessageID'' messageID, leaf ''RelatesTo'' relatesTo],
         Element ''Body'' [] [Element name attributes children]] ts)) =
      ((Some m, ?ids), reading (EndElement # ts))" for ids t ts
    by (simp add: parseEnvelope_def walk_simps envelopeElement_consumes assms(1) names b header_tree)
  have t: "OtherToken # tokensOf (Element ''Envelope'' [] cs) =
      OtherToken # StartElement ''Envelope'' [] # tokensIn cs []" for cs
    by (simp add: tokensIn_def)
  show ?thesis
    unfolding PaosParser_parse_def envelopeTree_def t
    by (subst forChildren_unfold, simp add: documentElement_consumes assms(1))
      (simp add: readNextStartElement_def names e,
       subst forChildren_unfold, simp add: documentElement_consumes assms(1), simp add: readNextStartElement_def)
qed

section \<open>Detection on documents\<close>

definition startNames :: "xml_token list \<Rightarrow> string set" where
  "startNames ts = {n. \<exists>as. StartElement n as \<in> set ts}"

lemma startNames_simps [simp]:
  "startNames [] = {}"
  "startNames (StartElement n as # ts) = insert n (startNames ts)"
  "startNames (EndElement # ts) = startNames ts"
  "startNames (OtherToken # ts) = startNames ts"
  "startNames (Characters c # ts) = startNames ts"
  "startNames (us @ ts) = startNames us \<union> startNames ts"
  by (auto simp: startNames_def)

lemma detectStartElements_skip:
  "startNames us \<inter> set names = {} \<Longrightarrow> detectStartElements found names (us @ ts) s = detectStartElements found names ts s"
proof (induction us)
  case (Cons u us)
  then show ?case by (cases u) (auto simp: startNames_def)
qed simp

lemma detectStartElements_none:
  "startNames us \<inter> set names = {} \<Longrightarrow> detectStartElements found names us s = s"
  using detectStartElements_skip [of us names found "[]" s] by simp

lemma startNames_tl: "startNames (tl ts) \<subseteq> startNames ts"
  by (cases ts) (auto simp: startNames_def)

definition typedElements :: "string set" where
  "typedElements = {''DIDAuthenticate'', ''InitializeFramework'', ''DIDList'', ''Transmit'', ''Disconnect'', ''StartPAOSResponse''}"

lemma typeOfElement_None:
  "n \<notin> typedElements \<Longrightarrow> typeOfElement n = None" "n \<notin> typedElements \<Longrightarrow> n \<noteq> ''DIDAuthenticate''"
  by (auto simp: typeOfElement_def typedElements_def)

lemma detectPaosType_skip:
  "startNames us \<inter> typedElements = {} \<Longrightarrow> detectPaosType (us @ ts) t = detectPaosType ts t"
proof (induction us)
  case (Cons u us)
  then show ?case by (cases u) (simp_all add: typeOfElement_None)
qed simp

lemma detectPaosType_none:
  "startNames us \<inter> typedElements = {} \<Longrightarrow> detectPaosType us t = t"
  using detectPaosType_skip [of us "[]" t] by simp

lemma startNames_leaves:
  "startNames (concat (map tokensOf (map (hexLeaf n) bs))) \<subseteq> {n}"
  "startNames (concat (map tokensOf (map (leaf n) ts))) \<subseteq> {n}"
  by (induction bs; simp add: hexLeaf_def leaf_def) (induction ts; simp add: leaf_def)

lemma detectStartElements_tl:
  "startNames ts \<inter> set names = {} \<Longrightarrow> detectStartElements found names (tl ts) s = s"
  using startNames_tl [of ts] by (intro detectStartElements_none) auto

lemma detect_didAuthenticate:
  assumes "''AuthenticationProtocolData'' \<notin> startNames (concat (map tokensOf children))"
  shows "detectPaosType (tokensOf (envelopeTree messageID relatesTo
      (didAuthenticateTree slotHandle didName (authenticationProtocolData ty children)))) t =
    authenticationData name None
      [(xsiNamespace, ''type'', ''iso:'' @ ty), ([], ''Protocol'', ''urn:oid:1.3.162.15480.3.0.14.2'')] t"
proof -
  have v: "authenticationData n v = authenticationData name None" for n v
    by (simp add: authenticationData_def fun_eq_iff)
  show ?thesis
    using assms
    by (simp add: envelopeTree_def didAuthenticateTree_def authenticationProtocolData_def leaf_def
        typeOfElement_def detectStartElements_tl v [of "''AuthenticationProtocolData''"])
qed

lemma startNames_optionalLeaf: "startNames (concat (map tokensOf (optionalLeaf n b))) \<subseteq> {n}"
  by (cases b) (simp_all add: optionalLeaf_def hexLeaf_def leaf_def)

lemma startNames_optionalText: "startNames (concat (map tokensOf (optionalText n b))) \<subseteq> {n}"
  by (cases b) (simp_all add: optionalText_def leaf_def)

lemma detect_eac1:
  "detectPaosType (tokensOf (envelopeTree messageID relatesTo (didAuthenticateTree slotHandle didName
      (eac1Tree certificates description required optional auxiliary transaction)))) t = PT_DID_AUTHENTICATE_EAC1"
proof -
  have a: "''AuthenticationProtocolData'' \<notin> startNames (concat (map tokensOf
      (map (hexLeaf ''Certificate'') certificates @ optionalLeaf ''CertificateDescription'' description @
       optionalLeaf ''RequiredCHAT'' required @ optionalLeaf ''OptionalCHAT'' optional @
       optionalLeaf ''AuthenticatedAuxiliaryData'' auxiliary @ optionalText ''TransactionInfo'' transaction)))"
    using startNames_leaves(1) [of "''Certificate''" certificates]
      startNames_optionalLeaf [of "''CertificateDescription''" description]
      startNames_optionalLeaf [of "''RequiredCHAT''" required]
      startNames_optionalLeaf [of "''OptionalCHAT''" optional]
      startNames_optionalLeaf [of "''AuthenticatedAuxiliaryData''" auxiliary]
      startNames_optionalText [of "''TransactionInfo''" transaction]
    by auto
  show ?thesis
    unfolding eac1Tree_def detect_didAuthenticate [OF a, where name = "[]"]
    by (simp add: authenticationData_def endsWith_def)
qed

lemma detect_eac2:
  "detectPaosType (tokensOf (envelopeTree messageID relatesTo (didAuthenticateTree slotHandle didName
      (eac2Tree certificates ephemeralPublicKey signature)))) t = PT_DID_AUTHENTICATE_EAC2"
proof -
  have a: "''AuthenticationProtocolData'' \<notin> startNames (concat (map tokensOf
      (map (hexLeaf ''Certificate'') certificates @ [hexLeaf ''EphemeralPublicKey'' ephemeralPublicKey] @
       optionalLeaf ''Signature'' signature)))"
    using startNames_leaves(1) [of "''Certificate''" certificates]
      startNames_optionalLeaf [of "''Signature''" signature]
    by (auto simp: hexLeaf_def leaf_def)
  show ?thesis
    unfolding eac2Tree_def detect_didAuthenticate [OF a, where name = "[]"]
    by (simp add: authenticationData_def endsWith_def)
qed

lemma detect_transmit:
  "detectPaosType (tokensOf (envelopeTree messageID relatesTo (transmitTree slotHandle infos))) t = PT_TRANSMIT"
proof -
  have "startNames (concat (map tokensOf (map inputApduTree infos))) \<subseteq>
      {''InputAPDUInfo'', ''InputAPDU'', ''AcceptableStatusCode''}"
  proof (induction infos)
    case (Cons i infos)
    then show ?case
      using startNames_leaves(2) [of "''AcceptableStatusCode''" "ia_acceptableStatusCodes i"]
      by (auto simp: inputApduTree_def hexLeaf_def leaf_def)
  qed simp
  then have "startNames (concat (map (tokensOf \<circ> inputApduTree) infos)) \<inter> typedElements = {}"
    by (auto simp: typedElements_def)
  then show ?thesis
    by (simp add: envelopeTree_def transmitTree_def leaf_def typeOfElement_def detectPaosType_skip)
qed

definition readIds :: "string \<Rightarrow> string \<Rightarrow> paos_ids" where
  "readIds messageID relatesTo =
    \<lparr>pi_messageID = Some (simplified messageID), pi_relatesTo = Some (simplified relatesTo)\<rparr>"

definition readDid :: "string \<Rightarrow> string \<Rightarrow> 'a \<Rightarrow> 'a did_authenticate" where
  "readDid slotHandle didName i =
    \<lparr>da_connectionHandle = Some (ConnectionHandle\<lparr>ch_slotHandle := Some (simplified slotHandle)\<rparr>),
     da_didName = Some (simplified didName), da_input = i\<rparr>"

lemma eac1_document:
  assumes "decodable L certs description required optional auxiliary"
  shows "PaosHandler L (tokensOf (envelopeTree messageID relatesTo (didAuthenticateTree slotHandle didName
        (eac1Tree (map fst certs) description required optional auxiliary transaction)))) =
      (PT_DID_AUTHENTICATE_EAC1,
       Some (PC_Eac1 (readDid slotHandle didName (eac1Values L certs description required optional auxiliary transaction)),
         readIds messageID relatesTo))"
proof -
  have p: "DidAuthenticateEac1Parser_parseMessage L (reading (t # tokensIn
      [Element ''ConnectionHandle'' [] [leaf ''SlotHandle'' slotHandle], leaf ''DIDName'' didName,
       eac1Tree (map fst certs) description required optional auxiliary transaction] ts)) =
      (Some (readDid slotHandle didName (eac1Values L certs description required optional auxiliary transaction)),
       reading (EndElement # ts))" for t ts
    unfolding DidAuthenticateEac1Parser_parseMessage_def eac1Tree_def readDid_def
    by (rule parseDidAuthenticate_tree [OF parseInputs_consume(1)]) (rule parseEac1_tree [OF assms])
  show ?thesis
    by (simp add: PaosHandler_def detect_eac1 parsedMessage_def Let_def)
      (simp add: didAuthenticateTree_def readIds_def PaosParser_tree [OF parseMessages_consume(1) p])
qed

lemma eac2_document:
  assumes "\<forall>(b, c) \<in> set certs. pl_certificate L b = Some c"
  shows "PaosHandler L (tokensOf (envelopeTree messageID relatesTo (didAuthenticateTree slotHandle didName
        (eac2Tree (map fst certs) ephemeralPublicKey signature)))) =
      (PT_DID_AUTHENTICATE_EAC2,
       Some (PC_Eac2 (readDid slotHandle didName
           (\<lparr>e2_cvCertificates = map snd certs, e2_ephemeralPublicKey = toHex ephemeralPublicKey,
              e2_signature = case_option [] toHex signature\<rparr>, map fst certs)),
         readIds messageID relatesTo))"
proof -
  have p: "DidAuthenticateEac2Parser_parseMessage L (reading (t # tokensIn
      [Element ''ConnectionHandle'' [] [leaf ''SlotHandle'' slotHandle], leaf ''DIDName'' didName,
       eac2Tree (map fst certs) ephemeralPublicKey signature] ts)) =
      (Some (readDid slotHandle didName
           (\<lparr>e2_cvCertificates = map snd certs, e2_ephemeralPublicKey = toHex ephemeralPublicKey,
              e2_signature = case_option [] toHex signature\<rparr>, map fst certs)),
       reading (EndElement # ts))" for t ts
    unfolding DidAuthenticateEac2Parser_parseMessage_def eac2Tree_def readDid_def
    by (rule parseDidAuthenticate_tree [OF parseInputs_consume(2)]) (rule parseEac2_tree [OF assms])
  show ?thesis
    by (simp add: PaosHandler_def detect_eac2 parsedMessage_def Let_def)
      (simp add: didAuthenticateTree_def readIds_def PaosParser_tree [OF parseMessages_consume(2) p])
qed

lemma transmit_document:
  "PaosHandler L (tokensOf (envelopeTree messageID relatesTo (transmitTree slotHandle infos))) =
      (PT_TRANSMIT,
       Some (PC_Transmit \<lparr>tm_slotHandle = Some (simplified slotHandle), tm_inputApduInfos = map simplifiedCodes infos\<rparr>,
         readIds messageID relatesTo))"
  by (simp add: PaosHandler_def detect_transmit parsedMessage_def Let_def)
    (simp add: transmitTree_def readIds_def PaosParser_tree [OF parseMessages_consume(4) TransmitParser_tree])

text \<open>
  C34. What a server writes is what the client reads: for a request for EAC1 with values that can be decoded,
  with or without each of the description, the required and the optional CHAT, the auxiliary data and the
  transaction info, for a request for EAC2 with or without a signature and for any commands to transmit, the
  handler detects the type and gives the message with these values, the identifiers of its header, the
  handle of the slot and the name of the DID. In the texts, the transaction info among them, spaces at the ends are left out and
  each run of spaces inside becomes one space; binary values have none.
\<close>

theorem server_messages_are_read:
  assumes "decodable L certs description required optional auxiliary"
  shows "PaosHandler L (tokensOf (envelopeTree messageID relatesTo (didAuthenticateTree slotHandle didName
        (eac1Tree (map fst certs) description required optional auxiliary transaction)))) =
      (PT_DID_AUTHENTICATE_EAC1,
       Some (PC_Eac1 (readDid slotHandle didName (eac1Values L certs description required optional auxiliary transaction)),
         readIds messageID relatesTo)) \<and>
    PaosHandler L (tokensOf (envelopeTree messageID relatesTo (didAuthenticateTree slotHandle didName
        (eac2Tree (map fst certs) ephemeralPublicKey signature)))) =
      (PT_DID_AUTHENTICATE_EAC2,
       Some (PC_Eac2 (readDid slotHandle didName
           (\<lparr>e2_cvCertificates = map snd certs, e2_ephemeralPublicKey = toHex ephemeralPublicKey,
              e2_signature = case_option [] toHex signature\<rparr>, map fst certs)),
         readIds messageID relatesTo)) \<and>
    PaosHandler L (tokensOf (envelopeTree messageID relatesTo (transmitTree slotHandle infos))) =
      (PT_TRANSMIT,
       Some (PC_Transmit \<lparr>tm_slotHandle = Some (simplified slotHandle), tm_inputApduInfos = map simplifiedCodes infos\<rparr>,
         readIds messageID relatesTo))"
  using assms by (simp add: eac1_document eac2_document transmit_document decodable_def)

definition sample_paos_lib :: paos_lib where
  "sample_paos_lib = \<lparr>pl_certificate = (\<lambda>b. Some (sample_cvc 1 2 3 0)),
     pl_description = (\<lambda>b. Some \<lparr>cd_subjectUrl = None, cd_commCertificates = []\<rparr>),
     pl_chat = (\<lambda>b. Some sample_chat), pl_auxiliaryData = (\<lambda>b. Some [])\<rparr>"

lemma sample_decodable: "decodable sample_paos_lib [([0x7F, 0x21], sample_cvc 1 2 3 0)] (Some [0x30]) (Some [1]) None None"
  by (simp add: decodable_def sample_paos_lib_def)

theorem server_messages_are_read_witness:
  "snd (PaosHandler sample_paos_lib (tokensOf (envelopeTree ''urn:uuid:1'' ''urn:uuid:0''
      (transmitTree ''00'' [\<lparr>ia_inputApdu = [0, 0xA4], ia_acceptableStatusCodes = [''9000'']\<rparr>])))) =
     Some (PC_Transmit \<lparr>tm_slotHandle = Some (simplified ''00''),
       tm_inputApduInfos = [simplifiedCodes \<lparr>ia_inputApdu = [0, 0xA4], ia_acceptableStatusCodes = [''9000'']\<rparr>]\<rparr>,
       readIds ''urn:uuid:1'' ''urn:uuid:0'')"
  using server_messages_are_read [OF sample_decodable, of "''urn:uuid:1''" "''urn:uuid:0''" "''00''" "''PIN''" "Some ''sale''" "[4]" None
      "[\<lparr>ia_inputApdu = [0, 0xA4], ia_acceptableStatusCodes = [''9000'']\<rparr>]"]
  by simp

theorem accepted_request_can_be_checked_witness:
  "\<exists>d ids. snd (PaosHandler sample_paos_lib (tokensOf (envelopeTree ''urn:uuid:1'' ''urn:uuid:0''
       (didAuthenticateTree ''00'' ''PIN'' (eac1Tree [[0x7F, 0x21]] (Some [0x30]) (Some [1]) None None None))))) =
     Some (PC_Eac1 d, ids) \<and> e1_description (da_input d) = Some \<lparr>cd_subjectUrl = None, cd_commCertificates = []\<rparr>"
  using accepted_request_can_be_checked [of sample_paos_lib "tokensOf (envelopeTree ''urn:uuid:1'' ''urn:uuid:0''
       (didAuthenticateTree ''00'' ''PIN'' (eac1Tree [[0x7F, 0x21]] (Some [0x30]) (Some [1]) None None None)))"]
    eac1_document [OF sample_decodable, of "''urn:uuid:1''" "''urn:uuid:0''" "''00''" "''PIN''"]
  by (simp add: readDid_def eac1Values_def) (simp add: sample_paos_lib_def)

section \<open>What goes wrong\<close>

text \<open>
  Nothing asks whether the document is complete. A request to transmit that breaks off within its second
  command is accepted with the first.
\<close>

definition broken_transmit :: "xml_token list" where
  "broken_transmit =
    [StartElement ''Envelope'' [], StartElement ''Body'' [], StartElement ''Transmit'' [],
     StartElement ''InputAPDUInfo'' [], StartElement ''InputAPDU'' [], Characters ''00A4'', EndElement, EndElement,
     StartElement ''InputAPDUInfo'' [], StartElement ''InputAPDU'' []]"

theorem broken_document_is_accepted:
  "PaosHandler L broken_transmit =
     (PT_TRANSMIT,
      Some (PC_Transmit \<lparr>tm_slotHandle = None,
        tm_inputApduInfos = [\<lparr>ia_inputApdu = [0, 0xA4], ia_acceptableStatusCodes = []\<rparr>]\<rparr>, noIds))"
  by code_simp

text \<open>
  The parser of the connection handle has an error of its own, which nobody asks for. When a handle
  names the slot twice, the rest of the message is read at the wrong depth: the key and the signature of
  this request for EAC2 are skipped, and the message is accepted without them.
\<close>

definition doubled_slot :: "xml_token list" where
  "doubled_slot = tokensOf (envelopeTree ''1'' ''0'' (Element ''DIDAuthenticate'' []
     [Element ''ConnectionHandle'' [] [leaf ''SlotHandle'' ''00'', leaf ''SlotHandle'' ''00''],
      authenticationProtocolData ''EAC2InputType'' [leaf ''EphemeralPublicKey'' ''04AA'', leaf ''Signature'' ''BB'']]))"

theorem error_of_connection_handle_is_lost:
  "map_option (\<lambda>(m, ids). messageOf m) (snd (PaosHandler L doubled_slot)) =
     Some (DIDAuthenticateEAC2 \<lparr>e2_cvCertificates = [], e2_ephemeralPublicKey = [], e2_signature = []\<rparr>)"
  by code_simp

end
