(* ===== verification/PaosCreators.thy ===== *)
theory PaosCreators
  imports PaosMessages
begin

text \<open>
  How the messages to the eID server are written: src/src/core/paos/invoke with SupportedApi.cpp and
  UserAgent.cpp. A message is a list of calls of \<open>QXmlStreamWriter\<close>, which is library code; \<open>render\<close> gives
  the tokens that a reader makes of the text that these calls write. Null texts are \<open>None\<close>; the
  message of a result is null when it is empty. The new identifier of a message and the version of the
  application are parameters.
\<close>

section \<open>Namespaces\<close>

datatype xml_namespace = NS_DEFAULT | NS_SOAP | NS_XSD | NS_XSI | NS_PAOS | NS_ADDRESSING | NS_DSS | NS_ECARD | NS_TECHSCHEMA

fun namespacePrefix :: "xml_namespace \<Rightarrow> string" where
  "namespacePrefix NS_DEFAULT = []"
| "namespacePrefix NS_ADDRESSING = ''wsa''"
| "namespacePrefix NS_DSS = ''dss''"
| "namespacePrefix NS_ECARD = ''ecard''"
| "namespacePrefix NS_PAOS = ''paos''"
| "namespacePrefix NS_TECHSCHEMA = ''iso''"
| "namespacePrefix NS_XSD = ''xsd''"
| "namespacePrefix NS_XSI = ''xsi''"
| "namespacePrefix NS_SOAP = ''soap''"

fun getNamespace :: "xml_namespace \<Rightarrow> string" where
  "getNamespace NS_DEFAULT = []"
| "getNamespace NS_ADDRESSING = ''http://www.w3.org/2005/03/addressing''"
| "getNamespace NS_DSS = ''urn:oasis:names:tc:dss:1.0:core:schema''"
| "getNamespace NS_ECARD = ''http://www.bsi.bund.de/ecard/api/1.1''"
| "getNamespace NS_PAOS = ''urn:liberty:paos:2006-08''"
| "getNamespace NS_TECHSCHEMA = ''urn:iso:std:iso-iec:24727:tech:schema''"
| "getNamespace NS_XSD = ''http://www.w3.org/2001/XMLSchema''"
| "getNamespace NS_XSI = ''http://www.w3.org/2001/XMLSchema-instance''"
| "getNamespace NS_SOAP = ''http://schemas.xmlsoap.org/soap/envelope/''"

definition getNamespaceType :: "xml_namespace \<Rightarrow> string \<Rightarrow> string" where
  "getNamespaceType pPrefix pType = namespacePrefix pPrefix @ '':'' @ pType"

definition getNamespacePrefix :: "xml_namespace \<Rightarrow> string option \<Rightarrow> string" where
  "getNamespacePrefix pPrefix pSuffix =
    (let value = namespacePrefix pPrefix;
         declaration = ''xmlns'' @ (if value = [] then [] else '':'' @ value)
     in case pSuffix of
          None \<Rightarrow> declaration
        | Some localPart \<Rightarrow> if value = [] then declaration else value @ '':'' @ localPart)"

section \<open>Calls of the writer\<close>

datatype writer_call =
    WStartDocument
  | WStartElement string
  | WAttribute string string
  | WTextElement string string
  | WCharacters string
  | WEndElement
  | WEndDocument

definition declareNamespace :: "xml_namespace \<Rightarrow> writer_call" where
  "declareNamespace ns = WAttribute (getNamespacePrefix ns None) (getNamespace ns)"

definition createHeaderElement :: "string option \<Rightarrow> string \<Rightarrow> writer_call list" where
  "createHeaderElement mRelatedMessageId uuid =
    [WStartElement (getNamespacePrefix NS_SOAP (Some ''Header'')),
       WStartElement (getNamespacePrefix NS_PAOS (Some ''PAOS'')),
         WAttribute (getNamespacePrefix NS_SOAP (Some ''mustUnderstand'')) ''1'',
         WAttribute (getNamespacePrefix NS_SOAP (Some ''actor'')) ''http://schemas.xmlsoap.org/soap/actor/next'',
         WTextElement (getNamespaceType NS_PAOS ''Version'') (getNamespace NS_PAOS),
         WStartElement (getNamespaceType NS_PAOS ''EndpointReference''),
           WTextElement (getNamespaceType NS_PAOS ''Address'') ''http://www.projectliberty.org/2006/01/role/paos'',
           WStartElement (getNamespaceType NS_PAOS ''MetaData''),
             WTextElement (getNamespaceType NS_PAOS ''ServiceType'')
               ''http://www.bsi.bund.de/ecard/api/1.1/PAOS/GetNextCommand'',
           WEndElement,
         WEndElement,
       WEndElement,
       WStartElement (getNamespaceType NS_ADDRESSING ''ReplyTo''),
         WTextElement (getNamespaceType NS_ADDRESSING ''Address'') ''http://www.projectliberty.org/2006/02/role/paos'',
       WEndElement] @
    (case mRelatedMessageId of
       None \<Rightarrow> []
     | Some i \<Rightarrow> [WTextElement (getNamespaceType NS_ADDRESSING ''RelatesTo'') i]) @
    [WTextElement (getNamespaceType NS_ADDRESSING ''MessageID'') (''urn:uuid:'' @ uuid), WEndElement]"

definition createEnvelopeElement :: "string option \<Rightarrow> string \<Rightarrow> writer_call list \<Rightarrow> writer_call list" where
  "createEnvelopeElement mRelatedMessageId uuid body =
    [WStartDocument, WStartElement (getNamespacePrefix NS_SOAP (Some ''Envelope''))] @
    map declareNamespace [NS_SOAP, NS_XSD, NS_XSI, NS_PAOS, NS_ADDRESSING, NS_DSS, NS_ECARD, NS_TECHSCHEMA] @
    createHeaderElement mRelatedMessageId uuid @
    [WStartElement (getNamespacePrefix NS_SOAP (Some ''Body''))] @ body @
    [WEndElement, WEndElement, WEndDocument]"

definition createResultElement :: "string \<Rightarrow> ecard_result \<Rightarrow> writer_call list" where
  "createResultElement lang result =
    [WStartElement ''Result'', WAttribute (getNamespacePrefix NS_DEFAULT None) (getNamespace NS_DSS),
     WTextElement ''ResultMajor'' (getMajorString (er_major result))] @
    (if er_minor result \<noteq> MI_null then [WTextElement ''ResultMinor'' (getMinorString (er_minor result))] else []) @
    (if er_message result \<noteq> [] then
       [WStartElement ''ResultMessage'', WAttribute ''xml:lang'' lang, WCharacters (er_message result), WEndElement]
     else []) @
    [WEndElement]"

section \<open>The messages\<close>

definition optionalText :: "string \<Rightarrow> string option \<Rightarrow> writer_call list" where
  "optionalText name t = (case t of None \<Rightarrow> [] | Some s \<Rightarrow> [WTextElement name s])"

record eac1_output =
  o1_certificateHolderAuthorizationTemplate :: "string option"
  o1_certificationAuthorityReferences :: "string list"
  o1_efCardAccess :: "string option"
  o1_idPICC :: "string option"
  o1_challenge :: "string option"

definition setCertificationAuthorityReference :: "string \<Rightarrow> string \<Rightarrow> eac1_output \<Rightarrow> eac1_output" where
  "setCertificationAuthorityReference carCurr carPrev o1 =
    o1\<lparr>o1_certificationAuthorityReferences := o1_certificationAuthorityReferences o1 @ [carCurr] @
        (if carPrev \<noteq> [] then [carPrev] else [])\<rparr>"

definition didAuthenticateResponse :: "string \<Rightarrow> ecard_result \<Rightarrow> string \<Rightarrow> writer_call list \<Rightarrow> writer_call list" where
  "didAuthenticateResponse lang result outputType outputs =
    [WStartElement ''DIDAuthenticateResponse'', WAttribute (getNamespacePrefix NS_DEFAULT None) (getNamespace NS_TECHSCHEMA),
     WAttribute ''Profile'' (getNamespace NS_ECARD)] @
    createResultElement lang result @
    [WStartElement ''AuthenticationProtocolData'',
     WAttribute (getNamespacePrefix NS_XSI (Some ''type'')) (getNamespaceType NS_TECHSCHEMA outputType),
     WAttribute ''Protocol'' ''urn:oid:1.3.162.15480.3.0.14.2''] @
    outputs @ [WEndElement, WEndElement]"

definition DIDAuthenticateResponseEAC1_createBodyElement :: "string \<Rightarrow> ecard_result \<Rightarrow> eac1_output \<Rightarrow> writer_call list" where
  "DIDAuthenticateResponseEAC1_createBodyElement lang result o1 =
    didAuthenticateResponse lang result ''EAC1OutputType''
      (optionalText ''CertificateHolderAuthorizationTemplate'' (o1_certificateHolderAuthorizationTemplate o1) @
       map (WTextElement ''CertificationAuthorityReference'') (o1_certificationAuthorityReferences o1) @
       optionalText ''EFCardAccess'' (o1_efCardAccess o1) @
       optionalText ''IDPICC'' (o1_idPICC o1) @ optionalText ''Challenge'' (o1_challenge o1))"

record eac2_output =
  o2_efCardSecurity :: "string option"
  o2_authenticationToken :: "string option"
  o2_nonce :: "string option"
  o2_challenge :: "string option"

definition DIDAuthenticateResponseEAC2_createBodyElement :: "string \<Rightarrow> ecard_result \<Rightarrow> eac2_output \<Rightarrow> writer_call list" where
  "DIDAuthenticateResponseEAC2_createBodyElement lang result o2 =
    didAuthenticateResponse lang result ''EAC2OutputType''
      (optionalText ''EFCardSecurity'' (o2_efCardSecurity o2) @
       optionalText ''AuthenticationToken'' (o2_authenticationToken o2) @
       optionalText ''Nonce'' (o2_nonce o2) @ optionalText ''Challenge'' (o2_challenge o2))"

definition DIDListResponse_createBodyElement :: "string \<Rightarrow> ecard_result \<Rightarrow> writer_call list" where
  "DIDListResponse_createBodyElement lang result =
    [WStartElement ''DIDListResponse'', WAttribute (getNamespacePrefix NS_TECHSCHEMA None) (getNamespace NS_TECHSCHEMA),
     WAttribute ''Profile'' (getNamespace NS_ECARD)] @
    createResultElement lang result @
    [WStartElement ''DIDNameList'', WTextElement ''DIDName'' ''PIN'', WEndElement, WEndElement]"

definition DisconnectResponse_createBodyElement :: "string \<Rightarrow> ecard_result \<Rightarrow> string option \<Rightarrow> writer_call list" where
  "DisconnectResponse_createBodyElement lang result slotHandle =
    [WStartElement ''DisconnectResponse'', WAttribute (getNamespacePrefix NS_DEFAULT None) (getNamespace NS_TECHSCHEMA),
     WAttribute ''Profile'' (getNamespace NS_ECARD)] @
    createResultElement lang result @ optionalText ''SlotHandle'' slotHandle @ [WEndElement]"

definition InitializeFrameworkResponse_createBodyElement :: "string \<Rightarrow> ecard_result \<Rightarrow> writer_call list" where
  "InitializeFrameworkResponse_createBodyElement lang result =
    [WStartElement ''InitializeFrameworkResponse'', WAttribute (getNamespacePrefix NS_DEFAULT None) (getNamespace NS_ECARD),
     WAttribute ''Profile'' (getNamespace NS_ECARD)] @
    createResultElement lang result @
    [WStartElement ''Version'', WTextElement ''Major'' ''1'', WTextElement ''Minor'' ''1'', WTextElement ''SubMinor'' ''5'',
     WEndElement, WEndElement]"

definition TransmitResponse_createBodyElement :: "string \<Rightarrow> ecard_result \<Rightarrow> string list \<Rightarrow> writer_call list" where
  "TransmitResponse_createBodyElement lang result outputApdus =
    [WStartElement ''TransmitResponse'', WAttribute (getNamespacePrefix NS_DEFAULT None) (getNamespace NS_TECHSCHEMA),
     WAttribute ''Profile'' (getNamespace NS_ECARD)] @
    createResultElement lang result @ map (WTextElement ''OutputAPDU'') outputApdus @ [WEndElement]"

record user_agent =
  ua_name :: string
  ua_major :: string
  ua_minor :: string
  ua_subminor :: string

definition StartPaos_createBodyElement :: "user_agent \<Rightarrow> string \<Rightarrow> writer_call list" where
  "StartPaos_createBodyElement ua mSessionId =
    [WStartElement ''StartPAOS'', WAttribute (getNamespacePrefix NS_DEFAULT None) (getNamespace NS_TECHSCHEMA),
     WTextElement ''SessionIdentifier'' mSessionId,
     WStartElement ''ConnectionHandle'', declareNamespace NS_XSI,
       WAttribute (getNamespacePrefix NS_XSI (Some ''type'')) ''ConnectionHandleType'',
       WTextElement ''CardApplication'' ''e80704007f00070302'', WTextElement ''SlotHandle'' ''00'', WEndElement,
     WStartElement ''UserAgent'', WTextElement ''Name'' (ua_name ua), WTextElement ''VersionMajor'' (ua_major ua),
       WTextElement ''VersionMinor'' (ua_minor ua), WTextElement ''VersionSubminor'' (ua_subminor ua), WEndElement,
     WStartElement ''SupportedAPIVersions'', WTextElement ''Major'' ''1'', WTextElement ''Minor'' ''1'',
       WTextElement ''Subminor'' ''5'', WEndElement,
     WEndElement]"

text \<open>The virtual function \<open>createBodyElement\<close> of the creators that answer a request.\<close>

datatype paos_response =
    R_Eac1 eac1_output
  | R_Eac2 eac2_output
  | R_DIDList
  | R_Disconnect "string option"
  | R_InitializeFramework
  | R_Transmit "string list"

fun createBodyElement :: "string \<Rightarrow> ecard_result \<Rightarrow> paos_response \<Rightarrow> writer_call list" where
  "createBodyElement lang result (R_Eac1 o1) = DIDAuthenticateResponseEAC1_createBodyElement lang result o1"
| "createBodyElement lang result (R_Eac2 o2) = DIDAuthenticateResponseEAC2_createBodyElement lang result o2"
| "createBodyElement lang result R_DIDList = DIDListResponse_createBodyElement lang result"
| "createBodyElement lang result (R_Disconnect slotHandle) = DisconnectResponse_createBodyElement lang result slotHandle"
| "createBodyElement lang result R_InitializeFramework = InitializeFrameworkResponse_createBodyElement lang result"
| "createBodyElement lang result (R_Transmit outputApdus) = TransmitResponse_createBodyElement lang result outputApdus"

section \<open>What is written\<close>

text \<open>
  The tokens that a reader gets from the text that the calls write: names without their prefix,
  attributes with their qualified names, no token for an empty text. The indentation between elements
  is left out.
\<close>

definition localName :: "string \<Rightarrow> string" where
  "localName n = (let r = dropWhile (\<lambda>c. c \<noteq> CHR '':'') n in if r = [] then n else tl r)"

fun leadingAttributes :: "writer_call list \<Rightarrow> xml_attribute list" where
  "leadingAttributes (WAttribute n v # calls) = ([], n, v) # leadingAttributes calls"
| "leadingAttributes _ = []"

definition textTokens :: "string \<Rightarrow> xml_token list" where
  "textTokens t = (if t = [] then [] else [Characters t])"

fun render :: "writer_call list \<Rightarrow> xml_token list" where
  "render [] = []"
| "render (WStartDocument # calls) = OtherToken # render calls"
| "render (WStartElement n # calls) = StartElement (localName n) (leadingAttributes calls) # render calls"
| "render (WAttribute n v # calls) = render calls"
| "render (WTextElement n t # calls) = StartElement (localName n) [] # textTokens t @ EndElement # render calls"
| "render (WCharacters t # calls) = textTokens t @ render calls"
| "render (WEndElement # calls) = EndElement # render calls"
| "render (WEndDocument # calls) = OtherToken # render calls"

text \<open>The text that the detection of elements gives for an element.\<close>

definition detectedText :: "string \<Rightarrow> string option" where
  "detectedText t = (if isWhitespace t then None else Some (simplified t))"

lemma detectedText_fromNull [simp]: "fromNull (detectedText t) = simplified t"
  by (simp add: detectedText_def fromNull_def isWhitespace_spaces)

lemma leadingAttributes_append: "leadingAttributes ys = [] \<Longrightarrow> leadingAttributes (xs @ ys) = leadingAttributes xs"
  by (induction xs rule: leadingAttributes.induct) simp_all

lemma render_append: "leadingAttributes ys = [] \<Longrightarrow> render (xs @ ys) = render xs @ render ys"
  by (induction xs rule: render.induct) (simp_all add: leadingAttributes_append)

lemma detect_textElement:
  "detectStartElements found names (render (WTextElement n t # calls)) s =
     detectStartElements found names (render calls)
       (if localName n \<in> set names then found (localName n) (detectedText t) [] s else s)"
  by (auto simp: textTokens_def detectedText_def isWhitespace_def)

definition written :: "writer_call \<Rightarrow> string set" where
  "written c = (case c of WStartElement n \<Rightarrow> {localName n} | WTextElement n t \<Rightarrow> {localName n} | _ \<Rightarrow> {})"

lemma startNames_textTokens [simp]: "startNames (textTokens t) = {}"
  by (simp add: textTokens_def)

lemma startNames_render: "startNames (render calls) = (\<Union>c \<in> set calls. written c)"
  by (induction calls rule: render.induct) (simp_all add: written_def)

lemma render_calls [simp]:
  "leadingAttributes (map (WTextElement n) ts @ calls) = (if ts = [] then leadingAttributes calls else [])"
  "leadingAttributes (optionalText n v @ calls) = (if v = None then leadingAttributes calls else [])"
  by (cases ts; simp) (simp add: optionalText_def split: option.splits)

section \<open>The server reads what was answered\<close>

abbreviation responseNames :: "string list" where
  "responseNames \<equiv> [''RelatesTo'', ''MessageID'', ''ResultMajor'', ''ResultMinor'', ''ResultMessage'']"

abbreviation detectResponse :: "writer_call list \<Rightarrow> start_paos_response \<Rightarrow> start_paos_response" where
  "detectResponse calls s \<equiv> detectStartElements startPaosResponseElement responseNames (render calls) s"

lemma detectResponse_simps:
  "detectResponse (WStartElement n # calls) s = detectResponse calls s" if "localName n \<notin> set responseNames"
  using that by simp

lemma detectResponse_other:
  "detectResponse (WStartDocument # calls) s = detectResponse calls s"
  "detectResponse (WAttribute n v # calls) s = detectResponse calls s"
  "detectResponse (WEndElement # calls) s = detectResponse calls s"
  "detectResponse (WEndDocument # calls) s = detectResponse calls s"
  "detectResponse [] s = s"
  by simp_all

lemmas names_simps = getNamespacePrefix_def getNamespaceType_def localName_def

lemma localName_names [simp]:
  "localName (getNamespacePrefix NS_SOAP (Some ''Envelope'')) = ''Envelope''"
  "localName (getNamespacePrefix NS_SOAP (Some ''Header'')) = ''Header''"
  "localName (getNamespacePrefix NS_SOAP (Some ''Body'')) = ''Body''"
  "localName (getNamespacePrefix NS_PAOS (Some ''PAOS'')) = ''PAOS''"
  "localName (getNamespaceType NS_PAOS ''Version'') = ''Version''"
  "localName (getNamespaceType NS_PAOS ''EndpointReference'') = ''EndpointReference''"
  "localName (getNamespaceType NS_PAOS ''Address'') = ''Address''"
  "localName (getNamespaceType NS_PAOS ''MetaData'') = ''MetaData''"
  "localName (getNamespaceType NS_PAOS ''ServiceType'') = ''ServiceType''"
  "localName (getNamespaceType NS_ADDRESSING ''ReplyTo'') = ''ReplyTo''"
  "localName (getNamespaceType NS_ADDRESSING ''Address'') = ''Address''"
  "localName (getNamespaceType NS_ADDRESSING ''RelatesTo'') = ''RelatesTo''"
  "localName (getNamespaceType NS_ADDRESSING ''MessageID'') = ''MessageID''"
  by (simp_all add: names_simps)

lemma localName_plain: "list_all (\<lambda>c. c \<noteq> CHR '':'') n \<Longrightarrow> localName n = n"
  using takeWhile_dropWhile_id [of "\<lambda>c. c \<noteq> CHR '':''" n]
  by (simp add: localName_def Let_def dropWhile_eq_Nil_conv list_all_iff)

definition readHeader :: "string option \<Rightarrow> string \<Rightarrow> paos_ids" where
  "readHeader related uuid =
    \<lparr>pi_messageID = detectedText (''urn:uuid:'' @ uuid), pi_relatesTo = (case related of None \<Rightarrow> None | Some i \<Rightarrow> detectedText i)\<rparr>"

lemma detect_header:
  "sp_ids s = noIds \<Longrightarrow>
   detectResponse (createHeaderElement related uuid @ calls) s = detectResponse calls (s\<lparr>sp_ids := readHeader related uuid\<rparr>)"
  by (simp add: createHeaderElement_def detectResponse_simps detectResponse_other detect_textElement
      startPaosResponseElement_def handleWSAddressingHeaders_def noIds_def readHeader_def
      del: render.simps split: option.split)

lemma detect_message:
  assumes "message \<noteq> []"
  shows "detectResponse ([WStartElement ''ResultMessage'', WAttribute n lang, WCharacters message, WEndElement] @ calls) s =
    detectResponse calls (s\<lparr>sp_resultMessage := detectedText message\<rparr>)"
  using assms
  by (simp add: localName_plain textTokens_def detectedText_def startPaosResponseElement_def handleWSAddressingHeaders_def)

definition resultRead :: "ecard_result \<Rightarrow> start_paos_response \<Rightarrow> start_paos_response" where
  "resultRead r s = s\<lparr>sp_resultMajor := detectedText (getMajorString (er_major r)),
     sp_resultMinor := (if er_minor r \<noteq> MI_null then detectedText (getMinorString (er_minor r)) else sp_resultMinor s),
     sp_resultMessage := (if er_message r \<noteq> [] then detectedText (er_message r) else sp_resultMessage s)\<rparr>"

lemma detect_result:
  "detectResponse (createResultElement lang r @ calls) s = detectResponse calls (resultRead r s)"
proof -
  have element: "startPaosResponseElement ''ResultMajor'' v as s = s\<lparr>sp_resultMajor := v\<rparr>"
    "startPaosResponseElement ''ResultMinor'' v as s = s\<lparr>sp_resultMinor := v\<rparr>" for v as s
    by (simp_all add: startPaosResponseElement_def handleWSAddressingHeaders_def)
  show ?thesis
    using detect_message [of "er_message r" "''xml:lang''" lang "WEndElement # calls"]
    by (simp add: createResultElement_def detectResponse_simps detectResponse_other detect_textElement localName_plain
        element resultRead_def del: render.simps)
qed

lemma detectResponse_skip:
  "(\<Union>c \<in> set calls. written c) \<inter> set responseNames = {} \<Longrightarrow> detectResponse calls s = s"
  by (rule detectStartElements_none) (simp add: startNames_render)

lemma written_simps [simp]:
  "written (WStartElement n) = {localName n}" "written (WTextElement n t) = {localName n}"
  "written (WAttribute n v) = {}" "written WEndElement = {}" "written WEndDocument = {}" "written (WCharacters t) = {}"
  by (simp_all add: written_def)

lemma body_is_detected:
  "detectResponse (createBodyElement lang r x @ [WEndElement, WEndElement, WEndDocument]) s = resultRead r s"
  by (cases x)
    (auto simp: DIDAuthenticateResponseEAC1_createBodyElement_def DIDAuthenticateResponseEAC2_createBodyElement_def
      DIDListResponse_createBodyElement_def DisconnectResponse_createBodyElement_def didAuthenticateResponse_def
      InitializeFrameworkResponse_createBodyElement_def TransmitResponse_createBodyElement_def
      detectResponse_simps detectResponse_other detect_result localName_plain optionalText_def
      intro!: detectResponse_skip simp del: render.simps split: option.splits)

lemma declarations_are_skipped:
  "detectResponse (map declareNamespace nss @ calls) s = detectResponse calls s"
  by (induction nss) (simp_all add: declareNamespace_def)

lemma detect_envelope:
  "detectResponse (createEnvelopeElement related uuid (createBodyElement lang r x)) s =
     resultRead r (s\<lparr>sp_ids := readHeader related uuid\<rparr>)" if "sp_ids s = noIds"
  using that
  by (simp add: createEnvelopeElement_def detectResponse_simps detectResponse_other declarations_are_skipped
      detect_header body_is_detected del: render.simps list.map)

text \<open>
  Written and read results fit together: the client's own reader of results gets from every answer the
  major and minor value and the message up to spaces, the new identifier of the message and the identifier of the request it
  relates to. Both sides use the table of URIs of the client here, with its wrong entry
  (\<open>sharing_violation_is_not_read\<close>); this says nothing of a server with the standard's table.
\<close>

theorem answered_result_is_read:
  "StartPaosResponse_parse (render (createEnvelopeElement related uuid (createBodyElement lang r x))) =
     (r\<lparr>er_message := simplified (er_message r), er_origin := Server\<rparr>, readHeader related uuid)"
proof -
  have major: "simplified (getMajorString m) = getMajorString m" for m
    by (cases m) (simp_all add: getMajorString_def RESULTMAJOR_def simplified_nospace isSpaceChar_def)
  have minor: "simplified (getMinorString m) = getMinorString m" for m
    by (cases m) (simp_all add: getMinorString_def RESULTMINOR_def simplified_nospace isSpaceChar_def)
  have uris: "parseMajor (getMajorString m) = m" "parseMinor (getMinorString i) = i" "parseMinor [] = MI_null" for m i
    using result_uris_roundtrip [of m i] result_uris_roundtrip [of m MI_null]
    by (simp_all add: getMinorString_def [of MI_null])
  show ?thesis
    by (simp add: StartPaosResponse_parse_def detect_envelope resultRead_def major minor uris ECardApiResultOfStrings_def
        fromNull_def [of None] Let_def)
qed

text \<open>
  Every body declares the namespace that its elements without prefix are in, apart from the response
  with the list of the names: it declares a prefix that none of its elements uses.
\<close>

definition declaresDefault :: "writer_call list \<Rightarrow> bool" where
  "declaresDefault calls \<longleftrightarrow> (case render calls of StartElement n attributes # _ \<Rightarrow> ''xmlns'' \<in> (fst \<circ> snd) ` set attributes | _ \<Rightarrow> False)"

theorem did_list_response_has_no_namespace:
  "declaresDefault (createBodyElement lang r x) \<longleftrightarrow> x \<noteq> R_DIDList"
  by (cases x)
    (simp_all add: declaresDefault_def DIDAuthenticateResponseEAC1_createBodyElement_def getNamespacePrefix_def
      DIDAuthenticateResponseEAC2_createBodyElement_def DIDListResponse_createBodyElement_def
      DisconnectResponse_createBodyElement_def didAuthenticateResponse_def
      InitializeFrameworkResponse_createBodyElement_def TransmitResponse_createBodyElement_def createResultElement_def)

end
