(* ===== verification/Pcsc.thy ===== *)
theory Pcsc
  imports CardConnection PinPad Bluetooth
begin

text \<open>
  The driver for readers of PC/SC: src/src/card/pcsc. The library of the operating system is the
  record \<open>scard\<close> of functions over its state \<open>'s\<close>; a handle of 0 is none. The record \<open>pcsc_card\<close> is
  \<open>PcscCard\<close>, \<open>pcsc_reader\<close> is \<open>PcscReader\<close>, and \<open>pcsc_plugin\<close> is \<open>PcscReaderManagerPlugIn\<close> with
  the signals it emits. Timers are flags, a tick is an operation.
\<close>

section \<open>The library\<close>

datatype (plugins only: size) pcsc_code =
    Scard_S_Success | Scard_F_Internal_Error | Scard_E_Cancelled | Scard_E_Invalid_Handle
  | Scard_E_Invalid_Parameter | Scard_E_Invalid_Target | Scard_E_No_Memory | Scard_F_Waited_Too_Long
  | Scard_E_Insufficient_Buffer | Scard_E_Unknown_Reader | Scard_E_Timeout | Scard_E_Sharing_Violation
  | Scard_E_No_Smartcard | Scard_E_Unknown_Card | Scard_E_Cant_Dispose | Scard_E_Proto_Mismatch
  | Scard_E_Not_Ready | Scard_E_Invalid_Value | Scard_E_System_Cancelled | Scard_F_Comm_Error
  | Scard_F_Unknown_Error | Scard_E_Invalid_Atr | Scard_E_Not_Transacted | Scard_E_Reader_Unavailable
  | Scard_P_Shutdown | Scard_E_Pci_Too_Small | Scard_E_Reader_Unsupported | Scard_E_Duplicate_Reader
  | Scard_E_Card_Unsupported | Scard_E_No_Service | Scard_E_Service_Stopped | Scard_E_Unsupported_Feature
  | Scard_E_Unexpected | Scard_E_Icc_Installation | Scard_E_Icc_Createorder | Scard_E_Dir_Not_Found
  | Scard_E_File_Not_Found | Scard_E_No_Dir | Scard_E_No_File | Scard_E_No_Access | Scard_E_Write_Too_Many
  | Scard_E_Bad_Seek | Scard_E_Invalid_Chv | Scard_E_Unknown_Res_Mng | Scard_E_No_Such_Certificate
  | Scard_E_Certificate_Unavailable | Scard_E_No_Readers_Available | Scard_E_Comm_Data_Lost
  | Scard_E_No_Key_Container | Scard_E_Server_Too_Busy | Scard_W_Unsupported_Card
  | Scard_W_Unresponsive_Card | Scard_W_Unpowered_Card | Scard_W_Reset_Card | Scard_W_Removed_Card
  | Scard_W_Security_Violation | Scard_W_Wrong_Chv | Scard_W_Chv_Blocked | Scard_W_Eof
  | Scard_W_Cancelled_By_User | Scard_W_Card_Not_Authenticated | Scard_Other int

datatype pcsc_protocol = PROTOCOL_UNDEFINED | PROTOCOL_T0 | PROTOCOL_T1 | PROTOCOL_RAW | PROTOCOL_Other int

datatype pcsc_disposition = LEAVE_CARD | RESET_CARD

datatype pcsc_share = SHARE_SHARED | SHARE_DIRECT

record 's scard =
  sc_establishContext :: "'s \<Rightarrow> pcsc_code \<times> nat \<times> 's"
  sc_releaseContext :: "nat \<Rightarrow> 's \<Rightarrow> pcsc_code \<times> 's"
  sc_listReaders :: "nat \<Rightarrow> 's \<Rightarrow> pcsc_code \<times> bytes \<times> 's"
  sc_getStatusChange :: "nat \<Rightarrow> string \<Rightarrow> 32 word \<Rightarrow> 's \<Rightarrow> pcsc_code \<times> 32 word \<times> 's"
  sc_connect :: "nat \<Rightarrow> string \<Rightarrow> pcsc_share \<Rightarrow> 's \<Rightarrow> pcsc_code \<times> nat \<times> pcsc_protocol \<times> 's"
  sc_reconnect :: "nat \<Rightarrow> pcsc_protocol \<Rightarrow> 's \<Rightarrow> pcsc_code \<times> 's"
  sc_disconnect :: "nat \<Rightarrow> pcsc_disposition \<Rightarrow> 's \<Rightarrow> pcsc_code \<times> 's"
  sc_beginTransaction :: "nat \<Rightarrow> 's \<Rightarrow> pcsc_code \<times> 's"
  sc_endTransaction :: "nat \<Rightarrow> pcsc_disposition \<Rightarrow> 's \<Rightarrow> pcsc_code \<times> 's"
  sc_transmit :: "nat \<Rightarrow> pcsc_protocol \<Rightarrow> bytes \<Rightarrow> 's \<Rightarrow> pcsc_code \<times> bytes \<times> 's"
  sc_control :: "nat \<Rightarrow> nat \<Rightarrow> bytes \<Rightarrow> 's \<Rightarrow> pcsc_code \<times> bytes \<times> 's"

section \<open>Features and capabilities of a reader\<close>

datatype FeatureID =
    VERIFY_PIN_START | VERIFY_PIN_FINISH | MODIFY_PIN_START | MODIFY_PIN_FINISH | GET_KEY_PRESSED
  | VERIFY_PIN_DIRECT | MODIFY_PIN_DIRECT | MCT_READERDIRECT | MCT_UNIVERSAL | IFD_PIN_PROP | ABORT
  | SET_SPE_MESSAGE | VERIFY_PIN_DIRECT_APP_ID | MODIFY_PIN_DIRECT_APP_ID | WRITE_DISPLAY | GET_KEY
  | IFD_DISPLAY_PROPERTIES | TLV_PROPERTIES | CCID_ESC_COMMAND | EXECUTE_PACE

fun featureValue :: "FeatureID \<Rightarrow> byte" where
  "featureValue VERIFY_PIN_START = 0x1"
| "featureValue VERIFY_PIN_FINISH = 0x2"
| "featureValue MODIFY_PIN_START = 0x3"
| "featureValue MODIFY_PIN_FINISH = 0x4"
| "featureValue GET_KEY_PRESSED = 0x5"
| "featureValue VERIFY_PIN_DIRECT = 0x6"
| "featureValue MODIFY_PIN_DIRECT = 0x7"
| "featureValue MCT_READERDIRECT = 0x8"
| "featureValue MCT_UNIVERSAL = 0x9"
| "featureValue IFD_PIN_PROP = 0xa"
| "featureValue ABORT = 0xb"
| "featureValue SET_SPE_MESSAGE = 0x0c"
| "featureValue VERIFY_PIN_DIRECT_APP_ID = 0x0d"
| "featureValue MODIFY_PIN_DIRECT_APP_ID = 0x0e"
| "featureValue WRITE_DISPLAY = 0x0f"
| "featureValue GET_KEY = 0x10"
| "featureValue IFD_DISPLAY_PROPERTIES = 0x11"
| "featureValue TLV_PROPERTIES = 0x12"
| "featureValue CCID_ESC_COMMAND = 0x13"
| "featureValue EXECUTE_PACE = 0x20"

definition FeatureID_list :: "FeatureID list" where
  "FeatureID_list =
    [VERIFY_PIN_START, VERIFY_PIN_FINISH, MODIFY_PIN_START, MODIFY_PIN_FINISH, GET_KEY_PRESSED,
     VERIFY_PIN_DIRECT, MODIFY_PIN_DIRECT, MCT_READERDIRECT, MCT_UNIVERSAL, IFD_PIN_PROP, ABORT,
     SET_SPE_MESSAGE, VERIFY_PIN_DIRECT_APP_ID, MODIFY_PIN_DIRECT_APP_ID, WRITE_DISPLAY, GET_KEY,
     IFD_DISPLAY_PROPERTIES, TLV_PROPERTIES, CCID_ESC_COMMAND, EXECUTE_PACE]"

interpretation feature: enum_type featureValue FeatureID_list
proof
  fix e :: FeatureID
  show "e \<in> set FeatureID_list"
    by (cases e) (simp_all add: FeatureID_list_def)
  show "distinct (map featureValue FeatureID_list)"
    by (simp add: FeatureID_list_def)
qed

text \<open>The constructor of \<open>PcscReaderFeature\<close>: records of six bytes; a rest that is shorter is ignored.\<close>

fun readFeatures :: "bytes \<Rightarrow> (FeatureID \<rightharpoonup> nat) \<Rightarrow> (FeatureID \<rightharpoonup> nat)" where
  "readFeatures (t # l # a # b # c # d # rest) m =
     readFeatures rest (case enum_ofValue featureValue FeatureID_list t of
                          None \<Rightarrow> m | Some f \<Rightarrow> m(f \<mapsto> from_be [a, b, c, d]))"
| "readFeatures _ m = m"

definition PcscReaderFeature :: "bytes \<Rightarrow> (FeatureID \<rightharpoonup> nat)" where
  "PcscReaderFeature tlv = readFeatures tlv Map.empty"

datatype PaceCapabilityId = ESIGN | EID | GENERIC | DESTROY_CHANNEL

fun capabilityValue :: "PaceCapabilityId \<Rightarrow> byte" where
  "capabilityValue ESIGN = 0x10"
| "capabilityValue EID = 0x20"
| "capabilityValue GENERIC = 0x40"
| "capabilityValue DESTROY_CHANNEL = 0x80"

definition PcscReaderPaceCapability :: "bytes \<Rightarrow> PaceCapabilityId list" where
  "PcscReaderPaceCapability tlv =
    (if length tlv \<noteq> 7 then []
     else if take 4 tlv \<noteq> [0, 0, 0, 0] then []
     else filter (\<lambda>c. tlv ! 6 AND capabilityValue c \<noteq> 0) [ESIGN, EID, GENERIC, DESTROY_CHANNEL])"

section \<open>The card\<close>

record pcsc_card =
  pk_contextHandle :: nat
  pk_cardHandle :: nat
  pk_protocol :: pcsc_protocol
  pk_timer :: bool

definition PcscCard :: "'s scard \<Rightarrow> 's \<Rightarrow> pcsc_card \<times> 's" where
  "PcscCard L s =
    (let (returnCode, context, s) = sc_establishContext L s
     in (\<lparr>pk_contextHandle = if returnCode = Scard_S_Success then context else 0, pk_cardHandle = 0,
          pk_protocol = PROTOCOL_UNDEFINED, pk_timer = False\<rparr>, s))"

definition PcscCard_isConnected :: "pcsc_card \<Rightarrow> bool" where
  "PcscCard_isConnected k \<longleftrightarrow> pk_cardHandle k \<noteq> 0"

text \<open>\<open>windows8\<close>: the system ends a transaction that is idle, so a timer keeps it alive.\<close>

definition PcscCard_connect ::
  "'s scard \<Rightarrow> bool \<Rightarrow> string \<Rightarrow> pcsc_card \<Rightarrow> 's \<Rightarrow> CardReturnCode \<times> pcsc_card \<times> 's" where
  "PcscCard_connect L windows8 readerName k s =
    (if PcscCard_isConnected k then (CR_COMMAND_FAILED, k, s)
     else
       let (returnCode, handle, protocol, s) = sc_connect L (pk_contextHandle k) readerName SHARE_SHARED s
       in if returnCode \<noteq> Scard_S_Success then (CR_COMMAND_FAILED, k, s)
       else
         let k = k\<lparr>pk_cardHandle := handle, pk_protocol := protocol\<rparr>;
             (returnCode, s) = sc_beginTransaction L (pk_cardHandle k) s
         in if returnCode \<noteq> Scard_S_Success
            then (CR_COMMAND_FAILED, k, snd (sc_disconnect L (pk_cardHandle k) LEAVE_CARD s))
            else (CR_OK, if windows8 then k\<lparr>pk_timer := True\<rparr> else k, s))"

definition PcscCard_disconnect :: "'s scard \<Rightarrow> pcsc_card \<Rightarrow> 's \<Rightarrow> CardReturnCode \<times> pcsc_card \<times> 's" where
  "PcscCard_disconnect L k s =
    (if \<not> PcscCard_isConnected k then (CR_COMMAND_FAILED, k, s)
     else
       let (_, s) = sc_endTransaction L (pk_cardHandle k) LEAVE_CARD s;
           (returnCode, s) = sc_disconnect L (pk_cardHandle k) RESET_CARD s
       in (if returnCode = Scard_S_Success then CR_OK else CR_COMMAND_FAILED,
           k\<lparr>pk_timer := False, pk_cardHandle := 0, pk_protocol := PROTOCOL_UNDEFINED\<rparr>, s))"

text \<open>The destructor.\<close>

definition destroyPcscCard :: "'s scard \<Rightarrow> pcsc_card \<Rightarrow> 's \<Rightarrow> 's" where
  "destroyPcscCard L k s =
    (let (k, s) = (if PcscCard_isConnected k then snd (PcscCard_disconnect L k s) else (k, s))
     in snd (sc_releaseContext L (pk_contextHandle k) s))"

text \<open>The transmission of a buffer; a card that was reset is connected anew unless the command is secured.\<close>

definition transmitBuffer :: "'s scard \<Rightarrow> pcsc_card \<Rightarrow> bytes \<Rightarrow> 's \<Rightarrow> pcsc_code \<times> bytes \<times> 's" where
  "transmitBuffer L k pSendBuffer s =
    (if pk_protocol k \<notin> {PROTOCOL_T0, PROTOCOL_T1, PROTOCOL_RAW} then (Scard_E_Proto_Mismatch, [], s)
     else
       let (returnCode, received, s) = sc_transmit L (pk_cardHandle k) (pk_protocol k) pSendBuffer s;
           (returnCode, received, s) =
             (if returnCode = Scard_W_Reset_Card \<and> \<not> isSecureMessaging pSendBuffer then
                (let (returnCode, s) = sc_reconnect L (pk_cardHandle k) (pk_protocol k) s
                 in if returnCode \<noteq> Scard_S_Success then (returnCode, [], s)
                    else (let (_, s) = sc_beginTransaction L (pk_cardHandle k) s
                          in sc_transmit L (pk_cardHandle k) (pk_protocol k) pSendBuffer s))
              else (returnCode, received, s))
       in if returnCode \<noteq> Scard_S_Success then (returnCode, received, s)
          else if length received < 2 then (Scard_F_Unknown_Error, received, s)
          else (Scard_S_Success, received, s))"

text \<open>\<open>char\<close> is signed: a second status byte of 0x80 and more is a negative expected length.\<close>

definition signedSW2 :: "bytes \<Rightarrow> int" where
  "signedSW2 buf = sint (getSW2 buf)"

definition getResponseCommand :: "bytes \<Rightarrow> bytes" where
  "getResponseCommand tempResponse = CommandApdu 0 0xC0 0 0 [] (signedSW2 tempResponse)"

partial_function (option) getResponseLoop ::
  "'s scard \<Rightarrow> pcsc_card \<Rightarrow> bytes \<Rightarrow> bytes \<Rightarrow> 's \<Rightarrow> (CardReturnCode \<times> bytes option \<times> 's) option" where
  "getResponseLoop L k receiveBuffer tempResponse s =
    (if getSW1 tempResponse \<noteq> SW1_MORE_DATA_AVAILABLE then Some (CR_OK, Some receiveBuffer, s)
     else
       let (returnCode, received, s') = transmitBuffer L k (getResponseCommand tempResponse) s
       in if returnCode \<noteq> Scard_S_Success then Some (CR_COMMAND_FAILED, None, s')
          else getResponseLoop L k (take (length receiveBuffer - 2) receiveBuffer @ received) received s')"

definition retransmitCommand :: "bytes \<Rightarrow> bytes \<Rightarrow> bytes" where
  "retransmitCommand pCmd tempResponse =
     CommandApdu (getCLA pCmd) (getINS pCmd) (getP1 pCmd) (getP2 pCmd) (getData pCmd) (signedSW2 tempResponse)"

definition PcscCard_transmit ::
  "'s scard \<Rightarrow> pcsc_card \<Rightarrow> bytes \<Rightarrow> 's \<Rightarrow> (CardReturnCode \<times> bytes option \<times> 's) option" where
  "PcscCard_transmit L k pCmd s =
    (if \<not> PcscCard_isConnected k then Some (CR_COMMAND_FAILED, None, s)
     else
       let (returnCode, tempResponse, s) = transmitBuffer L k pCmd s
       in if returnCode \<noteq> Scard_S_Success then Some (CR_COMMAND_FAILED, None, s)
       else if getSW1 tempResponse = SW1_WRONG_LE_FIELD then
         (let (returnCode, receiveBuffer, s) = transmitBuffer L k (retransmitCommand pCmd tempResponse) s
          in if returnCode \<noteq> Scard_S_Success then Some (CR_COMMAND_FAILED, None, s)
             else getResponseLoop L k receiveBuffer tempResponse s)
       else getResponseLoop L k tempResponse tempResponse s)"

definition control :: "'s scard \<Rightarrow> pcsc_card \<Rightarrow> nat \<Rightarrow> bytes \<Rightarrow> 's \<Rightarrow> pcsc_code \<times> bytes \<times> 's" where
  "control L k pCntrCode pCntrInput s =
    (let (returnCode, out, s) = sc_control L (pk_cardHandle k) pCntrCode pCntrInput s;
         out = (if returnCode \<noteq> Scard_S_Success then [] else out)
     in if 2048 < length out then (Scard_F_Unknown_Error, [], s) else (returnCode, out, s))"

text \<open>The commands of a reader with PIN pad. The output of PACE is \<open>None\<close> when its parser reads outside of it.\<close>

definition PcscCard_establishPaceChannel ::
  "'s scard \<Rightarrow> (FeatureID \<rightharpoonup> nat) \<Rightarrow> pcsc_card \<Rightarrow> pace_input \<Rightarrow> pace_output \<Rightarrow> 's \<Rightarrow> CardReturnCode \<times> pace_output option \<times> 's" where
  "PcscCard_establishPaceChannel L features k input po s =
    (case features EXECUTE_PACE of
       None \<Rightarrow> (CR_COMMAND_FAILED, Some po, s)
     | Some cmdID \<Rightarrow>
        (let (returnCode, controlRes, s) = control L k cmdID (createPaceCommandData input) s
         in if returnCode \<noteq> Scard_S_Success then (CR_COMMAND_FAILED, Some po, s)
            else (let out = parsePcscOutput controlRes (pi_passwordId input) po
                  in (case out of None \<Rightarrow> CR_UNKNOWN | Some o1 \<Rightarrow> po_returnCode o1, out, s))))"

definition PcscCard_destroyPaceChannel ::
  "'s scard \<Rightarrow> (FeatureID \<rightharpoonup> nat) \<Rightarrow> pcsc_card \<Rightarrow> 's \<Rightarrow> CardReturnCode \<times> 's" where
  "PcscCard_destroyPaceChannel L features k s =
    (case features EXECUTE_PACE of
       None \<Rightarrow> (CR_COMMAND_FAILED, s)
     | Some cmdID \<Rightarrow>
        (let (returnCode, controlRes, s) = control L k cmdID destroyPaceChannelCommandData s
         in if returnCode \<noteq> Scard_S_Success then (CR_COMMAND_FAILED, s) else (CR_OK, s)))"

definition PcscCard_setEidPin ::
  "'s scard \<Rightarrow> (FeatureID \<rightharpoonup> nat) \<Rightarrow> pcsc_card \<Rightarrow> byte \<Rightarrow> 's \<Rightarrow> CardReturnCode \<times> bytes option \<times> 's" where
  "PcscCard_setEidPin L features k timeout s =
    (case features MODIFY_PIN_DIRECT of
       None \<Rightarrow> (CR_COMMAND_FAILED, None, s)
     | Some cmdID \<Rightarrow>
        (let (returnCode, controlRes, s) = control L k cmdID (createCcidForPcsc timeout) s
         in if returnCode \<noteq> Scard_S_Success then (CR_COMMAND_FAILED, None, s)
            else (getCardReturnCode controlRes, Some controlRes, s)))"

section \<open>The reader\<close>

record pcsc_reader =
  rd_name :: string
  rd_contextHandle :: nat
  rd_currentState :: "32 word"
  rd_features :: "FeatureID \<rightharpoonup> nat"
  rd_paceCapabilities :: "PaceCapabilityId list"
  rd_card :: "pcsc_card option"
  rd_cardType :: CardType
  rd_basicReader :: bool
  rd_readerConnected :: bool
  rd_timer :: bool

definition SCARD_STATE_CHANGED :: "32 word" where "SCARD_STATE_CHANGED = 0x2"
definition SCARD_STATE_UNKNOWN :: "32 word" where "SCARD_STATE_UNKNOWN = 0x4"
definition SCARD_STATE_UNAVAILABLE :: "32 word" where "SCARD_STATE_UNAVAILABLE = 0x8"
definition SCARD_STATE_PRESENT :: "32 word" where "SCARD_STATE_PRESENT = 0x20"
definition SCARD_STATE_EXCLUSIVE :: "32 word" where "SCARD_STATE_EXCLUSIVE = 0x80"

definition hasFeature :: "FeatureID \<Rightarrow> pcsc_reader \<Rightarrow> bool" where
  "hasFeature f r \<longleftrightarrow> rd_features r f \<noteq> None"

definition hasPaceCapability :: "PaceCapabilityId \<Rightarrow> pcsc_reader \<Rightarrow> bool" where
  "hasPaceCapability c r \<longleftrightarrow> c \<in> set (rd_paceCapabilities r)"

text \<open>
  The detection of a card: at most five attempts, each with a new object. \<open>recognise\<close> stands for the
  connection to the card and \<open>CardInfoFactory::create\<close>; it gives the type of the card, and the object and
  the library after the connection has ended.
\<close>

fun detectCard ::
  "'s scard \<Rightarrow> (pcsc_reader \<Rightarrow> pcsc_card \<Rightarrow> 's \<Rightarrow> CardType \<times> pcsc_card \<times> 's) \<Rightarrow> nat \<Rightarrow> pcsc_reader \<Rightarrow> 's
     \<Rightarrow> pcsc_reader \<times> 's" where
  "detectCard L recognise 0 r s = (r, s)"
| "detectCard L recognise (Suc tries) r s =
    (let (k, s) = PcscCard L s;
         s = (case rd_card r of None \<Rightarrow> s | Some old \<Rightarrow> destroyPcscCard L old s);
         (cardType, k, s) = recognise r k s;
         r = r\<lparr>rd_card := Some k, rd_cardType := cardType\<rparr>
     in if cardType = CT_UNKNOWN then detectCard L recognise tries r s else (r, s))"

definition PcscReader_updateCard ::
  "'s scard \<Rightarrow> (pcsc_reader \<Rightarrow> pcsc_card \<Rightarrow> 's \<Rightarrow> CardType \<times> pcsc_card \<times> 's) \<Rightarrow> pcsc_reader \<Rightarrow> 's
     \<Rightarrow> CardEvent \<times> pcsc_reader \<times> 's" where
  "PcscReader_updateCard L recognise r s =
    (let (returnCode, eventState, s) = sc_getStatusChange L (rd_contextHandle r) (rd_name r) (rd_currentState r) s
     in if returnCode = Scard_E_Timeout then (NONE, r, s)
     else if returnCode = Scard_E_Unknown_Reader then (NONE, r\<lparr>rd_timer := False\<rparr>, s)
     else if returnCode \<noteq> Scard_S_Success then (NONE, r, s)
     else if eventState AND SCARD_STATE_CHANGED = 0 then (NONE, r, s)
     else if eventState AND (SCARD_STATE_UNKNOWN OR SCARD_STATE_UNAVAILABLE) \<noteq> 0 then (NONE, r, s)
     else
       let newPresent = (eventState AND SCARD_STATE_PRESENT = SCARD_STATE_PRESENT);
           newExclusive = (eventState AND SCARD_STATE_EXCLUSIVE = SCARD_STATE_EXCLUSIVE);
           r = r\<lparr>rd_currentState := eventState\<rparr>
       in if newPresent then
            (if rd_card r = None \<and> \<not> newExclusive
             then (let (r, s) = detectCard L recognise 5 r s in (CARD_INSERTED, r, s))
             else (NONE, r, s))
          else (case rd_card r of
                  None \<Rightarrow> (NONE, r, s)
                | Some k \<Rightarrow> (CARD_REMOVED, r\<lparr>rd_card := None, rd_cardType := CT_NONE\<rparr>, destroyPcscCard L k s)))"

text \<open>The features and the capabilities; \<open>ioctl\<close> is the control code that asks for features.\<close>

definition readReaderFeaturesAndPACECapabilities ::
  "'s scard \<Rightarrow> nat \<Rightarrow> pcsc_reader \<Rightarrow> 's \<Rightarrow> pcsc_code \<times> pcsc_reader \<times> 's" where
  "readReaderFeaturesAndPACECapabilities L ioctl r s =
    (let (returnCode, handle, protocol, s) = sc_connect L (rd_contextHandle r) (rd_name r) SHARE_DIRECT s
     in if returnCode \<noteq> Scard_S_Success then (returnCode, r, s)
     else
       let (returnCode, buffer, s) = sc_control L handle ioctl [0, 0] s;
           buffer = (if returnCode \<noteq> Scard_S_Success then [] else buffer)
       in if 1024 < length buffer then (Scard_F_Unknown_Error, r, s)
       else
         let r = r\<lparr>rd_features := PcscReaderFeature buffer\<rparr>
         in case rd_features r EXECUTE_PACE of
              None \<Rightarrow> (let (returnCode, s) = sc_disconnect L handle LEAVE_CARD s in (returnCode, r, s))
            | Some cmdID \<Rightarrow>
                (let (returnCode, buffer, s) = sc_control L handle cmdID [1, 0, 0] s;
                     buffer = (if returnCode \<noteq> Scard_S_Success then [] else buffer)
                 in if 1024 < length buffer then (Scard_F_Unknown_Error, r, s)
                    else
                      let r = r\<lparr>rd_paceCapabilities := PcscReaderPaceCapability buffer\<rparr>;
                          (returnCode, s) = sc_disconnect L handle LEAVE_CARD s
                      in (returnCode, r, s)))"

definition newReader :: "string \<Rightarrow> pcsc_reader" where
  "newReader name =
    \<lparr>rd_name = name, rd_contextHandle = 0, rd_currentState = 0, rd_features = Map.empty, rd_paceCapabilities = [],
     rd_card = None, rd_cardType = CT_NONE, rd_basicReader = True, rd_readerConnected = False, rd_timer = False\<rparr>"

definition PcscReader ::
  "'s scard \<Rightarrow> (pcsc_reader \<Rightarrow> pcsc_card \<Rightarrow> 's \<Rightarrow> CardType \<times> pcsc_card \<times> 's) \<Rightarrow> nat \<Rightarrow> string \<Rightarrow> 's
     \<Rightarrow> CardEvent \<times> pcsc_reader \<times> 's" where
  "PcscReader L recognise ioctl name s =
    (let (returnCode, context, s) = sc_establishContext L s
     in if returnCode \<noteq> Scard_S_Success then (NONE, newReader name, s)
     else
       let (returnCode, r, s) =
             readReaderFeaturesAndPACECapabilities L ioctl ((newReader name)\<lparr>rd_contextHandle := context\<rparr>) s
       in if returnCode \<noteq> Scard_S_Success then (NONE, r, s)
       else
         let r = r\<lparr>rd_basicReader := \<not> hasFeature EXECUTE_PACE r, rd_readerConnected := True\<rparr>;
             (event, r, s) = PcscReader_updateCard L recognise r s
         in (event, r\<lparr>rd_timer := True\<rparr>, s))"

text \<open>The destructor; \<open>SCardCancel\<close> concerns other threads.\<close>

definition destroyPcscReader :: "'s scard \<Rightarrow> pcsc_reader \<Rightarrow> 's \<Rightarrow> 's" where
  "destroyPcscReader L r s =
    (let (_, s) = sc_releaseContext L (rd_contextHandle r) s
     in case rd_card r of None \<Rightarrow> s | Some k \<Rightarrow> destroyPcscCard L k s)"

section \<open>The plug-in\<close>

datatype plugin_signal = ReaderAdded string | ReaderRemoved string | StatusChanged bool

record pcsc_plugin =
  pp_contextHandle :: nat
  pp_timer :: bool
  pp_readers :: "(string \<times> pcsc_reader) list"
  pp_enabled :: bool
  pp_scanRunning :: bool
  pp_signals :: "plugin_signal list"

text \<open>
  The names of the readers are separated by zero bytes. \<open>fromUtf8\<close> is the decoder of Qt; the next name is
  looked for as many bytes later as the decoded name has characters.
\<close>

function readNames :: "(bytes \<Rightarrow> string) \<Rightarrow> bytes \<Rightarrow> string list" where
  "readNames fromUtf8 readers =
    (if length readers \<le> 1 then []
     else let readerName = fromUtf8 (takeWhile (\<lambda>b. b \<noteq> 0) readers)
          in readerName # readNames fromUtf8 (drop (length readerName + 1) readers))"
  by pat_completeness auto

termination by (relation "measure (\<lambda>(f, r). length r)") auto

declare readNames.simps [simp del]

definition readReaderNames ::
  "'s scard \<Rightarrow> (bytes \<Rightarrow> string) \<Rightarrow> pcsc_plugin \<Rightarrow> 's \<Rightarrow> pcsc_code \<times> string list \<times> 's" where
  "readReaderNames L fromUtf8 p s =
    (if pp_contextHandle p = 0 then (Scard_E_Invalid_Handle, [], s)
     else let (returnCode, readers, s) = sc_listReaders L (pp_contextHandle p) s
          in if returnCode \<noteq> Scard_S_Success then (returnCode, [], s)
             else (returnCode, readNames fromUtf8 readers, s))"

definition removeReader :: "'s scard \<Rightarrow> string \<Rightarrow> pcsc_plugin \<times> 's \<Rightarrow> pcsc_plugin \<times> 's" where
  "removeReader L name x =
    (case x of (p, s) \<Rightarrow>
     (p\<lparr>pp_readers := filter (\<lambda>(n, r). n \<noteq> name) (pp_readers p), pp_signals := pp_signals p @ [ReaderRemoved name]\<rparr>,
      case map_of (pp_readers p) name of None \<Rightarrow> s | Some r \<Rightarrow> destroyPcscReader L r s))"

text \<open>\<open>QMap::insert\<close> replaces the reader of a name.\<close>

definition addReader ::
  "'s scard \<Rightarrow> (pcsc_reader \<Rightarrow> pcsc_card \<Rightarrow> 's \<Rightarrow> CardType \<times> pcsc_card \<times> 's) \<Rightarrow> nat \<Rightarrow> string
     \<Rightarrow> pcsc_plugin \<times> 's \<Rightarrow> pcsc_plugin \<times> 's" where
  "addReader L recognise ioctl name x =
    (case x of (p, s) \<Rightarrow>
     let (_, r, s) = PcscReader L recognise ioctl name s
     in (p\<lparr>pp_readers := filter (\<lambda>(n, r). n \<noteq> name) (pp_readers p) @ [(name, r)],
           pp_signals := pp_signals p @ [ReaderAdded name]\<rparr>, s))"

text \<open>Known names that are reported stay: they leave the list to remove and are not added.\<close>

fun matchReaders :: "string list \<Rightarrow> string list \<Rightarrow> string list \<times> string list" where
  "matchReaders readersToRemove [] = (readersToRemove, [])"
| "matchReaders readersToRemove (n # ns) =
    (if n \<in> set readersToRemove then matchReaders (remove1 n readersToRemove) ns
     else (let (remove, add) = matchReaders readersToRemove ns in (remove, n # add)))"

text \<open>
  \<open>updateReaders\<close>, with the restart of the plug-in as a parameter: \<open>stopScan\<close> calls it when the timer is
  stopped, and then there is none.
\<close>

definition updateReadersWith ::
  "(pcsc_plugin \<times> 's \<Rightarrow> pcsc_plugin \<times> 's) \<Rightarrow> 's scard \<Rightarrow> (bytes \<Rightarrow> string) \<Rightarrow>
   (pcsc_reader \<Rightarrow> pcsc_card \<Rightarrow> 's \<Rightarrow> CardType \<times> pcsc_card \<times> 's) \<Rightarrow> nat \<Rightarrow> pcsc_plugin \<times> 's \<Rightarrow> pcsc_plugin \<times> 's" where
  "updateReadersWith restart L fromUtf8 recognise ioctl x =
    (case x of (p, s) \<Rightarrow>
     let known = map fst (pp_readers p);
         (returnCode, readerNames, s) = readReaderNames L fromUtf8 p s;
         x = (if returnCode \<in> {Scard_E_No_Service, Scard_E_Service_Stopped, Scard_E_Invalid_Handle} \<and> pp_timer p
              then restart (p, s) else (p, s));
         (remove, add) = matchReaders known readerNames
     in fold (addReader L recognise ioctl) add (fold (removeReader L) remove x))"

definition PcscPlugin_stopScan ::
  "'s scard \<Rightarrow> (bytes \<Rightarrow> string) \<Rightarrow> (pcsc_reader \<Rightarrow> pcsc_card \<Rightarrow> 's \<Rightarrow> CardType \<times> pcsc_card \<times> 's) \<Rightarrow> nat
     \<Rightarrow> pcsc_plugin \<times> 's \<Rightarrow> pcsc_plugin \<times> 's" where
  "PcscPlugin_stopScan L fromUtf8 recognise ioctl x =
    (case x of (p, s) \<Rightarrow>
     let s = (if pp_contextHandle p \<noteq> 0 then snd (sc_releaseContext L (pp_contextHandle p) s) else s);
         (p, s) = updateReadersWith (\<lambda>x. x) L fromUtf8 recognise ioctl (p\<lparr>pp_timer := False, pp_contextHandle := 0\<rparr>, s)
     in (p\<lparr>pp_scanRunning := False\<rparr>, s))"

definition PcscPlugin_startScan :: "'s scard \<Rightarrow> pcsc_plugin \<times> 's \<Rightarrow> pcsc_plugin \<times> 's" where
  "PcscPlugin_startScan L x =
    (case x of (p, s) \<Rightarrow>
     let (returnCode, context, s) = sc_establishContext L s;
         enabled = (returnCode = Scard_S_Success);
         p = p\<lparr>pp_contextHandle := if enabled then context else pp_contextHandle p, pp_enabled := enabled,
               pp_signals := pp_signals p @ (if enabled \<noteq> pp_enabled p then [StatusChanged enabled] else [])\<rparr>
     in (p\<lparr>pp_timer := True, pp_scanRunning := True\<rparr>, s))"

definition updateReaders ::
  "'s scard \<Rightarrow> (bytes \<Rightarrow> string) \<Rightarrow> (pcsc_reader \<Rightarrow> pcsc_card \<Rightarrow> 's \<Rightarrow> CardType \<times> pcsc_card \<times> 's) \<Rightarrow> nat
     \<Rightarrow> pcsc_plugin \<times> 's \<Rightarrow> pcsc_plugin \<times> 's" where
  "updateReaders L fromUtf8 recognise ioctl =
     updateReadersWith (\<lambda>x. PcscPlugin_startScan L (PcscPlugin_stopScan L fromUtf8 recognise ioctl x))
       L fromUtf8 recognise ioctl"

section \<open>Transmission\<close>

lemma transmitBuffer_success:
  assumes "pk_protocol k \<in> {PROTOCOL_T0, PROTOCOL_T1, PROTOCOL_RAW}"
    and "sc_transmit L (pk_cardHandle k) (pk_protocol k) cmd s = (Scard_S_Success, r, s')" "2 \<le> length r"
  shows "transmitBuffer L k cmd s = (Scard_S_Success, r, s')"
  using assms by (auto simp: transmitBuffer_def)

lemma status_of_append [simp]:
  "getSW1 (d @ [a, b]) = getSW1 [a, b]" "getSW2 (d @ [a, b]) = b"
  by (simp_all add: getSW1_def getSW2_def nth_append)

lemma getSW1_iff: "x \<noteq> SW1_INVALID \<Longrightarrow> getSW1 [a, b] = x \<longleftrightarrow> a = sw1Value x"
  using sw1.ofValue_Some_iff [of a x] by (cases "enum_ofValue sw1Value SW1_list a") (auto simp: getSW1_def)

lemma getSW1_chaining [simp]:
  "getSW1 [a, b] = SW1_MORE_DATA_AVAILABLE \<longleftrightarrow> a = 0x61" "getSW1 [a, b] = SW1_WRONG_LE_FIELD \<longleftrightarrow> a = 0x6C"
  by (simp_all add: getSW1_iff)

lemma sint_byte: "(n :: byte) < 0x80 \<Longrightarrow> sint n = int (unat n)" "0x80 \<le> (n :: byte) \<Longrightarrow> sint n < 0"
proof -
  show "sint n = int (unat n)" if "n < 0x80"
    using that signed_take_bit_int_eq_self [of 7 "uint n"] uint_ge_0 [of n]
    by (simp add: sint_uint word_less_def del: uint_ge_0)
  show "sint n < 0" if "0x80 \<le> n"
  proof -
    have m: "(x + 128) mod 256 < 128" if "128 \<le> x" "x < 256" for x :: int
      using that mod_pos_pos_trivial [of "x - 128" 256] mod_add_self2 [of "x - 128" 256] by (simp add: add.commute)
    have u: "128 \<le> uint n" "uint n < 256" using that uint_lt2p [of n] by (simp_all add: word_le_def)
    have "sint n = (uint n + 128) mod 256 - 128"
      by (simp add: sint_uint signed_take_bit_eq_take_bit_shift take_bit_eq_mod)
    with m [OF u] show ?thesis by linarith
  qed
qed

lemma getResponseCommand_short:
  assumes "0 < n" "n < 0x80"
  shows "getResponseCommand (d @ [a, n]) = [0, 0xC0, 0, 0, n]"
proof -
  have "0 < uint n" "uint n < 128"
    using assms by (simp_all add: word_less_def)
  then show ?thesis
    using sint_byte(1) [OF assms(2)]
    by (simp add: getResponseCommand_def signedSW2_def CommandApdu_def isExtendedLength_def low_byte_def)
qed

lemma getResponseCommand_long:
  "n = 0 \<or> 0x80 \<le> n \<Longrightarrow> getResponseCommand (d @ [a, n]) = [0, 0xC0, 0, 0]"
  using sint_byte(2) [of n] by (auto simp: getResponseCommand_def signedSW2_def CommandApdu_def isExtendedLength_def)

text \<open>The length of an announcement that goes into the next command: only 1 to 127 do.\<close>

definition announced :: "byte \<Rightarrow> nat" where
  "announced n = (if n < 0x80 then unat n else 0)"

lemma getResponseCommand_announced:
  "getResponseCommand (d @ [a, n]) = [0, 0xC0, 0, 0] @ (if announced n = 0 then [] else [n])"
proof (cases "n = 0 \<or> 0x80 \<le> n")
  case True
  then show ?thesis by (auto simp: getResponseCommand_long announced_def)
next
  case False
  then have "0 < n" "n < 0x80" "unat n \<noteq> 0" by (simp_all add: word_neq_0_conv unat_eq_0 not_le)
  then show ?thesis by (simp add: getResponseCommand_short announced_def)
qed

lemma retransmit_announced:
  "retransmitCommand cmd (d @ [a, n]) =
     CommandApdu (getCLA cmd) (getINS cmd) (getP1 cmd) (getP2 cmd) (getData cmd) (int (announced n))"
proof (cases "n < 0x80")
  case True
  then show ?thesis
    using sint_byte(1) [of n] by (simp add: retransmitCommand_def signedSW2_def announced_def)
next
  case False
  then have "sint n < 0" using sint_byte(2) [of n] by (simp add: not_less)
  then show ?thesis
    using False by (simp add: retransmitCommand_def signedSW2_def announced_def CommandApdu_def isExtendedLength_def)
qed

text \<open>
  The card's side: it answers a command with the first part of the response and announces how much
  follows; each GET RESPONSE, with the announced length where it is one of 1 to 127 and without a length otherwise, is
  answered in the same way; the last part carries the status of the command.
\<close>

inductive delivers ::
  "'s scard \<Rightarrow> pcsc_card \<Rightarrow> bytes \<Rightarrow> 's \<Rightarrow> bytes list \<Rightarrow> byte \<Rightarrow> byte \<Rightarrow> 's \<Rightarrow> bool" for L k where
  last: "sc_transmit L (pk_cardHandle k) (pk_protocol k) cmd s = (Scard_S_Success, d @ [sw1, sw2], s') \<Longrightarrow>
    sw1 \<noteq> 0x61 \<Longrightarrow> sw1 \<noteq> 0x6C \<Longrightarrow> delivers L k cmd s [d] sw1 sw2 s'"
| more: "sc_transmit L (pk_cardHandle k) (pk_protocol k) cmd s = (Scard_S_Success, d @ [0x61, n], s1) \<Longrightarrow>
    delivers L k ([0, 0xC0, 0, 0] @ (if announced n = 0 then [] else [n])) s1 ds sw1 sw2 s' \<Longrightarrow>
    delivers L k cmd s (d # ds) sw1 sw2 s'"

lemma delivers_loop:
  assumes "delivers L k cmd s ds sw1 sw2 s'" "pk_protocol k \<in> {PROTOCOL_T0, PROTOCOL_T1, PROTOCOL_RAW}"
  shows "\<exists>d a b s1. transmitBuffer L k cmd s = (Scard_S_Success, d @ [a, b], s1) \<and> a \<noteq> 0x6C \<and>
    (\<forall>pre. getResponseLoop L k (pre @ d @ [a, b]) (d @ [a, b]) s1 = Some (CR_OK, Some (pre @ concat ds @ [sw1, sw2]), s'))"
  using assms(1)
proof induction
  case (last cmd s d sw1 sw2 s')
  then have "getResponseLoop L k (pre @ d @ [sw1, sw2]) (d @ [sw1, sw2]) s' = Some (CR_OK, Some (pre @ concat [d] @ [sw1, sw2]), s')"
    for pre
    by (subst getResponseLoop.simps) simp
  with transmitBuffer_success [OF assms(2) last(1)] last(3) show ?case by auto
next
  case (more cmd s d n s1 ds sw1 sw2 s')
  then obtain d2 a b s2 where t: "transmitBuffer L k ([0, 0xC0, 0, 0] @ (if announced n = 0 then [] else [n])) s1 = (Scard_S_Success, d2 @ [a, b], s2)"
    and loop: "\<And>pre. getResponseLoop L k (pre @ d2 @ [a, b]) (d2 @ [a, b]) s2 = Some (CR_OK, Some (pre @ concat ds @ [sw1, sw2]), s')"
    by blast
  have "getResponseLoop L k (pre @ d @ [0x61, n]) (d @ [0x61, n]) s1 =
      Some (CR_OK, Some (pre @ concat (d # ds) @ [sw1, sw2]), s')" for pre
    using loop [of "pre @ d"]
    by (subst getResponseLoop.simps) (simp add: getResponseCommand_announced t [simplified])
  with transmitBuffer_success [OF assms(2) more(1)] show ?case by auto
qed

text \<open>
  C17. A response that the card gives in parts reaches the caller as one: the parts joined, and the status of
  the last. A command that the card refuses for its expected length is sent once more, and that answer is the response.
  The length that the card named is the expected length of the next command when it is one of 1 to 127. For every other value, 0 and 128 to
  255, that command goes out without an expected length (\<open>remainder_is_asked_without_length\<close>),
  and the response is joined if the card answers it all the same.
\<close>

theorem response_in_parts_is_joined:
  assumes "pk_cardHandle k \<noteq> 0" "pk_protocol k \<in> {PROTOCOL_T0, PROTOCOL_T1, PROTOCOL_RAW}"
  shows "(delivers L k cmd s ds sw1 sw2 s' \<longrightarrow>
      PcscCard_transmit L k cmd s = Some (CR_OK, Some (concat ds @ [sw1, sw2]), s')) \<and>
    (sc_transmit L (pk_cardHandle k) (pk_protocol k) cmd s = (Scard_S_Success, d @ [0x6C, n], s1) \<and>
     sc_transmit L (pk_cardHandle k) (pk_protocol k)
       (CommandApdu (getCLA cmd) (getINS cmd) (getP1 cmd) (getP2 cmd) (getData cmd) (int (announced n))) s1 =
       (Scard_S_Success, r, s2) \<and> 2 \<le> length r \<longrightarrow>
      PcscCard_transmit L k cmd s = Some (CR_OK, Some r, s2))"
proof (intro conjI impI)
  assume "delivers L k cmd s ds sw1 sw2 s'"
  then obtain d a b s1 where t: "transmitBuffer L k cmd s = (Scard_S_Success, d @ [a, b], s1)" "a \<noteq> 0x6C"
    and loop: "getResponseLoop L k ([] @ d @ [a, b]) (d @ [a, b]) s1 = Some (CR_OK, Some ([] @ concat ds @ [sw1, sw2]), s')"
    using delivers_loop [OF _ assms(2)] by metis
  then show "PcscCard_transmit L k cmd s = Some (CR_OK, Some (concat ds @ [sw1, sw2]), s')"
    using assms(1) by (simp add: PcscCard_transmit_def PcscCard_isConnected_def)
next
  assume h: "sc_transmit L (pk_cardHandle k) (pk_protocol k) cmd s = (Scard_S_Success, d @ [0x6C, n], s1) \<and>
     sc_transmit L (pk_cardHandle k) (pk_protocol k)
       (CommandApdu (getCLA cmd) (getINS cmd) (getP1 cmd) (getP2 cmd) (getData cmd) (int (announced n))) s1 =
       (Scard_S_Success, r, s2) \<and> 2 \<le> length r"
  have t: "transmitBuffer L k cmd s = (Scard_S_Success, d @ [0x6C, n], s1)"
    using h by (intro transmitBuffer_success [OF assms(2)]) simp_all
  have t2: "transmitBuffer L k (retransmitCommand cmd (d @ [0x6C, n])) s1 = (Scard_S_Success, r, s2)"
    using h by (intro transmitBuffer_success [OF assms(2)]) (simp_all add: retransmit_announced)
  have "getResponseLoop L k r (d @ [0x6C, n]) s2 = Some (CR_OK, Some r, s2)"
    by (subst getResponseLoop.simps) simp
  with t t2 show "PcscCard_transmit L k cmd s = Some (CR_OK, Some r, s2)"
    using assms(1) by (simp add: PcscCard_transmit_def PcscCard_isConnected_def)
qed

text \<open>
  A command under secure messaging reaches the library at most once, whatever the card does: after a
  reset of the card it is neither connected anew nor sent again.
\<close>

theorem secured_command_is_not_repeated:
  assumes "isSecureMessaging cmd"
  shows "snd (snd (transmitBuffer L k cmd s)) \<in> {s, snd (snd (sc_transmit L (pk_cardHandle k) (pk_protocol k) cmd s))}"
  using assms by (auto simp: transmitBuffer_def split: prod.split)

definition queue_scard :: "bytes list scard" where
  "queue_scard = \<lparr>sc_establishContext = (\<lambda>s. (Scard_S_Success, 1, s)), sc_releaseContext = (\<lambda>h s. (Scard_S_Success, s)),
     sc_listReaders = (\<lambda>h s. (Scard_E_No_Readers_Available, [], s)),
     sc_getStatusChange = (\<lambda>h n c s. (Scard_E_Timeout, 0, s)),
     sc_connect = (\<lambda>h n m s. (Scard_S_Success, 1, PROTOCOL_T1, s)), sc_reconnect = (\<lambda>h p s. (Scard_S_Success, s)),
     sc_disconnect = (\<lambda>h d s. (Scard_S_Success, s)), sc_beginTransaction = (\<lambda>h s. (Scard_S_Success, s)),
     sc_endTransaction = (\<lambda>h d s. (Scard_S_Success, s)),
     sc_transmit = (\<lambda>h p c s. case s of [] \<Rightarrow> (Scard_F_Comm_Error, [], []) | r # rs \<Rightarrow> (Scard_S_Success, r, rs)),
     sc_control = (\<lambda>h c i s. (Scard_E_Invalid_Parameter, [], s))\<rparr>"

definition connected_card :: pcsc_card where
  "connected_card = \<lparr>pk_contextHandle = 1, pk_cardHandle = 1, pk_protocol = PROTOCOL_T1, pk_timer = False\<rparr>"

theorem response_in_parts_is_joined_witness:
  "PcscCard_transmit queue_scard connected_card [0, 0xB0, 0, 0] [[1, 2, 0x61, 3], [3, 4, 5, 0x90, 0]] =
     Some (CR_OK, Some [1, 2, 3, 4, 5, 0x90, 0], [])"
proof -
  have "delivers queue_scard connected_card [0, 0xB0, 0, 0] [[1, 2, 0x61, 3], [3, 4, 5, 0x90, 0]] [[1, 2], [3, 4, 5]] 0x90 0 []"
    by (rule delivers.more [where n = 3 and ?s1.0 = "[[3, 4, 5, 0x90, 0]]"]; (simp add: queue_scard_def announced_def)?)
      (rule delivers.last, simp_all add: queue_scard_def)
  then show ?thesis
    using response_in_parts_is_joined [of connected_card, where L = queue_scard and cmd = "[0, 0xB0, 0, 0]"
        and s = "[[1, 2, 0x61, 3], [3, 4, 5, 0x90, 0]]" and ds = "[[1, 2], [3, 4, 5]]" and ?sw1.0 = "0x90" and ?sw2.0 = 0
        and s' = "[]"]
    by (simp add: connected_card_def)
qed

theorem secured_command_is_not_repeated_witness:
  "snd (snd (transmitBuffer queue_scard connected_card [0x0C, 0xB0, 0, 0] [[0x90, 0], [0x90, 0]])) \<in>
     {[[0x90, 0], [0x90, 0]], [[0x90, 0]]}"
  using secured_command_is_not_repeated [of "[0x0C, 0xB0, 0, 0]" queue_scard connected_card "[[0x90, 0], [0x90, 0]]"]
  by (simp add: isSecureMessaging_def queue_scard_def)

text \<open>
  The second status byte is read as a signed number: when 256 bytes and more or 128 to 255 bytes follow,
  GET RESPONSE goes out without an expected length.
\<close>

theorem remainder_is_asked_without_length:
  "n = 0 \<or> 0x80 \<le> n \<Longrightarrow> getResponseCommand (d @ [0x61, n]) = [0, 0xC0, 0, 0]"
  by (rule getResponseCommand_long)

theorem remainder_is_asked_without_length_witness: "getResponseCommand [1, 0x61, 0x90] = [0, 0xC0, 0, 0]"
  using remainder_is_asked_without_length [where n = "0x90" and d = "[1]"] by simp

text \<open>A card that announces a further part with every part is asked for ever.\<close>

theorem response_may_never_end:
  fixes L :: "'s scard"
  assumes "\<forall>c s. \<exists>s'. transmitBuffer L k c s = (Scard_S_Success, [0x61, n], s')"
  shows "getResponseLoop L k buffer (d @ [0x61, n]) s = None"
proof (rule ccontr)
  assume "getResponseLoop L k buffer (d @ [0x61, n]) s \<noteq> None"
  then obtain y where "getResponseLoop L k buffer (d @ [0x61, n]) s = Some y" by blast
  then have "L = L \<and> k = k \<and> getSW1 (d @ [0x61, n]) = SW1_MORE_DATA_AVAILABLE \<longrightarrow> False"
  proof (rule getResponseLoop.raw_induct [where P = "\<lambda>L' k' b t s y. L' = L \<and> k' = k \<and> getSW1 t = SW1_MORE_DATA_AVAILABLE \<longrightarrow> False",
        rotated], intro impI)
    fix loop :: "'s scard \<Rightarrow> pcsc_card \<Rightarrow> bytes \<Rightarrow> bytes \<Rightarrow> 's \<Rightarrow> (CardReturnCode \<times> bytes option \<times> 's) option"
    fix L' k' b t s y
    assume ih: "\<And>L' k' b t s y. loop L' k' b t s = Some y \<Longrightarrow>
        L' = L \<and> k' = k \<and> getSW1 t = SW1_MORE_DATA_AVAILABLE \<longrightarrow> False"
      and step: "(if getSW1 t \<noteq> SW1_MORE_DATA_AVAILABLE then Some (CR_OK, Some b, s)
        else let (returnCode, received, s') = transmitBuffer L' k' (getResponseCommand t) s
          in if returnCode \<noteq> Scard_S_Success then Some (CR_COMMAND_FAILED, None, s')
             else loop L' k' (take (length b - 2) b @ received) received s') = Some y"
      and eq: "L' = L \<and> k' = k \<and> getSW1 t = SW1_MORE_DATA_AVAILABLE"
    obtain s' where "transmitBuffer L k (getResponseCommand t) s = (Scard_S_Success, [0x61, n], s')"
      using assms by blast
    with step eq have "loop L k (take (length b - 2) b @ [0x61, n]) [0x61, n] s' = Some y" by simp
    from ih [OF this] show False by simp
  qed
  then show False by simp
qed

definition endless_scard :: "nat scard" where
  "endless_scard = \<lparr>sc_establishContext = (\<lambda>s. (Scard_S_Success, 1, s)), sc_releaseContext = (\<lambda>h s. (Scard_S_Success, s)),
     sc_listReaders = (\<lambda>h s. (Scard_S_Success, [], s)), sc_getStatusChange = (\<lambda>h n c s. (Scard_E_Timeout, 0, s)),
     sc_connect = (\<lambda>h n m s. (Scard_S_Success, 1, PROTOCOL_T1, s)), sc_reconnect = (\<lambda>h p s. (Scard_S_Success, s)),
     sc_disconnect = (\<lambda>h d s. (Scard_S_Success, s)),
     sc_beginTransaction = (\<lambda>h s. (Scard_E_Sharing_Violation, s)),
     sc_endTransaction = (\<lambda>h d s. (Scard_S_Success, s)),
     sc_transmit = (\<lambda>h p c s. (Scard_S_Success, [0x61, 0x10], Suc s)),
     sc_control = (\<lambda>h c i s. (Scard_E_Invalid_Parameter, [], s))\<rparr>"

theorem response_may_never_end_witness: "getResponseLoop endless_scard connected_card [0x61, 0x10] ([] @ [0x61, 0x10]) 0 = None"
  by (rule response_may_never_end) (simp add: transmitBuffer_def connected_card_def endless_scard_def)

text \<open>
  When the transaction cannot begin, the connection is closed but its handle is kept: the card counts as
  connected, and every later attempt to connect is refused.
\<close>

theorem failed_transaction_leaves_card_connected:
  assumes "sc_connect L c name SHARE_SHARED s = (Scard_S_Success, handle, p, s1)" "handle \<noteq> 0"
    and "sc_beginTransaction L handle s1 = (code, s2)" "code \<noteq> Scard_S_Success"
    and "k = \<lparr>pk_contextHandle = c, pk_cardHandle = 0, pk_protocol = PROTOCOL_UNDEFINED, pk_timer = False\<rparr>"
  shows "\<exists>k' s'. PcscCard_connect L w name k s = (CR_COMMAND_FAILED, k', s') \<and> PcscCard_isConnected k' \<and>
    (\<forall>s. PcscCard_connect L w name k' s = (CR_COMMAND_FAILED, k', s))"
  using assms by (simp add: PcscCard_connect_def PcscCard_isConnected_def)

theorem failed_transaction_leaves_card_connected_witness:
  "\<exists>k' s'. PcscCard_connect endless_scard False ''R'' \<lparr>pk_contextHandle = 1, pk_cardHandle = 0,
       pk_protocol = PROTOCOL_UNDEFINED, pk_timer = False\<rparr> 0 = (CR_COMMAND_FAILED, k', s') \<and> PcscCard_isConnected k' \<and>
     (\<forall>s. PcscCard_connect endless_scard False ''R'' k' s = (CR_COMMAND_FAILED, k', s))"
  by (rule failed_transaction_leaves_card_connected
        [where handle = 1 and c = 1 and ?s1.0 = 0 and ?s2.0 = 0 and p = PROTOCOL_T1 and code = Scard_E_Sharing_Violation])
    (simp_all add: endless_scard_def)

section \<open>Events of a reader\<close>

lemma detectCard_card: "rd_card (fst (detectCard L recognise n r s)) = None \<longleftrightarrow> n = 0 \<and> rd_card r = None"
proof (induction n arbitrary: r s)
  case (Suc n)
  then show ?case
    by (auto simp: Let_def simp del: not_None_eq simp flip: not_None_eq split: prod.split)
qed simp

lemma updateCard_card:
  assumes "PcscReader_updateCard L recognise r s = (e, r', s')"
  shows "(e = NONE \<and> rd_card r' = rd_card r) \<or> (e = CARD_INSERTED \<and> rd_card r = None \<and> rd_card r' \<noteq> None) \<or>
    (e = CARD_REMOVED \<and> rd_card r \<noteq> None \<and> rd_card r' = None)"
proof -
  have "rd_card r1 \<noteq> None" if "detectCard L recognise 5 r2 s2 = (r1, s1)" for r1 s1 r2 s2
    using detectCard_card [of L recognise 5 r2 s2] that by simp
  then show ?thesis
    using assms by (auto simp: PcscReader_updateCard_def Let_def split: prod.splits if_splits option.splits)
qed

text \<open>The events of a series of updates, and what a listener makes of them.\<close>

fun updates ::
  "'s scard \<Rightarrow> (pcsc_reader \<Rightarrow> pcsc_card \<Rightarrow> 's \<Rightarrow> CardType \<times> pcsc_card \<times> 's) \<Rightarrow> nat \<Rightarrow> pcsc_reader \<Rightarrow> 's
     \<Rightarrow> CardEvent list \<times> pcsc_reader \<times> 's" where
  "updates L recognise 0 r s = ([], r, s)"
| "updates L recognise (Suc n) r s =
    (let (e, r, s) = PcscReader_updateCard L recognise r s; (es, r, s) = updates L recognise n r s
     in ((if e = NONE then [] else [e]) @ es, r, s))"

fun alternates :: "bool \<Rightarrow> CardEvent list \<Rightarrow> bool option" where
  "alternates present [] = Some present"
| "alternates present (e # es) =
    (if e = CARD_INSERTED \<and> \<not> present then alternates True es
     else if e = CARD_REMOVED \<and> present then alternates False es
     else None)"

text \<open>
  The events of a reader are in step with its card: over any series of updates, whatever the library
  reports and whatever the recognition of cards gives, insertions and removals alternate, and at the end
  the reader has a card exactly when the last event was an insertion.
\<close>

theorem card_events_alternate:
  "alternates (rd_card r \<noteq> None) (fst (updates L recognise n r s)) =
     Some (rd_card (fst (snd (updates L recognise n r s))) \<noteq> None)"
proof (induction n arbitrary: r s)
  case (Suc n)
  obtain e r' s' where u: "PcscReader_updateCard L recognise r s = (e, r', s')"
    by (metis surjective_pairing)
  show ?case
    using updateCard_card [OF u] Suc.IH [of r' s'] by (auto simp: u split: prod.split)
qed simp

section \<open>Names and features\<close>

text \<open>
  The names of the readers come back as the library wrote them, one after the other and each ended by a
  zero byte, as long as the decoder gives one character for each byte, as it does for ASCII.
\<close>

theorem reader_names_are_read:
  assumes "\<forall>n \<in> set names. 0 \<notin> set n \<and> length (fromUtf8 n) = length n"
  shows "readNames fromUtf8 (concat (map (\<lambda>n. n @ [0]) names) @ [0]) = map fromUtf8 names"
  using assms
proof (induction names)
  case Nil
  then show ?case by (simp add: readNames.simps)
next
  case (Cons n names)
  have t: "takeWhile (\<lambda>b. b \<noteq> 0) (n @ 0 # us) = n" for us
    using Cons.prems by (subst takeWhile_append2) auto
  show ?case
    using Cons by (subst readNames.simps) (simp add: t)
qed

definition latin1 :: "bytes \<Rightarrow> string" where
  "latin1 b = map (\<lambda>x. char_of (unat x)) b"

theorem reader_names_are_read_witness:
  "readNames latin1 [0x41, 0x42, 0, 0x43, 0, 0] = [''AB'', ''C'']"
  using reader_names_are_read [of "[[0x41, 0x42], [0x43]]" latin1] by (simp add: latin1_def char_of_def) code_simp

text \<open>A name with a character of two bytes is followed by a name that is not there.\<close>

theorem name_with_umlaut_is_split:
  assumes "fromUtf8 [0x5A, 0xC3, 0xBC] = ''Z*''" "fromUtf8 [] = []"
  shows "readNames fromUtf8 ([0x5A, 0xC3, 0xBC] @ [0] @ [0]) = [''Z*'', []]"
  using assms by (simp add: readNames.simps)

theorem name_with_umlaut_is_split_witness:
  "readNames (\<lambda>b. if b = [] then [] else ''Z*'') ([0x5A, 0xC3, 0xBC] @ [0] @ [0]) = [''Z*'', []]"
  by (rule name_with_umlaut_is_split) simp_all

definition featureRecord :: "byte \<times> byte \<times> byte \<times> byte \<times> byte \<Rightarrow> bytes" where
  "featureRecord f = (case f of (t, a, b, c, d) \<Rightarrow> [t, 4, a, b, c, d])"

lemma readFeatures_records:
  "length rest < 6 \<Longrightarrow> readFeatures (concat (map featureRecord fs) @ rest) m =
     foldl (\<lambda>m (t, a, b, c, d). case enum_ofValue featureValue FeatureID_list t of
        None \<Rightarrow> m | Some f \<Rightarrow> m(f \<mapsto> from_be [a, b, c, d])) m fs"
proof (induction fs arbitrary: m)
  case Nil
  then show ?case
    by (cases "(rest, m)" rule: readFeatures.cases) auto
next
  case (Cons f fs)
  then show ?case by (cases f) (simp add: featureRecord_def del: from_be_4)
qed

text \<open>
  The features of a reader: of the records the reader sends, the last one with a known tag gives the
  control code of the feature, big-endian; unknown records and an incomplete one at the end change nothing.
\<close>

theorem reader_features_are_read:
  assumes "length rest < 6" "\<forall>g \<in> set later. fst g \<noteq> featureValue f"
  shows "PcscReaderFeature (concat (map featureRecord (earlier @ (featureValue f, a, b, c, d) # later)) @ rest) f =
    Some (from_be [a, b, c, d])"
proof -
  have "foldl (\<lambda>m (t, a, b, c, d). case enum_ofValue featureValue FeatureID_list t of
        None \<Rightarrow> m | Some f \<Rightarrow> m(f \<mapsto> from_be [a, b, c, d])) m later f = m f" for m
    using assms(2)
  proof (induction later arbitrary: m)
    case (Cons g later)
    obtain t w x y z where g: "g = (t, w, x, y, z)" by (cases g)
    have "enum_ofValue featureValue FeatureID_list t \<noteq> Some f"
      using Cons.prems by (simp add: g feature.ofValue_Some_iff)
    then show ?case
      using Cons by (auto simp: g split: option.split)
  qed simp
  then show ?thesis
    by (simp only: PcscReaderFeature_def readFeatures_records [OF assms(1)]) (simp del: from_be_4 featureValue.simps)
qed

theorem reader_features_are_read_witness:
  "PcscReaderFeature [0x06, 4, 0x42, 0x33, 0, 6, 0x77, 4, 1, 2, 3, 4, 0x20, 4, 0x42, 0x33, 0, 0x20, 0x12] EXECUTE_PACE =
     Some 0x42330020"
  using reader_features_are_read [where rest = "[0x12]" and later = "[]" and f = EXECUTE_PACE
      and earlier = "[(6, 0x42, 0x33, 0, 6), (0x77, 1, 2, 3, 4)]" and a = "0x42" and b = "0x33" and c = 0 and d = "0x20"]
  by (simp add: featureRecord_def)

section \<open>The list of readers\<close>

lemma matchReaders_distinct:
  "distinct old \<Longrightarrow> distinct names \<Longrightarrow>
   matchReaders old names = (filter (\<lambda>n. n \<notin> set names) old, filter (\<lambda>n. n \<notin> set old) names)"
proof (induction old names rule: matchReaders.induct)
  case (2 old n ns)
  show ?case
  proof (cases "n \<in> set old")
    case True
    then have "matchReaders old (n # ns) =
        (filter (\<lambda>m. m \<notin> set ns) (remove1 n old), filter (\<lambda>m. m \<notin> set (remove1 n old)) ns)"
      using 2 by simp
    then show ?thesis
      using True 2(3,4) by (auto simp: distinct_remove1_removeAll removeAll_filter_not_eq set_remove1_eq intro!: filter_cong)
  next
    case False
    then show ?thesis
      using 2 by (auto intro: filter_cong)
  qed
qed simp

lemma fold_removeReader:
  "\<exists>s'. fold (removeReader L) names (p, s) =
     (p\<lparr>pp_readers := filter (\<lambda>(n, r). n \<notin> set names) (pp_readers p),
        pp_signals := pp_signals p @ map ReaderRemoved names\<rparr>, s')"
proof (induction names arbitrary: p s)
  case (Cons n names)
  obtain s1 where r: "removeReader L n (p, s) =
      (p\<lparr>pp_readers := filter (\<lambda>(m, r). m \<noteq> n) (pp_readers p), pp_signals := pp_signals p @ [ReaderRemoved n]\<rparr>, s1)"
    by (simp add: removeReader_def)
  have f: "filter (\<lambda>(m, r). m \<notin> set names) (filter (\<lambda>(m, r). m \<noteq> n) (pp_readers p)) =
      filter (\<lambda>(m, r). m \<notin> set (n # names)) (pp_readers p)"
    by (auto simp: filter_filter intro: filter_cong)
  show ?case
    using Cons.IH [of "p\<lparr>pp_readers := filter (\<lambda>(m, r). m \<noteq> n) (pp_readers p), pp_signals := pp_signals p @ [ReaderRemoved n]\<rparr>" s1]
    by (simp add: r f del: filter_filter)
qed simp

lemma fold_addReader:
  assumes "distinct names" "set names \<inter> fst ` set (pp_readers p) = {}"
  shows "\<exists>rs s'. map fst rs = names \<and> fold (addReader L recognise ioctl) names (p, s) =
     (p\<lparr>pp_readers := pp_readers p @ rs, pp_signals := pp_signals p @ map ReaderAdded names\<rparr>, s')"
  using assms
proof (induction names arbitrary: p s)
  case (Cons n names)
  have f: "filter (\<lambda>(m, r). m \<noteq> n) (pp_readers p) = pp_readers p"
    using Cons.prems(2) by (force simp: filter_id_conv)
  obtain r s1 where a: "addReader L recognise ioctl n (p, s) =
      (p\<lparr>pp_readers := pp_readers p @ [(n, r)], pp_signals := pp_signals p @ [ReaderAdded n]\<rparr>, s1)"
    by (cases "PcscReader L recognise ioctl n s") (simp add: addReader_def f)
  obtain rs s' where "map fst rs = names" "fold (addReader L recognise ioctl) names
      (p\<lparr>pp_readers := pp_readers p @ [(n, r)], pp_signals := pp_signals p @ [ReaderAdded n]\<rparr>, s1) =
      (p\<lparr>pp_readers := (pp_readers p @ [(n, r)]) @ rs, pp_signals := (pp_signals p @ [ReaderAdded n]) @ map ReaderAdded names\<rparr>, s')"
    using Cons.IH [of "p\<lparr>pp_readers := pp_readers p @ [(n, r)], pp_signals := pp_signals p @ [ReaderAdded n]\<rparr>" s1] Cons.prems
    by auto
  then show ?case
    by (intro exI [of _ "(n, r) # rs"] exI [of _ s']) (simp add: a)
qed auto

text \<open>
  After an update the plug-in has exactly the readers that the library lists; those it had before are
  kept as they are, and the listeners are told of every reader that went and of every one that came.
\<close>

theorem reader_list_is_that_of_the_library:
  assumes "pp_contextHandle p \<noteq> 0" "sc_listReaders L (pp_contextHandle p) s = (Scard_S_Success, text, s1)"
    and "distinct (map fst (pp_readers p))" "distinct (readNames fromUtf8 text)"
  shows "\<exists>rs s'. updateReaders L fromUtf8 recognise ioctl (p, s) =
      (p\<lparr>pp_readers := filter (\<lambda>(n, r). n \<in> set (readNames fromUtf8 text)) (pp_readers p) @ rs,
         pp_signals := pp_signals p @
           map ReaderRemoved (filter (\<lambda>n. n \<notin> set (readNames fromUtf8 text)) (map fst (pp_readers p))) @
           map ReaderAdded (map fst rs)\<rparr>, s') \<and>
    map fst rs = filter (\<lambda>n. n \<notin> fst ` set (pp_readers p)) (readNames fromUtf8 text) \<and>
    fst ` set (filter (\<lambda>(n, r). n \<in> set (readNames fromUtf8 text)) (pp_readers p) @ rs) = set (readNames fromUtf8 text)"
proof -
  let ?names = "readNames fromUtf8 text" and ?known = "map fst (pp_readers p)"
  let ?gone = "filter (\<lambda>n. n \<notin> set ?names) ?known" and ?new = "filter (\<lambda>n. n \<notin> set ?known) ?names"
  let ?kept = "filter (\<lambda>(n, r). n \<in> set ?names) (pp_readers p)"
  have keep: "filter (\<lambda>(n, r). n \<notin> set ?gone) (pp_readers p) = ?kept"
    by (intro filter_cong) force+
  obtain s2 where r: "fold (removeReader L) ?gone (p, s1) =
      (p\<lparr>pp_readers := ?kept, pp_signals := pp_signals p @ map ReaderRemoved ?gone\<rparr>, s2)"
    using fold_removeReader [of L ?gone p s1] unfolding keep by blast
  have d: "distinct ?new" "set ?new \<inter> fst ` set ?kept = {}"
    using assms(4) by auto
  obtain rs s3 where a: "map fst rs = ?new" "fold (addReader L recognise ioctl) ?new
      (p\<lparr>pp_readers := ?kept, pp_signals := pp_signals p @ map ReaderRemoved ?gone\<rparr>, s2) =
      (p\<lparr>pp_readers := ?kept @ rs, pp_signals := pp_signals p @ map ReaderRemoved ?gone @ map ReaderAdded ?new\<rparr>, s3)"
    using fold_addReader [of ?new "p\<lparr>pp_readers := ?kept, pp_signals := pp_signals p @ map ReaderRemoved ?gone\<rparr>" L recognise ioctl s2] d
    by auto
  have "fst ` set (?kept @ rs) = set ?names"
  proof -
    have "fst ` set rs = set ?new" using a(1) by (metis list.set_map)
    then show ?thesis by (auto simp: image_Un)
  qed
  moreover have "updateReaders L fromUtf8 recognise ioctl (p, s) =
      (p\<lparr>pp_readers := ?kept @ rs, pp_signals := pp_signals p @ map ReaderRemoved ?gone @ map ReaderAdded (map fst rs)\<rparr>, s3)"
    unfolding a(1) using r a(2) matchReaders_distinct [OF assms(3,4)]
    by (simp add: updateReaders_def updateReadersWith_def readReaderNames_def assms(1,2))
  ultimately show ?thesis
    using a(1) by (intro exI [of _ rs] exI [of _ s3]) simp
qed

lemma map_fst_filter: "map fst (filter (\<lambda>(n, r). P n) xs) = filter P (map fst xs)"
  by (induction xs) auto

definition listing_scard :: "bytes list scard" where
  "listing_scard = queue_scard\<lparr>sc_listReaders := (\<lambda>h s. (Scard_S_Success, [0x41, 0, 0x42, 0, 0], s))\<rparr>"

definition sample_plugin :: pcsc_plugin where
  "sample_plugin = \<lparr>pp_contextHandle = 1, pp_timer = True, pp_readers = [(''B'', newReader ''B''), (''C'', newReader ''C'')],
     pp_enabled = True, pp_scanRunning = True, pp_signals = []\<rparr>"

definition unrecognised :: "pcsc_reader \<Rightarrow> pcsc_card \<Rightarrow> bytes list \<Rightarrow> CardType \<times> pcsc_card \<times> bytes list" where
  "unrecognised r k s = (CT_UNKNOWN, k, s)"

lemma sample_names: "readNames latin1 [0x41, 0, 0x42, 0, 0] = [''A'', ''B'']"
  by code_simp

theorem reader_list_is_that_of_the_library_witness:
  "\<exists>r. pp_readers (fst (updateReaders listing_scard latin1 unrecognised 0 (sample_plugin, []))) =
      [(''B'', newReader ''B''), (''A'', r)] \<and>
    pp_signals (fst (updateReaders listing_scard latin1 unrecognised 0 (sample_plugin, []))) =
      [ReaderRemoved ''C'', ReaderAdded ''A'']"
proof -
  have l: "sc_listReaders listing_scard h [] = (Scard_S_Success, [0x41, 0, 0x42, 0, 0], [])" for h
    by (simp add: listing_scard_def)
  have h: "pp_contextHandle sample_plugin = 1" "map fst (pp_readers sample_plugin) = [''B'', ''C'']"
    "pp_readers sample_plugin = [(''B'', newReader ''B''), (''C'', newReader ''C'')]" "pp_signals sample_plugin = []"
    by (simp_all add: sample_plugin_def)
  have facts: "pp_contextHandle sample_plugin \<noteq> 0"
    "sc_listReaders listing_scard (pp_contextHandle sample_plugin) [] = (Scard_S_Success, [0x41, 0, 0x42, 0, 0], [])"
    "distinct (map fst (pp_readers sample_plugin))" "distinct (readNames latin1 [0x41, 0, 0x42, 0, 0])"
    by (simp_all add: h l sample_names)
  obtain rs s' where u: "updateReaders listing_scard latin1 unrecognised 0 (sample_plugin, []) =
      (sample_plugin\<lparr>pp_readers := filter (\<lambda>(n, r). n \<in> set [''A'', ''B'']) (pp_readers sample_plugin) @ rs,
         pp_signals := pp_signals sample_plugin @
           map ReaderRemoved (filter (\<lambda>n. n \<notin> set [''A'', ''B'']) (map fst (pp_readers sample_plugin))) @
           map ReaderAdded (map fst rs)\<rparr>, s')"
    and m: "map fst rs = filter (\<lambda>n. n \<notin> fst ` set (pp_readers sample_plugin)) [''A'', ''B'']"
    using reader_list_is_that_of_the_library [OF facts, of unrecognised 0] unfolding sample_names by blast
  have "map fst rs = [''A'']" using m by (simp add: h)
  then obtain r where "rs = [(''A'', r)]" by auto
  then show ?thesis by (simp add: u h)
qed

text \<open>
  When the service is gone the plug-in restarts itself, which removes all readers; the update goes on with
  the names from before and reports each removal a second time.
\<close>

definition stopped_scard :: "bytes list scard" where
  "stopped_scard = queue_scard\<lparr>sc_listReaders := (\<lambda>h s. (Scard_E_No_Service, [], s))\<rparr>"

theorem restart_reports_removal_twice:
  "pp_signals (fst (updateReaders stopped_scard latin1 unrecognised 0
     (sample_plugin\<lparr>pp_readers := [(''B'', newReader ''B'')]\<rparr>, []))) = [ReaderRemoved ''B'', ReaderRemoved ''B'']"
  by (simp add: updateReaders_def updateReadersWith_def readReaderNames_def sample_plugin_def stopped_scard_def queue_scard_def
      PcscPlugin_stopScan_def PcscPlugin_startScan_def removeReader_def newReader_def destroyPcscReader_def)

end
