(* ===== verification/WebActivation.thy ===== *)
theory WebActivation
  imports NetworkChecks
begin

text \<open>
  How a browser starts an authentication: the local HTTP server (src/src/network/HttpRequest.cpp,
  HttpResponse.cpp and HttpServer.cpp) and src/src/activation. The parser of HTTP is a library; its
  callbacks are the events \<open>http_event\<close>, texts come in pieces. Sockets are a flag, and what is written to
  one is the list of responses in the request. The texts of pages are parameters.
\<close>

section \<open>Requests\<close>

record http_response =
  hp_status :: nat
  hp_header :: "(string \<times> string) list"
  hp_body :: string

record http_request =
  hr_url :: string
  hr_header :: "string \<rightharpoonup> string"
  hr_body :: string
  hr_currentHeaderField :: string
  hr_currentHeaderValue :: string
  hr_finished :: bool
  hr_upgrade :: bool
  hr_connected :: bool
  hr_sent :: "http_response list"

definition HttpRequest :: http_request where
  "HttpRequest = \<lparr>hr_url = [], hr_header = Map.empty, hr_body = [], hr_currentHeaderField = [],
     hr_currentHeaderValue = [], hr_finished = False, hr_upgrade = False, hr_connected = True, hr_sent = []\<rparr>"

definition insertHeader :: "http_request \<Rightarrow> http_request" where
  "insertHeader r =
    (if hr_currentHeaderField r \<noteq> [] \<and> hr_currentHeaderValue r \<noteq> [] then
       r\<lparr>hr_header := (hr_header r)(toLower (hr_currentHeaderField r) \<mapsto> hr_currentHeaderValue r),
         hr_currentHeaderField := [], hr_currentHeaderValue := []\<rparr>
     else r)"

datatype http_event =
    OnUrl string
  | OnHeaderField string
  | OnHeaderValue string
  | OnHeadersComplete bool
  | OnBody string
  | OnMessageComplete

fun http_step :: "http_request \<Rightarrow> http_event \<Rightarrow> http_request" where
  "http_step r (OnUrl t) = r\<lparr>hr_url := hr_url r @ t\<rparr>"
| "http_step r (OnHeaderField t) =
    (let r = insertHeader r in r\<lparr>hr_currentHeaderField := hr_currentHeaderField r @ t\<rparr>)"
| "http_step r (OnHeaderValue t) = r\<lparr>hr_currentHeaderValue := hr_currentHeaderValue r @ t\<rparr>"
| "http_step r (OnHeadersComplete upgrade) = (insertHeader r)\<lparr>hr_upgrade := upgrade\<rparr>"
| "http_step r (OnBody t) = r\<lparr>hr_body := hr_body r @ t\<rparr>"
| "http_step r OnMessageComplete = r\<lparr>hr_finished := True\<rparr>"

text \<open>\<open>mHeader.value\<close> and \<open>send\<close>; the socket of a request is there until it is taken.\<close>

definition getHeader :: "string \<Rightarrow> http_request \<Rightarrow> string" where
  "getHeader key r = (case hr_header r key of None \<Rightarrow> [] | Some v \<Rightarrow> v)"

definition send :: "http_response \<Rightarrow> http_request \<Rightarrow> http_request" where
  "send response r = r\<lparr>hr_sent := hr_sent r @ [response]\<rparr>"

section \<open>Responses\<close>

text \<open>The header is a map that is kept in the order of its keys.\<close>

fun textLess :: "string \<Rightarrow> string \<Rightarrow> bool" where
  "textLess [] ys = (ys \<noteq> [])"
| "textLess (x # xs) [] = False"
| "textLess (x # xs) (y # ys) =
    ((of_char x :: nat) < of_char y \<or> (x = y \<and> textLess xs ys))"

fun insertSorted :: "string \<Rightarrow> string \<Rightarrow> (string \<times> string) list \<Rightarrow> (string \<times> string) list" where
  "insertSorted k v [] = [(k, v)]"
| "insertSorted k v ((k', v') # kvs) =
    (if k = k' then (k, v) # kvs
     else if textLess k k' then (k, v) # (k', v') # kvs
     else (k', v') # insertSorted k v kvs)"

fun number :: "nat \<Rightarrow> string" where
  "number n = (if n < 10 then [char_of (48 + n)] else number (n div 10) @ [char_of (48 + n mod 10)])"

declare number.simps [simp del]

definition setHeader :: "string \<Rightarrow> string \<Rightarrow> http_response \<Rightarrow> http_response" where
  "setHeader pKey pValue p = p\<lparr>hp_header := insertSorted pKey pValue (hp_header p)\<rparr>"

definition setStatus :: "nat \<Rightarrow> http_response \<Rightarrow> http_response" where
  "setStatus pStatus p = p\<lparr>hp_status := pStatus\<rparr>"

definition setBody :: "string \<Rightarrow> string \<Rightarrow> http_response \<Rightarrow> http_response" where
  "setBody pBody pContentType p =
    (let p = setHeader ''Content-Length'' (number (length pBody)) (p\<lparr>hp_body := pBody\<rparr>)
     in if pBody = [] \<or> pContentType = [] then p\<lparr>hp_header := filter (\<lambda>(k, v). k \<noteq> ''Content-Type'') (hp_header p)\<rparr>
        else setHeader ''Content-Type'' pContentType p)"

text \<open>What the application knows of itself, and the date.\<close>

record web_app =
  wa_name :: string
  wa_version :: string
  wa_date :: string
  wa_statusMessage :: "nat \<Rightarrow> string"

definition HttpResponse :: "web_app \<Rightarrow> nat \<Rightarrow> string \<Rightarrow> string \<Rightarrow> http_response" where
  "HttpResponse A pStatus pBody pContentType =
    (let p = setBody pBody pContentType \<lparr>hp_status = pStatus, hp_header = [], hp_body = []\<rparr>;
         version = (if wa_version A \<noteq> [] then ''/'' @ wa_version A else []);
         p = setHeader ''Server'' (wa_name A @ version @ '' (TR-03124-1/1.3)'') p;
         p = setHeader ''Date'' (wa_date A @ '' GMT'') p
     in setHeader ''Content-Length'' (number (length (hp_body p))) p)"

definition CR_LF :: string where
  "CR_LF = [CHR 0x0D, CHR 0x0A]"

definition statusLine :: "web_app \<Rightarrow> http_response \<Rightarrow> string" where
  "statusLine A p = ''HTTP/1.0 '' @ number (hp_status p) @ '' '' @ wa_statusMessage A (hp_status p)"

definition headerLine :: "string \<times> string \<Rightarrow> string" where
  "headerLine kv = fst kv @ '': '' @ snd kv"

definition getMessage :: "web_app \<Rightarrow> http_response \<Rightarrow> string" where
  "getMessage A p =
    concat (map (\<lambda>l. l @ CR_LF) (statusLine A p # map headerLine (hp_header p))) @ CR_LF @ hp_body p"

section \<open>Templates\<close>

text \<open>
  A key is what stands between \<open>${\<close> and \<open>}\<close> without any of these three characters. The set of
  keys is hashed, so the order of the replacements is a parameter.
\<close>

definition keyChar :: "char \<Rightarrow> bool" where
  "keyChar c \<longleftrightarrow> c \<notin> {CHR ''$'', CHR ''{'', CHR ''}''}"

function templateKeys :: "string \<Rightarrow> string list" where
  "templateKeys t =
    (case t of
       [] \<Rightarrow> []
     | c # r \<Rightarrow>
        if c = CHR ''$'' \<and> r \<noteq> [] \<and> hd r = CHR ''{'' then
          (let key = takeWhile keyChar (tl r); rest = dropWhile keyChar (tl r)
           in if rest \<noteq> [] \<and> hd rest = CHR ''}'' then key # templateKeys (tl rest) else templateKeys r)
        else templateKeys r)"
  by pat_completeness auto

termination
proof (relation "measure length")
  show "\<And>t c r key rest. t = c # r \<Longrightarrow> c = CHR ''$'' \<and> r \<noteq> [] \<and> hd r = CHR ''{'' \<Longrightarrow> key = takeWhile keyChar (tl r) \<Longrightarrow>
      rest = dropWhile keyChar (tl r) \<Longrightarrow> rest \<noteq> [] \<and> hd rest = CHR ''}'' \<Longrightarrow> (tl rest, t) \<in> measure length"
  proof -
    fix t :: string and c r key rest
    assume "t = c # r" "rest = dropWhile keyChar (tl r)"
    moreover have "length (dropWhile keyChar (tl r)) \<le> length (tl r)" by (rule length_dropWhile_le)
    ultimately show "(tl rest, t) \<in> measure length" by simp
  qed
qed simp_all

declare templateKeys.simps [simp del]

function replaceAll :: "string \<Rightarrow> string \<Rightarrow> string \<Rightarrow> string" where
  "replaceAll before after t =
    (if t = [] then []
     else if before \<noteq> [] \<and> take (length before) t = before
     then after @ replaceAll before after (drop (length before) t)
     else hd t # replaceAll before after (tl t))"
  by pat_completeness auto

termination by (relation "measure (\<lambda>(b, a, t). length t)") (auto simp: length_greater_0_conv [symmetric] simp del: length_greater_0_conv)

declare replaceAll.simps [simp del]

definition placeholder :: "string \<Rightarrow> string" where
  "placeholder key = ''${'' @ key @ ''}''"

record template =
  tp_template :: string
  tp_keys :: "string set"
  tp_context :: "string \<rightharpoonup> string"

definition Template :: "string \<Rightarrow> template" where
  "Template t = \<lparr>tp_template = t, tp_keys = set (templateKeys t), tp_context = Map.empty\<rparr>"

definition setContextParameter :: "string \<Rightarrow> string \<Rightarrow> template \<Rightarrow> bool \<times> template" where
  "setContextParameter pKey pValue t =
    (if pKey \<notin> tp_keys t then (False, t) else (True, t\<lparr>tp_context := (tp_context t)(pKey \<mapsto> pValue)\<rparr>))"

definition renderTemplate :: "string list \<Rightarrow> template \<Rightarrow> string" where
  "renderTemplate order t =
    foldl (\<lambda>output key. replaceAll (placeholder key) (case tp_context t key of None \<Rightarrow> [] | Some v \<Rightarrow> v) output)
      (tp_template t) order"

section \<open>Texts\<close>

definition startsWith :: "string \<Rightarrow> string \<Rightarrow> bool" where
  "startsWith s t \<longleftrightarrow> take (length t) s = t"

fun containsText :: "string \<Rightarrow> string \<Rightarrow> bool" where
  "containsText [] t = (t = [])"
| "containsText (c # s) t = (take (length t) (c # s) = t \<or> containsText s t)"

definition endsWithNoCase :: "string \<Rightarrow> string \<Rightarrow> bool" where
  "endsWithNoCase s t \<longleftrightarrow> drop (length s - length t) (toLower s) = t"

definition toUpper :: "string \<Rightarrow> string" where
  "toUpper s = map (\<lambda>c. if 97 \<le> (of_char c :: nat) \<and> of_char c \<le> (122 :: nat) then char_of (of_char c - 32 :: nat) else c) s"

fun splitOn :: "char \<Rightarrow> string \<Rightarrow> string list" where
  "splitOn sep [] = [[]]"
| "splitOn sep (c # cs) =
    (if c = sep then [] # splitOn sep cs
     else (case splitOn sep cs of [] \<Rightarrow> [[c]] | w # ws \<Rightarrow> (c # w) # ws))"

definition space :: "char \<Rightarrow> bool" where
  "space c \<longleftrightarrow> c \<in> {CHR '' '', CHR 0x09, CHR 0x0A, CHR 0x0B, CHR 0x0C, CHR 0x0D}"

definition trimmed :: "string \<Rightarrow> string" where
  "trimmed s = rev (dropWhile space (rev (dropWhile space s)))"

section \<open>What the application says of itself\<close>

text \<open>\<open>VersionInfo\<close>: a map from keys to values, kept in the order of the keys.\<close>

definition versionInfo :: "web_app \<Rightarrow> string \<Rightarrow> (string \<times> string) list" where
  "versionInfo A vendor =
    [(''Implementation-Title'', wa_name A), (''Implementation-Vendor'', vendor), (''Implementation-Version'', wa_version A),
     (''Name'', wa_name A), (''Specification-Title'', ''TR-03124''),
     (''Specification-Vendor'', ''Federal Office for Information Security''), (''Specification-Version'', ''1.3'')]"

definition VersionInfo_toText :: "(string \<times> string) list \<Rightarrow> string" where
  "VersionInfo_toText info =
    (case map headerLine info of [] \<Rightarrow> [] | l # ls \<Rightarrow> l @ concat (map (\<lambda>l. CHR 0x0A # l) ls))"

definition versionLine :: "string \<Rightarrow> (string \<rightharpoonup> string) \<Rightarrow> (string \<rightharpoonup> string)" where
  "versionLine line m =
    (case splitOn (CHR '':'') line of
       [k, v] \<Rightarrow> if trimmed k = [] \<or> trimmed v = [] then m else m(trimmed k \<mapsto> trimmed v)
     | _ \<Rightarrow> m)"

definition VersionInfo_fromText :: "string \<Rightarrow> (string \<rightharpoonup> string)" where
  "VersionInfo_fromText pText = fold versionLine (splitOn (CHR 0x0A) pText) Map.empty"

section \<open>The local server\<close>

datatype server_event = NewHttpRequest http_request | NewWebSocketRequest http_request | Answered http_request

text \<open>\<open>http\<close> and \<open>websocket\<close>: somebody listens to requests of this kind.\<close>

definition onMessageComplete :: "web_app \<Rightarrow> bool \<Rightarrow> bool \<Rightarrow> http_request \<Rightarrow> server_event" where
  "onMessageComplete A http websocket r =
    (if hr_upgrade r then
       (if toLower (getHeader ''upgrade'' r) = ''websocket'' then
          (if websocket then NewWebSocketRequest r else Answered (send (HttpResponse A 503 [] []) r))
        else Answered (send (HttpResponse A 404 [] []) r))
     else if http then NewHttpRequest r
     else Answered (send (HttpResponse A 503 [] []) r))"

section \<open>The web service\<close>

datatype UiModule = UI_CURRENT | UI_DEFAULT | UI_IDENTIFY | UI_SETTINGS | UI_PINMANAGEMENT

definition uiModuleOf :: "string \<Rightarrow> UiModule" where
  "uiModuleOf s =
    (if s = ''CURRENT'' then UI_CURRENT else if s = ''DEFAULT'' then UI_DEFAULT
     else if s = ''IDENTIFY'' then UI_IDENTIFY else if s = ''SETTINGS'' then UI_SETTINGS
     else if s = ''PINMANAGEMENT'' then UI_PINMANAGEMENT else UI_DEFAULT)"

datatype StatusFormat = SF_PLAIN | SF_JSON

definition statusFormatOf :: "string \<Rightarrow> StatusFormat" where
  "statusFormatOf s = (if s = ''JSON'' then SF_JSON else SF_PLAIN)"

text \<open>
  The surroundings: resources, translations, the order in which the keys of a template are replaced, how a
  URL is written, and the comparison of a version with the own one.
\<close>

record web_env =
  we_app :: web_app
  we_vendor :: string
  we_files :: "string \<rightharpoonup> string"
  we_tr :: "string \<Rightarrow> string"
  we_order :: "string \<Rightarrow> string list"
  we_urlText :: "url \<Rightarrow> string"
  we_urlEncoded :: "url \<Rightarrow> string"
  we_json :: "(string \<times> string) list \<Rightarrow> string"
  we_compareVersion :: "string \<Rightarrow> int"
  we_describe :: "global_status \<Rightarrow> string"

datatype web_effect = ShowUiRequest UiModule | ShowUserInformation string | AuthenticationRequest

definition getQueryParameter :: "url \<Rightarrow> (string \<rightharpoonup> string)" where
  "getQueryParameter pUrl = fold (\<lambda>(k, v) m. m(toLower k \<mapsto> v)) (u_query pUrl) Map.empty"

definition page :: "web_env \<Rightarrow> string \<Rightarrow> (string \<times> string) list \<Rightarrow> string" where
  "page E file parameters =
    (let text = (case we_files E file of None \<Rightarrow> [] | Some t \<Rightarrow> t)
     in renderTemplate (we_order E text) (fold (\<lambda>(k, v) t. snd (setContextParameter k v t)) parameters (Template text)))"

definition errorPage :: "web_env \<Rightarrow> string \<Rightarrow> string \<Rightarrow> string" where
  "errorPage E title message =
    page E '':/html_templates/error.html''
      [(''TITLE'', title), (''MESSAGE_HEADER'', we_tr E ''Invalid request''),
       (''MESSAGE_HEADER_EXPLANATION'', we_tr E ''Your browser sent a request that couldn't be interpreted.''),
       (''ERROR_MESSAGE_LABEL'', we_tr E ''Error message''), (''ERROR_MESSAGE'', message),
       (''REPORT_HEADER'', we_tr E ''Would you like to report this error?''),
       (''REPORT_LINK'', we_tr E ''https://www.ausweisapp.bund.de/en/qa/report-an-error/''),
       (''REPORT_BUTTON'', we_tr E ''Report now'')]"

definition htmlType :: string where
  "htmlType = ''text/html; charset=utf-8''"

definition emptyResponse :: "web_env \<Rightarrow> http_response" where
  "emptyResponse E = HttpResponse (we_app E) 500 [] []"

definition handleShowUiRequest :: "web_env \<Rightarrow> UiModule \<Rightarrow> http_request \<Rightarrow> http_request \<times> web_effect list" where
  "handleShowUiRequest E pUiModule r =
    (let r = send (HttpResponse (we_app E) 200 [] []) r;
         userAgent = getHeader ''user-agent'' r;
         version = hd (splitOn (CHR '' '') (replaceAll (wa_name (we_app E) @ ''/'') [] userAgent))
     in if startsWith userAgent (wa_name (we_app E)) \<and> we_compareVersion E version > 0
        then (r, [ShowUserInformation (we_tr E ''You tried to start a newer version'')])
        else if startsWith userAgent (wa_name (we_app E)) \<and> we_compareVersion E version < 0
        then (r, [ShowUserInformation (we_tr E ''You tried to start an older version'')])
        else (r, [ShowUiRequest pUiModule]))"

definition guessImageContentType :: "string \<Rightarrow> string" where
  "guessImageContentType f =
    (if endsWithNoCase f ''.ico'' then ''image/x-icon''
     else if endsWithNoCase f ''.jpg'' \<or> endsWithNoCase f ''.jpeg'' then ''image/jpeg''
     else if endsWithNoCase f ''.png'' then ''image/png''
     else if endsWithNoCase f ''.svg'' then ''image/svg+xml''
     else ''image'')"

definition handleImageRequest :: "web_env \<Rightarrow> string \<Rightarrow> http_request \<Rightarrow> http_request" where
  "handleImageRequest E pImagePath r =
    send (case we_files E pImagePath of
            Some content \<Rightarrow> setBody content (guessImageContentType pImagePath) (setStatus 200 (emptyResponse E))
          | None \<Rightarrow> setBody ''Not found'' ''text/plain; charset=utf-8'' (setStatus 404 (emptyResponse E))) r"

definition handleStatusRequest :: "web_env \<Rightarrow> StatusFormat \<Rightarrow> http_request \<Rightarrow> http_request" where
  "handleStatusRequest E pStatusFormat r =
    (let response = setHeader ''Access-Control-Allow-Origin'' ''*'' (HttpResponse (we_app E) 200 [] []);
         info = versionInfo (we_app E) (we_vendor E)
     in send (case pStatusFormat of
                SF_PLAIN \<Rightarrow> setBody (VersionInfo_toText info) ''text/plain; charset=utf-8'' response
              | SF_JSON \<Rightarrow> setBody (we_json E info) ''application/json'' response) r)"

definition handleUnknownRequest :: "web_env \<Rightarrow> url \<Rightarrow> http_request \<Rightarrow> http_request" where
  "handleUnknownRequest E url r =
    send (setBody (errorPage E (we_tr E ''404 Not found'') (we_tr E ''Unknown request: '' @ we_urlText E url)) htmlType
            (setStatus 404 (emptyResponse E))) r"

definition onNewRequest :: "web_env \<Rightarrow> url \<Rightarrow> http_request \<Rightarrow> http_request \<times> web_effect list" where
  "onNewRequest E url r =
    (let urlParameter = getQueryParameter url
     in if u_path url = ''/eID-Client'' \<and> urlParameter ''showui'' \<noteq> None
        then handleShowUiRequest E (uiModuleOf (toUpper (the (urlParameter ''showui'')))) r
        else if u_path url = ''/eID-Client'' \<and> urlParameter ''status'' \<noteq> None
        then (handleStatusRequest E (statusFormatOf (toUpper (the (urlParameter ''status'')))) r, [])
        else if u_path url = ''/eID-Client'' \<and> urlParameter ''tctokenurl'' \<noteq> None
        then (r, [AuthenticationRequest])
        else if u_path url = ''/favicon.ico'' then (handleImageRequest E '':/images/npa.ico'' r, [])
        else if startsWith (u_path url) ''/images/'' \<and> \<not> containsText (u_path url) ''../''
        then (handleImageRequest E ('':'' @ u_path url) r, [])
        else (handleUnknownRequest E url r, []))"

text \<open>
  \<open>start\<close>: when the port is taken, the other program is asked for its status; the reply is \<open>None\<close> or gives
  the server header, the header with its user agent, the status code and the text.
\<close>

record status_reply =
  sr_server :: string
  sr_userAgent :: string
  sr_code :: nat
  sr_text :: string

definition parseReply :: "status_reply \<Rightarrow> bool \<times> string \<times> (string \<rightharpoonup> string)" where
  "parseReply y =
    (let serverHeader = (if sr_server y = [] then sr_userAgent y else sr_server y)
     in if sr_code y = 200 then
          (let info = VersionInfo_fromText (sr_text y) in (info \<noteq> Map.empty, serverHeader, info))
        else (False, serverHeader, Map.empty))"

datatype start_result = Listening | ShowUiOfOther | PortIsTaken string

definition startWebservice :: "web_app \<Rightarrow> bool \<Rightarrow> status_reply option \<Rightarrow> start_result" where
  "startWebservice A isListening reply =
    (if isListening then Listening
     else
       let (ok, serverHeader, info) = (case reply of None \<Rightarrow> (False, [], Map.empty) | Some y \<Rightarrow> parseReply y);
           serverAppName = (if ok then (case info ''Name'' of None \<Rightarrow> [] | Some n \<Rightarrow> n) else serverHeader)
       in if startsWith serverAppName (wa_name A) then ShowUiOfOther else PortIsTaken serverAppName)"

section \<open>The answers to the browser\<close>

text \<open>Each answer gives whether it was sent, and the text of the error when it was not.\<close>

definition setCommonHeaders :: "http_response \<Rightarrow> http_response" where
  "setCommonHeaders p =
    setHeader ''Pragma'' ''no-cache'' (setHeader ''Cache-Control'' ''no-cache, no-store'' (setHeader ''Connection'' ''close'' p))"

definition sendIfConnected :: "web_env \<Rightarrow> http_response \<Rightarrow> http_request \<Rightarrow> string option \<times> http_request" where
  "sendIfConnected E response r =
    (if \<not> hr_connected r then (Some (we_tr E ''The browser connection was lost.''), r) else (None, send response r))"

definition sendProcessing :: "web_env \<Rightarrow> http_request \<Rightarrow> string option \<times> http_request" where
  "sendProcessing E r = sendIfConnected E (HttpResponse (we_app E) 102 [] []) r"

definition sendOperationAlreadyActive :: "web_env \<Rightarrow> url \<Rightarrow> http_request \<Rightarrow> string option \<times> http_request" where
  "sendOperationAlreadyActive E url r =
    sendIfConnected E
      (setBody
        (page E '':/html_templates/alreadyactive.html''
          [(''TITLE'', we_tr E ''Cannot start authentication''), (''MESSAGE_HEADER'', we_tr E ''Cannot start authentication''),
           (''MESSAGE_HEADER_EXPLANATION'', we_tr E ''An operation is already in progress.''),
           (''CONTENT_HEADER'', we_tr E ''Would you like to try again?''), (''CONTENT_LINK'', we_urlText E url),
           (''CONTENT_BUTTON'', we_tr E ''Try again'')])
        htmlType (setStatus 409 (emptyResponse E))) r"

definition sendErrorPage :: "web_env \<Rightarrow> nat \<Rightarrow> global_status \<Rightarrow> http_request \<Rightarrow> string option \<times> http_request" where
  "sendErrorPage E pStatusCode pStatus r =
    sendIfConnected E
      (setBody
        (errorPage E
          (if pStatusCode = 400 then we_tr E ''400 Bad Request'' else if pStatusCode = 404 then we_tr E ''404 Not found'' else [])
          (we_describe E pStatus))
        htmlType (setStatus pStatusCode (setCommonHeaders (emptyResponse E)))) r"

definition sendRedirect :: "web_env \<Rightarrow> url \<Rightarrow> global_status \<Rightarrow> http_request \<Rightarrow> string option \<times> http_request" where
  "sendRedirect E pRedirectAddress pStatus r =
    (let redirectAddressWithResult = addMajorMinor pRedirectAddress pStatus
     in if \<not> hr_connected r then
          (Some (we_tr E ''The connection to the browser was lost. No forwarding was executed. '' @
             ''<a href='' @ [CHR 0x27] @ we_urlText E redirectAddressWithResult @ [CHR 0x27] @ ''>'' @ u_host redirectAddressWithResult @ ''</a>''), r)
        else
          (None, send (setStatus 303 (setHeader ''Location'' (we_urlEncoded E redirectAddressWithResult)
                   (setCommonHeaders (emptyResponse E)))) r))"

section \<open>Custom schemes and intents\<close>

text \<open>The redirect of a mobile browser waits until the context is destroyed; \<open>sc_opened\<close> is what was opened then.\<close>

record scheme_context =
  sx_activationUrl :: url
  sx_redirectAddress :: url
  sx_information :: "string list"
  sx_opened :: "url list"

definition onCustomUrl :: "url \<Rightarrow> scheme_context option" where
  "onCustomUrl pUrl =
    (if u_port pUrl \<noteq> 24727 \<or> (u_host pUrl \<noteq> ''127.0.0.1'' \<and> u_host pUrl \<noteq> ''localhost'') \<or> u_path pUrl \<noteq> ''/eID-Client''
     then None
     else Some \<lparr>sx_activationUrl = pUrl, sx_redirectAddress = emptyUrl, sx_information = [], sx_opened = []\<rparr>)"

definition onIntent :: "url \<Rightarrow> scheme_context" where
  "onIntent pUrl = \<lparr>sx_activationUrl = pUrl, sx_redirectAddress = emptyUrl, sx_information = [], sx_opened = []\<rparr>"

definition schemeOperationAlreadyActive :: "web_env \<Rightarrow> scheme_context \<Rightarrow> bool \<times> scheme_context" where
  "schemeOperationAlreadyActive E x =
    (True, x\<lparr>sx_information := sx_information x @
       [we_describe E \<lparr>gs_code = GS_Workflow_AlreadyInProgress_Error, gs_information = [], gs_origin = Client\<rparr>]\<rparr>)"

definition schemeRedirect :: "url \<Rightarrow> global_status \<Rightarrow> scheme_context \<Rightarrow> bool \<times> scheme_context" where
  "schemeRedirect pRedirectAddress pStatus x = (True, x\<lparr>sx_redirectAddress := addMajorMinor pRedirectAddress pStatus\<rparr>)"

definition destroySchemeContext :: "scheme_context \<Rightarrow> scheme_context" where
  "destroySchemeContext x =
    (if \<not> url_isEmpty (sx_redirectAddress x) then x\<lparr>sx_opened := sx_opened x @ [sx_redirectAddress x]\<rparr> else x)"

section \<open>Requests are assembled\<close>

definition headerEvents :: "string list \<times> string list \<Rightarrow> http_event list" where
  "headerEvents h = map OnHeaderField (fst h) @ map OnHeaderValue (snd h)"

definition settled :: "http_request \<Rightarrow> bool" where
  "settled r \<longleftrightarrow> (hr_currentHeaderField r = [] \<longleftrightarrow> hr_currentHeaderValue r = [])"

lemma insertHeader_simps [simp]:
  "hr_currentHeaderValue r = [] \<Longrightarrow> insertHeader r = r"
  "settled r \<Longrightarrow> hr_currentHeaderField (insertHeader r) = []"
  "settled r \<Longrightarrow> hr_currentHeaderValue (insertHeader r) = []"
  by (auto simp: insertHeader_def settled_def)

lemma field_pieces:
  "hr_currentHeaderValue r = [] \<Longrightarrow>
   foldl http_step r (map OnHeaderField fs) = r\<lparr>hr_currentHeaderField := hr_currentHeaderField r @ concat fs\<rparr>"
  by (induction fs arbitrary: r) simp_all

lemma value_pieces:
  "foldl http_step r (map OnHeaderValue vs) = r\<lparr>hr_currentHeaderValue := hr_currentHeaderValue r @ concat vs\<rparr>"
  by (induction vs arbitrary: r) simp_all

lemma url_pieces: "foldl http_step r (map OnUrl us) = r\<lparr>hr_url := hr_url r @ concat us\<rparr>"
  by (induction us arbitrary: r) simp_all

lemma body_pieces: "foldl http_step r (map OnBody bs) = r\<lparr>hr_body := hr_body r @ concat bs\<rparr>"
  by (induction bs arbitrary: r) simp_all

lemma header_pieces:
  assumes "settled r" "concat fs \<noteq> []"
  shows "foldl http_step r (headerEvents (fs, vs)) =
    (insertHeader r)\<lparr>hr_currentHeaderField := concat fs, hr_currentHeaderValue := concat vs\<rparr>"
proof -
  obtain f fs' where fs: "fs = f # fs'" using assms(2) by (cases fs) auto
  show ?thesis
    using assms(1) by (simp add: headerEvents_def fs field_pieces value_pieces Let_def)
qed

definition addHeader :: "(string \<rightharpoonup> string) \<Rightarrow> string list \<times> string list \<Rightarrow> (string \<rightharpoonup> string)" where
  "addHeader m h = m(toLower (concat (fst h)) \<mapsto> concat (snd h))"

lemma headers_pieces:
  assumes "settled r" "\<forall>h \<in> set hs. concat (fst h) \<noteq> [] \<and> concat (snd h) \<noteq> []"
  shows "\<exists>f v. insertHeader (foldl http_step r (concat (map headerEvents hs))) =
    (insertHeader r)\<lparr>hr_header := foldl addHeader (hr_header (insertHeader r)) hs, hr_currentHeaderField := f, hr_currentHeaderValue := v\<rparr>"
  using assms
proof (induction hs arbitrary: r)
  case Nil
  show ?case
    by (rule exI [of _ "hr_currentHeaderField (insertHeader r)"], rule exI [of _ "hr_currentHeaderValue (insertHeader r)"]) simp
next
  case (Cons h hs)
  obtain fs vs where h: "h = (fs, vs)" by (cases h)
  let ?r = "(insertHeader r)\<lparr>hr_currentHeaderField := concat fs, hr_currentHeaderValue := concat vs\<rparr>"
  have ne: "concat fs \<noteq> []" "concat vs \<noteq> []" using Cons.prems(2) by (simp_all add: h)
  then have "settled ?r" by (simp add: settled_def del: concat_eq_Nil_conv)
  then obtain f v where "insertHeader (foldl http_step ?r (concat (map headerEvents hs))) =
      (insertHeader ?r)\<lparr>hr_header := foldl addHeader (hr_header (insertHeader ?r)) hs, hr_currentHeaderField := f, hr_currentHeaderValue := v\<rparr>"
    using Cons.IH [of ?r] Cons.prems(2) by auto
  moreover have "insertHeader ?r = (insertHeader r)\<lparr>hr_header := addHeader (hr_header (insertHeader r)) h,
      hr_currentHeaderField := [], hr_currentHeaderValue := []\<rparr>"
    using ne by (simp add: insertHeader_def [of ?r] addHeader_def h del: concat_eq_Nil_conv)
  ultimately show ?case
    using header_pieces [OF Cons.prems(1) ne(1), of vs] by (auto simp: h)
qed

text \<open>
  A request is put together the same way however its texts are cut into pieces: the URL, the headers
  under their names in lower case, a later one in place of an earlier of the same name, and the body.
\<close>

theorem request_is_assembled:
  assumes "\<forall>h \<in> set headers. concat (fst h) \<noteq> [] \<and> concat (snd h) \<noteq> []"
  shows "let r = foldl http_step HttpRequest
      (map OnUrl url @ concat (map headerEvents headers) @ [OnHeadersComplete upgrade] @ map OnBody body @ [OnMessageComplete])
    in hr_url r = concat url \<and> hr_body r = concat body \<and> hr_finished r \<and> hr_upgrade r = upgrade \<and>
       hr_header r = foldl (\<lambda>m h. m(toLower (concat (fst h)) \<mapsto> concat (snd h))) Map.empty headers"
proof -
  let ?r = "HttpRequest\<lparr>hr_url := concat url\<rparr>"
  have s: "settled ?r" "insertHeader ?r = ?r" by (simp_all add: settled_def HttpRequest_def)
  obtain f v where h: "insertHeader (foldl http_step ?r (concat (map headerEvents headers))) =
      ?r\<lparr>hr_header := foldl addHeader Map.empty headers, hr_currentHeaderField := f, hr_currentHeaderValue := v\<rparr>"
    using headers_pieces [OF s(1) assms] unfolding s(2) by (auto simp: HttpRequest_def)
  have a: "addHeader = (\<lambda>m h. m(toLower (concat (fst h)) \<mapsto> concat (snd h)))"
    by (simp add: fun_eq_iff addHeader_def)
  have u: "hr_url HttpRequest = []" "hr_body HttpRequest = []" by (simp_all add: HttpRequest_def)
  show ?thesis
    by (simp add: url_pieces body_pieces h u a [symmetric])
qed

theorem request_is_assembled_witness:
  "hr_header (foldl http_step HttpRequest
      [OnUrl ''/'', OnHeaderField ''Ho'', OnHeaderField ''st'', OnHeaderValue ''127.0.'', OnHeaderValue ''0.1'',
       OnHeaderField ''X'', OnHeaderValue ''y'', OnHeadersComplete False, OnMessageComplete]) ''host'' = Some ''127.0.0.1''"
proof -
  let ?hs = "[([''Ho'', ''st''], [''127.0.'', ''0.1'']), ([''X''], [''y''])]"
  have p: "\<forall>h \<in> set ?hs. concat (fst h) \<noteq> [] \<and> concat (snd h) \<noteq> []" by simp
  have e: "[OnUrl ''/'', OnHeaderField ''Ho'', OnHeaderField ''st'', OnHeaderValue ''127.0.'', OnHeaderValue ''0.1'',
       OnHeaderField ''X'', OnHeaderValue ''y'', OnHeadersComplete False, OnMessageComplete] =
     map OnUrl [''/''] @ concat (map headerEvents ?hs) @ [OnHeadersComplete False] @ map OnBody [] @ [OnMessageComplete]"
    by (simp add: headerEvents_def)
  have l: "toLower ''Host'' = ''host''" "toLower ''X'' = ''x''" by code_simp+
  have "hr_header (foldl http_step HttpRequest
      (map OnUrl [''/''] @ concat (map headerEvents ?hs) @ [OnHeadersComplete False] @ map OnBody [] @ [OnMessageComplete])) =
    foldl (\<lambda>m h. m(toLower (concat (fst h)) \<mapsto> concat (snd h))) Map.empty ?hs"
    using request_is_assembled [OF p, of "[''/'']" False "[]"] unfolding Let_def by blast
  then show ?thesis
    unfolding e by (simp only: foldl.simps) (simp add: l)
qed

text \<open>A header without a value spoils the next one: its name stays and is put before the next name.\<close>

theorem empty_header_spoils_the_next:
  "hr_header (foldl http_step HttpRequest
      [OnHeaderField ''X-Empty'', OnHeaderValue '''', OnHeaderField ''Host'', OnHeaderValue ''127.0.0.1'', OnHeadersComplete False]) =
     [''x-emptyhost'' \<mapsto> ''127.0.0.1'']"
proof -
  have l: "toLower ''X-EmptyHost'' = ''x-emptyhost''" by code_simp
  show ?thesis by (simp add: HttpRequest_def insertHeader_def Let_def l)
qed

section \<open>Responses can be read\<close>

lemma map_of_insertSorted [simp]: "map_of (insertSorted k v h) = (map_of h)(k \<mapsto> v)"
  by (induction k v h rule: insertSorted.induct) (auto simp: fun_eq_iff)

lemma map_of_filter_key: "map_of (filter (\<lambda>(k, v). k \<noteq> key) h) k = (if k = key then None else map_of h k)"
  by (induction h) auto

text \<open>What the code does to a response after it is built, the length left alone.\<close>

datatype response_op = SetStatus nat | SetBody string string | SetHeader string string

fun response_step :: "http_response \<Rightarrow> response_op \<Rightarrow> http_response" where
  "response_step p (SetStatus n) = setStatus n p"
| "response_step p (SetBody b t) = setBody b t p"
| "response_step p (SetHeader k v) = (if k = ''Content-Length'' then p else setHeader k v p)"

definition lengthIsRight :: "http_response \<Rightarrow> bool" where
  "lengthIsRight p \<longleftrightarrow> map_of (hp_header p) ''Content-Length'' = Some (number (length (hp_body p)))"

lemma setHeader_header [simp]:
  "map_of (hp_header (setHeader k v p)) = (map_of (hp_header p))(k \<mapsto> v)" "hp_body (setHeader k v p) = hp_body p"
  by (simp_all add: setHeader_def)

lemma setBody_length [simp]: "lengthIsRight (setBody b t p)"
  by (simp add: lengthIsRight_def setBody_def Let_def map_of_filter_key)

lemma HttpResponse_length [simp]: "lengthIsRight (HttpResponse A n b t)"
  by (simp add: lengthIsRight_def HttpResponse_def Let_def)

interpretation responses: machine response_step lengthIsRight
proof
  show "lengthIsRight (response_step p e)" if "lengthIsRight p" for p e
    using that by (cases e) (simp_all add: setStatus_def lengthIsRight_def setBody_def Let_def map_of_filter_key)
qed

text \<open>How a client reads: lines up to an empty one, then the body.\<close>

fun readLine :: "string \<Rightarrow> string \<times> string" where
  "readLine [] = ([], [])"
| "readLine (c # r) =
    (if c = CHR 0x0D \<and> r \<noteq> [] \<and> hd r = CHR 0x0A then ([], tl r)
     else (let (l, r) = readLine r in (c # l, r)))"

fun readHead :: "nat \<Rightarrow> string \<Rightarrow> string list \<times> string" where
  "readHead 0 t = ([], t)"
| "readHead (Suc n) t =
    (let (l, r) = readLine t in if l = [] then ([], r) else (let (ls, b) = readHead n r in (l # ls, b)))"

lemma readLine_line: "CHR 0x0D \<notin> set l \<Longrightarrow> readLine (l @ CR_LF @ r) = (l, r)"
  by (induction l) (auto simp: CR_LF_def)

lemma readHead_lines:
  "\<forall>l \<in> set ls. l \<noteq> [] \<and> CHR 0x0D \<notin> set l \<Longrightarrow>
   readHead (Suc (length ls)) (concat (map (\<lambda>l. l @ CR_LF) ls) @ CR_LF @ body) = (ls, body)"
proof (induction ls)
  case Nil
  then show ?case using readLine_line [of "[]" body] by simp
next
  case (Cons l ls)
  then show ?case
    using readLine_line [of l "concat (map (\<lambda>l. l @ CR_LF) ls) @ CR_LF @ body"] by simp
qed

lemma number_digits: "c \<in> set (number n) \<Longrightarrow> 48 \<le> (of_char c :: nat)"
proof (induction n rule: number.induct)
  case (1 n)
  show ?case
  proof (cases "n < 10")
    case True
    then show ?thesis using 1(2) by (subst (asm) number.simps) simp
  next
    case False
    then have "c \<in> set (number (n div 10)) \<or> c = char_of (48 + n mod 10)"
      using 1(2) by (subst (asm) number.simps) auto
    then show ?thesis using 1(1) [OF False] by (auto simp: mod_less_eq_dividend)
  qed
qed

lemma number_no_CR: "CHR 0x0D \<notin> set (number n)"
  using number_digits [of "CHR 0x0D" n] by auto

text \<open>
  A client can read every response: however status, headers and body are set one after the other, the
  lines of the head end where they should, the body is what follows, and among the headers is the length
  of exactly this body, as long as no value brings a carriage return.
\<close>

theorem response_is_framed:
  assumes "p = foldl response_step (HttpResponse A n b t) ops"
    and "CHR 0x0D \<notin> set (wa_statusMessage A (hp_status p))"
    "\<forall>(k, v) \<in> set (hp_header p). CHR 0x0D \<notin> set k \<and> CHR 0x0D \<notin> set v"
  shows "readHead (length (hp_header p) + 2) (getMessage A p) = (statusLine A p # map headerLine (hp_header p), hp_body p) \<and>
    headerLine (''Content-Length'', number (length (hp_body p))) \<in> set (map headerLine (hp_header p))"
proof -
  have "\<forall>l \<in> set (statusLine A p # map headerLine (hp_header p)). l \<noteq> [] \<and> CHR 0x0D \<notin> set l"
    using assms(2,3) by (auto simp: statusLine_def headerLine_def number_no_CR split: prod.splits)
  from readHead_lines [OF this, of "hp_body p"]
  have "readHead (length (hp_header p) + 2) (getMessage A p) = (statusLine A p # map headerLine (hp_header p), hp_body p)"
    by (simp add: getMessage_def)
  moreover have "lengthIsRight p"
    using responses.run_inv [of "HttpResponse A n b t" ops] by (simp add: run_def assms(1))
  then have "(''Content-Length'', number (length (hp_body p))) \<in> set (hp_header p)"
    unfolding lengthIsRight_def by (rule map_of_SomeD)
  ultimately show ?thesis by auto
qed

definition sample_app :: web_app where
  "sample_app = \<lparr>wa_name = ''AusweisApp2'', wa_version = ''1.16.0'', wa_date = ''Mon, 01 Jan 2019 00:00:00'',
     wa_statusMessage = (\<lambda>n. ''OK'')\<rparr>"

theorem response_is_framed_witness:
  "snd (readHead 6 (getMessage sample_app (setBody ''hello'' ''text/plain'' (HttpResponse sample_app 200 [] [])))) = ''hello''"
proof -
  let ?p = "setBody ''hello'' ''text/plain'' (HttpResponse sample_app 200 [] [])"
  have d: "number 0 = ''0''" "number (Suc (Suc (Suc (Suc (Suc 0))))) = ''5''"
    by code_simp+
  have h: "hp_header ?p = [(''Content-Length'', ''5''), (''Content-Type'', ''text/plain''),
      (''Date'', ''Mon, 01 Jan 2019 00:00:00 GMT''), (''Server'', ''AusweisApp2/1.16.0 (TR-03124-1/1.3)'')]"
    "hp_body ?p = ''hello''"
    by (simp_all add: setBody_def HttpResponse_def setHeader_def Let_def d sample_app_def)
  have "CHR 0x0D \<notin> set (wa_statusMessage sample_app (hp_status ?p))" by (simp add: sample_app_def)
  moreover have "\<forall>(k, v) \<in> set (hp_header ?p). CHR 0x0D \<notin> set k \<and> CHR 0x0D \<notin> set v"
    by (simp add: h)
  ultimately have "readHead (length (hp_header ?p) + 2) (getMessage sample_app ?p) =
      (statusLine sample_app ?p # map headerLine (hp_header ?p), hp_body ?p)"
    using response_is_framed [of ?p sample_app 200 "[]" "[]" "[SetBody ''hello'' ''text/plain'']"] by simp
  moreover have "length (hp_header ?p) + 2 = 6" by (simp add: h(1))
  ultimately show ?thesis by (simp only: snd_conv h(2))
qed

section \<open>Every request is answered\<close>

lemma sent_simps [simp]:
  "hr_sent (send p r) = hr_sent r @ [p]" "hr_header (send p r) = hr_header r" "hr_connected (send p r) = hr_connected r"
  by (simp_all add: send_def)

lemma lengthIsRight_set [simp]:
  "lengthIsRight p \<Longrightarrow> lengthIsRight (setStatus n p)"
  "lengthIsRight p \<Longrightarrow> k \<noteq> ''Content-Length'' \<Longrightarrow> lengthIsRight (setHeader k v p)"
  by (simp_all add: lengthIsRight_def setStatus_def)

text \<open>
  C18. Every request to the web service gets exactly one response, whose length is right, apart from the
  request to authenticate: that is handed on without a response, and only when the path is that of the
  client and the address of a TC token is given but neither of the other two parameters.
\<close>

theorem web_request_is_answered_once:
  "\<exists>answers. hr_sent (fst (onNewRequest E url r)) = hr_sent r @ answers \<and> list_all lengthIsRight answers \<and>
     length answers + length (filter (\<lambda>e. e = AuthenticationRequest) (snd (onNewRequest E url r))) = 1 \<and>
     (AuthenticationRequest \<in> set (snd (onNewRequest E url r)) \<longleftrightarrow>
        u_path url = ''/eID-Client'' \<and> getQueryParameter url ''tctokenurl'' \<noteq> None \<and>
        getQueryParameter url ''showui'' = None \<and> getQueryParameter url ''status'' = None)"
  by (auto simp: onNewRequest_def handleShowUiRequest_def handleStatusRequest_def handleImageRequest_def
      handleUnknownRequest_def Let_def startsWith_def split: StatusFormat.split option.split)

text \<open>
  C19. Whatever a browser asks for, of all files only the pages of errors, the icon and what is below the
  directory of images is given: an answer does not depend on any other file, nor on one that is named by
  going up from that directory.
\<close>

theorem only_images_are_given:
  assumes "\<And>f. f = '':/html_templates/error.html'' \<or> f = '':/images/npa.ico'' \<or>
    (startsWith f '':/images/'' \<and> \<not> containsText f ''../'') \<Longrightarrow> files f = we_files E f"
  shows "onNewRequest (E\<lparr>we_files := files\<rparr>) url r = onNewRequest E url r"
proof -
  have image: "files ('':'' @ u_path url) = we_files E ('':'' @ u_path url)"
    if "startsWith (u_path url) ''/images/''" "\<not> containsText (u_path url) ''../''"
  proof (rule assms)
    have "\<not> containsText ('':'' @ u_path url) ''../''"
      using that(2) by simp
    then show "('':'' @ u_path url) = '':/html_templates/error.html'' \<or> ('':'' @ u_path url) = '':/images/npa.ico'' \<or>
        (startsWith ('':'' @ u_path url) '':/images/'' \<and> \<not> containsText ('':'' @ u_path url) ''../'')"
      using that(1) by (simp add: startsWith_def)
  qed
  have f: "files '':/html_templates/error.html'' = we_files E '':/html_templates/error.html''"
    "files '':/images/npa.ico'' = we_files E '':/images/npa.ico''"
    by (rule assms, simp)+
  let ?E = "E\<lparr>we_files := files\<rparr>"
  have sel: "we_app ?E = we_app E" "we_tr ?E = we_tr E" "we_compareVersion ?E = we_compareVersion E" "we_vendor ?E = we_vendor E"
    "we_json ?E = we_json E" "we_urlText ?E = we_urlText E" by simp_all
  have e: "emptyResponse ?E = emptyResponse E" "errorPage ?E = errorPage E"
    by (simp_all add: emptyResponse_def errorPage_def page_def f(1) fun_eq_iff)
  have i: "handleImageRequest ?E name r = handleImageRequest E name r" if "files name = we_files E name" for name
    by (simp add: handleImageRequest_def e that split: option.split)
  have h: "handleShowUiRequest ?E = handleShowUiRequest E" "handleStatusRequest ?E = handleStatusRequest E"
    "handleUnknownRequest ?E = handleUnknownRequest E"
    unfolding handleShowUiRequest_def handleStatusRequest_def handleUnknownRequest_def sel e by (rule refl)+
  show ?thesis
    using i [OF image] unfolding onNewRequest_def Let_def h i [OF f(2)] by auto
qed

definition sample_web_env :: web_env where
  "sample_web_env = \<lparr>we_app = sample_app, we_vendor = ''Governikus'', we_files = (\<lambda>f. if f = '':/images/npa.ico'' then Some ''icon'' else None),
     we_tr = (\<lambda>t. t), we_order = templateKeys, we_urlText = u_path, we_urlEncoded = u_path, we_json = (\<lambda>i. []),
     we_compareVersion = (\<lambda>v. 0), we_describe = (\<lambda>s. [])\<rparr>"

theorem only_images_are_given_witness:
  "onNewRequest (sample_web_env\<lparr>we_files := \<lambda>f. if f = '':/images/npa.ico'' then Some ''icon'' else
       if f = '':/secret'' then Some ''secret'' else None\<rparr>) (emptyUrl\<lparr>u_path := ''/images/../secret''\<rparr>) HttpRequest =
     onNewRequest sample_web_env (emptyUrl\<lparr>u_path := ''/images/../secret''\<rparr>) HttpRequest"
  by (rule only_images_are_given) (auto simp: sample_web_env_def startsWith_def)

section \<open>A second instance\<close>

lemma splitOn_not_Nil [simp]: "splitOn sep cs \<noteq> []"
  by (induction cs) (auto split: list.split)

lemma splitOn_none: "sep \<notin> set cs \<Longrightarrow> splitOn sep cs = [cs]"
  by (induction cs) auto

lemma splitOn_append: "splitOn sep (xs @ sep # ys) = splitOn sep xs @ splitOn sep ys"
  by (induction xs) (auto split: list.split)

lemma splitOn_lines: "splitOn sep (l @ concat (map (\<lambda>l. sep # l) ls)) = concat (map (splitOn sep) (l # ls))"
  by (induction ls arbitrary: l) (simp_all add: splitOn_append)

lemma fromText_toText:
  "VersionInfo_fromText (VersionInfo_toText (i # info)) =
     fold versionLine (concat (map (\<lambda>kv. splitOn (CHR 0x0A) (headerLine kv)) (i # info))) Map.empty"
  using splitOn_lines [of "CHR 0x0A" "headerLine i" "map headerLine info"]
  by (simp add: VersionInfo_fromText_def VersionInfo_toText_def comp_def)

lemma trimmed_value: "trimmed v = v \<Longrightarrow> trimmed (CHR '' '' # v) = v"
  by (simp add: trimmed_def space_def)

lemma versionLine_name:
  assumes "CHR '':'' \<notin> set v" "trimmed v = v" "v \<noteq> []"
  shows "versionLine (headerLine (''Name'', v)) m = m(''Name'' \<mapsto> v)"
proof -
  have "splitOn (CHR '':'') (''Name'' @ CHR '':'' # CHR '' '' # v) = [''Name'', CHR '' '' # v]"
    unfolding splitOn_append using assms(1) by (simp add: splitOn_none)
  moreover have "trimmed ''Name'' = ''Name''" by code_simp
  ultimately show ?thesis
    using assms(2,3) by (simp add: versionLine_def headerLine_def trimmed_value)
qed

lemma versionLine_rest:
  "versionLine (headerLine (''Specification-Title'', ''TR-03124'')) m ''Name'' = m ''Name''"
  "versionLine (headerLine (''Specification-Vendor'', ''Federal Office for Information Security'')) m ''Name'' = m ''Name''"
  "versionLine (headerLine (''Specification-Version'', ''1.3'')) m ''Name'' = m ''Name''"
proof -
  have t: "trimmed ''Specification-Title'' = ''Specification-Title''" "trimmed ''Specification-Vendor'' = ''Specification-Vendor''"
    "trimmed ''Specification-Version'' = ''Specification-Version''" by code_simp+
  show "versionLine (headerLine (''Specification-Title'', ''TR-03124'')) m ''Name'' = m ''Name''"
    "versionLine (headerLine (''Specification-Vendor'', ''Federal Office for Information Security'')) m ''Name'' = m ''Name''"
    "versionLine (headerLine (''Specification-Version'', ''1.3'')) m ''Name'' = m ''Name''"
    by (simp_all add: versionLine_def headerLine_def t)
qed

lemma own_name_is_read:
  assumes "CHR '':'' \<notin> set (wa_name A)" "CHR 0x0A \<notin> set (wa_name A)" "trimmed (wa_name A) = wa_name A" "wa_name A \<noteq> []"
  shows "VersionInfo_fromText (VersionInfo_toText (versionInfo A vendor)) ''Name'' = Some (wa_name A)"
proof -
  have n: "splitOn (CHR 0x0A) (headerLine (''Name'', wa_name A)) = [headerLine (''Name'', wa_name A)]"
    using assms(2) by (simp add: splitOn_none headerLine_def)
  have c: "splitOn (CHR 0x0A) (headerLine (''Specification-Title'', ''TR-03124'')) = [headerLine (''Specification-Title'', ''TR-03124'')]"
    "splitOn (CHR 0x0A) (headerLine (''Specification-Vendor'', ''Federal Office for Information Security'')) =
       [headerLine (''Specification-Vendor'', ''Federal Office for Information Security'')]"
    "splitOn (CHR 0x0A) (headerLine (''Specification-Version'', ''1.3'')) = [headerLine (''Specification-Version'', ''1.3'')]"
    by (simp_all add: splitOn_none headerLine_def)
  show ?thesis
    unfolding versionInfo_def fromText_toText
    by (simp add: n c versionLine_rest versionLine_name [OF assms(1,3,4)])
qed

text \<open>
  A second instance recognises the first: it asks the first for its status, reads the name of the
  application in the answer, whatever version and vendor the first one has, and has it show its window
  instead of complaining about the port.
\<close>

theorem second_instance_is_recognised:
  assumes "CHR '':'' \<notin> set (wa_name (we_app E))" "CHR 0x0A \<notin> set (wa_name (we_app E))"
    "trimmed (wa_name (we_app E)) = wa_name (we_app E)" "wa_name (we_app E) \<noteq> []"
    and "wa_name B = wa_name (we_app E)"
  shows "startWebservice B False (Some \<lparr>sr_server = server, sr_userAgent = userAgent, sr_code = 200,
      sr_text = hp_body (last (hr_sent (handleStatusRequest E SF_PLAIN r)))\<rparr>) = ShowUiOfOther"
proof -
  let ?info = "VersionInfo_fromText (VersionInfo_toText (versionInfo (we_app E) (we_vendor E)))"
  have "hp_body (last (hr_sent (handleStatusRequest E SF_PLAIN r))) = VersionInfo_toText (versionInfo (we_app E) (we_vendor E))"
    by (simp add: handleStatusRequest_def setBody_def Let_def)
  moreover have name: "?info ''Name'' = Some (wa_name (we_app E))"
    by (rule own_name_is_read [OF assms(1-4)])
  moreover have "?info \<noteq> Map.empty"
    using name by (metis option.distinct(1))
  ultimately show ?thesis
    by (simp add: startWebservice_def parseReply_def Let_def assms(5) startsWith_def)
qed

theorem second_instance_is_recognised_witness:
  "startWebservice sample_app False (Some \<lparr>sr_server = [], sr_userAgent = [], sr_code = 200,
      sr_text = hp_body (last (hr_sent (handleStatusRequest sample_web_env SF_PLAIN HttpRequest)))\<rparr>) = ShowUiOfOther"
proof (rule second_instance_is_recognised)
  have "trimmed ''AusweisApp2'' = ''AusweisApp2''" by code_simp
  then show "trimmed (wa_name (we_app sample_web_env)) = wa_name (we_app sample_web_env)"
    by (simp add: sample_web_env_def sample_app_def)
qed (simp_all add: sample_web_env_def sample_app_def)

text \<open>
  A value that looks like a placeholder is replaced in turn, if the order of the hashed keys happens to be
  that way: the page depends on it.
\<close>

theorem values_are_replaced_again:
  "renderTemplate [''A'', ''B''] (snd (setContextParameter ''B'' ''x'' (snd (setContextParameter ''A'' ''${B}'' (Template ''${A} ${B}''))))) = ''x x'' \<and>
   renderTemplate [''B'', ''A''] (snd (setContextParameter ''B'' ''x'' (snd (setContextParameter ''A'' ''${B}'' (Template ''${A} ${B}''))))) = ''${B} x''"
proof -
  have k: "templateKeys ''${A} ${B}'' = [''A'', ''B'']" by code_simp
  have r: "replaceAll (placeholder ''A'') ''${B}'' ''${A} ${B}'' = ''${B} ${B}''" "replaceAll (placeholder ''B'') ''x'' ''${B} ${B}'' = ''x x''"
    "replaceAll (placeholder ''B'') ''x'' ''${A} ${B}'' = ''${A} x''" "replaceAll (placeholder ''A'') ''${B}'' ''${A} x'' = ''${B} x''"
    by code_simp+
  show ?thesis by (simp add: renderTemplate_def setContextParameter_def Template_def k r)
qed

end
