(* ===== verification/AppControl.thy ===== *)
theory AppControl
  imports CardCodes
begin

text \<open>
  src/src/core/controller/AppController.cpp: which workflow runs, the request that waits, the
  shutdown and the domination of the user interface. The controller is a machine over the events of
  the user interface, the activation, the running workflow and the timer of the shutdown. The
  controller of a workflow stands for its context; a caller of the activation and a plug-in of the
  user interface are numbers. The signals that are emitted are kept in their order.
\<close>

section \<open>State\<close>

datatype Action =
  ACTION_NONE | ACTION_AUTH | ACTION_SELF | ACTION_PIN | ACTION_READER_SETTINGS | ACTION_REMOTE_SERVICE

record app_workflow =
  aw_id :: nat
  aw_activation :: "nat option"
  aw_requestTransportPin :: bool
  aw_stateApproved :: bool
  aw_killed :: bool
  aw_cancelled :: bool
  aw_status :: GlobalStatusCode
  aw_finished :: bool
  aw_nextPending :: bool

datatype app_signal =
    FireWorkflowStarted app_workflow
  | FireWorkflowFinished app_workflow
  | FireShowReaderSettings
  | FireHideUi
  | FireShutdown
  | FireUiDomination nat bool
  | FireUiDominationReleased
  | OperationAlreadyActive nat
  | HandlersStopped
  | UiLoaderShutdown

record app_controller =
  ac_currentAction :: Action
  ac_waitingRequest :: "(Action \<times> app_workflow) option"
  ac_activeController :: "app_workflow option"
  ac_shutdownRunning :: bool
  ac_uiDomination :: "nat option"
  ac_contexts :: nat
  ac_timers :: nat
  ac_timesInvoked :: nat
  ac_loaderConnected :: bool
  ac_quit :: bool
  ac_nullUsed :: bool
  ac_signals :: "app_signal list"

definition AppController :: app_controller where
  "AppController = \<lparr>ac_currentAction = ACTION_NONE, ac_waitingRequest = None, ac_activeController = None,
     ac_shutdownRunning = False, ac_uiDomination = None, ac_contexts = 0, ac_timers = 0, ac_timesInvoked = 0,
     ac_loaderConnected = False, ac_quit = False, ac_nullUsed = False, ac_signals = []\<rparr>"

definition emit :: "app_signal \<Rightarrow> app_controller \<Rightarrow> app_controller" where
  "emit x s = s\<lparr>ac_signals := ac_signals s @ [x]\<rparr>"

text \<open>A new context of a workflow; \<open>aw_activation\<close> is set for an authentication only.\<close>

definition createContext :: "nat option \<Rightarrow> bool \<Rightarrow> app_controller \<Rightarrow> app_workflow \<times> app_controller" where
  "createContext activation pRequestTransportPin s =
    (\<lparr>aw_id = ac_contexts s, aw_activation = activation, aw_requestTransportPin = pRequestTransportPin, aw_stateApproved = False,
      aw_killed = False, aw_cancelled = False, aw_status = GS_No_Error, aw_finished = False, aw_nextPending = False\<rparr>,
     s\<lparr>ac_contexts := ac_contexts s + 1\<rparr>)"

definition killWorkflow :: "app_workflow \<Rightarrow> app_workflow" where
  "killWorkflow c = c\<lparr>aw_killed := True, aw_status := GS_Card_Cancellation_By_User, aw_stateApproved := True, aw_cancelled := True\<rparr>"

section \<open>Operations\<close>

definition canStartNewAction :: "app_controller \<Rightarrow> bool" where
  "canStartNewAction s \<longleftrightarrow> ac_currentAction s = ACTION_NONE \<and> ac_activeController s = None"

definition startNewWorkflow :: "Action \<Rightarrow> app_workflow \<Rightarrow> app_controller \<Rightarrow> app_controller" where
  "startNewWorkflow pAction c s =
    (if ac_currentAction s \<noteq> ACTION_NONE \<or> ac_activeController s \<noteq> None then s
     else emit (FireWorkflowStarted c) (s\<lparr>ac_activeController := Some c, ac_currentAction := pAction\<rparr>))"

definition completeShutdown :: "app_controller \<Rightarrow> app_controller" where
  "completeShutdown s =
    (let s = emit FireShutdown s; s = emit HandlersStopped s in s\<lparr>ac_timers := ac_timers s + 1\<rparr>)"

definition runWaitingRequest :: "app_controller \<Rightarrow> app_controller" where
  "runWaitingRequest s =
    (case ac_waitingRequest s of
       None \<Rightarrow> s
     | Some (action, c) \<Rightarrow>
        (if action = ACTION_PIN then startNewWorkflow ACTION_PIN c s
         else if action = ACTION_AUTH then startNewWorkflow ACTION_AUTH c s
         else if action = ACTION_READER_SETTINGS then emit FireShowReaderSettings s
         else s)\<lparr>ac_waitingRequest := None\<rparr>)"

definition onWorkflowFinished :: "app_controller \<Rightarrow> app_controller" where
  "onWorkflowFinished s =
    (case ac_activeController s of
       None \<Rightarrow> s\<lparr>ac_nullUsed := True\<rparr>
     | Some c \<Rightarrow>
        (let s = emit (FireWorkflowFinished c) s;
             s = s\<lparr>ac_activeController := None, ac_currentAction := ACTION_NONE\<rparr>;
             s = runWaitingRequest s
         in if ac_shutdownRunning s then completeShutdown s else s))"

definition onChangePinRequested :: "app_controller \<Rightarrow> app_controller" where
  "onChangePinRequested s =
    (if canStartNewAction s then (case createContext None False s of (c, s) \<Rightarrow> startNewWorkflow ACTION_PIN c s)
     else if ac_waitingRequest s = None then
       (case ac_activeController s of
          None \<Rightarrow> s\<lparr>ac_nullUsed := True\<rparr>
        | Some active \<Rightarrow>
           (case createContext None True s of (c, s) \<Rightarrow>
              s\<lparr>ac_activeController := Some (active\<lparr>aw_nextPending := True\<rparr>), ac_waitingRequest := Some (ACTION_PIN, c)\<rparr>))
     else s)"

definition onSelfAuthenticationRequested :: "app_controller \<Rightarrow> app_controller" where
  "onSelfAuthenticationRequested s =
    (if canStartNewAction s then (case createContext None False s of (c, s) \<Rightarrow> startNewWorkflow ACTION_SELF c s) else s)"

definition onAuthenticationRequest :: "nat \<Rightarrow> app_controller \<Rightarrow> app_controller" where
  "onAuthenticationRequest pActivationContext s =
    (case createContext (Some pActivationContext) False s of (c, s) \<Rightarrow>
       if canStartNewAction s then startNewWorkflow ACTION_AUTH c s
       else if ac_currentAction s = ACTION_SELF \<and> ac_activeController s = None then s\<lparr>ac_nullUsed := True\<rparr>
       else if ac_currentAction s = ACTION_SELF \<and> aw_finished (the (ac_activeController s)) \<and>
          aw_status (the (ac_activeController s)) = GS_No_Error \<and> ac_waitingRequest s = None
       then s\<lparr>ac_waitingRequest := Some (ACTION_AUTH, c),
              ac_activeController := Some ((the (ac_activeController s))\<lparr>aw_stateApproved := True\<rparr>)\<rparr>
       else emit (OperationAlreadyActive pActivationContext) s)"

definition onRemoteServiceRequested :: "app_controller \<Rightarrow> app_controller" where
  "onRemoteServiceRequested s =
    (if canStartNewAction s then (case createContext None False s of (c, s) \<Rightarrow> startNewWorkflow ACTION_REMOTE_SERVICE c s) else s)"

definition doShutdown :: "app_controller \<Rightarrow> app_controller" where
  "doShutdown s =
    (let s = s\<lparr>ac_shutdownRunning := True\<rparr>
     in case ac_activeController s of
          Some c \<Rightarrow> (emit FireHideUi (s\<lparr>ac_waitingRequest := None\<rparr>))\<lparr>ac_activeController := Some (killWorkflow c)\<rparr>
        | None \<Rightarrow> completeShutdown (emit FireHideUi s))"

text \<open>The number of times is a static variable of the timer's function, so all timers share it.\<close>

definition shutdownTimeout :: "nat \<Rightarrow> app_controller \<Rightarrow> app_controller" where
  "shutdownTimeout openConnectionCount s =
    (let times = (if openConnectionCount > 0 then ac_timesInvoked s + 1 else ac_timesInvoked s);
         s = s\<lparr>ac_timesInvoked := times\<rparr>
     in if openConnectionCount > 0 \<and> times < 3000 div 50 then s
        else emit UiLoaderShutdown (s\<lparr>ac_timers := ac_timers s - 1, ac_loaderConnected := True\<rparr>))"

definition onUILoaderShutdownComplete :: "app_controller \<Rightarrow> app_controller" where
  "onUILoaderShutdownComplete s = s\<lparr>ac_quit := True\<rparr>"

definition onUiDominationRequested :: "nat \<Rightarrow> app_controller \<Rightarrow> app_controller" where
  "onUiDominationRequested pUi s =
    (if ac_uiDomination s = None \<and> ac_currentAction s = ACTION_NONE
     then emit (FireUiDomination pUi True) (s\<lparr>ac_uiDomination := Some pUi\<rparr>)
     else emit (FireUiDomination pUi False) s)"

definition onUiDominationRelease :: "app_controller \<Rightarrow> app_controller" where
  "onUiDominationRelease s =
    (if ac_uiDomination s \<noteq> None then emit FireUiDominationReleased (s\<lparr>ac_uiDomination := None\<rparr>) else s)"

text \<open>\<open>start\<close>: whether a user interface was loaded, and which activation handlers start.\<close>

fun startHandlers :: "bool list \<Rightarrow> app_controller \<Rightarrow> bool \<times> app_controller" where
  "startHandlers [] s = (True, s)"
| "startHandlers (started # handlers) s = (if started then startHandlers handlers s else (False, doShutdown s))"

definition startApp :: "bool \<Rightarrow> bool list \<Rightarrow> app_controller \<Rightarrow> bool \<times> app_controller" where
  "startApp uiLoaded handlers s = (if \<not> uiLoaded then (False, s) else startHandlers handlers s)"

section \<open>The machine\<close>

text \<open>
  The running workflow changes its own context and reports its end once; a timer runs until its
  function deletes it.
\<close>

datatype app_event =
    ChangePinRequested
  | SelfAuthenticationRequested
  | AuthenticationRequested nat
  | RemoteServiceRequested
  | ShutdownRequested
  | ContextChanged bool bool GlobalStatusCode
  | WorkflowDone
  | ShutdownTimeout nat
  | UiLoaderShutdownComplete
  | UiDominationRequested nat
  | UiDominationRelease

fun app_step :: "app_controller \<Rightarrow> app_event \<Rightarrow> app_controller" where
  "app_step s ChangePinRequested = onChangePinRequested s"
| "app_step s SelfAuthenticationRequested = onSelfAuthenticationRequested s"
| "app_step s (AuthenticationRequested a) = onAuthenticationRequest a s"
| "app_step s RemoteServiceRequested = onRemoteServiceRequested s"
| "app_step s ShutdownRequested = doShutdown s"
| "app_step s (ContextChanged approved finished status) =
    s\<lparr>ac_activeController := map_option
        (aw_stateApproved_update (\<lambda>_. approved) \<circ> aw_finished_update (\<lambda>_. finished) \<circ> aw_status_update (\<lambda>_. status))
        (ac_activeController s)\<rparr>"
| "app_step s WorkflowDone = (if ac_activeController s \<noteq> None then onWorkflowFinished s else s)"
| "app_step s (ShutdownTimeout n) = (if ac_timers s > 0 then shutdownTimeout n s else s)"
| "app_step s UiLoaderShutdownComplete = (if ac_loaderConnected s then onUILoaderShutdownComplete s else s)"
| "app_step s (UiDominationRequested ui) = onUiDominationRequested ui s"
| "app_step s UiDominationRelease = onUiDominationRelease s"


section \<open>One workflow at a time\<close>

text \<open>What somebody who follows the signals knows: the workflow that runs, or \<open>None\<close> after a signal that cannot be.\<close>

fun follow :: "nat option option \<Rightarrow> app_signal \<Rightarrow> nat option option" where
  "follow (Some None) (FireWorkflowStarted c) = Some (Some (aw_id c))"
| "follow k (FireWorkflowStarted c) = None"
| "follow (Some (Some i)) (FireWorkflowFinished c) = (if aw_id c = i then Some None else None)"
| "follow k (FireWorkflowFinished c) = None"
| "follow k _ = k"

definition followed :: "app_controller \<Rightarrow> nat option option" where
  "followed s = foldl follow (Some None) (ac_signals s)"

definition app_inv :: "app_controller \<Rightarrow> bool" where
  "app_inv s \<longleftrightarrow> (ac_currentAction s = ACTION_NONE \<longleftrightarrow> ac_activeController s = None) \<and>
     followed s = Some (map_option aw_id (ac_activeController s)) \<and> \<not> ac_nullUsed s \<and>
     (\<forall>action c. ac_waitingRequest s = Some (action, c) \<longrightarrow>
        ac_activeController s \<noteq> None \<and> (action = ACTION_PIN \<or> action = ACTION_AUTH))"

lemma app_invI:
  assumes "ac_currentAction s = ACTION_NONE \<longleftrightarrow> ac_activeController s = None"
    "followed s = Some (map_option aw_id (ac_activeController s))" "\<not> ac_nullUsed s"
    "\<And>action c. ac_waitingRequest s = Some (action, c) \<Longrightarrow> ac_activeController s \<noteq> None \<and> (action = ACTION_PIN \<or> action = ACTION_AUTH)"
  shows "app_inv s"
  using assms by (simp add: app_inv_def)

lemma emit_simps [simp]:
  "ac_currentAction (emit x s) = ac_currentAction s" "ac_activeController (emit x s) = ac_activeController s"
  "ac_waitingRequest (emit x s) = ac_waitingRequest s" "ac_nullUsed (emit x s) = ac_nullUsed s"
  "ac_shutdownRunning (emit x s) = ac_shutdownRunning s" "ac_timers (emit x s) = ac_timers s"
  "ac_timesInvoked (emit x s) = ac_timesInvoked s" "ac_signals (emit x s) = ac_signals s @ [x]"
  "ac_uiDomination (emit x s) = ac_uiDomination s"
  by (simp_all add: emit_def)

lemma followed_simps [simp]:
  "followed (emit x s) = follow (followed s) x" "followed (ac_activeController_update f s) = followed s"
  "followed (ac_currentAction_update g s) = followed s" "followed (ac_waitingRequest_update h s) = followed s"
  "followed (ac_shutdownRunning_update k s) = followed s" "followed (ac_timers_update l s) = followed s"
  "followed (ac_timesInvoked_update m s) = followed s" "followed (ac_loaderConnected_update n s) = followed s"
  "followed (ac_contexts_update p s) = followed s" "followed (ac_uiDomination_update q s) = followed s"
  "followed (ac_quit_update r s) = followed s"
  by (simp_all add: followed_def)

lemmas app_ops = startNewWorkflow_def completeShutdown_def runWaitingRequest_def onWorkflowFinished_def
  onChangePinRequested_def onSelfAuthenticationRequested_def onAuthenticationRequest_def onRemoteServiceRequested_def
  doShutdown_def shutdownTimeout_def onUILoaderShutdownComplete_def onUiDominationRequested_def onUiDominationRelease_def
  canStartNewAction_def createContext_def killWorkflow_def Let_def

lemma app_step_inv: "app_inv s \<Longrightarrow> app_inv (app_step s e)"
  by (cases e; cases "ac_activeController s"; cases "ac_waitingRequest s"; cases "ac_shutdownRunning s")
    (auto simp: app_inv_def app_ops split: option.splits)

interpretation app: machine app_step app_inv
  by unfold_locales (rule app_step_inv)

lemma app_inv_start: "app_inv AppController"
  by (simp add: app_inv_def AppController_def followed_def)

lemma app_run_inv: "app_inv (run app_step AppController evs)"
  by (rule app.run_inv [OF app_inv_start])

text \<open>
  C12. There is never more than one workflow: whatever is requested, in whatever order, each workflow that is
  announced has finished before the next one is announced, the one announced last is the one that runs, an
  action is current exactly while a workflow runs, and the controller never uses a workflow that is not there.
\<close>

theorem one_workflow_at_a_time:
  "let s = run app_step AppController evs
   in foldl follow (Some None) (ac_signals s) = Some (map_option aw_id (ac_activeController s)) \<and>
      (ac_currentAction s = ACTION_NONE \<longleftrightarrow> ac_activeController s = None) \<and> \<not> ac_nullUsed s"
  using app_run_inv [of evs] unfolding Let_def app_inv_def followed_def by blast

section \<open>Every caller gets an answer\<close>

definition answers :: "nat \<Rightarrow> app_signal \<Rightarrow> bool" where
  "answers a x = (case x of FireWorkflowStarted c \<Rightarrow> aw_activation c = Some a | OperationAlreadyActive b \<Rightarrow> b = a | _ \<Rightarrow> False)"

definition answered :: "nat \<Rightarrow> app_controller \<Rightarrow> nat" where
  "answered a s = length (filter (answers a) (ac_signals s))"

definition waits :: "nat \<Rightarrow> app_controller \<Rightarrow> nat" where
  "waits a s = (case ac_waitingRequest s of None \<Rightarrow> 0 | Some (_, c) \<Rightarrow> if aw_activation c = Some a then 1 else 0)"

lemma answered_simps [simp]:
  "answered a (emit x s) = answered a s + (if answers a x then 1 else 0)" "answered a (ac_activeController_update f s) = answered a s"
  "answered a (ac_currentAction_update g s) = answered a s" "answered a (ac_waitingRequest_update h s) = answered a s"
  "answered a (ac_shutdownRunning_update k s) = answered a s" "answered a (ac_timers_update l s) = answered a s"
  "answered a (ac_timesInvoked_update m s) = answered a s" "answered a (ac_loaderConnected_update n s) = answered a s"
  "answered a (ac_contexts_update p s) = answered a s" "answered a (ac_uiDomination_update q s) = answered a s"
  "answered a (ac_quit_update r s) = answered a s"
  by (simp_all add: answered_def)

lemma step_answers:
  assumes "app_inv s" "e \<noteq> ShutdownRequested"
  shows "answered a (app_step s e) + waits a (app_step s e) =
    answered a s + waits a s + (if e = AuthenticationRequested a then 1 else 0)"
  using assms
  by (cases e; cases "ac_activeController s"; cases "ac_waitingRequest s"; cases "ac_shutdownRunning s")
    (auto simp: app_inv_def app_ops waits_def answers_def split: option.splits)

lemma run_answers:
  "app_inv s \<Longrightarrow> ShutdownRequested \<notin> set evs \<Longrightarrow>
   answered a (run app_step s evs) + waits a (run app_step s evs) =
     answered a s + waits a s + length (filter (\<lambda>e. e = AuthenticationRequested a) evs)"
proof (induction evs arbitrary: s)
  case (Cons e evs)
  then show ?case
    using step_answers [of s e a] Cons.IH [OF app_step_inv [OF Cons.prems(1)], of e] by auto
qed simp

text \<open>
  C13. No caller is forgotten: as long as nobody shuts the application down, every request for an authentication
  starts its workflow, is told that another one is active, or is the one that waits, exactly one of the three
  and once for each request; and while a request waits a workflow runs, whose end starts it.
\<close>

theorem callers_are_not_forgotten:
  assumes "ShutdownRequested \<notin> set evs"
  shows "let s = run app_step AppController evs
    in length (filter (\<lambda>x. case x of FireWorkflowStarted c \<Rightarrow> aw_activation c = Some a | OperationAlreadyActive b \<Rightarrow> b = a | _ \<Rightarrow> False) (ac_signals s)) +
         (case ac_waitingRequest s of None \<Rightarrow> 0 | Some (_, c) \<Rightarrow> if aw_activation c = Some a then 1 else 0) =
       length (filter (\<lambda>e. e = AuthenticationRequested a) evs) \<and>
       (\<forall>action c. ac_waitingRequest s = Some (action, c) \<longrightarrow> ac_activeController s \<noteq> None \<and>
          ac_waitingRequest (app_step s WorkflowDone) = None \<and> ac_activeController (app_step s WorkflowDone) = Some c)"
proof -
  let ?s = "run app_step AppController evs"
  have "answered a AppController = 0" "waits a AppController = 0"
    by (simp_all add: answered_def waits_def AppController_def)
  then have "answered a ?s + waits a ?s = length (filter (\<lambda>e. e = AuthenticationRequested a) evs)"
    using run_answers [OF app_inv_start assms, of a] by simp
  moreover have "ac_activeController ?s \<noteq> None \<and> ac_waitingRequest (app_step ?s WorkflowDone) = None \<and>
      ac_activeController (app_step ?s WorkflowDone) = Some c" if "ac_waitingRequest ?s = Some (action, c)" for action c
    using app_run_inv [of evs] that by (auto simp: app_inv_def app_ops)
  ultimately show ?thesis
    unfolding Let_def answered_def waits_def answers_def by blast
qed

theorem callers_are_not_forgotten_witness:
  "let s = run app_step AppController [SelfAuthenticationRequested, AuthenticationRequested 7,
       ContextChanged False True GS_No_Error, AuthenticationRequested 8]
   in filter (\<lambda>x. case x of FireWorkflowStarted c \<Rightarrow> False | _ \<Rightarrow> True) (ac_signals s) = [OperationAlreadyActive 7] \<and>
      length (filter (\<lambda>x. case x of FireWorkflowStarted c \<Rightarrow> aw_activation c = Some 8 | OperationAlreadyActive b \<Rightarrow> b = 8 | _ \<Rightarrow> False) (ac_signals s)) +
         (case ac_waitingRequest s of None \<Rightarrow> 0 | Some (_, c) \<Rightarrow> if aw_activation c = Some 8 then 1 else 0) = 1"
  using callers_are_not_forgotten [of "[SelfAuthenticationRequested, AuthenticationRequested 7,
       ContextChanged False True GS_No_Error, AuthenticationRequested 8]" 8]
  by (simp add: run_def app_ops AppController_def emit_def)

section \<open>The shutdown\<close>

definition ending :: "app_controller \<Rightarrow> bool" where
  "ending s \<longleftrightarrow> UiLoaderShutdown \<in> set (ac_signals s) \<or> (ac_timers s > 0 \<and> ac_timesInvoked s < 60)"

definition shutting :: "app_controller \<Rightarrow> bool" where
  "shutting s \<longleftrightarrow> ac_shutdownRunning s \<and>
     (UiLoaderShutdown \<in> set (ac_signals s) \<or> (ac_timesInvoked s < 60 \<and> (ac_activeController s \<noteq> None \<or> ac_timers s > 0)))"

definition in_time :: "app_controller \<Rightarrow> bool" where
  "in_time s \<longleftrightarrow> UiLoaderShutdown \<in> set (ac_signals s) \<or> ac_timesInvoked s < 60"

lemma runWaitingRequest_simps [simp]:
  "ac_timers (runWaitingRequest s) = ac_timers s" "ac_timesInvoked (runWaitingRequest s) = ac_timesInvoked s"
  "ac_shutdownRunning (runWaitingRequest s) = ac_shutdownRunning s"
  "UiLoaderShutdown \<in> set (ac_signals (runWaitingRequest s)) \<longleftrightarrow> UiLoaderShutdown \<in> set (ac_signals s)"
  by (auto simp: runWaitingRequest_def startNewWorkflow_def split: option.splits)

lemmas shutdown_ops = startNewWorkflow_def completeShutdown_def onWorkflowFinished_def
  onChangePinRequested_def onSelfAuthenticationRequested_def onAuthenticationRequest_def onRemoteServiceRequested_def
  doShutdown_def shutdownTimeout_def onUILoaderShutdownComplete_def onUiDominationRequested_def onUiDominationRelease_def
  createContext_def Let_def

lemma in_time_step: "in_time s \<Longrightarrow> in_time (app_step s e)"
  by (cases e; cases "ac_activeController s")
    (auto simp: in_time_def shutdown_ops split: option.splits)

lemma shutting_step: "shutting s \<Longrightarrow> shutting (app_step s e)"
  by (cases e; cases "ac_activeController s")
    (auto simp: shutting_def shutdown_ops split: option.splits)

lemma ending_step: "ending s \<Longrightarrow> ending (app_step s e)"
  by (cases e; cases "ac_activeController s")
    (auto simp: ending_def shutdown_ops split: option.splits)

interpretation time: machine app_step in_time by unfold_locales (rule in_time_step)
interpretation shut: machine app_step shutting by unfold_locales (rule shutting_step)
interpretation ends: machine app_step ending by unfold_locales (rule ending_step)

definition isTimeout :: "app_event \<Rightarrow> bool" where
  "isTimeout e = (case e of ShutdownTimeout n \<Rightarrow> True | _ \<Rightarrow> False)"

definition left :: "app_controller \<Rightarrow> nat" where
  "left s = (if UiLoaderShutdown \<in> set (ac_signals s) then 0 else 60 - ac_timesInvoked s)"

lemma left_step:
  "ending s \<Longrightarrow> left (app_step s e) \<le> left s - (if isTimeout e then 1 else 0)"
  by (cases e; cases "ac_activeController s")
    (auto simp: ending_def left_def isTimeout_def shutdown_ops split: option.splits)

lemma left_run: "ending s \<Longrightarrow> left (run app_step s evs) \<le> left s - length (filter isTimeout evs)"
proof (induction evs arbitrary: s)
  case (Cons e evs)
  have "left (run app_step (app_step s e) evs) \<le> left (app_step s e) - length (filter isTimeout evs)"
    using Cons.IH [OF ending_step [OF Cons.prems]] .
  then show ?case using left_step [OF Cons.prems, of e] by (auto split: if_splits)
qed simp

lemma ended: "ending s \<Longrightarrow> 60 \<le> length (filter isTimeout evs) \<Longrightarrow> UiLoaderShutdown \<in> set (ac_signals (run app_step s evs))"
  using left_run [of s evs] ends.run_inv [of s evs] by (auto simp: ending_def left_def split: if_splits)

text \<open>
  Whoever asks for the shutdown gets it: from every state the user interface is told to hide and a running
  workflow is killed; when that workflow has reported its end, at most sixty timeouts later (three seconds) the
  user interface is shut down, whatever else happens meanwhile and however many connections stay open.
\<close>

theorem shutdown_is_completed:
  assumes "60 \<le> length (filter (\<lambda>e. case e of ShutdownTimeout n \<Rightarrow> True | _ \<Rightarrow> False) later)"
  shows "UiLoaderShutdown \<in> set (ac_signals (run app_step AppController (before @ [ShutdownRequested] @ meanwhile @ [WorkflowDone] @ later)))"
proof -
  let ?s = "run app_step AppController before"
  have "in_time ?s" by (rule time.run_inv) (simp add: in_time_def AppController_def)
  then have "shutting (app_step ?s ShutdownRequested)"
    by (auto simp: in_time_def shutting_def shutdown_ops split: option.splits)
  then have "shutting (run app_step (app_step ?s ShutdownRequested) meanwhile)" by (rule shut.run_inv)
  then have "ending (app_step (run app_step (app_step ?s ShutdownRequested) meanwhile) WorkflowDone)"
    by (auto simp: shutting_def ending_def shutdown_ops split: option.splits)
  then show ?thesis using ended [of _ later] assms unfolding isTimeout_def by simp
qed

theorem shutdown_is_completed_witness:
  "UiLoaderShutdown \<in> set (ac_signals (run app_step AppController
     ([ChangePinRequested] @ [ShutdownRequested] @ [] @ [WorkflowDone] @ replicate 60 (ShutdownTimeout 1))))"
  by (rule shutdown_is_completed) simp

text \<open>A request that waits when the shutdown begins is thrown away: its caller is never answered.\<close>

theorem waiting_caller_is_dropped:
  "let s = run app_step AppController [SelfAuthenticationRequested, ContextChanged False True GS_No_Error,
       AuthenticationRequested 8, ShutdownRequested]
   in ac_waitingRequest s = None \<and> \<not> (\<exists>x \<in> set (ac_signals s). answers 8 x)"
  by (simp add: run_def app_ops AppController_def emit_def answers_def)

text \<open>The shutdown does not keep later requests from starting a workflow, also one that was queued since.\<close>

theorem workflow_starts_during_shutdown:
  "let s = run app_step AppController [ChangePinRequested, ShutdownRequested, ChangePinRequested, WorkflowDone]
   in FireShutdown \<in> set (ac_signals s) \<and> ac_currentAction s = ACTION_PIN \<and> ac_activeController s \<noteq> None"
  by (simp add: run_def app_ops AppController_def emit_def)

end
