(* ===== verification/JsonApi.thy ===== *)
theory JsonApi
  imports PaceWorkflow AuthData RemoteMessages
begin

text \<open>
  The interface for other programs (src/src/ui/jsonapi, described in docs/sdk): MessageDispatcher.cpp,
  the handlers of its messages and UIPlugInJsonApi.cpp. A handler is the message that it builds, a
  command is the object that was read. The context of the workflow extends that of PaceWorkflow. A
  null pointer that is used is a flag. The key of an enumeration that is qualified by its class,
  which Qt reads as well, is left out.
\<close>

section \<open>Types\<close>

datatype MsgType =
    MT_INVALID | MT_UNKNOWN_COMMAND | MT_INTERNAL_ERROR | MT_INFO | MT_API_LEVEL | MT_READER | MT_READER_LIST
  | MT_BAD_STATE | MT_AUTH | MT_CERTIFICATE | MT_ACCESS_RIGHTS | MT_INSERT_CARD | MT_ENTER_PIN | MT_ENTER_CAN | MT_ENTER_PUK

fun MsgType_name :: "MsgType \<Rightarrow> string" where
  "MsgType_name MT_INVALID = ''INVALID''"
| "MsgType_name MT_UNKNOWN_COMMAND = ''UNKNOWN_COMMAND''"
| "MsgType_name MT_INTERNAL_ERROR = ''INTERNAL_ERROR''"
| "MsgType_name MT_INFO = ''INFO''"
| "MsgType_name MT_API_LEVEL = ''API_LEVEL''"
| "MsgType_name MT_READER = ''READER''"
| "MsgType_name MT_READER_LIST = ''READER_LIST''"
| "MsgType_name MT_BAD_STATE = ''BAD_STATE''"
| "MsgType_name MT_AUTH = ''AUTH''"
| "MsgType_name MT_CERTIFICATE = ''CERTIFICATE''"
| "MsgType_name MT_ACCESS_RIGHTS = ''ACCESS_RIGHTS''"
| "MsgType_name MT_INSERT_CARD = ''INSERT_CARD''"
| "MsgType_name MT_ENTER_PIN = ''ENTER_PIN''"
| "MsgType_name MT_ENTER_CAN = ''ENTER_CAN''"
| "MsgType_name MT_ENTER_PUK = ''ENTER_PUK''"

datatype MsgCmdType =
    MC_UNDEFINED | MC_ACCEPT | MC_CANCEL | MC_GET_INFO | MC_GET_API_LEVEL | MC_SET_API_LEVEL | MC_GET_READER
  | MC_GET_READER_LIST | MC_RUN_AUTH | MC_GET_CERTIFICATE | MC_GET_ACCESS_RIGHTS | MC_SET_ACCESS_RIGHTS
  | MC_SET_PIN | MC_SET_CAN | MC_SET_PUK

fun MsgCmdType_name :: "MsgCmdType \<Rightarrow> string" where
  "MsgCmdType_name MC_UNDEFINED = ''UNDEFINED''"
| "MsgCmdType_name MC_ACCEPT = ''ACCEPT''"
| "MsgCmdType_name MC_CANCEL = ''CANCEL''"
| "MsgCmdType_name MC_GET_INFO = ''GET_INFO''"
| "MsgCmdType_name MC_GET_API_LEVEL = ''GET_API_LEVEL''"
| "MsgCmdType_name MC_SET_API_LEVEL = ''SET_API_LEVEL''"
| "MsgCmdType_name MC_GET_READER = ''GET_READER''"
| "MsgCmdType_name MC_GET_READER_LIST = ''GET_READER_LIST''"
| "MsgCmdType_name MC_RUN_AUTH = ''RUN_AUTH''"
| "MsgCmdType_name MC_GET_CERTIFICATE = ''GET_CERTIFICATE''"
| "MsgCmdType_name MC_GET_ACCESS_RIGHTS = ''GET_ACCESS_RIGHTS''"
| "MsgCmdType_name MC_SET_ACCESS_RIGHTS = ''SET_ACCESS_RIGHTS''"
| "MsgCmdType_name MC_SET_PIN = ''SET_PIN''"
| "MsgCmdType_name MC_SET_CAN = ''SET_CAN''"
| "MsgCmdType_name MC_SET_PUK = ''SET_PUK''"

definition MsgCmdType_list :: "MsgCmdType list" where
  "MsgCmdType_list = [MC_UNDEFINED, MC_ACCEPT, MC_CANCEL, MC_GET_INFO, MC_GET_API_LEVEL, MC_SET_API_LEVEL, MC_GET_READER,
     MC_GET_READER_LIST, MC_RUN_AUTH, MC_GET_CERTIFICATE, MC_GET_ACCESS_RIGHTS, MC_SET_ACCESS_RIGHTS, MC_SET_PIN, MC_SET_CAN, MC_SET_PUK]"

text \<open>A text reaches Qt's enumerations as a C string, which ends at the first zero.\<close>

definition cString :: "string \<Rightarrow> string" where
  "cString s = takeWhile (\<lambda>c. c \<noteq> CHR 0x00) s"

definition MsgCmdType_fromString :: "string \<Rightarrow> MsgCmdType" where
  "MsgCmdType_fromString s =
    (case find (\<lambda>t. MsgCmdType_name t = cString s) MsgCmdType_list of None \<Rightarrow> MC_UNDEFINED | Some t \<Rightarrow> t)"

text \<open>\<open>AccessRightNames\<close>: the rights that have a technical name.\<close>

definition AccessRightNames :: "(AccessRight \<times> string) list" where
  "AccessRightNames =
    [(READ_DG20, ''ResidencePermitII''), (READ_DG19, ''ResidencePermitI''), (READ_DG18, ''CommunityID''), (READ_DG17, ''Address''),
     (READ_DG13, ''BirthName''), (READ_DG10, ''Nationality''), (READ_DG09, ''PlaceOfBirth''), (READ_DG08, ''DateOfBirth''),
     (READ_DG07, ''DoctoralDegree''), (READ_DG06, ''ArtisticName''), (READ_DG05, ''FamilyName''), (READ_DG04, ''GivenNames''),
     (READ_DG03, ''ValidUntil''), (READ_DG02, ''IssuingCountry''), (READ_DG01, ''DocumentType''),
     (RESTRICTED_IDENTIFICATION, ''Pseudonym''), (COMMUNITY_ID_VERIFICATION, ''AddressVerification''), (AGE_VERIFICATION, ''AgeVerification'')]"

definition toTechnicalName :: "AccessRight \<Rightarrow> string" where
  "toTechnicalName r = (case map_of AccessRightNames r of None \<Rightarrow> [] | Some n \<Rightarrow> n)"

definition fromTechnicalName :: "string \<Rightarrow> AccessRight option" where
  "fromTechnicalName s = map_option fst (find (\<lambda>(r, n). n = cString s) AccessRightNames)"

section \<open>Messages and context\<close>

record msg_handler =
  mh_type :: MsgType
  mh_void :: bool
  mh_json :: object

definition MsgHandler :: "MsgType \<Rightarrow> msg_handler" where
  "MsgHandler pType = \<lparr>mh_type = pType, mh_void = False, mh_json = [(''msg'', JString (MsgType_name pType))]\<rparr>"

definition MsgHandler_Void :: msg_handler where
  "MsgHandler_Void = (MsgHandler MT_INTERNAL_ERROR)\<lparr>mh_void := True\<rparr>"

definition setJson :: "string \<Rightarrow> json \<Rightarrow> msg_handler \<Rightarrow> msg_handler" where
  "setJson k v h = h\<lparr>mh_json := jput k v (mh_json h)\<rparr>"

definition setMsgValue :: "string \<Rightarrow> string \<Rightarrow> msg_handler \<Rightarrow> msg_handler" where
  "setMsgValue pKey pValue h = (if pValue \<noteq> [] then setJson pKey (JString pValue) h else h)"

definition setMsgError :: "string \<Rightarrow> msg_handler \<Rightarrow> msg_handler" where
  "setMsgError pError h = setJson ''error'' (JString pError) h"

definition setVoid :: "msg_handler \<Rightarrow> msg_handler" where
  "setVoid h = h\<lparr>mh_void := True\<rparr>"

definition setRequest :: "object \<Rightarrow> msg_handler \<Rightarrow> msg_handler" where
  "setRequest pRequest h = (case map_of pRequest ''request'' of None \<Rightarrow> h | Some v \<Rightarrow> setJson ''request'' v h)"

text \<open>What is sent; nothing for a void message.\<close>

definition getOutput :: "msg_handler \<Rightarrow> object option" where
  "getOutput h = (if mh_void h then None else Some (mh_json h))"

record certificate_texts =
  ct_subjectName :: string
  ct_subjectUrl :: string
  ct_issuerName :: string
  ct_issuerUrl :: string
  ct_termsOfUsage :: string
  ct_purpose :: string
  ct_effectiveDate :: string
  ct_expirationDate :: string

record api_workflow = workflow_context +
  jw_isAuth :: bool
  jw_approved :: bool
  jw_cancelled :: bool
  jw_rights :: auth_rights
  jw_eac1 :: "eac1_message option"
  jw_certificate :: certificate_texts
  jw_refreshUrl :: string
  jw_communicationErrorAddress :: "string option"

record msg_context =
  md_apiLevel :: int
  md_stateMessages :: "MsgType list"
  md_context :: "api_workflow option"
  md_requests :: "string list"
  md_nullUsed :: bool

definition MsgContext :: msg_context where
  "MsgContext = \<lparr>md_apiLevel = 1, md_stateMessages = [], md_context = None, md_requests = [], md_nullUsed = False\<rparr>"

definition getLastStateMsg :: "msg_context \<Rightarrow> MsgType" where
  "getLastStateMsg d = (if md_stateMessages d = [] then MT_INTERNAL_ERROR else last (md_stateMessages d))"

definition isActiveWorkflow :: "msg_context \<Rightarrow> bool" where
  "isActiveWorkflow d \<longleftrightarrow> md_context d \<noteq> None"

definition getAuthContext :: "msg_context \<Rightarrow> api_workflow option" where
  "getAuthContext d = (case md_context d of None \<Rightarrow> None | Some w \<Rightarrow> if jw_isAuth w then Some w else None)"

definition clearContext :: "msg_context \<Rightarrow> msg_context" where
  "clearContext d = d\<lparr>md_stateMessages := [], md_context := None\<rparr>"

definition nullUsed :: "msg_context \<Rightarrow> msg_context" where
  "nullUsed d = d\<lparr>md_nullUsed := True\<rparr>"

text \<open>Readers, the readers that are there, and what the libraries of texts, dates and URLs give.\<close>

record api_reader =
  ar_name :: string
  ar_connected :: bool
  ar_basicReader :: bool
  ar_card :: "unit card_info"

record api_env =
  ap_readerInfo :: "string \<Rightarrow> api_reader"
  ap_readerInfos :: "api_reader list"
  ap_versionInfo :: object
  ap_parse :: "string \<Rightarrow> string + json"
  ap_urlHost :: "string \<Rightarrow> string option"
  ap_percentEncoding :: "string \<Rightarrow> string"
  ap_isoDate :: "date option \<Rightarrow> string"
  ap_ageText :: "int option \<Rightarrow> string"
  ap_today :: "date option"
  ap_communityId :: "aux_data \<Rightarrow> string"
  ap_result :: "GlobalStatusCode \<Rightarrow> object"

section \<open>Handlers\<close>

definition MsgHandlerInvalid :: "string \<Rightarrow> msg_handler" where
  "MsgHandlerInvalid pError = setMsgValue ''error'' pError (MsgHandler MT_INVALID)"

definition MsgHandlerUnknownCommand :: "string \<Rightarrow> msg_handler" where
  "MsgHandlerUnknownCommand pName = setMsgValue ''error'' pName (MsgHandler MT_UNKNOWN_COMMAND)"

definition MsgHandlerInternalError :: "string \<Rightarrow> msg_handler" where
  "MsgHandlerInternalError pError = setMsgValue ''error'' pError (MsgHandler MT_INTERNAL_ERROR)"

definition MsgHandlerBadState :: "MsgCmdType \<Rightarrow> msg_handler" where
  "MsgHandlerBadState pType =
    (if pType \<noteq> MC_UNDEFINED then setMsgError (MsgCmdType_name pType) (MsgHandler MT_BAD_STATE) else MsgHandler MT_BAD_STATE)"

definition MsgHandlerInfo :: "api_env \<Rightarrow> msg_handler" where
  "MsgHandlerInfo E = setJson ''VersionInfo'' (JObject (ap_versionInfo E)) (MsgHandler MT_INFO)"

definition setReaderInfo :: "api_reader \<Rightarrow> object \<Rightarrow> object" where
  "setReaderInfo i obj =
    (let obj = jput ''attached'' (JBool (ar_connected i)) (jput ''name'' (JString (ar_name i)) obj)
     in if ar_connected i then
          jput ''card''
            (if isEid (ar_card i) then
               JObject (jput ''retryCounter'' (JNumber (Some (ci_retryCounter (ar_card i))))
                 (jput ''inoperative'' (JBool (ci_pukInoperative (ar_card i)))
                   (jput ''deactivated'' (JBool (ci_pinDeactivated (ar_card i))) [])))
             else JNull)
            (jput ''keypad'' (JBool (\<not> ar_basicReader i)) obj)
        else obj)"

definition createReaderInfo :: "api_reader \<Rightarrow> object" where
  "createReaderInfo i = setReaderInfo i []"

definition MsgHandlerReader_ofName :: "api_env \<Rightarrow> string \<Rightarrow> msg_handler" where
  "MsgHandlerReader_ofName E pName =
    (MsgHandler MT_READER)\<lparr>mh_json := setReaderInfo (ap_readerInfo E pName) (mh_json (MsgHandler MT_READER))\<rparr>"

definition MsgHandlerReader :: "api_env \<Rightarrow> object \<Rightarrow> msg_handler" where
  "MsgHandlerReader E pObj =
    (case map_of pObj ''name'' of
       None \<Rightarrow> setMsgError ''Name cannot be undefined'' (MsgHandler MT_READER)
     | Some (JString name) \<Rightarrow> MsgHandlerReader_ofName E name
     | _ \<Rightarrow> setMsgError ''Invalid name'' (MsgHandler MT_READER))"

definition MsgHandlerReaderList :: "api_env \<Rightarrow> msg_handler" where
  "MsgHandlerReaderList E =
    setJson ''reader'' (JArray (map (\<lambda>i. JObject (createReaderInfo i)) (ap_readerInfos E))) (MsgHandler MT_READER_LIST)"

definition MsgLevel_list :: "int list" where
  "MsgLevel_list = [1]"

definition MsgHandlerApiLevel :: "msg_context \<Rightarrow> msg_handler" where
  "MsgHandlerApiLevel d =
    setJson ''available'' (JArray (map (\<lambda>l. JNumber (Some l)) MsgLevel_list))
      (setJson ''current'' (JNumber (Some (md_apiLevel d))) (MsgHandler MT_API_LEVEL))"

definition MsgHandlerApiLevel_set :: "object \<Rightarrow> msg_context \<Rightarrow> msg_handler \<times> msg_context" where
  "MsgHandlerApiLevel_set pObj d =
    (let (h, d) =
       (case map_of pObj ''level'' of
          None \<Rightarrow> (setMsgError ''Level cannot be undefined'' (MsgHandler MT_API_LEVEL), d)
        | Some (JNumber n) \<Rightarrow>
           (if numberToInt n \<in> set MsgLevel_list then (MsgHandler MT_API_LEVEL, d\<lparr>md_apiLevel := numberToInt n\<rparr>)
            else (setMsgError ''Unknown level'' (MsgHandler MT_API_LEVEL), d))
        | _ \<Rightarrow> (setMsgError ''Invalid level'' (MsgHandler MT_API_LEVEL), d))
     in (setJson ''current'' (JNumber (Some (md_apiLevel d))) h, d))"


text \<open>
  \<open>MsgHandlerAuth\<close>: for the start, for the command and for the end. \<open>ap_urlHost\<close> gives the host of a
  valid URL. The authentication that is asked for is the dummy URL in \<open>md_requests\<close>.
\<close>

definition createAuthUrl :: "api_env \<Rightarrow> string \<Rightarrow> string option" where
  "createAuthUrl E pUrl =
    (case ap_urlHost E pUrl of
       None \<Rightarrow> None
     | Some h \<Rightarrow> if h = [] then None else Some (''http://localhost/?tcTokenURL='' @ ap_percentEncoding E pUrl))"

definition MsgHandlerAuth_run :: "api_env \<Rightarrow> object \<Rightarrow> msg_context \<Rightarrow> msg_handler \<times> msg_context" where
  "MsgHandlerAuth_run E pObj d =
    (case map_of pObj ''tcTokenURL'' of
       None \<Rightarrow> (setMsgError ''tcTokenURL cannot be undefined'' (MsgHandler MT_AUTH), d)
     | Some (JString s) \<Rightarrow>
        (case createAuthUrl E s of
           None \<Rightarrow> (setMsgError ''Validation of tcTokenURL failed'' (MsgHandler MT_AUTH), d)
         | Some url \<Rightarrow> (setVoid (MsgHandler MT_AUTH), d\<lparr>md_requests := md_requests d @ [url]\<rparr>))
     | _ \<Rightarrow> (setMsgError ''Invalid tcTokenURL'' (MsgHandler MT_AUTH), d))"

definition MsgHandlerAuth_end :: "api_env \<Rightarrow> api_workflow \<Rightarrow> msg_handler" where
  "MsgHandlerAuth_end E w =
    setMsgValue ''url''
      (if jw_refreshUrl w = [] then (case jw_communicationErrorAddress w of None \<Rightarrow> [] | Some u \<Rightarrow> u) else jw_refreshUrl w)
      (setJson ''result'' (JObject (ap_result E (wc_status w))) (MsgHandler MT_AUTH))"

text \<open>The passwords: \<open>$\<close> also matches before a line break at the end.\<close>

definition setReader :: "api_env \<Rightarrow> api_workflow \<Rightarrow> msg_handler \<Rightarrow> msg_handler" where
  "setReader E w h =
    (if wc_readerName w \<noteq> [] \<and> ar_connected (ap_readerInfo E (wc_readerName w))
     then setJson ''reader'' (JObject (createReaderInfo (ap_readerInfo E (wc_readerName w)))) h
     else h)"

definition isDigit :: "char \<Rightarrow> bool" where
  "isDigit c \<longleftrightarrow> of_char c \<in> {48 .. 57 :: nat}"

definition matchesDigits :: "nat \<Rightarrow> string \<Rightarrow> bool" where
  "matchesDigits n s \<longleftrightarrow>
    list_all isDigit (take n s) \<and> (length s = n \<or> (length s = n + 1 \<and> last s = CHR 0x0A))"

definition providedDigits :: "nat \<Rightarrow> string" where
  "providedDigits n = (if n = 10 then ''You must provide 10 digits'' else ''You must provide 6 digits'')"

text \<open>The value to set, or the error.\<close>

definition parseValue :: "api_env \<Rightarrow> object \<Rightarrow> api_workflow \<Rightarrow> nat \<Rightarrow> string + string" where
  "parseValue E pObj w pCount =
    (if wc_readerName w = [] then Inl ''No card inserted''
     else if ar_basicReader (ap_readerInfo E (wc_readerName w)) then
       (case map_of pObj ''value'' of
          None \<Rightarrow> Inl ''Value cannot be undefined''
        | Some (JString number) \<Rightarrow> if matchesDigits pCount number then Inr number else Inl (providedDigits pCount)
        | _ \<Rightarrow> Inl ''Invalid value'')
     else (case map_of pObj ''value'' of None \<Rightarrow> Inr [] | Some _ \<Rightarrow> Inl ''Value cannot be defined''))"

definition MsgHandlerEnterNumber :: "api_env \<Rightarrow> MsgType \<Rightarrow> msg_context \<Rightarrow> msg_handler \<times> msg_context" where
  "MsgHandlerEnterNumber E pType d =
    (case md_context d of
       None \<Rightarrow> (MsgHandler pType, nullUsed d)
     | Some w \<Rightarrow> (setReader E w (MsgHandler pType), d))"

definition setNumber ::
  "api_env \<Rightarrow> MsgType \<Rightarrow> nat \<Rightarrow> (string \<Rightarrow> api_workflow \<Rightarrow> api_workflow) \<Rightarrow> object \<Rightarrow> msg_context \<Rightarrow> msg_handler \<times> msg_context" where
  "setNumber E pType pCount setter pObj d =
    (let (h, d) = MsgHandlerEnterNumber E pType d
     in case md_context d of
          None \<Rightarrow> (h, nullUsed d)
        | Some w \<Rightarrow>
           (case parseValue E pObj w pCount of
              Inl pError \<Rightarrow> (setMsgError pError h, d)
            | Inr number \<Rightarrow> (setVoid h, d\<lparr>md_context := Some ((setter number w)\<lparr>jw_approved := True\<rparr>)\<rparr>)))"

definition MsgHandlerEnterPin :: "api_env \<Rightarrow> object \<Rightarrow> msg_context \<Rightarrow> msg_handler \<times> msg_context" where
  "MsgHandlerEnterPin E = setNumber E MT_ENTER_PIN 6 (\<lambda>n w. w\<lparr>wc_pin := n\<rparr>)"

definition MsgHandlerEnterCan :: "api_env \<Rightarrow> object \<Rightarrow> msg_context \<Rightarrow> msg_handler \<times> msg_context" where
  "MsgHandlerEnterCan E = setNumber E MT_ENTER_CAN 6 (\<lambda>n w. w\<lparr>wc_can := n\<rparr>)"

definition MsgHandlerEnterPuk :: "api_env \<Rightarrow> object \<Rightarrow> msg_context \<Rightarrow> msg_handler \<times> msg_context" where
  "MsgHandlerEnterPuk E = setNumber E MT_ENTER_PUK 10 (\<lambda>n w. w\<lparr>wc_puk := n\<rparr>)"

text \<open>The rights: in the order of falling values, which is that of \<open>allRights\<close>.\<close>

definition rightNames :: "AccessRight set \<Rightarrow> json" where
  "rightNames pRights =
    JArray (map JString (filter (\<lambda>n. n \<noteq> []) (map toTechnicalName (filter (\<lambda>r. r \<in> pRights) allRights))))"

definition getAuxiliaryData :: "api_env \<Rightarrow> eac1_message option \<Rightarrow> object" where
  "getAuxiliaryData E eac1 =
    (case eac1 of
       None \<Rightarrow> []
     | Some e \<Rightarrow>
        (case e1_auxiliaryData e of
           None \<Rightarrow> []
         | Some aux \<Rightarrow>
            (let obj = (if hasAgeVerificationDate aux then
                     jput ''requiredAge'' (JString (ap_ageText E (getRequiredAge (ap_today E) aux)))
                       (jput ''ageVerificationDate'' (JString (ap_isoDate E (getAgeVerificationDate aux))) []) else []);
                 obj = (if hasValidityDate aux then jput ''validityDate'' (JString (ap_isoDate E (getValidityDate aux))) obj else obj)
             in if hasCommunityID aux then jput ''communityId'' (JString (ap_communityId E aux)) obj else obj)))"

definition fillAccessRights :: "api_env \<Rightarrow> api_workflow \<Rightarrow> msg_handler \<Rightarrow> msg_handler" where
  "fillAccessRights E w h =
    (let chat = jput ''effective'' (rightNames (ax_effective (jw_rights w)))
                  (jput ''optional'' (rightNames (ax_optional (jw_rights w)))
                    (jput ''required'' (rightNames (ax_required (jw_rights w))) []));
         h = setJson ''chat'' (JObject chat) h;
         h = setMsgValue ''transactionInfo'' (case jw_eac1 w of None \<Rightarrow> [] | Some e \<Rightarrow> e1_transactionInfo e) h;
         aux = getAuxiliaryData E (jw_eac1 w)
     in if aux \<noteq> [] then setJson ''aux'' (JObject aux) h else h)"

text \<open>A message about the rights uses the context of an authentication and its EAC1.\<close>

definition withRights :: "(api_workflow \<Rightarrow> msg_handler \<times> msg_context) \<Rightarrow> MsgType \<Rightarrow> msg_context \<Rightarrow> msg_handler \<times> msg_context" where
  "withRights f pType d =
    (case getAuthContext d of
       None \<Rightarrow> (MsgHandler pType, nullUsed d)
     | Some w \<Rightarrow> if jw_eac1 w = None then (MsgHandler pType, nullUsed d) else f w)"

definition MsgHandlerAccessRights :: "api_env \<Rightarrow> msg_context \<Rightarrow> msg_handler \<times> msg_context" where
  "MsgHandlerAccessRights E d = withRights (\<lambda>w. (fillAccessRights E w (MsgHandler MT_ACCESS_RIGHTS), d)) MT_ACCESS_RIGHTS d"

text \<open>The entries one after the other: the rights so far and the last error.\<close>

fun chatEntries :: "AccessRight set \<Rightarrow> json list \<Rightarrow> AccessRight list \<Rightarrow> string option \<Rightarrow> AccessRight list \<times> string option" where
  "chatEntries optional [] rights err = (rights, err)"
| "chatEntries optional (JString s # es) rights err =
    (case fromTechnicalName s of
       None \<Rightarrow> chatEntries optional es rights (Some ''Entry in 'chat' data is invalid'')
     | Some r \<Rightarrow>
        if r \<in> optional then chatEntries optional es (rights @ [r]) err
        else chatEntries optional es rights (Some ''Entry in 'chat' data is not available''))"
| "chatEntries optional (e # es) rights err = chatEntries optional es rights (Some ''Entry in 'chat' data needs to be string'')"

definition handleSetChatData :: "json list \<Rightarrow> api_workflow \<Rightarrow> string option \<times> api_workflow" where
  "handleSetChatData pChat w =
    (let (effectiveChat, err) =
       (if ax_optional (jw_rights w) \<noteq> {} then chatEntries (ax_optional (jw_rights w)) pChat [] None
        else ([], Some ''No optional access rights available''))
     in (err, if err = None then w\<lparr>jw_rights := snd (setEffectiveAccessRights effectiveChat (jw_rights w))\<rparr> else w))"

definition MsgHandlerAccessRights_set :: "api_env \<Rightarrow> object \<Rightarrow> msg_context \<Rightarrow> msg_handler \<times> msg_context" where
  "MsgHandlerAccessRights_set E pObj d =
    withRights (\<lambda>w.
      let (err, w) = (case map_of pObj ''chat'' of
                    None \<Rightarrow> (Some '''chat' cannot be undefined'', w)
                  | Some (JArray es) \<Rightarrow> handleSetChatData es w
                  | _ \<Rightarrow> (Some ''Invalid 'chat' data'', w));
          h = (case err of None \<Rightarrow> MsgHandler MT_ACCESS_RIGHTS | Some e \<Rightarrow> setMsgError e (MsgHandler MT_ACCESS_RIGHTS))
      in (fillAccessRights E w h, d\<lparr>md_context := Some w\<rparr>)) MT_ACCESS_RIGHTS d"

definition MsgHandlerCertificate :: "msg_context \<Rightarrow> msg_handler \<times> msg_context" where
  "MsgHandlerCertificate d =
    withRights (\<lambda>w.
      let t = jw_certificate w;
          desc = foldl (\<lambda>obj (k, v). jput k (JString v) obj) []
            [(''subjectName'', ct_subjectName t), (''subjectUrl'', ct_subjectUrl t), (''issuerName'', ct_issuerName t),
             (''issuerUrl'', ct_issuerUrl t), (''termsOfUsage'', ct_termsOfUsage t), (''purpose'', ct_purpose t)];
          validity = foldl (\<lambda>obj (k, v). jput k (JString v) obj) []
            [(''effectiveDate'', ct_effectiveDate t), (''expirationDate'', ct_expirationDate t)]
      in (setJson ''validity'' (JObject validity) (setJson ''description'' (JObject desc) (MsgHandler MT_CERTIFICATE)), d))
      MT_CERTIFICATE d"

text \<open>The approval of a state.\<close>

definition approveState :: "msg_context \<Rightarrow> msg_context" where
  "approveState d =
    (case md_context d of None \<Rightarrow> nullUsed d | Some w \<Rightarrow> d\<lparr>md_context := Some (w\<lparr>jw_approved := True\<rparr>)\<rparr>)"

definition MsgHandlerInsertCard :: "api_env \<Rightarrow> msg_context \<Rightarrow> msg_handler \<times> msg_context" where
  "MsgHandlerInsertCard E d =
    (if list_ex (\<lambda>i. isEid (ar_card i)) (ap_readerInfos E) then setVoid (MsgHandler MT_INSERT_CARD) else MsgHandler MT_INSERT_CARD,
     approveState d)"

section \<open>The dispatcher\<close>

definition getStateMsgType :: "string \<Rightarrow> PacePasswordId \<Rightarrow> MsgType" where
  "getStateMsgType pState pPasswordId =
    (if pState = ''StateEnterPacePassword'' then
       (if pPasswordId = PACE_PIN then MT_ENTER_PIN
        else if pPasswordId = PACE_CAN then MT_ENTER_CAN
        else if pPasswordId = PACE_PUK then MT_ENTER_PUK
        else MT_INTERNAL_ERROR)
     else if pState = ''StateEditAccessRights'' then MT_ACCESS_RIGHTS
     else if pState = ''StateSelectReader'' then MT_INSERT_CARD
     else MT_INTERNAL_ERROR)"

definition createForStateChange :: "api_env \<Rightarrow> MsgType \<Rightarrow> msg_context \<Rightarrow> msg_handler \<times> msg_context" where
  "createForStateChange E pStateType d =
    (case pStateType of
       MT_ENTER_PIN \<Rightarrow> MsgHandlerEnterNumber E MT_ENTER_PIN d
     | MT_ENTER_CAN \<Rightarrow> MsgHandlerEnterNumber E MT_ENTER_CAN d
     | MT_ENTER_PUK \<Rightarrow> MsgHandlerEnterNumber E MT_ENTER_PUK d
     | MT_ACCESS_RIGHTS \<Rightarrow> MsgHandlerAccessRights E d
     | MT_INSERT_CARD \<Rightarrow> MsgHandlerInsertCard E d
     | _ \<Rightarrow> (MsgHandler_Void, approveState d))"

definition addStateMsg :: "MsgType \<Rightarrow> msg_context \<Rightarrow> msg_context" where
  "addStateMsg pMsgType d = d\<lparr>md_stateMessages := md_stateMessages d @ [pMsgType]\<rparr>"

definition processStateChange :: "api_env \<Rightarrow> string \<Rightarrow> msg_context \<Rightarrow> object option \<times> msg_context" where
  "processStateChange E pState d =
    (case md_context d of
       None \<Rightarrow> (getOutput (MsgHandlerInternalError ''Unexpected condition''), d)
     | Some w \<Rightarrow>
        if pState = [] then (getOutput (MsgHandlerInternalError ''Unexpected condition''), d)
        else
          let (h, d) = createForStateChange E (getStateMsgType pState (wc_establishPaceChannelType w)) d
          in (getOutput h, addStateMsg (mh_type h) d))"

definition handleCurrentState ::
  "MsgCmdType \<Rightarrow> MsgType \<Rightarrow> (msg_context \<Rightarrow> msg_handler \<times> msg_context) \<Rightarrow> msg_context \<Rightarrow> msg_handler \<times> msg_context" where
  "handleCurrentState pCmdType pMsgType pFunc d =
    (if getLastStateMsg d = pMsgType then pFunc d else (MsgHandlerBadState pCmdType, d))"

definition cancelCommand :: "msg_context \<Rightarrow> msg_handler \<times> msg_context" where
  "cancelCommand d =
    (case md_context d of
       Some w \<Rightarrow> (MsgHandler_Void, d\<lparr>md_context := Some (w\<lparr>jw_cancelled := True\<rparr>)\<rparr>)
     | None \<Rightarrow> (MsgHandlerBadState MC_CANCEL, d))"

definition acceptCommand :: "msg_context \<Rightarrow> msg_handler \<times> msg_context" where
  "acceptCommand d =
    (if getLastStateMsg d = MT_ACCESS_RIGHTS then (MsgHandler_Void, approveState d) else (MsgHandlerBadState MC_ACCEPT, d))"

definition createForCommand :: "api_env \<Rightarrow> object \<Rightarrow> msg_context \<Rightarrow> msg_handler \<times> msg_context" where
  "createForCommand E pObj d =
    (let cmd = (case map_of pObj ''cmd'' of Some (JString s) \<Rightarrow> s | _ \<Rightarrow> [])
     in if cmd = [] then (MsgHandlerInvalid ''Command cannot be undefined'', d)
     else
       let requestType = MsgCmdType_fromString cmd
       in case requestType of
            MC_UNDEFINED \<Rightarrow> (MsgHandlerUnknownCommand cmd, d)
          | MC_CANCEL \<Rightarrow> cancelCommand d
          | MC_ACCEPT \<Rightarrow> acceptCommand d
          | MC_GET_API_LEVEL \<Rightarrow> (MsgHandlerApiLevel d, d)
          | MC_SET_API_LEVEL \<Rightarrow> MsgHandlerApiLevel_set pObj d
          | MC_GET_READER \<Rightarrow> (MsgHandlerReader E pObj, d)
          | MC_GET_READER_LIST \<Rightarrow> (MsgHandlerReaderList E, d)
          | MC_GET_INFO \<Rightarrow> (MsgHandlerInfo E, d)
          | MC_RUN_AUTH \<Rightarrow> if isActiveWorkflow d then (MsgHandlerBadState requestType, d) else MsgHandlerAuth_run E pObj d
          | MC_GET_CERTIFICATE \<Rightarrow> handleCurrentState requestType MT_ACCESS_RIGHTS MsgHandlerCertificate d
          | MC_SET_PIN \<Rightarrow> handleCurrentState requestType MT_ENTER_PIN (MsgHandlerEnterPin E pObj) d
          | MC_SET_CAN \<Rightarrow> handleCurrentState requestType MT_ENTER_CAN (MsgHandlerEnterCan E pObj) d
          | MC_SET_PUK \<Rightarrow> handleCurrentState requestType MT_ENTER_PUK (MsgHandlerEnterPuk E pObj) d
          | MC_GET_ACCESS_RIGHTS \<Rightarrow> handleCurrentState requestType MT_ACCESS_RIGHTS (MsgHandlerAccessRights E) d
          | MC_SET_ACCESS_RIGHTS \<Rightarrow> handleCurrentState requestType MT_ACCESS_RIGHTS (MsgHandlerAccessRights_set E pObj) d)"

definition processCommand :: "api_env \<Rightarrow> string \<Rightarrow> msg_context \<Rightarrow> object option \<times> msg_context" where
  "processCommand E pMsg d =
    (case ap_parse E pMsg of
       Inl pError \<Rightarrow> (getOutput (MsgHandlerInvalid pError), d)
     | Inr json \<Rightarrow>
        let obj = (case json of JObject ob \<Rightarrow> ob | _ \<Rightarrow> []); (h, d) = createForCommand E obj d
        in (getOutput (setRequest obj h), d))"

definition initDispatcher :: "api_workflow \<Rightarrow> msg_context \<Rightarrow> object option \<times> msg_context" where
  "initDispatcher w d =
    (let d = (clearContext d)\<lparr>md_context := Some w\<rparr>
     in (if getAuthContext d \<noteq> None then getOutput (MsgHandler MT_AUTH) else None, d))"

definition finishDispatcher :: "api_env \<Rightarrow> msg_context \<Rightarrow> object option \<times> msg_context" where
  "finishDispatcher E d =
    (case getAuthContext d of Some w \<Rightarrow> getOutput (MsgHandlerAuth_end E w) | None \<Rightarrow> None, clearContext d)"

section \<open>The plug-in\<close>

record json_api =
  ja_enabled :: bool
  ja_connected :: bool
  ja_dispatcher :: msg_context
  ja_fired :: "object list"

definition UIPlugInJsonApi :: json_api where
  "UIPlugInJsonApi = \<lparr>ja_enabled = False, ja_connected = False, ja_dispatcher = MsgContext, ja_fired = []\<rparr>"

definition callFireMessage :: "object option \<times> msg_context \<Rightarrow> json_api \<Rightarrow> json_api" where
  "callFireMessage pMsg a =
    a\<lparr>ja_dispatcher := snd pMsg, ja_fired := ja_fired a @ (case fst pMsg of None \<Rightarrow> [] | Some m \<Rightarrow> [m])\<rparr>"

text \<open>
  \<open>ja_connected\<close>: the state changes of the context are connected. The workflow changes its own context
  meanwhile (\<open>WorkflowChanges\<close>).
\<close>

datatype api_event =
    SetEnabled bool
  | WorkflowStarts api_workflow
  | WorkflowFinishes
  | StateChanges string
  | WorkflowChanges api_workflow
  | ReaderChanges string
  | MessageArrives string

fun api_step :: "api_env \<Rightarrow> json_api \<Rightarrow> api_event \<Rightarrow> json_api" where
  "api_step E a (SetEnabled pEnable) = a\<lparr>ja_enabled := pEnable\<rparr>"
| "api_step E a (WorkflowStarts w) =
    (if \<not> ja_enabled a then a
     else (callFireMessage (initDispatcher w (ja_dispatcher a)) a)\<lparr>ja_connected := jw_isAuth w\<rparr>)"
| "api_step E a WorkflowFinishes =
    (if \<not> ja_enabled a then a\<lparr>ja_dispatcher := clearContext (ja_dispatcher a), ja_connected := False\<rparr>
     else (callFireMessage (finishDispatcher E (ja_dispatcher a)) a)\<lparr>ja_connected := False\<rparr>)"
| "api_step E a (StateChanges s) =
    (if ja_connected a then callFireMessage (processStateChange E s (ja_dispatcher a)) a else a)"
| "api_step E a (WorkflowChanges w) =
    (if md_context (ja_dispatcher a) = None then a
     else a\<lparr>ja_dispatcher := (ja_dispatcher a)\<lparr>md_context := Some w\<rparr>\<rparr>)"
| "api_step E a (ReaderChanges pName) =
    (if ja_enabled a then callFireMessage (getOutput (MsgHandlerReader_ofName E pName), ja_dispatcher a) a else a)"
| "api_step E a (MessageArrives pMsg) =
    (if ja_enabled a then callFireMessage (processCommand E pMsg (ja_dispatcher a)) a else a)"


section \<open>What a command can do\<close>

lemma handler_simps [simp]:
  "mh_void (MsgHandler t) = False" "mh_void MsgHandler_Void = True" "mh_void (setVoid h) = True"
  "mh_void (setJson k v h) = mh_void h" "mh_void (setMsgValue k' x h) = mh_void h" "mh_void (setMsgError e h) = mh_void h"
  "mh_void (setReader E w h) = mh_void h"
  "mh_json (MsgHandler t) = [(''msg'', JString (MsgType_name t))]" "mh_json (setVoid h) = mh_json h"
  "mh_json (setJson k v h) = jput k v (mh_json h)" "mh_json (setMsgError e h) = jput ''error'' (JString e) (mh_json h)"
  by (simp_all add: MsgHandler_def MsgHandler_Void_def setVoid_def setJson_def setMsgValue_def setMsgError_def setReader_def)

definition isNumber :: "nat \<Rightarrow> string \<Rightarrow> bool" where
  "isNumber n s \<longleftrightarrow> length s = n \<and> set s \<subseteq> set ''0123456789''"

definition accepted :: "api_env \<Rightarrow> api_workflow \<Rightarrow> nat \<Rightarrow> string \<Rightarrow> bool" where
  "accepted E w n number \<longleftrightarrow> wc_readerName w \<noteq> [] \<and>
     (if ar_basicReader (ap_readerInfo E (wc_readerName w))
      then isNumber n number \<or> (\<exists>s. isNumber n s \<and> number = s @ [CHR 0x0A]) else number = [])"

lemma isDigit_set: "isDigit c \<longleftrightarrow> c \<in> set ''0123456789''"
proof
  assume "isDigit c"
  moreover have "{48 .. 57} = {48, 49, 50, 51, 52, 53, 54, 55, 56, 57 :: nat}" unfolding set_eq_iff by simp presburger
  ultimately have "of_char c \<in> {48, 49, 50, 51, 52, 53, 54, 55, 56, 57 :: nat}" by (simp only: isDigit_def)
  then have "char_of (of_char c :: nat) \<in> set (map (char_of :: nat \<Rightarrow> char) [48, 49, 50, 51, 52, 53, 54, 55, 56, 57])"
    unfolding set_map by (intro imageI) simp
  moreover have "map (char_of :: nat \<Rightarrow> char) [48, 49, 50, 51, 52, 53, 54, 55, 56, 57] = ''0123456789''" by code_simp
  ultimately show "c \<in> set ''0123456789''" by (simp only: char_of_char)
qed (auto simp: isDigit_def)

lemma matchesDigits_number:
  assumes "matchesDigits n s"
  shows "isNumber n s \<or> (\<exists>t. isNumber n t \<and> s = t @ [CHR 0x0A])"
proof (cases "length s = n")
  case True
  then show ?thesis using assms by (auto simp: matchesDigits_def isNumber_def list_all_iff isDigit_set)
next
  case False
  then have s: "length s = n + 1" "last s = CHR 0x0A" "list_all isDigit (take n s)"
    using assms by (auto simp: matchesDigits_def)
  then obtain t where "s = t @ [CHR 0x0A]" by (cases s rule: rev_cases) simp_all
  then show ?thesis using s by (simp add: isNumber_def list_all_iff isDigit_set subset_iff)
qed

lemma parseValue_accepted: "parseValue E pObj w n = Inr number \<Longrightarrow> accepted E w n number"
  by (auto simp: parseValue_def accepted_def dest: matchesDigits_number split: if_splits option.splits json.splits)

lemma chatEntries_optional:
  "chatEntries optional es rights err = (rights', err') \<Longrightarrow> set rights \<subseteq> optional \<Longrightarrow> set rights' \<subseteq> optional"
  by (induction optional es rights err arbitrary: rights' err' rule: chatEntries.induct)
    (auto split: option.splits if_splits)

lemma handleSetChatData_changes:
  assumes "handleSetChatData es w = (err, w')"
  shows "w' = w \<or> (\<exists>rs. set rs \<subseteq> ax_optional (jw_rights w) \<and> w' = w\<lparr>jw_rights := snd (setEffectiveAccessRights rs (jw_rights w))\<rparr>)"
proof -
  obtain rs e where r: "(if ax_optional (jw_rights w) \<noteq> {} then chatEntries (ax_optional (jw_rights w)) es [] None
      else ([], Some ''No optional access rights available'')) = (rs, e)"
    by (rule prod.exhaust)
  then have "set rs \<subseteq> ax_optional (jw_rights w)"
    using chatEntries_optional [of "ax_optional (jw_rights w)" es "[]" None rs e] by (auto split: if_splits)
  moreover have "w' = (if e = None then w\<lparr>jw_rights := snd (setEffectiveAccessRights rs (jw_rights w))\<rparr> else w)"
    using assms unfolding handleSetChatData_def r Let_def by (auto split: if_splits)
  ultimately show ?thesis by auto
qed

lemma AccessRights_set_changes:
  assumes "MsgHandlerAccessRights_set E pObj d = (h, d')"
  shows "d' = nullUsed d \<or> (\<exists>w. md_context d = Some w \<and> (d' = d\<lparr>md_context := Some w\<rparr> \<or>
    (\<exists>rs. set rs \<subseteq> ax_optional (jw_rights w) \<and> d' = d\<lparr>md_context := Some (w\<lparr>jw_rights := snd (setEffectiveAccessRights rs (jw_rights w))\<rparr>)\<rparr>)))"
proof (cases "getAuthContext d")
  case None
  then show ?thesis using assms by (simp add: MsgHandlerAccessRights_set_def withRights_def)
next
  case (Some w)
  have w: "md_context d = Some w" using Some by (simp add: getAuthContext_def split: option.splits if_splits)
  obtain err w' where c: "(case map_of pObj ''chat'' of None \<Rightarrow> (Some '''chat' cannot be undefined'', w)
      | Some (JArray es) \<Rightarrow> handleSetChatData es w | _ \<Rightarrow> (Some ''Invalid 'chat' data'', w)) = (err, w')"
    by (metis surjective_pairing)
  have "w' = w \<or> (\<exists>rs. set rs \<subseteq> ax_optional (jw_rights w) \<and> w' = w\<lparr>jw_rights := snd (setEffectiveAccessRights rs (jw_rights w))\<rparr>)"
    using c handleSetChatData_changes by (fastforce split: option.splits json.splits)
  moreover have "d' = nullUsed d \<or> d' = d\<lparr>md_context := Some w'\<rparr>"
    using assms Some c by (simp add: MsgHandlerAccessRights_set_def withRights_def Let_def split: if_splits)
  ultimately show ?thesis using w by blast
qed

lemma nullUsed_simps [simp]: "md_context (nullUsed d) = md_context d" "md_requests (nullUsed d) = md_requests d"
  by (simp_all add: nullUsed_def)

lemma setNumber_changes:
  assumes "setNumber E t n setter pObj d = (h, d')"
  shows "(md_context d' = md_context d \<and> (mh_void h \<longrightarrow> False)) \<or>
    (\<exists>w number. md_context d = Some w \<and> accepted E w n number \<and> mh_void h \<and> md_context d' = Some ((setter number w)\<lparr>jw_approved := True\<rparr>))"
  using assms parseValue_accepted
  by (fastforce simp: setNumber_def MsgHandlerEnterNumber_def split: option.splits sum.splits)

lemma setNumber_requests: "setNumber E t n setter pObj d = (h, d') \<Longrightarrow> md_requests d' = md_requests d"
  by (auto simp: setNumber_def MsgHandlerEnterNumber_def split: option.splits sum.splits)

lemma same_context: "MsgHandlerApiLevel_set pObj d = (h, d') \<Longrightarrow> md_context d' = md_context d"
  "MsgHandlerAuth_run E pObj d = (h, d') \<Longrightarrow> md_context d' = md_context d"
  "MsgHandlerAccessRights E d = (h, d') \<Longrightarrow> md_context d' = md_context d"
  "MsgHandlerCertificate d = (h, d') \<Longrightarrow> md_context d' = md_context d"
  by (auto simp: MsgHandlerApiLevel_set_def MsgHandlerAuth_run_def MsgHandlerAccessRights_def MsgHandlerCertificate_def
      withRights_def Let_def split: option.splits json.splits if_splits)

text \<open>
  C14. Another program controls a workflow only where it was asked to: a command changes the workflow only by
  cancelling it, or, when the rights were shown last, by accepting them or choosing among the optional ones, or,
  when a password was asked for last, by setting exactly this password, of a reader that is there; no command sets
  a password that was not asked for. The value is a number of six or, for the PUK, ten of the digits 0 to 9 for a basic reader, and empty for
  a reader with a keypad. The documentation stops there; the code also takes one line break after the digits
  (\<open>pin_with_line_break_is_set\<close>), which \<open>accepted\<close> names as the one exception.
\<close>

theorem api_command_is_guarded:
  assumes "createForCommand E pObj d = (h, d')" "md_context d' \<noteq> md_context d"
  shows "\<exists>w. md_context d = Some w \<and>
    (md_context d' = Some (w\<lparr>jw_cancelled := True\<rparr>) \<or>
     getLastStateMsg d = MT_ACCESS_RIGHTS \<and> md_context d' = Some (w\<lparr>jw_approved := True\<rparr>) \<or>
     getLastStateMsg d = MT_ACCESS_RIGHTS \<and> (\<exists>rs. set rs \<subseteq> ax_optional (jw_rights w) \<and>
       md_context d' = Some (w\<lparr>jw_rights := snd (setEffectiveAccessRights rs (jw_rights w))\<rparr>)) \<or>
     (\<exists>n. getLastStateMsg d = MT_ENTER_PIN \<and> accepted E w 6 n \<and> md_context d' = Some (w\<lparr>wc_pin := n, jw_approved := True\<rparr>)) \<or>
     (\<exists>n. getLastStateMsg d = MT_ENTER_CAN \<and> accepted E w 6 n \<and> md_context d' = Some (w\<lparr>wc_can := n, jw_approved := True\<rparr>)) \<or>
     (\<exists>n. getLastStateMsg d = MT_ENTER_PUK \<and> accepted E w 10 n \<and> md_context d' = Some (w\<lparr>wc_puk := n, jw_approved := True\<rparr>)))"
proof -
  let ?t = "MsgCmdType_fromString (case map_of pObj ''cmd'' of Some (JString s) \<Rightarrow> s | _ \<Rightarrow> [])"
  show ?thesis
  proof (cases ?t)
    case MC_SET_PIN
    then show ?thesis
      using assms setNumber_changes [of E MT_ENTER_PIN 6 "\<lambda>n w. w\<lparr>wc_pin := n\<rparr>" pObj d h d']
      unfolding createForCommand_def Let_def handleCurrentState_def MsgHandlerEnterPin_def by (auto split: if_splits)
  next
    case MC_SET_CAN
    then show ?thesis
      using assms setNumber_changes [of E MT_ENTER_CAN 6 "\<lambda>n w. w\<lparr>wc_can := n\<rparr>" pObj d h d']
      unfolding createForCommand_def Let_def handleCurrentState_def MsgHandlerEnterCan_def by (auto split: if_splits)
  next
    case MC_SET_PUK
    then show ?thesis
      using assms setNumber_changes [of E MT_ENTER_PUK 10 "\<lambda>n w. w\<lparr>wc_puk := n\<rparr>" pObj d h d']
      unfolding createForCommand_def Let_def handleCurrentState_def MsgHandlerEnterPuk_def by (auto split: if_splits)
  next
    case MC_SET_ACCESS_RIGHTS
    then have "getLastStateMsg d = MT_ACCESS_RIGHTS" and "MsgHandlerAccessRights_set E pObj d = (h, d')"
      using assms unfolding createForCommand_def Let_def handleCurrentState_def by (auto split: if_splits)
    moreover have "d' \<noteq> nullUsed d" "\<And>w. md_context d = Some w \<Longrightarrow> d' \<noteq> d\<lparr>md_context := Some w\<rparr>"
      using assms(2) by auto
    ultimately obtain w rs where "md_context d = Some w" "set rs \<subseteq> ax_optional (jw_rights w)"
        "d' = d\<lparr>md_context := Some (w\<lparr>jw_rights := snd (setEffectiveAccessRights rs (jw_rights w))\<rparr>)\<rparr>"
      using AccessRights_set_changes [of E pObj d h d'] by blast
    then have "md_context d' = Some (w\<lparr>jw_rights := snd (setEffectiveAccessRights rs (jw_rights w))\<rparr>)" by simp
    with \<open>getLastStateMsg d = MT_ACCESS_RIGHTS\<close> \<open>md_context d = Some w\<close> \<open>set rs \<subseteq> ax_optional (jw_rights w)\<close>
    show ?thesis by blast
  next
    case MC_CANCEL
    then have "cancelCommand d = (h, d')"
      using assms unfolding createForCommand_def Let_def by (auto split: if_splits)
    then obtain w where "md_context d = Some w" "md_context d' = Some (w\<lparr>jw_cancelled := True\<rparr>)"
      using assms(2) unfolding cancelCommand_def by (auto split: option.splits)
    then show ?thesis by blast
  next
    case MC_ACCEPT
    then have "acceptCommand d = (h, d')"
      using assms unfolding createForCommand_def Let_def by (auto split: if_splits)
    then obtain w where "getLastStateMsg d = MT_ACCESS_RIGHTS" "md_context d = Some w" "md_context d' = Some (w\<lparr>jw_approved := True\<rparr>)"
      using assms(2) unfolding acceptCommand_def approveState_def by (auto split: option.splits if_splits)
    then show ?thesis by blast
  qed (use assms same_context in \<open>auto simp: createForCommand_def Let_def handleCurrentState_def split: if_splits\<close>)
qed

section \<open>Every command is answered\<close>

definition named :: "msg_handler \<Rightarrow> bool" where
  "named h \<longleftrightarrow> (\<exists>t. map_of (mh_json h) ''msg'' = Some (JString (MsgType_name t))) \<and> map_of (mh_json h) ''request'' = None"

lemma MsgType_name_ex [simp]: "\<exists>t. ''READER'' = MsgType_name t" "\<exists>t. ''INTERNAL_ERROR'' = MsgType_name t"
  by (rule exI [of _ MT_READER], simp) (rule exI [of _ MT_INTERNAL_ERROR], simp)

lemma named_intros [intro, simp]:
  "named (MsgHandler t)" "named (setVoid h) = named h" "named h \<Longrightarrow> named (setMsgError e h)"
  "named h \<Longrightarrow> k \<noteq> ''msg'' \<Longrightarrow> k \<noteq> ''request'' \<Longrightarrow> named (setJson k v h)"
  "named h \<Longrightarrow> k \<noteq> ''msg'' \<Longrightarrow> k \<noteq> ''request'' \<Longrightarrow> named (setMsgValue k x h)"
  "named h \<Longrightarrow> named (setReader E w h)" "named MsgHandler_Void"
  by (auto simp: named_def setMsgValue_def setReader_def MsgHandler_Void_def)

lemma named_fill [intro, simp]: "named h \<Longrightarrow> named (fillAccessRights E w h)"
  by (simp add: fillAccessRights_def Let_def)

lemma void_fill [simp]: "mh_void (fillAccessRights E w h) = mh_void h"
  by (simp add: fillAccessRights_def Let_def)

lemma named_handlers [intro, simp]:
  "named (MsgHandlerInvalid e)" "named (MsgHandlerUnknownCommand n)" "named (MsgHandlerBadState c)" "named (MsgHandlerInfo E)"
  "named (MsgHandlerReader_ofName E n)" "named (MsgHandlerReaderList E)" "named (MsgHandlerApiLevel d)" "named (MsgHandlerInternalError e)"
  by (simp_all add: MsgHandlerInvalid_def MsgHandlerUnknownCommand_def MsgHandlerBadState_def MsgHandlerInfo_def
      MsgHandlerReaderList_def MsgHandlerApiLevel_def MsgHandlerInternalError_def)
    (simp add: named_def MsgHandlerReader_ofName_def setReaderInfo_def Let_def)

lemma void_handlers [simp]:
  "\<not> mh_void (MsgHandlerInvalid e)" "\<not> mh_void (MsgHandlerUnknownCommand n)" "\<not> mh_void (MsgHandlerBadState c)" "\<not> mh_void (MsgHandlerInfo E)"
  "\<not> mh_void (MsgHandlerReader_ofName E n)" "\<not> mh_void (MsgHandlerReaderList E)" "\<not> mh_void (MsgHandlerApiLevel d)"
  by (simp_all add: MsgHandlerInvalid_def MsgHandlerUnknownCommand_def MsgHandlerBadState_def MsgHandlerInfo_def
      MsgHandlerReaderList_def MsgHandlerApiLevel_def) (simp add: MsgHandlerReader_ofName_def MsgHandler_def)

lemma MsgHandlerReader_answer [simp]: "named (MsgHandlerReader E pObj)" "\<not> mh_void (MsgHandlerReader E pObj)"
  by (auto simp: MsgHandlerReader_def split: option.split json.split)

text \<open>What lets a workflow go on: requests, approval, cancellation and passwords.\<close>

definition controls :: "msg_context \<Rightarrow> string list \<times> (bool \<times> bool \<times> string \<times> string \<times> string) option" where
  "controls d = (md_requests d, map_option (\<lambda>w. (jw_approved w, jw_cancelled w, wc_pin w, wc_can w, wc_puk w)) (md_context d))"

definition api_outcome :: "msg_context \<Rightarrow> msg_handler \<times> msg_context \<Rightarrow> bool" where
  "api_outcome d r = (case r of (h, d') \<Rightarrow> named h \<and>
     (if mh_void h then (md_context d = None \<and> (\<exists>url. md_requests d' = md_requests d @ [url])) \<or>
        (\<exists>w. md_context d' = Some w \<and> (jw_approved w \<or> jw_cancelled w))
      else controls d' = controls d))"

lemma outcome_answer [simp]: "named h \<Longrightarrow> \<not> mh_void h \<Longrightarrow> api_outcome d (h, d)"
  by (simp add: api_outcome_def)

lemma controls_nullUsed [simp]: "controls (nullUsed d) = controls d"
  by (simp add: controls_def nullUsed_def)

lemma outcome_withRights:
  "(\<And>w. md_context d = Some w \<Longrightarrow> api_outcome d (f w)) \<Longrightarrow> api_outcome d (withRights f t d)"
  by (auto simp: withRights_def getAuthContext_def api_outcome_def split: option.split)

lemma outcome_setNumber: "api_outcome d (setNumber E t n setter pObj d)"
  by (auto simp: setNumber_def MsgHandlerEnterNumber_def api_outcome_def split: option.split sum.split)

lemma handleSetChatData_controls:
  "handleSetChatData es w = (err, w') \<Longrightarrow>
   (jw_approved w', jw_cancelled w', wc_pin w', wc_can w', wc_puk w') = (jw_approved w, jw_cancelled w, wc_pin w, wc_can w, wc_puk w)"
  using handleSetChatData_changes [of es w err w'] by auto

lemma outcome_setRights: "api_outcome d (MsgHandlerAccessRights_set E pObj d)"
  unfolding MsgHandlerAccessRights_set_def
proof (rule outcome_withRights)
  fix w assume w: "md_context d = Some w"
  obtain err w' where c: "(case map_of pObj ''chat'' of None \<Rightarrow> (Some '''chat' cannot be undefined'', w)
      | Some (JArray es) \<Rightarrow> handleSetChatData es w | _ \<Rightarrow> (Some ''Invalid 'chat' data'', w)) = (err, w')"
    by (metis surjective_pairing)
  have "(jw_approved w', jw_cancelled w', wc_pin w', wc_can w', wc_puk w') = (jw_approved w, jw_cancelled w, wc_pin w, wc_can w, wc_puk w)"
    using c handleSetChatData_controls by (fastforce split: option.splits json.splits)
  then show "api_outcome d (let (err, w) = (case map_of pObj ''chat'' of None \<Rightarrow> (Some '''chat' cannot be undefined'', w)
      | Some (JArray es) \<Rightarrow> handleSetChatData es w | _ \<Rightarrow> (Some ''Invalid 'chat' data'', w));
      h = (case err of None \<Rightarrow> MsgHandler MT_ACCESS_RIGHTS | Some e \<Rightarrow> setMsgError e (MsgHandler MT_ACCESS_RIGHTS))
      in (fillAccessRights E w h, d\<lparr>md_context := Some w\<rparr>))"
    unfolding c Let_def using w by (simp add: api_outcome_def controls_def split: option.split)
qed

lemma outcome_rest:
  "api_outcome d (MsgHandlerAccessRights E d)" "api_outcome d (MsgHandlerCertificate d)" "api_outcome d (MsgHandlerApiLevel_set pObj d)"
  "api_outcome d (cancelCommand d)" "md_context d = None \<Longrightarrow> api_outcome d (MsgHandlerAuth_run E pObj d)"
  by (auto simp: MsgHandlerAccessRights_def MsgHandlerCertificate_def Let_def intro!: outcome_withRights)
    (auto simp: MsgHandlerApiLevel_set_def cancelCommand_def MsgHandlerAuth_run_def api_outcome_def controls_def split: option.split json.split)

lemma outcome_handleCurrentState: "api_outcome d (f d) \<Longrightarrow> api_outcome d (handleCurrentState c t f d)"
  by (simp add: handleCurrentState_def)

lemma outcome_accept: "(md_context d = None \<longrightarrow> md_stateMessages d = []) \<Longrightarrow> api_outcome d (acceptCommand d)"
  by (auto simp: acceptCommand_def approveState_def api_outcome_def getLastStateMsg_def split: option.split)

lemma outcome_command:
  assumes "md_context d = None \<longrightarrow> md_stateMessages d = []"
  shows "api_outcome d (createForCommand E pObj d)"
  unfolding createForCommand_def Let_def
  by (auto split: MsgCmdType.split simp: isActiveWorkflow_def MsgHandlerEnterPin_def MsgHandlerEnterCan_def MsgHandlerEnterPuk_def
      intro!: outcome_handleCurrentState outcome_setNumber outcome_setRights outcome_rest outcome_accept [OF assms])

text \<open>Messages of states are only kept while a workflow is known.\<close>

definition api_inv :: "json_api \<Rightarrow> bool" where
  "api_inv a \<longleftrightarrow> (md_context (ja_dispatcher a) = None \<longrightarrow> md_stateMessages (ja_dispatcher a) = [])"

lemma createForCommand_messages: "createForCommand E pObj d = (h, d') \<Longrightarrow> md_stateMessages d' = md_stateMessages d \<and> (md_context d' = None \<longleftrightarrow> md_context d = None)"
  unfolding createForCommand_def Let_def handleCurrentState_def MsgHandlerEnterPin_def MsgHandlerEnterCan_def MsgHandlerEnterPuk_def
  by (cases "MsgCmdType_fromString (case map_of pObj ''cmd'' of Some (JString s) \<Rightarrow> s | _ \<Rightarrow> [])")
    (auto simp: setNumber_def MsgHandlerEnterNumber_def cancelCommand_def acceptCommand_def approveState_def nullUsed_def
      MsgHandlerAccessRights_set_def MsgHandlerAccessRights_def MsgHandlerCertificate_def withRights_def MsgHandlerAuth_run_def
      MsgHandlerApiLevel_set_def getAuthContext_def Let_def split: if_splits option.splits sum.splits json.splits prod.splits)

lemma createForStateChange_context:
  "createForStateChange E t d = (h, d') \<Longrightarrow> md_context d = Some w \<Longrightarrow> \<exists>w'. md_context d' = Some w'"
  by (cases t) (auto simp: createForStateChange_def MsgHandlerEnterNumber_def MsgHandlerAccessRights_def withRights_def
      getAuthContext_def MsgHandlerInsertCard_def approveState_def split: option.splits if_splits)

lemma api_step_inv: "api_inv a \<Longrightarrow> api_inv (api_step E a e)"
proof (cases e)
  case (MessageArrives m)
  assume "api_inv a"
  then show ?thesis
    using createForCommand_messages [of E _ "ja_dispatcher a"] MessageArrives
    by (auto simp: api_inv_def callFireMessage_def processCommand_def Let_def split: sum.split prod.split)
next
  case (StateChanges s)
  assume "api_inv a"
  then show ?thesis
    using StateChanges
    by (auto simp: api_inv_def callFireMessage_def processStateChange_def addStateMsg_def Let_def
        dest: createForStateChange_context split: option.split prod.split)
qed (auto simp: api_inv_def callFireMessage_def initDispatcher_def finishDispatcher_def clearContext_def Let_def)

interpretation api: machine "api_step E" api_inv for E
  by unfold_locales (rule api_step_inv)

text \<open>
  C15. No command is left without an effect and none has two: whatever happened before and whatever text arrives,
  the command is either answered, by a message with one of the documented names that repeats the request of
  the command, and then the workflow does not go on; or it is not answered, and then it has asked for an
  authentication while none was known, or has approved or cancelled the workflow.
\<close>

theorem every_command_is_answered:
  "let d = ja_dispatcher (run (api_step E) UIPlugInJsonApi evs); (answer, d') = processCommand E text d
   in case answer of
        Some m \<Rightarrow>
          (\<exists>t. map_of m ''msg'' = Some (JString (MsgType_name t))) \<and>
          map_of m ''request'' = (case ap_parse E text of Inr (JObject ob) \<Rightarrow> map_of ob ''request'' | _ \<Rightarrow> None) \<and>
          md_requests d' = md_requests d \<and>
          map_option (\<lambda>w. (jw_approved w, jw_cancelled w, wc_pin w, wc_can w, wc_puk w)) (md_context d') =
            map_option (\<lambda>w. (jw_approved w, jw_cancelled w, wc_pin w, wc_can w, wc_puk w)) (md_context d)
      | None \<Rightarrow>
          (md_context d = None \<and> (\<exists>url. md_requests d' = md_requests d @ [url])) \<or>
          (\<exists>w. md_context d' = Some w \<and> (jw_approved w \<or> jw_cancelled w))"
proof -
  let ?d = "ja_dispatcher (run (api_step E) UIPlugInJsonApi evs)"
  have "api_inv UIPlugInJsonApi" by (simp add: api_inv_def UIPlugInJsonApi_def MsgContext_def)
  then have inv: "md_context ?d = None \<longrightarrow> md_stateMessages ?d = []"
    using api.run_inv [of UIPlugInJsonApi E evs] by (simp add: api_inv_def)
  show ?thesis
  proof (cases "ap_parse E text")
    case (Inl e)
    then show ?thesis
      using named_handlers(1) [of e] by (simp add: processCommand_def getOutput_def named_def MsgHandlerInvalid_def)
  next
    case (Inr j)
    let ?ob = "case j of JObject ob \<Rightarrow> ob | _ \<Rightarrow> []"
    obtain h d' where c: "createForCommand E ?ob ?d = (h, d')" by (rule prod.exhaust)
    have o: "api_outcome ?d (h, d')" using outcome_command [OF inv, of E ?ob] unfolding c .
    have p: "processCommand E text ?d = (getOutput (setRequest ?ob h), d')"
      by (simp add: processCommand_def Inr Let_def c)
    have r: "map_of ?ob ''request'' = (case j of JObject ob \<Rightarrow> map_of ob ''request'' | _ \<Rightarrow> None)"
      by (simp split: json.split)
    show ?thesis
      using o unfolding p Let_def Inr by (auto simp: api_outcome_def controls_def named_def getOutput_def setRequest_def r split: option.split)
  qed
qed

section \<open>The rights that are offered\<close>

lemma technicalName_roundtrip: "r \<in> fst ` set AccessRightNames \<Longrightarrow> fromTechnicalName (toTechnicalName r) = Some r"
  by (auto simp: AccessRightNames_def fromTechnicalName_def toTechnicalName_def cString_def)

lemma toTechnicalName_Nil: "toTechnicalName r \<noteq> [] \<longleftrightarrow> r \<in> fst ` set AccessRightNames"
  by (cases r) (simp_all add: AccessRightNames_def toTechnicalName_def)

lemma allRights_complete: "r \<in> set allRights"
  by (cases r) (simp_all add: allRights_def)

lemma allRights_order: "sorted_wrt (\<lambda>r r'. rightValue r > rightValue r') allRights"
  by (simp add: allRights_def)

lemma chatEntries_names:
  "set rs \<subseteq> optional \<Longrightarrow> set rs \<subseteq> fst ` set AccessRightNames \<Longrightarrow>
   chatEntries optional (map (JString \<circ> toTechnicalName) rs) acc None = (acc @ rs, None)"
proof (induction rs arbitrary: acc)
  case (Cons r rs)
  then show ?case using technicalName_roundtrip [of r] by simp
qed simp

lemma rightNames_named:
  assumes "S \<subseteq> fst ` set AccessRightNames"
  shows "rightNames S = JArray (map (JString \<circ> toTechnicalName) (filter (\<lambda>r. r \<in> S) allRights))"
proof -
  have "filter (\<lambda>n. n \<noteq> []) (map toTechnicalName (filter (\<lambda>r. r \<in> S) allRights)) = map toTechnicalName (filter (\<lambda>r. r \<in> S) allRights)"
    using assms toTechnicalName_Nil by (intro filter_True) auto
  then show ?thesis by (simp add: rightNames_def)
qed

lemma foldl_addEffective:
  "ax_effective (foldl (\<lambda>x r. snd (addEffectiveAccessRight r x)) x rs) = ax_effective x \<union> (set rs \<inter> ax_optional x)"
proof (induction rs arbitrary: x)
  case (Cons r rs)
  have "ax_effective (snd (addEffectiveAccessRight r x)) = ax_effective x \<union> ({r} \<inter> ax_optional x)"
    "ax_optional (snd (addEffectiveAccessRight r x)) = ax_optional x"
    by (auto simp: addEffectiveAccessRight_def)
  then show ?case using Cons.IH [of "snd (addEffectiveAccessRight r x)"] by auto
qed simp

lemma setEffective_chosen:
  "ax_effective (snd (setEffectiveAccessRights rs x)) = ax_required x \<union> (set rs \<inter> ax_optional x)"
  by (simp add: setEffectiveAccessRights_def Let_def foldl_addEffective)

lemma map_of_fill: "map_of (mh_json (fillAccessRights E w h)) ''error'' = map_of (mh_json h) ''error''"
  "map_of (mh_json (fillAccessRights E w h)) ''chat'' = Some (JObject
     [(''effective'', rightNames (ax_effective (jw_rights w))), (''optional'', rightNames (ax_optional (jw_rights w))),
      (''required'', rightNames (ax_required (jw_rights w)))])"
  by (simp_all add: fillAccessRights_def Let_def setMsgValue_def) (simp_all add: jput_def)

text \<open>
  C16. What is offered can be chosen: any of the rights that a message shows as optional, sent back in the list in
  which such a message would show them, are accepted without an error; then the effective rights are the
  required ones and exactly those chosen, and the answer shows them.
\<close>

theorem offered_rights_can_be_chosen:
  assumes "getLastStateMsg d = MT_ACCESS_RIGHTS" "md_context d = Some w" "jw_isAuth w" "jw_eac1 w \<noteq> None"
    and "chosen \<subseteq> ax_optional (jw_rights w)" "ax_optional (jw_rights w) \<noteq> {}" "chosen \<subseteq> fst ` set AccessRightNames"
    and "map_of pObj ''cmd'' = Some (JString ''SET_ACCESS_RIGHTS'')" "map_of pObj ''chat'' = Some (rightNames chosen)"
  shows "\<exists>w'. md_context (snd (createForCommand E pObj d)) = Some w' \<and>
    ax_effective (jw_rights w') = ax_required (jw_rights w) \<union> chosen \<and>
    map_of (mh_json (fst (createForCommand E pObj d))) ''error'' = None \<and>
    map_of (mh_json (fst (createForCommand E pObj d))) ''chat'' = Some (JObject
      [(''effective'', rightNames (ax_required (jw_rights w) \<union> chosen)), (''optional'', rightNames (ax_optional (jw_rights w))),
       (''required'', rightNames (ax_required (jw_rights w)))])"
proof -
  let ?rs = "filter (\<lambda>r. r \<in> chosen) allRights"
  let ?w = "w\<lparr>jw_rights := snd (setEffectiveAccessRights ?rs (jw_rights w))\<rparr>"
  have rs: "set ?rs = chosen" using allRights_complete by auto
  then have e: "ax_effective (jw_rights ?w) = ax_required (jw_rights w) \<union> chosen"
    using assms(5) by (simp add: setEffective_chosen Int_absorb2)
  have o: "ax_optional (jw_rights ?w) = ax_optional (jw_rights w)" "ax_required (jw_rights ?w) = ax_required (jw_rights w)"
    by (simp_all add: setEffectiveAccessRights_def Let_def)
  have c: "handleSetChatData (map (JString \<circ> toTechnicalName) ?rs) w = (None, ?w)"
    using chatEntries_names [of ?rs "ax_optional (jw_rights w)" "[]"] assms(5-7) unfolding handleSetChatData_def Let_def rs by simp
  have "MsgCmdType_fromString ''SET_ACCESS_RIGHTS'' = MC_SET_ACCESS_RIGHTS" by code_simp
  then have "createForCommand E pObj d = (fillAccessRights E ?w (MsgHandler MT_ACCESS_RIGHTS), d\<lparr>md_context := Some ?w\<rparr>)"
    using assms(1-4,8,9) c
    by (auto simp: createForCommand_def Let_def handleCurrentState_def MsgHandlerAccessRights_set_def withRights_def getAuthContext_def
        rightNames_named [OF assms(7)])
  then show ?thesis using e o by (simp add: map_of_fill)
qed

definition sample_workflow :: "AccessRight set \<Rightarrow> AccessRight set \<Rightarrow> api_workflow" where
  "sample_workflow required optional = workflow_context.extend ((WorkflowContext False)\<lparr>wc_readerName := ''R''\<rparr>)
     \<lparr>jw_isAuth = True, jw_approved = False, jw_cancelled = False,
      jw_rights = noRights\<lparr>ax_required := required, ax_optional := optional, ax_effective := required \<union> optional\<rparr>,
      jw_eac1 = Some \<lparr>e1_cvCertificates = [], e1_descriptionAsBinary = None, e1_description = None, e1_requiredChat = None,
        e1_optionalChat = None, e1_auxiliaryDataAsBinary = [], e1_auxiliaryData = None, e1_transactionInfo = []\<rparr>,
      jw_certificate = \<lparr>ct_subjectName = [], ct_subjectUrl = [], ct_issuerName = [], ct_issuerUrl = [], ct_termsOfUsage = [],
        ct_purpose = [], ct_effectiveDate = [], ct_expirationDate = []\<rparr>,
      jw_refreshUrl = [], jw_communicationErrorAddress = None\<rparr>"

definition sample_api_reader :: api_reader where
  "sample_api_reader = \<lparr>ar_name = ''R'', ar_connected = True, ar_basicReader = True, ar_card = CardInfo CT_EID_CARD None\<rparr>"

text \<open>A program that understands four texts.\<close>

definition sample_api_env :: api_env where
  "sample_api_env = \<lparr>ap_readerInfo = (\<lambda>n. sample_api_reader), ap_readerInfos = [sample_api_reader], ap_versionInfo = [],
     ap_parse = (\<lambda>t.
       if t = ''auth'' then Inr (JObject [(''cmd'', JString ''RUN_AUTH''), (''tcTokenURL'', JString ''https://a'')])
       else if t = ''pin'' then Inr (JObject [(''cmd'', JString ''SET_PIN''), (''value'', JString ''123456'')])
       else if t = ''line'' then Inr (JObject [(''cmd'', JString ''SET_PIN''), (''value'', JString (''123456'' @ [CHR 0x0A]))])
       else Inl ''error''),
     ap_urlHost = (\<lambda>t. Some ''a''), ap_percentEncoding = (\<lambda>t. t), ap_isoDate = (\<lambda>t. []), ap_ageText = (\<lambda>t. []), ap_today = None,
     ap_communityId = (\<lambda>t. []), ap_result = (\<lambda>t. [])\<rparr>"

definition sample_dispatcher :: "MsgType \<Rightarrow> AccessRight set \<Rightarrow> AccessRight set \<Rightarrow> msg_context" where
  "sample_dispatcher t required optional =
    MsgContext\<lparr>md_stateMessages := [t], md_context := Some (sample_workflow required optional)\<rparr>"

lemmas sample_api_defs = sample_dispatcher_def sample_workflow_def MsgContext_def getLastStateMsg_def workflow_context.extend_def
  WorkflowContext_def noRights_def

theorem api_command_is_guarded_witness:
  "\<exists>n. getLastStateMsg (sample_dispatcher MT_ENTER_PIN {} {}) = MT_ENTER_PIN \<and>
     accepted sample_api_env (sample_workflow {} {}) 6 n \<and>
     md_context (snd (createForCommand sample_api_env [(''cmd'', JString ''SET_PIN''), (''value'', JString ''123456'')]
       (sample_dispatcher MT_ENTER_PIN {} {}))) = Some ((sample_workflow {} {})\<lparr>wc_pin := n, jw_approved := True\<rparr>)"
proof -
  let ?ob = "[(''cmd'', JString ''SET_PIN''), (''value'', JString ''123456'')]"
  let ?d = "sample_dispatcher MT_ENTER_PIN {} {}"
  have p: "MsgCmdType_fromString ''SET_PIN'' = MC_SET_PIN" "matchesDigits 6 ''123456''" by code_simp+
  have c: "md_context (snd (createForCommand sample_api_env ?ob ?d)) = Some ((sample_workflow {} {})\<lparr>wc_pin := ''123456'', jw_approved := True\<rparr>)"
    by (simp add: createForCommand_def p handleCurrentState_def MsgHandlerEnterPin_def setNumber_def MsgHandlerEnterNumber_def parseValue_def
        sample_api_env_def sample_api_reader_def sample_api_defs Let_def)
  have "md_context (snd (createForCommand sample_api_env ?ob ?d)) \<noteq> md_context ?d"
    unfolding c by (simp add: sample_api_defs)
  from api_command_is_guarded [OF prod.collapse [symmetric] this] show ?thesis
    unfolding c by (auto simp: sample_api_defs)
qed

theorem offered_rights_can_be_chosen_witness:
  "\<exists>w'. md_context (snd (createForCommand sample_api_env
        [(''cmd'', JString ''SET_ACCESS_RIGHTS''), (''chat'', JArray [JString ''GivenNames''])]
        (sample_dispatcher MT_ACCESS_RIGHTS {READ_DG05} {READ_DG04, READ_DG17}))) = Some w' \<and>
     ax_effective (jw_rights w') = {READ_DG05, READ_DG04}"
proof -
  let ?w = "sample_workflow {READ_DG05} {READ_DG04, READ_DG17}"
  have n: "rightNames {READ_DG04} = JArray [JString ''GivenNames'']"
    by (simp add: rightNames_def allRights_def toTechnicalName_def AccessRightNames_def)
  have "ax_required (jw_rights ?w) \<union> {READ_DG04} = {READ_DG05, READ_DG04}" by (auto simp: sample_api_defs)
  then show ?thesis
    using offered_rights_can_be_chosen [of "sample_dispatcher MT_ACCESS_RIGHTS {READ_DG05} {READ_DG04, READ_DG17}" ?w "{READ_DG04}"
        "[(''cmd'', JString ''SET_ACCESS_RIGHTS''), (''chat'', JArray [JString ''GivenNames''])]" sample_api_env]
    by (auto simp: n sample_api_defs AccessRightNames_def)
qed

section \<open>Where the code departs from what is documented\<close>

text \<open>A PIN with a line break at its end is taken for six digits.\<close>

theorem pin_with_line_break_is_set:
  "md_context (snd (processCommand sample_api_env ''line'' (sample_dispatcher MT_ENTER_PIN {} {}))) =
     Some ((sample_workflow {} {})\<lparr>wc_pin := ''123456'' @ [CHR 0x0A], jw_approved := True\<rparr>)"
proof -
  have p: "MsgCmdType_fromString ''SET_PIN'' = MC_SET_PIN" "matchesDigits 6 (''123456'' @ [CHR 0x0A])" by code_simp+
  show ?thesis
    using p by (simp add: processCommand_def createForCommand_def handleCurrentState_def MsgHandlerEnterPin_def setNumber_def
        MsgHandlerEnterNumber_def parseValue_def sample_api_env_def sample_api_reader_def sample_api_defs Let_def)
qed

text \<open>A right without a technical name is displayed to users and may be required, but is not shown here.\<close>

theorem right_is_not_shown:
  "INSTALL_CERT \<in> set allDisplayedOrderedRights \<and>
   map_of (mh_json (fst (MsgHandlerAccessRights E (sample_dispatcher MT_ACCESS_RIGHTS {INSTALL_CERT} {})))) ''chat'' =
     Some (JObject [(''effective'', JArray []), (''optional'', JArray []), (''required'', JArray [])])"
proof -
  have "rightNames {INSTALL_CERT} = JArray []" "rightNames {} = JArray []"
    by (simp_all add: rightNames_def allRights_def toTechnicalName_def AccessRightNames_def)
  then show ?thesis
    by (simp add: MsgHandlerAccessRights_def withRights_def getAuthContext_def map_of_fill allDisplayedOrderedRights_def sample_api_defs)
qed

text \<open>The answer to a new level does not list the levels that there are.\<close>

theorem levels_are_not_listed:
  "map_of (mh_json (fst (MsgHandlerApiLevel_set pObj d))) ''available'' = None"
  by (auto simp: MsgHandlerApiLevel_set_def Let_def MsgHandler_def setMsgError_def setJson_def split: option.split json.split)

text \<open>Two requests in a row, before the first has started, are both taken; none is answered.\<close>

theorem second_request_is_silent:
  "let a = run (api_step sample_api_env) UIPlugInJsonApi [SetEnabled True, MessageArrives ''auth'', MessageArrives ''auth'']
   in length (md_requests (ja_dispatcher a)) = 2 \<and> ja_fired a = []"
proof -
  have p: "MsgCmdType_fromString ''RUN_AUTH'' = MC_RUN_AUTH" by code_simp
  show ?thesis
    by (simp add: run_def UIPlugInJsonApi_def callFireMessage_def processCommand_def createForCommand_def isActiveWorkflow_def
        MsgHandlerAuth_run_def createAuthUrl_def sample_api_env_def MsgContext_def p getOutput_def setRequest_def Let_def)
qed

end
