(* ===== verification/Spec2Isabelle.thy ===== *)
theory Spec2Isabelle
  imports Prelude Apdu CardCodes Asn1 Commands PinPad Protocols SecureMessaging Chat CvcChains
    CardConnection Pace Eac2 PaceWorkflow WorkflowSafety Bluetooth ECardApi NetworkChecks AuthData
    RefreshAddress CvcStates AuthWorkflow AuthSafety AuthProgress RemoteMessages RemoteServer
    RemoteReaders RemoteDevices RemoteService PaosMessages PaosCreators Pcsc WebActivation
    AppControl JsonApi
begin

text \<open>
  A model of AusweisApp2, the client of the German identity card: the card layer
  (src/src/card/base, card/bluetooth and card/pcsc) and the workflows that use it (src/src/core), with the
  checks of network and certificates. This theory holds no definitions; it imports the
  development.

  The program. A \<open>Card\<close> belongs to a \<open>Reader\<close>; a \<open>CardConnectionWorker\<close> transmits
  command APDUs to it, reads files, keeps the secure messaging of a PACE channel and the card
  information. Card commands (src/src/card/base/command) work through it in the thread of the
  readers. PACE is run by \<open>PaceHandler\<close> over \<open>KeyAgreement\<close> with the curves of
  \<open>pace/ec\<close>; a reader with a PIN pad, also a smartphone used as reader, runs PACE itself and is
  spoken to in the encodings of PC/SC and CCID. Extended access control sends a chain of
  certificates, authenticates the terminal and then the chip. A workflow is a state machine of Qt
  (src/src/core/controller) whose states (src/src/core/states) share a context
  (src/src/core/context): a state runs when the user interface approves it, starts a card command
  or a request, and emits a signal that leads to the next state. An authentication fetches a TC
  token from the service, exchanges PAOS messages with the eID server, checks its certificates,
  runs PACE and EAC with the card and sends the browser back to the service. A device can offer its
  card reader to another one (src/src/remote_device): the client finds it by its broadcasts, pairs
  with it, and speaks to its readers in JSON messages over a web socket; the device answers them from
  its own readers, and runs PACE and the change of the PIN in a workflow of its own, so that the
  passwords are entered there.

  The theories, in the order of their dependence:
    \<^item> Prelude: byte lists, big and little endian numbers, \<open>QByteArray::mid\<close> and \<open>right\<close>; the locale
      \<open>enum_type\<close> (an enumeration with values, as the macros of EnumHelper.h make them) and the
      locale \<open>machine\<close> (a step function with an invariant, run over a list of events).
    \<^item> Apdu: CommandApdu.cpp, ResponseApdu.cpp, status words.
    \<^item> CardCodes: CardReturnCode.cpp and the return code of a response.
    \<^item> Asn1: \<open>Asn1Util::encode\<close>; the encoder and decoder of OpenSSL are a record \<open>asn1_lib\<close> with
      the laws \<open>der_laws\<close>, which the executable instance \<open>der_lib\<close> satisfies.
    \<^item> Commands: the builders of Commands.cpp, FileRef.cpp.
    \<^item> PinPad: PinModify.cpp, PinModifyOutput.cpp, EstablishPaceChannel.cpp, its output and parser.
    \<^item> Protocols: KnownOIDs.cpp, PaceInfo.cpp, SecurityInfos.cpp, EllipticCurveFactory.cpp,
      KeyDerivationFunction.cpp, SymmetricCipher.cpp, CipherMac.cpp; hash, AES and CMAC are a
      record \<open>crypto_lib\<close>.
    \<^item> SecureMessaging: pace/SecureMessaging.cpp and SecureMessagingResponse.cpp, and the card's side
      as its specification.
    \<^item> Chat: Chat.cpp and AccessRoleAndRight.cpp.
    \<^item> CvcChains: ChainBuilder.h, CVCertificateChain.cpp, CVCertificateChainBuilder.cpp,
      SignatureChecker.cpp over decoded certificates.
    \<^item> CardConnection: CardConnectionWorker.cpp, Reader.cpp, CardInfo.cpp, TransmitCommand.cpp,
      DidAuthenticateEAC1Command.cpp. The driver of the card is a record \<open>card_env\<close> of functions
      over the state of the card.
    \<^item> Pace: PaceHandler.cpp, KeyAgreement.cpp, EcdhKeyAgreement.cpp, EcdhGenericMapping.cpp,
      GeneralAuthenticateResponse.cpp, UnblockPinCommand.cpp over an abstract curve \<open>ec_lib\<close>.
    \<^item> Eac2: DidAuthenticateEAC2Command.cpp and EFCardSecurity.cpp.
    \<^item> PaceWorkflow: CompositeStatePace.cpp, CompositeStateSelectCard.cpp, their states and
      ChangePinController.cpp as one machine over events; WorkflowSafety: its invariants.
    \<^item> Bluetooth: the messages of card/bluetooth/messages, SynchronousBtCall.cpp, BluetoothCard.cpp,
      BluetoothReader.cpp, CyberJackWaveDevice.cpp.
    \<^item> ECardApi: ECardApiResult.cpp and the conversion from and to GlobalStatus.
    \<^item> NetworkChecks: UrlUtil.cpp, TlsChecker.cpp, CertificateChecker.cpp, the errors of
      NetworkManager.cpp, TcToken.cpp.
    \<^item> AuthData: the rights of AuthContext.cpp and AuthenticatedAuxiliaryData.cpp.
    \<^item> RefreshAddress: StateGetTcToken.cpp and StateCheckRefreshAddress.cpp over the signals of a
      network reply.
    \<^item> CvcStates: the states that check the certificates of the server.
    \<^item> AuthWorkflow: AuthController.cpp with its states and StateGenericSendReceive.cpp as a machine
      over the events of user, card and server; AuthSafety: for which server the card is
      asked; AuthProgress: errors, messages and the end.
    \<^item> PaosMessages: ElementDetector.cpp, PaosHandler.cpp and the parsers of core/paos/retrieve and
      core/paos/element over the tokens of an XML reader; PaosCreators: core/paos/invoke as calls of an
      XML writer.
    \<^item> RemoteMessages: the messages of remote_device/messages with ReaderInfo.cpp, as trees of JSON.
    \<^item> RemoteServer: ServerMessageHandler.cpp and RemoteDispatcherServer.cpp, a machine over the
      messages of the client, the answers of the cards and the changes of the readers.
    \<^item> RemoteReaders: RemoteDispatcherClient.cpp, RemoteCard.cpp, RemoteReader.cpp and
      RemoteReaderManagerPlugIn.cpp; the composition with RemoteServer.
    \<^item> RemoteDevices: RemoteDeviceDescriptor.cpp, RemoteDeviceList.cpp, RemoteConnectorImpl.cpp,
      RemoteClientImpl.cpp.
    \<^item> RemoteService: RemoteServiceController.cpp with its states and RemoteServiceContext.cpp.
    \<^item> Pcsc: PcscCard.cpp, PcscReader.cpp, PcscReaderFeature.cpp, PcscReaderManagerPlugIn.cpp over the
      library of the operating system, a record \<open>scard\<close> of functions over its state.
    \<^item> WebActivation: HttpRequest.cpp, HttpResponse.cpp, HttpServer.cpp, VersionInfo.cpp and
      src/src/activation: the requests of a browser and how they are answered.
    \<^item> AppControl: AppController.cpp, which starts the workflows one after the other, as a machine over
      the events of the user interface, the activation, the running workflow and the shutdown.
    \<^item> JsonApi: MessageDispatcher.cpp, the handlers of its messages and UIPlugInJsonApi.cpp of
      src/src/ui/jsonapi, over the context of PaceWorkflow and the rights of AuthData.

  State and operations. A class is a record of its members and a method a function on it, which
  gives the new state where the method changes it. A \<open>QByteArray\<close> is a list of 8-bit words; where
  the code asks for \<open>isNull\<close> it is an option. A null \<open>QSharedPointer\<close> is \<open>None\<close>. Enumerations keep
  their values; \<open>quint32\<close> counters are 32-bit words. Logging is left out. Asserts are not checks:
  the code is modelled as built without them.

  What is shown. Encodings: APDUs, ASN.1 objects, the PC/SC and CCID structures and padding are
  read back as they were written. Secure messaging: what one side protects the other side reads,
  nothing is accepted without a valid MAC, counters do not repeat, and transmission through the
  channel acts as the plain transmission. PACE: success means one run of the protocol with the card, in
  whose last answer the card proved the shared secret, and that the channel has its keys. EAC: success means that the card accepted every step
  in order. Chains: soundness of the builder for every parent relation, completeness for one
  parent each, the roles and issuers of the chain that is sent, and that it is found. Workflows: which
  password is sent when, that a refused or cancelled one is not sent again, that cancelled workflows end, but
  where the behaviour of the code is undefined; for which server the card is asked, what the user's
  rights can be, to which URL the browser goes.
  PAOS: what a server writes is read, with every optional element, a request that is
  accepted can be checked by the states that use it, and every loop of the parsers ends within the document.
  Remote readers: messages are read back as written and complete ones have the types they must have;
  no card is reached but through the context and a connection of it; a transmission over the remote
  device acts as the one there; every request is answered once, or handed over once to the card or to the
  workflow of the device; client and device agree on the context, and the client's list of readers is
  what the devices report.
  Drivers: a response that the card gives in parts is joined, the list of readers is that of the system,
  insertions and removals alternate. Activation: every request of a browser is answered once, and no
  file but images is given. Application: one workflow at a time, no caller of an authentication is
  forgotten, and the shutdown ends. Other programs: a command changes a workflow only where it was
  asked for, each one is answered or has its effect, and the rights that are offered can be chosen.
  Further theorems state where the code departs from what it means to do (an expected length that
  is lost, reads outside a buffer, a missed chain, a file that is read for ever, error answers
  taken for success, a refresh URL of a foreign origin).

  Bounds. Reading a file and joining the parts of a response are each a \<open>partial_function\<close> in the
  option monad: \<open>None\<close> is not returning. All
  other functions are total; the chain builder terminates since a chain never repeats an
  element. Commands are shown correct up to 65000 bytes of data, which leaves room for the
  protected form within the 65535 bytes that the length field of an APDU can hold.

  Events. A machine takes one event at a time: approval of a state, an answer of card or network,
  an action of the user. A state that was left ignores late answers, since it drops its
  connections on exit. The Bluetooth reader waits in event loops of its own while it reads a new card; the
  events that these handle are part of the notification of the card.

  Not modelled: timers and threads (a card command is one function of the worker), the user
  interface but the JSON one, drivers of readers but the Bluetooth one, the remote one and PC/SC, sockets and
  the TLS and web socket servers, settings, downloads and the update of resources.
  OpenSSL (curves, hash functions, ASN.1), Qt's network, its JSON text and its XML reader are
  parameters.
\<close>

end
